(* ===== verification/Prelude.thy ===== *)
theory Prelude
  imports Main "HOL-Library.AList"
begin

text \<open>
  Shared vocabulary of the development: the outcome of a Go call (a value, an \<open>error\<close> or a
  run-time panic), Go maps, byte strings, and the lemma collections the component theories use.

  A Go map is an association list with distinct keys. Its list order stands for the order in
  which one \<open>range\<close> statement happens to visit the entries, which Go leaves unspecified: a
  theorem about every association list is a theorem about every iteration order.
\<close>

section \<open>Lemma collections\<close>

named_theorems gomap_simps \<open>rewriting of map reads after map writes\<close>
named_theorems gomap_wf \<open>operations that keep the keys of a map distinct\<close>
named_theorems str_simps \<open>evaluation of the byte-string functions\<close>

section \<open>Outcomes\<close>

text \<open>
  \<open>Ok\<close> is a normal return, \<open>Err\<close> a returned non-nil \<open>error\<close> with its text, \<open>Panic\<close> a run-time
  panic. The daemon never calls \<open>recover\<close>, so a panic ends the process.
\<close>

datatype 'a outcome = Ok 'a | Err string | Panic

fun obind :: "'a outcome \<Rightarrow> ('a \<Rightarrow> 'b outcome) \<Rightarrow> 'b outcome" where
  "obind (Ok x) f = f x"
| "obind (Err e) f = Err e"
| "obind Panic f = Panic"

fun is_ok :: "'a outcome \<Rightarrow> bool" where
  "is_ok (Ok _) = True"
| "is_ok (Err _) = False"
| "is_ok Panic = False"

text \<open>\<open>fmt.Errorf("prefix: %w", err)\<close>: the error text with a prefix.\<close>

fun wrap_err :: "string \<Rightarrow> 'a outcome \<Rightarrow> 'a outcome" where
  "wrap_err p (Err e) = Err (p @ e)"
| "wrap_err p r = r"

lemma obind_Ok_iff [simp]: "obind m f = Ok y \<longleftrightarrow> (\<exists>x. m = Ok x \<and> f x = Ok y)"
  by (cases m) auto

lemma obind_Panic_iff: "obind m f = Panic \<longleftrightarrow> m = Panic \<or> (\<exists>x. m = Ok x \<and> f x = Panic)"
  by (cases m) auto

lemma wrap_err_Ok_iff [simp]: "wrap_err p m = Ok y \<longleftrightarrow> m = Ok y"
  by (cases m) auto

lemma wrap_err_Panic_iff [simp]: "wrap_err p m = Panic \<longleftrightarrow> m = Panic"
  by (cases m) auto

lemma is_ok_iff: "is_ok m \<longleftrightarrow> (\<exists>x. m = Ok x)"
  by (cases m) auto

section \<open>Go maps\<close>

type_synonym ('k, 'v) gomap = "('k \<times> 'v) list"

abbreviation mget :: "('k, 'v) gomap \<Rightarrow> 'k \<Rightarrow> 'v option" where
  "mget m k \<equiv> map_of m k"

abbreviation mput :: "'k \<Rightarrow> 'v \<Rightarrow> ('k, 'v) gomap \<Rightarrow> ('k, 'v) gomap" where
  "mput k v m \<equiv> AList.update k v m"

abbreviation mdel :: "'k \<Rightarrow> ('k, 'v) gomap \<Rightarrow> ('k, 'v) gomap" where
  "mdel k m \<equiv> AList.delete k m"

definition mkeys :: "('k, 'v) gomap \<Rightarrow> 'k list" where
  "mkeys m = map fst m"

definition mwf :: "('k, 'v) gomap \<Rightarrow> bool" where
  "mwf m \<longleftrightarrow> distinct (map fst m)"

text \<open>A \<open>range\<close> loop that rewrites every entry through its pointer.\<close>

definition mmap :: "('v \<Rightarrow> 'w) \<Rightarrow> ('k, 'v) gomap \<Rightarrow> ('k, 'w) gomap" where
  "mmap f m = map (\<lambda>(k, v). (k, f v)) m"

text \<open>A \<open>range\<close> loop that copies every entry of one map into another.\<close>

fun mcopy :: "('k, 'v) gomap \<Rightarrow> ('k, 'v) gomap \<Rightarrow> ('k, 'v) gomap" where
  "mcopy dst [] = dst"
| "mcopy dst ((k, v) # m) = mcopy (mput k v dst) m"

lemma mget_mput [gomap_simps]: "mget (mput k v m) k' = (if k' = k then Some v else mget m k')"
  by (simp add: update_conv')

lemma mget_mdel [gomap_simps]: "mget (mdel k m) k' = (if k' = k then None else mget m k')"
  by (simp add: delete_conv')

lemma mget_mmap [gomap_simps]: "mget (mmap f m) k = map_option f (mget m k)"
  by (simp add: mmap_def map_of_map)

lemma mkeys_mmap [gomap_simps]: "mkeys (mmap f m) = mkeys m"
  by (auto simp: mkeys_def mmap_def)

lemma mwf_Nil [simp]: "mwf []"
  by (simp add: mwf_def)

lemma mwf_mput [gomap_wf]: "mwf m \<Longrightarrow> mwf (mput k v m)"
  by (simp add: mwf_def distinct_update)

lemma mwf_mdel [gomap_wf]: "mwf m \<Longrightarrow> mwf (mdel k m)"
  by (simp add: mwf_def distinct_delete)

lemma mwf_mmap [gomap_wf]: "mwf (mmap f m) \<longleftrightarrow> mwf m"
  using mkeys_mmap [of f m] by (simp add: mwf_def mkeys_def)

lemma mkeys_mput_set [gomap_simps]: "set (mkeys (mput k v m)) = insert k (set (mkeys m))"
  by (simp add: mkeys_def dom_update)

lemma mkeys_mdel_set [gomap_simps]: "set (mkeys (mdel k m)) = set (mkeys m) - {k}"
  by (auto simp: mkeys_def delete_keys)

lemma mget_None_iff: "mget m k = None \<longleftrightarrow> k \<notin> set (mkeys m)"
  by (simp add: mkeys_def map_of_eq_None_iff)

lemma mget_Some_key: "mget m k = Some v \<Longrightarrow> k \<in> set (mkeys m)"
  by (metis mget_None_iff option.distinct(1))

lemma mget_iff_entry: "mwf m \<Longrightarrow> mget m k = Some v \<longleftrightarrow> (k, v) \<in> set m"
  by (auto simp: mwf_def map_of_is_SomeI dest: map_of_SomeD)

lemma mget_mcopy: "mwf m \<Longrightarrow> mget (mcopy dst m) k = (case mget m k of None \<Rightarrow> mget dst k | Some v \<Rightarrow> Some v)"
proof (induction dst m rule: mcopy.induct)
  case (1 dst)
  then show ?case by simp
next
  case (2 dst k' v m)
  then have "mget m k' = None" and "mwf m"
    by (auto simp: mwf_def map_of_eq_None_iff)
  with 2 show ?case
    by (auto simp: gomap_simps split: option.splits)
qed

lemma mcopy_mwf [gomap_wf]: "mwf dst \<Longrightarrow> mwf (mcopy dst m)"
  by (induction dst m rule: mcopy.induct) (auto intro: mwf_mput)

lemma mcopy_Nil: "mwf m \<Longrightarrow> mget (mcopy [] m) = mget m"
  by (rule ext) (simp add: mget_mcopy split: option.splits)

section \<open>The contract of a Go map\<close>

text \<open>
  What the components rely on when they read a map after writing it. The theories that keep
  several maps in step (registry, service registry, state) use the derived facts through the
  interpretation below.
\<close>

locale go_map =
  fixes empty :: "'m"
    and get :: "'m \<Rightarrow> 'k \<Rightarrow> 'v option"
    and put :: "'k \<Rightarrow> 'v \<Rightarrow> 'm \<Rightarrow> 'm"
    and del :: "'k \<Rightarrow> 'm \<Rightarrow> 'm"
    and invar :: "'m \<Rightarrow> bool"
  assumes get_empty: "get empty k = None"
    and get_put: "get (put k v m) k' = (if k' = k then Some v else get m k')"
    and get_del: "get (del k m) k' = (if k' = k then None else get m k')"
    and invar_empty: "invar empty"
    and invar_put: "invar m \<Longrightarrow> invar (put k v m)"
    and invar_del: "invar m \<Longrightarrow> invar (del k m)"
begin

lemma get_put_put: "get (put k v (put k w m)) = get (put k v m)"
  by (rule ext) (simp add: get_put)

lemma get_put_comm: "k \<noteq> l \<Longrightarrow> get (put k v (put l w m)) = get (put l w (put k v m))"
  by (rule ext) (simp add: get_put)

lemma get_del_put: "get (del k (put k v m)) = get (del k m)"
  by (rule ext) (simp add: get_put get_del)

lemma get_foldr_del: "get (foldr del ks m) k = (if k \<in> set ks then None else get m k)"
  by (induction ks) (auto simp: get_del)

lemma invar_foldr_del: "invar m \<Longrightarrow> invar (foldr del ks m)"
  by (induction ks) (auto intro: invar_del)

end

interpretation gm: go_map "[]" map_of AList.update AList.delete mwf
  by unfold_locales (auto simp: gomap_simps gomap_wf)

section \<open>Folding a collector over a list\<close>

text \<open>A \<open>for\<close> loop whose body may return early with an error or panic.\<close>

fun ofold :: "('a \<Rightarrow> 's \<Rightarrow> 's outcome) \<Rightarrow> 'a list \<Rightarrow> 's \<Rightarrow> 's outcome" where
  "ofold f [] s = Ok s"
| "ofold f (x # xs) s = obind (f x s) (ofold f xs)"

lemma ofold_append: "ofold f (xs @ ys) s = obind (ofold f xs s) (ofold f ys)"
proof (induction xs arbitrary: s)
  case Nil
  then show ?case by simp
next
  case (Cons x xs)
  then show ?case by (cases "f x s") auto
qed

lemma ofold_inv:
  assumes "\<And>x s s'. x \<in> set xs \<Longrightarrow> P s \<Longrightarrow> f x s = Ok s' \<Longrightarrow> P s'"
    and "P s" and "ofold f xs s = Ok s'"
  shows "P s'"
  using assms
proof (induction xs arbitrary: s)
  case Nil
  then show ?case by simp
next
  case (Cons x xs)
  from Cons.prems(3) obtain t where t: "f x s = Ok t" and rest: "ofold f xs t = Ok s'"
    by auto
  from Cons.prems(1,2) t have "P t" by (metis list.set_intros(1))
  with Cons.prems(1) rest show ?case
    by (intro Cons.IH) auto
qed

lemma ofold_not_Panic:
  assumes "\<And>x s. x \<in> set xs \<Longrightarrow> f x s \<noteq> Panic"
  shows "ofold f xs s \<noteq> Panic"
  using assms
  by (induction xs arbitrary: s) (auto simp: obind_Panic_iff)

end
