(* ===== verification/Json.thy ===== *)
theory Json
  imports Go_Strings Complex_Main "HOL-Library.List_Lexorder" "HOL-Library.Char_ord" "HOL-Library.Multiset"
begin

text \<open>
  JSON values as \<open>encoding/json\<close> decodes them into \<open>interface{}\<close>, and the part of \<open>Marshal\<close> and
  \<open>Unmarshal\<close> the daemon relies on: sorted object keys on output, and on input the choice of a
  struct field for an object key (exact name first, then the case-folded name).

  A number is the rational value of the \<open>float64\<close> the decoder produced. An object is an
  association list; coming from a Go map its order is the unspecified iteration order.
\<close>

section \<open>Values\<close>

datatype json =
    JNull
  | JBool bool
  | JNum rat
  | JStr string
  | JArr "json list"
  | JObj "(string \<times> json) list"

text \<open>
  \<open>json.Marshal\<close> writes map keys in byte order; decoding the text gives the same tree with
  every object sorted.
\<close>

fun marshal :: "json \<Rightarrow> json" where
  "marshal (JArr vs) = JArr (map marshal vs)"
| "marshal (JObj m) = JObj (sort_key fst (map (\<lambda>(k, v). (k, marshal v)) m))"
| "marshal v = v"

section \<open>Key folding\<close>

text \<open>
  \<open>foldName\<close> of \<open>encoding/json\<close>: ASCII letters to upper case, and the two runes whose case fold
  is an ASCII letter (the long s and the Kelvin sign, here as UTF-8 bytes).
\<close>

fun fold_name :: "string \<Rightarrow> string" where
  "fold_name [] = []"
| "fold_name (c # s) =
     (if byte_of c = 197 \<and> s \<noteq> [] \<and> byte_of (hd s) = 191 then CHR ''S'' # fold_name (tl s)
      else if byte_of c = 226 \<and> length s \<ge> 2 \<and> byte_of (hd s) = 132 \<and> byte_of (hd (tl s)) = 170
      then CHR ''K'' # fold_name (tl (tl s))
      else upper_char c # fold_name s)"

section \<open>Numbers\<close>

text \<open>
  \<open>int64(f)\<close> for a \<open>float64\<close>: truncation towards zero. Go leaves the result unspecified when it
  does not fit; the value used here is the one the amd64 instruction delivers.
\<close>

definition trunc_rat :: "rat \<Rightarrow> int" where
  "trunc_rat q = (if q \<ge> 0 then \<lfloor>q\<rfloor> else \<lceil>q\<rceil>)"

definition trunc64 :: "rat \<Rightarrow> int" where
  "trunc64 q = (let i = trunc_rat q in if in_int64 i then i else - (2 ^ 63))"

lemma trunc64_of_int [simp]: "in_int64 i \<Longrightarrow> trunc64 (of_int i) = i"
  by (simp add: trunc64_def trunc_rat_def)

lemma trunc64_range: "in_int64 (trunc64 q)"
  by (simp add: trunc64_def Let_def in_int64_def)

section \<open>Sorted objects\<close>

lemma sort_key_keys: "set (map fst (sort_key fst (xs :: (string \<times> 'a) list))) = set (map fst xs)"
  by simp

lemma map_of_perm:
  assumes "distinct (map fst xs)" and "mset xs = mset ys"
  shows "map_of xs = map_of ys"
proof -
  from assms have "distinct (map fst ys)"
    by (metis mset_eq_imp_distinct_iff mset_map)
  moreover have "set xs = set ys" using assms(2) by (rule mset_eq_setD)
  ultimately show ?thesis
    using assms(1) by (metis map_of_inject_set)
qed

lemma map_of_sort_key: "distinct (map fst xs) \<Longrightarrow> map_of (sort_key fst xs) = map_of xs"
proof (rule map_of_perm)
  assume "distinct (map fst xs)"
  then show "distinct (map fst (sort_key fst xs))"
    by (metis mset_eq_imp_distinct_iff mset_map mset_sort)
qed simp

end
