(* ===== verification/Go_Regexp.thy ===== *)
theory Go_Regexp
  imports Go_Strings
begin

text \<open>
  Whole-string matching of the regular expressions the sources compile (\<open>^...$\<close> patterns over
  ASCII byte classes): their language, an executable matcher by derivatives, and the proof that
  the matcher decides the language.
\<close>

section \<open>Expressions and their language\<close>

datatype rexp =
    RNone
  | REps
  | RClass "(char \<times> char) list"
  | RCat rexp rexp
  | RAlt rexp rexp
  | RStar rexp
  | RUpTo nat rexp

fun in_class :: "(char \<times> char) list \<Rightarrow> char \<Rightarrow> bool" where
  "in_class [] c = False"
| "in_class ((a, b) # rs) c = (byte_of a \<le> byte_of c \<and> byte_of c \<le> byte_of b \<or> in_class rs c)"

definition conc :: "string set \<Rightarrow> string set \<Rightarrow> string set" where
  "conc A B = {u @ v | u v. u \<in> A \<and> v \<in> B}"

inductive_set star :: "string set \<Rightarrow> string set" for A where
  star_Nil: "[] \<in> star A"
| star_step: "u \<in> A \<Longrightarrow> v \<in> star A \<Longrightarrow> u @ v \<in> star A"

fun upto_pow :: "nat \<Rightarrow> string set \<Rightarrow> string set" where
  "upto_pow 0 A = {[]}"
| "upto_pow (Suc n) A = insert [] (conc A (upto_pow n A))"

fun lang :: "rexp \<Rightarrow> string set" where
  "lang RNone = {}"
| "lang REps = {[]}"
| "lang (RClass rs) = {[c] | c. in_class rs c}"
| "lang (RCat r s) = conc (lang r) (lang s)"
| "lang (RAlt r s) = lang r \<union> lang s"
| "lang (RStar r) = star (lang r)"
| "lang (RUpTo n r) = upto_pow n (lang r)"

text \<open>\<open>r?\<close>, \<open>r{n}\<close> and literals are abbreviations of the constructors.\<close>

definition ROpt :: "rexp \<Rightarrow> rexp" where
  "ROpt r = RAlt REps r"

fun RTimes :: "nat \<Rightarrow> rexp \<Rightarrow> rexp" where
  "RTimes 0 r = REps"
| "RTimes (Suc n) r = RCat r (RTimes n r)"

definition RChar :: "char \<Rightarrow> rexp" where
  "RChar c = RClass [(c, c)]"

section \<open>The matcher\<close>

fun nullable :: "rexp \<Rightarrow> bool" where
  "nullable RNone = False"
| "nullable REps = True"
| "nullable (RClass rs) = False"
| "nullable (RCat r s) = (nullable r \<and> nullable s)"
| "nullable (RAlt r s) = (nullable r \<or> nullable s)"
| "nullable (RStar r) = True"
| "nullable (RUpTo n r) = True"

fun rcat :: "rexp \<Rightarrow> rexp \<Rightarrow> rexp" where
  "rcat RNone s = RNone"
| "rcat REps s = s"
| "rcat r s = RCat r s"

fun ralt :: "rexp \<Rightarrow> rexp \<Rightarrow> rexp" where
  "ralt RNone s = s"
| "ralt r RNone = r"
| "ralt r s = RAlt r s"

fun deriv :: "char \<Rightarrow> rexp \<Rightarrow> rexp" where
  "deriv c RNone = RNone"
| "deriv c REps = RNone"
| "deriv c (RClass rs) = (if in_class rs c then REps else RNone)"
| "deriv c (RCat r s) =
     (if nullable r then ralt (rcat (deriv c r) s) (deriv c s) else rcat (deriv c r) s)"
| "deriv c (RAlt r s) = ralt (deriv c r) (deriv c s)"
| "deriv c (RStar r) = rcat (deriv c r) (RStar r)"
| "deriv c (RUpTo 0 r) = RNone"
| "deriv c (RUpTo (Suc n) r) = rcat (deriv c r) (RUpTo n r)"

fun rmatch :: "rexp \<Rightarrow> string \<Rightarrow> bool" where
  "rmatch r [] = nullable r"
| "rmatch r (c # s) = rmatch (deriv c r) s"

section \<open>The matcher decides the language\<close>

lemma conc_iff: "w \<in> conc A B \<longleftrightarrow> (\<exists>u v. w = u @ v \<and> u \<in> A \<and> v \<in> B)"
  by (auto simp: conc_def)

lemma conc_empty [simp]: "conc {} B = {}" "conc {[]} B = B"
  by (auto simp: conc_def)

lemma Nil_conc [simp]: "[] \<in> conc A B \<longleftrightarrow> [] \<in> A \<and> [] \<in> B"
  by (auto simp: conc_def)

lemma lang_rcat [simp]: "lang (rcat r s) = conc (lang r) (lang s)"
  by (cases r) auto

lemma lang_ralt [simp]: "lang (ralt r s) = lang r \<union> lang s"
  by (cases r; cases s) auto

lemma Nil_upto_pow [simp]: "[] \<in> upto_pow n A"
  by (cases n) auto

lemma nullable_iff: "nullable r \<longleftrightarrow> [] \<in> lang r"
  by (induction r) (auto intro: star_Nil)

lemma Cons_conc:
  "c # w \<in> conc A B \<longleftrightarrow> w \<in> conc {u. c # u \<in> A} B \<or> [] \<in> A \<and> c # w \<in> B"
  by (auto simp: conc_iff Cons_eq_append_conv)

lemma Cons_star: "c # w \<in> star A \<longleftrightarrow> w \<in> conc {u. c # u \<in> A} (star A)"
proof
  assume "c # w \<in> star A"
  then show "w \<in> conc {u. c # u \<in> A} (star A)"
  proof (induction "c # w" arbitrary: w rule: star.induct)
    case (star_step u v)
    show ?case
    proof (cases u)
      case Nil
      with star_step show ?thesis by simp
    next
      case (Cons d u')
      with star_step have "w = u' @ v" and "c # u' \<in> A" by auto
      with star_step(2) show ?thesis unfolding conc_iff by blast
    qed
  qed
next
  assume "w \<in> conc {u. c # u \<in> A} (star A)"
  then obtain u v where "w = u @ v" "c # u \<in> A" "v \<in> star A"
    by (auto simp: conc_iff)
  then show "c # w \<in> star A"
    using star_step [of "c # u" A v] by simp
qed

lemma conc_mono: "B \<subseteq> C \<Longrightarrow> conc A B \<subseteq> conc A C"
  unfolding conc_def by blast

lemma upto_pow_mono: "upto_pow n A \<subseteq> upto_pow (Suc n) A"
proof (induction n)
  case 0
  then show ?case by simp
next
  case (Suc n)
  from conc_mono [OF this, of A] show ?case
    by (simp only: upto_pow.simps(2)) blast
qed

lemma Cons_upto_pow:
  "c # w \<in> upto_pow (Suc n) A \<longleftrightarrow> w \<in> conc {u. c # u \<in> A} (upto_pow n A)"
proof (induction n arbitrary: w)
  case 0
  then show ?case by (auto simp: conc_iff Cons_eq_append_conv)
next
  case (Suc n)
  have "c # w \<in> upto_pow (Suc (Suc n)) A \<longleftrightarrow>
      w \<in> conc {u. c # u \<in> A} (upto_pow (Suc n) A) \<or> [] \<in> A \<and> c # w \<in> upto_pow (Suc n) A"
    by (simp only: upto_pow.simps(2) [of "Suc n"] insert_iff Cons_conc) simp
  moreover have "c # w \<in> upto_pow (Suc n) A \<Longrightarrow>
      w \<in> conc {u. c # u \<in> A} (upto_pow (Suc n) A)"
    using Suc.IH [of w] conc_mono [OF upto_pow_mono [of n A], of "{u. c # u \<in> A}"] by blast
  ultimately show ?case by blast
qed

lemma lang_deriv: "w \<in> lang (deriv c r) \<longleftrightarrow> c # w \<in> lang r"
proof (induction c r arbitrary: w rule: deriv.induct)
  case (4 c r s)
  have eq: "lang (deriv c r) = {u. c # u \<in> lang r}"
    using 4 by auto
  with 4 show ?case
    by (auto simp: Cons_conc nullable_iff)
next
  case (6 c r)
  have "lang (deriv c r) = {u. c # u \<in> lang r}"
    using 6 by auto
  then show ?case by (simp add: Cons_star)
next
  case (8 c n r)
  have "lang (deriv c r) = {u. c # u \<in> lang r}"
    using 8 by auto
  then show ?case using Cons_upto_pow [of c w n "lang r"] by simp
qed auto

theorem rmatch_iff: "rmatch r s \<longleftrightarrow> s \<in> lang r"
  by (induction s arbitrary: r) (auto simp: nullable_iff lang_deriv)

section \<open>Languages of the derived forms\<close>

lemma lang_ROpt [simp]: "lang (ROpt r) = insert [] (lang r)"
  by (auto simp: ROpt_def)

lemma lang_RChar [simp]: "lang (RChar c) = {[c]}"
  by (auto simp: RChar_def byte_of_inject [symmetric])

lemma star_class: "star {[c] | c. P c} = {w. list_all P w}"
proof (rule set_eqI)
  fix w
  show "w \<in> star {[c] | c. P c} \<longleftrightarrow> w \<in> {w. list_all P w}"
  proof (induction w)
    case Nil
    then show ?case by (simp add: star_Nil)
  next
    case (Cons c w)
    then show ?case by (auto simp: Cons_star conc_iff)
  qed
qed

lemma conc_class: "conc {[c] | c. P c} B = {c # w | c w. P c \<and> w \<in> B}"
proof (intro set_eqI iffI)
  fix x
  assume "x \<in> {c # w | c w. P c \<and> w \<in> B}"
  then obtain c w where "x = [c] @ w" "P c" "w \<in> B" by auto
  then show "x \<in> conc {[c] | c. P c} B" unfolding conc_iff by blast
qed (auto simp: conc_iff)

lemma upto_pow_class: "upto_pow n {[c] | c. P c} = {w. length w \<le> n \<and> list_all P w}"
proof (induction n)
  case 0
  then show ?case by auto
next
  case (Suc n)
  show ?case
  proof (rule set_eqI)
    fix w
    show "w \<in> upto_pow (Suc n) {[c] | c. P c} \<longleftrightarrow> w \<in> {w. length w \<le> Suc n \<and> list_all P w}"
      using Suc by (cases w) (auto simp: conc_class)
  qed
qed


end
