(* ===== verification/Go_Net.thy ===== *)
theory Go_Net
  imports Go_Strings
begin

text \<open>
  The parsers of Go's \<open>net\<close> and \<open>encoding/base64\<close> packages the sources call: \<open>ParseIP\<close>,
  \<open>ParseCIDR\<close>, \<open>ParseMAC\<close>, \<open>SplitHostPort\<close>, \<open>To4\<close> and \<open>StdEncoding.DecodeString\<close>.
  An address is the 16-byte slice Go keeps, a list of byte values.
\<close>

type_synonym ip = "nat list"

section \<open>Hexadecimal digits\<close>

definition hex_val :: "char \<Rightarrow> nat option" where
  "hex_val c =
     (let b = byte_of c in
      if 48 \<le> b \<and> b \<le> 57 then Some (b - 48)
      else if 97 \<le> b \<and> b \<le> 102 then Some (b - 87)
      else if 65 \<le> b \<and> b \<le> 70 then Some (b - 55)
      else None)"

definition is_hex :: "char \<Rightarrow> bool" where
  "is_hex c \<longleftrightarrow> hex_val c \<noteq> None"

fun hex_num :: "nat \<Rightarrow> string \<Rightarrow> nat" where
  "hex_num acc [] = acc"
| "hex_num acc (c # s) = hex_num (acc * 16 + (case hex_val c of Some d \<Rightarrow> d | None \<Rightarrow> 0)) s"

section \<open>ParseIP\<close>

text \<open>One octet: decimal, at most 255, no superfluous leading zero.\<close>

definition parse_octet :: "string \<Rightarrow> nat option" where
  "parse_octet s =
     (case parse_uint s of
        None \<Rightarrow> None
      | Some n \<Rightarrow> if n > 255 \<or> (length s > 1 \<and> hd s = CHR ''0'') then None else Some n)"

fun parse_octets :: "string list \<Rightarrow> nat list option" where
  "parse_octets [] = Some []"
| "parse_octets (p # ps) =
     (case parse_octet p of
        None \<Rightarrow> None
      | Some n \<Rightarrow> map_option ((#) n) (parse_octets ps))"

definition parseIPv4 :: "string \<Rightarrow> nat list option" where
  "parseIPv4 s =
     (let ps = split_on (CHR ''.'') s
      in if length ps = 4 then parse_octets ps else None)"

text \<open>
  The group loop of \<open>netip.parseIPv6\<close>: \<open>bs\<close> are the bytes parsed so far, \<open>ell\<close> the position of
  the ellipsis, and the fuel counts the groups that may still follow (the source's \<open>i < 16\<close>).
  The result is the bytes, the ellipsis and the unread rest.
\<close>

fun v6_groups :: "nat \<Rightarrow> nat list \<Rightarrow> nat option \<Rightarrow> string \<Rightarrow> (nat list \<times> nat option \<times> string) option" where
  "v6_groups 0 bs ell s = Some (bs, ell, s)"
| "v6_groups (Suc k) bs ell s =
     (let ds = takeWhile is_hex s; r = dropWhile is_hex s in
      if ds = [] \<or> length ds > 4 then None
      else case r of
        [] \<Rightarrow> Some (bs @ [hex_num 0 ds div 256, hex_num 0 ds mod 256], ell, [])
      | c # r1 \<Rightarrow>
          if c = CHR ''.'' then
            (if (ell = None \<and> length bs \<noteq> 12) \<or> length bs + 4 > 16 then None
             else map_option (\<lambda>v4. (bs @ v4, ell, [])) (parseIPv4 s))
          else if c \<noteq> CHR '':'' \<or> r1 = [] then None
          else let bs' = bs @ [hex_num 0 ds div 256, hex_num 0 ds mod 256] in
            if hd r1 = CHR '':'' then
              (if ell \<noteq> None then None
               else if tl r1 = [] then Some (bs', Some (length bs'), [])
               else v6_groups k bs' (Some (length bs')) (tl r1))
            else v6_groups k bs' ell r1)"

definition expand_ellipsis :: "nat list \<Rightarrow> nat option \<Rightarrow> nat list option" where
  "expand_ellipsis bs ell =
     (if length bs < 16 then
        (case ell of
           None \<Rightarrow> None
         | Some e \<Rightarrow> Some (take e bs @ replicate (16 - length bs) 0 @ drop e bs))
      else if ell \<noteq> None then None
      else Some bs)"

definition parseIPv6 :: "string \<Rightarrow> nat list option" where
  "parseIPv6 s =
     (if CHR ''%'' \<in> set s then None
      else if has_prefix s ''::'' then
        (if length s = 2 then Some (replicate 16 0)
         else case v6_groups 8 [] (Some 0) (drop 2 s) of
           None \<Rightarrow> None
         | Some (bs, ell, r) \<Rightarrow> if r \<noteq> [] then None else expand_ellipsis bs ell)
      else case v6_groups 8 [] None s of
        None \<Rightarrow> None
      | Some (bs, ell, r) \<Rightarrow> if r \<noteq> [] then None else expand_ellipsis bs ell)"

text \<open>\<open>netip.ParseAddr\<close> without zones: the bit length of the literal and its 16 bytes.\<close>

definition ParseAddr :: "string \<Rightarrow> (nat \<times> ip) option" where
  "ParseAddr s =
     (case dropWhile (\<lambda>c. c \<noteq> CHR ''.'' \<and> c \<noteq> CHR '':'' \<and> c \<noteq> CHR ''%'') s of
        [] \<Rightarrow> None
      | c # _ \<Rightarrow>
          if c = CHR ''.'' then
            map_option (\<lambda>v4. (32, replicate 10 0 @ [255, 255] @ v4)) (parseIPv4 s)
          else if c = CHR '':'' then map_option (Pair 128) (parseIPv6 s)
          else None)"

definition ParseIP :: "string \<Rightarrow> ip option" where
  "ParseIP s = map_option snd (ParseAddr s)"

definition To4 :: "ip \<Rightarrow> nat list option" where
  "To4 a = (if take 12 a = replicate 10 0 @ [255, 255] then Some (drop 12 a) else None)"

section \<open>ParseCIDR\<close>

text \<open>The network: the masked 16 bytes, the prefix length and the bit length of the literal.\<close>

fun mask_bytes :: "nat \<Rightarrow> nat list \<Rightarrow> nat list" where
  "mask_bytes n [] = []"
| "mask_bytes n (b # bs) =
     (if n \<ge> 8 then b else b div 2 ^ (8 - n) * 2 ^ (8 - n)) # mask_bytes (n - 8) bs"

definition dtoi :: "string \<Rightarrow> nat option" where
  "dtoi s = (case parse_uint s of None \<Rightarrow> None | Some n \<Rightarrow> if n \<ge> 16777215 then None else Some n)"

lemma dtoi_code [code]:
  "dtoi s = (case parse_uint s of None \<Rightarrow> None | Some n \<Rightarrow> if int n \<ge> 16777215 then None else Some n)"
proof -
  have "int n \<ge> 16777215 \<longleftrightarrow> n \<ge> 16777215" for n by linarith
  then show ?thesis by (simp only: dtoi_def)
qed

definition ParseCIDR :: "string \<Rightarrow> (ip \<times> nat \<times> nat) option" where
  "ParseCIDR s =
     (if CHR ''/'' \<notin> set s then None
      else let a = takeWhile (\<lambda>c. c \<noteq> CHR ''/'') s;
               m = drop (Suc (length a)) s in
        case ParseAddr a of
          None \<Rightarrow> None
        | Some (bits, bs) \<Rightarrow>
            (case dtoi m of
               None \<Rightarrow> None
             | Some n \<Rightarrow>
                 if n > bits then None
                 else Some (mask_bytes (n + (128 - bits)) bs, n, bits)))"

section \<open>ParseMAC\<close>

definition xtoi2 :: "string \<Rightarrow> char option \<Rightarrow> nat option" where
  "xtoi2 s e =
     (if length s > 2 \<and> (case e of None \<Rightarrow> True | Some c \<Rightarrow> s ! 2 \<noteq> c) then None
      else if length s < 2 \<or> \<not> list_all is_hex (take 2 s) then None
      else Some (hex_num 0 (take 2 s)))"

fun mac_bytes :: "nat \<Rightarrow> char \<Rightarrow> string \<Rightarrow> nat list option" where
  "mac_bytes 0 e s = Some []"
| "mac_bytes (Suc n) e s =
     (case xtoi2 s (Some e) of
        None \<Rightarrow> None
      | Some b \<Rightarrow> map_option ((#) b) (mac_bytes n e (drop 3 s)))"

fun mac_words :: "nat \<Rightarrow> char \<Rightarrow> string \<Rightarrow> nat list option" where
  "mac_words 0 e s = Some []"
| "mac_words (Suc n) e s =
     (case (xtoi2 (take 2 s) None, xtoi2 (drop 2 s) (Some e)) of
        (Some a, Some b) \<Rightarrow> map_option (\<lambda>bs. a # b # bs) (mac_words n e (drop 5 s))
      | _ \<Rightarrow> None)"

definition ParseMAC :: "string \<Rightarrow> nat list option" where
  "ParseMAC s =
     (if length s < 14 then None
      else if s ! 2 = CHR '':'' \<or> s ! 2 = CHR ''-'' then
        (let n = (length s + 1) div 3 in
         if (length s + 1) mod 3 \<noteq> 0 \<or> (n \<noteq> 6 \<and> n \<noteq> 8 \<and> n \<noteq> 20) then None
         else mac_bytes n (s ! 2) s)
      else if s ! 4 = CHR ''.'' then
        (let n = 2 * (length s + 1) div 5 in
         if (length s + 1) mod 5 \<noteq> 0 \<or> (n \<noteq> 6 \<and> n \<noteq> 8 \<and> n \<noteq> 20) then None
         else mac_words (n div 2) (s ! 4) s)
      else None)"

section \<open>SplitHostPort\<close>

fun index_of :: "char \<Rightarrow> string \<Rightarrow> nat option" where
  "index_of c [] = None"
| "index_of c (x # s) = (if x = c then Some 0 else map_option Suc (index_of c s))"

definition last_index_of :: "char \<Rightarrow> string \<Rightarrow> nat option" where
  "last_index_of c s = map_option (\<lambda>i. length s - 1 - i) (index_of c (rev s))"

definition SplitHostPort :: "string \<Rightarrow> (string \<times> string) option" where
  "SplitHostPort hp =
     (case last_index_of (CHR '':'') hp of
        None \<Rightarrow> None
      | Some i \<Rightarrow>
          if hd hp = CHR ''['' then
            (case index_of (CHR '']'') hp of
               None \<Rightarrow> None
             | Some e \<Rightarrow>
                 if Suc e = length hp \<or> Suc e \<noteq> i then None
                 else if CHR ''['' \<in> set (drop 1 hp) \<or> CHR '']'' \<in> set (drop (Suc e) hp) then None
                 else Some (drop 1 (take e hp), drop (Suc i) hp))
          else if CHR '':'' \<in> set (take i hp) then None
          else if CHR ''['' \<in> set hp \<or> CHR '']'' \<in> set hp then None
          else Some (take i hp, drop (Suc i) hp))"

section \<open>Base64\<close>

definition b64_val :: "char \<Rightarrow> nat option" where
  "b64_val c =
     (let b = byte_of c in
      if 65 \<le> b \<and> b \<le> 90 then Some (b - 65)
      else if 97 \<le> b \<and> b \<le> 122 then Some (b - 71)
      else if 48 \<le> b \<and> b \<le> 57 then Some (b + 4)
      else if c = CHR ''+'' then Some 62
      else if c = CHR ''/'' then Some 63
      else None)"

fun b64_quanta :: "string \<Rightarrow> nat list option" where
  "b64_quanta [] = Some []"
| "b64_quanta (a # b # c # d # s) =
     (case (b64_val a, b64_val b) of
        (Some va, Some vb) \<Rightarrow>
          (if c = CHR ''='' then
             (if d = CHR ''='' \<and> s = [] then Some [va * 4 + vb div 16] else None)
           else case b64_val c of
             None \<Rightarrow> None
           | Some vc \<Rightarrow>
               (if d = CHR ''='' then
                  (if s = [] then Some [va * 4 + vb div 16, vb mod 16 * 16 + vc div 4] else None)
                else case b64_val d of
                  None \<Rightarrow> None
                | Some vd \<Rightarrow>
                    map_option (\<lambda>r. [va * 4 + vb div 16, vb mod 16 * 16 + vc div 4, vc mod 4 * 64 + vd] @ r)
                      (b64_quanta s)))
      | _ \<Rightarrow> None)"
| "b64_quanta s = None"

text \<open>\<open>base64.StdEncoding.DecodeString\<close>, which skips carriage returns and line feeds.\<close>

definition b64_decode :: "string \<Rightarrow> nat list option" where
  "b64_decode s = b64_quanta (filter (\<lambda>c. byte_of c \<noteq> 10 \<and> byte_of c \<noteq> 13) s)"

section \<open>Shape of parsed addresses\<close>

lemma parse_octet_bound: "parse_octet s = Some n \<Longrightarrow> n < 256"
  by (auto simp: parse_octet_def split: option.splits if_splits)

lemma parse_octets_shape:
  "parse_octets ps = Some ns \<Longrightarrow> length ns = length ps \<and> list_all (\<lambda>n. n < 256) ns"
  by (induction ps arbitrary: ns) (auto split: option.splits dest: parse_octet_bound)

lemma parseIPv4_shape: "parseIPv4 s = Some ns \<Longrightarrow> length ns = 4 \<and> list_all (\<lambda>n. n < 256) ns"
  by (auto simp: parseIPv4_def Let_def split: if_splits dest!: parse_octets_shape)

lemma parse_octet_show: "n < 256 \<Longrightarrow> parse_octet (show_nat n) = Some n"
proof -
  assume n: "n < 256"
  have zero: "hd (show_nat m) = CHR ''0'' \<Longrightarrow> m = 0" for m
  proof (induction m rule: show_nat.induct)
    case (1 m)
    show ?case
    proof (cases "m < 10")
      case True
      have "byte_of (char_of (48 + m)) = 48 + m" using True by (simp add: byte_of_char_of)
      moreover have "byte_of (CHR ''0'') = 48" by (simp add: byte_of_def)
      ultimately show ?thesis using 1(2) True by (simp add: show_nat.simps [of m])
    next
      case False
      then have "hd (show_nat m) = hd (show_nat (m div 10))"
        by (subst show_nat.simps) (simp add: hd_append)
      with 1 False show ?thesis by auto
    qed
  qed
  have "length (show_nat 0) = 1" by (simp add: show_nat.simps)
  with zero [of n] have "\<not> (length (show_nat n) > 1 \<and> hd (show_nat n) = CHR ''0'')" by auto
  with n show ?thesis
    by (simp add: parse_octet_def parse_uint_show_nat)
qed

lemma parse_octets_show:
  "list_all (\<lambda>n. n < 256) ns \<Longrightarrow> parse_octets (map show_nat ns) = Some ns"
  by (induction ns) (auto simp: parse_octet_show)

text \<open>\<open>IP.String\<close> of an IPv4 address, and that parsing it gives the address back.\<close>

definition show_v4 :: "nat list \<Rightarrow> string" where
  "show_v4 ns = join_with ''.'' (map show_nat ns)"

lemma dot_not_digit: "CHR ''.'' \<notin> set (show_nat n)"
  using show_nat_digits [of "CHR ''.''" n] by (auto simp: is_digit_def byte_of_def)

lemma parseIPv4_show:
  assumes "length ns = 4" and "list_all (\<lambda>n. n < 256) ns"
  shows "parseIPv4 (show_v4 ns) = Some ns"
proof -
  have "split_on (CHR ''.'') (show_v4 ns) = map show_nat ns"
    unfolding show_v4_def
    by (rule split_join_with) (use assms(1) in \<open>auto simp: list_all_iff dot_not_digit\<close>)
  with assms show ?thesis by (simp add: parseIPv4_def parse_octets_show)
qed

end
