(* ===== verification/Validation.thy ===== *)
theory Validation
  imports Go_Regexp Go_Net "HOL-Library.Word"
begin

unbundle bit_operations_syntax

text \<open>
  The package \<open>src/validation\<close>: the validators of \<open>validation.go\<close> and the error collector of
  \<open>builder.go\<close>. A validator returns a Go \<open>error\<close>, here \<^typ>\<open>string option\<close> with \<^const>\<open>None\<close> for nil.
  Texts the sources write are kept; where they wrap an error of the standard library with
  \<open>%w\<close>, the wording of that inner error is the function \<open>lib_err\<close> of the call and its
  argument, because only its presence matters to callers.
\<close>

type_synonym goerror = "string option"

definition lib_err :: "string \<Rightarrow> string \<Rightarrow> string" where
  "lib_err call arg = call @ '': parsing '' @ arg"

text \<open>\<open>fmt.Errorf("...: %w", err)\<close> when \<open>err\<close> is not nil; nil otherwise.\<close>

definition wrap :: "string \<Rightarrow> goerror \<Rightarrow> goerror" where
  "wrap p e = map_option (\<lambda>m. p @ m) e"

lemma wrap_None_iff [simp]: "wrap p e = None \<longleftrightarrow> e = None"
  by (simp add: wrap_def)

section \<open>Ports\<close>

definition ValidatePort :: "int \<Rightarrow> goerror" where
  "ValidatePort port =
     (if port < 1 \<or> port > 65535
      then Some (''port '' @ show_int port @ '' out of valid range [1, 65535]'')
      else None)"

definition ValidatePortString :: "string \<Rightarrow> goerror" where
  "ValidatePortString portStr =
     (if portStr = '''' then Some ''port string cannot be empty''
      else if contains portStr ''-'' then
        (let parts = split_on (CHR ''-'') portStr in
         if length parts \<noteq> 2 then
           Some (''invalid port range format: '' @ portStr @ '' (expected format: 'start-end')'')
         else
           (case atoi (trim_space (parts ! 0)) of
              None \<Rightarrow> Some (''invalid start port in range '' @ portStr @ '': '' @
                            lib_err ''strconv.Atoi'' (trim_space (parts ! 0)))
            | Some start \<Rightarrow>
                (case atoi (trim_space (parts ! 1)) of
                   None \<Rightarrow> Some (''invalid end port in range '' @ portStr @ '': '' @
                                 lib_err ''strconv.Atoi'' (trim_space (parts ! 1)))
                 | Some end_port \<Rightarrow>
                     (if ValidatePort start \<noteq> None then
                        wrap (''invalid start port in range '' @ portStr @ '': '') (ValidatePort start)
                      else if ValidatePort end_port \<noteq> None then
                        wrap (''invalid end port in range '' @ portStr @ '': '') (ValidatePort end_port)
                      else if start \<ge> end_port then
                        Some (''invalid port range '' @ portStr @
                              '': start port must be less than end port'')
                      else None))))
      else
        (case atoi (trim_space portStr) of
           None \<Rightarrow> Some (''invalid port number '' @ portStr @ '': '' @
                         lib_err ''strconv.Atoi'' (trim_space portStr))
         | Some port \<Rightarrow> ValidatePort port))"

section \<open>Addresses\<close>

definition ValidateIP :: "string \<Rightarrow> goerror" where
  "ValidateIP ip =
     (if ip = '''' then Some ''IP address cannot be empty''
      else if ParseIP ip = None then Some (''invalid IP address: '' @ ip)
      else None)"

definition ValidateCIDR :: "string \<Rightarrow> goerror" where
  "ValidateCIDR cidr =
     (if cidr = '''' then Some ''CIDR cannot be empty''
      else if cidr = ''default'' then None
      else if ParseCIDR cidr = None then
        Some (''invalid CIDR notation '' @ cidr @ '': '' @ lib_err ''net.ParseCIDR'' cidr)
      else None)"

definition ValidatePolicy :: "string \<Rightarrow> goerror" where
  "ValidatePolicy policy =
     (if policy = '''' then Some ''policy cannot be empty''
      else
        (let normalized = to_upper policy in
         if normalized \<noteq> ''ACCEPT'' \<and> normalized \<noteq> ''DROP'' \<and> normalized \<noteq> ''REJECT'' then
           Some (''invalid policy '' @ policy @ '' (must be ACCEPT, DROP, or REJECT)'')
         else None))"

definition ValidateProtocol :: "string \<Rightarrow> string list \<Rightarrow> goerror" where
  "ValidateProtocol proto allowed =
     (if proto = '''' then None
      else if list_ex (\<lambda>validProto. proto = validProto) allowed then None
      else Some (''invalid protocol '' @ proto @ '' (must be one of: '' @
                 join_with '', '' allowed @ '')''))"

section \<open>Domain names\<close>

definition alnum_class :: "(char \<times> char) list" where
  "alnum_class = [(CHR ''a'', CHR ''z''), (CHR ''A'', CHR ''Z''), (CHR ''0'', CHR ''9'')]"

definition alnum_hyphen_class :: "(char \<times> char) list" where
  "alnum_hyphen_class = alnum_class @ [(CHR ''-'', CHR ''-'')]"

definition label_regex :: rexp where
  "label_regex =
     RCat (RClass alnum_class)
       (ROpt (RCat (RUpTo 61 (RClass alnum_hyphen_class)) (RClass alnum_class)))"

definition domainRegex :: rexp where
  "domainRegex =
     RCat (ROpt (RCat (RChar (CHR ''*'')) (RChar (CHR ''.''))))
       (RCat (RStar (RCat label_regex (RChar (CHR ''.'')))) label_regex)"

definition ValidateDomain :: "string \<Rightarrow> goerror" where
  "ValidateDomain domain =
     (if domain = '''' then None
      else if \<not> rmatch domainRegex domain then Some (''invalid domain name: '' @ domain)
      else if length domain > 253 then
        Some (''domain name too long: '' @ domain @ '' (max 253 characters)'')
      else if list_ex (\<lambda>label. length label > 63)
                (split_on (CHR ''.'') (trim_prefix domain ''*.'')) then
        Some (''domain label too long in '' @ domain @ '' (max 63 characters per label)'')
      else None)"

section \<open>Link-layer values\<close>

definition ValidateMAC :: "string \<Rightarrow> goerror" where
  "ValidateMAC mac =
     (if mac = '''' then None
      else if ParseMAC mac = None then
        Some (''invalid MAC address '' @ mac @ '': '' @ lib_err ''net.ParseMAC'' mac)
      else None)"

definition ValidateMTU :: "int \<Rightarrow> goerror" where
  "ValidateMTU mtu =
     (if mtu < 68 \<or> mtu > 65535
      then Some (''MTU '' @ show_int mtu @ '' out of valid range [68, 65535]'') else None)"

definition ValidateVLANID :: "int \<Rightarrow> goerror" where
  "ValidateVLANID vlanID =
     (if vlanID < 1 \<or> vlanID > 4094
      then Some (''VLAN ID '' @ show_int vlanID @ '' out of valid range [1, 4094]'') else None)"

section \<open>WireGuard keys and endpoints\<close>

definition ValidateWireGuardKey :: "string \<Rightarrow> goerror" where
  "ValidateWireGuardKey key =
     (if key = '''' then Some ''WireGuard key cannot be empty''
      else
        (case b64_decode key of
           None \<Rightarrow> Some (''invalid WireGuard key (not valid base64): '' @ lib_err ''base64'' key)
         | Some decoded \<Rightarrow>
             (if length decoded \<noteq> 32 then
                Some (''invalid WireGuard key length: expected 32 bytes, got '' @
                      show_nat (length decoded))
              else None)))"

definition ValidateEndpoint :: "string \<Rightarrow> goerror" where
  "ValidateEndpoint endpoint =
     (if endpoint = '''' then None
      else
        (case SplitHostPort endpoint of
           None \<Rightarrow> Some (''invalid endpoint format '' @ endpoint @ '' (expected 'host:port'): '' @
                         lib_err ''net.SplitHostPort'' endpoint)
         | Some (host, portStr) \<Rightarrow>
             (if ParseIP host = None \<and> ValidateDomain host \<noteq> None then
                wrap (''invalid endpoint host '' @ endpoint @ '': '') (ValidateDomain host)
              else
                (case atoi portStr of
                   None \<Rightarrow> Some (''invalid endpoint port in '' @ endpoint @ '': '' @
                                 lib_err ''strconv.Atoi'' portStr)
                 | Some port \<Rightarrow>
                     wrap (''invalid endpoint port in '' @ endpoint @ '': '') (ValidatePort port)))))"

section \<open>Netmasks and routing numbers\<close>

text \<open>
  The mask as the source computes it: a \<open>uint32\<close> assembled by shifts, its complement, and the
  power-of-two test on the complement plus one, with the wrap-around of \<open>uint32\<close>.
\<close>

definition mask_word :: "nat list \<Rightarrow> 32 word" where
  "mask_word ipv4 =
     push_bit 24 (of_nat (ipv4 ! 0)) OR push_bit 16 (of_nat (ipv4 ! 1)) OR
     push_bit 8 (of_nat (ipv4 ! 2)) OR of_nat (ipv4 ! 3)"

definition noncontiguous :: "32 word \<Rightarrow> bool" where
  "noncontiguous msk \<longleftrightarrow> (let inverted = NOT msk in (inverted + 1) AND inverted \<noteq> 0 \<and> msk \<noteq> 0)"

definition ValidateNetmask :: "string \<Rightarrow> goerror" where
  "ValidateNetmask netmask =
     (if netmask = '''' then Some ''netmask cannot be empty''
      else if has_prefix netmask ''/'' then
        (case atoi (trim_prefix netmask ''/'') of
           None \<Rightarrow> Some (''invalid CIDR prefix '' @ netmask @ '': '' @
                         lib_err ''strconv.Atoi'' (trim_prefix netmask ''/''))
         | Some prefixLen \<Rightarrow>
             (if prefixLen < 0 \<or> prefixLen > 32 then
                Some (''invalid CIDR prefix '' @ netmask @ '': must be between 0 and 32'')
              else None))
      else
        (case ParseIP netmask of
           None \<Rightarrow> Some (''invalid netmask format '' @ netmask @
                         '' (expected dotted decimal or CIDR prefix)'')
         | Some ip \<Rightarrow>
             (case To4 ip of
                None \<Rightarrow> Some (''invalid netmask '' @ netmask @ '' (not an IPv4 address)'')
              | Some ipv4 \<Rightarrow>
                  (if noncontiguous (mask_word ipv4) then
                     Some (''invalid netmask '' @ netmask @ '' (not a valid contiguous netmask)'')
                   else None))))"

definition ValidateTableID :: "int \<Rightarrow> goerror" where
  "ValidateTableID tableID =
     (if tableID < 0 \<or> tableID > 4294967295
      then Some (''table ID '' @ show_int tableID @ '' out of valid range [0, 4294967295]'')
      else None)"

definition ValidateMetric :: "int \<Rightarrow> goerror" where
  "ValidateMetric metric =
     (if metric < 0 then Some (''metric '' @ show_int metric @ '' cannot be negative'') else None)"

section \<open>The error collector\<close>

record ErrorCollector =
  ec_errs :: "string list"
  ec_ctx :: string

definition NewCollector :: ErrorCollector where
  "NewCollector = \<lparr>ec_errs = [], ec_ctx = ''''\<rparr>"

definition WithContext :: "string \<Rightarrow> ErrorCollector \<Rightarrow> ErrorCollector" where
  "WithContext ctx ec = ec\<lparr>ec_ctx := ctx\<rparr>"

definition Check :: "goerror \<Rightarrow> ErrorCollector \<Rightarrow> ErrorCollector" where
  "Check err ec =
     (case err of
        None \<Rightarrow> ec
      | Some e \<Rightarrow>
          ec\<lparr>ec_errs := ec_errs ec @ [if ec_ctx ec \<noteq> '''' then ec_ctx ec @ '': '' @ e else e]\<rparr>)"

definition CheckMsg :: "goerror \<Rightarrow> string \<Rightarrow> ErrorCollector \<Rightarrow> ErrorCollector" where
  "CheckMsg err msg ec =
     (case err of
        None \<Rightarrow> ec
      | Some e \<Rightarrow>
          ec\<lparr>ec_errs := ec_errs ec @
               [if ec_ctx ec \<noteq> '''' then ec_ctx ec @ '': '' @ msg @ '': '' @ e
                else msg @ '': '' @ e]\<rparr>)"

text \<open>\<open>errors.Join\<close>: nil when there is no error, otherwise the texts separated by newlines.\<close>

definition ec_Error :: "ErrorCollector \<Rightarrow> goerror" where
  "ec_Error ec = (if ec_errs ec = [] then None else Some (join_with [CHR 0x0A] (ec_errs ec)))"


section \<open>Contiguous masks\<close>

lemma nat_succ_and_zero: "(n + 1) AND n = 0 \<Longrightarrow> \<exists>k. n = mask k" for n :: nat
proof (induction n rule: less_induct)
  case (less n)
  show ?case
  proof (cases "even n")
    case True
    then obtain m where n: "n = 2 * m" by (elim evenE)
    with less.prems have "n = 0"
      by (simp add: and_rec [of "Suc (2 * m)"] and_rec [of "m" "m"])
    then have "n = mask 0" by simp
    then show ?thesis by blast
  next
    case False
    then obtain m where n: "n = 2 * m + 1" by (elim oddE)
    then have "(m + 1) AND m = 0" "m < n"
      using less.prems by (simp_all add: and_rec [of "Suc (Suc (2 * m))"])
    with less.IH obtain k where "m = mask k" by blast
    have "n = mask (Suc k)"
      proof -
        have "1 \<le> (2::nat) ^ k" by simp
        with n \<open>m = mask k\<close> show ?thesis
          unfolding mask_eq_exp_minus_1 power_Suc by linarith
      qed
    then show ?thesis by blast
  qed
qed

lemma unat_mask: "k \<le> 32 \<Longrightarrow> unat (mask k :: 32 word) = 2 ^ k - 1"
proof -
  assume k: "k \<le> 32"
  have "(mask k :: 32 word) = of_nat (mask k)" by (simp add: of_nat_mask_eq)
  then have "unat (mask k :: 32 word) = take_bit 32 (mask k)" by (simp only: unsigned_of_nat) simp
  also have "\<dots> = mask k" using k by (simp add: min_def)
  finally show ?thesis by (simp add: mask_eq_exp_minus_1)
qed

lemma word_succ_and_zero_iff: "(u + 1) AND u = 0 \<longleftrightarrow> (\<exists>k\<le>32. u = mask k)" for u :: "32 word"
proof
  assume z: "(u + 1) AND u = 0"
  show "\<exists>k\<le>32. u = mask k"
  proof (cases "unat u + 1 < 2 ^ 32")
    case True
    then have "unat (u + 1) = unat u + 1"
      by (simp add: unat_word_ariths)
    with z have "(unat u + 1) AND unat u = 0"
      by (metis unat_0 unsigned_and_eq)
    then obtain k where k: "unat u = mask k" using nat_succ_and_zero by blast
    with True have "(2::nat) ^ k < 2 ^ 32" by (simp add: mask_eq_exp_minus_1)
    then have "k \<le> 32"
      using power_less_imp_less_exp [of "2::nat" k 32] by linarith
    moreover from k have "u = mask k"
      by (metis of_nat_mask_eq of_nat_unat ucast_id)
    ultimately show ?thesis by blast
  next
    case False
    then have "u = mask 32"
      using unsigned_less [of u, where 'a = nat] by (simp add: word_unat_eq_iff unat_mask)
    then show ?thesis by blast
  qed
next
  assume "\<exists>k\<le>32. u = mask k"
  then obtain k where "u = mask k" by blast
  then have "u + 1 = push_bit k 1"
    by (simp add: mask_eq_exp_minus_1 push_bit_eq_mult)
  moreover have "push_bit k 1 AND mask k = (0 :: 32 word)"
    by (rule bit_word_eqI) (auto simp: bit_simps bit_1_iff)
  ultimately show "(u + 1) AND u = 0"
    by (simp add: \<open>u = mask k\<close>)
qed

lemma contiguous_iff: "\<not> noncontiguous m \<longleftrightarrow> (\<exists>k\<le>32. NOT m = mask k)"
proof -
  have "(- 1 :: 32 word) = mask 32"
    by (rule bit_word_eqI) (simp add: bit_simps)
  then have "m = 0 \<Longrightarrow> NOT m = mask 32" by simp
  then have "m = 0 \<Longrightarrow> \<exists>k\<le>32. NOT m = mask k" by blast
  then show ?thesis
    unfolding noncontiguous_def Let_def using word_succ_and_zero_iff [of "NOT m"] by blast
qed


lemma push_or_small: "b < 2 ^ n \<Longrightarrow> push_bit n a OR b = a * 2 ^ n + b" for a b :: nat
proof -
  assume "b < 2 ^ n"
  then have "take_bit n b = b" by (simp add: take_bit_nat_eq_self)
  then have "bit b i \<Longrightarrow> i < n" for i by (metis bit_take_bit_iff)
  then have "push_bit n a AND b = 0"
    by (intro bit_eqI) (auto simp: bit_simps dest: leD)
  then show "push_bit n a OR b = a * 2 ^ n + b"
    by (metis disjunctive_add_eq_or push_bit_eq_mult)
qed

lemma mask_word_unat:
  assumes "length ns = 4" and "list_all (\<lambda>n. n < 256) ns"
  shows "unat (mask_word ns) = ns ! 0 * 2 ^ 24 + ns ! 1 * 2 ^ 16 + ns ! 2 * 2 ^ 8 + ns ! 3"
proof -
  obtain a b c d where ns: "ns = [a, b, c, d]"
    using assms(1) by (auto simp: length_Suc_conv numeral_eq_Suc)
  then have bnd: "a < 256" "b < 256" "c < 256" "d < 256" using assms(2) by auto
  let ?v = "push_bit 24 a OR push_bit 16 b OR push_bit 8 c OR d"
  have "push_bit 8 c OR d = c * 2 ^ 8 + d"
    using push_or_small [of d 8 c] bnd by simp
  moreover have "push_bit 16 b OR (c * 2 ^ 8 + d) = b * 2 ^ 16 + (c * 2 ^ 8 + d)"
    using push_or_small [of "c * 2 ^ 8 + d" 16 b] bnd by simp
  moreover have "push_bit 24 a OR (b * 2 ^ 16 + (c * 2 ^ 8 + d)) = a * 2 ^ 24 + (b * 2 ^ 16 + (c * 2 ^ 8 + d))"
    using push_or_small [of "b * 2 ^ 16 + (c * 2 ^ 8 + d)" 24 a] bnd by simp
  ultimately have v: "?v = a * 2 ^ 24 + b * 2 ^ 16 + c * 2 ^ 8 + d" by simp
  have "mask_word ns = of_nat ?v"
    by (simp add: mask_word_def ns of_nat_or_eq of_nat_push_bit)
  moreover have "?v < 2 ^ 32" using v bnd by simp
  ultimately have "unat (mask_word ns) = ?v"
    by (simp only: unat_of_nat) (simp add: take_bit_nat_eq_self)
  with v ns show ?thesis by simp
qed

section \<open>Dotted addresses\<close>

lemma ParseIP_show_v4:
  assumes "length ns = 4" and "list_all (\<lambda>n. n < 256) ns"
  shows "ParseIP (show_v4 ns) = Some (replicate 10 0 @ [255, 255] @ ns)"
proof -
  obtain a b c d where ns: "ns = [a, b, c, d]"
    using assms(1) by (auto simp: length_Suc_conv numeral_eq_Suc)
  have "dropWhile (\<lambda>c. c \<noteq> CHR ''.'' \<and> c \<noteq> CHR '':'' \<and> c \<noteq> CHR ''%'') (show_v4 ns)
        = CHR ''.'' # show_v4 [b, c, d]"
  proof -
    have "\<forall>x\<in>set (show_nat a). x \<noteq> CHR ''.'' \<and> x \<noteq> CHR '':'' \<and> x \<noteq> CHR ''%''"
      using show_nat_digits [of _ a] by (fastforce simp: is_digit_def byte_of_def)
    moreover have "show_v4 ns = show_nat a @ CHR ''.'' # show_v4 [b, c, d]"
      by (simp add: show_v4_def ns)
    ultimately show ?thesis by (simp add: dropWhile_append2)
  qed
  with parseIPv4_show [OF assms] show ?thesis
    by (simp add: ParseIP_def ParseAddr_def)
qed

lemma To4_mapped: "To4 (replicate 10 0 @ [255, 255] @ ns) = Some ns"
  by (simp add: To4_def numeral_eq_Suc)

lemma show_v4_no_slash: "length ns = 4 \<Longrightarrow> \<not> has_prefix (show_v4 ns) ''/'' \<and> show_v4 ns \<noteq> ''''"
proof -
  assume "length ns = 4"
  then obtain a b c d where ns: "ns = [a, b, c, d]"
    by (auto simp: length_Suc_conv numeral_eq_Suc)
  obtain x r where xr: "show_nat a = x # r" by (meson list.exhaust show_nat_not_Nil)
  then have "is_digit x" using show_nat_digits [of x a] by simp
  then have "x \<noteq> CHR ''/''" by (auto simp: is_digit_def byte_of_def)
  with xr show ?thesis by (auto simp: show_v4_def ns has_prefix_iff)
qed

lemma unat_NOT: "unat (NOT m) = 2 ^ 32 - 1 - unat m" for m :: "32 word"
proof -
  have "NOT m = - 1 - m" by (simp add: not_eq_complement)
  moreover have "unat (- 1 - m) = unat (- 1 :: 32 word) - unat m"
    by (rule unat_sub) simp
  ultimately show ?thesis by (simp add: unsigned_minus_1_eq_mask mask_eq_exp_minus_1)
qed

lemma contiguous_unat_iff:
  "\<not> noncontiguous m \<longleftrightarrow> (\<exists>n\<le>32. unat m = 2 ^ 32 - 2 ^ (32 - n))"
proof -
  have eq: "NOT m = mask k \<longleftrightarrow> unat m = 2 ^ 32 - 2 ^ k" if "k \<le> 32" for k
  proof -
    have "(2::nat) ^ k \<le> 2 ^ 32" using that by (rule power_increasing) simp
    moreover have "unat (mask k :: 32 word) = 2 ^ k - 1"
      using that by (rule unat_mask)
    moreover have "unat m < 2 ^ 32" using unsigned_less [of m, where 'a = nat] by simp
    moreover have "1 \<le> (2::nat) ^ k" by simp
    ultimately show ?thesis unfolding word_unat_eq_iff unat_NOT by linarith
  qed
  show ?thesis unfolding contiguous_iff
  proof
    assume "\<exists>k\<le>32. NOT m = mask k"
    then obtain k where "k \<le> 32" "unat m = 2 ^ 32 - 2 ^ k" using eq by blast
    then show "\<exists>n\<le>32. unat m = 2 ^ 32 - 2 ^ (32 - n)" by (intro exI [of _ "32 - k"]) auto
  next
    assume "\<exists>n\<le>32. unat m = 2 ^ 32 - 2 ^ (32 - n)"
    then show "\<exists>k\<le>32. NOT m = mask k" using eq by (metis diff_le_self)
  qed
qed

section \<open>Labels of a domain name\<close>

definition alnum :: "char \<Rightarrow> bool" where
  "alnum c \<longleftrightarrow> in_class alnum_class c"

definition valid_label :: "string \<Rightarrow> bool" where
  "valid_label l \<longleftrightarrow>
     l \<noteq> [] \<and> length l \<le> 63 \<and> list_all (\<lambda>c. alnum c \<or> c = CHR ''-'') l \<and> alnum (hd l) \<and> alnum (last l)"

lemma in_class_append: "in_class (a @ b) c \<longleftrightarrow> in_class a c \<or> in_class b c"
  by (induction a) auto

lemma in_alnum_hyphen: "in_class alnum_hyphen_class c \<longleftrightarrow> alnum c \<or> c = CHR ''-''"
  by (auto simp: alnum_hyphen_class_def in_class_append alnum_def byte_of_inject [symmetric])

lemma lang_label: "lang label_regex = {l. valid_label l}"
proof (rule set_eqI)
  fix l
  have mid: "conc {w. length w \<le> 61 \<and> list_all P w} {[c] | c. Q c}
             = {w @ [c] | w c. length w \<le> 61 \<and> list_all P w \<and> Q c}" for P Q
    by (auto simp: conc_def)
  show "l \<in> lang label_regex \<longleftrightarrow> l \<in> {l. valid_label l}"
  proof (cases l)
    case Nil
    then show ?thesis
      by (simp add: label_regex_def conc_class valid_label_def)
  next
    case (Cons a t)
    show ?thesis
    proof (cases t rule: rev_cases)
      case Nil
      with Cons show ?thesis
        by (auto simp add: label_regex_def conc_class upto_pow_class mid valid_label_def
            simp flip: alnum_def)
    next
      case (snoc w c)
      with Cons show ?thesis
        by (auto simp add: label_regex_def conc_class upto_pow_class mid valid_label_def
            in_alnum_hyphen simp flip: alnum_def)
    qed
  qed
qed

lemma label_no_dot: "valid_label l \<Longrightarrow> CHR ''.'' \<notin> set l \<and> CHR ''*'' \<notin> set l"
  by (auto simp: valid_label_def list_all_iff alnum_def alnum_class_def byte_of_def)

lemma lang_labels:
  "lang (RCat (RStar (RCat label_regex (RChar (CHR ''.'')))) label_regex)
   = {s. list_all valid_label (split_on (CHR ''.'') s)}"
  (is "?L = ?R")
proof (intro set_eqI iffI)
  fix s
  assume "s \<in> ?L"
  then obtain u v where s: "s = u @ v" and v: "valid_label v"
    and "u \<in> star (conc {l. valid_label l} {[CHR ''.'']})"
    by (auto simp: conc_iff lang_label)
  from this(3) have "list_all valid_label (split_on (CHR ''.'') (u @ v))"
  proof induction
    case star_Nil
    with v show ?case by (simp add: split_on_no_sep label_no_dot)
  next
    case (star_step a w)
    then obtain l where "a = l @ [CHR ''.'']" "valid_label l" by (auto simp: conc_iff)
    with star_step show ?case by (simp add: split_on_append_sep label_no_dot)
  qed
  with s show "s \<in> ?R" by simp
next
  have join: "list_all valid_label ps \<Longrightarrow> ps \<noteq> [] \<Longrightarrow>
      join_with ''.'' ps \<in> conc (star (conc {l. valid_label l} {[CHR ''.'']})) {l. valid_label l}" for ps
  proof (induction "''.''" ps rule: join_with.induct)
    case (2 p)
    then show ?case unfolding conc_iff by (auto intro: star_Nil)
  next
    case (3 p q ps)
    then obtain u v where uv: "join_with ''.'' (q # ps) = u @ v" "valid_label v"
      "u \<in> star (conc {l. valid_label l} {[CHR ''.'']})"
      by (auto simp: conc_iff)
    have "p @ ''.'' \<in> conc {l. valid_label l} {[CHR ''.'']}"
      using 3 by (auto simp: conc_iff)
    from star_step [OF this uv(3)] uv show ?case
      unfolding conc_iff by (metis append.assoc join_with.simps(3) mem_Collect_eq)
  qed simp
  fix s
  assume "s \<in> ?R"
  then have "list_all valid_label (split_on (CHR ''.'') s)" by simp
  from join [OF this] show "s \<in> ?L"
    by (simp add: join_split_on lang_label)
qed

lemma domainRegex_iff:
  "rmatch domainRegex d \<longleftrightarrow> list_all valid_label (split_on (CHR ''.'') (trim_prefix d ''*.''))"
proof -
  let ?ok = "\<lambda>s. list_all valid_label (split_on (CHR ''.'') s)"
  have "rmatch domainRegex d \<longleftrightarrow> ?ok d \<or> (\<exists>r. d = ''*.'' @ r \<and> ?ok r)"
  proof -
    have "lang (ROpt (RCat (RChar (CHR ''*'')) (RChar (CHR ''.'')))) = {[], ''*.''}"
      by (auto simp: conc_def)
    moreover have "conc (insert x A) B = {x @ r | r. r \<in> B} \<union> conc A B" for x A B
      by (auto simp: conc_def)
    ultimately show ?thesis
      unfolding rmatch_iff domainRegex_def lang.simps(4) [of "ROpt _"] lang_labels by auto
  qed
  also have "\<dots> \<longleftrightarrow> ?ok (trim_prefix d ''*.'')"
  proof (cases "has_prefix d ''*.''")
    case True
    then obtain r where d: "d = CHR ''*'' # CHR ''.'' # r" by (auto simp: has_prefix_iff)
    then have "\<not> ?ok d"
      using label_no_dot [of "''*''"] by auto
    with d show ?thesis by (auto simp: trim_prefix_def)
  next
    case False
    then show ?thesis by (auto simp: trim_prefix_def has_prefix_iff)
  qed
  finally show ?thesis .
qed

lemma valid_label_len: "list_all valid_label ls \<Longrightarrow> \<not> list_ex (\<lambda>l. length l > 63) ls"
  by (simp add: list_all_iff list_ex_iff valid_label_def linorder_not_less)

section \<open>Collected errors\<close>

lemma Check_errs: "ec_errs (Check e ec) = [] \<longleftrightarrow> ec_errs ec = [] \<and> e = None"
  by (auto simp: Check_def split: option.splits)

lemma CheckMsg_errs: "ec_errs (CheckMsg e m ec) = [] \<longleftrightarrow> ec_errs ec = [] \<and> e = None"
  by (auto simp: CheckMsg_def split: option.splits)

lemma WithContext_errs: "ec_errs (WithContext c NewCollector) = []"
  by (simp add: WithContext_def NewCollector_def)

lemma NewCollector_errs: "ec_errs NewCollector = []"
  by (simp add: NewCollector_def)

lemma ec_Error_None: "ec_Error ec = None \<longleftrightarrow> ec_errs ec = []"
  by (simp add: ec_Error_def)

lemma foldl_Check_errs:
  "ec_errs (foldl (\<lambda>ec x. Check (f x) ec) ec xs) = [] \<longleftrightarrow> ec_errs ec = [] \<and> (\<forall>x\<in>set xs. f x = None)"
  by (induction xs arbitrary: ec) (auto simp: Check_errs)

lemma foldl_CheckMsg_errs:
  "ec_errs (foldl (\<lambda>ec x. CheckMsg (f x) (g x) ec) ec xs) = []
   \<longleftrightarrow> ec_errs ec = [] \<and> (\<forall>x\<in>set xs. f x = None)"
  by (induction xs arbitrary: ec) (auto simp: CheckMsg_errs)

lemmas collector_simps =
  ec_Error_None Check_errs CheckMsg_errs WithContext_errs NewCollector_errs
  foldl_Check_errs foldl_CheckMsg_errs

section \<open>Port numbers and ranges\<close>

lemma port_ok: "ValidatePort p = None \<longleftrightarrow> 1 \<le> p \<and> p \<le> 65535"
  by (auto simp: ValidatePort_def)

lemma port_range_ok:
  assumes sp: "split_on (CHR ''-'') s = [a, b]"
  shows "ValidatePortString s = None \<longleftrightarrow>
    (\<exists>x y. atoi (trim_space a) = Some x \<and> atoi (trim_space b) = Some y \<and> 1 \<le> x \<and> x < y \<and> y \<le> 65535)"
proof -
  have s: "s = a @ ''-'' @ b" using join_split_on [of "CHR ''-''" s] sp by simp
  then have c: "contains s ''-''" and ne: "s \<noteq> ''''" by (auto simp: contains_iff)
  have "ValidatePortString s = None \<longleftrightarrow> ValidatePort x = None \<and> ValidatePort y = None \<and> x < y"
    if "atoi (trim_space a) = Some x" and "atoi (trim_space b) = Some y" for x y
    using that c sp ne by (cases "ValidatePort x"; cases "ValidatePort y")
      (simp_all add: ValidatePortString_def linorder_not_le)
  moreover have "ValidatePortString s \<noteq> None"
    if "atoi (trim_space a) = None \<or> atoi (trim_space b) = None"
    using that c sp ne by (cases "atoi (trim_space a)") (auto simp: ValidatePortString_def Let_def)
  ultimately show ?thesis
    by (cases "atoi (trim_space a)"; cases "atoi (trim_space b)") (auto simp: port_ok)
qed

section \<open>Correctness of the validators\<close>

text \<open>
  A dotted netmask is accepted exactly when its 32-bit value is a run of
  \<open>n\<close> one bits followed by zero bits, for some \<open>n\<close> from 0 to 32.
\<close>

theorem netmask_dotted:
  assumes "length ns = 4" and "list_all (\<lambda>n. n < 256) ns"
  shows "ValidateNetmask (show_v4 ns) = None \<longleftrightarrow>
         (\<exists>n\<le>32. ns ! 0 * 2 ^ 24 + ns ! 1 * 2 ^ 16 + ns ! 2 * 2 ^ 8 + ns ! 3 = 2 ^ 32 - 2 ^ (32 - n))"
proof -
  have "ValidateNetmask (show_v4 ns) = None \<longleftrightarrow> \<not> noncontiguous (mask_word ns)"
    using ParseIP_show_v4 [OF assms] To4_mapped [of ns] show_v4_no_slash [OF assms(1)]
    by (simp add: ValidateNetmask_def)
  then show ?thesis unfolding contiguous_unat_iff mask_word_unat [OF assms] .
qed

text \<open>
  A name is accepted exactly when it is empty, or at most 253 bytes long and,
  after an optional leading wildcard label, split at the dots into labels of 1 to 63 letters,
  digits and inner hyphens. The separate label-length loop of the source never fires.
\<close>

theorem domain_labels:
  "ValidateDomain d = None \<longleftrightarrow>
     d = '''' \<or> length d \<le> 253 \<and> list_all valid_label (split_on (CHR ''.'') (trim_prefix d ''*.''))"
  by (auto simp: ValidateDomain_def domainRegex_iff dest: valid_label_len)

text \<open>
  A port string is accepted exactly when it is one number from 1 to 65535, or
  two such numbers separated by its only hyphen with the first strictly below the second.
\<close>

theorem port_string:
  "ValidatePortString s = None \<longleftrightarrow>
     (CHR ''-'' \<notin> set s \<and> (\<exists>p. atoi (trim_space s) = Some p \<and> 1 \<le> p \<and> p \<le> 65535)) \<or>
     (\<exists>a b x y. s = a @ ''-'' @ b \<and> CHR ''-'' \<notin> set a \<and> CHR ''-'' \<notin> set b \<and>
        atoi (trim_space a) = Some x \<and> atoi (trim_space b) = Some y \<and> 1 \<le> x \<and> x < y \<and> y \<le> 65535)"
proof (cases "CHR ''-'' \<in> set s")
  case False
  then have "\<not> contains s ''-''" by (auto simp: contains_iff)
  moreover have "atoi (trim_space '''') = None" by code_simp
  ultimately show ?thesis using False
    by (auto simp: ValidatePortString_def ValidatePort_def split: option.splits)
next
  case True
  then obtain a b where s: "s = a @ CHR ''-'' # b" and a: "CHR ''-'' \<notin> set a"
    by (meson split_list_first)
  then have c: "contains s ''-''" by (auto simp: contains_iff)
  show ?thesis
  proof (cases "CHR ''-'' \<in> set b")
    case True
    with s a have "length (split_on (CHR ''-'') s) \<noteq> 2"
      by (auto simp: split_on_length count_list_0_iff count_notin)
    moreover have "s \<noteq> a' @ ''-'' @ b' \<or> CHR ''-'' \<in> set a' \<or> CHR ''-'' \<in> set b'" for a' b'
      using calculation by (auto simp: split_on_length count_list_0_iff)
    moreover have "ValidatePortString s \<noteq> None"
      using c s calculation(1) by (simp add: ValidatePortString_def)
    ultimately show ?thesis using \<open>CHR ''-'' \<in> set s\<close> by blast
  next
    case False
    with s a have sp: "split_on (CHR ''-'') s = [a, b]"
      by (simp add: split_on_append_sep split_on_no_sep)
    have uniq: "s = a' @ ''-'' @ b' \<Longrightarrow> CHR ''-'' \<notin> set a' \<Longrightarrow> a' = a \<and> b' = b" for a' b'
      using sp split_on_append_sep [of "CHR ''-''" a' b'] s by (auto simp: append_eq_append_conv2)
    note port_range_ok [OF sp]
    moreover have "s = a @ ''-'' @ b" using s by simp
    ultimately show ?thesis using uniq a False \<open>CHR ''-'' \<in> set s\<close> by metis
  qed
qed

end
