(* ===== verification/Types.thy ===== *)
theory Types
  imports Json Validation
begin

text \<open>
  The configuration structs of \<open>src/types/types.go\<close> and \<open>src/types/jack.go\<close> and their
  \<open>Validate\<close> methods. A Go slice is a list under an option (\<^const>\<open>None\<close> is the nil slice), a map
  field an association list under an option (writing to a nil map panics), a pointer field an
  option. \<open>int\<close> fields are integers in the 64-bit range.
\<close>

type_synonym 'a slice = "'a list option"

definition elems :: "'a slice \<Rightarrow> 'a list" where
  "elems xs = (case xs of None \<Rightarrow> [] | Some l \<Rightarrow> l)"

section \<open>Structs\<close>

record IPv6Config =
  ip6_Protocol :: string
  ip6_IP6Addr :: string
  ip6_IP6GW :: string
  ip6_IP6Prefix :: string
  ip6_DNS6 :: "string slice"
  ip6_Enabled :: bool

record WireGuardPeer =
  wp_PublicKey :: string
  wp_PresharedKey :: string
  wp_Endpoint :: string
  wp_Comment :: string
  wp_AllowedIPs :: "string slice"
  wp_PersistentKeepalive :: int

record Interface =
  if_IPv6 :: "IPv6Config option"
  if_Gateway :: string
  if_Comment :: string
  if_MAC :: string
  if_Type :: string
  if_Device :: string
  if_DeviceName :: string
  if_Protocol :: string
  if_IPAddr :: string
  if_WGPrivateKey :: string
  if_Netmask :: string
  if_BridgePorts :: "string slice"
  if_DNS :: "string slice"
  if_WGPeers :: "WireGuardPeer slice"
  if_Metric :: int
  if_MTU :: int
  if_BridgeForwardDelay :: int
  if_VLANId :: int
  if_WGListenPort :: int
  if_Enabled :: bool
  if_BridgeSTP :: bool

record InterfacesConfig =
  ic_Interfaces :: "(string, Interface) gomap option"
  ic_Version :: string

record Route =
  rt_Name :: string
  rt_Destination :: string
  rt_Gateway :: string
  rt_Interface :: string
  rt_Comment :: string
  rt_Metric :: int
  rt_Table :: int
  rt_Enabled :: bool

record RoutesConfig =
  rc_Routes :: "(string, Route) gomap option"
  rc_Version :: string

record PluginState =
  ps_Version :: string
  ps_Enabled :: bool

record ObserverConfig =
  oc_Enabled :: bool
  oc_AutoReconcile :: bool
  oc_ReconcileIntervalMS :: int

record LoggingConfig =
  lc_Level :: string
  lc_Format :: string
  lc_Outputs :: "string slice"
  lc_File :: string

record JackConfig =
  jc_Plugins :: "(string, PluginState) gomap option"
  jc_Observer :: "ObserverConfig option"
  jc_Logging :: "LoggingConfig option"
  jc_Version :: string

section \<open>Validation\<close>

text \<open>A check that is only made under a condition.\<close>

definition check_if :: "bool \<Rightarrow> (ErrorCollector \<Rightarrow> ErrorCollector) \<Rightarrow> ErrorCollector \<Rightarrow> ErrorCollector" where
  "check_if b f v = (if b then f v else v)"

definition Route_Validate :: "Route \<Rightarrow> goerror" where
  "Route_Validate r =
     (let v = WithContext (''route '' @ rt_Name r) NewCollector;
          v = Check (ValidateMetric (rt_Metric r)) v;
          v = Check (ValidateTableID (rt_Table r)) v;
          v = CheckMsg (ValidateCIDR (rt_Destination r)) ''invalid destination'' v;
          v = check_if (rt_Gateway r \<noteq> '''') (CheckMsg (ValidateIP (rt_Gateway r)) ''invalid gateway'') v
      in ec_Error v)"

definition WireGuardPeer_Validate :: "WireGuardPeer \<Rightarrow> goerror" where
  "WireGuardPeer_Validate wp =
     (let v = NewCollector;
          v = CheckMsg (ValidateWireGuardKey (wp_PublicKey wp)) ''invalid public key'' v;
          v = check_if (wp_PresharedKey wp \<noteq> '''')
                (CheckMsg (ValidateWireGuardKey (wp_PresharedKey wp)) ''invalid preshared key'') v;
          v = check_if (wp_Endpoint wp \<noteq> '''')
                (CheckMsg (ValidateEndpoint (wp_Endpoint wp)) ''invalid endpoint'') v;
          v = foldl (\<lambda>v a. CheckMsg (ValidateCIDR a) (''invalid allowed IP '' @ a) v)
                v (elems (wp_AllowedIPs wp))
      in ec_Error v)"

definition IPv6Config_Validate :: "IPv6Config \<Rightarrow> goerror" where
  "IPv6Config_Validate ipv6 =
     (let v = WithContext ''IPv6'' NewCollector;
          v = check_if (ip6_IP6Addr ipv6 \<noteq> '''')
                (CheckMsg (ValidateIP (ip6_IP6Addr ipv6)) ''invalid address'') v;
          v = check_if (ip6_IP6GW ipv6 \<noteq> '''')
                (CheckMsg (ValidateIP (ip6_IP6GW ipv6)) ''invalid gateway'') v;
          v = foldl (\<lambda>v dns. CheckMsg (ValidateIP dns) (''invalid DNS server '' @ dns) v)
                v (elems (ip6_DNS6 ipv6))
      in ec_Error v)"

definition Interface_Validate :: "Interface \<Rightarrow> goerror" where
  "Interface_Validate i =
     (let v = WithContext ''interface'' NewCollector;
          v = check_if (if_MTU i > 0) (Check (ValidateMTU (if_MTU i))) v;
          v = check_if (if_Protocol i = ''static'' \<and> if_IPAddr i \<noteq> '''')
                (CheckMsg (ValidateIP (if_IPAddr i)) ''invalid IP address'') v;
          v = check_if (if_Netmask i \<noteq> '''') (Check (ValidateNetmask (if_Netmask i))) v;
          v = check_if (if_MAC i \<noteq> '''') (Check (ValidateMAC (if_MAC i))) v;
          v = check_if (if_Type i = ''vlan'' \<and> if_VLANId i > 0) (Check (ValidateVLANID (if_VLANId i))) v;
          v = check_if (if_Gateway i \<noteq> '''')
                (CheckMsg (ValidateIP (if_Gateway i)) ''invalid gateway'') v;
          v = foldl (\<lambda>v dns. CheckMsg (ValidateIP dns) (''invalid DNS server '' @ dns) v)
                v (elems (if_DNS i));
          v = check_if (if_WGListenPort i > 0)
                (CheckMsg (ValidatePort (if_WGListenPort i)) ''invalid WireGuard listen port'') v;
          v = check_if (if_WGPrivateKey i \<noteq> '''')
                (CheckMsg (ValidateWireGuardKey (if_WGPrivateKey i)) ''invalid WireGuard private key'') v;
          v = foldl (\<lambda>v (idx, peer). CheckMsg (WireGuardPeer_Validate peer) (''peer '' @ show_nat idx) v)
                v (List.enumerate 0 (elems (if_WGPeers i)));
          v = (case if_IPv6 i of None \<Rightarrow> v | Some ipv6 \<Rightarrow> Check (IPv6Config_Validate ipv6) v)
      in ec_Error v)"

section \<open>What a valid value satisfies\<close>

lemma check_if_errs:
  assumes "\<And>v. ec_errs (f v) = [] \<longleftrightarrow> ec_errs v = [] \<and> P"
  shows "ec_errs (check_if b f v) = [] \<longleftrightarrow> ec_errs v = [] \<and> (b \<longrightarrow> P)"
  using assms by (auto simp: check_if_def)

lemma check_if_Check_errs [simp]:
  "ec_errs (check_if b (Check e) v) = [] \<longleftrightarrow> ec_errs v = [] \<and> (b \<longrightarrow> e = None)"
  "ec_errs (check_if b (CheckMsg e m) v) = [] \<longleftrightarrow> ec_errs v = [] \<and> (b \<longrightarrow> e = None)"
  by (auto simp: check_if_def collector_simps)

lemma Route_Validate_None:
  "Route_Validate r = None \<longleftrightarrow>
     0 \<le> rt_Metric r \<and> 0 \<le> rt_Table r \<and> rt_Table r < 2 ^ 32 \<and>
     (rt_Destination r = ''default'' \<or> ParseCIDR (rt_Destination r) \<noteq> None) \<and>
     (rt_Gateway r = '''' \<or> ParseIP (rt_Gateway r) \<noteq> None)"
proof -
  have "ParseCIDR '''' = None" by (simp add: ParseCIDR_def)
  then show ?thesis
    by (auto simp: Route_Validate_def Let_def collector_simps ValidateMetric_def ValidateTableID_def
        ValidateCIDR_def ValidateIP_def)
qed

lemma foldl_CheckMsg_enum_errs:
  "ec_errs (foldl (\<lambda>v (idx, peer). CheckMsg (f peer) (g idx) v) v xs) = []
   \<longleftrightarrow> ec_errs v = [] \<and> (\<forall>p\<in>set xs. f (snd p) = None)"
  by (induction xs arbitrary: v) (auto simp: CheckMsg_errs)

lemma Interface_Validate_None:
  "Interface_Validate i = None \<longleftrightarrow>
     (if_MTU i > 0 \<longrightarrow> ValidateMTU (if_MTU i) = None) \<and>
     (if_Protocol i = ''static'' \<longrightarrow> if_IPAddr i \<noteq> '''' \<longrightarrow> ValidateIP (if_IPAddr i) = None) \<and>
     (if_Netmask i \<noteq> '''' \<longrightarrow> ValidateNetmask (if_Netmask i) = None) \<and>
     (if_MAC i \<noteq> '''' \<longrightarrow> ValidateMAC (if_MAC i) = None) \<and>
     (if_Type i = ''vlan'' \<longrightarrow> if_VLANId i > 0 \<longrightarrow> ValidateVLANID (if_VLANId i) = None) \<and>
     (if_Gateway i \<noteq> '''' \<longrightarrow> ValidateIP (if_Gateway i) = None) \<and>
     (\<forall>d\<in>set (elems (if_DNS i)). ValidateIP d = None) \<and>
     (if_WGListenPort i > 0 \<longrightarrow> ValidatePort (if_WGListenPort i) = None) \<and>
     (if_WGPrivateKey i \<noteq> '''' \<longrightarrow> ValidateWireGuardKey (if_WGPrivateKey i) = None) \<and>
     (\<forall>p\<in>set (elems (if_WGPeers i)). WireGuardPeer_Validate p = None) \<and>
     (\<forall>c. if_IPv6 i = Some c \<longrightarrow> IPv6Config_Validate c = None)"
proof -
  have "(\<forall>p\<in>set (List.enumerate 0 xs). f (snd p) = None) \<longleftrightarrow> (\<forall>p\<in>set xs. f p = None)"
    for xs :: "WireGuardPeer list" and f :: "WireGuardPeer \<Rightarrow> goerror"
  proof -
    have "set xs = snd ` set (List.enumerate 0 xs)" by (metis map_snd_enumerate set_map)
    then show ?thesis by auto
  qed
  then show ?thesis
    by (cases "if_IPv6 i")
       (simp_all add: Interface_Validate_def Let_def collector_simps foldl_CheckMsg_enum_errs, blast+)
qed

end
