(* ===== verification/Navigator.thy ===== *)
theory Navigator
  imports Types
begin

text \<open>
  The reflective struct access of \<open>src/daemon/navigator.go\<close>. A Go struct type is a table of its
  fields in declaration order: the \<open>json\<close> tag, the kind of the field, and how it is read and
  written. The locale \<open>struct_table\<close> states what such a table must satisfy to describe a struct
  (the fields are independent and determine the value); its lemmas are proved once and hold for
  the tables of \<open>Interface\<close>, \<open>Route\<close>, \<open>IPv6Config\<close> and \<open>WireGuardPeer\<close>.
\<close>

section \<open>Dynamic values\<close>

text \<open>
  The values that travel as \<open>interface{}\<close> through the path code: what the JSON decoder makes,
  and the typed values that in-process callers pass and that the getters return.
\<close>

datatype gval =
    GJson json
  | GInt int
  | GStrs "string slice"
  | GPeers "WireGuardPeer slice"
  | GIPv6Ptr "IPv6Config option"
  | GIPv6 IPv6Config
  | GInterface Interface
  | GInterfaceMap "(string, Interface) gomap option"
  | GRoute Route
  | GRoutePtr Route
  | GRouteMap "(string, Route) gomap option"
  | GRouteSlice "Route slice"

datatype fkind = KStr | KBool | KInt | KStrs | KPeers | KIPv6Ptr

text \<open>\<open>reflect.Type.AssignableTo\<close> between the dynamic type of a value and the type of a field.\<close>

fun has_kind :: "fkind \<Rightarrow> gval \<Rightarrow> bool" where
  "has_kind KStr (GJson (JStr _)) = True"
| "has_kind KBool (GJson (JBool _)) = True"
| "has_kind KInt (GInt _) = True"
| "has_kind KStrs (GStrs _) = True"
| "has_kind KPeers (GPeers _) = True"
| "has_kind KIPv6Ptr (GIPv6Ptr _) = True"
| "has_kind _ _ = False"

fun zero_of :: "fkind \<Rightarrow> gval" where
  "zero_of KStr = GJson (JStr [])"
| "zero_of KBool = GJson (JBool False)"
| "zero_of KInt = GInt 0"
| "zero_of KStrs = GStrs None"
| "zero_of KPeers = GPeers None"
| "zero_of KIPv6Ptr = GIPv6Ptr None"

fun is_slice :: "gval \<Rightarrow> bool" where
  "is_slice (GJson (JArr _)) = True"
| "is_slice (GStrs _) = True"
| "is_slice (GPeers _) = True"
| "is_slice (GRouteSlice _) = True"
| "is_slice _ = False"

section \<open>Field tables\<close>

record 's fdesc =
  fd_tag :: string
  fd_kind :: fkind
  fd_get :: "'s \<Rightarrow> gval"
  fd_set :: "gval \<Rightarrow> 's \<Rightarrow> 's"

definition tag_name :: "string \<Rightarrow> string" where
  "tag_name t = hd (split_on (CHR '','') t)"

definition tag_omitempty :: "string \<Rightarrow> bool" where
  "tag_omitempty t \<longleftrightarrow> ''omitempty'' \<in> set (tl (split_on (CHR '','') t))"

text \<open>The value of a field's own type inside a dynamic value, and a write of it.\<close>

fun as_str :: "gval \<Rightarrow> (string) option" where
  "as_str (GJson (JStr x)) = Some x"
| "as_str _ = None"

fun as_bool :: "gval \<Rightarrow> (bool) option" where
  "as_bool (GJson (JBool x)) = Some x"
| "as_bool _ = None"

fun as_int :: "gval \<Rightarrow> (int) option" where
  "as_int (GInt x) = Some x"
| "as_int _ = None"

fun as_strs :: "gval \<Rightarrow> (string slice) option" where
  "as_strs (GStrs x) = Some x"
| "as_strs _ = None"

fun as_peers :: "gval \<Rightarrow> (WireGuardPeer slice) option" where
  "as_peers (GPeers x) = Some x"
| "as_peers _ = None"

fun as_ipv6 :: "gval \<Rightarrow> (IPv6Config option) option" where
  "as_ipv6 (GIPv6Ptr x) = Some x"
| "as_ipv6 _ = None"

definition opt_upd :: "(('a \<Rightarrow> 'a) \<Rightarrow> 's \<Rightarrow> 's) \<Rightarrow> 'a option \<Rightarrow> 's \<Rightarrow> 's" where
  "opt_upd upd x s = (case x of None \<Rightarrow> s | Some y \<Rightarrow> upd (\<lambda>_. y) s)"

definition strF :: "string \<Rightarrow> ('s \<Rightarrow> string) \<Rightarrow> ((string \<Rightarrow> string) \<Rightarrow> 's \<Rightarrow> 's) \<Rightarrow> 's fdesc" where
  "strF t get upd =
     \<lparr>fd_tag = t, fd_kind = KStr, fd_get = (\<lambda>s. GJson (JStr (get s))),
      fd_set = (\<lambda>v. opt_upd upd (as_str v))\<rparr>"

definition boolF :: "string \<Rightarrow> ('s \<Rightarrow> bool) \<Rightarrow> ((bool \<Rightarrow> bool) \<Rightarrow> 's \<Rightarrow> 's) \<Rightarrow> 's fdesc" where
  "boolF t get upd =
     \<lparr>fd_tag = t, fd_kind = KBool, fd_get = (\<lambda>s. GJson (JBool (get s))),
      fd_set = (\<lambda>v. opt_upd upd (as_bool v))\<rparr>"

definition intF :: "string \<Rightarrow> ('s \<Rightarrow> int) \<Rightarrow> ((int \<Rightarrow> int) \<Rightarrow> 's \<Rightarrow> 's) \<Rightarrow> 's fdesc" where
  "intF t get upd =
     \<lparr>fd_tag = t, fd_kind = KInt, fd_get = (\<lambda>s. GInt (get s)),
      fd_set = (\<lambda>v. opt_upd upd (as_int v))\<rparr>"

definition strsF :: "string \<Rightarrow> ('s \<Rightarrow> string slice) \<Rightarrow> ((string slice \<Rightarrow> string slice) \<Rightarrow> 's \<Rightarrow> 's) \<Rightarrow> 's fdesc" where
  "strsF t get upd =
     \<lparr>fd_tag = t, fd_kind = KStrs, fd_get = (\<lambda>s. GStrs (get s)),
      fd_set = (\<lambda>v. opt_upd upd (as_strs v))\<rparr>"

definition peersF :: "string \<Rightarrow> ('s \<Rightarrow> WireGuardPeer slice) \<Rightarrow> ((WireGuardPeer slice \<Rightarrow> WireGuardPeer slice) \<Rightarrow> 's \<Rightarrow> 's) \<Rightarrow> 's fdesc" where
  "peersF t get upd =
     \<lparr>fd_tag = t, fd_kind = KPeers, fd_get = (\<lambda>s. GPeers (get s)),
      fd_set = (\<lambda>v. opt_upd upd (as_peers v))\<rparr>"

definition ipv6F :: "string \<Rightarrow> ('s \<Rightarrow> IPv6Config option) \<Rightarrow> ((IPv6Config option \<Rightarrow> IPv6Config option) \<Rightarrow> 's \<Rightarrow> 's) \<Rightarrow> 's fdesc" where
  "ipv6F t get upd =
     \<lparr>fd_tag = t, fd_kind = KIPv6Ptr, fd_get = (\<lambda>s. GIPv6Ptr (get s)),
      fd_set = (\<lambda>v. opt_upd upd (as_ipv6 v))\<rparr>"

lemmas field_defs = strF_def boolF_def intF_def strsF_def peersF_def ipv6F_def

definition Interface_fields :: "Interface fdesc list" where
  "Interface_fields =
     [ipv6F ''ipv6,omitempty'' if_IPv6 if_IPv6_update,
      strF ''gateway,omitempty'' if_Gateway if_Gateway_update,
      strF ''comment,omitempty'' if_Comment if_Comment_update,
      strF ''mac,omitempty'' if_MAC if_MAC_update,
      strF ''type'' if_Type if_Type_update,
      strF ''device,omitempty'' if_Device if_Device_update,
      strF ''device_name,omitempty'' if_DeviceName if_DeviceName_update,
      strF ''protocol'' if_Protocol if_Protocol_update,
      strF ''ipaddr,omitempty'' if_IPAddr if_IPAddr_update,
      strF ''wg_private_key,omitempty'' if_WGPrivateKey if_WGPrivateKey_update,
      strF ''netmask,omitempty'' if_Netmask if_Netmask_update,
      strsF ''bridge_ports,omitempty'' if_BridgePorts if_BridgePorts_update,
      strsF ''dns,omitempty'' if_DNS if_DNS_update,
      peersF ''wg_peers,omitempty'' if_WGPeers if_WGPeers_update,
      intF ''metric,omitempty'' if_Metric if_Metric_update,
      intF ''mtu,omitempty'' if_MTU if_MTU_update,
      intF ''bridge_forward_delay,omitempty'' if_BridgeForwardDelay if_BridgeForwardDelay_update,
      intF ''vlan_id,omitempty'' if_VLANId if_VLANId_update,
      intF ''wg_listen_port,omitempty'' if_WGListenPort if_WGListenPort_update,
      boolF ''enabled'' if_Enabled if_Enabled_update,
      boolF ''bridge_stp,omitempty'' if_BridgeSTP if_BridgeSTP_update]"

definition Route_fields :: "Route fdesc list" where
  "Route_fields =
     [strF ''name'' rt_Name rt_Name_update,
      strF ''destination'' rt_Destination rt_Destination_update,
      strF ''gateway,omitempty'' rt_Gateway rt_Gateway_update,
      strF ''interface,omitempty'' rt_Interface rt_Interface_update,
      strF ''comment,omitempty'' rt_Comment rt_Comment_update,
      intF ''metric,omitempty'' rt_Metric rt_Metric_update,
      intF ''table,omitempty'' rt_Table rt_Table_update,
      boolF ''enabled'' rt_Enabled rt_Enabled_update]"

definition IPv6Config_fields :: "IPv6Config fdesc list" where
  "IPv6Config_fields =
     [strF ''protocol'' ip6_Protocol ip6_Protocol_update,
      strF ''ip6addr,omitempty'' ip6_IP6Addr ip6_IP6Addr_update,
      strF ''ip6gw,omitempty'' ip6_IP6GW ip6_IP6GW_update,
      strF ''ip6prefix,omitempty'' ip6_IP6Prefix ip6_IP6Prefix_update,
      strsF ''dns6,omitempty'' ip6_DNS6 ip6_DNS6_update,
      boolF ''enabled'' ip6_Enabled ip6_Enabled_update]"

definition WireGuardPeer_fields :: "WireGuardPeer fdesc list" where
  "WireGuardPeer_fields =
     [strF ''public_key'' wp_PublicKey wp_PublicKey_update,
      strF ''preshared_key,omitempty'' wp_PresharedKey wp_PresharedKey_update,
      strF ''endpoint,omitempty'' wp_Endpoint wp_Endpoint_update,
      strF ''comment,omitempty'' wp_Comment wp_Comment_update,
      strsF ''allowed_ips'' wp_AllowedIPs wp_AllowedIPs_update,
      intF ''persistent_keepalive,omitempty'' wp_PersistentKeepalive wp_PersistentKeepalive_update]"

section \<open>Looking a tag up\<close>

text \<open>
  The cache of one type: every tag name with the index of the last field that carries it.
\<close>

definition build_cache :: "string list \<Rightarrow> (string, nat) gomap" where
  "build_cache tags =
     foldl (\<lambda>cache (i, tag). if tag = '''' then cache else mput (tag_name tag) i cache)
       [] (List.enumerate 0 tags)"

type_synonym field_cache = "(string, (string, nat) gomap) gomap"

text \<open>
  \<open>getStructFieldByJSONTag\<close> with the global cache passed explicitly; a struct type is its name
  and the tags of its fields, and \<^const>\<open>None\<close> stands for the result \<open>-1\<close>.
\<close>

definition getStructFieldByJSONTag :: "field_cache \<Rightarrow> string \<Rightarrow> string list \<Rightarrow> string \<Rightarrow> nat option \<times> field_cache" where
  "getStructFieldByJSONTag fieldCache structType tags jsonTag =
     (let hit = (case mget fieldCache structType of None \<Rightarrow> None | Some cache \<Rightarrow> mget cache jsonTag) in
      if hit \<noteq> None then (hit, fieldCache)
      else (mget (build_cache tags) jsonTag, mput structType (build_cache tags) fieldCache))"

definition cache_ok :: "(string \<Rightarrow> string list) \<Rightarrow> field_cache \<Rightarrow> bool" where
  "cache_ok tags_of fieldCache \<longleftrightarrow>
     list_all (\<lambda>(ty, cache). cache = build_cache (tags_of ty)) fieldCache"

text \<open>The index a lookup denotes, whatever the cache holds; the accessors below use it.\<close>

definition field_index :: "'s fdesc list \<Rightarrow> string \<Rightarrow> nat option" where
  "field_index fs jsonTag = mget (build_cache (map fd_tag fs)) jsonTag"

section \<open>Reading and writing a field\<close>

text \<open>
  \<open>setFieldValue\<close>. \<open>field.Set\<close> panics when the dynamic type of a slice differs from the type of
  the field, which the slice branch does not rule out. The pointer branch allocates the struct
  and recurses on it: only a value of the struct type itself is then accepted.
\<close>

fun setFieldValue :: "fkind \<Rightarrow> gval \<Rightarrow> gval outcome" where
  "setFieldValue k value =
     (if value = GJson JNull then Ok (zero_of k)
      else if has_kind k value then Ok value
      else
        (case k of
           KStr \<Rightarrow> Err ''must be a string''
         | KBool \<Rightarrow> Err ''must be a boolean''
         | KInt \<Rightarrow> (case value of GJson (JNum q) \<Rightarrow> Ok (GInt (trunc64 q)) | _ \<Rightarrow> Err ''must be a number'')
         | KStrs \<Rightarrow> if is_slice value then Panic else Err ''must be a slice''
         | KPeers \<Rightarrow> if is_slice value then Panic else Err ''must be a slice''
         | KIPv6Ptr \<Rightarrow>
             (case value of GIPv6 c \<Rightarrow> Ok (GIPv6Ptr (Some c)) | _ \<Rightarrow> Err ''unsupported field type: struct'')))"

definition setStructField :: "'s fdesc list \<Rightarrow> 's \<Rightarrow> string \<Rightarrow> gval \<Rightarrow> 's outcome" where
  "setStructField fs s fieldName value =
     (case field_index fs fieldName of
        None \<Rightarrow> Err (''unknown field: '' @ fieldName)
      | Some i \<Rightarrow>
          (case setFieldValue (fd_kind (fs ! i)) value of
             Ok v \<Rightarrow> Ok (fd_set (fs ! i) v s)
           | Err e \<Rightarrow> Err (fieldName @ '' '' @ e)
           | Panic \<Rightarrow> Panic))"

definition getStructField :: "'s fdesc list \<Rightarrow> 's \<Rightarrow> string \<Rightarrow> gval outcome" where
  "getStructField fs s fieldName =
     (case field_index fs fieldName of
        None \<Rightarrow> Err (''unknown field: '' @ fieldName)
      | Some i \<Rightarrow> Ok (fd_get (fs ! i) s))"

declare setFieldValue.simps [simp del]

section \<open>The cache is transparent\<close>

lemma build_cache_snoc:
  "build_cache (tags @ [t]) =
     (if t = '''' then build_cache tags else mput (tag_name t) (length tags) (build_cache tags))"
  by (simp add: build_cache_def enumerate_append_eq)

lemma build_cache_SomeD:
  "mget (build_cache tags) n = Some i \<Longrightarrow> i < length tags \<and> tag_name (tags ! i) = n"
proof (induction tags rule: rev_induct)
  case Nil
  then show ?case by (simp add: build_cache_def)
next
  case (snoc t tags)
  then show ?case by (auto simp: build_cache_snoc gomap_simps nth_append split: if_splits)
qed

lemma build_cache_find:
  assumes "distinct (map tag_name tags)" and "i < length tags" and "tags ! i \<noteq> ''''"
  shows "mget (build_cache tags) (tag_name (tags ! i)) = Some i"
  using assms
proof (induction tags rule: rev_induct)
  case (snoc t tags)
  show ?case
  proof (cases "i = length tags")
    case True
    with snoc.prems show ?thesis by (simp add: build_cache_snoc gomap_simps)
  next
    case False
    with snoc.prems have i: "i < length tags" by simp
    then have "tag_name (tags ! i) \<noteq> tag_name t"
      using snoc.prems(1) by (auto simp: image_iff) (metis nth_mem)
    with i snoc show ?thesis
      by (simp add: build_cache_snoc gomap_simps nth_append)
  qed
qed simp

lemma cache_ok_get:
  "cache_ok tags_of c \<Longrightarrow> mget c ty = Some e \<Longrightarrow> e = build_cache (tags_of ty)"
  by (auto simp: cache_ok_def list_all_iff dest!: map_of_SomeD)

lemma cache_ok_put: "cache_ok tags_of c \<Longrightarrow> cache_ok tags_of (mput ty (build_cache (tags_of ty)) c)"
  by (induction c) (auto simp: cache_ok_def)

section \<open>Struct tables\<close>

locale struct_table =
  fixes fs :: "'s fdesc list"
  assumes tags_distinct: "distinct (map (tag_name \<circ> fd_tag) fs)"
    and tags_nonempty: "f \<in> set fs \<Longrightarrow> fd_tag f \<noteq> ''''"
    and get_kind: "f \<in> set fs \<Longrightarrow> has_kind (fd_kind f) (fd_get f s)"
    and get_set: "f \<in> set fs \<Longrightarrow> has_kind (fd_kind f) v \<Longrightarrow> fd_get f (fd_set f v s) = v"
    and get_set_other:
      "f \<in> set fs \<Longrightarrow> g \<in> set fs \<Longrightarrow> fd_tag f \<noteq> fd_tag g \<Longrightarrow> fd_get g (fd_set f v s) = fd_get g s"
    and ext_eq: "(\<And>f. f \<in> set fs \<Longrightarrow> fd_get f s = fd_get f t) \<Longrightarrow> s = t"
begin

lemma index_iff:
  "field_index fs n = Some i \<longleftrightarrow> i < length fs \<and> tag_name (fd_tag (fs ! i)) = n"
proof
  assume "field_index fs n = Some i"
  then show "i < length fs \<and> tag_name (fd_tag (fs ! i)) = n"
    unfolding field_index_def by (drule_tac build_cache_SomeD) auto
next
  assume i: "i < length fs \<and> tag_name (fd_tag (fs ! i)) = n"
  moreover have "distinct (map tag_name (map fd_tag fs))" using tags_distinct by simp
  ultimately show "field_index fs n = Some i"
    unfolding field_index_def using build_cache_find [of "map fd_tag fs" i] tags_nonempty by auto
qed

lemma set_Ok:
  assumes "setStructField fs s n value = Ok s'"
  obtains i v where "field_index fs n = Some i" "setFieldValue (fd_kind (fs ! i)) value = Ok v"
    "s' = fd_set (fs ! i) v s" "fs ! i \<in> set fs"
  using assms index_iff
  by (auto simp: setStructField_def split: option.splits outcome.splits)

lemma value_kind: "setFieldValue k value = Ok v \<Longrightarrow> has_kind k v"
  by (cases k) (auto simp: setFieldValue.simps split: if_splits gval.splits json.splits)

lemma field_get_set:
  assumes "setStructField fs s n value = Ok s'"
  shows "\<exists>i v. field_index fs n = Some i \<and> setFieldValue (fd_kind (fs ! i)) value = Ok v \<and>
           getStructField fs s' n = Ok v"
  using assms
  by (elim set_Ok) (auto simp: getStructField_def get_set dest!: value_kind)

lemma field_get_set_other:
  assumes "setStructField fs s n value = Ok s'" and "m \<noteq> n"
  shows "getStructField fs s' m = getStructField fs s m"
proof (cases "field_index fs m")
  case (Some j)
  from assms(1) obtain i v where i: "field_index fs n = Some i" and s': "s' = fd_set (fs ! i) v s"
    by (elim set_Ok)
  from i Some assms(2) have "fd_tag (fs ! i) \<noteq> fd_tag (fs ! j)" by (auto simp: index_iff)
  with i Some have "fd_get (fs ! j) s' = fd_get (fs ! j) s"
    unfolding s' by (intro get_set_other) (auto simp: index_iff)
  with Some show ?thesis by (simp add: getStructField_def)
qed (simp add: getStructField_def)

lemma field_set_same:
  assumes "getStructField fs s n = Ok v" and "v \<noteq> GJson JNull"
  shows "setStructField fs s n v = Ok s"
proof -
  from assms(1) obtain i where i: "field_index fs n = Some i" and v: "v = fd_get (fs ! i) s"
    by (auto simp: getStructField_def split: option.splits)
  then have f: "fs ! i \<in> set fs" and k: "has_kind (fd_kind (fs ! i)) v"
    using get_kind by (auto simp: index_iff)
  have "fd_set (fs ! i) v s = s"
  proof (rule ext_eq)
    fix g assume g: "g \<in> set fs"
    show "fd_get g (fd_set (fs ! i) v s) = fd_get g s"
    proof (cases "fd_tag g = fd_tag (fs ! i)")
      case True
      with g f tags_distinct have "g = fs ! i"
        by (metis comp_apply distinct_map inj_onD)
      with f k v show ?thesis by (simp add: get_set)
    next
      case False
      with g f show ?thesis by (intro get_set_other) auto
    qed
  qed
  with i k assms(2) show ?thesis
    by (simp add: setStructField_def setFieldValue.simps)
qed

lemma unknown_field: "n \<notin> set (map (tag_name \<circ> fd_tag) fs) \<Longrightarrow> field_index fs n = None"
  using index_iff [of n] by (cases "field_index fs n") (auto simp: image_iff, metis nth_mem)

end

section \<open>The tables of the source describe their structs\<close>

lemma has_kind_iff:
  "has_kind KStr v \<longleftrightarrow> (\<exists>x. v = GJson (JStr x))"
  "has_kind KBool v \<longleftrightarrow> (\<exists>x. v = GJson (JBool x))"
  "has_kind KInt v \<longleftrightarrow> (\<exists>x. v = GInt x)"
  "has_kind KStrs v \<longleftrightarrow> (\<exists>x. v = GStrs x)"
  "has_kind KPeers v \<longleftrightarrow> (\<exists>x. v = GPeers x)"
  "has_kind KIPv6Ptr v \<longleftrightarrow> (\<exists>x. v = GIPv6Ptr x)"
  by (cases v; auto split: json.splits elim: has_kind.elims)+

lemma tag_names:
  "tag_name t = (if CHR '','' \<in> set t then takeWhile (\<lambda>c. c \<noteq> CHR '','') t else t)"
proof (cases "CHR '','' \<in> set t")
  case True
  then obtain a b where "t = a @ CHR '','' # b" "CHR '','' \<notin> set a" by (meson split_list_first)
  moreover from this have "takeWhile (\<lambda>c. c \<noteq> CHR '','') t = a"
    by (auto simp: takeWhile_append2 intro!: takeWhile_append2 [THEN trans])
  ultimately show ?thesis by (simp add: tag_name_def split_on_append_sep)
qed (simp add: tag_name_def split_on_no_sep)

lemma fields_eq_all:
  "(\<And>f. f \<in> set fs \<Longrightarrow> fd_get f s = fd_get f t) \<Longrightarrow> list_all (\<lambda>f. fd_get f s = fd_get f t) fs"
  by (simp add: list_all_iff)

lemma table_intro:
  assumes "distinct (map (tag_name \<circ> fd_tag) fs)"
    and "list_all (\<lambda>f. fd_tag f \<noteq> [] \<and> (\<forall>s. has_kind (fd_kind f) (fd_get f s))) fs"
    and "list_all (\<lambda>f. \<forall>v s. has_kind (fd_kind f) v \<longrightarrow> fd_get f (fd_set f v s) = v) fs"
    and "list_all (\<lambda>f. \<forall>v s. list_all (\<lambda>g. fd_tag f \<noteq> fd_tag g \<longrightarrow> fd_get g (fd_set f v s) = fd_get g s) fs) fs"
    and "\<And>s t. list_all (\<lambda>f. fd_get f s = fd_get f t) fs \<Longrightarrow> s = t"
  shows "struct_table fs"
  using assms by unfold_locales (auto simp: list_all_iff)

lemmas table_simps = field_defs has_kind_iff opt_upd_def

interpretation route_table: struct_table Route_fields
proof (rule table_intro)
  show "distinct (map (tag_name \<circ> fd_tag) Route_fields)"
    by (simp add: Route_fields_def field_defs tag_names)
  show "list_all (\<lambda>f. fd_tag f \<noteq> [] \<and> (\<forall>s. has_kind (fd_kind f) (fd_get f s))) Route_fields"
    by (simp add: Route_fields_def table_simps)
  show "list_all (\<lambda>f. \<forall>v s. has_kind (fd_kind f) v \<longrightarrow> fd_get f (fd_set f v s) = v) Route_fields"
    by (auto simp: Route_fields_def table_simps)
  show "list_all (\<lambda>f. \<forall>v s. list_all (\<lambda>g. fd_tag f \<noteq> fd_tag g \<longrightarrow> fd_get g (fd_set f v s) = fd_get g s)
          Route_fields) Route_fields"
    by (simp add: Route_fields_def table_simps split: option.split)
  show "s = t" if "list_all (\<lambda>f. fd_get f s = fd_get f t) Route_fields" for s t
    using that by (cases s; cases t) (simp add: Route_fields_def table_simps)
qed

interpretation ipv6_table: struct_table IPv6Config_fields
proof (rule table_intro)
  show "distinct (map (tag_name \<circ> fd_tag) IPv6Config_fields)"
    by (simp add: IPv6Config_fields_def field_defs tag_names)
  show "list_all (\<lambda>f. fd_tag f \<noteq> [] \<and> (\<forall>s. has_kind (fd_kind f) (fd_get f s))) IPv6Config_fields"
    by (simp add: IPv6Config_fields_def table_simps)
  show "list_all (\<lambda>f. \<forall>v s. has_kind (fd_kind f) v \<longrightarrow> fd_get f (fd_set f v s) = v) IPv6Config_fields"
    by (auto simp: IPv6Config_fields_def table_simps)
  show "list_all (\<lambda>f. \<forall>v s. list_all (\<lambda>g. fd_tag f \<noteq> fd_tag g \<longrightarrow> fd_get g (fd_set f v s) = fd_get g s)
          IPv6Config_fields) IPv6Config_fields"
    by (simp add: IPv6Config_fields_def table_simps split: option.split)
  show "s = t" if "list_all (\<lambda>f. fd_get f s = fd_get f t) IPv6Config_fields" for s t
    using that by (cases s; cases t) (simp add: IPv6Config_fields_def table_simps)
qed

interpretation peer_table: struct_table WireGuardPeer_fields
proof (rule table_intro)
  show "distinct (map (tag_name \<circ> fd_tag) WireGuardPeer_fields)"
    by (simp add: WireGuardPeer_fields_def field_defs tag_names)
  show "list_all (\<lambda>f. fd_tag f \<noteq> [] \<and> (\<forall>s. has_kind (fd_kind f) (fd_get f s))) WireGuardPeer_fields"
    by (simp add: WireGuardPeer_fields_def table_simps)
  show "list_all (\<lambda>f. \<forall>v s. has_kind (fd_kind f) v \<longrightarrow> fd_get f (fd_set f v s) = v) WireGuardPeer_fields"
    by (auto simp: WireGuardPeer_fields_def table_simps)
  show "list_all (\<lambda>f. \<forall>v s. list_all (\<lambda>g. fd_tag f \<noteq> fd_tag g \<longrightarrow> fd_get g (fd_set f v s) = fd_get g s)
          WireGuardPeer_fields) WireGuardPeer_fields"
    by (simp add: WireGuardPeer_fields_def table_simps split: option.split)
  show "s = t" if "list_all (\<lambda>f. fd_get f s = fd_get f t) WireGuardPeer_fields" for s t
    using that by (cases s; cases t) (simp add: WireGuardPeer_fields_def table_simps)
qed

interpretation iface_table: struct_table Interface_fields
proof (rule table_intro)
  show "distinct (map (tag_name \<circ> fd_tag) Interface_fields)"
    by (simp add: Interface_fields_def field_defs tag_names)
  show "list_all (\<lambda>f. fd_tag f \<noteq> [] \<and> (\<forall>s. has_kind (fd_kind f) (fd_get f s))) Interface_fields"
    by (simp add: Interface_fields_def table_simps)
  show "list_all (\<lambda>f. \<forall>v s. has_kind (fd_kind f) v \<longrightarrow> fd_get f (fd_set f v s) = v) Interface_fields"
    by (auto simp: Interface_fields_def table_simps)
  show "list_all (\<lambda>f. \<forall>v s. list_all (\<lambda>g. fd_tag f \<noteq> fd_tag g \<longrightarrow> fd_get g (fd_set f v s) = fd_get g s)
          Interface_fields) Interface_fields"
    by (simp add: Interface_fields_def table_simps split: option.split)
  show "s = t" if "list_all (\<lambda>f. fd_get f s = fd_get f t) Interface_fields" for s t
    using that by (cases s; cases t) (simp add: Interface_fields_def table_simps)
qed

end
