(* ===== verification/Codec.thy ===== *)
theory Codec
  imports Navigator
begin

text \<open>
  \<open>json.Marshal\<close> and \<open>json.Unmarshal\<close> of the configuration structs, driven by the field tables:
  \<open>omitempty\<close>, exact and folded key lookup, \<open>null\<close> leaving a field alone, and the checks on the
  type of each value. \<open>Unmarshal\<close> goes on after a value of the wrong type and reports the first
  such error at the end; every caller drops the decoded value then, so the model stops at it.
\<close>

section \<open>Encoding\<close>

text \<open>The values \<open>omitempty\<close> leaves out.\<close>

fun empty_val :: "gval \<Rightarrow> bool" where
  "empty_val (GJson v) \<longleftrightarrow> v = JStr [] \<or> v = JBool False \<or> v = JNull"
| "empty_val (GInt i) \<longleftrightarrow> i = 0"
| "empty_val (GStrs xs) \<longleftrightarrow> elems xs = []"
| "empty_val (GPeers xs) \<longleftrightarrow> elems xs = []"
| "empty_val (GIPv6Ptr p) \<longleftrightarrow> p = None"
| "empty_val _ \<longleftrightarrow> False"

definition enc_slice :: "('a \<Rightarrow> json) \<Rightarrow> 'a slice \<Rightarrow> json" where
  "enc_slice enc xs = (case xs of None \<Rightarrow> JNull | Some l \<Rightarrow> JArr (map enc l))"

definition enc_map :: "('a \<Rightarrow> json) \<Rightarrow> (string, 'a) gomap option \<Rightarrow> json" where
  "enc_map enc m = (case m of None \<Rightarrow> JNull | Some l \<Rightarrow> JObj (sort_key fst (mmap enc l)))"

definition kept :: "'s \<Rightarrow> 's fdesc \<Rightarrow> bool" where
  "kept s f \<longleftrightarrow> \<not> (tag_omitempty (fd_tag f) \<and> empty_val (fd_get f s))"

definition enc_struct :: "(gval \<Rightarrow> json) \<Rightarrow> 's fdesc list \<Rightarrow> 's \<Rightarrow> json" where
  "enc_struct enc fs s =
     JObj (map (\<lambda>f. (tag_name (fd_tag f), enc (fd_get f s))) (filter (kept s) fs))"

text \<open>Fields of basic types, then the fields that hold other structs.\<close>

fun enc_basic :: "gval \<Rightarrow> json" where
  "enc_basic (GJson v) = v"
| "enc_basic (GInt i) = JNum (of_int i)"
| "enc_basic (GStrs xs) = enc_slice JStr xs"
| "enc_basic _ = JNull"

fun enc_gval :: "gval \<Rightarrow> json" where
  "enc_gval (GPeers ps) = enc_slice (enc_struct enc_basic WireGuardPeer_fields) ps"
| "enc_gval (GIPv6Ptr p) =
     (case p of None \<Rightarrow> JNull | Some c \<Rightarrow> enc_struct enc_basic IPv6Config_fields c)"
| "enc_gval v = enc_basic v"

definition enc_Interface :: "Interface \<Rightarrow> json" where
  "enc_Interface = enc_struct enc_gval Interface_fields"

definition enc_Route :: "Route \<Rightarrow> json" where
  "enc_Route = enc_struct enc_gval Route_fields"

section \<open>Decoding\<close>

definition type_err :: "string \<Rightarrow> 'a outcome" where
  "type_err t = Err (''json: cannot unmarshal value into Go value of type '' @ t)"

text \<open>An object into a struct: each key goes to the field of that name, unknown keys are dropped.\<close>

type_synonym 's handler = "string \<times> (json \<Rightarrow> 's \<Rightarrow> 's outcome)"

definition find_handler :: "'s handler list \<Rightarrow> string \<Rightarrow> (json \<Rightarrow> 's \<Rightarrow> 's outcome) option" where
  "find_handler hs k =
     (case find (\<lambda>h. fst h = k) hs of
        Some h \<Rightarrow> Some (snd h)
      | None \<Rightarrow> map_option snd (find (\<lambda>h. fold_name (fst h) = fold_name k) hs))"

definition dec_pairs :: "'s handler list \<Rightarrow> (string \<times> json) list \<Rightarrow> 's \<Rightarrow> 's outcome" where
  "dec_pairs hs = ofold (\<lambda>(k, v) s. case find_handler hs k of None \<Rightarrow> Ok s | Some h \<Rightarrow> h v s)"

definition dec_object :: "string \<Rightarrow> 's handler list \<Rightarrow> json \<Rightarrow> 's \<Rightarrow> 's outcome" where
  "dec_object t hs v s =
     (case v of JNull \<Rightarrow> Ok s | JObj ps \<Rightarrow> dec_pairs hs ps s | _ \<Rightarrow> type_err t)"

definition dec_slice :: "string \<Rightarrow> (json \<Rightarrow> 'a outcome) \<Rightarrow> json \<Rightarrow> 'a slice outcome" where
  "dec_slice t dec v =
     (case v of
        JNull \<Rightarrow> Ok None
      | JArr vs \<Rightarrow> obind (ofold (\<lambda>v acc. obind (dec v) (\<lambda>x. Ok (acc @ [x]))) vs []) (\<lambda>l. Ok (Some l))
      | _ \<Rightarrow> type_err t)"

definition dec_map :: "string \<Rightarrow> (json \<Rightarrow> 'a outcome) \<Rightarrow> json \<Rightarrow> (string, 'a) gomap option outcome" where
  "dec_map t dec v =
     (case v of
        JNull \<Rightarrow> Ok None
      | JObj ps \<Rightarrow>
          obind (ofold (\<lambda>(k, v) m. obind (dec v) (\<lambda>x. Ok (mput k x m))) ps []) (\<lambda>m. Ok (Some m))
      | _ \<Rightarrow> type_err t)"

definition dec_string :: "string \<Rightarrow> json \<Rightarrow> string outcome" where
  "dec_string cur v = (case v of JNull \<Rightarrow> Ok cur | JStr x \<Rightarrow> Ok x | _ \<Rightarrow> type_err ''string'')"

definition dec_bool :: "bool \<Rightarrow> json \<Rightarrow> bool outcome" where
  "dec_bool cur v = (case v of JNull \<Rightarrow> Ok cur | JBool b \<Rightarrow> Ok b | _ \<Rightarrow> type_err ''bool'')"

definition dec_int :: "int \<Rightarrow> json \<Rightarrow> int outcome" where
  "dec_int cur v =
     (case v of
        JNull \<Rightarrow> Ok cur
      | JNum q \<Rightarrow> if of_int \<lfloor>q\<rfloor> = q \<and> in_int64 \<lfloor>q\<rfloor> then Ok \<lfloor>q\<rfloor> else type_err ''int''
      | _ \<Rightarrow> type_err ''int'')"

text \<open>Into a field of kind \<open>k\<close> whose current value is \<open>cur\<close>.\<close>

definition dec_basic :: "fkind \<Rightarrow> gval \<Rightarrow> json \<Rightarrow> gval outcome" where
  "dec_basic k cur v =
     (case k of
        KStr \<Rightarrow> obind (dec_string (the (as_str cur)) v) (\<lambda>x. Ok (GJson (JStr x)))
      | KBool \<Rightarrow> obind (dec_bool (the (as_bool cur)) v) (\<lambda>b. Ok (GJson (JBool b)))
      | KInt \<Rightarrow> obind (dec_int (the (as_int cur)) v) (\<lambda>i. Ok (GInt i))
      | KStrs \<Rightarrow> obind (dec_slice ''[]string'' (dec_string []) v) (\<lambda>l. Ok (GStrs l))
      | _ \<Rightarrow> Ok cur)"

definition handlers :: "(fkind \<Rightarrow> gval \<Rightarrow> json \<Rightarrow> gval outcome) \<Rightarrow> 's fdesc list \<Rightarrow> 's handler list" where
  "handlers dec fs =
     map (\<lambda>f. (tag_name (fd_tag f),
               \<lambda>v s. obind (dec (fd_kind f) (fd_get f s) v) (\<lambda>x. Ok (fd_set f x s)))) fs"

definition zero_IPv6Config :: IPv6Config where
  "zero_IPv6Config =
     \<lparr>ip6_Protocol = [], ip6_IP6Addr = [], ip6_IP6GW = [], ip6_IP6Prefix = [], ip6_DNS6 = None,
      ip6_Enabled = False\<rparr>"

definition zero_WireGuardPeer :: WireGuardPeer where
  "zero_WireGuardPeer =
     \<lparr>wp_PublicKey = [], wp_PresharedKey = [], wp_Endpoint = [], wp_Comment = [],
      wp_AllowedIPs = None, wp_PersistentKeepalive = 0\<rparr>"

definition zero_Interface :: Interface where
  "zero_Interface =
     \<lparr>if_IPv6 = None, if_Gateway = [], if_Comment = [], if_MAC = [], if_Type = [], if_Device = [],
      if_DeviceName = [], if_Protocol = [], if_IPAddr = [], if_WGPrivateKey = [], if_Netmask = [],
      if_BridgePorts = None, if_DNS = None, if_WGPeers = None, if_Metric = 0, if_MTU = 0,
      if_BridgeForwardDelay = 0, if_VLANId = 0, if_WGListenPort = 0, if_Enabled = False,
      if_BridgeSTP = False\<rparr>"

definition zero_Route :: Route where
  "zero_Route =
     \<lparr>rt_Name = [], rt_Destination = [], rt_Gateway = [], rt_Interface = [], rt_Comment = [],
      rt_Metric = 0, rt_Table = 0, rt_Enabled = False\<rparr>"

definition dec_WireGuardPeer :: "json \<Rightarrow> WireGuardPeer outcome" where
  "dec_WireGuardPeer v =
     dec_object ''types.WireGuardPeer'' (handlers dec_basic WireGuardPeer_fields) v zero_WireGuardPeer"

definition dec_IPv6Config :: "IPv6Config \<Rightarrow> json \<Rightarrow> IPv6Config outcome" where
  "dec_IPv6Config cur v =
     dec_object ''types.IPv6Config'' (handlers dec_basic IPv6Config_fields) v cur"

definition dec_gval :: "fkind \<Rightarrow> gval \<Rightarrow> json \<Rightarrow> gval outcome" where
  "dec_gval k cur v =
     (case k of
        KPeers \<Rightarrow> obind (dec_slice ''[]types.WireGuardPeer'' dec_WireGuardPeer v) (\<lambda>l. Ok (GPeers l))
      | KIPv6Ptr \<Rightarrow>
          (if v = JNull then Ok (GIPv6Ptr None)
           else obind (dec_IPv6Config (case as_ipv6 cur of Some (Some c) \<Rightarrow> c | _ \<Rightarrow> zero_IPv6Config) v)
                  (\<lambda>c. Ok (GIPv6Ptr (Some c))))
      | _ \<Rightarrow> dec_basic k cur v)"

definition dec_Interface :: "json \<Rightarrow> Interface outcome" where
  "dec_Interface v =
     dec_object ''types.Interface'' (handlers dec_gval Interface_fields) v zero_Interface"

definition dec_Route :: "json \<Rightarrow> Route outcome" where
  "dec_Route v = dec_object ''types.Route'' (handlers dec_gval Route_fields) v zero_Route"

section \<open>Round trip of a struct\<close>

text \<open>
  Values that survive: integers in the 64-bit range, and no slice that is empty without being
  nil (\<open>omitempty\<close> drops both, and the decoder then leaves nil).
\<close>

definition codec_ok :: "bool \<Rightarrow> gval \<Rightarrow> bool" where
  "codec_ok omit v \<longleftrightarrow>
     (case v of
        GInt i \<Rightarrow> in_int64 i
      | GStrs xs \<Rightarrow> omit \<longrightarrow> xs \<noteq> Some []
      | GPeers xs \<Rightarrow> omit \<longrightarrow> xs \<noteq> Some []
      | _ \<Rightarrow> True)"

definition storable :: "'s fdesc list \<Rightarrow> (gval \<Rightarrow> bool) \<Rightarrow> 's \<Rightarrow> bool" where
  "storable fs good s \<longleftrightarrow>
     list_all (\<lambda>f. codec_ok (tag_omitempty (fd_tag f)) (fd_get f s) \<and> good (fd_get f s)) fs"

lemma find_handler_exact:
  assumes "distinct (map fst hs)" and "(k, h) \<in> set hs"
  shows "find_handler hs k = Some h"
proof -
  have "find (\<lambda>h. fst h = k) hs = Some (k, h)"
    using assms by (induction hs) (auto simp: rev_image_eqI)
  then show ?thesis by (simp add: find_handler_def)
qed

lemma empty_val_zero: "has_kind k v \<Longrightarrow> codec_ok True v \<Longrightarrow> empty_val v \<Longrightarrow> v = zero_of k"
  by (cases k) (auto simp: has_kind_iff codec_ok_def elems_def split: option.splits)

locale codec_table = struct_table fs for fs :: "'s fdesc list" +
  fixes enc :: "gval \<Rightarrow> json"
    and dec :: "fkind \<Rightarrow> gval \<Rightarrow> json \<Rightarrow> gval outcome"
    and zero :: 's
    and good :: "gval \<Rightarrow> bool"
  assumes zero_get: "f \<in> set fs \<Longrightarrow> fd_get f zero = zero_of (fd_kind f)"
    and dec_enc:
      "f \<in> set fs \<Longrightarrow> has_kind (fd_kind f) v \<Longrightarrow> codec_ok (tag_omitempty (fd_tag f)) v \<Longrightarrow> good v \<Longrightarrow>
       dec (fd_kind f) (zero_of (fd_kind f)) (enc v) = Ok v"
begin



lemma handler_of: "f \<in> set fs \<Longrightarrow>
  find_handler (handlers dec fs) (tag_name (fd_tag f)) =
    Some (\<lambda>v s. obind (dec (fd_kind f) (fd_get f s) v) (\<lambda>x. Ok (fd_set f x s)))"
  using tags_distinct by (intro find_handler_exact) (auto simp: handlers_def comp_def)

lemma dec_pairs_fields:
  assumes "set gs \<subseteq> set fs" and "distinct (map fd_tag gs)" and "storable fs good s"
    and "\<And>g. g \<in> set gs \<Longrightarrow> fd_get g t = zero_of (fd_kind g)"
  shows "\<exists>t'. dec_pairs (handlers dec fs) (map (\<lambda>f. (tag_name (fd_tag f), enc (fd_get f s))) gs) t = Ok t' \<and>
           (\<forall>f\<in>set fs. fd_get f t' = (if fd_tag f \<in> fd_tag ` set gs then fd_get f s else fd_get f t))"
  using assms
proof (induction gs arbitrary: t)
  case Nil
  then show ?case by (simp add: dec_pairs_def)
next
  case (Cons g gs)
  let ?t = "fd_set g (fd_get g s) t"
  have g: "g \<in> set fs" and kind: "has_kind (fd_kind g) (fd_get g s)"
    using Cons.prems(1) get_kind by auto
  have "dec (fd_kind g) (fd_get g t) (enc (fd_get g s)) = Ok (fd_get g s)"
    using dec_enc [OF g kind] Cons.prems(3,4) g by (simp add: storable_def list_all_iff)
  then have step: "dec_pairs (handlers dec fs) (map (\<lambda>f. (tag_name (fd_tag f), enc (fd_get f s))) (g # gs)) t
      = dec_pairs (handlers dec fs) (map (\<lambda>f. (tag_name (fd_tag f), enc (fd_get f s))) gs) ?t"
    by (simp only: dec_pairs_def list.map ofold.simps prod.case handler_of [OF g] option.case obind.simps)
  have other: "fd_get f ?t = (if fd_tag f = fd_tag g then fd_get f s else fd_get f t)" if "f \<in> set fs" for f
  proof (cases "fd_tag f = fd_tag g")
    case True
    with that g tags_distinct have "f = g" by (metis comp_apply distinct_map inj_onD)
    then show ?thesis by (simp add: get_set [OF g kind])
  next
    case False
    then have "fd_tag g \<noteq> fd_tag f" by simp
    with False that g show ?thesis by (simp add: get_set_other)
  qed
  have "\<exists>t'. dec_pairs (handlers dec fs) (map (\<lambda>f. (tag_name (fd_tag f), enc (fd_get f s))) gs) ?t = Ok t' \<and>
      (\<forall>f\<in>set fs. fd_get f t' = (if fd_tag f \<in> fd_tag ` set gs then fd_get f s else fd_get f ?t))"
  proof (rule Cons.IH)
    fix f assume "f \<in> set gs"
    moreover from this Cons.prems(2) have "fd_tag f \<noteq> fd_tag g" by (auto simp: rev_image_eqI)
    ultimately show "fd_get f ?t = zero_of (fd_kind f)"
      using Cons.prems(1,4) other [of f] by auto
  qed (use Cons.prems in auto)
  then show ?case unfolding step using other by auto
qed

lemma round_trip:
  assumes "storable fs good s"
  shows "dec_object ty (handlers dec fs) (enc_struct enc fs s) zero = Ok s"
proof -
  let ?gs = "filter (kept s) fs"
  have dist: "distinct (map fd_tag fs)"
    using tags_distinct by (metis distinct_map map_map)
  have zero: "g \<in> set ?gs \<Longrightarrow> fd_get g zero = zero_of (fd_kind g)" for g
    using zero_get by auto
  obtain t' where t': "dec_pairs (handlers dec fs)
        (map (\<lambda>f. (tag_name (fd_tag f), enc (fd_get f s))) ?gs) zero = Ok t'"
    and get: "\<forall>f\<in>set fs. fd_get f t' = (if fd_tag f \<in> fd_tag ` set ?gs then fd_get f s else fd_get f zero)"
    using dec_pairs_fields [of ?gs s zero] assms zero distinct_map_filter [OF dist] by auto
  have "t' = s"
  proof (rule ext_eq)
    fix f assume f: "f \<in> set fs"
    show "fd_get f t' = fd_get f s"
    proof (cases "kept s f")
      case True
      with f get show ?thesis by auto
    next
      case False
      then have "tag_omitempty (fd_tag f)" "empty_val (fd_get f s)" by (auto simp: kept_def)
      moreover have "codec_ok (tag_omitempty (fd_tag f)) (fd_get f s)"
        using assms f by (auto simp: storable_def list_all_iff)
      ultimately have "fd_get f s = zero_of (fd_kind f)"
        using empty_val_zero get_kind [OF f] by auto
      with f get zero_get show ?thesis by auto
    qed
  qed
  with t' show ?thesis by (simp add: dec_object_def enc_struct_def)
qed

end

section \<open>The codecs of the configuration structs\<close>

lemma dec_slice_map:
  assumes "\<And>x. x \<in> set l \<Longrightarrow> dec (enc x) = Ok x"
  shows "dec_slice t dec (enc_slice enc (Some l)) = Ok (Some l)"
proof -
  have "ofold (\<lambda>v acc. obind (dec v) (\<lambda>x. Ok (acc @ [x]))) (map enc l) acc = Ok (acc @ l)" for acc
    using assms by (induction l arbitrary: acc) auto
  then show ?thesis by (simp add: dec_slice_def enc_slice_def)
qed

lemma dec_slice_round:
  "(\<And>x. x \<in> set (elems xs) \<Longrightarrow> dec (enc x) = Ok x) \<Longrightarrow> dec_slice t dec (enc_slice enc xs) = Ok xs"
  by (cases xs) (auto simp: dec_slice_map elems_def, simp add: dec_slice_def enc_slice_def)

lemma dec_basic_round:
  assumes "has_kind k v" and "k \<noteq> KPeers" and "k \<noteq> KIPv6Ptr" and "codec_ok omit v"
  shows "dec_basic k (zero_of k) (enc_basic v) = Ok v"
proof (cases k)
  case KStrs
  with assms obtain xs where "v = GStrs xs" by (auto simp: has_kind_iff)
  moreover have "dec_slice t (dec_string []) (enc_slice JStr xs) = Ok xs" for t
    by (rule dec_slice_round) (simp add: dec_string_def)
  ultimately show ?thesis using KStrs by (simp add: dec_basic_def)
qed (use assms in \<open>auto simp: has_kind_iff dec_basic_def dec_string_def dec_bool_def dec_int_def codec_ok_def\<close>)

definition always :: "gval \<Rightarrow> bool" where
  "always _ = True"

interpretation ipv6_codec: codec_table IPv6Config_fields enc_basic dec_basic zero_IPv6Config always
proof
  have kinds: "list_all (\<lambda>f. fd_kind f \<noteq> KPeers \<and> fd_kind f \<noteq> KIPv6Ptr \<and>
      fd_get f zero_IPv6Config = zero_of (fd_kind f)) IPv6Config_fields"
    by (simp add: IPv6Config_fields_def field_defs zero_IPv6Config_def)
  fix f :: "IPv6Config fdesc" and v
  assume f: "f \<in> set IPv6Config_fields"
  with kinds show "fd_get f zero_IPv6Config = zero_of (fd_kind f)" by (auto simp: list_all_iff)
  show "has_kind (fd_kind f) v \<Longrightarrow> codec_ok (tag_omitempty (fd_tag f)) v \<Longrightarrow> always v \<Longrightarrow>
      dec_basic (fd_kind f) (zero_of (fd_kind f)) (enc_basic v) = Ok v"
    using kinds f by (intro dec_basic_round) (auto simp: list_all_iff)
qed

interpretation peer_codec: codec_table WireGuardPeer_fields enc_basic dec_basic zero_WireGuardPeer always
proof
  have kinds: "list_all (\<lambda>f. fd_kind f \<noteq> KPeers \<and> fd_kind f \<noteq> KIPv6Ptr \<and>
      fd_get f zero_WireGuardPeer = zero_of (fd_kind f)) WireGuardPeer_fields"
    by (simp add: WireGuardPeer_fields_def field_defs zero_WireGuardPeer_def)
  fix f :: "WireGuardPeer fdesc" and v
  assume f: "f \<in> set WireGuardPeer_fields"
  with kinds show "fd_get f zero_WireGuardPeer = zero_of (fd_kind f)" by (auto simp: list_all_iff)
  show "has_kind (fd_kind f) v \<Longrightarrow> codec_ok (tag_omitempty (fd_tag f)) v \<Longrightarrow> always v \<Longrightarrow>
      dec_basic (fd_kind f) (zero_of (fd_kind f)) (enc_basic v) = Ok v"
    using kinds f by (intro dec_basic_round) (auto simp: list_all_iff)
qed

text \<open>Peers and the IPv6 section inside an interface must be storable themselves.\<close>

definition nested_ok :: "gval \<Rightarrow> bool" where
  "nested_ok v \<longleftrightarrow>
     (case v of
        GPeers ps \<Rightarrow> list_all (storable WireGuardPeer_fields always) (elems ps)
      | GIPv6Ptr (Some c) \<Rightarrow> storable IPv6Config_fields always c
      | _ \<Rightarrow> True)"

lemma dec_gval_round:
  assumes "has_kind k v" and "codec_ok omit v" and "nested_ok v"
  shows "dec_gval k (zero_of k) (enc_gval v) = Ok v"
proof (cases k)
  case KPeers
  with assms(1) obtain ps where v: "v = GPeers ps" by (auto simp: has_kind_iff)
  have "dec_slice t dec_WireGuardPeer (enc_slice (enc_struct enc_basic WireGuardPeer_fields) ps) = Ok ps" for t
    using assms(3) v unfolding dec_WireGuardPeer_def
    by (intro dec_slice_round peer_codec.round_trip) (auto simp: nested_ok_def list_all_iff)
  with KPeers v show ?thesis by (simp add: dec_gval_def)
next
  case KIPv6Ptr
  with assms(1) obtain c where "v = GIPv6Ptr c" by (auto simp: has_kind_iff)
  moreover have "enc_struct enc_basic IPv6Config_fields x \<noteq> JNull" for x
    by (simp add: enc_struct_def)
  ultimately show ?thesis using KIPv6Ptr assms(3)
    by (cases c) (auto simp: dec_gval_def dec_IPv6Config_def nested_ok_def ipv6_codec.round_trip)
qed (use assms dec_basic_round [of k v omit] in \<open>auto simp: dec_gval_def has_kind_iff\<close>)

interpretation iface_codec: codec_table Interface_fields enc_gval dec_gval zero_Interface nested_ok
proof
  have "list_all (\<lambda>f. fd_get f zero_Interface = zero_of (fd_kind f)) Interface_fields"
    by (simp add: Interface_fields_def field_defs zero_Interface_def)
  then show "f \<in> set Interface_fields \<Longrightarrow> fd_get f zero_Interface = zero_of (fd_kind f)" for f
    by (auto simp: list_all_iff)
qed (rule dec_gval_round)

interpretation route_codec: codec_table Route_fields enc_gval dec_gval zero_Route nested_ok
proof
  have "list_all (\<lambda>f. fd_get f zero_Route = zero_of (fd_kind f)) Route_fields"
    by (simp add: Route_fields_def field_defs zero_Route_def)
  then show "f \<in> set Route_fields \<Longrightarrow> fd_get f zero_Route = zero_of (fd_kind f)" for f
    by (auto simp: list_all_iff)
qed (rule dec_gval_round)

lemma Interface_round_trip:
  "storable Interface_fields nested_ok i \<Longrightarrow> dec_Interface (enc_Interface i) = Ok i"
  unfolding dec_Interface_def enc_Interface_def by (rule iface_codec.round_trip)

lemma Route_round_trip:
  "in_int64 (rt_Metric r) \<Longrightarrow> in_int64 (rt_Table r) \<Longrightarrow> dec_Route (enc_Route r) = Ok r"
  unfolding dec_Route_def enc_Route_def
  by (rule route_codec.round_trip)
     (simp add: storable_def Route_fields_def field_defs codec_ok_def nested_ok_def)

end
