(* ===== verification/Path.thy ===== *)
theory Path
  imports Codec "HOL-Library.Sublist"
begin

text \<open>
  Dotted paths, \<open>src/daemon/path.go\<close>: reading and writing a value inside a configuration. A
  configuration is one of the pointers and maps the daemon keeps per namespace. Maps are mutated
  in place by the source; every one of them is owned by the configuration that holds it, so the
  model returns the updated configuration.
\<close>

section \<open>Configurations\<close>

datatype config =
    CInterfaces InterfacesConfig
  | CRoutes RoutesConfig
  | CJack JackConfig
  | CMap "(string, json) gomap option"

text \<open>
  A value stored inside a plugin map is kept as the JSON value it is; a typed value passed by an
  in-process caller is kept in its JSON form, the only form files and responses show.
\<close>

fun json_of :: "gval \<Rightarrow> json" where
  "json_of (GIPv6 c) = enc_struct enc_basic IPv6Config_fields c"
| "json_of (GInterface i) = enc_Interface i"
| "json_of (GInterfaceMap m) = enc_map enc_Interface m"
| "json_of (GRoute r) = enc_Route r"
| "json_of (GRoutePtr r) = enc_Route r"
| "json_of (GRouteMap m) = enc_map enc_Route m"
| "json_of (GRouteSlice l) = enc_slice enc_Route l"
| "json_of v = enc_gval v"

definition ParseConfigType :: "string \<Rightarrow> string outcome" where
  "ParseConfigType path =
     (let parts = split_on (CHR ''.'') path in
      if length parts < 1 then Err (''invalid path: '' @ path)
      else let configType = parts ! 0 in
        if configType = '''' then Err (''invalid path: '' @ path) else Ok configType)"

section \<open>Generic maps\<close>

fun setGenericValue :: "(string, json) gomap \<Rightarrow> string list \<Rightarrow> json \<Rightarrow> (string, json) gomap outcome" where
  "setGenericValue config [] value = Err ''empty path''"
| "setGenericValue config [k] value = Ok (mput k value config)"
| "setGenericValue config (k # p # ps) value =
     (case mget config k of
        None \<Rightarrow> Err (''key '' @ quoted k @ '' not found'')
      | Some (JObj nextMap) \<Rightarrow>
          obind (setGenericValue nextMap (p # ps) value) (\<lambda>m. Ok (mput k (JObj m) config))
      | Some _ \<Rightarrow> Err (''cannot navigate into non-map value at '' @ quoted k))"

fun getGenericValue :: "(string, json) gomap \<Rightarrow> string list \<Rightarrow> json outcome" where
  "getGenericValue config [] = Ok (JObj config)"
| "getGenericValue config [k] =
     (case mget config k of None \<Rightarrow> Err (''key '' @ quoted k @ '' not found'') | Some value \<Rightarrow> Ok value)"
| "getGenericValue config (k # p # ps) =
     (case mget config k of
        None \<Rightarrow> Err (''key '' @ quoted k @ '' not found'')
      | Some (JObj nextMap) \<Rightarrow> getGenericValue nextMap (p # ps)
      | Some value \<Rightarrow> Ok value)"

text \<open>A write through a map variable that may be nil.\<close>

definition setGenericTop :: "(string, json) gomap option \<Rightarrow> string list \<Rightarrow> json \<Rightarrow> (string, json) gomap option outcome" where
  "setGenericTop config path value =
     (case config of
        Some m \<Rightarrow> obind (setGenericValue m path value) (\<lambda>m'. Ok (Some m'))
      | None \<Rightarrow>
          (case path of
             [] \<Rightarrow> Err ''empty path''
           | [k] \<Rightarrow> Panic
           | k # _ \<Rightarrow> Err (''key '' @ quoted k @ '' not found'')))"

text \<open>Clearing the map and copying the entries of the new value into it.\<close>

definition replaceConfig :: "(string, json) gomap option \<Rightarrow> json \<Rightarrow> (string, json) gomap option outcome" where
  "replaceConfig config value =
     (case value of
        JObj valueMap \<Rightarrow>
          (case config of
             Some configMap \<Rightarrow>
               (let cleared = foldl (\<lambda>m k. mdel k m) configMap (mkeys configMap)
                in Ok (Some (mcopy cleared valueMap)))
           | None \<Rightarrow> if valueMap = [] then Ok None else Panic)
      | _ \<Rightarrow> Err ''value must be a map when setting entire config'')"

section \<open>Interfaces\<close>

definition setInterfaceField :: "Interface \<Rightarrow> string list \<Rightarrow> gval \<Rightarrow> Interface outcome" where
  "setInterfaceField iface parts value =
     (if length parts > 1 then Err ''nested paths not yet supported''
      else setStructField Interface_fields iface (parts ! 0) value)"

definition getInterfaceField :: "Interface \<Rightarrow> string list \<Rightarrow> gval outcome" where
  "getInterfaceField iface parts =
     (if length parts > 1 then Err ''nested paths not yet supported''
      else getStructField Interface_fields iface (parts ! 0))"

definition to_interface_map :: "gval \<Rightarrow> (string, Interface) gomap option outcome" where
  "to_interface_map value =
     (case value of
        GInterfaceMap m \<Rightarrow> Ok m
      | _ \<Rightarrow> wrap_err ''value must be map[string]types.Interface when setting interfaces: ''
               (dec_map ''map[string]types.Interface'' dec_Interface (marshal (json_of value))))"

definition to_interface :: "gval \<Rightarrow> Interface outcome" where
  "to_interface value =
     (case value of
        GInterface i \<Rightarrow> Ok i
      | _ \<Rightarrow> wrap_err ''value must be types.Interface when setting interface: ''
               (dec_Interface (marshal (json_of value))))"

text \<open>Assignment to a map entry; on a nil map it panics.\<close>

definition map_assign :: "(string, 'v) gomap option \<Rightarrow> string \<Rightarrow> 'v \<Rightarrow> (string, 'v) gomap option outcome" where
  "map_assign m k v = (case m of None \<Rightarrow> Panic | Some l \<Rightarrow> Ok (Some (mput k v l)))"

definition map_lookup :: "(string, 'v) gomap option \<Rightarrow> string \<Rightarrow> 'v option" where
  "map_lookup m k = (case m of None \<Rightarrow> None | Some l \<Rightarrow> mget l k)"

definition setInterfacesValue :: "InterfacesConfig \<Rightarrow> string list \<Rightarrow> gval \<Rightarrow> InterfacesConfig outcome" where
  "setInterfacesValue config parts value =
     (if length parts = 1 \<and> parts ! 0 = ''interfaces'' then
        obind (to_interface_map value) (\<lambda>m. Ok (config\<lparr>ic_Interfaces := m\<rparr>))
      else if length parts < 2 then Err ''invalid path for interfaces''
      else let ifaceName = parts ! 1 in
        if length parts = 2 then
          obind (to_interface value) (\<lambda>ifaceStruct.
          obind (map_assign (ic_Interfaces config) ifaceName ifaceStruct) (\<lambda>m.
          Ok (config\<lparr>ic_Interfaces := m\<rparr>)))
        else
          (case map_lookup (ic_Interfaces config) ifaceName of
             None \<Rightarrow> Err (''interface '' @ quoted ifaceName @ '' not found'')
           | Some iface \<Rightarrow>
               obind (setInterfaceField iface (drop 2 parts) value) (\<lambda>iface'.
               obind (map_assign (ic_Interfaces config) ifaceName iface') (\<lambda>m.
               Ok (config\<lparr>ic_Interfaces := m\<rparr>)))))"

definition getInterfacesValue :: "InterfacesConfig \<Rightarrow> string list \<Rightarrow> gval outcome" where
  "getInterfacesValue config parts =
     (if length parts = 1 \<and> parts ! 0 = ''interfaces'' then Ok (GInterfaceMap (ic_Interfaces config))
      else if length parts < 2 then Err ''invalid path for interfaces''
      else let ifaceName = parts ! 1 in
        (case map_lookup (ic_Interfaces config) ifaceName of
           None \<Rightarrow> Err (''interface '' @ quoted ifaceName @ '' not found'')
         | Some iface \<Rightarrow>
             if length parts = 2 then Ok (GInterface iface)
             else getInterfaceField iface (drop 2 parts)))"

section \<open>Routes\<close>

definition setRoute :: "Route \<Rightarrow> string list \<Rightarrow> gval \<Rightarrow> Route outcome" where
  "setRoute route parts value =
     (if length parts = 0 then Err ''need to specify route field''
      else let field = parts ! 0 in
        if field = ''name'' then
          Err (''unknown route field: '' @ field @ '' (read-only field: name)'')
        else setStructField Route_fields route field value)"

definition getRoute :: "Route \<Rightarrow> string list \<Rightarrow> gval outcome" where
  "getRoute route parts =
     (if length parts = 0 then Ok (GRoutePtr route)
      else getStructField Route_fields route (parts ! 0))"

text \<open>A slice of routes as a map: the name of a route, or its index when it has none.\<close>

definition routes_of_slice :: "Route slice \<Rightarrow> (string, Route) gomap option" where
  "routes_of_slice l =
     Some (foldl (\<lambda>m (i, route). mput (if rt_Name route = '''' then ''route-'' @ show_nat i else rt_Name route) route m)
             [] (List.enumerate 0 (elems l)))"

definition to_route_map :: "gval \<Rightarrow> (string, Route) gomap option outcome" where
  "to_route_map value =
     (case value of
        GRouteMap m \<Rightarrow> Ok m
      | GRouteSlice l \<Rightarrow> Ok (routes_of_slice l)
      | _ \<Rightarrow>
          (case dec_map ''map[string]types.Route'' dec_Route (marshal (json_of value)) of
             Ok m \<Rightarrow> Ok m
           | Panic \<Rightarrow> Panic
           | Err e \<Rightarrow>
               (case dec_slice ''[]types.Route'' dec_Route (marshal (json_of value)) of
                  Ok l \<Rightarrow> Ok (routes_of_slice l)
                | Panic \<Rightarrow> Panic
                | Err _ \<Rightarrow> Err (''value must be map[string]types.Route or []types.Route when setting routes: '' @ e))))"

definition to_route :: "gval \<Rightarrow> Route outcome" where
  "to_route value =
     (case value of
        GRoute r \<Rightarrow> Ok r
      | _ \<Rightarrow> wrap_err ''value must be types.Route when setting route: '' (dec_Route (marshal (json_of value))))"

definition setRoutesValue :: "RoutesConfig \<Rightarrow> string list \<Rightarrow> gval \<Rightarrow> RoutesConfig outcome" where
  "setRoutesValue config parts value =
     (if length parts = 1 \<and> parts ! 0 = ''routes'' then
        obind (to_route_map value) (\<lambda>m. Ok (config\<lparr>rc_Routes := m\<rparr>))
      else if length parts < 2 then Err ''invalid path for routes''
      else let routeName = parts ! 1 in
        if length parts = 2 then
          obind (to_route value) (\<lambda>routeStruct.
          obind (map_assign (rc_Routes config) routeName routeStruct) (\<lambda>m.
          Ok (config\<lparr>rc_Routes := m\<rparr>)))
        else
          (let route = (case map_lookup (rc_Routes config) routeName of None \<Rightarrow> zero_Route | Some r \<Rightarrow> r) in
           obind (setRoute route (drop 2 parts) value) (\<lambda>route'.
           obind (map_assign (rc_Routes config) routeName route') (\<lambda>m.
           Ok (config\<lparr>rc_Routes := m\<rparr>)))))"

definition getRoutesValue :: "RoutesConfig \<Rightarrow> string list \<Rightarrow> gval outcome" where
  "getRoutesValue config parts =
     (if length parts = 1 \<and> parts ! 0 = ''routes'' then Ok (GRouteMap (rc_Routes config))
      else if length parts < 2 then Err ''invalid path for routes''
      else let routeName = parts ! 1 in
        (case map_lookup (rc_Routes config) routeName of
           None \<Rightarrow> Err (''route '' @ quoted routeName @ '' not found'')
         | Some route \<Rightarrow>
             if length parts = 2 then Ok (GRoute route)
             else getRoute route (drop 2 parts)))"

section \<open>Entry points\<close>

text \<open>The configuration argument is an \<open>interface{}\<close>: \<^const>\<open>None\<close> is the nil interface.\<close>

definition SetValue :: "config option \<Rightarrow> string \<Rightarrow> gval \<Rightarrow> config outcome" where
  "SetValue config path value =
     (let parts = split_on (CHR ''.'') path in
      if length parts < 1 then Err (''invalid path: '' @ path)
      else let configType = parts ! 0 in
        if configType = ''interfaces'' then
          (case config of
             Some (CInterfaces c) \<Rightarrow> obind (setInterfacesValue c parts value) (\<lambda>c'. Ok (CInterfaces c'))
           | _ \<Rightarrow> Err ''config is not InterfacesConfig'')
        else if configType = ''routes'' then
          (case config of
             Some (CRoutes c) \<Rightarrow> obind (setRoutesValue c parts value) (\<lambda>c'. Ok (CRoutes c'))
           | _ \<Rightarrow> Err ''config is not RoutesConfig'')
        else
          (case config of
             Some (CMap m) \<Rightarrow>
               (if length parts = 1 then obind (replaceConfig m (json_of value)) (\<lambda>m'. Ok (CMap m'))
                else obind (setGenericTop m (drop 1 parts) (json_of value)) (\<lambda>m'. Ok (CMap m')))
           | _ \<Rightarrow> Err ''config must be a map for generic path access''))"

definition GetValue :: "config option \<Rightarrow> string \<Rightarrow> gval outcome" where
  "GetValue config path =
     (let parts = split_on (CHR ''.'') path in
      if length parts < 1 then Err (''invalid path: '' @ path)
      else let configType = parts ! 0 in
        if configType = ''interfaces'' then
          (case config of
             Some (CInterfaces c) \<Rightarrow> getInterfacesValue c parts
           | _ \<Rightarrow> Err ''config is not InterfacesConfig'')
        else if configType = ''routes'' then
          (case config of
             Some (CRoutes c) \<Rightarrow> getRoutesValue c parts
           | _ \<Rightarrow> Err ''config is not RoutesConfig'')
        else
          (case config of
             Some (CMap m) \<Rightarrow>
               obind (getGenericValue (case m of None \<Rightarrow> [] | Some l \<Rightarrow> l) (drop 1 parts)) (\<lambda>v. Ok (GJson v))
           | _ \<Rightarrow> Err ''config must be a map for generic path access''))"

section \<open>Generic maps: what a read sees after a write\<close>

lemma generic_get_set: "setGenericValue m ks v = Ok m' \<Longrightarrow> getGenericValue m' ks = Ok v"
  by (induction m ks v arbitrary: m' rule: setGenericValue.induct)
     (auto simp: gomap_simps split: option.splits json.splits)

lemma generic_get_set_frame:
  assumes "setGenericValue m ks v = Ok m'" and "\<not> prefix ks ls" and "\<not> prefix ls ks"
  shows "getGenericValue m' ls = getGenericValue m ls"
  using assms
proof (induction m ks v arbitrary: m' ls rule: setGenericValue.induct)
  case (1 m v)
  then show ?case by simp
next
  case (2 m k v)
  then obtain l ls' where "ls = l # ls'" "l \<noteq> k" by (cases ls) auto
  with 2 show ?case by (cases ls') (auto simp: gomap_simps)
next
  case (3 m k p ps v)
  from 3(2) obtain nm nm' where nm: "mget m k = Some (JObj nm)"
    "setGenericValue nm (p # ps) v = Ok nm'" and m': "m' = mput k (JObj nm') m"
    by (auto split: option.splits json.splits)
  from 3(3,4) obtain l ls' where ls: "ls = l # ls'" by (cases ls) auto
  show ?case
  proof (cases "l = k")
    case False
    with ls m' show ?thesis by (cases ls') (auto simp: gomap_simps)
  next
    case True
    with ls 3(3,4) have "\<not> prefix (p # ps) ls'" "\<not> prefix ls' (p # ps)" by auto
    with 3(1) [OF nm(1) refl nm(2)] have "getGenericValue nm' ls' = getGenericValue nm ls'" by simp
    moreover from \<open>\<not> prefix ls' (p # ps)\<close> obtain q qs where "ls' = q # qs" by (cases ls') auto
    ultimately show ?thesis using True ls nm m' by (simp add: gomap_simps)
  qed
qed

lemma generic_set_keys:
  "setGenericValue m ks v = Ok m' \<Longrightarrow> mwf m \<Longrightarrow> mwf m'"
  by (cases "(m, ks, v)" rule: setGenericValue.cases)
     (auto simp: gomap_wf split: option.splits json.splits)

lemma clear_all: "foldl (\<lambda>m k. mdel k m) m ks = foldr AList.delete (rev ks) m"
  by (simp add: foldr_conv_foldl)

lemma cleared_empty: "foldl (\<lambda>m k. mdel k m) m (mkeys m) = []"
proof -
  have "mget (foldl (\<lambda>m k. mdel k m) m (mkeys m)) k = None" for k
    unfolding clear_all gm.get_foldr_del by (auto simp: mget_None_iff)
  then have "mkeys (foldl (\<lambda>m k. mdel k m) m (mkeys m)) = []"
    unfolding mget_None_iff by (metis list.set_intros(1) neq_Nil_conv)
  then show ?thesis by (simp add: mkeys_def)
qed

lemma mcopy_fresh:
  "distinct (map fst m) \<Longrightarrow> set (map fst dst) \<inter> set (map fst m) = {} \<Longrightarrow> mcopy dst m = dst @ m"
proof (induction dst m rule: mcopy.induct)
  case (2 dst k v m)
  have "k' \<notin> set (map fst al) \<Longrightarrow> mput k' v' al = al @ [(k', v')]" for k' v' and al :: "('a \<times> 'b) list"
    by (induction al) auto
  with 2 show ?case by auto
qed simp

section \<open>Configurations: what a read sees after a write\<close>

text \<open>
  The value that a write of \<open>value\<close> at a path leaves there: itself in a plugin map, its decoded
  form for an interface or a route, and the converted field value below them.
\<close>

definition field_of :: "'s fdesc list \<Rightarrow> string \<Rightarrow> gval \<Rightarrow> gval outcome" where
  "field_of fs n v =
     (case field_index fs n of
        None \<Rightarrow> Err (''unknown field: '' @ n)
      | Some i \<Rightarrow> setFieldValue (fd_kind (fs ! i)) v)"

definition stored :: "string list \<Rightarrow> gval \<Rightarrow> gval outcome" where
  "stored parts v =
     (if parts ! 0 = ''interfaces'' then
        (if length parts = 1 then obind (to_interface_map v) (\<lambda>m. Ok (GInterfaceMap m))
         else if length parts = 2 then obind (to_interface v) (\<lambda>i. Ok (GInterface i))
         else field_of Interface_fields (parts ! 2) v)
      else if parts ! 0 = ''routes'' then
        (if length parts = 1 then obind (to_route_map v) (\<lambda>m. Ok (GRouteMap m))
         else if length parts = 2 then obind (to_route v) (\<lambda>r. Ok (GRoute r))
         else field_of Route_fields (parts ! 2) v)
      else Ok (GJson (json_of v)))"

lemma map_assign_lookup:
  "map_assign m k v = Ok m' \<Longrightarrow> map_lookup m' k' = (if k' = k then Some v else map_lookup m k')"
  by (auto simp: map_assign_def map_lookup_def gomap_simps split: option.splits)

lemma map_assign_self: "map_assign m k v = Ok m' \<Longrightarrow> map_lookup m' k = Some v"
  by (simp add: map_assign_lookup)

lemma path_shape: "parts \<noteq> [] \<Longrightarrow> length parts = 1 \<or> length parts = 2 \<or> length parts \<ge> 3"
  using length_greater_0_conv [of parts] by linarith

lemma iface_field_stored:
  "setStructField Interface_fields s n v = Ok s' \<Longrightarrow>
     getStructField Interface_fields s' n = field_of Interface_fields n v"
  by (drule iface_table.field_get_set) (auto simp: field_of_def)

lemma route_field_stored:
  "setStructField Route_fields s n v = Ok s' \<Longrightarrow>
     getStructField Route_fields s' n = field_of Route_fields n v"
  by (drule route_table.field_get_set) (auto simp: field_of_def)

lemma interfaces_get_set:
  assumes "setInterfacesValue c parts v = Ok c'" and "parts ! 0 = ''interfaces''" and "parts \<noteq> []"
  shows "getInterfacesValue c' parts = stored parts v"
proof -
  consider "length parts = 1" | "length parts = 2" | "length parts \<ge> 3"
    using path_shape [OF assms(3)] by blast
  then show ?thesis
  proof cases
    case 1
    with assms show ?thesis
      by (auto simp: setInterfacesValue_def getInterfacesValue_def stored_def)
  next
    case 2
    with assms show ?thesis
      by (auto simp: setInterfacesValue_def getInterfacesValue_def stored_def Let_def dest: map_assign_self)
  next
    case 3
    with assms obtain iface iface' m where
      set: "setInterfaceField iface (drop 2 parts) v = Ok iface'"
      and m: "map_assign (ic_Interfaces c) (parts ! 1) iface' = Ok m" "c' = c\<lparr>ic_Interfaces := m\<rparr>"
      by (auto simp: setInterfacesValue_def Let_def split: option.splits if_splits)
    with 3 map_assign_lookup [OF m(1)] have "getInterfacesValue c' parts = getInterfaceField iface' (drop 2 parts)"
      by (simp add: getInterfacesValue_def Let_def)
    with 3 set iface_field_stored show ?thesis
      using assms(2) by (auto simp: setInterfaceField_def getInterfaceField_def stored_def split: if_splits)
  qed
qed

lemma routes_get_set:
  assumes "setRoutesValue c parts v = Ok c'" and "parts ! 0 = ''routes''" and "parts \<noteq> []"
  shows "getRoutesValue c' parts = stored parts v"
proof -
  consider "length parts = 1" | "length parts = 2" | "length parts \<ge> 3"
    using path_shape [OF assms(3)] by blast
  then show ?thesis
  proof cases
    case 1
    with assms show ?thesis
      by (auto simp: setRoutesValue_def getRoutesValue_def stored_def)
  next
    case 2
    with assms show ?thesis
      by (auto simp: setRoutesValue_def getRoutesValue_def stored_def Let_def dest: map_assign_self)
  next
    case 3
    with assms obtain route route' m where
      set: "setRoute route (drop 2 parts) v = Ok route'"
      and m: "map_assign (rc_Routes c) (parts ! 1) route' = Ok m" "c' = c\<lparr>rc_Routes := m\<rparr>"
      by (auto simp: setRoutesValue_def Let_def split: option.splits if_splits)
    with 3 map_assign_lookup [OF m(1)] have "getRoutesValue c' parts = getRoute route' (drop 2 parts)"
      by (simp add: getRoutesValue_def Let_def)
    with 3 set route_field_stored show ?thesis
      using assms(2) by (auto simp: setRoute_def getRoute_def stored_def Let_def split: if_splits)
  qed
qed

text \<open>Objects decoded from JSON have distinct keys.\<close>

definition top_wf :: "gval \<Rightarrow> bool" where
  "top_wf v = (case json_of v of JObj m \<Rightarrow> mwf m | _ \<Rightarrow> True)"

lemma generic_config_get_set:
  assumes "SetValue c path v = Ok c'" and "top_wf v"
    and "split_on (CHR ''.'') path ! 0 \<noteq> ''interfaces''" and "split_on (CHR ''.'') path ! 0 \<noteq> ''routes''"
  shows "GetValue (Some c') path = Ok (GJson (json_of v))"
proof -
  let ?parts = "split_on (CHR ''.'') path"
  from assms obtain m where c: "c = Some (CMap m)"
    by (auto simp: SetValue_def Let_def split: option.splits config.splits if_splits)
  have ne: "\<not> length ?parts < 1" by (simp add: Suc_le_eq)
  show ?thesis
  proof (cases "length ?parts = 1")
    case True
    with assms c obtain m' where m': "replaceConfig m (json_of v) = Ok m'" "c' = CMap m'"
      by (auto simp: SetValue_def Let_def)
    then obtain vm where vm: "json_of v = JObj vm" by (cases "json_of v") (auto simp: replaceConfig_def)
    with assms(2) have "mcopy [] vm = vm" by (simp add: top_wf_def mcopy_fresh mwf_def)
    with m' vm have "(case m' of None \<Rightarrow> [] | Some l \<Rightarrow> l) = vm"
      by (auto simp: replaceConfig_def cleared_empty split: option.splits if_splits)
    with True assms(3,4) m' vm show ?thesis by (simp add: GetValue_def Let_def)
  next
    case False
    with assms c ne obtain m' where m': "setGenericTop m (drop 1 ?parts) (json_of v) = Ok m'" "c' = CMap m'"
      by (auto simp: SetValue_def Let_def)
    then have "getGenericValue (case m' of None \<Rightarrow> [] | Some l \<Rightarrow> l) (drop 1 ?parts) = Ok (json_of v)"
      by (auto simp: setGenericTop_def generic_get_set split: option.splits list.splits)
    with ne assms(3,4) m' show ?thesis by (simp add: GetValue_def Let_def)
  qed
qed

theorem SetValue_GetValue:
  assumes "SetValue c path v = Ok c'" and "top_wf v"
  shows "GetValue (Some c') path = stored (split_on (CHR ''.'') path) v"
proof -
  let ?parts = "split_on (CHR ''.'') path"
  have ne: "\<not> length ?parts < 1" "?parts \<noteq> []" by (simp_all add: Suc_le_eq)
  consider "?parts ! 0 = ''interfaces''" | "?parts ! 0 = ''routes''"
    | "?parts ! 0 \<noteq> ''interfaces''" "?parts ! 0 \<noteq> ''routes''" by blast
  then show ?thesis
  proof cases
    case 1
    with assms ne obtain ic ic' where "setInterfacesValue ic ?parts v = Ok ic'" "c' = CInterfaces ic'"
      by (auto simp: SetValue_def Let_def split: option.splits config.splits)
    with 1 ne interfaces_get_set show ?thesis by (simp add: GetValue_def Let_def)
  next
    case 2
    with assms ne obtain rc rc' where "setRoutesValue rc ?parts v = Ok rc'" "c' = CRoutes rc'"
      by (auto simp: SetValue_def Let_def split: option.splits config.splits)
    with 2 ne routes_get_set show ?thesis by (simp add: GetValue_def Let_def)
  next
    case 3
    with generic_config_get_set [OF assms] show ?thesis by (simp add: stored_def)
  qed
qed

end
