(* ===== verification/Config_Files.thy ===== *)
theory Config_Files
  imports Path
begin

text \<open>
  The configuration directory, \<open>src/state\<close>: loading, the atomic save with a backup, and the
  configuration generated on first boot. A file holds a JSON document or bytes that are not one.
  The faults of the file system during a save are an argument.
\<close>

section \<open>Documents of the configurations\<close>

definition enc_PluginState :: "PluginState \<Rightarrow> json" where
  "enc_PluginState p = JObj [(''version'', JStr (ps_Version p)), (''enabled'', JBool (ps_Enabled p))]"

definition enc_ObserverConfig :: "ObserverConfig \<Rightarrow> json" where
  "enc_ObserverConfig c =
     JObj [(''enabled'', JBool (oc_Enabled c)), (''auto_reconcile'', JBool (oc_AutoReconcile c)),
           (''reconcile_interval_ms'', JNum (of_int (oc_ReconcileIntervalMS c)))]"

definition enc_LoggingConfig :: "LoggingConfig \<Rightarrow> json" where
  "enc_LoggingConfig c =
     JObj [(''level'', JStr (lc_Level c)), (''format'', JStr (lc_Format c)),
           (''outputs'', enc_slice JStr (lc_Outputs c)), (''file'', JStr (lc_File c))]"

definition enc_ptr :: "('a \<Rightarrow> json) \<Rightarrow> 'a option \<Rightarrow> json" where
  "enc_ptr enc p = (case p of None \<Rightarrow> JNull | Some x \<Rightarrow> enc x)"

fun enc_config :: "config \<Rightarrow> json" where
  "enc_config (CInterfaces c) =
     JObj [(''interfaces'', enc_map enc_Interface (ic_Interfaces c)), (''version'', JStr (ic_Version c))]"
| "enc_config (CRoutes c) =
     JObj [(''routes'', enc_map enc_Route (rc_Routes c)), (''version'', JStr (rc_Version c))]"
| "enc_config (CJack c) =
     JObj [(''plugins'', enc_map enc_PluginState (jc_Plugins c)),
           (''observer'', enc_ptr enc_ObserverConfig (jc_Observer c)),
           (''logging'', enc_ptr enc_LoggingConfig (jc_Logging c)),
           (''version'', JStr (jc_Version c))]"
| "enc_config (CMap None) = JNull"
| "enc_config (CMap (Some m)) = marshal (JObj m)"

definition dec_PluginState :: "json \<Rightarrow> PluginState outcome" where
  "dec_PluginState v =
     dec_object ''types.PluginState''
       [(''version'', \<lambda>v s. obind (dec_string (ps_Version s) v) (\<lambda>x. Ok (s\<lparr>ps_Version := x\<rparr>))),
        (''enabled'', \<lambda>v s. obind (dec_bool (ps_Enabled s) v) (\<lambda>x. Ok (s\<lparr>ps_Enabled := x\<rparr>)))]
       v \<lparr>ps_Version = [], ps_Enabled = False\<rparr>"

definition dec_ObserverConfig :: "ObserverConfig \<Rightarrow> json \<Rightarrow> ObserverConfig outcome" where
  "dec_ObserverConfig cur v =
     dec_object ''types.ObserverConfig''
       [(''enabled'', \<lambda>v s. obind (dec_bool (oc_Enabled s) v) (\<lambda>x. Ok (s\<lparr>oc_Enabled := x\<rparr>))),
        (''auto_reconcile'', \<lambda>v s. obind (dec_bool (oc_AutoReconcile s) v) (\<lambda>x. Ok (s\<lparr>oc_AutoReconcile := x\<rparr>))),
        (''reconcile_interval_ms'',
           \<lambda>v s. obind (dec_int (oc_ReconcileIntervalMS s) v) (\<lambda>x. Ok (s\<lparr>oc_ReconcileIntervalMS := x\<rparr>)))]
       v cur"

definition dec_LoggingConfig :: "LoggingConfig \<Rightarrow> json \<Rightarrow> LoggingConfig outcome" where
  "dec_LoggingConfig cur v =
     dec_object ''types.LoggingConfig''
       [(''level'', \<lambda>v s. obind (dec_string (lc_Level s) v) (\<lambda>x. Ok (s\<lparr>lc_Level := x\<rparr>))),
        (''format'', \<lambda>v s. obind (dec_string (lc_Format s) v) (\<lambda>x. Ok (s\<lparr>lc_Format := x\<rparr>))),
        (''outputs'', \<lambda>v s. obind (dec_slice ''[]string'' (dec_string []) v) (\<lambda>x. Ok (s\<lparr>lc_Outputs := x\<rparr>))),
        (''file'', \<lambda>v s. obind (dec_string (lc_File s) v) (\<lambda>x. Ok (s\<lparr>lc_File := x\<rparr>)))]
       v cur"

definition dec_ptr :: "('a \<Rightarrow> json \<Rightarrow> 'a outcome) \<Rightarrow> 'a \<Rightarrow> 'a option \<Rightarrow> json \<Rightarrow> 'a option outcome" where
  "dec_ptr dec zero cur v =
     (if v = JNull then Ok None
      else obind (dec (case cur of None \<Rightarrow> zero | Some c \<Rightarrow> c) v) (\<lambda>x. Ok (Some x)))"

definition zero_ObserverConfig :: ObserverConfig where
  "zero_ObserverConfig = \<lparr>oc_Enabled = False, oc_AutoReconcile = False, oc_ReconcileIntervalMS = 0\<rparr>"

definition zero_LoggingConfig :: LoggingConfig where
  "zero_LoggingConfig = \<lparr>lc_Level = [], lc_Format = [], lc_Outputs = None, lc_File = []\<rparr>"

definition dec_InterfacesConfig :: "json \<Rightarrow> InterfacesConfig outcome" where
  "dec_InterfacesConfig v =
     dec_object ''types.InterfacesConfig''
       [(''interfaces'', \<lambda>v s. obind (dec_map ''map[string]types.Interface'' dec_Interface v)
                                 (\<lambda>x. Ok (s\<lparr>ic_Interfaces := x\<rparr>))),
        (''version'', \<lambda>v s. obind (dec_string (ic_Version s) v) (\<lambda>x. Ok (s\<lparr>ic_Version := x\<rparr>)))]
       v \<lparr>ic_Interfaces = None, ic_Version = []\<rparr>"

definition dec_RoutesConfig :: "json \<Rightarrow> RoutesConfig outcome" where
  "dec_RoutesConfig v =
     dec_object ''types.RoutesConfig''
       [(''routes'', \<lambda>v s. obind (dec_map ''map[string]types.Route'' dec_Route v)
                             (\<lambda>x. Ok (s\<lparr>rc_Routes := x\<rparr>))),
        (''version'', \<lambda>v s. obind (dec_string (rc_Version s) v) (\<lambda>x. Ok (s\<lparr>rc_Version := x\<rparr>)))]
       v \<lparr>rc_Routes = None, rc_Version = []\<rparr>"

definition dec_JackConfig :: "json \<Rightarrow> JackConfig outcome" where
  "dec_JackConfig v =
     dec_object ''types.JackConfig''
       [(''plugins'', \<lambda>v s. obind (dec_map ''map[string]types.PluginState'' dec_PluginState v)
                              (\<lambda>x. Ok (s\<lparr>jc_Plugins := x\<rparr>))),
        (''observer'', \<lambda>v s. obind (dec_ptr dec_ObserverConfig zero_ObserverConfig (jc_Observer s) v)
                               (\<lambda>x. Ok (s\<lparr>jc_Observer := x\<rparr>))),
        (''logging'', \<lambda>v s. obind (dec_ptr dec_LoggingConfig zero_LoggingConfig (jc_Logging s) v)
                              (\<lambda>x. Ok (s\<lparr>jc_Logging := x\<rparr>))),
        (''version'', \<lambda>v s. obind (dec_string (jc_Version s) v) (\<lambda>x. Ok (s\<lparr>jc_Version := x\<rparr>)))]
       v \<lparr>jc_Plugins = None, jc_Observer = None, jc_Logging = None, jc_Version = []\<rparr>"

text \<open>A document read into \<open>map[string]interface{}\<close>; a repeated key keeps its last value.\<close>

definition dec_generic :: "json \<Rightarrow> (string, json) gomap option outcome" where
  "dec_generic v = dec_map ''map[string]interface {}'' Ok v"

section \<open>Files\<close>

datatype cfile = FJson json | FBad

type_synonym config_dir = "(string, cfile) gomap"

datatype load_result = Loaded json | NotExist string | BadFile string

definition config_path :: "string \<Rightarrow> string \<Rightarrow> string" where
  "config_path dir namespace = dir @ ''/'' @ namespace @ ''.json''"

definition LoadConfig :: "string \<Rightarrow> config_dir \<Rightarrow> string \<Rightarrow> load_result" where
  "LoadConfig dir fs namespace =
     (case mget fs (config_path dir namespace) of
        None \<Rightarrow> NotExist (''failed to read '' @ namespace @ '' config'')
      | Some FBad \<Rightarrow> BadFile (''failed to parse '' @ namespace @ '' config'')
      | Some (FJson v) \<Rightarrow> Loaded v)"

text \<open>\<open>getLineCol\<close>: the position of a byte offset, over the bytes before it.\<close>

definition getLineCol :: "string \<Rightarrow> nat \<Rightarrow> nat \<times> nat" where
  "getLineCol data offset =
     foldl (\<lambda>(line, col) c. if byte_of c = 10 then (line + 1, 1) else (line, col + 1))
       (1, 1) (take offset data)"

text \<open>
  \<open>SaveConfig\<close>. A failing backup or write may leave a damaged file under the backup or the
  temporary name; \<open>stamp\<close> is the formatted time.
\<close>

datatype save_fault = NoFault | BackupFault | WriteFault | RenameFault

definition SaveConfig :: "string \<Rightarrow> string \<Rightarrow> save_fault \<Rightarrow> string \<Rightarrow> json \<Rightarrow> config_dir \<Rightarrow> config_dir \<times> goerror" where
  "SaveConfig dir stamp fault namespace doc fs =
     (let path = config_path dir namespace;
          backupPath = path @ ''.backup.'' @ stamp;
          tmpPath = path @ ''.tmp'' in
      if mget fs path \<noteq> None \<and> fault = BackupFault then
        (mput backupPath FBad fs, Some ''failed to create backup'')
      else
        (let fs1 = (case mget fs path of None \<Rightarrow> fs | Some old \<Rightarrow> mput backupPath old fs) in
         if fault = WriteFault then (mput tmpPath FBad fs1, Some ''failed to write temp file'')
         else
           (let fs2 = mput tmpPath (FJson doc) fs1 in
            if fault = RenameFault then (fs2, Some ''failed to rename temp file'')
            else (mdel tmpPath (mput path (FJson doc) fs2), None))))"

section \<open>The daemon's own configuration\<close>

definition getDefaultJackConfig :: JackConfig where
  "getDefaultJackConfig =
     \<lparr>jc_Plugins = Some
        [(''nftables'', \<lparr>ps_Version = [], ps_Enabled = True\<rparr>),
         (''dnsmasq'', \<lparr>ps_Version = [], ps_Enabled = True\<rparr>),
         (''monitoring'', \<lparr>ps_Version = [], ps_Enabled = True\<rparr>)],
      jc_Observer = None, jc_Logging = None, jc_Version = ''1.0''\<rparr>"

definition LoadJackConfig :: "string \<Rightarrow> config_dir \<Rightarrow> JackConfig outcome" where
  "LoadJackConfig dir fs =
     (case LoadConfig dir fs ''jack'' of
        NotExist _ \<Rightarrow> Ok getDefaultJackConfig
      | BadFile e \<Rightarrow> Err (''failed to load jack config: '' @ e)
      | Loaded v \<Rightarrow>
          (case dec_JackConfig v of
             Err e \<Rightarrow> Err (''failed to load jack config: failed to parse jack config: '' @ e)
           | Panic \<Rightarrow> Panic
           | Ok c \<Rightarrow> if jc_Plugins c = None then Ok getDefaultJackConfig else Ok c))"

definition SaveJackConfig :: "string \<Rightarrow> string \<Rightarrow> save_fault \<Rightarrow> JackConfig \<Rightarrow> config_dir \<Rightarrow> config_dir \<times> goerror" where
  "SaveJackConfig dir stamp fault c = SaveConfig dir stamp fault ''jack'' (enc_config (CJack c))"

section \<open>First boot\<close>

text \<open>
  What \<open>netlink\<close> reports is an argument: the links, the IPv4 addresses of a link and the IPv4
  routes, each call with its own failure (\<^const>\<open>None\<close>).
\<close>

datatype link_kind = LBridge | LVeth | LTuntap | LWireguard | LDevice

record Link =
  ln_Name :: string
  ln_Index :: int
  ln_Kind :: link_kind
  ln_Up :: bool
  ln_Loopback :: bool

record KRoute =
  kr_Dst :: "(nat list \<times> nat) option"
  kr_Gw :: "nat list option"
  kr_LinkIndex :: int

record Netlink =
  nl_LinkList :: "Link list option"
  nl_LinkByIndex :: "int \<Rightarrow> Link option"
  nl_AddrList :: "Link \<Rightarrow> (nat list \<times> nat) list option"
  nl_RouteList :: "KRoute list option"

definition isLoopback :: "Link \<Rightarrow> bool" where
  "isLoopback link \<longleftrightarrow> ln_Name link = ''lo'' \<or> ln_Loopback link"

definition isBridge :: "Link \<Rightarrow> bool" where
  "isBridge link \<longleftrightarrow> ln_Kind link = LBridge"

definition virtualPrefixes :: "string list" where
  "virtualPrefixes =
     [''veth'', ''docker'', ''tun'', ''tap'', ''wg'', ''wg-'', ''sit'', ''teql'', ''ip6tnl'', ''gre'',
      ''vlan'', ''macvlan'', ''vxlan'']"

definition isVirtual :: "Link \<Rightarrow> bool" where
  "isVirtual link \<longleftrightarrow>
     ln_Kind link = LVeth \<or> ln_Kind link = LTuntap \<or> ln_Kind link = LWireguard \<or>
     list_ex (\<lambda>p. length (ln_Name link) \<ge> length p \<and> take (length p) (ln_Name link) = p) virtualPrefixes"

definition skipped :: "Link \<Rightarrow> bool" where
  "skipped link \<longleftrightarrow> isLoopback link \<or> isBridge link \<or> isVirtual link"

text \<open>First strategy: the link of a default route.\<close>

fun wan_by_route :: "Netlink \<Rightarrow> KRoute list \<Rightarrow> Link option" where
  "wan_by_route nl [] = None"
| "wan_by_route nl (route # rest) =
     (if kr_Dst route = None \<and> kr_LinkIndex route > 0 then
        (case nl_LinkByIndex nl (kr_LinkIndex route) of
           Some link \<Rightarrow> if \<not> isLoopback link then Some link else wan_by_route nl rest
         | None \<Rightarrow> wan_by_route nl rest)
      else wan_by_route nl rest)"

text \<open>Second and third strategy: the first physical link that is up with an address, or the first.\<close>

fun wan_by_link :: "Netlink \<Rightarrow> Link option \<Rightarrow> Link list \<Rightarrow> Link option" where
  "wan_by_link nl firstPhysical [] = firstPhysical"
| "wan_by_link nl firstPhysical (link # rest) =
     (if skipped link then wan_by_link nl firstPhysical rest
      else
        (let first' = (case firstPhysical of None \<Rightarrow> Some link | Some l \<Rightarrow> Some l) in
         if ln_Up link \<and> (case nl_AddrList nl link of Some (_ # _) \<Rightarrow> True | _ \<Rightarrow> False)
         then Some link else wan_by_link nl first' rest))"

definition detectWANInterface :: "Netlink \<Rightarrow> Link outcome" where
  "detectWANInterface nl =
     (case (case nl_RouteList nl of None \<Rightarrow> None | Some routes \<Rightarrow> wan_by_route nl routes) of
        Some link \<Rightarrow> Ok link
      | None \<Rightarrow>
          (case nl_LinkList nl of
             None \<Rightarrow> Err ''failed to list network interfaces''
           | Some links \<Rightarrow>
               (case wan_by_link nl None links of
                  Some link \<Rightarrow> Ok link
                | None \<Rightarrow> Err ''no suitable WAN interface found'')))"

definition detectLANInterfaces :: "Netlink \<Rightarrow> Link \<Rightarrow> Link list outcome" where
  "detectLANInterfaces nl wanIface =
     (case nl_LinkList nl of
        None \<Rightarrow> Err ''failed to list network interfaces''
      | Some links \<Rightarrow> Ok (filter (\<lambda>link. ln_Name link \<noteq> ln_Name wanIface \<and> \<not> skipped link) links))"

text \<open>The dotted form of a prefix length, \<open>net.IP(ipNet.Mask).String()\<close>.\<close>

definition cidr_mask :: "nat \<Rightarrow> nat list" where
  "cidr_mask n = mask_bytes n [255, 255, 255, 255]"

definition wan_interface :: "Netlink \<Rightarrow> Link \<Rightarrow> Interface" where
  "wan_interface nl wanIface =
     (let base = zero_Interface\<lparr>if_Type := ''physical'', if_Device := ln_Name wanIface,
                   if_DeviceName := ln_Name wanIface, if_Protocol := ''dhcp'', if_Enabled := True\<rparr>;
          withAddr = (case nl_AddrList nl wanIface of
              Some ((addr, n) # _) \<Rightarrow>
                (case ParseCIDR (show_v4 addr @ ''/'' @ show_nat n) of
                   None \<Rightarrow> base
                 | Some _ \<Rightarrow> base\<lparr>if_Protocol := ''static'', if_IPAddr := show_v4 addr,
                                if_Netmask := show_v4 (cidr_mask n)\<rparr>)
            | _ \<Rightarrow> base) in
      case nl_RouteList nl of
        None \<Rightarrow> withAddr
      | Some routes \<Rightarrow>
          (case find (\<lambda>route. (kr_Dst route = None \<or> kr_Dst route = Some ([0, 0, 0, 0], 0)) \<and>
                        kr_Gw route \<noteq> None \<and> kr_LinkIndex route = ln_Index wanIface) routes of
             None \<Rightarrow> withAddr
           | Some route \<Rightarrow> withAddr\<lparr>if_Gateway := show_v4 (the (kr_Gw route))\<rparr>))"

definition lan_bridge :: "Link list \<Rightarrow> Interface" where
  "lan_bridge lanIfaces =
     zero_Interface\<lparr>if_Type := ''bridge'', if_Device := ''br-lan'', if_DeviceName := ''br-lan'',
       if_Protocol := ''static'', if_IPAddr := ''192.168.1.1'', if_Netmask := ''255.255.255.0'',
       if_BridgePorts := Some (map ln_Name lanIfaces), if_Enabled := True\<rparr>"

definition generateDefaultInterfacesConfig :: "Netlink \<Rightarrow> InterfacesConfig outcome" where
  "generateDefaultInterfacesConfig nl =
     (case detectWANInterface nl of
        Err e \<Rightarrow> Err (''failed to detect WAN interface: '' @ e)
      | Panic \<Rightarrow> Panic
      | Ok wanIface \<Rightarrow>
          (case detectLANInterfaces nl wanIface of
             Err e \<Rightarrow> Err (''failed to detect LAN interfaces: '' @ e)
           | Panic \<Rightarrow> Panic
           | Ok lanIfaces \<Rightarrow>
               (let m1 = mput ''wan'' (wan_interface nl wanIface) [];
                    m2 = (if lanIfaces \<noteq> [] then mput ''lan'' (lan_bridge lanIfaces) m1 else m1) in
                if m2 = [] then Err ''no network interfaces detected''
                else Ok \<lparr>ic_Interfaces = Some m2, ic_Version = ''1.0''\<rparr>)))"

definition LoadInterfacesConfig ::
  "string \<Rightarrow> string \<Rightarrow> save_fault \<Rightarrow> Netlink \<Rightarrow> config_dir \<Rightarrow> config_dir \<times> InterfacesConfig outcome" where
  "LoadInterfacesConfig dir stamp fault nl fs =
     (case LoadConfig dir fs ''interfaces'' of
        NotExist _ \<Rightarrow>
          (case generateDefaultInterfacesConfig nl of
             Err e \<Rightarrow> (fs, Err (''failed to generate default interfaces config: '' @ e))
           | Panic \<Rightarrow> (fs, Panic)
           | Ok c \<Rightarrow> (fst (SaveConfig dir stamp fault ''interfaces'' (enc_config (CInterfaces c)) fs), Ok c))
      | BadFile e \<Rightarrow> (fs, Err e)
      | Loaded v \<Rightarrow>
          (case dec_InterfacesConfig v of
             Err e \<Rightarrow> (fs, Err (''failed to parse interfaces config: '' @ e))
           | Panic \<Rightarrow> (fs, Panic)
           | Ok c \<Rightarrow>
               (fs, Ok (if ic_Interfaces c = None then c\<lparr>ic_Interfaces := Some []\<rparr> else c))))"

section \<open>Saving is atomic\<close>

lemma path_names:
  "config_path dir ns @ ''.tmp'' \<noteq> config_path dir ns"
  "config_path dir ns @ ''.backup.'' @ st \<noteq> config_path dir ns"
  "config_path dir ns @ ''.tmp'' \<noteq> config_path dir ns @ ''.backup.'' @ st"
  by simp_all

lemma SaveConfig_at_path:
  "mget (fst (SaveConfig dir st fault ns doc fs)) (config_path dir ns) =
     (if snd (SaveConfig dir st fault ns doc fs) = None then Some (FJson doc)
      else mget fs (config_path dir ns))"
  by (simp add: SaveConfig_def Let_def gomap_simps split: option.splits)

lemma SaveConfig_frame:
  assumes "p \<noteq> config_path dir ns" and "p \<noteq> config_path dir ns @ ''.tmp''"
    and "p \<noteq> config_path dir ns @ ''.backup.'' @ st"
  shows "mget (fst (SaveConfig dir st fault ns doc fs)) p = mget fs p"
  using assms by (simp add: SaveConfig_def Let_def gomap_simps split: option.splits)

lemma SaveConfig_backup:
  assumes "snd (SaveConfig dir st fault ns doc fs) = None" and "mget fs (config_path dir ns) = Some old"
  shows "mget (fst (SaveConfig dir st fault ns doc fs)) (config_path dir ns @ ''.backup.'' @ st) = Some old"
  using assms by (simp add: SaveConfig_def Let_def gomap_simps split: if_splits)

section \<open>Documents read back\<close>

lemma dec_map_pairs:
  assumes "\<And>k x. (k, x) \<in> set m \<Longrightarrow> dec (enc x) = Ok x" and "distinct (map fst m)"
  shows "dec_map t dec (JObj (mmap enc m)) = Ok (Some m)"
proof -
  have "distinct (map fst (acc @ m)) \<Longrightarrow>
        ofold (\<lambda>(k, v) m. obind (dec v) (\<lambda>x. Ok (mput k x m))) (mmap enc m) acc = Ok (acc @ m)" for acc
    using assms(1)
  proof (induction m arbitrary: acc)
    case Nil
    then show ?case by (simp add: mmap_def)
  next
    case (Cons e m)
    obtain k x where e: "e = (k, x)" by (cases e)
    have fresh: "mput k x acc = acc @ [(k, x)]" if "k \<notin> fst ` set acc" for acc
      using that by (induction acc) auto
    from Cons.prems e have "dec (enc x) = Ok x" "mput k x acc = acc @ [(k, x)]"
      by (auto simp: fresh)
    then have "ofold (\<lambda>(k, v) m. obind (dec v) (\<lambda>x. Ok (mput k x m))) (mmap enc (e # m)) acc
        = ofold (\<lambda>(k, v) m. obind (dec v) (\<lambda>x. Ok (mput k x m))) (mmap enc m) (acc @ [(k, x)])"
      by (simp add: mmap_def e)
    moreover have "ofold (\<lambda>(k, v) m. obind (dec v) (\<lambda>x. Ok (mput k x m))) (mmap enc m) (acc @ [(k, x)])
        = Ok ((acc @ [(k, x)]) @ m)"
      using Cons.prems e by (intro Cons.IH) auto
    ultimately show ?case using e by simp
  qed
  from this [of "[]"] assms(2) show ?thesis by (simp add: dec_map_def)
qed

lemma sort_mmap: "sort_key fst (mmap enc m) = mmap enc (sort_key fst m)" for m :: "(string \<times> 'a) list"
proof -
  have "insort_key fst (k, enc x) (mmap enc l) = mmap enc (insort_key fst (k, x) l)" for k x and l :: "(string \<times> 'a) list"
    by (induction l) (auto simp: mmap_def)
  then show ?thesis
    by (induction m) (auto simp: mmap_def)
qed

lemma dec_enc_map:
  assumes "\<And>k x. (k, x) \<in> set (case m of None \<Rightarrow> [] | Some l \<Rightarrow> l) \<Longrightarrow> dec (enc x) = Ok x"
    and "mwf (case m of None \<Rightarrow> [] | Some l \<Rightarrow> l)"
  shows "dec_map t dec (enc_map enc m) = Ok (map_option (sort_key fst) m)"
proof (cases m)
  case None
  then show ?thesis by (simp add: dec_map_def enc_map_def)
next
  case (Some l)
  have "distinct (map fst (sort_key fst l))"
    using assms(2) Some by (metis mset_eq_imp_distinct_iff mset_map mset_sort mwf_def option.case(2))
  then have "dec_map t dec (JObj (mmap enc (sort_key fst l))) = Ok (Some (sort_key fst l))"
    using assms(1) Some by (intro dec_map_pairs) auto
  with Some show ?thesis by (simp add: enc_map_def sort_mmap)
qed

definition sort_map :: "(string, 'a) gomap option \<Rightarrow> (string, 'a) gomap option" where
  "sort_map m = map_option (sort_key fst) m"

lemma sort_map_lookup: "mwf (case m of None \<Rightarrow> [] | Some l \<Rightarrow> l) \<Longrightarrow> map_lookup (sort_map m) k = map_lookup m k"
  by (cases m) (auto simp: sort_map_def map_lookup_def mwf_def map_of_sort_key)

definition entries :: "(string, 'a) gomap option \<Rightarrow> (string \<times> 'a) list" where
  "entries m = (case m of None \<Rightarrow> [] | Some l \<Rightarrow> l)"

lemma find_handler_pair:
  "k1 \<noteq> k2 \<Longrightarrow> find_handler [(k1, h1), (k2, h2)] k1 = Some h1"
  "k1 \<noteq> k2 \<Longrightarrow> find_handler [(k1, h1), (k2, h2)] k2 = Some h2"
  by (simp_all add: find_handler_def)

lemma InterfacesConfig_round:
  assumes "mwf (entries (ic_Interfaces c))"
    and "\<And>k i. (k, i) \<in> set (entries (ic_Interfaces c)) \<Longrightarrow> storable Interface_fields nested_ok i"
  shows "dec_InterfacesConfig (enc_config (CInterfaces c)) = Ok (c\<lparr>ic_Interfaces := sort_map (ic_Interfaces c)\<rparr>)"
  using dec_enc_map [of "ic_Interfaces c" dec_Interface enc_Interface] assms
  by (simp add: entries_def dec_InterfacesConfig_def dec_object_def dec_pairs_def find_handler_pair
      dec_string_def sort_map_def Interface_round_trip)

lemma RoutesConfig_round:
  assumes "mwf (entries (rc_Routes c))"
    and "\<And>k r. (k, r) \<in> set (entries (rc_Routes c)) \<Longrightarrow> in_int64 (rt_Metric r) \<and> in_int64 (rt_Table r)"
  shows "dec_RoutesConfig (enc_config (CRoutes c)) = Ok (c\<lparr>rc_Routes := sort_map (rc_Routes c)\<rparr>)"
  using dec_enc_map [of "rc_Routes c" dec_Route enc_Route] assms
  by (simp add: entries_def dec_RoutesConfig_def dec_object_def dec_pairs_def find_handler_pair
      dec_string_def sort_map_def Route_round_trip)

section \<open>The generated configuration\<close>

lemma wan_by_link_ok: "wan_by_link nl fp links = Some l \<Longrightarrow> fp = Some l \<or> (l \<in> set links \<and> \<not> skipped l)"
  by (induction nl fp links rule: wan_by_link.induct) (auto simp: Let_def split: if_splits option.splits)

lemma LAN_ports:
  assumes "detectLANInterfaces nl w = Ok ls" and "l \<in> set ls"
  shows "ln_Name l \<noteq> ln_Name w" and "\<not> skipped l"
  using assms by (auto simp: detectLANInterfaces_def split: option.splits)

end
