(* ===== verification/Diff.thy ===== *)
theory Diff
  imports Config_Files
begin

text \<open>
  The diff of committed and pending configurations, \<open>src/daemon/diff.go\<close>. It works by reflection on
  structs: \<open>NumField\<close> and \<open>Field\<close> panic on anything else, which is what happens for the maps that
  plugin configurations are.
\<close>

section \<open>Deep equality\<close>

definition map_eq :: "(string, 'a) gomap option \<Rightarrow> (string, 'a) gomap option \<Rightarrow> bool" where
  "map_eq a b =
     (case (a, b) of
        (None, None) \<Rightarrow> True
      | (Some l, Some m) \<Rightarrow> length l = length m \<and> list_all (\<lambda>(k, v). mget m k = Some v) l
      | _ \<Rightarrow> False)"

definition deep_equal :: "gval \<Rightarrow> gval \<Rightarrow> bool" where
  "deep_equal v w =
     (case (v, w) of
        (GRouteMap a, GRouteMap b) \<Rightarrow> map_eq a b
      | (GInterfaceMap a, GInterfaceMap b) \<Rightarrow> map_eq a b
      | _ \<Rightarrow> v = w)"

fun isZeroValue :: "gval \<Rightarrow> bool" where
  "isZeroValue (GJson v) \<longleftrightarrow> v = JNull \<or> v = JStr [] \<or> v = JBool False \<or> v = JNum 0 \<or> v = JArr [] \<or> v = JObj []"
| "isZeroValue (GInt i) \<longleftrightarrow> i = 0"
| "isZeroValue (GStrs xs) \<longleftrightarrow> elems xs = []"
| "isZeroValue (GPeers xs) \<longleftrightarrow> elems xs = []"
| "isZeroValue (GIPv6Ptr p) \<longleftrightarrow> p = None"
| "isZeroValue (GInterfaceMap m) \<longleftrightarrow> entries m = []"
| "isZeroValue (GRouteMap m) \<longleftrightarrow> entries m = []"
| "isZeroValue (GRouteSlice xs) \<longleftrightarrow> elems xs = []"
| "isZeroValue _ \<longleftrightarrow> False"

section \<open>Results\<close>

record DiffResult =
  df_Path :: string
  df_Old :: "gval option"
  df_New :: "gval option"
  df_ChangeType :: string

text \<open>
  A struct value seen by reflection: the names and values of its exported fields. The fields of
  \<open>JackConfig\<close> are shown by their JSON form, which tells deeply unequal values apart.
\<close>

definition fields_view :: "'s fdesc list \<Rightarrow> 's \<Rightarrow> (string \<times> gval) list" where
  "fields_view fs s = map (\<lambda>f. (tag_name (fd_tag f), fd_get f s)) fs"

fun struct_view :: "config \<Rightarrow> (string \<times> gval) list option" where
  "struct_view (CInterfaces c) =
     Some [(''interfaces'', GInterfaceMap (ic_Interfaces c)), (''version'', GJson (JStr (ic_Version c)))]"
| "struct_view (CRoutes c) =
     Some [(''routes'', GRouteMap (rc_Routes c)), (''version'', GJson (JStr (rc_Version c)))]"
| "struct_view (CJack c) =
     Some [(''plugins'', GJson (enc_map enc_PluginState (jc_Plugins c))),
           (''observer'', GJson (enc_ptr enc_ObserverConfig (jc_Observer c))),
           (''logging'', GJson (enc_ptr enc_LoggingConfig (jc_Logging c))),
           (''version'', GJson (JStr (jc_Version c)))]"
| "struct_view (CMap m) = None"

definition diff_field :: "string \<Rightarrow> (string \<times> gval) \<Rightarrow> gval \<Rightarrow> DiffResult list" where
  "diff_field basePath old newFieldVal =
     (case old of (fieldName, oldFieldVal) \<Rightarrow>
        if \<not> deep_equal oldFieldVal newFieldVal then
          (if isZeroValue oldFieldVal \<and> isZeroValue newFieldVal then []
           else [\<lparr>df_Path = basePath @ ''.'' @ fieldName, df_Old = Some oldFieldVal,
                  df_New = Some newFieldVal, df_ChangeType = ''modified''\<rparr>])
        else [])"

text \<open>The field loop; \<open>newVal.Field(i)\<close> panics when the new struct has fewer fields.\<close>

fun diffStructs :: "string \<Rightarrow> (string \<times> gval) list \<Rightarrow> (string \<times> gval) list \<Rightarrow> DiffResult list outcome" where
  "diffStructs basePath [] ns = Ok []"
| "diffStructs basePath (ol # os) [] = Panic"
| "diffStructs basePath (ol # os) (n # ns) =
     obind (diffStructs basePath os ns) (\<lambda>ds. Ok (diff_field basePath ol (snd n) @ ds))"

text \<open>One interface of the pending map against the committed map.\<close>

definition diff_iface :: "InterfacesConfig \<Rightarrow> string \<times> Interface \<Rightarrow> DiffResult list \<Rightarrow> DiffResult list outcome" where
  "diff_iface committed e ds =
     (case e of (name, pendingIface) \<Rightarrow>
        (case map_lookup (ic_Interfaces committed) name of
           None \<Rightarrow>
             Ok (ds @ [\<lparr>df_Path = ''interfaces.'' @ name, df_Old = None,
                        df_New = Some (GInterface pendingIface), df_ChangeType = ''added''\<rparr>])
         | Some committedIface \<Rightarrow>
             obind (diffStructs (''interfaces.'' @ name) (fields_view Interface_fields committedIface)
                      (fields_view Interface_fields pendingIface)) (\<lambda>ds'. Ok (ds @ ds'))))"

definition removed_ifaces :: "InterfacesConfig \<Rightarrow> InterfacesConfig \<Rightarrow> DiffResult list" where
  "removed_ifaces committed pending =
     concat (map (\<lambda>(name, iface).
        if map_lookup (ic_Interfaces pending) name = None then
          [\<lparr>df_Path = ''interfaces.'' @ name, df_Old = Some (GInterface iface), df_New = None,
            df_ChangeType = ''removed''\<rparr>]
        else []) (entries (ic_Interfaces committed)))"

definition DiffInterfaces :: "InterfacesConfig \<Rightarrow> InterfacesConfig \<Rightarrow> DiffResult list outcome" where
  "DiffInterfaces committed pending =
     obind (ofold (diff_iface committed) (entries (ic_Interfaces pending)) []) (\<lambda>ds.
     Ok (ds @ removed_ifaces committed pending))"

definition DiffConfigs :: "string \<Rightarrow> config option \<Rightarrow> config option \<Rightarrow> DiffResult list outcome" where
  "DiffConfigs configType committed pending =
     (if configType = ''interfaces'' then
        (case (committed, pending) of
           (Some (CInterfaces c), Some (CInterfaces p)) \<Rightarrow> DiffInterfaces c p
         | _ \<Rightarrow> Err ''invalid InterfacesConfig types'')
      else
        (case (committed, pending) of
           (Some c, Some p) \<Rightarrow>
             (case (struct_view c, struct_view p) of
                (Some fc, Some fp) \<Rightarrow> diffStructs configType fc fp
              | _ \<Rightarrow> Panic)
         | _ \<Rightarrow> Panic))"

text \<open>Formatting; \<open>fmtv\<close> renders a non-empty value with the verbs \<open>%q\<close> and \<open>%v\<close>.\<close>

definition formatValue :: "(gval \<Rightarrow> string) \<Rightarrow> gval option \<Rightarrow> string" where
  "formatValue fmtv v =
     (case v of
        None \<Rightarrow> ''(none)''
      | Some x \<Rightarrow> if isZeroValue x then ''(empty)'' else fmtv x)"

definition arrow :: string where
  "arrow = map char_of [226 :: nat, 134, 146]"

definition format_line :: "(gval \<Rightarrow> string) \<Rightarrow> DiffResult \<Rightarrow> string list" where
  "format_line fmtv d =
     (if df_ChangeType d = ''added'' then [''  + '' @ df_Path d @ '' (added)'']
      else if df_ChangeType d = ''removed'' then [''  - '' @ df_Path d @ '' (removed)'']
      else if df_ChangeType d = ''modified'' then
        [''  ~ '' @ df_Path d @ '': '' @ formatValue fmtv (df_Old d) @ '' '' @ arrow @ '' '' @
         formatValue fmtv (df_New d)]
      else [])"

definition FormatDiff :: "(gval \<Rightarrow> string) \<Rightarrow> DiffResult list \<Rightarrow> string" where
  "FormatDiff fmtv ds =
     (if ds = [] then ''No changes''
      else join_with [CHR 0x0A]
             ((''Found '' @ show_nat (length ds) @ '' change(s):'' @ [CHR 0x0A]) #
              concat (map (format_line fmtv) ds)))"

section \<open>When a diff is empty\<close>

lemma map_eq_refl: "mwf (entries m) \<Longrightarrow> map_eq m m"
  by (cases m) (auto simp: map_eq_def entries_def list_all_iff mwf_def)

text \<open>Two structs a diff does not tell apart: each field is equal or zero on both sides.\<close>

definition same_field :: "gval \<Rightarrow> gval \<Rightarrow> bool" where
  "same_field v w \<longleftrightarrow> deep_equal v w \<or> (isZeroValue v \<and> isZeroValue w)"

definition same_struct :: "'s fdesc list \<Rightarrow> 's \<Rightarrow> 's \<Rightarrow> bool" where
  "same_struct fs s t \<longleftrightarrow> list_all (\<lambda>f. same_field (fd_get f s) (fd_get f t)) fs"

lemma diff_field_empty: "diff_field b (n, v) w = [] \<longleftrightarrow> same_field v w"
  by (auto simp: diff_field_def same_field_def)

lemma diffStructs_same_table:
  "\<exists>ds. diffStructs b (fields_view fs s) (fields_view fs t) = Ok ds \<and> (ds = [] \<longleftrightarrow> same_struct fs s t)"
  by (induction fs) (auto simp: fields_view_def same_struct_def diff_field_empty)

definition lookup_iface :: "InterfacesConfig \<Rightarrow> string \<Rightarrow> Interface option" where
  "lookup_iface c n = map_lookup (ic_Interfaces c) n"

lemma diff_iface_step:
  "\<exists>ds'. diff_iface c (n, i) ds = Ok ds' \<and>
     (ds' = [] \<longleftrightarrow> ds = [] \<and> (\<exists>j. lookup_iface c n = Some j \<and> same_struct Interface_fields j i))"
proof (cases "map_lookup (ic_Interfaces c) n")
  case None
  then show ?thesis by (simp add: diff_iface_def lookup_iface_def)
next
  case (Some j)
  obtain ds1 where "diffStructs (''interfaces.'' @ n) (fields_view Interface_fields j)
      (fields_view Interface_fields i) = Ok ds1" "ds1 = [] \<longleftrightarrow> same_struct Interface_fields j i"
    using diffStructs_same_table [of "''interfaces.'' @ n" Interface_fields j i] by blast
  moreover from this(1) Some have "diff_iface c (n, i) ds = Ok (ds @ ds1)"
    by (simp add: diff_iface_def)
  ultimately show ?thesis using Some by (intro exI [of _ "ds @ ds1"]) (simp add: lookup_iface_def)
qed

lemma diff_iface_loop:
  "\<exists>ds. ofold (diff_iface c) l acc = Ok ds \<and>
     (ds = [] \<longleftrightarrow> acc = [] \<and> (\<forall>(n, i)\<in>set l. \<exists>j. lookup_iface c n = Some j \<and> same_struct Interface_fields j i))"
proof (induction l arbitrary: acc)
  case (Cons e l)
  obtain n i where e: "e = (n, i)" by (cases e)
  obtain acc' where "diff_iface c (n, i) acc = Ok acc'"
    and "acc' = [] \<longleftrightarrow> acc = [] \<and> (\<exists>j. lookup_iface c n = Some j \<and> same_struct Interface_fields j i)"
    using diff_iface_step by blast
  with Cons.IH [of acc'] e show ?case by auto
qed simp

lemma removed_ifaces_empty:
  "removed_ifaces c p = [] \<longleftrightarrow> (\<forall>(n, i)\<in>set (entries (ic_Interfaces c)). lookup_iface p n \<noteq> None)"
  unfolding removed_ifaces_def lookup_iface_def concat_eq_Nil_conv set_map ball_simps
  by (rule ball_cong [OF refl]) (auto split: if_splits)

lemma DiffInterfaces_total:
  "\<exists>ds. DiffInterfaces c p = Ok ds \<and>
     (ds = [] \<longleftrightarrow>
        (\<forall>(n, i)\<in>set (entries (ic_Interfaces p)).
           \<exists>j. lookup_iface c n = Some j \<and> same_struct Interface_fields j i) \<and>
        (\<forall>(n, i)\<in>set (entries (ic_Interfaces c)). lookup_iface p n \<noteq> None))"
proof -
  obtain ds where "ofold (diff_iface c) (entries (ic_Interfaces p)) [] = Ok ds"
    and "ds = [] \<longleftrightarrow> (\<forall>(n, i)\<in>set (entries (ic_Interfaces p)).
           \<exists>j. lookup_iface c n = Some j \<and> same_struct Interface_fields j i)"
    using diff_iface_loop [of c "entries (ic_Interfaces p)" "[]"] by blast
  then show ?thesis unfolding removed_ifaces_empty [symmetric] by (simp add: DiffInterfaces_def)
qed

end
