(* ===== verification/State_Store.thy ===== *)
theory State_Store
  imports Path
begin

text \<open>
  The daemon's in-memory state, \<open>src/daemon/state.go\<close>: per configuration type the committed, the
  pending and the last applied configuration. Every method takes the mutex for its whole body, so
  each is one step. The locale \<open>two_layer\<close> is the contract the command handlers rely on; \<open>State\<close>
  is its instance.
\<close>

section \<open>System snapshots\<close>

text \<open>The structs of \<open>src/system/snapshot.go\<close>, which the state keeps for rollback.\<close>

record InterfaceSnapshot =
  is_Name :: string
  is_Type :: string
  is_Existed :: bool
  is_MTU :: int
  is_State :: string
  is_Addresses :: "string slice"
  is_Gateway :: string
  is_Metric :: int
  is_Ports :: "string slice"
  is_VLANId :: int
  is_ParentDevice :: string

record RouteSnapshot =
  rs_Destination :: string
  rs_Gateway :: string
  rs_Device :: string
  rs_Metric :: int
  rs_Table :: int
  rs_Scope :: int

record SystemSnapshot =
  ss_Timestamp :: int
  ss_CheckpointID :: string
  ss_IPForwarding :: bool
  ss_Interfaces :: "(string, InterfaceSnapshot) gomap"
  ss_Routes :: "RouteSnapshot slice"
  ss_NftablesRules :: string

section \<open>State\<close>

record ConfigEntry =
  ce_Committed :: "config option"
  ce_Pending :: "config option"
  ce_LastApplied :: "config option"

record State =
  st_registry :: "(string, ConfigEntry) gomap"
  st_snapshots :: "(string, SystemSnapshot) gomap"
  st_snapshotList :: "string list"

definition zero_ConfigEntry :: ConfigEntry where
  "zero_ConfigEntry = \<lparr>ce_Committed = None, ce_Pending = None, ce_LastApplied = None\<rparr>"

definition NewState :: State where
  "NewState = \<lparr>st_registry = [], st_snapshots = [], st_snapshotList = []\<rparr>"

text \<open>The entry of a type, registered empty when it is not there yet.\<close>

definition entry_of :: "State \<Rightarrow> string \<Rightarrow> ConfigEntry" where
  "entry_of s configType =
     (case mget (st_registry s) configType of None \<Rightarrow> zero_ConfigEntry | Some e \<Rightarrow> e)"

definition put_entry :: "string \<Rightarrow> ConfigEntry \<Rightarrow> State \<Rightarrow> State" where
  "put_entry configType e s = s\<lparr>st_registry := mput configType e (st_registry s)\<rparr>"

definition LoadCommitted :: "string \<Rightarrow> config option \<Rightarrow> State \<Rightarrow> State" where
  "LoadCommitted configType cfg s =
     put_entry configType ((entry_of s configType)\<lparr>ce_Committed := cfg, ce_Pending := None\<rparr>) s"

definition LoadCommittedInterfaces :: "InterfacesConfig \<Rightarrow> State \<Rightarrow> State" where
  "LoadCommittedInterfaces cfg = LoadCommitted ''interfaces'' (Some (CInterfaces cfg))"

definition LoadCommittedRoutes :: "RoutesConfig \<Rightarrow> State \<Rightarrow> State" where
  "LoadCommittedRoutes cfg = LoadCommitted ''routes'' (Some (CRoutes cfg))"

definition LoadCommittedJackConfig :: "JackConfig \<Rightarrow> State \<Rightarrow> State" where
  "LoadCommittedJackConfig cfg = LoadCommitted ''jack'' (Some (CJack cfg))"

definition GetCurrent :: "State \<Rightarrow> string \<Rightarrow> config option outcome" where
  "GetCurrent s configType =
     (case mget (st_registry s) configType of
        None \<Rightarrow> Err (''unknown config type: '' @ configType)
      | Some entry \<Rightarrow>
          if ce_Pending entry \<noteq> None then Ok (ce_Pending entry) else Ok (ce_Committed entry))"

definition GetCurrentInterfaces :: "State \<Rightarrow> InterfacesConfig option" where
  "GetCurrentInterfaces s =
     (case GetCurrent s ''interfaces'' of Ok (Some (CInterfaces c)) \<Rightarrow> Some c | _ \<Rightarrow> None)"

definition GetCurrentRoutes :: "State \<Rightarrow> RoutesConfig option" where
  "GetCurrentRoutes s =
     (case GetCurrent s ''routes'' of Ok (Some (CRoutes c)) \<Rightarrow> Some c | _ \<Rightarrow> None)"

definition GetCurrentJackConfig :: "State \<Rightarrow> JackConfig option" where
  "GetCurrentJackConfig s =
     (case GetCurrent s ''jack'' of Ok (Some (CJack c)) \<Rightarrow> Some c | _ \<Rightarrow> None)"

definition GetCommitted :: "State \<Rightarrow> string \<Rightarrow> config option outcome" where
  "GetCommitted s configType =
     (case mget (st_registry s) configType of
        None \<Rightarrow> Err (''unknown config type: '' @ configType)
      | Some entry \<Rightarrow> Ok (ce_Committed entry))"

definition GetCommittedInterfaces :: "State \<Rightarrow> InterfacesConfig option" where
  "GetCommittedInterfaces s =
     (case GetCommitted s ''interfaces'' of Ok (Some (CInterfaces c)) \<Rightarrow> Some c | _ \<Rightarrow> None)"

definition HasPending :: "State \<Rightarrow> bool" where
  "HasPending s = list_ex (\<lambda>(_, entry). ce_Pending entry \<noteq> None) (st_registry s)"

definition HasPendingFor :: "State \<Rightarrow> string \<Rightarrow> bool" where
  "HasPendingFor s configType =
     (case mget (st_registry s) configType of None \<Rightarrow> False | Some entry \<Rightarrow> ce_Pending entry \<noteq> None)"

definition SetPending :: "string \<Rightarrow> config option \<Rightarrow> State \<Rightarrow> State" where
  "SetPending configType cfg s =
     put_entry configType ((entry_of s configType)\<lparr>ce_Pending := cfg\<rparr>) s"

definition commit_entry :: "ConfigEntry \<Rightarrow> ConfigEntry" where
  "commit_entry entry =
     (if ce_Pending entry \<noteq> None
      then entry\<lparr>ce_Committed := ce_Pending entry, ce_Pending := None\<rparr> else entry)"

definition CommitPending :: "State \<Rightarrow> State \<times> goerror" where
  "CommitPending s =
     (s\<lparr>st_registry := mmap commit_entry (st_registry s)\<rparr>,
      if HasPending s then None else Some ''no pending changes to commit'')"

definition RevertPending :: "State \<Rightarrow> State \<times> goerror" where
  "RevertPending s =
     (s\<lparr>st_registry := mmap (\<lambda>entry. entry\<lparr>ce_Pending := None\<rparr>) (st_registry s)\<rparr>, None)"

definition GetPendingTypes :: "State \<Rightarrow> string list" where
  "GetPendingTypes s = map fst (filter (\<lambda>(_, entry). ce_Pending entry \<noteq> None) (st_registry s))"

definition SetLastApplied :: "string \<Rightarrow> config option \<Rightarrow> State \<Rightarrow> State" where
  "SetLastApplied configType cfg s =
     put_entry configType ((entry_of s configType)\<lparr>ce_LastApplied := cfg\<rparr>) s"

definition GetLastApplied :: "State \<Rightarrow> string \<Rightarrow> config option outcome" where
  "GetLastApplied s configType =
     (case mget (st_registry s) configType of
        None \<Rightarrow> Err (''unknown config type: '' @ configType)
      | Some entry \<Rightarrow> Ok (ce_LastApplied entry))"

section \<open>The two-layer contract\<close>

text \<open>
  Committed and pending layers as partial functions. A command session is a list of operations;
  the reference semantics of a session works on the pair of layers alone.
\<close>

datatype ('k, 'c) cop = OSet 'k 'c | OCommit | ORevert

fun spec_op :: "('k, 'c) cop \<Rightarrow> ('k \<rightharpoonup> 'c) \<times> ('k \<rightharpoonup> 'c) \<Rightarrow> ('k \<rightharpoonup> 'c) \<times> ('k \<rightharpoonup> 'c)" where
  "spec_op (OSet k c) (com, pend) = (com, pend(k \<mapsto> c))"
| "spec_op OCommit (com, pend) = (com ++ pend, Map.empty)"
| "spec_op ORevert (com, pend) = (com, Map.empty)"

definition sets_only :: "('k, 'c) cop list \<Rightarrow> bool" where
  "sets_only ops = list_all (\<lambda>op. case op of OSet _ _ \<Rightarrow> True | _ \<Rightarrow> False) ops"

locale two_layer =
  fixes com :: "'s \<Rightarrow> 'k \<rightharpoonup> 'c"
    and pend :: "'s \<Rightarrow> 'k \<rightharpoonup> 'c"
    and setp :: "'k \<Rightarrow> 'c \<Rightarrow> 's \<Rightarrow> 's"
    and commit :: "'s \<Rightarrow> 's"
    and revert :: "'s \<Rightarrow> 's"
  assumes com_setp: "com (setp k c s) = com s"
    and pend_setp: "pend (setp k c s) = (pend s)(k \<mapsto> c)"
    and com_commit: "com (commit s) = com s ++ pend s"
    and pend_commit: "pend (commit s) = Map.empty"
    and com_revert: "com (revert s) = com s"
    and pend_revert: "pend (revert s) = Map.empty"
begin

definition step :: "('k, 'c) cop \<Rightarrow> 's \<Rightarrow> 's" where
  "step op s = (case op of OSet k c \<Rightarrow> setp k c s | OCommit \<Rightarrow> commit s | ORevert \<Rightarrow> revert s)"

lemma step_refines: "(com (step op s), pend (step op s)) = spec_op op (com s, pend s)"
  by (cases op)
     (simp_all add: step_def com_setp pend_setp com_commit pend_commit com_revert pend_revert)

lemma run_refines:
  "(com (fold step ops s), pend (fold step ops s)) = fold spec_op ops (com s, pend s)"
  by (induction ops arbitrary: s) (simp_all add: step_refines [symmetric])

lemma current_commit: "com (commit s) ++ pend (commit s) = com s ++ pend s"
  by (simp add: com_commit pend_commit)

lemma sets_keep_com: "sets_only ops \<Longrightarrow> com (fold step ops s) = com s"
  by (induction ops arbitrary: s) (auto simp: sets_only_def step_def com_setp split: cop.splits)

lemma revert_undoes: "sets_only ops \<Longrightarrow> pend s = Map.empty \<Longrightarrow>
    com (revert (fold step ops s)) = com s \<and> pend (revert (fold step ops s)) = pend s"
  by (simp add: com_revert pend_revert sets_keep_com)

end

section \<open>State implements the contract\<close>

definition committed_layer :: "State \<Rightarrow> string \<rightharpoonup> config" where
  "committed_layer s k = (case mget (st_registry s) k of None \<Rightarrow> None | Some e \<Rightarrow> ce_Committed e)"

definition pending_layer :: "State \<Rightarrow> string \<rightharpoonup> config" where
  "pending_layer s k = (case mget (st_registry s) k of None \<Rightarrow> None | Some e \<Rightarrow> ce_Pending e)"

definition applied_layer :: "State \<Rightarrow> string \<rightharpoonup> config" where
  "applied_layer s k = (case mget (st_registry s) k of None \<Rightarrow> None | Some e \<Rightarrow> ce_LastApplied e)"

lemmas layer_defs = committed_layer_def pending_layer_def applied_layer_def

lemma put_entry_get:
  "mget (st_registry (put_entry k e s)) k' = (if k' = k then Some e else mget (st_registry s) k')"
  by (simp add: put_entry_def gomap_simps)

lemma entry_of_layers:
  "ce_Committed (entry_of s k) = committed_layer s k"
  "ce_Pending (entry_of s k) = pending_layer s k"
  "ce_LastApplied (entry_of s k) = applied_layer s k"
  by (simp_all add: entry_of_def layer_defs zero_ConfigEntry_def split: option.splits)

lemma put_entry_layers:
  "committed_layer (put_entry k e s) = (committed_layer s)(k := ce_Committed e)"
  "pending_layer (put_entry k e s) = (pending_layer s)(k := ce_Pending e)"
  "applied_layer (put_entry k e s) = (applied_layer s)(k := ce_LastApplied e)"
  by (auto simp: layer_defs put_entry_get fun_eq_iff)

lemma LoadCommitted_layers:
  "committed_layer (LoadCommitted k c s) = (committed_layer s)(k := c)"
  "pending_layer (LoadCommitted k c s) = (pending_layer s)(k := None)"
  "applied_layer (LoadCommitted k c s) = applied_layer s"
  by (auto simp: LoadCommitted_def put_entry_layers entry_of_layers)

lemma SetPending_layers:
  "committed_layer (SetPending k c s) = committed_layer s"
  "pending_layer (SetPending k c s) = (pending_layer s)(k := c)"
  "applied_layer (SetPending k c s) = applied_layer s"
  by (auto simp: SetPending_def put_entry_layers entry_of_layers)

lemma SetLastApplied_layers:
  "committed_layer (SetLastApplied k c s) = committed_layer s"
  "pending_layer (SetLastApplied k c s) = pending_layer s"
  "applied_layer (SetLastApplied k c s) = (applied_layer s)(k := c)"
  by (auto simp: SetLastApplied_def put_entry_layers entry_of_layers)

lemma CommitPending_layers:
  "committed_layer (fst (CommitPending s)) = committed_layer s ++ pending_layer s"
  "pending_layer (fst (CommitPending s)) = Map.empty"
  "applied_layer (fst (CommitPending s)) = applied_layer s"
  by (auto simp: CommitPending_def layer_defs gomap_simps commit_entry_def map_add_def fun_eq_iff
      split: option.splits)

lemma RevertPending_layers:
  "committed_layer (fst (RevertPending s)) = committed_layer s"
  "pending_layer (fst (RevertPending s)) = Map.empty"
  "applied_layer (fst (RevertPending s)) = applied_layer s"
  by (auto simp: RevertPending_def layer_defs gomap_simps fun_eq_iff split: option.splits)

lemmas state_layers =
  LoadCommitted_layers SetPending_layers SetLastApplied_layers CommitPending_layers RevertPending_layers

lemma GetCurrent_layers:
  "GetCurrent s k =
     (if mget (st_registry s) k = None then Err (''unknown config type: '' @ k)
      else Ok ((committed_layer s ++ pending_layer s) k))"
  by (auto simp: GetCurrent_def layer_defs map_add_def split: option.splits)

lemma GetCommitted_layers:
  "GetCommitted s k =
     (if mget (st_registry s) k = None then Err (''unknown config type: '' @ k)
      else Ok (committed_layer s k))"
  by (auto simp: GetCommitted_def layer_defs split: option.splits)

lemma HasPendingFor_layer: "HasPendingFor s k \<longleftrightarrow> pending_layer s k \<noteq> None"
  by (auto simp: HasPendingFor_def layer_defs split: option.splits)

definition state_wf :: "State \<Rightarrow> bool" where
  "state_wf s \<longleftrightarrow> mwf (st_registry s)"

lemma pending_types_set:
  assumes "state_wf s"
  shows "set (GetPendingTypes s) = dom (pending_layer s)"
proof -
  have "k \<in> set (GetPendingTypes s) \<longleftrightarrow> (\<exists>e. (k, e) \<in> set (st_registry s) \<and> ce_Pending e \<noteq> None)" for k
    by (force simp: GetPendingTypes_def)
  moreover have "k \<in> dom (pending_layer s) \<longleftrightarrow> (\<exists>e. mget (st_registry s) k = Some e \<and> ce_Pending e \<noteq> None)" for k
    by (auto simp: layer_defs dom_def split: option.splits)
  ultimately show ?thesis
    using assms by (intro set_eqI) (simp add: state_wf_def mget_iff_entry)
qed

lemma pending_types_distinct: "state_wf s \<Longrightarrow> distinct (GetPendingTypes s)"
  by (simp add: state_wf_def mwf_def GetPendingTypes_def distinct_map_filter)

lemma HasPending_types: "HasPending s \<longleftrightarrow> GetPendingTypes s \<noteq> []"
  by (force simp: HasPending_def GetPendingTypes_def list_ex_iff filter_empty_conv)

lemma HasPending_layer: "state_wf s \<Longrightarrow> HasPending s \<longleftrightarrow> pending_layer s \<noteq> Map.empty"
  using pending_types_set [of s] by (auto simp: HasPending_types) (metis dom_eq_empty_conv empty_iff set_empty)

lemma state_wf_ops:
  "state_wf s \<Longrightarrow> state_wf (LoadCommitted k c s)"
  "state_wf s \<Longrightarrow> state_wf (SetPending k c s)"
  "state_wf s \<Longrightarrow> state_wf (SetLastApplied k c s)"
  "state_wf s \<Longrightarrow> state_wf (fst (CommitPending s))"
  "state_wf s \<Longrightarrow> state_wf (fst (RevertPending s))"
  by (simp_all add: state_wf_def LoadCommitted_def SetPending_def SetLastApplied_def put_entry_def
      CommitPending_def RevertPending_def gomap_wf)

interpretation store: two_layer committed_layer pending_layer
  "\<lambda>k c. SetPending k (Some c)" "\<lambda>s. fst (CommitPending s)" "\<lambda>s. fst (RevertPending s)"
  by unfold_locales (auto simp: state_layers)

text \<open>A session of configuration changes on the daemon's state.\<close>

definition run_ops :: "(string, config) cop list \<Rightarrow> State \<Rightarrow> State" where
  "run_ops ops s =
     fold (\<lambda>op s. case op of
             OSet k c \<Rightarrow> SetPending k (Some c) s
           | OCommit \<Rightarrow> fst (CommitPending s)
           | ORevert \<Rightarrow> fst (RevertPending s)) ops s"

lemma run_ops_step: "run_ops ops s = fold store.step ops s"
proof -
  have "store.step = (\<lambda>op s. case op of
             OSet k c \<Rightarrow> SetPending k (Some c) s
           | OCommit \<Rightarrow> fst (CommitPending s)
           | ORevert \<Rightarrow> fst (RevertPending s))"
    by (simp add: fun_eq_iff store.step_def)
  then show ?thesis by (simp add: run_ops_def)
qed

end
