(* ===== verification/Snapshots.thy ===== *)
theory Snapshots
  imports State_Store
begin

text \<open>
  Checkpoints, the snapshot half of \<open>src/daemon/state.go\<close>. The directory of snapshot files maps a
  checkpoint to the snapshot its file decodes to; \<open>dir_ok\<close> and \<open>write_ok\<close> are the verdicts of the file system
  on \<open>MkdirAll\<close> and \<open>WriteFile\<close>.
\<close>

record SnapshotInfo =
  si_CheckpointID :: string
  si_Timestamp :: int
  si_Trigger :: string

type_synonym snapshot_dir = "(string, SystemSnapshot) gomap"

text \<open>
  \<open>filepath.Join\<close> also resolves dot-dot elements; the identifiers the daemon generates
  (\<open>auto-...\<close>, \<open>manual-...\<close>) have no slash, where joining is concatenation.
\<close>

definition getSnapshotPath :: "string \<Rightarrow> string" where
  "getSnapshotPath checkpointID = ''/var/lib/jack/snapshots/'' @ checkpointID @ ''.json''"

definition getTriggerType :: "string \<Rightarrow> string" where
  "getTriggerType checkpointID =
     (if length checkpointID > 5 \<and> take 5 checkpointID = ''auto-'' then ''auto''
      else if length checkpointID > 7 \<and> take 7 checkpointID = ''manual-'' then ''manual''
      else ''unknown'')"

definition persistSnapshot :: "bool \<Rightarrow> bool \<Rightarrow> string \<Rightarrow> SystemSnapshot \<Rightarrow> snapshot_dir \<Rightarrow> snapshot_dir \<times> goerror" where
  "persistSnapshot dir_ok write_ok checkpointID snapshot dir =
     (if \<not> dir_ok then (dir, Some ''failed to create snapshot directory'')
      else if \<not> write_ok then (dir, Some ''failed to write snapshot file'')
      else (mput (getSnapshotPath checkpointID) snapshot dir, None))"

definition SaveSnapshot :: "bool \<Rightarrow> bool \<Rightarrow> string \<Rightarrow> SystemSnapshot \<Rightarrow> State \<times> snapshot_dir \<Rightarrow> (State \<times> snapshot_dir) \<times> goerror" where
  "SaveSnapshot dir_ok write_ok checkpointID snapshot sd =
     (case sd of (s, dir) \<Rightarrow>
        (let s' = s\<lparr>st_snapshots := mput checkpointID snapshot (st_snapshots s),
                    st_snapshotList := st_snapshotList s @ [checkpointID]\<rparr>;
             (dir', err) = persistSnapshot dir_ok write_ok checkpointID snapshot dir
         in ((s', dir'), err)))"

definition loadSnapshotFromDisk :: "snapshot_dir \<Rightarrow> string \<Rightarrow> SystemSnapshot outcome" where
  "loadSnapshotFromDisk dir checkpointID =
     (case mget dir (getSnapshotPath checkpointID) of
        None \<Rightarrow> Err ''snapshot not found''
      | Some snapshot \<Rightarrow> Ok snapshot)"

definition LoadSnapshot :: "State \<Rightarrow> snapshot_dir \<Rightarrow> string \<Rightarrow> SystemSnapshot outcome" where
  "LoadSnapshot s dir checkpointID =
     (if checkpointID = ''latest'' \<and> st_snapshotList s = [] then Err ''no snapshots available''
      else
        (let checkpointID' = (if checkpointID = ''latest'' then last (st_snapshotList s) else checkpointID) in
         case mget (st_snapshots s) checkpointID' of
           None \<Rightarrow> loadSnapshotFromDisk dir checkpointID'
         | Some snapshot \<Rightarrow> Ok snapshot))"

definition ListSnapshots :: "State \<Rightarrow> SnapshotInfo list" where
  "ListSnapshots s =
     concat (map (\<lambda>checkpointID.
       case mget (st_snapshots s) checkpointID of
         None \<Rightarrow> []
       | Some snapshot \<Rightarrow>
           [\<lparr>si_CheckpointID = checkpointID, si_Timestamp = ss_Timestamp snapshot,
             si_Trigger = getTriggerType checkpointID\<rparr>]) (st_snapshotList s))"

definition PruneOldSnapshots :: "nat \<Rightarrow> State \<times> snapshot_dir \<Rightarrow> State \<times> snapshot_dir" where
  "PruneOldSnapshots keepCount sd =
     (case sd of (s, dir) \<Rightarrow>
        (if length (st_snapshotList s) \<le> keepCount then (s, dir)
         else
           (let toRemove = take (length (st_snapshotList s) - keepCount) (st_snapshotList s);
                (snaps, dir') = foldl (\<lambda>(m, d) checkpointID. (mdel checkpointID m, mdel (getSnapshotPath checkpointID) d))
                                  (st_snapshots s, dir) toRemove
            in (s\<lparr>st_snapshots := snaps,
                 st_snapshotList := drop (length (st_snapshotList s) - keepCount) (st_snapshotList s)\<rparr>, dir'))))"

text \<open>
  \<open>LoadSnapshotsFromDisk\<close>: the names of the directory's entries with whether each is a
  directory, as \<open>os.ReadDir\<close> lists them. \<open>filepath.Ext\<close> is the suffix from the last dot.
\<close>

definition file_ext :: "string \<Rightarrow> string" where
  "file_ext name =
     (case last_index_of (CHR ''.'') name of None \<Rightarrow> [] | Some i \<Rightarrow> drop i name)"

definition LoadSnapshotsFromDisk :: "bool \<Rightarrow> (string \<times> bool) list option \<Rightarrow> State \<Rightarrow> State \<times> goerror" where
  "LoadSnapshotsFromDisk dir_ok entries s =
     (if \<not> dir_ok then (s, Some ''failed to create snapshot directory'')
      else
        (case entries of
           None \<Rightarrow> (s, Some ''failed to read snapshot directory'')
         | Some es \<Rightarrow>
             (let names = map fst (filter (\<lambda>(name, isDir). \<not> isDir \<and> file_ext name = ''.json'') es);
                  checkpointIDs = map (\<lambda>name. take (length name - 5) name) names
              in (s\<lparr>st_snapshotList := sort checkpointIDs\<rparr>, None))))"

section \<open>Invariant\<close>

text \<open>
  Every listed checkpoint is in memory and nothing else is, and the list has no repetition: what a
  freshly started daemon with no old files maintains as long as checkpoint identifiers are fresh.
\<close>

definition snaps_ok :: "State \<Rightarrow> bool" where
  "snaps_ok s \<longleftrightarrow>
     distinct (st_snapshotList s) \<and> set (mkeys (st_snapshots s)) = set (st_snapshotList s)"

lemma foldl_remove:
  "foldl (\<lambda>(m, d) c. (mdel c m, mdel (getSnapshotPath c) d)) (m, d) ids =
     (foldl (\<lambda>m c. mdel c m) m ids, foldl (\<lambda>d c. mdel (getSnapshotPath c) d) d ids)"
  by (induction ids arbitrary: m d) auto

lemma foldl_mdel_get: "mget (foldl (\<lambda>m c. mdel c m) m ids) k = (if k \<in> set ids then None else mget m k)"
  by (induction ids arbitrary: m) (auto simp: gomap_simps)

lemma foldl_mdel_keys: "set (mkeys (foldl (\<lambda>m c. mdel c m) m ids)) = set (mkeys m) - set ids"
  by (induction ids arbitrary: m) (auto simp: gomap_simps)

lemma getSnapshotPath_inj: "getSnapshotPath a = getSnapshotPath b \<longleftrightarrow> a = b"
  by (simp add: getSnapshotPath_def)

lemma foldl_mdel_path_get:
  "mget (foldl (\<lambda>d c. mdel (getSnapshotPath c) d) d ids) (getSnapshotPath k) =
     (if k \<in> set ids then None else mget d (getSnapshotPath k))"
  by (induction ids arbitrary: d) (auto simp: gomap_simps getSnapshotPath_inj)

lemma Save_snaps_ok:
  assumes "snaps_ok s" and "c \<notin> set (st_snapshotList s)"
  shows "snaps_ok (fst (fst (SaveSnapshot dk wk c snap (s, dir))))"
  using assms by (auto simp: snaps_ok_def SaveSnapshot_def Let_def gomap_simps split: prod.splits)

lemma Prune_shape:
  assumes "PruneOldSnapshots n (s, dir) = (s', dir')"
  shows "st_snapshotList s' = drop (length (st_snapshotList s) - n) (st_snapshotList s)"
    and "mget (st_snapshots s') c =
      (if c \<in> set (take (length (st_snapshotList s) - n) (st_snapshotList s)) then None else mget (st_snapshots s) c)"
    and "mget dir' (getSnapshotPath c) =
      (if c \<in> set (take (length (st_snapshotList s) - n) (st_snapshotList s)) then None else mget dir (getSnapshotPath c))"
    and "set (mkeys (st_snapshots s')) =
      set (mkeys (st_snapshots s)) - set (take (length (st_snapshotList s) - n) (st_snapshotList s))"
  using assms
  by (auto simp: PruneOldSnapshots_def Let_def foldl_remove foldl_mdel_get foldl_mdel_path_get foldl_mdel_keys
      split: if_splits)

lemma Prune_registry:
  "PruneOldSnapshots n (s, dir) = (s', dir') \<Longrightarrow> st_registry s' = st_registry s"
  by (auto simp: PruneOldSnapshots_def Let_def foldl_remove split: if_splits)

lemma take_drop_disjoint: "distinct xs \<Longrightarrow> set (take k xs) \<inter> set (drop k xs) = {}"
  by (metis append_take_drop_id distinct_append)

lemma take_drop_union: "set xs = set (take k xs) \<union> set (drop k xs)"
  by (metis append_take_drop_id set_append)

lemma Prune_snaps_ok:
  assumes "snaps_ok s" and "PruneOldSnapshots n (s, dir) = (s', dir')"
  shows "snaps_ok s'"
  using assms(1) Prune_shape [OF assms(2)] take_drop_disjoint [of "st_snapshotList s" "length (st_snapshotList s) - n"]
    take_drop_union [of "st_snapshotList s" "length (st_snapshotList s) - n"]
  by (auto simp: snaps_ok_def)

end
