(* ===== verification/Registry.thy ===== *)
theory Registry
  imports Path
begin

text \<open>
  The plugin registry, \<open>src/daemon/registry.go\<close>. A plugin is another process reached over RPC:
  for the daemon it is its metadata, the services it provides and requires, and its answers to
  the calls of the \<open>Plugin\<close> interface.
\<close>

record PluginMetadata =
  pm_Namespace :: string
  pm_Version :: string
  pm_Description :: string
  pm_Category :: string
  pm_ConfigPath :: string
  pm_DefaultConfig :: "(string, json) gomap option"
  pm_Dependencies :: "string list"
  pm_PathPrefix :: string

record Plugin =
  pl_Metadata :: PluginMetadata
  pl_services :: "string list"
  pl_required :: "string list"
  pl_ValidateConfig :: "config option \<Rightarrow> goerror"
  pl_ApplyConfig :: "config option \<Rightarrow> goerror"
  pl_Flush :: goerror
  pl_Close :: goerror

record PluginRegistry =
  pr_plugins :: "(string, Plugin) gomap"
  pr_nameToNS :: "(string, string) gomap"
  pr_pathPrefixes :: "(string, string) gomap"

definition NewPluginRegistry :: PluginRegistry where
  "NewPluginRegistry = \<lparr>pr_plugins = [], pr_nameToNS = [], pr_pathPrefixes = []\<rparr>"

definition Register :: "Plugin \<Rightarrow> string \<Rightarrow> PluginRegistry \<Rightarrow> PluginRegistry \<times> goerror" where
  "Register plugin pluginName r =
     (let metadata = pl_Metadata plugin in
      if mget (pr_plugins r) (pm_Namespace metadata) \<noteq> None then
        (r, Some (''plugin namespace '' @ quoted (pm_Namespace metadata) @ '' already registered''))
      else
        (r\<lparr>pr_plugins := mput (pm_Namespace metadata) plugin (pr_plugins r),
           pr_nameToNS := mput pluginName (pm_Namespace metadata) (pr_nameToNS r),
           pr_pathPrefixes :=
             (if pm_PathPrefix metadata \<noteq> ''''
              then mput (pm_Namespace metadata) (pm_PathPrefix metadata) (pr_pathPrefixes r)
              else pr_pathPrefixes r)\<rparr>, None))"

definition Registry_Get :: "PluginRegistry \<Rightarrow> string \<Rightarrow> Plugin option" where
  "Registry_Get r namespace = mget (pr_plugins r) namespace"

definition Registry_List :: "PluginRegistry \<Rightarrow> string list" where
  "Registry_List r = mkeys (pr_plugins r)"

text \<open>The loop over the reverse mapping deletes the first entry it meets and stops.\<close>

definition name_entry :: "PluginRegistry \<Rightarrow> string \<Rightarrow> (string \<times> string) option" where
  "name_entry r namespace = find (\<lambda>(name, ns). ns = namespace) (pr_nameToNS r)"

definition Unregister :: "string \<Rightarrow> PluginRegistry \<Rightarrow> PluginRegistry" where
  "Unregister namespace r =
     r\<lparr>pr_plugins := mdel namespace (pr_plugins r),
       pr_nameToNS :=
         (case name_entry r namespace of
            None \<Rightarrow> pr_nameToNS r
          | Some (name, _) \<Rightarrow> mdel name (pr_nameToNS r))\<rparr>"

definition GetPathPrefix :: "PluginRegistry \<Rightarrow> string \<Rightarrow> string" where
  "GetPathPrefix r namespace =
     (case mget (pr_pathPrefixes r) namespace of None \<Rightarrow> '''' | Some p \<Rightarrow> p)"

definition GetNamespaceForPlugin :: "PluginRegistry \<Rightarrow> string \<Rightarrow> string option" where
  "GetNamespaceForPlugin r pluginName = mget (pr_nameToNS r) pluginName"

definition GetPluginNameForNamespace :: "PluginRegistry \<Rightarrow> string \<Rightarrow> string option" where
  "GetPluginNameForNamespace r namespace = map_option fst (name_entry r namespace)"

definition GetAll :: "PluginRegistry \<Rightarrow> (string, Plugin) gomap" where
  "GetAll r = mcopy [] (pr_plugins r)"

definition IsRegistered :: "PluginRegistry \<Rightarrow> string \<Rightarrow> bool" where
  "IsRegistered r namespace \<longleftrightarrow> mget (pr_plugins r) namespace \<noteq> None"

section \<open>Invariant\<close>

text \<open>
  The name map and the plugin map describe the same plugins: every registered namespace has
  exactly one plugin name, and every name leads to a registered namespace.
\<close>

definition reg_ok :: "PluginRegistry \<Rightarrow> bool" where
  "reg_ok r \<longleftrightarrow>
     mwf (pr_plugins r) \<and> mwf (pr_nameToNS r) \<and>
     distinct (map snd (pr_nameToNS r)) \<and> set (map snd (pr_nameToNS r)) = set (mkeys (pr_plugins r))"

lemma mput_fresh: "k \<notin> set (map fst m) \<Longrightarrow> mput k v m = m @ [(k, v)]"
  by (induction m) auto

lemma inj_snd: "inj_on snd A \<Longrightarrow> (a, x) \<in> A \<Longrightarrow> (b, x) \<in> A \<Longrightarrow> a = b"
  by (metis inj_onD prod.inject snd_conv)

lemma inj_fst: "inj_on fst A \<Longrightarrow> (x, a) \<in> A \<Longrightarrow> (x, b) \<in> A \<Longrightarrow> a = b"
  by (metis inj_onD prod.inject fst_conv)

lemma reg_ok_new: "reg_ok NewPluginRegistry"
  by (simp add: reg_ok_def NewPluginRegistry_def mkeys_def)

lemma reg_ok_Register:
  assumes "reg_ok r" and "pluginName \<notin> set (mkeys (pr_nameToNS r))"
  shows "reg_ok (fst (Register p pluginName r))"
proof (cases "mget (pr_plugins r) (pm_Namespace (pl_Metadata p)) = None")
  case True
  then have "pm_Namespace (pl_Metadata p) \<notin> set (mkeys (pr_plugins r))" by (simp add: mget_None_iff)
  with True assms show ?thesis
    by (auto simp: reg_ok_def Register_def Let_def mwf_def mput_fresh mkeys_def)
qed (use assms in \<open>simp add: Register_def Let_def\<close>)

lemma name_entry_Some_iff:
  assumes "reg_ok r"
  shows "name_entry r ns = Some (n, ns') \<longleftrightarrow> ns' = ns \<and> mget (pr_nameToNS r) n = Some ns"
proof -
  have uniq: "(a, ns) \<in> set (pr_nameToNS r) \<Longrightarrow> (b, ns) \<in> set (pr_nameToNS r) \<Longrightarrow> a = b" for a b
    using assms by (auto simp: reg_ok_def distinct_map dest: inj_snd)
  have get: "mget (pr_nameToNS r) n = Some ns \<longleftrightarrow> (n, ns) \<in> set (pr_nameToNS r)"
    using assms by (simp add: reg_ok_def mget_iff_entry)
  show ?thesis
  proof
    assume "name_entry r ns = Some (n, ns')"
    then show "ns' = ns \<and> mget (pr_nameToNS r) n = Some ns"
      unfolding name_entry_def get by (auto simp: find_Some_iff dest: nth_mem)
  next
    assume a: "ns' = ns \<and> mget (pr_nameToNS r) n = Some ns"
    then obtain e where e: "name_entry r ns = Some e"
      unfolding get name_entry_def by (cases "find (\<lambda>(name, ns'). ns' = ns) (pr_nameToNS r)") (auto simp: find_None_iff)
    then have "e \<in> set (pr_nameToNS r) \<and> snd e = ns"
      unfolding name_entry_def by (auto simp: find_Some_iff) (metis nth_mem)
    with a e uniq show "name_entry r ns = Some (n, ns')"
      unfolding get by (metis prod.collapse)
  qed
qed

lemma reg_ok_Unregister:
  assumes "reg_ok r"
  shows "reg_ok (Unregister ns r)"
proof (cases "name_entry r ns")
  case None
  then have "ns \<notin> set (map snd (pr_nameToNS r))" by (auto simp: name_entry_def find_None_iff)
  with None assms show ?thesis
    by (auto simp: reg_ok_def Unregister_def gomap_wf gomap_simps)
next
  case (Some e)
  obtain n ns' where e: "e = (n, ns')" by (cases e)
  with Some assms have get: "ns' = ns" "mget (pr_nameToNS r) n = Some ns"
    by (simp_all add: name_entry_Some_iff)
  have ent: "(n, ns) \<in> set (pr_nameToNS r)" using get(2) by (simp add: map_of_SomeD)
  have inj: "inj_on snd (set (pr_nameToNS r))" and inj1: "inj_on fst (set (pr_nameToNS r))"
    using assms by (auto simp: reg_ok_def mwf_def distinct_map)
  have del: "set (mdel n (pr_nameToNS r)) = set (pr_nameToNS r) - {(n, ns)}"
    using ent inj_fst [OF inj1] by (auto simp: AList.delete_eq)
  have "set (map snd (mdel n (pr_nameToNS r))) = set (map snd (pr_nameToNS r)) - {ns}"
    using ent inj_snd [OF inj] by (auto simp: del)
  moreover have "distinct (map snd (mdel n (pr_nameToNS r)))"
    using assms by (simp add: reg_ok_def AList.delete_eq distinct_map_filter)
  ultimately show ?thesis using Some e assms
    by (auto simp: reg_ok_def Unregister_def gomap_wf gomap_simps)
qed

end
