(* ===== verification/Service_Registry.thy ===== *)
theory Service_Registry
  imports Registry
begin

text \<open>
  The service registry, \<open>src/daemon/service_registry.go\<close>: which plugin provides a service, and
  whether it is ready. Readiness is signalled by closing a channel; closing a closed channel
  panics, so channels are modelled with their state.
\<close>

datatype chan = Open | Closed

record ServiceRegistry =
  sr_serviceProviders :: "(string, string) gomap"
  sr_pluginServices :: "(string, string list) gomap"
  sr_plugins :: "(string, Plugin) gomap"
  sr_serviceReady :: "(string, bool) gomap"
  sr_readyChannels :: "(string, chan) gomap"

definition NewServiceRegistry :: ServiceRegistry where
  "NewServiceRegistry =
     \<lparr>sr_serviceProviders = [], sr_pluginServices = [], sr_plugins = [], sr_serviceReady = [],
      sr_readyChannels = []\<rparr>"

definition services_of :: "ServiceRegistry \<Rightarrow> string \<Rightarrow> string list" where
  "services_of r namespace =
     (case mget (sr_pluginServices r) namespace of None \<Rightarrow> [] | Some l \<Rightarrow> l)"

text \<open>The body of the registration loop; an error ends the loop and keeps what was registered.\<close>

definition register_service :: "string \<Rightarrow> string \<Rightarrow> ServiceRegistry \<Rightarrow> ServiceRegistry" where
  "register_service namespace name r =
     r\<lparr>sr_serviceProviders := mput name namespace (sr_serviceProviders r),
       sr_pluginServices := mput namespace (services_of r namespace @ [name]) (sr_pluginServices r),
       sr_serviceReady := mput name False (sr_serviceReady r),
       sr_readyChannels := mput name Open (sr_readyChannels r)\<rparr>"

fun register_services :: "string \<Rightarrow> string list \<Rightarrow> ServiceRegistry \<Rightarrow> ServiceRegistry \<times> goerror" where
  "register_services namespace [] r = (r, None)"
| "register_services namespace (name # rest) r =
     (case mget (sr_serviceProviders r) name of
        Some existingProvider \<Rightarrow>
          (r, Some (''service '' @ quoted name @ '' is already provided by plugin '' @ quoted existingProvider))
      | None \<Rightarrow> register_services namespace rest (register_service namespace name r))"

definition RegisterPlugin :: "string \<Rightarrow> Plugin \<Rightarrow> string list \<Rightarrow> ServiceRegistry \<Rightarrow> ServiceRegistry \<times> goerror" where
  "RegisterPlugin namespace plugin services r =
     register_services namespace services (r\<lparr>sr_plugins := mput namespace plugin (sr_plugins r)\<rparr>)"

definition close_chan :: "chan option \<Rightarrow> unit outcome" where
  "close_chan c = (if c = Some Open then Ok () else Panic)"

definition unregister_service :: "string \<Rightarrow> ServiceRegistry \<Rightarrow> ServiceRegistry outcome" where
  "unregister_service name r =
     (let r1 = r\<lparr>sr_serviceProviders := mdel name (sr_serviceProviders r),
                  sr_serviceReady := mdel name (sr_serviceReady r)\<rparr> in
      case mget (sr_readyChannels r) name of
        None \<Rightarrow> Ok r1
      | Some ch \<Rightarrow>
          obind (close_chan (Some ch)) (\<lambda>_.
            Ok (r1\<lparr>sr_readyChannels := mdel name (sr_readyChannels r)\<rparr>)))"

definition UnregisterPlugin :: "string \<Rightarrow> ServiceRegistry \<Rightarrow> ServiceRegistry outcome" where
  "UnregisterPlugin namespace r =
     obind (ofold unregister_service (services_of r namespace) r) (\<lambda>r'.
       Ok (r'\<lparr>sr_pluginServices := mdel namespace (sr_pluginServices r'),
              sr_plugins := mdel namespace (sr_plugins r')\<rparr>))"

definition GetServiceProvider :: "ServiceRegistry \<Rightarrow> string \<Rightarrow> string option" where
  "GetServiceProvider r serviceName = mget (sr_serviceProviders r) serviceName"

text \<open>
  \<open>CallService\<close> up to the RPC: the plugin the call is sent to. Every plugin the daemon loads is a
  \<open>PluginLoader\<close>.
\<close>

definition CallService_target :: "ServiceRegistry \<Rightarrow> string \<Rightarrow> Plugin outcome" where
  "CallService_target r serviceName =
     (case mget (sr_serviceProviders r) serviceName of
        None \<Rightarrow> Err (''service '' @ quoted serviceName @ '' not found'')
      | Some provider \<Rightarrow>
          (case mget (sr_plugins r) provider of
             None \<Rightarrow> Err (''provider plugin '' @ quoted provider @ '' for service '' @ quoted serviceName @ '' not found'')
           | Some plugin \<Rightarrow> Ok plugin))"

fun ValidateServiceDependencies :: "ServiceRegistry \<Rightarrow> string list \<Rightarrow> goerror" where
  "ValidateServiceDependencies r [] = None"
| "ValidateServiceDependencies r (serviceName # rest) =
     (if mget (sr_serviceProviders r) serviceName = None
      then Some (''required service '' @ quoted serviceName @ '' is not available'')
      else ValidateServiceDependencies r rest)"

definition ListServices :: "ServiceRegistry \<Rightarrow> (string, string) gomap" where
  "ListServices r = mcopy [] (sr_serviceProviders r)"

definition IsServiceReady :: "ServiceRegistry \<Rightarrow> string \<Rightarrow> bool" where
  "IsServiceReady r serviceName = (mget (sr_serviceReady r) serviceName = Some True)"

definition MarkServiceReady :: "string \<Rightarrow> ServiceRegistry \<Rightarrow> ServiceRegistry outcome" where
  "MarkServiceReady serviceName r =
     (if mget (sr_serviceProviders r) serviceName = None then Ok r
      else if \<not> IsServiceReady r serviceName then
        obind (close_chan (mget (sr_readyChannels r) serviceName)) (\<lambda>_.
          Ok (r\<lparr>sr_serviceReady := mput serviceName True (sr_serviceReady r),
                sr_readyChannels := mput serviceName Closed (sr_readyChannels r)\<rparr>))
      else Ok r)"

text \<open>
  One look of \<open>WaitForService\<close> at the registry: \<^const>\<open>None\<close> when the \<open>select\<close> statement blocks, which
  it does while the channel is open and the context is not done.
\<close>

definition WaitForService :: "bool \<Rightarrow> ServiceRegistry \<Rightarrow> string \<Rightarrow> goerror option" where
  "WaitForService ctx_done r serviceName =
     (case mget (sr_readyChannels r) serviceName of
        None \<Rightarrow> Some (Some (''service '' @ quoted serviceName @ '' not found''))
      | Some readyCh \<Rightarrow>
          if IsServiceReady r serviceName then Some None
          else if readyCh = Closed then Some None
          else if ctx_done then Some (Some (''timeout waiting for service '' @ quoted serviceName))
          else None)"

fun WaitForServices :: "bool \<Rightarrow> ServiceRegistry \<Rightarrow> string list \<Rightarrow> goerror option" where
  "WaitForServices ctx_done r [] = Some None"
| "WaitForServices ctx_done r (serviceName # rest) =
     (case WaitForService ctx_done r serviceName of
        Some None \<Rightarrow> WaitForServices ctx_done r rest
      | w \<Rightarrow> w)"

fun AreServicesReady :: "ServiceRegistry \<Rightarrow> string list \<Rightarrow> bool" where
  "AreServicesReady r [] = True"
| "AreServicesReady r (serviceName # rest) =
     (if \<not> IsServiceReady r serviceName then False else AreServicesReady r rest)"

section \<open>Invariant\<close>

text \<open>
  Provider, readiness and channel maps have the same services, a channel is closed exactly when
  its service is ready, and the list of a plugin's services agrees with the provider map.
\<close>

definition sr_ok :: "ServiceRegistry \<Rightarrow> bool" where
  "sr_ok r \<longleftrightarrow>
     (\<forall>n. mget (sr_readyChannels r) n =
            (case mget (sr_serviceReady r) n of
               None \<Rightarrow> None | Some b \<Rightarrow> Some (if b then Closed else Open))) \<and>
     set (mkeys (sr_serviceProviders r)) = set (mkeys (sr_serviceReady r)) \<and>
     (\<forall>ns n. (n \<in> set (services_of r ns)) = (mget (sr_serviceProviders r) n = Some ns)) \<and>
     (\<forall>ns. distinct (services_of r ns))"

lemma sr_ok_new: "sr_ok NewServiceRegistry"
  by (simp add: sr_ok_def NewServiceRegistry_def services_of_def mkeys_def)

lemma services_of_register:
  "services_of (register_service ns n r) ns' =
     (if ns' = ns then services_of r ns @ [n] else services_of r ns')"
  by (simp add: services_of_def register_service_def gomap_simps)

lemma sr_ok_register_service:
  assumes "sr_ok r" and "mget (sr_serviceProviders r) n = None"
  shows "sr_ok (register_service ns n r)"
proof -
  have "n \<notin> set (services_of r ns')" for ns'
    using assms by (simp add: sr_ok_def)
  with assms show ?thesis unfolding sr_ok_def services_of_register
    by (auto simp: register_service_def gomap_simps)
qed

lemma sr_ok_register_services: "sr_ok r \<Longrightarrow> sr_ok (fst (register_services ns names r))"
  by (induction ns names r rule: register_services.induct)
     (auto simp: sr_ok_register_service split: option.splits)

lemma sr_ok_plugins [simp]: "sr_ok (r\<lparr>sr_plugins := p\<rparr>) \<longleftrightarrow> sr_ok r"
  by (simp add: sr_ok_def services_of_def)

lemma sr_ok_RegisterPlugin: "sr_ok r \<Longrightarrow> sr_ok (fst (RegisterPlugin ns p svcs r))"
  unfolding RegisterPlugin_def by (rule sr_ok_register_services) simp

lemma ready_channel: "sr_ok r \<Longrightarrow> mget (sr_readyChannels r) n = Some Closed \<longleftrightarrow> IsServiceReady r n"
  by (auto simp: sr_ok_def IsServiceReady_def split: option.splits)

lemma MarkServiceReady_ok:
  assumes "sr_ok r"
  obtains r' where "MarkServiceReady n r = Ok r'" and "sr_ok r'"
    and "IsServiceReady r' m \<longleftrightarrow> IsServiceReady r m \<or> (m = n \<and> mget (sr_serviceProviders r) n \<noteq> None)"
    and "sr_serviceProviders r' = sr_serviceProviders r"
proof (cases "mget (sr_serviceProviders r) n = None \<or> IsServiceReady r n")
  case True
  then have "MarkServiceReady n r = Ok r" by (auto simp: MarkServiceReady_def)
  with True assms show ?thesis by (intro that [of r]) auto
next
  case False
  let ?r = "r\<lparr>sr_serviceReady := mput n True (sr_serviceReady r),
              sr_readyChannels := mput n Closed (sr_readyChannels r)\<rparr>"
  from False assms have "n \<in> set (mkeys (sr_serviceReady r))"
    by (metis mget_None_iff sr_ok_def)
  then have "mget (sr_serviceReady r) n \<noteq> None" by (simp add: mget_None_iff)
  with False have "mget (sr_serviceReady r) n = Some False"
    by (auto simp: IsServiceReady_def)
  with assms have "mget (sr_readyChannels r) n = Some Open"
    by (auto simp: sr_ok_def)
  with False have "MarkServiceReady n r = Ok ?r"
    by (auto simp: MarkServiceReady_def close_chan_def)
  moreover have "sr_ok ?r"
  proof -
    have "services_of ?r ns = services_of r ns" for ns by (simp add: services_of_def)
    with assms \<open>n \<in> set (mkeys (sr_serviceReady r))\<close> show ?thesis unfolding sr_ok_def
      by (auto simp: gomap_simps)
  qed
  ultimately show ?thesis using False
    by (intro that [of ?r]) (auto simp: IsServiceReady_def gomap_simps)
qed

section \<open>Unregistering\<close>

lemma unregister_service_channels:
  "unregister_service n r =
     (if mget (sr_readyChannels r) n = Some Closed then Panic
      else Ok (r\<lparr>sr_serviceProviders := mdel n (sr_serviceProviders r),
                 sr_serviceReady := mdel n (sr_serviceReady r),
                 sr_readyChannels := mdel n (sr_readyChannels r)\<rparr>))"
proof (cases "mget (sr_readyChannels r) n")
  case None
  then have "mdel n (sr_readyChannels r) = sr_readyChannels r"
    by (intro AList.delete_id) (simp add: map_of_eq_None_iff)
  with None show ?thesis by (simp add: unregister_service_def Let_def)
next
  case (Some c)
  then show ?thesis by (cases c) (simp_all add: unregister_service_def Let_def close_chan_def)
qed

text \<open>The registry after the loop has removed the services \<open>ns\<close>.\<close>

definition without :: "string list \<Rightarrow> ServiceRegistry \<Rightarrow> ServiceRegistry" where
  "without ns r =
     r\<lparr>sr_serviceProviders := fold AList.delete ns (sr_serviceProviders r),
       sr_serviceReady := fold AList.delete ns (sr_serviceReady r),
       sr_readyChannels := fold AList.delete ns (sr_readyChannels r)\<rparr>"

lemma unregister_loop:
  "distinct ns \<Longrightarrow>
   ofold unregister_service ns r =
     (if list_ex (\<lambda>n. mget (sr_readyChannels r) n = Some Closed) ns then Panic else Ok (without ns r))"
proof (induction ns arbitrary: r)
  case Nil
  then show ?case by (simp add: without_def)
next
  case (Cons n ns)
  have "list_ex (\<lambda>m. mget (mdel n (sr_readyChannels r)) m = Some Closed) ns
      = list_ex (\<lambda>m. mget (sr_readyChannels r) m = Some Closed) ns"
    using Cons.prems by (auto simp: list_ex_iff gomap_simps)
  with Cons show ?case
    by (simp add: unregister_service_channels without_def)
qed

lemma mget_fold_mdel: "mget (fold AList.delete ns m) k = (if k \<in> set ns then None else mget m k)"
  using gm.get_foldr_del [of "rev ns" m k] by (simp add: foldr_conv_fold)

lemma mkeys_fold_mdel: "set (mkeys (fold AList.delete ns m)) = set (mkeys m) - set ns"
  by (induction ns arbitrary: m) (auto simp: gomap_simps)

lemma sr_ok_unregistered:
  assumes "sr_ok r"
  shows "sr_ok ((without (services_of r ns) r)
           \<lparr>sr_pluginServices := mdel ns (sr_pluginServices r), sr_plugins := ps\<rparr>)"
proof -
  have *: "services_of ((without (services_of r ns) r)
           \<lparr>sr_pluginServices := mdel ns (sr_pluginServices r), sr_plugins := ps\<rparr>) ns' =
        (if ns' = ns then [] else services_of r ns')" for ns'
    by (simp add: services_of_def gomap_simps)
  from assms have "n \<in> set (services_of r ns) \<longleftrightarrow> mget (sr_serviceProviders r) n = Some ns" for n
    by (simp add: sr_ok_def)
  with assms show ?thesis unfolding sr_ok_def *
    by (auto simp: without_def mget_fold_mdel mkeys_fold_mdel)
qed

lemma UnregisterPlugin_cases:
  assumes "sr_ok r"
  shows "UnregisterPlugin ns r =
     (if list_ex (IsServiceReady r) (services_of r ns) then Panic
      else Ok ((without (services_of r ns) r)
             \<lparr>sr_pluginServices := mdel ns (sr_pluginServices r), sr_plugins := mdel ns (sr_plugins r)\<rparr>))"
proof -
  from assms have "distinct (services_of r ns)" by (simp add: sr_ok_def)
  moreover have "(\<lambda>n. mget (sr_readyChannels r) n = Some Closed) = IsServiceReady r"
    using ready_channel [OF assms] by auto
  ultimately show ?thesis
    by (simp add: UnregisterPlugin_def unregister_loop) (simp add: without_def)
qed

end
