(* ===== verification/Server_Config.thy ===== *)
theory Server_Config
  imports Diff Snapshots Service_Registry
begin

text \<open>
  The command handlers of \<open>src/daemon/server.go\<close> that read and change configurations: set, get,
  show, validate, diff, status, commit and revert. A handler takes the server and returns the
  server with the response; a handler that can panic returns an outcome.
\<close>

section \<open>Server and responses\<close>

text \<open>
  The calls the daemon makes on its running plugins, in order, are kept as a trace: they are the
  effects of the plugin commands and of apply.
\<close>

datatype pcall = PApply string json | PFlush string | PClose string

record Server =
  sv_state :: State
  sv_registry :: PluginRegistry
  sv_services :: ServiceRegistry
  sv_dir :: string
  sv_files :: config_dir
  sv_trace :: "pcall list"

datatype rdata =
    DNone
  | DValue gval
  | DConfig "config option"
  | DAll "(string, rdata) gomap"
  | DText string
  | DNames "string list"
  | DSnapshots "SnapshotInfo list"
  | DInfo json "(string, json) gomap" bool

record Response =
  rsp_Data :: rdata
  rsp_Message :: string
  rsp_Error :: string
  rsp_Success :: bool

definition fail :: "string \<Rightarrow> Response" where
  "fail e = \<lparr>rsp_Data = DNone, rsp_Message = '''', rsp_Error = e, rsp_Success = False\<rparr>"

definition okay :: "rdata \<Rightarrow> string \<Rightarrow> Response" where
  "okay d m = \<lparr>rsp_Data = d, rsp_Message = m, rsp_Error = '''', rsp_Success = True\<rparr>"

lemma okay_simps [simp]:
  "rsp_Success (okay d m)" "rsp_Data (okay d m) = d" "\<not> rsp_Success (fail e)"
  "okay d m \<noteq> fail e" "okay d m = okay d' m' \<longleftrightarrow> d = d' \<and> m = m'"
  by (auto simp: okay_def fail_def)

section \<open>Paths and copies\<close>

definition rewritePath :: "PluginRegistry \<Rightarrow> string \<Rightarrow> string" where
  "rewritePath reg path =
     (let parts = split_on (CHR ''.'') path in
      if length parts < 2 then path
      else
        (let namespace = parts ! 0; prefix = GetPathPrefix reg namespace in
         if prefix = '''' then path
         else join_with ''.'' ([namespace, prefix] @ drop 1 parts)))"

definition deepCopyInterfaces :: "InterfacesConfig \<Rightarrow> InterfacesConfig" where
  "deepCopyInterfaces src = src\<lparr>ic_Interfaces := Some (mcopy [] (entries (ic_Interfaces src)))\<rparr>"

definition deepCopyRoutes :: "RoutesConfig \<Rightarrow> RoutesConfig" where
  "deepCopyRoutes src = src\<lparr>rc_Routes := Some (mcopy [] (entries (rc_Routes src)))\<rparr>"

definition deepCopyGeneric :: "config option \<Rightarrow> config option" where
  "deepCopyGeneric src =
     (case src of
        None \<Rightarrow> None
      | Some c \<Rightarrow> (case enc_config c of JObj m \<Rightarrow> Some (CMap (Some m)) | _ \<Rightarrow> None))"

section \<open>Set, get, show\<close>

text \<open>
  The configuration a set works on: the pending one in place, or else a copy of the committed one.
\<close>

definition working_copy :: "State \<Rightarrow> string \<Rightarrow> config option \<Rightarrow> config option outcome" where
  "working_copy st configType current =
     (if HasPendingFor st configType then Ok current
      else
        obind (GetCommitted st configType) (\<lambda>committed.
          Ok (if configType = ''interfaces'' then
                (case committed of
                   Some (CInterfaces c) \<Rightarrow> Some (CInterfaces (deepCopyInterfaces c))
                 | _ \<Rightarrow> current)
              else if configType = ''routes'' then
                (case committed of
                   Some (CRoutes c) \<Rightarrow> Some (CRoutes (deepCopyRoutes c))
                 | _ \<Rightarrow> current)
              else deepCopyGeneric committed)))"

text \<open>The staged configuration with its type, or the error the response reports.\<close>

definition stage_value :: "Server \<Rightarrow> string \<Rightarrow> json \<Rightarrow> (string \<times> config) outcome" where
  "stage_value sv path v =
     obind (ParseConfigType path) (\<lambda>configType.
     obind (GetCurrent (sv_state sv) configType) (\<lambda>current.
     obind (working_copy (sv_state sv) configType current) (\<lambda>cfg.
     obind (SetValue cfg path (GJson v)) (\<lambda>cfg'.
     Ok (configType, cfg')))))"

text \<open>The rendering of the value with \<open>%v\<close> at the end of the message is left out.\<close>

definition handleSet :: "string \<Rightarrow> json \<Rightarrow> Server \<Rightarrow> (Server \<times> Response) outcome" where
  "handleSet path0 v sv =
     (let path = rewritePath (sv_registry sv) path0 in
      case stage_value sv path v of
        Panic \<Rightarrow> Panic
      | Err e \<Rightarrow> Ok (sv, fail e)
      | Ok (configType, cfg) \<Rightarrow>
          Ok (sv\<lparr>sv_state := SetPending configType (Some cfg) (sv_state sv)\<rparr>,
              okay DNone (''Staged: '' @ path @ '' = '')))"

definition allConfigs :: "Server \<Rightarrow> (string, rdata) gomap" where
  "allConfigs sv =
     (let st = sv_state sv;
          m1 = (case GetCurrentInterfaces st of
                  None \<Rightarrow> []
                | Some c \<Rightarrow> mput ''interfaces'' (DValue (GInterfaceMap (ic_Interfaces c))) []);
          m2 = (case GetCurrentRoutes st of
                  None \<Rightarrow> m1
                | Some c \<Rightarrow> mput ''routes'' (DValue (GRouteMap (rc_Routes c))) m1)
      in foldl (\<lambda>m namespace. case GetCurrent st namespace of
                  Ok cfg \<Rightarrow> mput namespace (DConfig cfg) m
                | _ \<Rightarrow> m) m2 (Registry_List (sv_registry sv)))"

definition handleGet :: "string \<Rightarrow> Server \<Rightarrow> Response outcome" where
  "handleGet path0 sv =
     (if path0 = '''' then Ok (okay (DAll (allConfigs sv)) '''')
      else
        (let path = rewritePath (sv_registry sv) path0 in
         case ParseConfigType path of
           Panic \<Rightarrow> Panic
         | Err e \<Rightarrow> Ok (fail e)
         | Ok configType \<Rightarrow>
             (case GetCurrent (sv_state sv) configType of
                Panic \<Rightarrow> Panic
              | Err e \<Rightarrow> Ok (fail e)
              | Ok cfg \<Rightarrow>
                  (case GetValue cfg path of
                     Panic \<Rightarrow> Panic
                   | Err e \<Rightarrow> Ok (fail e)
                   | Ok value \<Rightarrow> Ok (okay (DValue value) '''')))))"

definition handleShow :: "string \<Rightarrow> Server \<Rightarrow> Response outcome" where
  "handleShow path sv =
     (if path = '''' then Ok (okay (DAll (allConfigs sv)) '''')
      else
        (case ParseConfigType path of
           Panic \<Rightarrow> Panic
         | Err e \<Rightarrow> Ok (fail e)
         | Ok configType \<Rightarrow>
             (case GetCurrent (sv_state sv) configType of
                Panic \<Rightarrow> Panic
              | Err e \<Rightarrow> Ok (fail e)
              | Ok cfg \<Rightarrow> Ok (okay (DConfig cfg) ''''))))"

section \<open>Status, diff, revert\<close>

definition handleStatus :: "Server \<Rightarrow> Response" where
  "handleStatus sv =
     (if HasPending (sv_state sv) then okay DNone ''Pending changes exist''
      else okay DNone ''No pending changes'')"

fun collect_diffs :: "State \<Rightarrow> string list \<Rightarrow> DiffResult list \<Rightarrow> DiffResult list outcome" where
  "collect_diffs st [] allDiffs = Ok allDiffs"
| "collect_diffs st (configType # rest) allDiffs =
     (case GetCommitted st configType of
        Panic \<Rightarrow> Panic
      | Err e \<Rightarrow> Err (''failed to get committed '' @ configType @ '' config: '' @ e)
      | Ok committed \<Rightarrow>
          (case GetCurrent st configType of
             Panic \<Rightarrow> Panic
           | Err e \<Rightarrow> Err (''failed to get pending '' @ configType @ '' config: '' @ e)
           | Ok pending \<Rightarrow>
               (case DiffConfigs configType committed pending of
                  Panic \<Rightarrow> Panic
                | Err e \<Rightarrow> Err (''failed to diff '' @ configType @ '' config: '' @ e)
                | Ok ds \<Rightarrow> collect_diffs st rest (allDiffs @ ds))))"

definition handleDiff :: "(gval \<Rightarrow> string) \<Rightarrow> Server \<Rightarrow> Response outcome" where
  "handleDiff fmtv sv =
     (if \<not> HasPending (sv_state sv) then Ok (okay (DText '''') ''No pending changes'')
      else
        (case collect_diffs (sv_state sv) (GetPendingTypes (sv_state sv)) [] of
           Panic \<Rightarrow> Panic
         | Err e \<Rightarrow> Ok (fail e)
         | Ok ds \<Rightarrow> Ok (okay (DText (FormatDiff fmtv ds)) (show_nat (length ds) @ '' change(s)''))))"

definition handleRevert :: "Server \<Rightarrow> Server \<times> Response" where
  "handleRevert sv =
     (case RevertPending (sv_state sv) of
        (st', Some e) \<Rightarrow> (sv\<lparr>sv_state := st'\<rparr>, fail e)
      | (st', None) \<Rightarrow> (sv\<lparr>sv_state := st'\<rparr>, okay DNone ''Pending changes discarded''))"

section \<open>Validation and commit\<close>

definition validate_one :: "Server \<Rightarrow> string \<Rightarrow> ErrorCollector \<Rightarrow> ErrorCollector" where
  "validate_one sv configType v =
     (case GetCurrent (sv_state sv) configType of
        Err e \<Rightarrow> CheckMsg (Some e) (''failed to get '' @ configType @ '' config'') v
      | Panic \<Rightarrow> v
      | Ok cfg \<Rightarrow>
          if configType = ''interfaces'' then
            (case cfg of
               Some (CInterfaces c) \<Rightarrow>
                 foldl (\<lambda>v (ifaceName, iface). CheckMsg (Interface_Validate iface) (''interface '' @ ifaceName) v)
                   v (entries (ic_Interfaces c))
             | _ \<Rightarrow> v)
          else if configType = ''routes'' then
            (case cfg of
               Some (CRoutes c) \<Rightarrow> foldl (\<lambda>v (_, route). Check (Route_Validate route) v) v (entries (rc_Routes c))
             | _ \<Rightarrow> v)
          else
            (case Registry_Get (sv_registry sv) configType of
               None \<Rightarrow> v
             | Some plugin \<Rightarrow> CheckMsg (pl_ValidateConfig plugin cfg) (configType @ '' plugin'') v))"

definition validatePending :: "Server \<Rightarrow> goerror" where
  "validatePending sv =
     ec_Error (foldl (\<lambda>v configType. validate_one sv configType v) NewCollector
       (GetPendingTypes (sv_state sv)))"

definition save_name :: "Server \<Rightarrow> string \<Rightarrow> string" where
  "save_name sv configType =
     (if configType \<noteq> ''interfaces'' \<and> configType \<noteq> ''routes'' then
        (case GetPluginNameForNamespace (sv_registry sv) configType of
           Some pluginName \<Rightarrow> pluginName
         | None \<Rightarrow> configType)
      else configType)"

definition enc_opt :: "config option \<Rightarrow> json" where
  "enc_opt c = (case c of None \<Rightarrow> JNull | Some x \<Rightarrow> enc_config x)"

text \<open>
  The save loop of a commit; \<open>faults\<close> gives the fault that hits the save of a file, \<open>stamp\<close> the
  time used in backup names. An error ends the loop.
\<close>

fun save_types :: "string \<Rightarrow> (string \<Rightarrow> save_fault) \<Rightarrow> string list \<Rightarrow> Server \<Rightarrow> Server \<times> goerror" where
  "save_types stamp faults [] sv = (sv, None)"
| "save_types stamp faults (configType # rest) sv =
     (case GetCommitted (sv_state sv) configType of
        Ok cfg \<Rightarrow>
          (let filename = save_name sv configType in
           case SaveConfig (sv_dir sv) stamp (faults filename) filename (enc_opt cfg) (sv_files sv) of
             (files', Some e) \<Rightarrow>
               (sv\<lparr>sv_files := files'\<rparr>, Some (''failed to save '' @ filename @ '' config: '' @ e))
           | (files', None) \<Rightarrow> save_types stamp faults rest (sv\<lparr>sv_files := files'\<rparr>))
      | Err e \<Rightarrow> (sv, Some (''failed to get committed '' @ configType @ '' config: '' @ e))
      | Panic \<Rightarrow> (sv, None))"

definition handleCommit :: "string \<Rightarrow> (string \<Rightarrow> save_fault) \<Rightarrow> Server \<Rightarrow> Server \<times> Response" where
  "handleCommit stamp faults sv =
     (case validatePending sv of
        Some e \<Rightarrow> (sv, fail (''validation failed:'' @ [CHR 0x0A] @ e))
      | None \<Rightarrow>
          (let pendingTypes = GetPendingTypes (sv_state sv) in
           if pendingTypes = [] then (sv, okay DNone ''No pending changes to commit'')
           else
             (case CommitPending (sv_state sv) of
                (st', Some e) \<Rightarrow> (sv\<lparr>sv_state := st'\<rparr>, fail e)
              | (st', None) \<Rightarrow>
                  (case save_types stamp faults pendingTypes (sv\<lparr>sv_state := st'\<rparr>) of
                     (sv', Some e) \<Rightarrow> (sv', fail e)
                   | (sv', None) \<Rightarrow> (sv', okay DNone ''Changes committed'')))))"

text \<open>The \<open>validate\<close> command checks a value without storing it.\<close>

definition check_types :: "(string, Interface) gomap \<Rightarrow> goerror" where
  "check_types m =
     (case find (\<lambda>(_, iface). if_Type iface = '''' \<or>
               (if_Type iface \<noteq> ''physical'' \<and> if_Type iface \<noteq> ''bridge'' \<and> if_Type iface \<noteq> ''vlan'')) m of
        None \<Rightarrow> None
      | Some (name, iface) \<Rightarrow>
          if if_Type iface = '''' then Some (''interface '' @ name @ '': type is required'')
          else Some (''interface '' @ name @ '': invalid type '' @ if_Type iface))"

definition handleValidate :: "string \<Rightarrow> json \<Rightarrow> Server \<Rightarrow> Response" where
  "handleValidate path0 v sv =
     (case ParseConfigType (rewritePath (sv_registry sv) path0) of
        Ok configType \<Rightarrow>
          if configType = ''interfaces'' then
            (case dec_map ''map[string]types.Interface'' dec_Interface (marshal v) of
               Ok m \<Rightarrow>
                 (case check_types (entries m) of
                    Some e \<Rightarrow> fail e
                  | None \<Rightarrow> okay DNone ''Configuration is valid'')
             | Err e \<Rightarrow> fail (''invalid interfaces structure: '' @ e)
             | Panic \<Rightarrow> fail '''')
          else if configType = ''routes'' then
            (case dec_map ''map[string]types.Route'' dec_Route (marshal v) of
               Ok _ \<Rightarrow> okay DNone ''Configuration is valid''
             | Err e \<Rightarrow> fail (''invalid routes structure: '' @ e)
             | Panic \<Rightarrow> fail '''')
          else
            (case dec_generic (marshal v) of
               Ok _ \<Rightarrow> okay DNone ''Configuration is valid''
             | Err e \<Rightarrow> fail (''invalid config structure: '' @ e)
             | Panic \<Rightarrow> fail '''')
      | Err e \<Rightarrow> fail e
      | Panic \<Rightarrow> fail '''')"

end
