(* ===== verification/Examples.thy ===== *)
theory Examples
  imports Server_Config
begin

text \<open>
  Concrete servers on which the properties are exercised: a LAN bridge, a default route, and a VPN
  plugin whose pending configuration differs from the committed one.
\<close>

definition ex_lan :: Interface where
  "ex_lan = zero_Interface\<lparr>if_Type := ''bridge'', if_Device := ''br-lan'', if_Protocol := ''static'',
     if_IPAddr := ''192.168.1.1'', if_Netmask := ''255.255.255.0'', if_Enabled := True\<rparr>"

definition ex_plugin :: Plugin where
  "ex_plugin =
     \<lparr>pl_Metadata = \<lparr>pm_Namespace = ''vpn'', pm_Version = ''1.0'', pm_Description = [], pm_Category = [],
        pm_ConfigPath = [], pm_DefaultConfig = None, pm_Dependencies = [], pm_PathPrefix = []\<rparr>,
      pl_services = [''tunnel''], pl_required = [], pl_ValidateConfig = (\<lambda>_. None),
      pl_ApplyConfig = (\<lambda>_. None), pl_Flush = None, pl_Close = None\<rparr>"

definition ex_state :: State where
  "ex_state =
     LoadCommitted ''vpn'' (Some (CMap (Some [(''name'', JStr ''a'')])))
       (LoadCommittedInterfaces \<lparr>ic_Interfaces = Some [(''lan'', ex_lan)], ic_Version = ''1.0''\<rparr> NewState)"

definition ex_server :: Server where
  "ex_server =
     \<lparr>sv_state = ex_state, sv_registry = fst (Register ex_plugin ''wireguard'' NewPluginRegistry),
      sv_services = NewServiceRegistry, sv_dir = ''/etc/jack'', sv_files = [], sv_trace = []\<rparr>"

text \<open>The same server with a staged change of the plugin.\<close>

definition ex_pending :: Server where
  "ex_pending = ex_server\<lparr>sv_state := SetPending ''vpn'' (Some (CMap (Some [(''name'', JStr ''b'')]))) ex_state\<rparr>"

definition no_faults :: "string \<Rightarrow> save_fault" where
  "no_faults n = NoFault"

lemmas ex_defs =
  ex_pending_def ex_server_def ex_state_def ex_plugin_def LoadCommittedInterfaces_def LoadCommitted_def SetPending_def
  put_entry_def entry_of_def zero_ConfigEntry_def NewState_def NewPluginRegistry_def NewServiceRegistry_def Register_def

lemma ex_wf: "state_wf (sv_state ex_pending)"
  by (simp add: state_wf_def mwf_def ex_defs)

lemma ex_pending_layer:
  "pending_layer (sv_state ex_pending) = [''vpn'' \<mapsto> CMap (Some [(''name'', JStr ''b'')])]"
  by (auto simp: pending_layer_def ex_defs)

lemma ex_types: "GetPendingTypes (sv_state ex_pending) = [''vpn'']"
  by (simp add: GetPendingTypes_def ex_defs Let_def)

lemma ex_valid: "validatePending ex_pending = None"
  by (simp add: validatePending_def GetPendingTypes_def validate_one_def GetCurrent_def Registry_Get_def
      CheckMsg_def NewCollector_def ec_Error_def ex_defs Let_def)

end
