(* ===== verification/Server_Config_Facts.thy ===== *)
theory Server_Config_Facts
  imports Examples
begin

text \<open>
  What the configuration handlers guarantee: a successful set is visible to get and touches only
  the pending layer; a commit moves exactly the pending layer into the committed one and writes
  it to its files; a failed validation and a revert change nothing else.
\<close>

section \<open>A successful write has a stored value\<close>

lemma setStructField_field_of:
  "setStructField fs s n v = Ok s' \<Longrightarrow> \<exists>w. field_of fs n v = Ok w"
  by (auto simp: setStructField_def field_of_def split: option.splits outcome.splits)

lemma setInterfacesValue_stored:
  assumes "setInterfacesValue c parts v = Ok c'" and "parts ! 0 = ''interfaces''" and "parts \<noteq> []"
  shows "\<exists>w. stored parts v = Ok w"
proof -
  consider "length parts = 1" | "length parts = 2" | "length parts \<ge> 3"
    using path_shape [OF assms(3)] by blast
  then show ?thesis
  proof cases
    case 3
    with assms obtain i i' where "setInterfaceField i (drop 2 parts) v = Ok i'"
      by (auto simp: setInterfacesValue_def Let_def split: option.splits if_splits)
    with 3 assms(2) show ?thesis
      by (auto simp: setInterfaceField_def stored_def dest!: setStructField_field_of split: if_splits)
  qed (use assms in \<open>auto simp: setInterfacesValue_def stored_def Let_def\<close>)
qed

lemma setRoutesValue_stored:
  assumes "setRoutesValue c parts v = Ok c'" and "parts ! 0 = ''routes''" and "parts \<noteq> []"
  shows "\<exists>w. stored parts v = Ok w"
proof -
  consider "length parts = 1" | "length parts = 2" | "length parts \<ge> 3"
    using path_shape [OF assms(3)] by blast
  then show ?thesis
  proof cases
    case 3
    with assms obtain i i' where "setRoute i (drop 2 parts) v = Ok i'"
      by (auto simp: setRoutesValue_def Let_def split: option.splits if_splits)
    with 3 assms(2) show ?thesis
      by (auto simp: setRoute_def stored_def Let_def dest!: setStructField_field_of split: if_splits)
  qed (use assms in \<open>auto simp: setRoutesValue_def stored_def Let_def\<close>)
qed

lemma SetValue_stored: "SetValue c path v = Ok c' \<Longrightarrow> \<exists>w. stored (split_on (CHR ''.'') path) v = Ok w"
proof -
  assume a: "SetValue c path v = Ok c'"
  let ?parts = "split_on (CHR ''.'') path"
  have ne: "?parts \<noteq> []" by simp
  consider "?parts ! 0 = ''interfaces''" | "?parts ! 0 = ''routes''"
    | "?parts ! 0 \<noteq> ''interfaces''" "?parts ! 0 \<noteq> ''routes''" by blast
  then show ?thesis
  proof cases
    case 1
    with a obtain ic ic' where "setInterfacesValue ic ?parts v = Ok ic'"
      by (auto simp: SetValue_def Let_def split: option.splits config.splits if_splits)
    with 1 ne show ?thesis by (intro setInterfacesValue_stored)
  next
    case 2
    with a obtain rc rc' where "setRoutesValue rc ?parts v = Ok rc'"
      by (auto simp: SetValue_def Let_def split: option.splits config.splits if_splits)
    with 2 ne show ?thesis by (intro setRoutesValue_stored)
  next
    case 3
    then show ?thesis by (simp add: stored_def)
  qed
qed

section \<open>Set and get\<close>

lemma handleSet_cases:
  assumes "handleSet p v sv = Ok (sv', r)"
  obtains (rejected) "sv' = sv" "\<not> rsp_Success r"
  | (staged) ct cfg cfg' where "ParseConfigType (rewritePath (sv_registry sv) p) = Ok ct"
      "SetValue cfg (rewritePath (sv_registry sv) p) (GJson v) = Ok cfg'"
      "sv' = sv\<lparr>sv_state := SetPending ct (Some cfg') (sv_state sv)\<rparr>" "rsp_Success r"
proof (cases "stage_value sv (rewritePath (sv_registry sv) p) v")
  case (Ok e)
  obtain ct cfg' where e: "e = (ct, cfg')" by (cases e)
  from Ok e obtain cfg where "ParseConfigType (rewritePath (sv_registry sv) p) = Ok ct"
    "SetValue cfg (rewritePath (sv_registry sv) p) (GJson v) = Ok cfg'"
    unfolding stage_value_def obind_Ok_iff by blast
  with Ok e assms show ?thesis by (intro staged) (auto simp: handleSet_def)
next
  case (Err e)
  with assms show ?thesis by (intro rejected) (auto simp: handleSet_def)
qed (use assms in \<open>simp add: handleSet_def\<close>)

lemma ParseConfigType_not_empty: "ParseConfigType p = Ok ct \<Longrightarrow> p \<noteq> ''''"
  by (auto simp: ParseConfigType_def Let_def split: if_splits)

lemma rewritePath_empty: "rewritePath reg '''' = ''''"
  by (simp add: rewritePath_def Let_def)

lemma GetCurrent_SetPending: "GetCurrent (SetPending k (Some c) s) k = Ok (Some c)"
  by (simp add: GetCurrent_def SetPending_def put_entry_get)

lemma set_get_value:
  assumes "handleSet p v sv = Ok (sv', r)" and "rsp_Success r" and "top_wf (GJson v)"
  shows "\<exists>w. stored (split_on (CHR ''.'') (rewritePath (sv_registry sv) p)) (GJson v) = Ok w \<and>
             handleGet p sv' = Ok (okay (DValue w) '''')"
  using assms(1)
proof (cases rule: handleSet_cases)
  case (staged ct cfg cfg')
  let ?path = "rewritePath (sv_registry sv) p"
  obtain w where w: "stored (split_on (CHR ''.'') ?path) (GJson v) = Ok w"
    using SetValue_stored [OF staged(2)] by blast
  have "GetValue (Some cfg') ?path = Ok w"
    using SetValue_GetValue [OF staged(2) assms(3)] w by simp
  moreover have "p \<noteq> ''''"
    using ParseConfigType_not_empty [OF staged(1)] by (auto simp: rewritePath_empty)
  ultimately have "handleGet p sv' = Ok (okay (DValue w) '''')"
    using staged(1,3) by (simp add: handleGet_def GetCurrent_SetPending)
  with w show ?thesis by blast
qed (use assms(2) in simp)

text \<open>
  C6 (set_then_get): after a successful set of a value at a path, a get of the same path succeeds
  and returns the value the set stored there: the JSON value itself in a plugin configuration, the
  decoded interface or route, or the converted struct field.
\<close>

theorem set_then_get:
  assumes "handleSet p v sv = Ok (sv', r)" and "rsp_Success r" and "top_wf (GJson v)"
  shows "\<exists>w. stored (split_on (CHR ''.'') (rewritePath (sv_registry sv) p)) (GJson v) = Ok w \<and>
             handleGet p sv' = Ok (okay (DValue w) '''')"
  using assms by (rule set_get_value)

theorem set_then_get_witness:
  "\<exists>sv' r w. handleSet ''vpn.name'' (JStr ''c'') ex_server = Ok (sv', r) \<and> rsp_Success r \<and>
     handleGet ''vpn.name'' sv' = Ok (okay (DValue w) '''')"
proof -
  have "case handleSet ''vpn.name'' (JStr ''c'') ex_server of Ok (sv', r) \<Rightarrow> rsp_Success r | _ \<Rightarrow> False"
    by code_simp
  then obtain sv' r where sr: "handleSet ''vpn.name'' (JStr ''c'') ex_server = Ok (sv', r)" "rsp_Success r"
    by (auto split: outcome.splits)
  moreover have "top_wf (GJson (JStr ''c''))" by (simp add: top_wf_def)
  ultimately show ?thesis using set_then_get [OF sr] by blast
qed



section \<open>The save loop\<close>

lemma config_path_inj: "config_path d a = config_path d b \<longleftrightarrow> a = b"
  by (simp add: config_path_def)

text \<open>The stamp of a backup name is the time as digits and a hyphen, so it has no letter n.\<close>

definition stamp_ok :: "string \<Rightarrow> bool" where
  "stamp_ok stamp \<longleftrightarrow> list_all (\<lambda>c. is_digit c \<or> c = CHR ''-'') stamp"

lemma last_config_path: "last (config_path d a) = CHR ''n''"
  by (simp add: config_path_def)

lemma path_not_tmp: "config_path d a \<noteq> config_path d b @ ''.tmp''"
proof
  assume "config_path d a = config_path d b @ ''.tmp''"
  then have "last (config_path d a) = last (config_path d b @ ''.tmp'')" by (rule arg_cong)
  then show False unfolding last_config_path by simp
qed

lemma path_not_backup: "stamp_ok st \<Longrightarrow> config_path d a \<noteq> config_path d b @ ''.backup.'' @ st"
proof
  assume st: "stamp_ok st" and "config_path d a = config_path d b @ ''.backup.'' @ st"
  then have "last (config_path d a) = last (config_path d b @ ''.backup.'' @ st)" by metis
  then have l: "CHR ''n'' = last (''.backup.'' @ st)" unfolding last_config_path by simp
  show False
  proof (cases "st = []")
    case True
    with l show ?thesis by simp
  next
    case False
    then have "last st \<in> set st" by simp
    with st have "is_digit (last st) \<or> last st = CHR ''-''" by (auto simp: stamp_ok_def list_all_iff)
    moreover have "last st = CHR ''n''" using l False by simp
    ultimately show ?thesis by (simp add: is_digit_def byte_of_def)
  qed
qed

lemma SaveConfig_other:
  "stamp_ok st \<Longrightarrow> n \<noteq> m \<Longrightarrow>
   mget (fst (SaveConfig d st f m doc fs)) (config_path d n) = mget fs (config_path d n)"
  by (rule SaveConfig_frame) (use path_not_tmp path_not_backup in \<open>auto simp: config_path_inj\<close>)

lemma SaveConfig_no_fault: "snd (SaveConfig d st NoFault m doc fs) = None"
  by (simp add: SaveConfig_def Let_def)

lemma save_types_frame:
  "sv_state (fst (save_types st fl ks sv)) = sv_state sv \<and>
   sv_registry (fst (save_types st fl ks sv)) = sv_registry sv \<and>
   sv_services (fst (save_types st fl ks sv)) = sv_services sv \<and>
   sv_dir (fst (save_types st fl ks sv)) = sv_dir sv"
  by (induction st fl ks sv rule: save_types.induct)
     (auto simp: Let_def split: outcome.splits prod.splits option.splits)

lemma save_name_files [simp]: "save_name (sv\<lparr>sv_files := f\<rparr>) k = save_name sv k"
  by (simp add: save_name_def)

lemma save_types_saved:
  assumes "stamp_ok st" and "distinct ks" and "inj_on (save_name sv) (set ks)"
    and "\<And>k. k \<in> set ks \<Longrightarrow> fl (save_name sv k) = NoFault \<and> mget (st_registry (sv_state sv)) k \<noteq> None"
  shows "snd (save_types st fl ks sv) = None \<and>
     (\<forall>k\<in>set ks. mget (sv_files (fst (save_types st fl ks sv))) (config_path (sv_dir sv) (save_name sv k)) =
        Some (FJson (enc_opt (committed_layer (sv_state sv) k)))) \<and>
     (\<forall>n. n \<notin> save_name sv ` set ks \<longrightarrow>
        mget (sv_files (fst (save_types st fl ks sv))) (config_path (sv_dir sv) n) =
        mget (sv_files sv) (config_path (sv_dir sv) n))"
  using assms(2-)
proof (induction ks arbitrary: sv)
  case Nil
  then show ?case by simp
next
  case (Cons k ks)
  let ?d = "sv_dir sv" and ?doc = "enc_opt (committed_layer (sv_state sv) k)" and ?m = "save_name sv k"
  obtain f' where sc: "SaveConfig ?d st NoFault ?m ?doc (sv_files sv) = (f', None)"
    using SaveConfig_no_fault [of ?d st ?m ?doc "sv_files sv"] by (metis prod.collapse)
  have fl: "fl ?m = NoFault" and reg: "mget (st_registry (sv_state sv)) k \<noteq> None"
    using Cons.prems(3) by auto
  then have step: "save_types st fl (k # ks) sv = save_types st fl ks (sv\<lparr>sv_files := f'\<rparr>)"
    using sc by (auto simp: GetCommitted_layers Let_def)
  have at: "mget f' (config_path ?d ?m) = Some (FJson ?doc)"
    using SaveConfig_at_path [of ?d st NoFault ?m ?doc "sv_files sv"] sc by simp
  have other: "n \<noteq> ?m \<Longrightarrow> mget f' (config_path ?d n) = mget (sv_files sv) (config_path ?d n)" for n
    using SaveConfig_other [OF assms(1), of n ?m ?d NoFault ?doc "sv_files sv"] sc by simp
  have notin: "?m \<notin> save_name sv ` set ks"
    using Cons.prems(1,2) by (auto dest: inj_onD)
  have IH: "snd (save_types st fl ks (sv\<lparr>sv_files := f'\<rparr>)) = None \<and>
     (\<forall>k\<in>set ks. mget (sv_files (fst (save_types st fl ks (sv\<lparr>sv_files := f'\<rparr>)))) (config_path ?d (save_name sv k)) =
        Some (FJson (enc_opt (committed_layer (sv_state sv) k)))) \<and>
     (\<forall>n. n \<notin> save_name sv ` set ks \<longrightarrow>
        mget (sv_files (fst (save_types st fl ks (sv\<lparr>sv_files := f'\<rparr>)))) (config_path ?d n) =
        mget f' (config_path ?d n))"
    using Cons.IH [of "sv\<lparr>sv_files := f'\<rparr>"] Cons.prems by (auto simp: inj_on_def)
  show ?case unfolding step using IH at other notin by auto
qed

section \<open>Commit\<close>

text \<open>What validation accepts for one pending type.\<close>

definition type_valid :: "Server \<Rightarrow> string \<Rightarrow> bool" where
  "type_valid sv k \<longleftrightarrow>
     (case pending_layer (sv_state sv) k of
        None \<Rightarrow> True
      | Some cfg \<Rightarrow>
          (if k = ''interfaces'' then
             (case cfg of
                CInterfaces c \<Rightarrow> list_all (\<lambda>(_, i). Interface_Validate i = None) (entries (ic_Interfaces c))
              | _ \<Rightarrow> True)
           else if k = ''routes'' then
             (case cfg of
                CRoutes c \<Rightarrow> list_all (\<lambda>(_, r). Route_Validate r = None) (entries (rc_Routes c))
              | _ \<Rightarrow> True)
           else
             (case Registry_Get (sv_registry sv) k of
                None \<Rightarrow> True
              | Some plugin \<Rightarrow> pl_ValidateConfig plugin (Some cfg) = None)))"

lemma foldl_pairs_CheckMsg_errs:
  "ec_errs (foldl (\<lambda>v (n, i). CheckMsg (f i) (g n) v) v l) = [] \<longleftrightarrow>
     ec_errs v = [] \<and> list_all (\<lambda>(_, i). f i = None) l"
  unfolding foldl_CheckMsg_enum_errs list_all_iff by (simp add: case_prod_unfold)

lemma foldl_pairs_Check_errs:
  "ec_errs (foldl (\<lambda>v (_, r). Check (f r) v) v l) = [] \<longleftrightarrow> ec_errs v = [] \<and> list_all (\<lambda>(_, r). f r = None) l"
  using foldl_Check_errs [of "\<lambda>p. f (snd p)" v l] by (simp add: case_prod_unfold list_all_iff)

lemma validate_one_errs:
  assumes "pending_layer (sv_state sv) k = Some cfg"
  shows "ec_errs (validate_one sv k v) = [] \<longleftrightarrow> ec_errs v = [] \<and> type_valid sv k"
proof -
  have "GetCurrent (sv_state sv) k = Ok (Some cfg)"
    using assms by (auto simp: GetCurrent_def layer_defs split: option.splits)
  then show ?thesis
    using foldl_pairs_CheckMsg_errs [of Interface_Validate "\<lambda>n. ''interface '' @ n"]
    by (cases cfg; cases "Registry_Get (sv_registry sv) k")
       (simp_all add: assms validate_one_def type_valid_def foldl_pairs_Check_errs CheckMsg_errs)
qed

lemma validatePending_None:
  assumes "state_wf (sv_state sv)"
  shows "validatePending sv = None \<longleftrightarrow> (\<forall>k. type_valid sv k)"
proof -
  have loop: "(\<forall>k\<in>set ks. pending_layer (sv_state sv) k \<noteq> None) \<Longrightarrow>
      ec_errs (foldl (\<lambda>v k. validate_one sv k v) v ks) = [] \<longleftrightarrow> ec_errs v = [] \<and> (\<forall>k\<in>set ks. type_valid sv k)" for ks v
    by (induction ks arbitrary: v) (auto simp: validate_one_errs)
  have dom: "set (GetPendingTypes (sv_state sv)) = dom (pending_layer (sv_state sv))"
    using assms by (rule pending_types_set)
  moreover have "k \<notin> dom (pending_layer (sv_state sv)) \<Longrightarrow> type_valid sv k" for k
    by (auto simp: type_valid_def domIff)
  moreover have "\<forall>k\<in>set (GetPendingTypes (sv_state sv)). pending_layer (sv_state sv) k \<noteq> None"
    using dom by auto
  from loop [OF this] have "validatePending sv = None \<longleftrightarrow> (\<forall>k\<in>set (GetPendingTypes (sv_state sv)). type_valid sv k)"
    unfolding validatePending_def ec_Error_None by (simp add: NewCollector_errs)
  ultimately show ?thesis by metis
qed

lemma commit_invalid_same:
  "validatePending sv = Some e \<Longrightarrow> handleCommit st fl sv = (sv, fail (''validation failed:'' @ [CHR 0x0A] @ e))"
  by (simp add: handleCommit_def)

lemma commit_layers:
  assumes "validatePending sv = None" and "GetPendingTypes (sv_state sv) \<noteq> []"
  shows "sv_state (fst (handleCommit st fl sv)) = fst (CommitPending (sv_state sv))"
proof -
  have "CommitPending (sv_state sv) = (fst (CommitPending (sv_state sv)), None)"
    using assms(2) by (simp add: CommitPending_def HasPending_types)
  with assms show ?thesis
    using save_types_frame [of st fl "GetPendingTypes (sv_state sv)" "sv\<lparr>sv_state := fst (CommitPending (sv_state sv))\<rparr>"]
    by (auto simp: handleCommit_def split: prod.splits option.splits)
qed

text \<open>
  C7 (commit_success): when validation passes and the file system works, a commit succeeds: every
  pending configuration becomes the committed one, the others keep their committed value, nothing
  is pending any more, what was applied to the system is not touched, and the file of each
  committed type holds the new configuration. Backup stamps are times, and no two types share a file.
\<close>

theorem commit_success:
  assumes "state_wf (sv_state sv)" and "validatePending sv = None"
    and "pending_layer (sv_state sv) \<noteq> Map.empty" and "stamp_ok st"
    and "inj_on (save_name sv) (dom (pending_layer (sv_state sv)))"
    and "\<forall>n. fl n = NoFault" and "handleCommit st fl sv = (sv', r)"
  shows "rsp_Success r \<and> pending_layer (sv_state sv') = Map.empty \<and>
     committed_layer (sv_state sv') = committed_layer (sv_state sv) ++ pending_layer (sv_state sv) \<and>
     applied_layer (sv_state sv') = applied_layer (sv_state sv) \<and>
     (\<forall>k c. pending_layer (sv_state sv) k = Some c \<longrightarrow>
        mget (sv_files sv') (config_path (sv_dir sv) (save_name sv k)) = Some (FJson (enc_config c)))"
proof -
  let ?ks = "GetPendingTypes (sv_state sv)" and ?s = "fst (CommitPending (sv_state sv))"
  let ?sv = "sv\<lparr>sv_state := ?s\<rparr>"
  have dom: "set ?ks = dom (pending_layer (sv_state sv))" using assms(1) by (rule pending_types_set)
  with assms(3) have ne: "?ks \<noteq> []" by (metis dom_eq_empty_conv set_empty)
  have name: "save_name ?sv = save_name sv" by (rule ext) (simp add: save_name_def)
  have saved: "snd (save_types st fl ?ks ?sv) = None \<and>
     (\<forall>k\<in>set ?ks. mget (sv_files (fst (save_types st fl ?ks ?sv))) (config_path (sv_dir ?sv) (save_name ?sv k)) =
        Some (FJson (enc_opt (committed_layer (sv_state ?sv) k))))"
  proof -
    have "mget (st_registry (sv_state ?sv)) k \<noteq> None" if "k \<in> set ?ks" for k
      using that unfolding dom by (auto simp: CommitPending_def gomap_simps layer_defs split: option.splits)
    with assms dom name show ?thesis
      using save_types_saved [OF assms(4), of ?ks ?sv fl] pending_types_distinct [OF assms(1)] by auto
  qed
  have "CommitPending (sv_state sv) = (?s, None)"
    using ne by (simp add: CommitPending_def HasPending_types)
  with assms(2,7) ne saved have sv': "sv' = fst (save_types st fl ?ks ?sv)" and ok: "rsp_Success r"
    by (auto simp: handleCommit_def split: prod.splits option.splits)
  have st': "sv_state sv' = ?s" unfolding sv' using save_types_frame [of st fl ?ks ?sv] by simp
  have "mget (sv_files sv') (config_path (sv_dir sv) (save_name sv k)) = Some (FJson (enc_config c))"
    if "pending_layer (sv_state sv) k = Some c" for k c
  proof -
    have "committed_layer ?s k = Some c" using that by (simp add: CommitPending_layers)
    moreover have "k \<in> set ?ks" unfolding dom using that by blast
    ultimately show ?thesis using saved unfolding sv' name by (simp add: enc_opt_def)
  qed
  with ok st' show ?thesis by (simp add: CommitPending_layers)
qed

theorem commit_success_witness:
  "\<exists>sv' r. handleCommit ''20250101-000000'' no_faults ex_pending = (sv', r) \<and> rsp_Success r \<and>
     mget (sv_files sv') (config_path ''/etc/jack'' ''wireguard'') = Some (FJson (JObj [(''name'', JStr ''b'')]))"
proof -
  obtain sv' r where sr: "handleCommit ''20250101-000000'' no_faults ex_pending = (sv', r)" by (metis surj_pair)
  have name: "save_name ex_pending ''vpn'' = ''wireguard''"
    by (simp add: save_name_def GetPluginNameForNamespace_def name_entry_def ex_defs Let_def)
  have "stamp_ok ''20250101-000000''" by (simp add: stamp_ok_def is_digit_def byte_of_def)
  then have "rsp_Success r \<and> mget (sv_files sv') (config_path (sv_dir ex_pending) (save_name ex_pending ''vpn'')) =
      Some (FJson (enc_config (CMap (Some [(''name'', JStr ''b'')]))))"
    using commit_success [OF ex_wf ex_valid _ _ _ _ sr]
    by (simp add: ex_pending_layer no_faults_def)
  with sr name show ?thesis by (simp add: ex_pending_def ex_server_def)
qed

text \<open>
  Whenever a commit changes the committed layer, every pending interface and
  route passed its validation and every loaded plugin accepted its pending configuration.
\<close>

theorem commit_only_valid:
  assumes "state_wf (sv_state sv)" and "handleCommit st fl sv = (sv', r)"
    and "committed_layer (sv_state sv') \<noteq> committed_layer (sv_state sv)"
  shows "\<forall>k. type_valid sv k"
proof (rule ccontr)
  assume "\<not> (\<forall>k. type_valid sv k)"
  then obtain e where "validatePending sv = Some e"
    using validatePending_None [OF assms(1)] by auto
  with assms(2,3) show False by (simp add: commit_invalid_same)
qed

text \<open>
  A revert clears the pending layer of every type and keeps the committed
  and the applied layers, the files and the registries.
\<close>

lemma revert_discards:
  "handleRevert sv = (sv', r) \<Longrightarrow>
     rsp_Success r \<and> pending_layer (sv_state sv') = Map.empty \<and>
     committed_layer (sv_state sv') = committed_layer (sv_state sv) \<and>
     applied_layer (sv_state sv') = applied_layer (sv_state sv) \<and>
     sv_files sv' = sv_files sv \<and> sv_registry sv' = sv_registry sv"
  using RevertPending_layers [of "sv_state sv"]
  by (auto simp: handleRevert_def RevertPending_def)

end
