(* ===== verification/Config_Properties.thy ===== *)
theory Config_Properties
  imports Server_Config_Facts
begin

text \<open>
  Properties of the stores below the command handlers: the two layers of the state, paths into
  plugin configurations, the field cache, the files, the checkpoints, the service registry and the diff.
\<close>

section \<open>State\<close>

lemma run_ops_known: "mget (st_registry s) k \<noteq> None \<Longrightarrow> mget (st_registry (run_ops ops s)) k \<noteq> None"
proof (induction ops arbitrary: s)
  case (Cons op ops)
  have "mget (st_registry (run_ops [op] s)) k \<noteq> None"
    using Cons.prems
    by (cases op) (simp_all add: run_ops_def SetPending_def put_entry_get CommitPending_def RevertPending_def gomap_simps)
  from Cons.IH [OF this] show ?case by (simp add: run_ops_def)
qed (simp add: run_ops_def)

text \<open>
  C8 (session_refines): any session of set, commit and revert steps on the daemon's state does to
  the committed and the pending configurations exactly what the two-layer specification says: a set
  shadows one type, a commit merges the pending layer over the committed one, a revert drops it.
\<close>

theorem session_refines:
  "(committed_layer (run_ops ops s), pending_layer (run_ops ops s)) =
     fold spec_op ops (committed_layer s, pending_layer s)"
  unfolding run_ops_step by (rule store.run_refines)

text \<open>
  After any number of sets a revert restores the configuration every
  reader sees, whatever the sets were.
\<close>

lemma revert_undoes_session:
  assumes "sets_only ops" and "pending_layer s = Map.empty" and "mget (st_registry s) k \<noteq> None"
  shows "GetCurrent (fst (RevertPending (run_ops ops s))) k = GetCurrent s k"
proof -
  have "mget (st_registry (fst (RevertPending (run_ops ops s)))) k \<noteq> None"
    using run_ops_known [OF assms(3)] by (simp add: RevertPending_def gomap_simps)
  with store.revert_undoes [OF assms(1,2), folded run_ops_step] assms(3) show ?thesis
    by (simp add: GetCurrent_layers)
qed

section \<open>Paths into plugin configurations\<close>

text \<open>
  A write below a plugin configuration is read back at its path, and every
  path that neither leads to it nor through it reads as before.
\<close>

lemma generic_write:
  assumes "setGenericValue m ks v = Ok m'"
  shows "getGenericValue m' ks = Ok v \<and>
         (\<forall>ls. \<not> prefix ks ls \<longrightarrow> \<not> prefix ls ks \<longrightarrow> getGenericValue m' ls = getGenericValue m ls)"
  using generic_get_set [OF assms] generic_get_set_frame [OF assms] by blast

section \<open>The field cache\<close>

text \<open>The answers to a sequence of lookups that share the global cache.\<close>

fun cached_lookups :: "(string \<Rightarrow> string list) \<Rightarrow> (string \<times> string) list \<Rightarrow> field_cache \<Rightarrow> nat option list" where
  "cached_lookups tags_of [] c = []"
| "cached_lookups tags_of ((ty, tag) # reqs) c =
     (case getStructFieldByJSONTag c ty (tags_of ty) tag of
        (i, c') \<Rightarrow> i # cached_lookups tags_of reqs c')"

lemma cached_lookups_ok:
  "cache_ok tags_of c \<Longrightarrow>
   cached_lookups tags_of reqs c = map (\<lambda>(ty, tag). mget (build_cache (tags_of ty)) tag) reqs"
proof (induction tags_of reqs c rule: cached_lookups.induct)
  case (2 tags_of ty tag reqs c)
  show ?case
  proof (cases "mget c ty")
    case None
    with 2 cache_ok_put [OF 2(2)] show ?thesis by (simp add: getStructFieldByJSONTag_def Let_def)
  next
    case (Some e)
    with cache_ok_get [OF 2(2)] have "e = build_cache (tags_of ty)" by simp
    with 2 Some cache_ok_put [OF 2(2)] show ?thesis by (auto simp: getStructFieldByJSONTag_def Let_def)
  qed
qed simp

text \<open>
  However lookups of fields of any struct types are interleaved, starting
  from the empty cache each one answers the last field whose JSON tag has the name, or none when
  there is no such field: the cache never changes an answer.
\<close>

theorem cache_transparent:
  "cached_lookups tags_of reqs [] = map (\<lambda>(ty, tag). mget (build_cache (tags_of ty)) tag) reqs \<and>
   (\<forall>ty tag i. mget (build_cache (tags_of ty)) tag = Some i \<longrightarrow>
      i < length (tags_of ty) \<and> tag_name (tags_of ty ! i) = tag)"
  using build_cache_SomeD by (simp add: cached_lookups_ok cache_ok_def)

section \<open>Files\<close>

text \<open>
  C12 (save_atomic): whatever step of a save the file system refuses, the configuration file holds
  its old content or the whole new document, and the new one exactly when the save reports success;
  the files of all other configurations are untouched, and after a success the old content is kept
  under the backup name.
\<close>

theorem save_atomic:
  assumes "SaveConfig dir st fault ns doc fs = (fs', err)" and "stamp_ok st"
  shows "mget fs' (config_path dir ns) = (if err = None then Some (FJson doc) else mget fs (config_path dir ns)) \<and>
         (\<forall>ns'. ns' \<noteq> ns \<longrightarrow> mget fs' (config_path dir ns') = mget fs (config_path dir ns')) \<and>
         (err = None \<longrightarrow> mget fs (config_path dir ns) \<noteq> None \<longrightarrow>
            mget fs' (config_path dir ns @ ''.backup.'' @ st) = mget fs (config_path dir ns))"
proof (intro conjI allI impI)
  show "mget fs' (config_path dir ns) = (if err = None then Some (FJson doc) else mget fs (config_path dir ns))"
    using SaveConfig_at_path [of dir st fault ns doc fs] assms(1) by simp
next
  fix ns' assume "ns' \<noteq> ns"
  with SaveConfig_other [OF assms(2), of ns' ns dir fault doc fs] assms(1)
  show "mget fs' (config_path dir ns') = mget fs (config_path dir ns')" by simp
next
  assume "err = None" "mget fs (config_path dir ns) \<noteq> None"
  with SaveConfig_backup [of dir st fault ns doc fs] assms(1)
  show "mget fs' (config_path dir ns @ ''.backup.'' @ st) = mget fs (config_path dir ns)" by auto
qed

theorem save_atomic_witness:
  "mget (fst (SaveConfig ''/etc/jack'' ''20250101-120000'' RenameFault ''vpn'' JNull
       [(''/etc/jack/vpn.json'', FJson (JBool True)), (''/etc/jack/led.json'', FBad)]))
     (config_path ''/etc/jack'' ''vpn'') = Some (FJson (JBool True))"
proof -
  let ?fs = "[(''/etc/jack/vpn.json'', FJson (JBool True)), (''/etc/jack/led.json'', FBad)]"
  obtain fs' err where s: "SaveConfig ''/etc/jack'' ''20250101-120000'' RenameFault ''vpn'' JNull ?fs = (fs', err)"
    by (metis surj_pair)
  have "stamp_ok ''20250101-120000''" by code_simp
  from save_atomic [OF s this, THEN conjunct1] s show ?thesis
    by (auto simp: SaveConfig_def Let_def config_path_def)
qed

text \<open>
  C13 (interfaces_save_load): the interfaces configuration a daemon saved is the one it loads when
  it starts again: the same version and, under every name, the same interface.
\<close>

theorem interfaces_save_load:
  assumes "SaveConfig dir st fault ''interfaces'' (enc_config (CInterfaces c)) fs = (fs', None)"
    and "ic_Interfaces c = Some m" and "mwf m"
    and "\<And>k i. (k, i) \<in> set m \<Longrightarrow> storable Interface_fields nested_ok i"
  shows "\<exists>c'. LoadInterfacesConfig dir st' fault' nl fs' = (fs', Ok c') \<and> ic_Version c' = ic_Version c \<and>
           (\<forall>k. map_lookup (ic_Interfaces c') k = map_lookup (ic_Interfaces c) k)"
proof -
  have "LoadConfig dir fs' ''interfaces'' = Loaded (enc_config (CInterfaces c))"
    using SaveConfig_at_path [of dir st fault "''interfaces''" "enc_config (CInterfaces c)" fs] assms(1)
    by (simp add: LoadConfig_def)
  moreover have "dec_InterfacesConfig (enc_config (CInterfaces c)) = Ok (c\<lparr>ic_Interfaces := sort_map (ic_Interfaces c)\<rparr>)"
    using assms(2-4) by (intro InterfacesConfig_round) (auto simp: entries_def)
  moreover have "sort_map (ic_Interfaces c) \<noteq> None" using assms(2) by (simp add: sort_map_def)
  moreover have "map_lookup (sort_map (ic_Interfaces c)) k = map_lookup (ic_Interfaces c) k" for k
    using assms(2,3) by (intro sort_map_lookup) simp
  ultimately show ?thesis by (auto simp: LoadInterfacesConfig_def simp del: enc_config.simps)
qed

text \<open>A configuration with a bridge and its uplink.\<close>

definition ex_lans :: InterfacesConfig where
  "ex_lans = \<lparr>ic_Interfaces = Some [(''lan'', zero_Interface\<lparr>if_Type := ''bridge'', if_MTU := 1500\<rparr>),
                                    (''eth0'', zero_Interface\<lparr>if_Type := ''physical''\<rparr>)], ic_Version = ''1.0''\<rparr>"

theorem interfaces_save_load_witness:
  "\<exists>fs' c'. SaveConfig ''/etc/jack'' [] NoFault ''interfaces'' (enc_config (CInterfaces ex_lans)) [] = (fs', None) \<and>
     LoadInterfacesConfig ''/etc/jack'' [] NoFault undefined fs' = (fs', Ok c') \<and>
     map_lookup (ic_Interfaces c') ''lan'' = Some (zero_Interface\<lparr>if_Type := ''bridge'', if_MTU := 1500\<rparr>)"
proof -
  obtain fs' where s: "SaveConfig ''/etc/jack'' [] NoFault ''interfaces'' (enc_config (CInterfaces ex_lans)) [] = (fs', None)"
    by (simp add: SaveConfig_def Let_def)
  have m: "ic_Interfaces ex_lans = Some [(''lan'', zero_Interface\<lparr>if_Type := ''bridge'', if_MTU := 1500\<rparr>),
     (''eth0'', zero_Interface\<lparr>if_Type := ''physical''\<rparr>)]" by (simp add: ex_lans_def)
  have st: "storable Interface_fields nested_ok (zero_Interface\<lparr>if_Type := ''bridge'', if_MTU := 1500\<rparr>)"
    "storable Interface_fields nested_ok (zero_Interface\<lparr>if_Type := ''physical''\<rparr>)"
    by code_simp+
  from interfaces_save_load [OF s m, of "[]" NoFault undefined] st
  obtain c' where c': "LoadInterfacesConfig ''/etc/jack'' [] NoFault undefined fs' = (fs', Ok c')"
    "map_lookup (ic_Interfaces c') ''lan'' = map_lookup (ic_Interfaces ex_lans) ''lan''" by (auto simp: mwf_def)
  then show ?thesis using s m by (intro exI [of _ fs'] exI [of _ c']) (simp add: map_lookup_def)
qed

section \<open>Checkpoints\<close>

text \<open>A lookup of a checkpoint by its own identifier.\<close>

definition fetch :: "State \<Rightarrow> snapshot_dir \<Rightarrow> string \<Rightarrow> SystemSnapshot outcome" where
  "fetch s dir c =
     (case mget (st_snapshots s) c of None \<Rightarrow> loadSnapshotFromDisk dir c | Some snapshot \<Rightarrow> Ok snapshot)"

lemma LoadSnapshot_fetch:
  "c \<noteq> ''latest'' \<Longrightarrow> LoadSnapshot s dir c = fetch s dir c"
  "st_snapshotList s \<noteq> [] \<Longrightarrow> LoadSnapshot s dir ''latest'' = fetch s dir (last (st_snapshotList s))"
  by (simp_all add: LoadSnapshot_def fetch_def Let_def)


definition ex_snap :: SystemSnapshot where
  "ex_snap = \<lparr>ss_Timestamp = 1, ss_CheckpointID = ''auto-1'', ss_IPForwarding = True, ss_Interfaces = [], ss_Routes = None,
     ss_NftablesRules = []\<rparr>"

definition ex_snaps :: State where
  "ex_snaps = NewState\<lparr>st_snapshots := [(''auto-1'', ex_snap), (''auto-2'', ex_snap)],
                       st_snapshotList := [''auto-1'', ''auto-2'']\<rparr>"


section \<open>Services\<close>

lemma WaitForService_ready:
  assumes "sr_ok r"
  shows "WaitForService d r n =
    (if mget (sr_serviceProviders r) n = None then Some (Some (''service '' @ quoted n @ '' not found''))
     else if IsServiceReady r n then Some None
     else if d then Some (Some (''timeout waiting for service '' @ quoted n)) else None)"
proof -
  have "set (mkeys (sr_serviceProviders r)) = set (mkeys (sr_serviceReady r))"
    and "mget (sr_readyChannels r) n =
      (case mget (sr_serviceReady r) n of None \<Rightarrow> None | Some b \<Rightarrow> Some (if b then Closed else Open))"
    using assms unfolding sr_ok_def by blast+
  then have "mget (sr_serviceProviders r) n = None \<longleftrightarrow> mget (sr_readyChannels r) n = None"
    by (simp add: mget_None_iff [of "sr_serviceProviders r"] split: option.splits)
       (simp_all add: mget_None_iff mget_Some_key)
  with ready_channel [OF assms] show ?thesis
    by (auto simp: WaitForService_def split: option.splits)
qed

text \<open>
  Marking a registered service as ready lets every wait for it return without an
  error, changes no other wait, and never closes a channel twice: doing it again changes nothing.
\<close>

theorem ready_wakes:
  assumes "sr_ok r" and "GetServiceProvider r n = Some ns"
  shows "\<exists>r'. MarkServiceReady n r = Ok r' \<and> sr_ok r' \<and> WaitForService d r' n = Some None \<and>
           (\<forall>m. m \<noteq> n \<longrightarrow> WaitForService d r' m = WaitForService d r m) \<and> MarkServiceReady n r' = Ok r'"
proof -
  obtain r' where r': "MarkServiceReady n r = Ok r'" "sr_ok r'" "sr_serviceProviders r' = sr_serviceProviders r"
    using MarkServiceReady_ok [OF assms(1), of n n] by metis
  have ready: "IsServiceReady r' m \<longleftrightarrow> IsServiceReady r m \<or> m = n" for m
    using MarkServiceReady_ok [OF assms(1), of n m] r'(1) assms(2) by (auto simp: GetServiceProvider_def)
  then have "MarkServiceReady n r' = Ok r'" by (simp add: MarkServiceReady_def)
  moreover have "WaitForService d r' n = Some None"
    using ready assms(2) by (simp add: WaitForService_ready r' GetServiceProvider_def)
  moreover have "WaitForService d r' m = WaitForService d r m" if "m \<noteq> n" for m
    using that ready by (simp add: WaitForService_ready assms(1) r')
  ultimately show ?thesis using r'(1,2) by blast
qed

section \<open>Diff\<close>

text \<open>
  The diff of two interface configurations always returns, and it is
  empty exactly when both have the same interfaces and no field of any of them differs, a field that is
  zero or empty on both sides counting as equal.
\<close>

theorem diff_interfaces_complete:
  "\<exists>ds. DiffInterfaces c p = Ok ds \<and>
     (ds = [] \<longleftrightarrow>
        (\<forall>(n, i)\<in>set (entries (ic_Interfaces p)).
           \<exists>j. lookup_iface c n = Some j \<and> same_struct Interface_fields j i) \<and>
        (\<forall>(n, i)\<in>set (entries (ic_Interfaces c)). lookup_iface p n \<noteq> None))"
  by (rule DiffInterfaces_total)

section \<open>Requests that end the daemon\<close>

text \<open>
  A diff while the pending change is one of a plugin configuration ends
  the daemon: plugin configurations are maps, and the field loop of the diff is only defined on structs.
\<close>

theorem diff_plugin_panics:
  assumes "GetPendingTypes (sv_state sv) = [ns]" and "ns \<noteq> ''interfaces''"
    and "GetCurrent (sv_state sv) ns = Ok (Some (CMap m))"
  shows "handleDiff fmtv sv = Panic"
proof -
  have "HasPending (sv_state sv)" using assms(1) by (simp add: HasPending_types)
  moreover obtain c where "GetCommitted (sv_state sv) ns = Ok c"
    using assms(3) by (auto simp: GetCurrent_def GetCommitted_def split: option.splits)
  moreover have "DiffConfigs ns c (Some (CMap m)) = Panic"
    using assms(2) by (auto simp: DiffConfigs_def split: option.splits)
  ultimately show ?thesis using assms by (simp add: handleDiff_def)
qed

lemma split_two:
  assumes "CHR ''.'' \<notin> set p" and "CHR ''.'' \<notin> set n"
  shows "split_on (CHR ''.'') (p @ ''.'' @ n) = [p, n]"
  using split_on_append_sep [OF assms(1)] split_on_no_sep [OF assms(2)] by simp

lemma rewritePath_none: "GetPathPrefix reg ((split_on (CHR ''.'') p) ! 0) = '''' \<Longrightarrow> rewritePath reg p = p"
  by (simp add: rewritePath_def Let_def)

text \<open>
  Setting all interfaces to \<open>null\<close> is accepted and leaves a nil map; the next
  set of a whole interface writes into it and ends the daemon.
\<close>

theorem null_map_panics:
  assumes "GetPathPrefix (sv_registry sv) ''interfaces'' = ''''"
    and "committed_layer (sv_state sv) ''interfaces'' = Some (CInterfaces c)"
    and "pending_layer (sv_state sv) ''interfaces'' = None"
    and "CHR ''.'' \<notin> set n" and "dec_Interface (marshal v) = Ok i"
  shows "\<exists>sv' r. handleSet ''interfaces'' JNull sv = Ok (sv', r) \<and> rsp_Success r \<and>
           handleSet (''interfaces.'' @ n) v sv' = Panic"
proof -
  let ?c = "CInterfaces ((deepCopyInterfaces c)\<lparr>ic_Interfaces := None\<rparr>)"
  let ?sv = "sv\<lparr>sv_state := SetPending ''interfaces'' (Some ?c) (sv_state sv)\<rparr>"
  have known: "mget (st_registry (sv_state sv)) ''interfaces'' \<noteq> None"
    using assms(2) by (auto simp: committed_layer_def split: option.splits)
  have cur: "GetCurrent (sv_state sv) ''interfaces'' = Ok (Some (CInterfaces c))"
    "GetCommitted (sv_state sv) ''interfaces'' = Ok (Some (CInterfaces c))"
    "\<not> HasPendingFor (sv_state sv) ''interfaces''"
    using known assms(2,3) by (simp_all add: GetCurrent_layers GetCommitted_layers HasPendingFor_layer map_add_def)
  have s1: "split_on (CHR ''.'') ''interfaces'' = [''interfaces'']" by (rule split_on_no_sep) simp
  have s2: "split_on (CHR ''.'') (''interfaces.'' @ n) = [''interfaces'', n]"
    using split_two [OF _ assms(4), of "''interfaces''"] by simp
  have "to_interface_map (GJson JNull) = Ok None"
    by (simp add: to_interface_map_def dec_map_def)
  then have "SetValue (Some (CInterfaces (deepCopyInterfaces c))) ''interfaces'' (GJson JNull) = Ok ?c"
    by (simp add: SetValue_def s1 setInterfacesValue_def)
  then have "stage_value sv ''interfaces'' JNull = Ok (''interfaces'', ?c)"
    using cur by (simp add: stage_value_def ParseConfigType_def s1 working_copy_def)
  then have h1: "handleSet ''interfaces'' JNull sv = Ok (?sv, okay DNone (''Staged: '' @ ''interfaces'' @ '' = ''))"
    using assms(1) rewritePath_none [of "sv_registry sv" "''interfaces''"] by (simp add: handleSet_def s1)
  have "GetCurrent (sv_state ?sv) ''interfaces'' = Ok (Some ?c)" by (simp add: GetCurrent_SetPending)
  moreover have "HasPendingFor (sv_state ?sv) ''interfaces''" by (simp add: HasPendingFor_layer SetPending_layers)
  moreover have "SetValue (Some ?c) (''interfaces.'' @ n) (GJson v) = Panic"
    using assms(5) unfolding SetValue_def s2 by (simp add: setInterfacesValue_def to_interface_def map_assign_def)
  ultimately have "stage_value ?sv (''interfaces.'' @ n) v = Panic"
    unfolding stage_value_def ParseConfigType_def s2 by (simp add: working_copy_def)
  then have "handleSet (''interfaces.'' @ n) v ?sv = Panic"
    unfolding handleSet_def using assms(1) rewritePath_none [of "sv_registry sv" "''interfaces.'' @ n"] s2
    by simp
  with h1 show ?thesis by (intro exI conjI) (assumption | simp)+
qed

lemma setFieldValue_panic:
  "setFieldValue k (GJson v) = Panic \<longleftrightarrow> (k = KStrs \<or> k = KPeers) \<and> (\<exists>xs. v = JArr xs)"
  by (cases k; cases v) (simp_all add: setFieldValue.simps)

lemma setStructField_panic:
  "setStructField fs s n w = Panic \<longleftrightarrow>
     (\<exists>j. field_index fs n = Some j \<and> setFieldValue (fd_kind (fs ! j)) w = Panic)"
  by (auto simp: setStructField_def split: option.splits outcome.splits)

lemma slice_tags:
  "map (tag_name \<circ> fd_tag) (filter (\<lambda>f. fd_kind f = KStrs \<or> fd_kind f = KPeers) Interface_fields) =
     [''bridge_ports'', ''dns'', ''wg_peers'']"
  by code_simp

text \<open>
  The sets of an interface field by a JSON request that end the daemon are
  exactly those that give an array to one of the list fields: the reflective assignment of
  \<open>[]interface{}\<close> to a slice of another type panics.
\<close>

theorem array_field_panics:
  "setInterfaceField i [k] (GJson v) = Panic \<longleftrightarrow>
     k \<in> {''bridge_ports'', ''dns'', ''wg_peers''} \<and> (\<exists>xs. v = JArr xs)"
proof -
  let ?sl = "\<lambda>f. fd_kind f = KStrs \<or> fd_kind f = KPeers"
  have "setInterfaceField i [k] (GJson v) = Panic \<longleftrightarrow>
      (\<exists>j. field_index Interface_fields k = Some j \<and> ?sl (Interface_fields ! j)) \<and> (\<exists>xs. v = JArr xs)"
    by (auto simp: setInterfaceField_def setStructField_panic setFieldValue_panic)
  also have "(\<exists>j. field_index Interface_fields k = Some j \<and> ?sl (Interface_fields ! j)) \<longleftrightarrow>
      (\<exists>f \<in> set Interface_fields. (tag_name \<circ> fd_tag) f = k \<and> ?sl f)"
    unfolding iface_table.index_iff comp_apply by (metis in_set_conv_nth)
  also have "\<dots> \<longleftrightarrow> k \<in> set (map (tag_name \<circ> fd_tag) (filter ?sl Interface_fields))" by auto
  finally show ?thesis unfolding slice_tags by simp
qed

section \<open>Left-over path prefixes\<close>

text \<open>
  Removing a plugin leaves its path prefix behind, so paths of a namespace that no
  plugin serves are still rewritten.
\<close>

lemma stale_prefix:
  assumes "Register p name r = (r', None)" and "pm_PathPrefix (pl_Metadata p) \<noteq> ''''"
  shows "let ns = pm_Namespace (pl_Metadata p); r'' = Unregister ns r' in
           Registry_Get r'' ns = None \<and> GetPathPrefix r'' ns = pm_PathPrefix (pl_Metadata p)"
  using assms
  by (auto simp: Register_def Let_def Unregister_def Registry_Get_def GetPathPrefix_def gomap_simps split: if_splits)

end
