(* ===== verification/Plugin_Order.thy ===== *)
theory Plugin_Order
  imports Registry
begin

text \<open>
  The two orderings of \<open>src/daemon/server.go\<close>: interfaces by type before they are applied, and
  plugins by their dependencies with a depth-first search.
\<close>

section \<open>Interfaces\<close>

definition names_of_type :: "(Interface \<Rightarrow> bool) \<Rightarrow> (string, Interface) gomap \<Rightarrow> string list" where
  "names_of_type P m = map fst (filter (\<lambda>(_, iface). P iface) m)"

text \<open>
  The loop appends every name to the list of its type; the lists are then concatenated.
\<close>

definition orderInterfaces :: "(string, Interface) gomap \<Rightarrow> string list" where
  "orderInterfaces interfaces =
     (let physical = names_of_type (\<lambda>i. if_Type i = ''physical'') interfaces;
          vlan = names_of_type (\<lambda>i. if_Type i = ''vlan'') interfaces;
          bridge = names_of_type (\<lambda>i. if_Type i = ''bridge'') interfaces;
          other = names_of_type (\<lambda>i. if_Type i \<notin> {''physical'', ''vlan'', ''bridge''}) interfaces
      in physical @ bridge @ vlan @ other)"

text \<open>The position of a type in the resulting order.\<close>

definition type_rank :: "Interface \<Rightarrow> nat" where
  "type_rank i =
     (if if_Type i = ''physical'' then 0 else if if_Type i = ''bridge'' then 1
      else if if_Type i = ''vlan'' then 2 else 3)"

lemma orderInterfaces_filter:
  "orderInterfaces m =
     concat (map (\<lambda>r. map fst (filter (\<lambda>(_, i). type_rank i = r) m)) [0, 1, 2, 3])"
proof -
  have "(\<lambda>(_, i). if_Type i = ''physical'') = (\<lambda>(_ :: string, i). type_rank i = 0)"
    "(\<lambda>(_, i). if_Type i = ''bridge'') = (\<lambda>(_ :: string, i). type_rank i = 1)"
    "(\<lambda>(_, i). if_Type i = ''vlan'') = (\<lambda>(_ :: string, i). type_rank i = 2)"
    "(\<lambda>(_, i). if_Type i \<notin> {''physical'', ''vlan'', ''bridge''}) = (\<lambda>(_ :: string, i). type_rank i = 3)"
    by (simp_all add: fun_eq_iff type_rank_def)
  then show ?thesis by (simp only: orderInterfaces_def names_of_type_def Let_def) simp
qed

lemma type_rank_bound: "type_rank i \<in> {0, 1, 2, 3}"
  by (simp add: type_rank_def)

lemma ranked_mset:
  assumes "\<And>i. r i < (n :: nat)"
  shows "mset (concat (map (\<lambda>k. map fst (filter (\<lambda>(_, i). r i = k) m)) [0..<n])) = mset (map fst m)"
proof (induction m)
  case (Cons e m)
  obtain a i where e: "e = (a, i)" by (cases e)
  have "mset (concat (map (\<lambda>k. map fst (filter (\<lambda>(_, i). r i = k) ((a, i) # m))) ks)) =
      mset (concat (map (\<lambda>k. map fst (filter (\<lambda>(_, i). r i = k) m)) ks)) + (if r i \<in> set ks then {#a#} else {#})"
    if "distinct ks" for ks
    using that by (induction ks) auto
  from this [of "[0..<n]"] Cons e assms [of i] show ?case by simp
qed (induction n; simp)

lemma sorted_concat_replicate: "sorted ks \<Longrightarrow> sorted (concat (map (\<lambda>k. replicate (f k) k) ks))"
  by (induction ks) (auto simp: sorted_append sorted_replicate)

lemma rank_block:
  assumes "mwf m"
  shows "map (\<lambda>n. r (the (mget m n))) (map fst (filter (\<lambda>(_, i). r i = k) m)) =
         replicate (length (filter (\<lambda>(_, i). r i = k) m)) k"
proof -
  have "r (the (mget m n)) = k" if "n \<in> set (map fst (filter (\<lambda>(_, i). r i = k) m))" for n
    using that assms by (auto simp: mget_iff_entry [symmetric])
  then have "set (map (\<lambda>n. r (the (mget m n))) (map fst (filter (\<lambda>(_, i). r i = k) m))) \<subseteq> {k}" by auto
  then show ?thesis
    by (intro replicate_eqI) auto
qed

lemma orderInterfaces_sorted:
  assumes "mwf m"
  shows "sorted (map (\<lambda>n. type_rank (the (mget m n))) (orderInterfaces m))"
proof -
  have "map (\<lambda>n. type_rank (the (mget m n))) (orderInterfaces m) =
      concat (map (\<lambda>k. replicate (length (filter (\<lambda>(_, i). type_rank i = k) m)) k) [0, 1, 2, 3])"
    unfolding orderInterfaces_filter map_concat by (simp only: map_map comp_def list.map rank_block [OF assms, unfolded map_map comp_def])
  then show ?thesis by (simp only:) (rule sorted_concat_replicate, simp)
qed

lemma orderInterfaces_mset: "mset (orderInterfaces m) = mset (mkeys m)"
proof -
  have "[0, 1, 2, 3] = [0..<4::nat]" by (simp add: upt_rec)
  moreover have "type_rank i < 4" for i using type_rank_bound [of i] by auto
  ultimately show ?thesis
    using ranked_mset [of type_rank 4 m] by (simp add: orderInterfaces_filter mkeys_def)
qed

section \<open>Plugins\<close>

text \<open>
  The depth-first search. \<open>enabled\<close> is the list of enabled plugins, \<open>deps\<close> the dependencies of a
  plugin. Recursion goes through the dependency loop; \<open>fuel\<close> bounds its depth and \<^const>\<open>None\<close> stands for a
  search that needs more.
\<close>

record dfs =
  d_sorted :: "string list"
  d_visited :: "(string, bool) gomap"
  d_temp :: "(string, bool) gomap"

definition flag :: "(string, bool) gomap \<Rightarrow> string \<Rightarrow> bool" where
  "flag m k \<longleftrightarrow> mget m k = Some True"

function visit :: "nat \<Rightarrow> (string \<Rightarrow> string list) \<Rightarrow> string list \<Rightarrow> string \<Rightarrow> dfs \<Rightarrow> (dfs \<times> bool) option"
  and visit_deps :: "nat \<Rightarrow> (string \<Rightarrow> string list) \<Rightarrow> string list \<Rightarrow> string list \<Rightarrow> dfs \<Rightarrow> dfs option" where
  "visit 0 deps enabled name s = None"
| "visit (Suc n) deps enabled name s =
     (if flag (d_temp s) name then Some (s, False)
      else if flag (d_visited s) name then Some (s, True)
      else
        (case visit_deps n deps enabled (deps name) (s\<lparr>d_temp := mput name True (d_temp s)\<rparr>) of
           None \<Rightarrow> None
         | Some s' \<Rightarrow>
             Some (s'\<lparr>d_temp := mput name False (d_temp s'), d_visited := mput name True (d_visited s'),
                      d_sorted := d_sorted s' @ [name]\<rparr>, True)))"
| "visit_deps n deps enabled [] s = Some s"
| "visit_deps n deps enabled (dep # rest) s =
     (if list_ex (\<lambda>e. e = dep) enabled then
        (case visit n deps enabled dep s of
           None \<Rightarrow> None
         | Some (s', _) \<Rightarrow> visit_deps n deps enabled rest s')
      else visit_deps n deps enabled rest s)"
  by pat_completeness auto
termination
  by (relation "measures [\<lambda>a. case a of Inl (n, _) \<Rightarrow> n | Inr (n, _) \<Rightarrow> n,
       \<lambda>a. case a of Inl _ \<Rightarrow> 0 | Inr (_, _, _, ds, _) \<Rightarrow> Suc (length ds)]") auto

fun visit_all :: "nat \<Rightarrow> (string \<Rightarrow> string list) \<Rightarrow> string list \<Rightarrow> string list \<Rightarrow> dfs \<Rightarrow> dfs option" where
  "visit_all n deps enabled [] s = Some s"
| "visit_all n deps enabled (name # rest) s =
     (if \<not> flag (d_visited s) name then
        (case visit n deps enabled name s of
           None \<Rightarrow> None
         | Some (s', _) \<Rightarrow> visit_all n deps enabled rest s')
      else visit_all n deps enabled rest s)"

text \<open>
  \<open>orderPluginsByDependencies\<close>; \<open>load\<close> is \<open>LoadPlugin\<close>, whose failure leaves a plugin without
  dependencies. The fuel is one more than the number of enabled plugins.
\<close>

definition enabled_of :: "(string, PluginState) gomap \<Rightarrow> string list" where
  "enabled_of cfg = map fst (filter (\<lambda>(_, ps). ps_Enabled ps) cfg)"

definition deps_of :: "(string \<Rightarrow> Plugin outcome) \<Rightarrow> string \<Rightarrow> string list" where
  "deps_of load name = (case load name of Ok p \<Rightarrow> pm_Dependencies (pl_Metadata p) | _ \<Rightarrow> [])"

definition orderPluginsByDependencies :: "(string \<Rightarrow> Plugin outcome) \<Rightarrow> (string, PluginState) gomap \<Rightarrow> string list option" where
  "orderPluginsByDependencies load cfg =
     (let enabled = enabled_of cfg in
      map_option d_sorted
        (visit_all (Suc (length enabled)) (deps_of load) enabled enabled
           \<lparr>d_sorted = [], d_visited = [], d_temp = []\<rparr>))"

section \<open>Correctness of the search\<close>

definition marks :: "dfs \<Rightarrow> string set" where
  "marks s = {k. flag (d_temp s) k}"

definition dfs_ok :: "string list \<Rightarrow> dfs \<Rightarrow> bool" where
  "dfs_ok enabled s \<longleftrightarrow>
     distinct (d_sorted s) \<and> set (d_sorted s) \<subseteq> set enabled \<and>
     (\<forall>k. flag (d_visited s) k = (k \<in> set (d_sorted s))) \<and> marks s \<inter> set (d_sorted s) = {}"

text \<open>Every plugin of the list comes after the enabled plugins it depends on.\<close>

definition deps_first :: "(string \<Rightarrow> string list) \<Rightarrow> string list \<Rightarrow> string list \<Rightarrow> bool" where
  "deps_first deps enabled xs \<longleftrightarrow>
     (\<forall>i < length xs. \<forall>d \<in> set (deps (xs ! i)). d \<in> set enabled \<longrightarrow> d \<in> set (take i xs))"

text \<open>Dependencies between enabled plugins have no cycle: they go down in some ranking.\<close>

definition ranked :: "(string \<Rightarrow> nat) \<Rightarrow> (string \<Rightarrow> string list) \<Rightarrow> string list \<Rightarrow> bool" where
  "ranked rank deps enabled \<longleftrightarrow>
     (\<forall>p \<in> set enabled. \<forall>d \<in> set (deps p). d \<in> set enabled \<longrightarrow> rank d < rank p)"

lemma flag_mput: "flag (mput k b m) k' = (if k' = k then b else flag m k')"
  by (simp add: flag_def gomap_simps)

lemma marks_simps:
  "marks (s\<lparr>d_temp := mput k True t\<rparr>) = insert k {x. flag t x}"
  "marks (s\<lparr>d_temp := mput k False t, d_visited := v, d_sorted := xs\<rparr>) = {x. flag t x} - {k}"
  by (auto simp: marks_def flag_mput)

lemma deps_first_snoc:
  "deps_first deps en (xs @ [x]) \<longleftrightarrow>
     deps_first deps en xs \<and> (\<forall>d \<in> set (deps x). d \<in> set en \<longrightarrow> d \<in> set xs)"
  by (auto simp: deps_first_def nth_append less_Suc_eq)

text \<open>What one call promises, for the plugin and for the loop over its dependencies.\<close>

definition visit_post :: "(string \<Rightarrow> nat) \<Rightarrow> (string \<Rightarrow> string list) \<Rightarrow> string list \<Rightarrow> string set \<Rightarrow> dfs \<Rightarrow> dfs \<Rightarrow> bool" where
  "visit_post rank deps en names s s' \<longleftrightarrow>
     dfs_ok en s' \<and> marks s' = marks s \<and> set (d_sorted s) \<subseteq> set (d_sorted s') \<and>
     names \<subseteq> marks s \<union> set (d_sorted s') \<and>
     (ranked rank deps en \<longrightarrow> deps_first deps en (d_sorted s) \<longrightarrow>
        (\<forall>n \<in> names. \<forall>t \<in> marks s. rank n < rank t) \<longrightarrow> deps_first deps en (d_sorted s'))"

lemma visit_step:
  assumes "dfs_ok en s" and "name \<in> set en" and "name \<notin> marks s" and "name \<notin> set (d_sorted s)"
    and post: "visit_post rank deps en (set (deps name) \<inter> set en) (s\<lparr>d_temp := mput name True (d_temp s)\<rparr>) s'"
  shows "visit_post rank deps en {name} s
    (s'\<lparr>d_temp := mput name False (d_temp s'), d_visited := mput name True (d_visited s'),
        d_sorted := d_sorted s' @ [name]\<rparr>)"
proof -
  have m: "marks (s\<lparr>d_temp := mput name True (d_temp s)\<rparr>) = insert name (marks s)"
    by (simp add: marks_simps) (simp add: marks_def)
  from post m have ok': "dfs_ok en s'" and marks': "marks s' = insert name (marks s)"
    and sub: "set (d_sorted s) \<subseteq> set (d_sorted s')"
    and deps: "set (deps name) \<inter> set en \<subseteq> insert name (marks s) \<union> set (d_sorted s')"
    by (auto simp: visit_post_def)
  let ?s = "s'\<lparr>d_temp := mput name False (d_temp s'), d_visited := mput name True (d_visited s'),
        d_sorted := d_sorted s' @ [name]\<rparr>"
  have mk: "marks ?s = marks s"
  proof -
    have "marks ?s = marks s' - {name}" by (auto simp: marks_def flag_mput)
    with marks' assms(3) show ?thesis by simp
  qed
  have fresh: "name \<notin> set (d_sorted s')" using ok' marks' by (auto simp: dfs_ok_def)
  with ok' marks' mk assms(2,3) have "dfs_ok en ?s"
    by (auto simp: dfs_ok_def flag_mput)
  moreover have "deps_first deps en (d_sorted s' @ [name])"
    if r: "ranked rank deps en" "deps_first deps en (d_sorted s)" "\<forall>t \<in> marks s. rank name < rank t"
  proof -
    have low: "rank d < rank name" if "d \<in> set (deps name) \<inter> set en" for d
      using that r(1) assms(2) by (auto simp: ranked_def)
    then have "\<forall>d \<in> set (deps name) \<inter> set en. \<forall>t \<in> insert name (marks s). rank d < rank t"
      using r(3) by fastforce
    then have "deps_first deps en (d_sorted s')"
      using post r m by (simp add: visit_post_def)
    moreover have "d \<in> set (d_sorted s')" if "d \<in> set (deps name)" "d \<in> set en" for d
      using that deps low r(3) by fastforce
    ultimately show ?thesis by (simp add: deps_first_snoc)
  qed
  ultimately show ?thesis using mk sub by (auto simp: visit_post_def)
qed

lemma visit_post_refl:
  "dfs_ok en s \<Longrightarrow> names \<subseteq> marks s \<union> set (d_sorted s) \<Longrightarrow> visit_post rank deps en names s s"
  by (simp add: visit_post_def)

lemma visit_post_trans:
  "visit_post rank deps en a s s1 \<Longrightarrow> visit_post rank deps en b s1 s2 \<Longrightarrow> visit_post rank deps en (a \<union> b) s s2"
  unfolding visit_post_def by blast

lemma visit_correct:
  "dfs_ok en s \<Longrightarrow> name \<in> set en \<Longrightarrow> card (set en - marks s) < n \<Longrightarrow>
     \<exists>s' b. visit n deps en name s = Some (s', b) \<and> visit_post rank deps en {name} s s'"
  "dfs_ok en s \<Longrightarrow> card (set en - marks s) < n \<Longrightarrow>
     \<exists>s'. visit_deps n deps en ds s = Some s' \<and> visit_post rank deps en (set ds \<inter> set en) s s'"
proof (induction n deps en name s and n deps en ds s rule: visit_visit_deps.induct)
  case (1 deps en name s)
  then show ?case by simp
next
  case (2 n deps en name s)
  consider "name \<in> marks s" | "name \<notin> marks s" "name \<in> set (d_sorted s)"
    | "name \<notin> marks s" "name \<notin> set (d_sorted s)" by blast
  then show ?case
  proof cases
    case 1
    then have "visit (Suc n) deps en name s = Some (s, False)" by (simp add: marks_def)
    moreover have "visit_post rank deps en {name} s s"
      using 1 "2.prems"(1) by (intro visit_post_refl) auto
    ultimately show ?thesis by blast
  next
    case 2
    then have "visit (Suc n) deps en name s = Some (s, True)"
      using "2.prems"(1) by (simp add: marks_def dfs_ok_def)
    moreover have "visit_post rank deps en {name} s s"
      using 2 "2.prems"(1) by (intro visit_post_refl) auto
    ultimately show ?thesis by blast
  next
    case 3
    let ?s = "s\<lparr>d_temp := mput name True (d_temp s)\<rparr>"
    have nt: "\<not> flag (d_temp s) name" "\<not> flag (d_visited s) name"
      using 3 "2.prems" by (auto simp: marks_def dfs_ok_def)
    have m: "marks ?s = insert name (marks s)" by (simp add: marks_simps) (simp add: marks_def)
    have "dfs_ok en ?s" using "2.prems" 3 by (auto simp: dfs_ok_def m)
    moreover have "card (set en - marks ?s) < n"
    proof -
      have "set en - marks ?s = set en - marks s - {name}" unfolding m by blast
      moreover have "card (set en - marks s - {name}) < card (set en - marks s)"
        using "2.prems"(2) 3 by (intro card_Diff1_less) auto
      ultimately show ?thesis using "2.prems"(3) by simp
    qed
    ultimately obtain s' where s': "visit_deps n deps en (deps name) ?s = Some s'"
      "visit_post rank deps en (set (deps name) \<inter> set en) ?s s'"
      using "2.IH" nt by blast
    with nt visit_step [OF "2.prems"(1,2) 3 s'(2)] show ?thesis by auto
  qed
next
  case (3 n deps en s)
  then show ?case by (auto intro: visit_post_refl)
next
  case (4 n deps en dep rest s)
  show ?case
  proof (cases "dep \<in> set en")
    case False
    then have "\<not> list_ex (\<lambda>e. e = dep) en" by (auto simp: list_ex_iff)
    with 4 False show ?thesis by auto
  next
    case True
    then have ex: "list_ex (\<lambda>e. e = dep) en" by (auto simp: list_ex_iff)
    with 4 True obtain s1 b where s1: "visit n deps en dep s = Some (s1, b)" "visit_post rank deps en {dep} s s1"
      by blast
    then have "dfs_ok en s1" "marks s1 = marks s" by (auto simp: visit_post_def)
    with 4 ex s1 obtain s2 where s2: "visit_deps n deps en rest s1 = Some s2"
      "visit_post rank deps en (set rest \<inter> set en) s1 s2" by fastforce
    have "set (dep # rest) \<inter> set en = {dep} \<union> (set rest \<inter> set en)" using True by auto
    with ex s1 s2 visit_post_trans [OF s1(2) s2(2)] show ?thesis by auto
  qed
qed

lemma visit_all_correct:
  assumes "dfs_ok en s" and "marks s = {}" and "card (set en) < n" and "set names \<subseteq> set en"
  shows "\<exists>s'. visit_all n deps en names s = Some s' \<and> visit_post rank deps en (set names) s s'"
  using assms
proof (induction names arbitrary: s)
  case Nil
  then show ?case by (simp add: visit_post_refl)
next
  case (Cons name names)
  show ?case
  proof (cases "name \<in> set (d_sorted s)")
    case True
    with Cons.prems have "flag (d_visited s) name" by (simp add: dfs_ok_def)
    moreover obtain s' where "visit_all n deps en names s = Some s'" "visit_post rank deps en (set names) s s'"
      using Cons.IH [of s] Cons.prems by auto
    ultimately show ?thesis using True by (auto simp: visit_post_def)
  next
    case False
    with Cons.prems have nv: "\<not> flag (d_visited s) name" by (simp add: dfs_ok_def)
    have "name \<in> set en" "card (set en - marks s) < n" using Cons.prems by auto
    then obtain s1 b where s1: "visit n deps en name s = Some (s1, b)" "visit_post rank deps en {name} s s1"
      using visit_correct(1) [OF Cons.prems(1)] by blast
    then have "dfs_ok en s1" "marks s1 = {}" using Cons.prems(2) by (auto simp: visit_post_def)
    then obtain s2 where s2: "visit_all n deps en names s1 = Some s2" "visit_post rank deps en (set names) s1 s2"
      using Cons.IH [of s1] Cons.prems by auto
    from visit_post_trans [OF s1(2) s2(2)] s1(1) s2(1) nv show ?thesis by simp
  qed
qed

lemma order_correct:
  assumes "mwf cfg"
  shows "\<exists>xs. orderPluginsByDependencies load cfg = Some xs \<and> distinct xs \<and> set xs = set (enabled_of cfg) \<and>
     (ranked rank (deps_of load) (enabled_of cfg) \<longrightarrow> deps_first (deps_of load) (enabled_of cfg) xs)"
proof -
  let ?en = "enabled_of cfg" and ?s = "\<lparr>d_sorted = [], d_visited = [], d_temp = []\<rparr> :: dfs"
  have ok: "dfs_ok ?en ?s" and m: "marks ?s = {}" by (simp_all add: dfs_ok_def marks_def flag_def)
  have "card (set ?en) < Suc (length ?en)" using card_length [of ?en] by simp
  then obtain s' where s': "visit_all (Suc (length ?en)) (deps_of load) ?en ?en ?s = Some s'"
    "visit_post rank (deps_of load) ?en (set ?en) ?s s'"
    using visit_all_correct [OF ok m] by blast
  moreover have "deps_first (deps_of load) ?en []" by (simp add: deps_first_def)
  ultimately show ?thesis
    using m by (auto simp: orderPluginsByDependencies_def visit_post_def dfs_ok_def Let_def)
qed

section \<open>Properties\<close>

text \<open>
  The order in which interfaces are applied contains every interface exactly
  once, physical devices first, then bridges, then VLANs, then all other types.
\<close>

theorem interface_order:
  assumes "mwf m"
  shows "mset (orderInterfaces m) = mset (mkeys m) \<and>
         sorted (map (\<lambda>n. type_rank (the (mget m n))) (orderInterfaces m))"
  using orderInterfaces_mset orderInterfaces_sorted [OF assms] by blast

text \<open>
  C10 (plugin_order): the search always ends, within a recursion depth of one more than the number
  of enabled plugins, and lists every enabled plugin exactly once, whatever cycles the declared
  dependencies have. When they have none, every plugin comes after the enabled plugins it depends on.
\<close>

theorem plugin_order:
  assumes "mwf cfg"
  shows "\<exists>xs. orderPluginsByDependencies load cfg = Some xs \<and> mset xs = mset (enabled_of cfg) \<and>
     (ranked rank (deps_of load) (enabled_of cfg) \<longrightarrow> deps_first (deps_of load) (enabled_of cfg) xs)"
proof -
  have "distinct (enabled_of cfg)"
    using assms by (simp add: enabled_of_def mwf_def distinct_map_filter)
  with order_correct [OF assms, of load rank] show ?thesis
    by (metis set_eq_iff_mset_eq_distinct)
qed

definition ex_load :: "string \<Rightarrow> Plugin outcome" where
  "ex_load n =
     Ok \<lparr>pl_Metadata = \<lparr>pm_Namespace = n, pm_Version = [], pm_Description = [], pm_Category = [],
          pm_ConfigPath = [], pm_DefaultConfig = None,
          pm_Dependencies = (if n = ''a'' then [''b'', ''x''] else []), pm_PathPrefix = []\<rparr>,
        pl_services = [], pl_required = [], pl_ValidateConfig = (\<lambda>_. None), pl_ApplyConfig = (\<lambda>_. None),
        pl_Flush = None, pl_Close = None\<rparr>"

definition ex_plugins :: "(string, PluginState) gomap" where
  "ex_plugins = [(''a'', \<lparr>ps_Version = [], ps_Enabled = True\<rparr>), (''b'', \<lparr>ps_Version = [], ps_Enabled = True\<rparr>)]"

theorem plugin_order_witness:
  "\<exists>xs. orderPluginsByDependencies ex_load ex_plugins = Some xs \<and>
        deps_first (deps_of ex_load) (enabled_of ex_plugins) xs"
proof -
  have "mwf ex_plugins" by (simp add: mwf_def ex_plugins_def)
  moreover have "ranked (\<lambda>n. if n = ''a'' then 1 else 0) (deps_of ex_load) (enabled_of ex_plugins)"
    by (simp add: ranked_def deps_of_def ex_load_def enabled_of_def ex_plugins_def)
  ultimately show ?thesis
    using plugin_order [of ex_plugins ex_load "\<lambda>n. if n = ''a'' then 1 else 0"] by blast
qed

end
