(* ===== verification/Plugin_Loading.thy ===== *)
theory Plugin_Loading
  imports Plugin_Order Server_Config
begin

text \<open>
  The plugin lifecycle: loading at start-up in waves of ready services (\<open>loadPlugins\<close>), and the
  enable, disable and rescan commands of \<open>src/daemon/server.go\<close> with the helpers of
  \<open>src/daemon/loader.go\<close>. \<open>load\<close> stands for \<open>LoadPlugin\<close>, which starts the binary of a plugin and asks for
  its metadata; every plugin it returns is a \<open>PluginLoader\<close>. \<open>sv_trace\<close> records the calls to the plugin a
  handler keeps or fails to register; the processes started only to read metadata and closed at once
  leave no trace in it.
\<close>

section \<open>Loading one plugin\<close>

text \<open>The verb \<open>%v\<close> on a slice of strings.\<close>

definition bracketed :: "string list \<Rightarrow> string" where
  "bracketed xs = ''['' @ join_with '' '' xs @ '']''"

text \<open>The process of a plugin that could not be registered is closed again.\<close>

definition closed :: "string \<Rightarrow> Server \<Rightarrow> Server" where
  "closed ns sv = sv\<lparr>sv_trace := sv_trace sv @ [PClose ns]\<rparr>"

definition set_plugin_state :: "string \<Rightarrow> PluginState \<Rightarrow> JackConfig \<Rightarrow> JackConfig outcome" where
  "set_plugin_state name ps jc =
     obind (map_assign (jc_Plugins jc) name ps) (\<lambda>m. Ok (jc\<lparr>jc_Plugins := m\<rparr>))"

definition plugin_state_of :: "JackConfig \<Rightarrow> string \<Rightarrow> PluginState" where
  "plugin_state_of jc name =
     (case map_lookup (jc_Plugins jc) name of
        None \<Rightarrow> \<lparr>ps_Version = [], ps_Enabled = False\<rparr>
      | Some ps \<Rightarrow> ps)"

text \<open>The configuration a plugin starts with: its file, or its defaults, or the empty map.\<close>

definition initial_config :: "Server \<Rightarrow> string \<Rightarrow> PluginMetadata \<Rightarrow> (string, json) gomap option" where
  "initial_config sv name metadata =
     (case (case LoadConfig (sv_dir sv) (sv_files sv) name of
              Loaded v \<Rightarrow> dec_generic v | NotExist e \<Rightarrow> Err e | BadFile e \<Rightarrow> Err e) of
        Ok c \<Rightarrow> c
      | _ \<Rightarrow> (case pm_DefaultConfig metadata of Some d \<Rightarrow> Some d | None \<Rightarrow> Some []))"

definition mark_ready :: "string list \<Rightarrow> ServiceRegistry \<Rightarrow> ServiceRegistry outcome" where
  "mark_ready services r = ofold MarkServiceReady services r"

definition loadSinglePlugin ::
  "(string \<Rightarrow> Plugin outcome) \<Rightarrow> string \<Rightarrow> JackConfig \<times> Server \<Rightarrow> ((JackConfig \<times> Server) \<times> goerror) outcome" where
  "loadSinglePlugin load name js =
     (case js of (jc, sv) \<Rightarrow>
      case load name of
        Panic \<Rightarrow> Panic
      | Err e \<Rightarrow> Ok ((jc, sv), Some (''failed to load plugin: '' @ e))
      | Ok plugin \<Rightarrow>
          (let metadata = pl_Metadata plugin; ns = pm_Namespace metadata in
           obind (set_plugin_state name ((plugin_state_of jc name)\<lparr>ps_Version := pm_Version metadata\<rparr>) jc) (\<lambda>jc'.
           case Register plugin name (sv_registry sv) of
             (reg, Some e) \<Rightarrow> Ok ((jc', closed ns sv), Some (''failed to register plugin: '' @ e))
           | (reg, None) \<Rightarrow>
               (case RegisterPlugin ns plugin (pl_services plugin) (sv_services sv) of
                  (sr, Some e) \<Rightarrow>
                    Ok ((jc', closed ns (sv\<lparr>sv_registry := Unregister ns reg, sv_services := sr\<rparr>)),
                        Some (''failed to register plugin services: '' @ e))
                | (sr, None) \<Rightarrow>
                    (let cfg = initial_config sv name metadata;
                         sv1 = sv\<lparr>sv_registry := reg, sv_services := sr,
                                  sv_state := LoadCommitted ns (Some (CMap cfg)) (sv_state sv)\<rparr> in
                     if length (entries cfg) > 0 then
                       (let sv2 = sv1\<lparr>sv_trace := sv_trace sv1 @ [PApply ns (enc_config (CMap cfg))]\<rparr> in
                        case pl_ApplyConfig plugin (Some (CMap cfg)) of
                          Some e \<Rightarrow> Ok ((jc', sv2), Some (''failed to apply plugin config: '' @ e))
                        | None \<Rightarrow>
                            obind (mark_ready (pl_services plugin) sr) (\<lambda>sr'.
                              Ok ((jc', sv2\<lparr>sv_services := sr'\<rparr>), None)))
                     else Ok ((jc', sv1), None))))))"

section \<open>Waves\<close>

definition canLoadPlugin :: "(string \<Rightarrow> Plugin outcome) \<Rightarrow> Server \<Rightarrow> string \<Rightarrow> bool" where
  "canLoadPlugin load sv name =
     (case load name of
        Ok plugin \<Rightarrow>
          if pl_required plugin = [] then True
          else AreServicesReady (sv_services sv) (pl_required plugin)
      | _ \<Rightarrow> False)"

record load_state =
  ls_loaded :: "string list"
  ls_jack :: JackConfig
  ls_server :: Server

text \<open>
  One wave over the enabled plugins; the number counts the plugins loaded in it. A plugin that
  fails to load is marked as loaded but not counted. \<open>ls_loaded\<close> lists the keys of the source's map.
\<close>

fun wave :: "(string \<Rightarrow> Plugin outcome) \<Rightarrow> string list \<Rightarrow> load_state \<Rightarrow> nat \<Rightarrow> (load_state \<times> nat) outcome" where
  "wave load [] ls n = Ok (ls, n)"
| "wave load (name # rest) ls n =
     (if name \<in> set (ls_loaded ls) then wave load rest ls n
      else if \<not> canLoadPlugin load (ls_server ls) name then wave load rest ls n
      else
        (case loadSinglePlugin load name (ls_jack ls, ls_server ls) of
           Panic \<Rightarrow> Panic
         | Err e \<Rightarrow> Err e
         | Ok ((jc, sv), err) \<Rightarrow>
             wave load rest (ls\<lparr>ls_loaded := ls_loaded ls @ [name], ls_jack := jc, ls_server := sv\<rparr>)
               (if err = None then Suc n else n)))"

text \<open>The loop over waves; \<^const>\<open>None\<close> when the fuel, the number of waves, does not suffice.\<close>

fun waves :: "nat \<Rightarrow> (string \<Rightarrow> Plugin outcome) \<Rightarrow> string list \<Rightarrow> load_state \<Rightarrow> load_state outcome option" where
  "waves fuel load enabled ls =
     (if length (ls_loaded ls) \<ge> length enabled then Some (Ok ls)
      else
        (case fuel of
           0 \<Rightarrow> None
         | Suc k \<Rightarrow>
             (case wave load enabled ls 0 of
                Panic \<Rightarrow> Some Panic
              | Err e \<Rightarrow> Some (Err e)
              | Ok (ls', n) \<Rightarrow>
                  (if n = 0 \<and> filter (\<lambda>name. name \<notin> set (ls_loaded ls')) enabled \<noteq> [] then Some (Ok ls')
                   else waves k load enabled ls'))))"

declare waves.simps [simp del]

definition loadPlugins ::
  "(string \<Rightarrow> Plugin outcome) \<Rightarrow> string \<Rightarrow> save_fault \<Rightarrow> Server \<Rightarrow> (Server \<times> goerror) outcome option" where
  "loadPlugins load stamp fault sv =
     (case LoadJackConfig (sv_dir sv) (sv_files sv) of
        Panic \<Rightarrow> Some Panic
      | Err e \<Rightarrow> Some (Ok (sv, Some (''failed to load Jack config: '' @ e)))
      | Ok jc \<Rightarrow>
          (let enabled = enabled_of (entries (jc_Plugins jc)) in
           case waves (length enabled) load enabled \<lparr>ls_loaded = [], ls_jack = jc, ls_server = sv\<rparr> of
             None \<Rightarrow> None
           | Some Panic \<Rightarrow> Some Panic
           | Some (Err e) \<Rightarrow> Some (Err e)
           | Some (Ok ls) \<Rightarrow>
               (let sv1 = ls_server ls;
                    (files, _) = SaveJackConfig (sv_dir sv1) stamp fault (ls_jack ls) (sv_files sv1)
                in Some (Ok (sv1\<lparr>sv_files := files,
                               sv_state := LoadCommittedJackConfig (ls_jack ls) (sv_state sv1)\<rparr>, None)))))"

section \<open>Enable, disable, rescan\<close>

definition save_jack :: "string \<Rightarrow> save_fault \<Rightarrow> JackConfig \<Rightarrow> Response \<Rightarrow> Server \<Rightarrow> Server \<times> Response" where
  "save_jack stamp fault jc r sv =
     (case SaveJackConfig (sv_dir sv) stamp fault jc (sv_files sv) of
        (files, Some e) \<Rightarrow> (sv\<lparr>sv_files := files\<rparr>, fail (''failed to save config: '' @ e))
      | (files, None) \<Rightarrow> (sv\<lparr>sv_files := files\<rparr>, r))"

text \<open>
  The configuration sent when a plugin is enabled: the decoded file, whatever its shape, or the
  default. The answer of the plugin is only logged.
\<close>

definition enable_apply :: "Server \<Rightarrow> string \<Rightarrow> PluginMetadata \<Rightarrow> pcall list" where
  "enable_apply sv pluginName metadata =
     (case LoadConfig (sv_dir sv) (sv_files sv) pluginName of
        Loaded v \<Rightarrow> [PApply (pm_Namespace metadata) v]
      | _ \<Rightarrow>
          (case pm_DefaultConfig metadata of
             Some d \<Rightarrow> [PApply (pm_Namespace metadata) (marshal (JObj d))]
           | None \<Rightarrow> []))"

definition handlePluginEnable ::
  "(string \<Rightarrow> Plugin outcome) \<Rightarrow> string \<Rightarrow> save_fault \<Rightarrow> string \<Rightarrow> Server \<Rightarrow> (Server \<times> Response) outcome" where
  "handlePluginEnable load stamp fault pluginName sv =
     (if pluginName = '''' then Ok (sv, fail ''plugin name required'')
      else
        (case LoadJackConfig (sv_dir sv) (sv_files sv) of
           Panic \<Rightarrow> Panic
         | Err e \<Rightarrow> Ok (sv, fail (''failed to load config: '' @ e))
         | Ok jc \<Rightarrow>
             (if (case map_lookup (jc_Plugins jc) pluginName of
                    Some ps \<Rightarrow> ps_Enabled ps \<and> IsRegistered (sv_registry sv) (ps_Version ps)
                  | None \<Rightarrow> False)
              then Ok (sv, fail (''plugin '' @ quoted pluginName @ '' is already enabled''))
              else
                (case load pluginName of
                   Panic \<Rightarrow> Panic
                 | Err e \<Rightarrow> Ok (sv, fail (''failed to load plugin: '' @ e))
                 | Ok plugin \<Rightarrow>
                     (let metadata = pl_Metadata plugin; ns = pm_Namespace metadata in
                      case Register plugin pluginName (sv_registry sv) of
                        (reg, Some e) \<Rightarrow> Ok (closed ns sv, fail (''failed to register plugin: '' @ e))
                      | (reg, None) \<Rightarrow>
                          (case RegisterPlugin ns plugin (pl_services plugin) (sv_services sv) of
                             (sr, Some e) \<Rightarrow>
                               Ok (closed ns (sv\<lparr>sv_registry := Unregister ns reg, sv_services := sr\<rparr>),
                                   fail (''failed to register plugin services: '' @ e))
                           | (sr, None) \<Rightarrow>
                               (let sv1 = sv\<lparr>sv_registry := reg, sv_services := sr,
                                             sv_trace := sv_trace sv @ enable_apply sv pluginName metadata\<rparr> in
                                obind (set_plugin_state pluginName
                                         \<lparr>ps_Version = pm_Version metadata, ps_Enabled = True\<rparr> jc) (\<lambda>jc'.
                                Ok (save_jack stamp fault jc'
                                      (okay DNone (''Plugin '' @ quoted pluginName @ '' enabled successfully'')) sv1)))))))))"

definition CheckDependencies :: "string \<Rightarrow> PluginRegistry \<Rightarrow> goerror" where
  "CheckDependencies pluginToDisable reg =
     (let dependents = concat (map (\<lambda>(name, plugin).
            map (\<lambda>_. name) (filter (\<lambda>dep. dep = pluginToDisable) (pm_Dependencies (pl_Metadata plugin)))) (GetAll reg)) in
      if length dependents > 0 then
        Some (''cannot disable plugin '' @ quoted pluginToDisable @ '': it is required by: '' @ bracketed dependents)
      else None)"

definition UnloadPlugin :: "Plugin \<Rightarrow> string \<Rightarrow> pcall list \<times> goerror" where
  "UnloadPlugin plugin namespace =
     (case pl_Flush plugin of
        Some e \<Rightarrow> ([PFlush namespace], Some (''failed to flush plugin '' @ quoted namespace @ '': '' @ e))
      | None \<Rightarrow>
          (case pl_Close plugin of
             Some e \<Rightarrow> ([PFlush namespace, PClose namespace],
                        Some (''failed to close plugin '' @ quoted namespace @ '': '' @ e))
           | None \<Rightarrow> ([PFlush namespace, PClose namespace], None)))"

definition handlePluginDisable ::
  "string \<Rightarrow> save_fault \<Rightarrow> string \<Rightarrow> Server \<Rightarrow> (Server \<times> Response) outcome" where
  "handlePluginDisable stamp fault pluginName sv =
     (if pluginName = '''' then Ok (sv, fail ''plugin name required'')
      else
        (case LoadJackConfig (sv_dir sv) (sv_files sv) of
           Panic \<Rightarrow> Panic
         | Err e \<Rightarrow> Ok (sv, fail (''failed to load config: '' @ e))
         | Ok jc \<Rightarrow>
             (case map_lookup (jc_Plugins jc) pluginName of
                None \<Rightarrow> Ok (sv, fail (''plugin '' @ quoted pluginName @ '' not found in configuration''))
              | Some ps \<Rightarrow>
                  if \<not> ps_Enabled ps then
                    Ok (sv, fail (''plugin '' @ quoted pluginName @ '' is already disabled''))
                  else
                    (case CheckDependencies pluginName (sv_registry sv) of
                       Some e \<Rightarrow> Ok (sv, fail e)
                     | None \<Rightarrow>
                         (case GetNamespaceForPlugin (sv_registry sv) pluginName of
                            None \<Rightarrow>
                              obind (set_plugin_state pluginName (ps\<lparr>ps_Enabled := False\<rparr>) jc) (\<lambda>jc'.
                              Ok (save_jack stamp fault jc'
                                    (okay DNone (''Plugin '' @ quoted pluginName @ '' disabled (was not loaded)'')) sv))
                          | Some namespace \<Rightarrow>
                              (case Registry_Get (sv_registry sv) namespace of
                                 None \<Rightarrow> Ok (sv, fail (''plugin '' @ quoted pluginName @ '' not found in registry''))
                               | Some plugin \<Rightarrow>
                                   (case UnloadPlugin plugin namespace of
                                      (calls, Some e) \<Rightarrow>
                                        Ok (sv\<lparr>sv_trace := sv_trace sv @ calls\<rparr>,
                                            fail (''failed to unload plugin: '' @ e))
                                    | (calls, None) \<Rightarrow>
                                        obind (UnregisterPlugin namespace (sv_services sv)) (\<lambda>sr.
                                        obind (set_plugin_state pluginName (ps\<lparr>ps_Enabled := False\<rparr>) jc) (\<lambda>jc'.
                                        Ok (save_jack stamp fault jc'
                                              (okay DNone (''Plugin '' @ quoted pluginName @ '' disabled successfully''))
                                              (sv\<lparr>sv_trace := sv_trace sv @ calls,
                                                  sv_registry := Unregister namespace (sv_registry sv),
                                                  sv_services := sr\<rparr>)))))))))))"

text \<open>\<open>available\<close> is the outcome of \<open>ListPlugins\<close>, the names of the installed binaries.\<close>

definition ScanPlugins :: "(string \<Rightarrow> Plugin outcome) \<Rightarrow> string list \<Rightarrow> (string, PluginMetadata) gomap" where
  "ScanPlugins load available =
     foldl (\<lambda>m name. case load name of Ok p \<Rightarrow> mput name (pl_Metadata p) m | _ \<Rightarrow> m) [] available"

fun add_new :: "(string \<times> PluginMetadata) list \<Rightarrow> JackConfig \<Rightarrow> string list \<Rightarrow> (JackConfig \<times> string list) outcome" where
  "add_new [] jc new = Ok (jc, new)"
| "add_new ((name, metadata) # rest) jc new =
     (if map_lookup (jc_Plugins jc) name = None then
        obind (set_plugin_state name \<lparr>ps_Version = pm_Version metadata, ps_Enabled = False\<rparr> jc) (\<lambda>jc'.
          add_new rest jc' (new @ [name]))
      else add_new rest jc new)"

definition handlePluginRescan ::
  "(string \<Rightarrow> Plugin outcome) \<Rightarrow> string list outcome \<Rightarrow> string \<Rightarrow> save_fault \<Rightarrow> Server \<Rightarrow> (Server \<times> Response) outcome" where
  "handlePluginRescan load available stamp fault sv =
     (case available of
        Panic \<Rightarrow> Panic
      | Err e \<Rightarrow> Ok (sv, fail (''failed to scan plugins: failed to list plugins: '' @ e))
      | Ok names \<Rightarrow>
          (case LoadJackConfig (sv_dir sv) (sv_files sv) of
             Panic \<Rightarrow> Panic
           | Err e \<Rightarrow> Ok (sv, fail (''failed to load config: '' @ e))
           | Ok jc \<Rightarrow>
               obind (add_new (ScanPlugins load names) jc []) (\<lambda>(jc', new).
               if new = [] then Ok (sv, okay DNone ''No new plugins found'')
               else
                 Ok (save_jack stamp fault jc'
                       (okay (DNames new)
                         (''Added '' @ show_nat (length new) @ '' new plugin(s) as disabled: '' @ bracketed new)) sv))))"

end
