(* ===== verification/Observer.thy ===== *)
theory Observer
  imports State_Store
begin

text \<open>
  The network observer, \<open>src/daemon/observer.go\<close> and \<open>src/daemon/observer_helpers.go\<close>: it compares what
  netlink reports with the configuration and asks for a reconciliation when they differ, not
  more often than its interval and not within a second of a change made by the daemon itself.
  Times are in nanoseconds, as \<open>time.Duration\<close> counts them.
\<close>

unbundle bit_operations_syntax

section \<open>The observer\<close>

record Observer =
  ob_lastChange :: int
  ob_lastReconcile :: int
  ob_autoReconcile :: bool
  ob_reconcileInterval :: int

definition second :: int where
  "second = 1000000000"

definition NewNetworkObserver :: "State \<Rightarrow> int \<Rightarrow> Observer" where
  "NewNetworkObserver st now =
     (let (autoReconcile, reconcileInterval) =
        (case GetCurrentJackConfig st of
           None \<Rightarrow> (False, 60 * second)
         | Some jackConfig \<Rightarrow>
             (case jc_Observer jackConfig of
                None \<Rightarrow> (False, 60 * second)
              | Some oc \<Rightarrow>
                  (oc_AutoReconcile oc,
                   if oc_ReconcileIntervalMS oc > 0 then wrap64 (oc_ReconcileIntervalMS oc * 1000000)
                   else 60 * second)))
      in \<lparr>ob_lastChange = now - 2 * second, ob_lastReconcile = now - reconcileInterval,
          ob_autoReconcile = autoReconcile, ob_reconcileInterval = reconcileInterval\<rparr>)"

definition MarkChange :: "int \<Rightarrow> Observer \<Rightarrow> Observer" where
  "MarkChange now ob = ob\<lparr>ob_lastChange := now\<rparr>"

definition isRecentChange :: "int \<Rightarrow> Observer \<Rightarrow> bool" where
  "isRecentChange now ob \<longleftrightarrow> now - ob_lastChange ob < second"

text \<open>Whether a reconciliation is started, with the observer afterwards.\<close>

definition maybeReconcile :: "int \<Rightarrow> Observer \<Rightarrow> Observer \<times> bool" where
  "maybeReconcile now ob =
     (if \<not> ob_autoReconcile ob then (ob, False)
      else if now - ob_lastReconcile ob < ob_reconcileInterval ob then (ob, False)
      else (ob\<lparr>ob_lastReconcile := now\<rparr>, True))"

section \<open>Comparisons\<close>

definition findInterfaceByDevice :: "InterfacesConfig option \<Rightarrow> string \<Rightarrow> (Interface \<times> string) option" where
  "findInterfaceByDevice config deviceName =
     (case config of
        None \<Rightarrow> None
      | Some c \<Rightarrow>
          (case ic_Interfaces c of
             None \<Rightarrow> None
           | Some m \<Rightarrow>
               (case find (\<lambda>(name, iface). if_DeviceName iface = deviceName \<or> if_Device iface = deviceName) m of
                  None \<Rightarrow> None
                | Some (name, iface) \<Rightarrow> Some (iface, name))))"

definition compareLinkState :: "Interface \<Rightarrow> string \<Rightarrow> string \<Rightarrow> bool \<Rightarrow> int \<Rightarrow> string" where
  "compareLinkState desired configName actualName isUp actualMTU =
     (if if_Enabled desired \<and> \<not> isUp then
        ''Interface '' @ actualName @ '' ('' @ configName @ '') is down but should be up''
      else if \<not> if_Enabled desired \<and> isUp then
        ''Interface '' @ actualName @ '' ('' @ configName @ '') is up but should be down''
      else if if_MTU desired > 0 \<and> actualMTU \<noteq> if_MTU desired then
        ''Interface '' @ actualName @ '' ('' @ configName @ '') has MTU '' @ show_int actualMTU @
        '' but should have '' @ show_int (if_MTU desired)
      else '''')"

definition compareIPAddress :: "Interface \<Rightarrow> string \<Rightarrow> string \<Rightarrow> string \<Rightarrow> bool \<Rightarrow> string" where
  "compareIPAddress desired configName linkName ipAddr isNew =
     (if if_IPAddr desired \<noteq> '''' then
        (let desiredIP = split_on (CHR ''/'') (if_IPAddr desired) ! 0;
             actualIP = split_on (CHR ''/'') ipAddr ! 0 in
         if isNew \<and> actualIP \<noteq> desiredIP then
           ''Interface '' @ linkName @ '' ('' @ configName @ '') has unexpected IP '' @ actualIP @
           '' (expected '' @ desiredIP @ '')''
         else '''')
      else '''')"

record RouteData =
  rd_Dst :: string
  rd_Gw :: string
  rd_Table :: int

definition normal_dest :: "string \<Rightarrow> string" where
  "normal_dest s = (if s = ''default'' then ''0.0.0.0/0'' else s)"

text \<open>
  \<open>routeDestinationsMatch\<close>. Two networks print alike exactly when their masked bytes and their
  prefix length, counted in the 128 bits of the long form, agree.
\<close>

definition routeDestinationsMatch :: "string \<Rightarrow> string \<Rightarrow> bool" where
  "routeDestinationsMatch actual0 desired0 =
     (let actual = normal_dest actual0; desired = normal_dest desired0 in
      case ParseCIDR actual of
        None \<Rightarrow> actual = desired
      | Some (ip1, n1, bits1) \<Rightarrow>
          (case ParseCIDR desired of
             None \<Rightarrow> actual = desired
           | Some (ip2, n2, bits2) \<Rightarrow> ip1 = ip2 \<and> n1 + (128 - bits1) = n2 + (128 - bits2)))"

definition compareRoute :: "Route \<Rightarrow> string \<Rightarrow> RouteData \<Rightarrow> string \<Rightarrow> string" where
  "compareRoute desiredRoute routeName actualRoute action =
     (let desiredDst = normal_dest (rt_Destination desiredRoute) in
      if \<not> routeDestinationsMatch (rd_Dst actualRoute) desiredDst then ''''
      else if action = ''deleted'' then
        ''Route '' @ routeName @ '' ('' @ desiredDst @ '') was deleted externally''
      else if rt_Gateway desiredRoute \<noteq> '''' \<and> rt_Gateway desiredRoute \<noteq> rd_Gw actualRoute then
        ''Route '' @ routeName @ '' ('' @ desiredDst @ '') has gateway '' @ rd_Gw actualRoute @
        '' but should have '' @ rt_Gateway desiredRoute
      else if rt_Table desiredRoute > 0 \<and> rd_Table actualRoute \<noteq> rt_Table desiredRoute then
        ''Route '' @ routeName @ '' ('' @ desiredDst @ '') is in table '' @ show_int (rd_Table actualRoute) @
        '' but should be in table '' @ show_int (rt_Table desiredRoute)
      else '''')"

definition checkLinkDrift :: "State \<Rightarrow> string \<Rightarrow> bool \<Rightarrow> int \<Rightarrow> string" where
  "checkLinkDrift st linkName isUp actualMTU =
     (case findInterfaceByDevice (GetCurrentInterfaces st) linkName of
        None \<Rightarrow> ''''
      | Some (desiredIface, configName) \<Rightarrow> compareLinkState desiredIface configName linkName isUp actualMTU)"

definition checkAddressDrift :: "State \<Rightarrow> string \<Rightarrow> string \<Rightarrow> bool \<Rightarrow> string" where
  "checkAddressDrift st linkName ipAddr isNew =
     (case findInterfaceByDevice (GetCurrentInterfaces st) linkName of
        None \<Rightarrow> ''''
      | Some (desiredIface, configName) \<Rightarrow> compareIPAddress desiredIface configName linkName ipAddr isNew)"

text \<open>The loop over the configured routes; \<open>dst\<close> and \<open>gw\<close> are nil or the text of the route's fields.\<close>

fun route_drift :: "(string \<times> Route) list \<Rightarrow> RouteData \<Rightarrow> string \<Rightarrow> string" where
  "route_drift [] actualRoute action = ''''"
| "route_drift ((name, desiredRoute) # rest) actualRoute action =
     (if \<not> rt_Enabled desiredRoute then route_drift rest actualRoute action
      else
        (let drift = compareRoute desiredRoute name actualRoute action in
         if drift \<noteq> '''' then drift else route_drift rest actualRoute action))"

definition checkRouteDrift :: "State \<Rightarrow> string option \<Rightarrow> string option \<Rightarrow> int \<Rightarrow> string \<Rightarrow> string" where
  "checkRouteDrift st dst gw table action =
     (case GetCurrentRoutes st of
        None \<Rightarrow> ''''
      | Some config \<Rightarrow>
          (case rc_Routes config of
             None \<Rightarrow> ''''
           | Some m \<Rightarrow>
               route_drift m
                 \<lparr>rd_Dst = (case dst of None \<Rightarrow> ''default'' | Some s \<Rightarrow> s),
                  rd_Gw = (case gw of None \<Rightarrow> '''' | Some s \<Rightarrow> s), rd_Table = table\<rparr> action))"

section \<open>Events\<close>

text \<open>
  The netlink updates the observer reads: a link with its flags word, an address with the name
  of its link when \<open>LinkByIndex\<close> finds it, a route with its message type (24 and 25 are
  \<open>RTM_NEWROUTE\<close> and \<open>RTM_DELROUTE\<close>).
\<close>

datatype update =
    LinkUpdate string "32 word" int
  | AddrUpdate "string option" "string option" bool
  | RouteUpdate nat "string option" "string option" int

definition handleLinkUpdate :: "State \<Rightarrow> int \<Rightarrow> string \<Rightarrow> 32 word \<Rightarrow> int \<Rightarrow> Observer \<Rightarrow> Observer \<times> bool" where
  "handleLinkUpdate st now name flags mtu ob =
     (if isRecentChange now ob then (ob, False)
      else
        (let isUp = (flags AND 1 \<noteq> 0) in
         if checkLinkDrift st name isUp mtu \<noteq> '''' then maybeReconcile now ob else (ob, False)))"

definition handleAddrUpdate :: "State \<Rightarrow> int \<Rightarrow> string option \<Rightarrow> string option \<Rightarrow> bool \<Rightarrow> Observer \<Rightarrow> Observer \<times> bool" where
  "handleAddrUpdate st now link addr newAddr ob =
     (if isRecentChange now ob then (ob, False)
      else
        (let linkName = (case link of None \<Rightarrow> ''unknown'' | Some n \<Rightarrow> n) in
         case addr of
           None \<Rightarrow> (ob, False)
         | Some ip \<Rightarrow>
             if linkName \<noteq> ''unknown'' \<and> checkAddressDrift st linkName ip newAddr \<noteq> ''''
             then maybeReconcile now ob else (ob, False)))"

definition handleRouteUpdate ::
  "State \<Rightarrow> int \<Rightarrow> nat \<Rightarrow> string option \<Rightarrow> string option \<Rightarrow> int \<Rightarrow> Observer \<Rightarrow> Observer \<times> bool" where
  "handleRouteUpdate st now ty dst gw table ob =
     (if isRecentChange now ob then (ob, False)
      else
        (let action = (if ty = 24 then ''added'' else if ty = 25 then ''deleted'' else ''modified'') in
         if checkRouteDrift st dst gw table action \<noteq> '''' then maybeReconcile now ob else (ob, False)))"

fun handleUpdate :: "State \<Rightarrow> int \<Rightarrow> update \<Rightarrow> Observer \<Rightarrow> Observer \<times> bool" where
  "handleUpdate st now (LinkUpdate name flags mtu) ob = handleLinkUpdate st now name flags mtu ob"
| "handleUpdate st now (AddrUpdate link addr newAddr) ob = handleAddrUpdate st now link addr newAddr ob"
| "handleUpdate st now (RouteUpdate ty dst gw table) ob = handleRouteUpdate st now ty dst gw table ob"

section \<open>What counts as drift\<close>

lemma compareLinkState_none:
  "compareLinkState desired cn an isUp mtu = '''' \<longleftrightarrow>
     if_Enabled desired = isUp \<and> (if_MTU desired > 0 \<longrightarrow> mtu = if_MTU desired)"
  by (auto simp: compareLinkState_def)

text \<open>The network a destination denotes, or the text itself when it denotes none.\<close>

definition dest_key :: "string \<Rightarrow> (nat list \<times> nat) + string" where
  "dest_key s =
     (case ParseCIDR (normal_dest s) of
        None \<Rightarrow> Inr (normal_dest s)
      | Some (ip, n, bits) \<Rightarrow> Inl (ip, n + (128 - bits)))"

lemma routeDestinationsMatch_key: "routeDestinationsMatch a d \<longleftrightarrow> dest_key a = dest_key d"
  by (auto simp: routeDestinationsMatch_def dest_key_def Let_def split: option.splits)

lemma normal_dest_idem [simp]: "normal_dest (normal_dest s) = normal_dest s"
  by (simp add: normal_dest_def)

lemma dest_key_normal [simp]: "dest_key (normal_dest s) = dest_key s"
  by (simp add: dest_key_def split: option.splits)

text \<open>A route as reported agrees with the configured one.\<close>

definition route_agrees :: "Route \<Rightarrow> RouteData \<Rightarrow> bool" where
  "route_agrees r a \<longleftrightarrow>
     (rt_Gateway r = '''' \<or> rt_Gateway r = rd_Gw a) \<and> (rt_Table r > 0 \<longrightarrow> rd_Table a = rt_Table r)"

lemma compareRoute_none:
  "compareRoute r name a action = '''' \<longleftrightarrow>
     (dest_key (rd_Dst a) = dest_key (rt_Destination r) \<longrightarrow> action \<noteq> ''deleted'' \<and> route_agrees r a)"
  by (auto simp: compareRoute_def Let_def routeDestinationsMatch_key route_agrees_def)

lemma route_drift_none:
  "route_drift rs a action = '''' \<longleftrightarrow>
     (\<forall>(name, r) \<in> set rs. rt_Enabled r \<longrightarrow> dest_key (rd_Dst a) = dest_key (rt_Destination r) \<longrightarrow>
        action \<noteq> ''deleted'' \<and> route_agrees r a)"
proof (induction rs a action rule: route_drift.induct)
  case (2 name r rest a action)
  then show ?case
    using compareRoute_none [of r name a action] by (auto simp: Let_def)
qed simp

section \<open>Rate limit\<close>

datatype observation = Seen State update | Marked

text \<open>The times at which the observer starts a reconciliation.\<close>

fun reconciles :: "(int \<times> observation) list \<Rightarrow> Observer \<Rightarrow> int list" where
  "reconciles [] ob = []"
| "reconciles ((now, Marked) # es) ob = reconciles es (MarkChange now ob)"
| "reconciles ((now, Seen st u) # es) ob =
     (case handleUpdate st now u ob of
        (ob', b) \<Rightarrow> (if b then [now] else []) @ reconciles es ob')"

lemma handleUpdate_cases:
  assumes "handleUpdate st now u ob = (ob', b)"
  shows "(\<not> b \<and> ob' = ob) \<or>
         (b \<and> ob' = ob\<lparr>ob_lastReconcile := now\<rparr> \<and> ob_autoReconcile ob \<and> second \<le> now - ob_lastChange ob \<and>
          ob_reconcileInterval ob \<le> now - ob_lastReconcile ob)"
  using assms
  by (cases u)
     (auto simp: handleLinkUpdate_def handleAddrUpdate_def handleRouteUpdate_def maybeReconcile_def isRecentChange_def Let_def
       split: if_splits option.splits)

lemma reconciles_after:
  "sorted (t0 # map fst es) \<Longrightarrow> t \<in> set (reconciles es ob) \<Longrightarrow> t0 \<le> t"
proof (induction es ob arbitrary: t0 rule: reconciles.induct)
  case (3 now st u es ob)
  obtain ob' b where u: "handleUpdate st now u ob = (ob', b)" by (metis surj_pair)
  have "sorted (now # map fst es)" "t0 \<le> now" using 3(2) by auto
  moreover have "t = now \<or> t \<in> set (reconciles es ob')" using u 3(3) by (auto split: if_splits)
  ultimately show ?case using 3(1) [OF u [symmetric], of now] by fastforce
qed auto

lemma reconciles_interval:
  "sorted (map fst es) \<Longrightarrow> t \<in> set (reconciles es ob) \<Longrightarrow> ob_reconcileInterval ob \<le> t - ob_lastReconcile ob"
proof (induction es ob rule: reconciles.induct)
  case (2 now es ob)
  then show ?case by (simp add: MarkChange_def)
next
  case (3 now st u es ob)
  obtain ob' b where u: "handleUpdate st now u ob = (ob', b)" by (metis surj_pair)
  have after: "t \<in> set (reconciles es ob') \<Longrightarrow> now \<le> t"
    by (rule reconciles_after [of now es]) (use 3(2) in simp)
  have "t = now \<and> b \<or> t \<in> set (reconciles es ob')" using u 3(3) by (auto split: if_splits)
  then show ?case
    using handleUpdate_cases [OF u] after 3(1) [OF u [symmetric]] 3(2) by fastforce
qed simp

lemma reconciles_spaced:
  "sorted (map fst es) \<Longrightarrow> sorted_wrt (\<lambda>a b. ob_reconcileInterval ob \<le> b - a) (reconciles es ob)"
proof (induction es ob rule: reconciles.induct)
  case (2 now es ob)
  then show ?case by (simp add: MarkChange_def)
next
  case (3 now st u es ob)
  obtain ob' b where u: "handleUpdate st now u ob = (ob', b)" by (metis surj_pair)
  have iv: "ob_reconcileInterval ob' = ob_reconcileInterval ob" using handleUpdate_cases [OF u] by auto
  have ih: "sorted_wrt (\<lambda>a b. ob_reconcileInterval ob \<le> b - a) (reconciles es ob')"
    using 3(1) [OF u [symmetric]] 3(2) iv by simp
  have "ob_reconcileInterval ob \<le> t - now" if "b" "t \<in> set (reconciles es ob')" for t
    using reconciles_interval [OF _ that(2)] 3(2) handleUpdate_cases [OF u] that(1) iv by auto
  with ih u show ?case by simp
qed simp

lemma reconciles_quiet:
  "sorted (m # map fst es) \<Longrightarrow> m \<le> ob_lastChange ob \<Longrightarrow> t \<in> set (reconciles es ob) \<Longrightarrow> second \<le> t - m"
proof (induction es ob rule: reconciles.induct)
  case (2 now es ob)
  then show ?case by (auto simp: MarkChange_def)
next
  case (3 now st u es ob)
  obtain ob' b where u: "handleUpdate st now u ob = (ob', b)" by (metis surj_pair)
  have "ob_lastChange ob' = ob_lastChange ob" using handleUpdate_cases [OF u] by auto
  moreover have "t = now \<and> b \<or> t \<in> set (reconciles es ob')" using u 3(4) by (auto split: if_splits)
  ultimately show ?case
    using handleUpdate_cases [OF u] 3(1) [OF u [symmetric]] 3(2,3) by fastforce
qed simp

section \<open>Properties\<close>

text \<open>
  C15 (observer_rate_limit): however link, address and route events arrive, and however the daemon
  marks its own changes in between, two reconciliations are never closer than the configured interval, and
  none starts within a second of a change the daemon has marked.
\<close>

theorem observer_rate_limit:
  assumes "sorted (m # map fst es)"
  shows "sorted_wrt (\<lambda>a b. ob_reconcileInterval ob \<le> b - a) (reconciles es (MarkChange m ob)) \<and>
         (\<forall>t \<in> set (reconciles es (MarkChange m ob)). second \<le> t - m)"
  using reconciles_spaced [of es "MarkChange m ob"] reconciles_quiet [OF assms, of "MarkChange m ob"] assms
  by (simp add: MarkChange_def)

text \<open>A configuration whose interface is expected to be up.\<close>

definition ex_watched :: State where
  "ex_watched = LoadCommittedInterfaces
     \<lparr>ic_Interfaces = Some [(''lan'', zero_Interface\<lparr>if_Device := ''eth0'', if_Enabled := True\<rparr>)], ic_Version = []\<rparr> NewState"

definition ex_observer :: Observer where
  "ex_observer = \<lparr>ob_lastChange = 0, ob_lastReconcile = 0, ob_autoReconcile = True, ob_reconcileInterval = 60 * second\<rparr>"

definition ex_events :: "(int \<times> observation) list" where
  "ex_events = map (\<lambda>t. (t * second, Seen ex_watched (LinkUpdate ''eth0'' 0 1500))) [0, 60, 70, 130]"

theorem observer_rate_limit_witness:
  "reconciles ex_events (MarkChange 0 ex_observer) = [60 * second, 130 * second] \<and>
   sorted_wrt (\<lambda>a b. ob_reconcileInterval ex_observer \<le> b - a) (reconciles ex_events (MarkChange 0 ex_observer))"
proof -
  have "sorted (0 # map fst ex_events)" by code_simp
  from observer_rate_limit [OF this, of ex_observer]
  have "sorted_wrt (\<lambda>a b. ob_reconcileInterval ex_observer \<le> b - a) (reconciles ex_events (MarkChange 0 ex_observer))"
    by (rule conjunct1)
  moreover have "reconciles ex_events (MarkChange 0 ex_observer) = [60 * second, 130 * second]" by code_simp
  ultimately show ?thesis by simp
qed

text \<open>
  C16 (route_drift_exact): a route event counts as drift exactly when it concerns the network of an
  enabled configured route, however the destination is written, and either deletes it or gives it a gateway
  or a table other than the configured one.
\<close>

theorem route_drift_exact:
  assumes "GetCurrentRoutes st = Some c" and "rc_Routes c = Some m"
  shows "checkRouteDrift st dst gw table action \<noteq> '''' \<longleftrightarrow>
    (\<exists>(name, r) \<in> set m. rt_Enabled r \<and>
       routeDestinationsMatch (case dst of None \<Rightarrow> ''default'' | Some s \<Rightarrow> s) (rt_Destination r) \<and>
       (action = ''deleted'' \<or>
        rt_Gateway r \<noteq> '''' \<and> rt_Gateway r \<noteq> (case gw of None \<Rightarrow> '''' | Some s \<Rightarrow> s) \<or>
        rt_Table r > 0 \<and> table \<noteq> rt_Table r))"
  using assms by (fastforce simp: checkRouteDrift_def route_drift_none routeDestinationsMatch_key route_agrees_def)

theorem route_drift_exact_witness:
  "checkRouteDrift (LoadCommittedRoutes \<lparr>rc_Routes = Some [(''def'', zero_Route\<lparr>rt_Destination := ''default'', rt_Enabled := True\<rparr>)],
      rc_Version = []\<rparr> NewState) None None 254 ''deleted'' \<noteq> ''''"
proof -
  let ?c = "\<lparr>rc_Routes = Some [(''def'', zero_Route\<lparr>rt_Destination := ''default'', rt_Enabled := True\<rparr>)], rc_Version = []\<rparr>"
  have "GetCurrentRoutes (LoadCommittedRoutes ?c NewState) = Some ?c"
    by (simp add: GetCurrentRoutes_def GetCurrent_def LoadCommittedRoutes_def LoadCommitted_def put_entry_get entry_of_def
        zero_ConfigEntry_def NewState_def)
  from route_drift_exact [OF this, of _ None None 254 "''deleted''"] show ?thesis
    by (simp add: routeDestinationsMatch_key)
qed

end
