(* ===== verification/Apply.thy ===== *)
theory Apply
  imports Plugin_Loading Observer
begin

text \<open>
  Apply and rollback: \<open>handleApply\<close>, \<open>executeApplyWithRollback\<close>, \<open>rollbackPlugins\<close>, \<open>handleRollback\<close> and
  the checkpoint commands of \<open>src/daemon/server.go\<close>. The calls into the system layer (\<open>src/system\<close>) act
  on a kernel state of any type; they are given by a record of operations, so that everything
  shown here holds for every behaviour of the kernel.
\<close>

section \<open>The system layer as seen by the daemon\<close>

record 'w System =
  sy_CaptureSystemSnapshot :: "int \<Rightarrow> 'w \<Rightarrow> SystemSnapshot outcome"
  sy_EnableIPForwarding :: "'w \<Rightarrow> 'w \<times> goerror"
  sy_ApplyInterfaceConfig :: "string \<Rightarrow> Interface \<Rightarrow> 'w \<Rightarrow> 'w \<times> goerror"
  sy_ApplyRoutesConfig :: "RoutesConfig \<Rightarrow> 'w \<Rightarrow> 'w \<times> goerror"
  sy_RestoreSnapshot :: "SystemSnapshot \<Rightarrow> string list \<Rightarrow> 'w \<Rightarrow> 'w \<times> goerror"
  sy_RestoreNftablesRules :: "string \<Rightarrow> 'w \<Rightarrow> 'w \<times> goerror"

text \<open>
  The daemon with its surroundings: the snapshot directory, the observer (\<^const>\<open>None\<close> before \<open>Start\<close>
  creates it), the reconciliations it has started and that have not run yet, and the kernel.
\<close>

record 'w Daemon =
  dm_server :: Server
  dm_snaps :: snapshot_dir
  dm_observer :: "Observer option"
  dm_reconciles :: nat
  dm_world :: 'w

text \<open>What one command meets outside the daemon: the clock and the verdicts of the file system.\<close>

record Env =
  en_now :: int
  en_stamp :: string
  en_fault :: "string \<Rightarrow> save_fault"
  en_dir_ok :: bool
  en_write_ok :: bool

definition mark_change :: "int \<Rightarrow> 'w Daemon \<Rightarrow> 'w Daemon" where
  "mark_change now d = d\<lparr>dm_observer := map_option (MarkChange now) (dm_observer d)\<rparr>"

section \<open>Comparing configurations\<close>

text \<open>
  \<open>ConfigsEqual\<close>; \<^const>\<open>None\<close> is the nil interface. Equal JSON texts are equal documents, as
  \<open>json.Marshal\<close> sorts keys.
\<close>

definition ConfigsEqual :: "config option \<Rightarrow> config option \<Rightarrow> bool" where
  "ConfigsEqual a b =
     (case (a, b) of
        (None, None) \<Rightarrow> True
      | (None, Some _) \<Rightarrow> False
      | (Some _, None) \<Rightarrow> False
      | (Some x, Some y) \<Rightarrow> if x = y then True else enc_config x = enc_config y)"

section \<open>Interfaces\<close>

text \<open>The loop over the ordered interfaces; the first failure ends it.\<close>

fun apply_ifaces :: "'w System \<Rightarrow> (string, Interface) gomap option \<Rightarrow> string list \<Rightarrow> 'w \<Rightarrow> 'w \<times> goerror" where
  "apply_ifaces sys m [] w = (w, None)"
| "apply_ifaces sys m (name # rest) w =
     (case sy_ApplyInterfaceConfig sys name
             (case map_lookup m name of None \<Rightarrow> zero_Interface | Some i \<Rightarrow> i) w of
        (w', Some e) \<Rightarrow> (w', Some (''interface '' @ name @ '': '' @ e))
      | (w', None) \<Rightarrow> apply_ifaces sys m rest w')"

section \<open>Plugins\<close>

text \<open>The namespaces in the order they are applied; \<^const>\<open>None\<close> if the search were not to end.\<close>

definition ordered_namespaces :: "(string \<Rightarrow> Plugin outcome) \<Rightarrow> Server \<Rightarrow> string list option" where
  "ordered_namespaces load sv =
     (case GetCurrentJackConfig (sv_state sv) of
        None \<Rightarrow> Some (Registry_List (sv_registry sv))
      | Some jc \<Rightarrow>
          (case orderPluginsByDependencies load (entries (jc_Plugins jc)) of
             None \<Rightarrow> None
           | Some names \<Rightarrow> Some (List.map_filter (GetNamespaceForPlugin (sv_registry sv)) names)))"

text \<open>
  The configuration to apply: \<open>Ok (Some m)\<close> the map \<open>m\<close>, possibly nil, \<open>Ok None\<close> nothing to apply. A
  committed value that is not a map leaves the variable nil.
\<close>

definition plugin_config :: "Server \<Rightarrow> string \<Rightarrow> string \<Rightarrow> (string, json) gomap option option outcome" where
  "plugin_config sv namespace pluginName =
     (case GetCommitted (sv_state sv) namespace of
        Ok c \<Rightarrow> Ok (Some (case c of Some (CMap m) \<Rightarrow> m | _ \<Rightarrow> None))
      | _ \<Rightarrow>
          (case (case LoadConfig (sv_dir sv) (sv_files sv) pluginName of
                   Loaded v \<Rightarrow> dec_generic v | NotExist e \<Rightarrow> Err e | BadFile e \<Rightarrow> Err e) of
             Ok m \<Rightarrow> Ok (Some m)
           | _ \<Rightarrow>
               (case Registry_Get (sv_registry sv) namespace of
                  None \<Rightarrow> Panic
                | Some plugin \<Rightarrow>
                    (case pm_DefaultConfig (pl_Metadata plugin) of
                       Some d \<Rightarrow> Ok (Some (Some d))
                     | None \<Rightarrow> Ok None))))"

text \<open>One turn of the plugin loop: the server after it, and the error that ends the loop.\<close>

definition apply_plugin :: "string \<Rightarrow> Server \<Rightarrow> (Server \<times> goerror) outcome" where
  "apply_plugin namespace sv =
     (case GetPluginNameForNamespace (sv_registry sv) namespace of
        None \<Rightarrow> Ok (sv, None)
      | Some pluginName \<Rightarrow>
          (case plugin_config sv namespace pluginName of
             Panic \<Rightarrow> Panic
           | Err e \<Rightarrow> Err e
           | Ok None \<Rightarrow> Ok (sv, None)
           | Ok (Some cfg) \<Rightarrow>
               (if (case GetLastApplied (sv_state sv) namespace of
                      Ok lastApplied \<Rightarrow> ConfigsEqual (Some (CMap cfg)) lastApplied
                    | _ \<Rightarrow> False)
                then Ok (sv, None)
                else
                  (case Registry_Get (sv_registry sv) namespace of
                     None \<Rightarrow> Panic
                   | Some plugin \<Rightarrow>
                       (let sv1 = sv\<lparr>sv_trace := sv_trace sv @ [PApply namespace (enc_config (CMap cfg))]\<rparr> in
                        case pl_ApplyConfig plugin (Some (CMap cfg)) of
                          Some e \<Rightarrow> Ok (sv1, Some (''plugin '' @ namespace @ '': '' @ e))
                        | None \<Rightarrow>
                            obind (mark_ready (pl_services plugin) (sv_services sv)) (\<lambda>sr.
                            Ok (sv1\<lparr>sv_state := SetLastApplied namespace (Some (CMap cfg)) (sv_state sv),
                                    sv_services := sr\<rparr>, None)))))))"

fun apply_plugins :: "string list \<Rightarrow> Server \<Rightarrow> (Server \<times> goerror) outcome" where
  "apply_plugins [] sv = Ok (sv, None)"
| "apply_plugins (namespace # rest) sv =
     (case apply_plugin namespace sv of
        Ok (sv', None) \<Rightarrow> apply_plugins rest sv'
      | r \<Rightarrow> r)"

text \<open>
  The calls \<open>rollbackPlugins\<close> makes for one namespace: a flush, then the last applied
  configuration, or else the configuration file. The answers of the plugin are only logged.
\<close>

definition rollback_calls :: "Server \<Rightarrow> string \<Rightarrow> pcall list" where
  "rollback_calls sv namespace =
     PFlush namespace #
     (case GetPluginNameForNamespace (sv_registry sv) namespace of
        None \<Rightarrow> []
      | Some pluginName \<Rightarrow>
          (case GetLastApplied (sv_state sv) namespace of
             Ok (Some oldConfig) \<Rightarrow> [PApply namespace (enc_config oldConfig)]
           | _ \<Rightarrow>
               (case (case LoadConfig (sv_dir sv) (sv_files sv) pluginName of
                        Loaded v \<Rightarrow> dec_generic v | NotExist e \<Rightarrow> Err e | BadFile e \<Rightarrow> Err e) of
                  Ok m \<Rightarrow> [PApply namespace (enc_config (CMap m))]
                | _ \<Rightarrow> [])))"

definition rollbackPlugins :: "Server \<Rightarrow> Server" where
  "rollbackPlugins sv =
     sv\<lparr>sv_trace := sv_trace sv @ concat (map (rollback_calls sv) (Registry_List (sv_registry sv)))\<rparr>"

section \<open>Apply\<close>

definition apply_routes :: "'w System \<Rightarrow> Server \<Rightarrow> 'w \<Rightarrow> 'w \<times> goerror" where
  "apply_routes sys sv w =
     (case (case LoadConfig (sv_dir sv) (sv_files sv) ''routes'' of
              Loaded v \<Rightarrow> dec_RoutesConfig v | NotExist e \<Rightarrow> Err e | BadFile e \<Rightarrow> Err e) of
        Ok routesConfig \<Rightarrow> sy_ApplyRoutesConfig sys routesConfig w
      | _ \<Rightarrow> (w, None))"

text \<open>
  \<open>executeApplyWithRollback\<close>: the daemon after it with the warnings or the error. The status of a
  plugin is a map, which is never the \<open>[]byte\<close> the warning loop asks for, so there are no warnings.
  \<^const>\<open>None\<close> if the plugin ordering were not to end.
\<close>

definition executeApplyWithRollback ::
  "(string \<Rightarrow> Plugin outcome) \<Rightarrow> 'w System \<Rightarrow> int \<Rightarrow> SystemSnapshot \<Rightarrow> 'w Daemon \<Rightarrow>
     ('w Daemon \<times> string list outcome) option" where
  "executeApplyWithRollback load sys now snapshot d0 =
     (let d = mark_change now d0; sv = dm_server d in
      case sy_EnableIPForwarding sys (dm_world d) of
        (w1, Some e) \<Rightarrow> Some (d\<lparr>dm_world := w1\<rparr>, Err (''ip forwarding: '' @ e))
      | (w1, None) \<Rightarrow>
          (case GetCommittedInterfaces (sv_state sv) of
             None \<Rightarrow> Some (d\<lparr>dm_world := w1\<rparr>, Panic)
           | Some interfaces \<Rightarrow>
               (case apply_ifaces sys (ic_Interfaces interfaces)
                       (orderInterfaces (entries (ic_Interfaces interfaces))) w1 of
                  (w2, Some e) \<Rightarrow>
                    Some (d\<lparr>dm_world := fst (sy_RestoreSnapshot sys snapshot [''ipforward'', ''interfaces''] w2)\<rparr>, Err e)
                | (w2, None) \<Rightarrow>
                    (case ordered_namespaces load sv of
                       None \<Rightarrow> None
                     | Some namespaces \<Rightarrow>
                         Some
                           (case apply_plugins namespaces sv of
                              Panic \<Rightarrow> (d\<lparr>dm_world := w2\<rparr>, Panic)
                            | Err e \<Rightarrow> (d\<lparr>dm_world := w2\<rparr>, Err e)
                            | Ok (sv1, Some e) \<Rightarrow>
                                (d\<lparr>dm_server := rollbackPlugins sv1,
                                   dm_world := fst (sy_RestoreSnapshot sys snapshot [''ipforward'', ''interfaces''] w2)\<rparr>,
                                 Err e)
                            | Ok (sv1, None) \<Rightarrow>
                                (case apply_routes sys sv1 w2 of
                                   (w3, Some e) \<Rightarrow>
                                     (d\<lparr>dm_server := rollbackPlugins sv1,
                                        dm_world := fst (sy_RestoreSnapshot sys snapshot [''all''] w3)\<rparr>,
                                      Err (''routes: '' @ e))
                                 | (w3, None) \<Rightarrow> (d\<lparr>dm_server := sv1, dm_world := w3\<rparr>, Ok [])))))))"

definition save_snapshot :: "Env \<Rightarrow> string \<Rightarrow> SystemSnapshot \<Rightarrow> 'w Daemon \<Rightarrow> 'w Daemon \<times> goerror" where
  "save_snapshot env checkpointID snapshot d =
     (case SaveSnapshot (en_dir_ok env) (en_write_ok env) checkpointID snapshot (sv_state (dm_server d), dm_snaps d) of
        ((st, dir), err) \<Rightarrow> (d\<lparr>dm_server := (dm_server d)\<lparr>sv_state := st\<rparr>, dm_snaps := dir\<rparr>, err))"

definition prune_snapshots :: "nat \<Rightarrow> 'w Daemon \<Rightarrow> 'w Daemon" where
  "prune_snapshots keep d =
     (case PruneOldSnapshots keep (sv_state (dm_server d), dm_snaps d) of
        (st, dir) \<Rightarrow> d\<lparr>dm_server := (dm_server d)\<lparr>sv_state := st\<rparr>, dm_snaps := dir\<rparr>)"

definition handleApply ::
  "(string \<Rightarrow> Plugin outcome) \<Rightarrow> 'w System \<Rightarrow> Env \<Rightarrow> 'w Daemon \<Rightarrow> ('w Daemon \<times> Response outcome) option" where
  "handleApply load sys env d =
     (case sy_CaptureSystemSnapshot sys (en_now env) (dm_world d) of
        Panic \<Rightarrow> Some (d, Panic)
      | Err e \<Rightarrow> Some (d, Ok (fail (''failed to capture snapshot: '' @ e)))
      | Ok snapshot \<Rightarrow>
          (let checkpointID = ss_CheckpointID snapshot; d1 = fst (save_snapshot env checkpointID snapshot d) in
           case executeApplyWithRollback load sys (en_now env) snapshot d1 of
             None \<Rightarrow> None
           | Some (d2, Panic) \<Rightarrow> Some (d2, Panic)
           | Some (d2, Err e) \<Rightarrow>
               Some (d2, Ok (fail (''apply failed, rolled back to checkpoint '' @ checkpointID @ '': '' @ e)))
           | Some (d2, Ok warnings) \<Rightarrow>
               (let message = ''Configuration applied (interfaces + '' @
                      join_with '' + '' (Registry_List (sv_registry (dm_server d2))) @ '' + routes)'' in
                Some (prune_snapshots 10 d2,
                      Ok (okay DNone (if length warnings > 0
                                      then message @ [CHR 0x0A] @ join_with [CHR 0x0A] warnings
                                      else message))))))"

section \<open>Rollback and checkpoints\<close>

definition handleRollback :: "'w System \<Rightarrow> string \<Rightarrow> 'w Daemon \<Rightarrow> 'w Daemon \<times> Response outcome" where
  "handleRollback sys checkpointID0 d =
     (let checkpointID = (if checkpointID0 = '''' then ''latest'' else checkpointID0); sv = dm_server d in
      case LoadSnapshot (sv_state sv) (dm_snaps d) checkpointID of
        Panic \<Rightarrow> (d, Panic)
      | Err e \<Rightarrow> (d, Ok (fail (''failed to load checkpoint: '' @ e)))
      | Ok snapshot \<Rightarrow>
          (let d1 = d\<lparr>dm_server := rollbackPlugins sv\<rparr> in
           case sy_RestoreSnapshot sys snapshot [''all''] (dm_world d) of
             (w1, Some e) \<Rightarrow> (d1\<lparr>dm_world := w1\<rparr>, Ok (fail (''rollback failed: '' @ e)))
           | (w1, None) \<Rightarrow>
               (let w2 = (if ss_NftablesRules snapshot \<noteq> ''''
                          then fst (sy_RestoreNftablesRules sys (ss_NftablesRules snapshot) w1) else w1) in
                (d1\<lparr>dm_world := w2\<rparr>,
                 Ok (okay DNone (''Successfully rolled back to checkpoint: '' @ checkpointID))))))"

definition handleCheckpointList :: "'w Daemon \<Rightarrow> Response" where
  "handleCheckpointList d = okay (DSnapshots (ListSnapshots (sv_state (dm_server d)))) ''''"

definition handleCheckpointCreate :: "'w System \<Rightarrow> Env \<Rightarrow> 'w Daemon \<Rightarrow> 'w Daemon \<times> Response outcome" where
  "handleCheckpointCreate sys env d =
     (case sy_CaptureSystemSnapshot sys (en_now env) (dm_world d) of
        Panic \<Rightarrow> (d, Panic)
      | Err e \<Rightarrow> (d, Ok (fail (''failed to capture snapshot: '' @ e)))
      | Ok snapshot0 \<Rightarrow>
          (let snapshot = snapshot0\<lparr>ss_CheckpointID := ''manual-'' @ show_int (ss_Timestamp snapshot0)\<rparr> in
           case save_snapshot env (ss_CheckpointID snapshot) snapshot d of
             (d1, Some e) \<Rightarrow> (d1, Ok (fail (''failed to save checkpoint: '' @ e)))
           | (d1, None) \<Rightarrow>
               (d1, Ok (okay (DText (ss_CheckpointID snapshot)) (''Created checkpoint: '' @ ss_CheckpointID snapshot)))))"

end
