(* ===== verification/Daemon_Loop.thy ===== *)
theory Daemon_Loop
  imports Apply
begin

text \<open>
  The daemon as a whole: \<open>Start\<close> up to the accept loop, and \<open>handleRequest\<close>, the table of command
  handlers built by \<open>NewServer\<close> (\<open>src/daemon/server.go\<close>). A connection carries one request, and the state of
  the daemon after a sequence of requests is what the sequence of handlers makes of it.
\<close>

section \<open>Requests\<close>

record Request =
  rq_Command :: string
  rq_Path :: string
  rq_Value :: json
  rq_Plugin :: string
  rq_CheckpointID :: string
  rq_CLICommand :: string
  rq_CLIArgs :: "string list"

text \<open>
  The read-only queries that leave the daemon: \<open>GetSystemStatus\<close>, and the \<open>Status\<close> and
  \<open>ExecuteCLICommand\<close> calls of the plugin that serves a namespace.
\<close>

record 'w Queries =
  qu_GetSystemStatus :: "'w \<Rightarrow> json outcome"
  qu_Status :: "string \<Rightarrow> json outcome"
  qu_ExecuteCLICommand :: "string \<Rightarrow> string \<Rightarrow> string list \<Rightarrow> string outcome"

definition handleInfo :: "'w Queries \<Rightarrow> 'w Daemon \<Rightarrow> Response outcome" where
  "handleInfo qu d =
     (let sv = dm_server d in
      case qu_GetSystemStatus qu (dm_world d) of
        Panic \<Rightarrow> Panic
      | Err e \<Rightarrow> Ok (fail (''failed to get system status: '' @ e))
      | Ok sysStatus \<Rightarrow>
          (let pluginStatuses = foldl (\<lambda>m namespace.
                 case Registry_Get (sv_registry sv) namespace of
                   None \<Rightarrow> m
                 | Some _ \<Rightarrow> (case qu_Status qu namespace of Ok status \<Rightarrow> mput namespace status m | _ \<Rightarrow> m))
                 [] (Registry_List (sv_registry sv)) in
           Ok (okay (DInfo sysStatus pluginStatuses (HasPending (sv_state sv))) ''System status retrieved'')))"

definition handlePluginCLI :: "'w Queries \<Rightarrow> string \<Rightarrow> string \<Rightarrow> string list \<Rightarrow> 'w Daemon \<Rightarrow> Response outcome" where
  "handlePluginCLI qu pluginName cliCommand cliArgs d =
     (let reg = sv_registry (dm_server d);
          namespace = (case GetNamespaceForPlugin reg pluginName of Some ns \<Rightarrow> ns | None \<Rightarrow> pluginName) in
      case Registry_Get reg namespace of
        None \<Rightarrow> Ok (fail (''plugin not found or not loaded: '' @ pluginName))
      | Some _ \<Rightarrow>
          (case qu_ExecuteCLICommand qu namespace cliCommand cliArgs of
             Panic \<Rightarrow> Panic
           | Err e \<Rightarrow> Ok (fail (''command execution failed: '' @ e))
           | Ok out \<Rightarrow> Ok (okay (DText out) '''')))"

section \<open>Dispatch\<close>

text \<open>A handler that works on the server alone, and one that only reads.\<close>

definition on_server :: "'w Daemon \<Rightarrow> (Server \<times> Response) outcome \<Rightarrow> ('w Daemon \<times> Response outcome) option" where
  "on_server d r =
     (case r of
        Ok (sv, resp) \<Rightarrow> Some (d\<lparr>dm_server := sv\<rparr>, Ok resp)
      | Err e \<Rightarrow> Some (d, Ok (fail e))
      | Panic \<Rightarrow> Some (d, Panic))"

definition reading :: "'w Daemon \<Rightarrow> Response outcome \<Rightarrow> ('w Daemon \<times> Response outcome) option" where
  "reading d r = Some (d, r)"

definition handleRequest ::
  "(string \<Rightarrow> Plugin outcome) \<Rightarrow> string list outcome \<Rightarrow> 'w System \<Rightarrow> 'w Queries \<Rightarrow> (gval \<Rightarrow> string) \<Rightarrow> Env \<Rightarrow>
     Request \<Rightarrow> 'w Daemon \<Rightarrow> ('w Daemon \<times> Response outcome) option" where
  "handleRequest load available sys qu fmtv env req d =
     (let c = rq_Command req; sv = dm_server d; stamp = en_stamp env; fault = en_fault env ''jack'' in
      if c = ''status'' then reading d (Ok (handleStatus sv))
      else if c = ''info'' then reading d (handleInfo qu d)
      else if c = ''diff'' then reading d (handleDiff fmtv sv)
      else if c = ''commit'' then on_server d (Ok (handleCommit stamp (en_fault env) sv))
      else if c = ''revert'' then on_server d (Ok (handleRevert sv))
      else if c = ''apply'' then handleApply load sys env d
      else if c = ''show'' then reading d (handleShow (rq_Path req) sv)
      else if c = ''get'' then reading d (handleGet (rq_Path req) sv)
      else if c = ''set'' then on_server d (handleSet (rq_Path req) (rq_Value req) sv)
      else if c = ''validate'' then reading d (Ok (handleValidate (rq_Path req) (rq_Value req) sv))
      else if c = ''plugin-enable'' then on_server d (handlePluginEnable load stamp fault (rq_Plugin req) sv)
      else if c = ''plugin-disable'' then on_server d (handlePluginDisable stamp fault (rq_Plugin req) sv)
      else if c = ''plugin-rescan'' then on_server d (handlePluginRescan load available stamp fault sv)
      else if c = ''plugin-cli'' then
        reading d (handlePluginCLI qu (rq_Plugin req) (rq_CLICommand req) (rq_CLIArgs req) d)
      else if c = ''rollback'' then Some (handleRollback sys (rq_CheckpointID req) d)
      else if c = ''checkpoint-list'' then reading d (Ok (handleCheckpointList d))
      else if c = ''checkpoint-create'' then Some (handleCheckpointCreate sys env d)
      else reading d (Ok (fail (''unknown command: '' @ c))))"

section \<open>Start-up\<close>

definition load_routes :: "Server \<Rightarrow> RoutesConfig" where
  "load_routes sv =
     (case (case LoadConfig (sv_dir sv) (sv_files sv) ''routes'' of
              Loaded v \<Rightarrow> dec_RoutesConfig v | NotExist e \<Rightarrow> Err e | BadFile e \<Rightarrow> Err e) of
        Ok routesConfig \<Rightarrow> routesConfig
      | _ \<Rightarrow> \<lparr>rc_Routes = Some [], rc_Version = []\<rparr>)"

text \<open>One turn of the loop that loads the configuration of every registered plugin.\<close>

definition load_plugin_config :: "string \<Rightarrow> Server \<Rightarrow> Server" where
  "load_plugin_config namespace sv =
     (case GetPluginNameForNamespace (sv_registry sv) namespace of
        None \<Rightarrow> sv
      | Some pluginName \<Rightarrow>
          (let cfg = (case (case LoadConfig (sv_dir sv) (sv_files sv) pluginName of
                              Loaded v \<Rightarrow> dec_generic v | NotExist e \<Rightarrow> Err e | BadFile e \<Rightarrow> Err e) of
                        Ok m \<Rightarrow> m
                      | _ \<Rightarrow>
                          (case Registry_Get (sv_registry sv) namespace of
                             Some plugin \<Rightarrow>
                               (case pm_DefaultConfig (pl_Metadata plugin) of Some m \<Rightarrow> Some m | None \<Rightarrow> Some [])
                           | None \<Rightarrow> Some [])) in
           sv\<lparr>sv_state := LoadCommitted namespace (Some (CMap cfg)) (sv_state sv)\<rparr>))"

text \<open>Applying at start-up: a failing interface is logged and the next one is tried.\<close>

definition startup_ifaces :: "'w System \<Rightarrow> InterfacesConfig \<Rightarrow> 'w \<Rightarrow> 'w" where
  "startup_ifaces sys c w =
     foldl (\<lambda>w name. fst (sy_ApplyInterfaceConfig sys name
               (case map_lookup (ic_Interfaces c) name of None \<Rightarrow> zero_Interface | Some i \<Rightarrow> i) w))
       w (orderInterfaces (entries (ic_Interfaces c)))"

text \<open>
  \<open>Start\<close> up to the accept loop. \<open>nl\<close> is what netlink reports for the first-boot configuration,
  \<open>listed\<close> the snapshot directory as \<open>os.ReadDir\<close> lists it; the observer is created from the configuration as loaded.
\<close>

definition Start ::
  "(string \<Rightarrow> Plugin outcome) \<Rightarrow> 'w System \<Rightarrow> Netlink \<Rightarrow> (string \<times> bool) list option \<Rightarrow> Env \<Rightarrow> bool \<Rightarrow>
     'w Daemon \<Rightarrow> ('w Daemon \<times> goerror) outcome option" where
  "Start load sys nl listed env applyOnStartup d =
     (case loadPlugins load (en_stamp env) (en_fault env ''jack'') (dm_server d) of
        None \<Rightarrow> None
      | Some Panic \<Rightarrow> Some Panic
      | Some (Err e) \<Rightarrow> Some (Err e)
      | Some (Ok (sv1, _)) \<Rightarrow>
          (let sv2 = sv1\<lparr>sv_state := fst (LoadSnapshotsFromDisk (en_dir_ok env) listed (sv_state sv1))\<rparr>;
               d1 = d\<lparr>dm_server := sv2, dm_observer := Some (NewNetworkObserver (sv_state sv1) (en_now env))\<rparr> in
           case LoadInterfacesConfig (sv_dir sv2) (en_stamp env) (en_fault env ''interfaces'') nl (sv_files sv2) of
             (files, Panic) \<Rightarrow> Some Panic
           | (files, Err e) \<Rightarrow>
               Some (Ok (d1\<lparr>dm_server := sv2\<lparr>sv_files := files\<rparr>\<rparr>, Some (''failed to load interfaces config: '' @ e)))
           | (files, Ok interfacesConfig) \<Rightarrow>
               (let sv3 = sv2\<lparr>sv_files := files,
                              sv_state := LoadCommittedInterfaces interfacesConfig (sv_state sv2)\<rparr>;
                    routesConfig = load_routes sv3;
                    sv4 = sv3\<lparr>sv_state := LoadCommittedRoutes routesConfig (sv_state sv3)\<rparr>;
                    sv5 = foldl (\<lambda>sv ns. load_plugin_config ns sv) sv4 (Registry_List (sv_registry sv4));
                    d2 = d1\<lparr>dm_server := sv5\<rparr> in
                if applyOnStartup then
                  (let d3 = mark_change (en_now env) d2 in
                   Some (Ok (d3\<lparr>dm_world := fst (sy_ApplyRoutesConfig sys routesConfig
                                                 (startup_ifaces sys interfacesConfig (dm_world d3)))\<rparr>, None)))
                else Some (Ok (d2, None)))))"

section \<open>The observer's events\<close>

text \<open>An update read by the event loop of the observer; a reconciliation it starts runs later.\<close>

definition observe :: "int \<Rightarrow> update \<Rightarrow> 'w Daemon \<Rightarrow> 'w Daemon" where
  "observe now u d =
     (case dm_observer d of
        None \<Rightarrow> d
      | Some ob \<Rightarrow>
          (case handleUpdate (sv_state (dm_server d)) now u ob of
             (ob', started) \<Rightarrow>
               d\<lparr>dm_observer := Some ob', dm_reconciles := dm_reconciles d + (if started then 1 else 0)\<rparr>))"

definition reconcile ::
  "(string \<Rightarrow> Plugin outcome) \<Rightarrow> 'w System \<Rightarrow> Env \<Rightarrow> 'w Daemon \<Rightarrow> ('w Daemon \<times> Response outcome) option" where
  "reconcile load sys env d = handleApply load sys env (mark_change (en_now env) d)"

end
