(* ===== verification/Plugin_Loading_Facts.thy ===== *)
theory Plugin_Loading_Facts
  imports Plugin_Loading Examples
begin

text \<open>
  Termination and completeness of the start-up waves, the invariants of the two registries across
  the plugin commands, and what disabling a plugin with a ready service does.
\<close>

section \<open>Readiness\<close>

lemma mark_ready_ok:
  "sr_ok r \<Longrightarrow> \<exists>r'. mark_ready ns r = Ok r' \<and> sr_ok r'"
proof (induction ns arbitrary: r)
  case (Cons n ns)
  obtain r1 where "MarkServiceReady n r = Ok r1" "sr_ok r1"
    using MarkServiceReady_ok [OF Cons.prems] by metis
  with Cons.IH [of r1] show ?case by (simp add: mark_ready_def)
qed (simp add: mark_ready_def)

lemma register_services_ready:
  "sr_ok r \<Longrightarrow> IsServiceReady (fst (register_services ns names r)) m = IsServiceReady r m"
proof (induction ns names r rule: register_services.induct)
  case (2 ns name rest r)
  show ?case
  proof (cases "mget (sr_serviceProviders r) name")
    case None
    then have "name \<notin> set (mkeys (sr_serviceReady r))"
      using 2(2) by (metis mget_None_iff sr_ok_def)
    then have "mget (sr_serviceReady r) name = None" by (simp add: mget_None_iff)
    then have "IsServiceReady (register_service ns name r) m = IsServiceReady r m"
      by (simp add: IsServiceReady_def register_service_def gomap_simps)
    with 2 None show ?thesis by (simp add: sr_ok_register_service)
  qed simp
qed simp

lemma RegisterPlugin_ready:
  "sr_ok r \<Longrightarrow> IsServiceReady (fst (RegisterPlugin ns p svcs r)) m = IsServiceReady r m"
  unfolding RegisterPlugin_def using register_services_ready [of "r\<lparr>sr_plugins := mput ns p (sr_plugins r)\<rparr>"]
  by (simp add: IsServiceReady_def)

lemma AreServicesReady_all: "AreServicesReady r ns \<longleftrightarrow> (\<forall>n\<in>set ns. IsServiceReady r n)"
  by (induction ns) auto

lemma canLoad_ready_cong:
  "(\<And>m. IsServiceReady (sv_services sv) m = IsServiceReady (sv_services sv') m) \<Longrightarrow>
   canLoadPlugin load sv name = canLoadPlugin load sv' name"
  by (auto simp: canLoadPlugin_def AreServicesReady_all split: outcome.splits)

section \<open>Loading one plugin\<close>

lemma closed_frame [simp]:
  "sv_state (closed ns sv) = sv_state sv" "sv_registry (closed ns sv) = sv_registry sv"
  "sv_services (closed ns sv) = sv_services sv"
  by (simp_all add: closed_def)

lemma loadSinglePlugin_services:
  assumes "loadSinglePlugin load name (jc, sv) = Ok ((jc', sv'), err)" and "sr_ok (sv_services sv)"
  shows "sr_ok (sv_services sv') \<and>
         (err \<noteq> None \<longrightarrow> (\<forall>m. IsServiceReady (sv_services sv') m = IsServiceReady (sv_services sv) m))"
proof (cases "load name")
  case (Ok plugin)
  let ?ns = "pm_Namespace (pl_Metadata plugin)"
  obtain reg re where reg: "Register plugin name (sv_registry sv) = (reg, re)" by (metis surj_pair)
  obtain sr se where sr: "RegisterPlugin ?ns plugin (pl_services plugin) (sv_services sv) = (sr, se)" by (metis surj_pair)
  have sr': "sr_ok sr" "IsServiceReady sr m = IsServiceReady (sv_services sv) m" for m
    using sr_ok_RegisterPlugin [OF assms(2)] RegisterPlugin_ready [OF assms(2)] sr by (metis fst_conv)+
  obtain r' where r': "mark_ready (pl_services plugin) sr = Ok r'" "sr_ok r'"
    using mark_ready_ok [OF sr'(1)] by blast
  show ?thesis
  proof (cases "pl_ApplyConfig plugin (Some (CMap (initial_config sv name (pl_Metadata plugin))))")
    case None
    with assms(1) Ok reg sr sr' r' assms(2) show ?thesis
      by (auto simp: loadSinglePlugin_def Let_def split: option.splits if_splits)
  next
    case (Some e)
    with assms(1) Ok reg sr sr' assms(2) show ?thesis
      by (auto simp: loadSinglePlugin_def Let_def split: option.splits if_splits)
  qed
qed (use assms in \<open>auto simp: loadSinglePlugin_def\<close>)

lemma set_plugin_state_ok: "jc_Plugins jc \<noteq> None \<Longrightarrow> \<exists>jc'. set_plugin_state n ps jc = Ok jc' \<and> jc_Plugins jc' \<noteq> None"
  by (auto simp: set_plugin_state_def map_assign_def)

lemma loadSinglePlugin_ok:
  assumes "sr_ok (sv_services sv)" and "jc_Plugins jc \<noteq> None" and "load name \<noteq> Panic"
  shows "\<exists>jc' sv' err. loadSinglePlugin load name (jc, sv) = Ok ((jc', sv'), err) \<and> jc_Plugins jc' \<noteq> None"
proof (cases "load name")
  case (Ok plugin)
  let ?ns = "pm_Namespace (pl_Metadata plugin)" and ?v = "pm_Version (pl_Metadata plugin)"
  obtain jc' where jc': "set_plugin_state name ((plugin_state_of jc name)\<lparr>ps_Version := ?v\<rparr>) jc = Ok jc'"
    "jc_Plugins jc' \<noteq> None" using set_plugin_state_ok [OF assms(2)] by blast
  obtain reg re where reg: "Register plugin name (sv_registry sv) = (reg, re)" by (metis surj_pair)
  obtain sr se where sr: "RegisterPlugin ?ns plugin (pl_services plugin) (sv_services sv) = (sr, se)" by (metis surj_pair)
  have "sr_ok sr" using sr_ok_RegisterPlugin [OF assms(1)] sr by (metis fst_conv)
  then obtain r' where r': "mark_ready (pl_services plugin) sr = Ok r'" using mark_ready_ok by blast
  have "\<exists>sv' err. loadSinglePlugin load name (jc, sv) = Ok ((jc', sv'), err)"
    using Ok jc'(1) reg sr r'
    by (cases re; cases se; cases "pl_ApplyConfig plugin (Some (CMap (initial_config sv name (pl_Metadata plugin))))")
       (simp_all add: loadSinglePlugin_def Let_def)
  with jc'(2) show ?thesis by blast
qed (use assms in \<open>auto simp: loadSinglePlugin_def\<close>)

section \<open>Waves\<close>

definition ls_ok :: "string list \<Rightarrow> load_state \<Rightarrow> bool" where
  "ls_ok enabled ls \<longleftrightarrow>
     distinct (ls_loaded ls) \<and> set (ls_loaded ls) \<subseteq> set enabled \<and>
     sr_ok (sv_services (ls_server ls)) \<and> jc_Plugins (ls_jack ls) \<noteq> None"

text \<open>What a wave over some of the enabled plugins does.\<close>

definition wave_post :: "(string \<Rightarrow> Plugin outcome) \<Rightarrow> string list \<Rightarrow> string list \<Rightarrow> load_state \<Rightarrow> nat \<Rightarrow> load_state \<Rightarrow> nat \<Rightarrow> bool" where
  "wave_post load enabled names ls n ls' n' \<longleftrightarrow>
     ls_ok enabled ls' \<and> n \<le> n' \<and> set (ls_loaded ls) \<subseteq> set (ls_loaded ls') \<and>
     length (ls_loaded ls) + (n' - n) \<le> length (ls_loaded ls') \<and>
     (n' = n \<longrightarrow>
        (\<forall>m. IsServiceReady (sv_services (ls_server ls')) m = IsServiceReady (sv_services (ls_server ls)) m) \<and>
        (\<forall>x \<in> set names. x \<notin> set (ls_loaded ls') \<longrightarrow> \<not> canLoadPlugin load (ls_server ls') x))"

lemma wave_correct:
  "ls_ok enabled ls \<Longrightarrow> set names \<subseteq> set enabled \<Longrightarrow>
     \<exists>ls' n'. wave load names ls n = Ok (ls', n') \<and> wave_post load enabled names ls n ls' n'"
proof (induction load names ls n rule: wave.induct)
  case (1 load ls n)
  then show ?case by (simp add: wave_post_def)
next
  case (2 load name rest ls n)
  consider "name \<in> set (ls_loaded ls)" | "name \<notin> set (ls_loaded ls)" "\<not> canLoadPlugin load (ls_server ls) name"
    | "name \<notin> set (ls_loaded ls)" "canLoadPlugin load (ls_server ls) name" by blast
  then show ?case
  proof cases
    case 1
    with "2.IH"(1) "2.prems" obtain ls' n' where w: "wave load rest ls n = Ok (ls', n')"
      "wave_post load enabled rest ls n ls' n'" by auto
    with 1 show ?thesis by (auto simp: wave_post_def)
  next
    case 2
    with "2.IH"(2) "2.prems" obtain ls' n' where w: "wave load rest ls n = Ok (ls', n')"
      "wave_post load enabled rest ls n ls' n'" by auto
    with 2 canLoad_ready_cong [of "ls_server ls'" "ls_server ls" load name] show ?thesis
      by (auto simp: wave_post_def)
  next
    case 3
    have ok: "sr_ok (sv_services (ls_server ls))" "jc_Plugins (ls_jack ls) \<noteq> None"
      using "2.prems" by (auto simp: ls_ok_def)
    have "load name \<noteq> Panic" using 3 by (auto simp: canLoadPlugin_def)
    then obtain jc sv err where l: "loadSinglePlugin load name (ls_jack ls, ls_server ls) = Ok ((jc, sv), err)"
      "jc_Plugins jc \<noteq> None" using loadSinglePlugin_ok [OF ok] by blast
    note svc = loadSinglePlugin_services [OF l(1) ok(1)]
    let ?ls = "ls\<lparr>ls_loaded := ls_loaded ls @ [name], ls_jack := jc, ls_server := sv\<rparr>"
    let ?n = "if err = None then Suc n else n"
    have "ls_ok enabled ?ls" using "2.prems" svc l(2) 3 by (auto simp: ls_ok_def)
    then obtain ls' n' where w: "wave load rest ?ls ?n = Ok (ls', n')" "wave_post load enabled rest ?ls ?n ls' n'"
      using "2.IH"(3) [OF 3(1) _ l(1) refl refl] 3 "2.prems"(2) by auto
    have "wave load (name # rest) ls n = Ok (ls', n')" using 3 l(1) w(1) by simp
    moreover have "wave_post load enabled (name # rest) ls n ls' n'"
      using w(2) svc by (auto simp: wave_post_def split: if_splits)
    ultimately show ?thesis by blast
  qed
qed

lemma waves_correct:
  assumes "distinct enabled"
  shows "ls_ok enabled ls \<Longrightarrow> length enabled \<le> fuel + length (ls_loaded ls) \<Longrightarrow>
     \<exists>ls'. waves fuel load enabled ls = Some (Ok ls') \<and> ls_ok enabled ls' \<and>
       (\<forall>x \<in> set enabled. x \<notin> set (ls_loaded ls') \<longrightarrow> \<not> canLoadPlugin load (ls_server ls') x)"
proof (induction fuel arbitrary: ls)
  case 0
  then have "card (set enabled) \<le> card (set (ls_loaded ls))"
    using assms by (simp add: ls_ok_def distinct_card)
  then have "set (ls_loaded ls) = set enabled"
    using 0 by (intro card_seteq) (auto simp: ls_ok_def)
  with 0 show ?case by (subst waves.simps) auto
next
  case (Suc k)
  show ?case
  proof (cases "length enabled \<le> length (ls_loaded ls)")
    case True
    then have "card (set enabled) \<le> card (set (ls_loaded ls))"
      using assms Suc.prems by (simp add: ls_ok_def distinct_card)
    then have "set (ls_loaded ls) = set enabled"
      using Suc.prems by (intro card_seteq) (auto simp: ls_ok_def)
    with True Suc.prems show ?thesis by (subst waves.simps) auto
  next
    case False
    obtain ls1 n1 where w: "wave load enabled ls 0 = Ok (ls1, n1)" "wave_post load enabled enabled ls 0 ls1 n1"
      using wave_correct [OF Suc.prems(1) subset_refl, of load 0] by blast
    let ?rem = "filter (\<lambda>x. x \<notin> set (ls_loaded ls1)) enabled"
    have step: "waves (Suc k) load enabled ls =
        (if n1 = 0 \<and> ?rem \<noteq> [] then Some (Ok ls1) else waves k load enabled ls1)"
      using False w(1) by (subst waves.simps) simp
    show ?thesis
    proof (cases "n1 = 0 \<and> ?rem \<noteq> []")
      case True
      with step w(2) show ?thesis by (auto simp: wave_post_def)
    next
      case more: False
      have "length enabled \<le> k + length (ls_loaded ls1)"
      proof (cases "n1 = 0")
        case True
        with more have "set enabled \<subseteq> set (ls_loaded ls1)" by (auto simp: filter_empty_conv)
        then have "card (set enabled) \<le> card (set (ls_loaded ls1))" by (intro card_mono) auto
        then have "length enabled \<le> length (ls_loaded ls1)"
          using assms w(2) by (simp add: wave_post_def ls_ok_def distinct_card)
        then show ?thesis by simp
      next
        case False
        with w(2) Suc.prems(2) show ?thesis by (simp add: wave_post_def)
      qed
      then show ?thesis using Suc.IH [of ls1] w(2) more step by (auto simp: wave_post_def)
    qed
  qed
qed

section \<open>The plugin list read from disk\<close>

lemma dec_map_mwf: "dec_map t dec v = Ok m \<Longrightarrow> mwf (entries m)"
proof -
  assume a: "dec_map t dec v = Ok m"
  show ?thesis
  proof (cases v)
    case (JObj ps)
    with a obtain l where l: "ofold (\<lambda>(k, v) m. obind (dec v) (\<lambda>x. Ok (mput k x m))) ps [] = Ok l" "m = Some l"
      by (auto simp: dec_map_def)
    have "mwf l"
      by (rule ofold_inv [OF _ _ l(1), where P = mwf]) (auto simp: gomap_wf)
    with l(2) show ?thesis by (simp add: entries_def)
  qed (use a in \<open>auto simp: dec_map_def type_err_def entries_def\<close>)
qed

lemma find_handler_mem:
  assumes "find_handler hs k = Some h"
  shows "h \<in> snd ` set hs"
proof -
  have "find P hs = Some e \<Longrightarrow> e \<in> set hs" for P e
    by (metis find_Some_iff nth_mem)
  with assms show ?thesis by (force simp: find_handler_def split: option.splits)
qed

lemma dec_object_inv:
  assumes "dec_object t hs v s = Ok s'" and "P s"
    and "\<And>h v s s'. h \<in> snd ` set hs \<Longrightarrow> P s \<Longrightarrow> h v s = Ok s' \<Longrightarrow> P s'"
  shows "P s'"
proof (cases v)
  case (JObj ps)
  with assms(1) have "dec_pairs hs ps s = Ok s'" by (simp add: dec_object_def)
  then show ?thesis unfolding dec_pairs_def
    by (rule ofold_inv [where P = P, rotated 2])
       (use assms(2,3) find_handler_mem in \<open>fastforce split: option.splits\<close>)+
qed (use assms in \<open>auto simp: dec_object_def type_err_def\<close>)

lemma dec_JackConfig_mwf: "dec_JackConfig v = Ok jc \<Longrightarrow> mwf (entries (jc_Plugins jc))"
  unfolding dec_JackConfig_def
  by (erule dec_object_inv [where P = "\<lambda>jc. mwf (entries (jc_Plugins jc))"])
     (auto simp: entries_def dest!: dec_map_mwf)

lemma LoadJackConfig_shape:
  assumes "LoadJackConfig dir fs = Ok jc"
  shows "jc_Plugins jc \<noteq> None" and "mwf (entries (jc_Plugins jc))"
  using assms
  by (auto simp: LoadJackConfig_def getDefaultJackConfig_def entries_def mwf_def
      dest!: dec_JackConfig_mwf split: load_result.splits outcome.splits if_splits)

lemma enabled_distinct: "mwf m \<Longrightarrow> distinct (enabled_of m)"
  by (simp add: enabled_of_def mwf_def distinct_map_filter)

section \<open>Registries across commands\<close>

definition registries_ok :: "Server \<Rightarrow> bool" where
  "registries_ok sv \<longleftrightarrow> reg_ok (sv_registry sv) \<and> sr_ok (sv_services sv)"

text \<open>A loaded plugin keeps the namespace it was registered with.\<close>

definition stable_names :: "(string \<Rightarrow> Plugin outcome) \<Rightarrow> Server \<Rightarrow> bool" where
  "stable_names load sv \<longleftrightarrow>
     (\<forall>n ns p. mget (pr_nameToNS (sv_registry sv)) n = Some ns \<longrightarrow> load n = Ok p \<longrightarrow>
        pm_Namespace (pl_Metadata p) = ns)"

lemma Register_ok:
  assumes "reg_ok (sv_registry sv)" and "stable_names load sv" and "load n = Ok p"
  shows "reg_ok (fst (Register p n (sv_registry sv)))"
proof (cases "n \<in> set (mkeys (pr_nameToNS (sv_registry sv)))")
  case True
  then obtain ns where ns: "mget (pr_nameToNS (sv_registry sv)) n = Some ns"
    by (metis mget_None_iff not_Some_eq)
  then have "(n, ns) \<in> set (pr_nameToNS (sv_registry sv))" by (rule map_of_SomeD)
  then have "ns \<in> set (mkeys (pr_plugins (sv_registry sv)))"
    using assms(1) unfolding reg_ok_def by force
  then have "mget (pr_plugins (sv_registry sv)) ns \<noteq> None" by (simp add: mget_None_iff)
  moreover have "pm_Namespace (pl_Metadata p) = ns" using assms ns by (auto simp: stable_names_def)
  ultimately show ?thesis using assms(1) by (simp add: Register_def Let_def)
qed (use assms(1) in \<open>rule reg_ok_Register\<close>)

lemma save_jack_frame:
  "save_jack st f jc r sv = (sv', r') \<Longrightarrow>
     sv_state sv' = sv_state sv \<and> sv_registry sv' = sv_registry sv \<and> sv_services sv' = sv_services sv"
  by (auto simp: save_jack_def split: prod.splits option.splits)

lemma enable_cases:
  assumes "handlePluginEnable load st f name sv = Ok (sv', r)"
  shows "sv_state sv' = sv_state sv \<and>
    (sv_registry sv' = sv_registry sv \<and> sv_services sv' = sv_services sv \<or>
     (\<exists>p reg sr e. load name = Ok p \<and> Register p name (sv_registry sv) = (reg, None) \<and>
        RegisterPlugin (pm_Namespace (pl_Metadata p)) p (pl_services p) (sv_services sv) = (sr, e) \<and>
        sv_services sv' = sr \<and>
        sv_registry sv' = (if e = None then reg else Unregister (pm_Namespace (pl_Metadata p)) reg)))"
  using assms
  by (auto simp: handlePluginEnable_def Let_def split: outcome.splits if_splits prod.splits option.splits
      dest!: save_jack_frame)

lemma disable_cases:
  assumes "handlePluginDisable st f name sv = Ok (sv', r)"
  shows "sv_state sv' = sv_state sv \<and>
    (sv_registry sv' = sv_registry sv \<and> sv_services sv' = sv_services sv \<or>
     (\<exists>ns sr. GetNamespaceForPlugin (sv_registry sv) name = Some ns \<and>
        UnregisterPlugin ns (sv_services sv) = Ok sr \<and> sv_services sv' = sr \<and>
        sv_registry sv' = Unregister ns (sv_registry sv)))"
  using assms
  by (auto simp: handlePluginDisable_def split: outcome.splits if_splits prod.splits option.splits
      dest!: save_jack_frame)

lemma registries_after_enable:
  assumes "registries_ok sv" and "stable_names load sv" and "handlePluginEnable load st f n sv = Ok (sv', r)"
  shows "registries_ok sv'"
  using enable_cases [OF assms(3)]
proof (elim conjE disjE exE)
  fix p reg sr e
  assume a: "load n = Ok p" "Register p n (sv_registry sv) = (reg, None)"
    "RegisterPlugin (pm_Namespace (pl_Metadata p)) p (pl_services p) (sv_services sv) = (sr, e)"
    "sv_services sv' = sr" "sv_registry sv' = (if e = None then reg else Unregister (pm_Namespace (pl_Metadata p)) reg)"
  have "reg_ok reg" using Register_ok [of sv load n p] a assms by (metis fst_conv registries_ok_def)
  moreover have "sr_ok sr" using sr_ok_RegisterPlugin a(3) assms(1) by (metis fst_conv registries_ok_def)
  ultimately show ?thesis using a by (simp add: registries_ok_def reg_ok_Unregister)
qed (use assms in \<open>simp add: registries_ok_def\<close>)

lemma registries_after_disable:
  assumes "registries_ok sv" and "handlePluginDisable st f n sv = Ok (sv', r)"
  shows "registries_ok sv'"
  using disable_cases [OF assms(2)]
proof (elim conjE disjE exE)
  fix ns sr
  assume a: "UnregisterPlugin ns (sv_services sv) = Ok sr" "sv_services sv' = sr"
    "sv_registry sv' = Unregister ns (sv_registry sv)"
  have "sr_ok sr"
    using a(1) assms(1) sr_ok_unregistered [of "sv_services sv"]
    by (auto simp: registries_ok_def UnregisterPlugin_cases split: if_splits)
  then show ?thesis using a assms(1) by (simp add: registries_ok_def reg_ok_Unregister)
qed (use assms in \<open>simp add: registries_ok_def\<close>)

section \<open>Properties\<close>

text \<open>
  C11 (waves_complete): loading the plugins at start-up always ends within as many waves as there
  are enabled plugins, without a panic, and a plugin it has not tried to load is one whose binary cannot be
  loaded or that requires a service which is not ready at the end. The service registry stays
  consistent.
\<close>

theorem waves_complete:
  assumes "sr_ok (sv_services sv)" and "LoadJackConfig (sv_dir sv) (sv_files sv) = Ok jc"
  shows "\<exists>ls. waves (length (enabled_of (entries (jc_Plugins jc)))) load (enabled_of (entries (jc_Plugins jc)))
             \<lparr>ls_loaded = [], ls_jack = jc, ls_server = sv\<rparr> = Some (Ok ls) \<and>
           (\<exists>sv'. loadPlugins load st f sv = Some (Ok (sv', None)) \<and> sv_services sv' = sv_services (ls_server ls)) \<and>
           sr_ok (sv_services (ls_server ls)) \<and>
           (\<forall>x \<in> set (enabled_of (entries (jc_Plugins jc))).
              x \<notin> set (ls_loaded ls) \<longrightarrow> \<not> canLoadPlugin load (ls_server ls) x)"
proof -
  let ?en = "enabled_of (entries (jc_Plugins jc))" and ?ls = "\<lparr>ls_loaded = [], ls_jack = jc, ls_server = sv\<rparr> :: load_state"
  have "distinct ?en" using LoadJackConfig_shape(2) [OF assms(2)] by (rule enabled_distinct)
  moreover have "ls_ok ?en ?ls" using assms LoadJackConfig_shape(1) by (auto simp: ls_ok_def)
  ultimately obtain ls where ls: "waves (length ?en) load ?en ?ls = Some (Ok ls)" "ls_ok ?en ls"
    "\<forall>x \<in> set ?en. x \<notin> set (ls_loaded ls) \<longrightarrow> \<not> canLoadPlugin load (ls_server ls) x"
    using waves_correct [of ?en ?ls "length ?en" load] by auto
  moreover have "\<exists>sv'. loadPlugins load st f sv = Some (Ok (sv', None)) \<and> sv_services sv' = sv_services (ls_server ls)"
    using ls(1) assms(2) by (auto simp: loadPlugins_def Let_def split: prod.splits)
  ultimately show ?thesis by (auto simp: ls_ok_def)
qed

theorem waves_complete_witness:
  "\<exists>sv'. loadPlugins ex_load ''20250101-000000'' NoFault ex_server = Some (Ok (sv', None))"
proof -
  have "sr_ok (sv_services ex_server)" by (simp add: ex_server_def sr_ok_new)
  moreover have "LoadJackConfig (sv_dir ex_server) (sv_files ex_server) = Ok getDefaultJackConfig"
    by (simp add: LoadJackConfig_def LoadConfig_def ex_server_def)
  ultimately show ?thesis using waves_complete [of ex_server getDefaultJackConfig ex_load "''20250101-000000''" NoFault] by blast
qed

text \<open>
  Enabling and disabling plugins keeps both registries consistent
  whatever the commands answer: names and namespaces stay in one-to-one correspondence, and providers,
  readiness and channels stay in step.
\<close>

theorem registries_invariant:
  assumes "registries_ok sv" and "stable_names load sv"
    and "handlePluginEnable load st f n sv = Ok (sv', r) \<or> handlePluginDisable st f n sv = Ok (sv', r)"
  shows "registries_ok sv'"
  using assms registries_after_enable registries_after_disable by blast

text \<open>The loader that answers \<open>wireguard\<close> with the plugin the example server has registered.\<close>

definition ex_loader :: "string \<Rightarrow> Plugin outcome" where
  "ex_loader n = (if n = ''wireguard'' then Ok ex_plugin else ex_load n)"

text \<open>
  C40 (disable_ready_panics): disabling a loaded plugin that provides a ready service crashes the
  daemon. The channel of a ready service is closed already, \<open>UnregisterPlugin\<close> closes it again, and nothing
  recovers from the panic.
\<close>

theorem disable_ready_panics:
  assumes "registries_ok sv" and "n \<noteq> ''''"
    and "LoadJackConfig (sv_dir sv) (sv_files sv) = Ok jc"
    and "map_lookup (jc_Plugins jc) n = Some ps" and "ps_Enabled ps"
    and "CheckDependencies n (sv_registry sv) = None"
    and "GetNamespaceForPlugin (sv_registry sv) n = Some ns" and "Registry_Get (sv_registry sv) ns = Some p"
    and "pl_Flush p = None" and "pl_Close p = None"
    and "x \<in> set (services_of (sv_services sv) ns)" and "IsServiceReady (sv_services sv) x"
  shows "handlePluginDisable st f n sv = Panic"
proof -
  have "UnregisterPlugin ns (sv_services sv) = Panic"
    using assms(1,11,12) by (auto simp: UnregisterPlugin_cases registries_ok_def list_ex_iff)
  moreover have "UnloadPlugin p ns = ([PFlush ns, PClose ns], None)"
    using assms(9,10) by (simp add: UnloadPlugin_def)
  ultimately show ?thesis using assms(2-8) by (simp add: handlePluginDisable_def)
qed

text \<open>A server whose plugin \<open>nftables\<close> provides the ready service \<open>firewall\<close>.\<close>

definition ex_fw :: Plugin where
  "ex_fw = ex_plugin\<lparr>pl_Metadata := (pl_Metadata ex_plugin)\<lparr>pm_Namespace := ''firewall''\<rparr>, pl_services := [''firewall'']\<rparr>"

definition ex_ready :: Server where
  "ex_ready = ex_server
     \<lparr>sv_registry := fst (Register ex_fw ''nftables'' NewPluginRegistry),
      sv_services := (case MarkServiceReady ''firewall'' (fst (RegisterPlugin ''firewall'' ex_fw [''firewall''] NewServiceRegistry)) of
                        Ok r \<Rightarrow> r | _ \<Rightarrow> NewServiceRegistry)\<rparr>"

lemma ex_ready_services:
  "sv_services ex_ready =
     \<lparr>sr_serviceProviders = [(''firewall'', ''firewall'')], sr_pluginServices = [(''firewall'', [''firewall''])],
      sr_plugins = [(''firewall'', ex_fw)], sr_serviceReady = [(''firewall'', True)],
      sr_readyChannels = [(''firewall'', Closed)]\<rparr>"
  by (simp add: ex_ready_def RegisterPlugin_def register_service_def services_of_def NewServiceRegistry_def
      MarkServiceReady_def IsServiceReady_def close_chan_def)

theorem disable_ready_panics_witness: "handlePluginDisable [] NoFault ''nftables'' ex_ready = Panic"
proof (rule disable_ready_panics)
  show "registries_ok ex_ready"
    unfolding registries_ok_def ex_ready_services
    by (auto simp: ex_ready_def sr_ok_def services_of_def mkeys_def NewPluginRegistry_def
        intro!: reg_ok_Register reg_ok_new [unfolded NewPluginRegistry_def])
  show "LoadJackConfig (sv_dir ex_ready) (sv_files ex_ready) = Ok getDefaultJackConfig"
    by (simp add: LoadJackConfig_def LoadConfig_def ex_ready_def ex_server_def)
  show "map_lookup (jc_Plugins getDefaultJackConfig) ''nftables'' = Some \<lparr>ps_Version = [], ps_Enabled = True\<rparr>"
    by (simp add: getDefaultJackConfig_def map_lookup_def)
  show "CheckDependencies ''nftables'' (sv_registry ex_ready) = None"
    by (simp add: CheckDependencies_def GetAll_def ex_ready_def Register_def ex_fw_def ex_plugin_def NewPluginRegistry_def Let_def)
  show "GetNamespaceForPlugin (sv_registry ex_ready) ''nftables'' = Some ''firewall''"
    by (simp add: GetNamespaceForPlugin_def ex_ready_def Register_def ex_fw_def ex_plugin_def NewPluginRegistry_def Let_def)
  show "Registry_Get (sv_registry ex_ready) ''firewall'' = Some ex_fw"
    by (simp add: Registry_Get_def ex_ready_def Register_def ex_fw_def ex_plugin_def NewPluginRegistry_def Let_def)
  show "''firewall'' \<in> set (services_of (sv_services ex_ready) ''firewall'')"
    by (simp add: ex_ready_services services_of_def)
  show "IsServiceReady (sv_services ex_ready) ''firewall''"
    by (simp add: ex_ready_services IsServiceReady_def)
qed (simp_all add: ex_fw_def ex_plugin_def)

text \<open>
  Enabling a plugin by command never registers its configuration with the
  state, so a namespace that was unknown before stays unknown to get, set and commit until the daemon restarts.
\<close>

lemma enable_leaves_state:
  assumes "handlePluginEnable load st f n sv = Ok (sv', r)" and "mget (st_registry (sv_state sv)) ns = None"
  shows "GetCurrent (sv_state sv') ns = Err (''unknown config type: '' @ ns)"
  using enable_cases [OF assms(1)] assms(2) by (simp add: GetCurrent_def)

end
