(* ===== verification/Apply_Facts.thy ===== *)
theory Apply_Facts
  imports Daemon_Loop Plugin_Loading_Facts Config_Properties
begin

text \<open>
  Apply: what it leaves alone, that it never gets stuck, that a second apply does nothing, and
  what its rollback restores.
\<close>

section \<open>One plugin\<close>

lemma plugin_config_not_Err: "plugin_config sv ns n \<noteq> Err e"
  by (auto simp: plugin_config_def split: outcome.splits option.splits)

lemma GetLastApplied_layer:
  "GetLastApplied s k =
     (if mget (st_registry s) k = None then Err (''unknown config type: '' @ k) else Ok (applied_layer s k))"
  by (auto simp: GetLastApplied_def applied_layer_def split: option.splits)

text \<open>What a turn of the plugin loop may change.\<close>

definition plugin_frame :: "Server \<Rightarrow> Server \<Rightarrow> bool" where
  "plugin_frame sv sv' \<longleftrightarrow>
     sv_registry sv' = sv_registry sv \<and> sv_dir sv' = sv_dir sv \<and> sv_files sv' = sv_files sv \<and>
     committed_layer (sv_state sv') = committed_layer (sv_state sv) \<and>
     pending_layer (sv_state sv') = pending_layer (sv_state sv) \<and>
     st_snapshots (sv_state sv') = st_snapshots (sv_state sv) \<and>
     st_snapshotList (sv_state sv') = st_snapshotList (sv_state sv)"

lemma plugin_frame_refl [simp]: "plugin_frame sv sv"
  by (simp add: plugin_frame_def)

lemma plugin_frame_trans: "plugin_frame a b \<Longrightarrow> plugin_frame b c \<Longrightarrow> plugin_frame a c"
  by (auto simp: plugin_frame_def)

lemma plugin_frame_rollback [simp]: "plugin_frame sv (rollbackPlugins sv)"
  by (simp add: plugin_frame_def rollbackPlugins_def)

text \<open>The turns of the loop: nothing to do, a refused configuration, an accepted one.\<close>

lemma apply_plugin_cases:
  assumes "apply_plugin ns sv = Ok (sv', e)"
  obtains (skip) "sv' = sv" "e = None"
  | (refused) cfg n p msg where "plugin_config sv ns n = Ok (Some cfg)" "Registry_Get (sv_registry sv) ns = Some p"
      "pl_ApplyConfig p (Some (CMap cfg)) = Some msg" "e = Some (''plugin '' @ ns @ '': '' @ msg)"
      "sv' = sv\<lparr>sv_trace := sv_trace sv @ [PApply ns (enc_config (CMap cfg))]\<rparr>"
  | (applied) cfg n p sr where "GetPluginNameForNamespace (sv_registry sv) ns = Some n"
      "plugin_config sv ns n = Ok (Some cfg)" "Registry_Get (sv_registry sv) ns = Some p"
      "pl_ApplyConfig p (Some (CMap cfg)) = None" "e = None" "mark_ready (pl_services p) (sv_services sv) = Ok sr"
      "sv' = sv\<lparr>sv_trace := sv_trace sv @ [PApply ns (enc_config (CMap cfg))],
                sv_state := SetLastApplied ns (Some (CMap cfg)) (sv_state sv), sv_services := sr\<rparr>"
proof (cases "GetPluginNameForNamespace (sv_registry sv) ns")
  case None
  with assms show ?thesis by (intro skip) (simp_all add: apply_plugin_def)
next
  case n: (Some n)
  show ?thesis
  proof (cases "plugin_config sv ns n")
    case c: (Ok c)
    show ?thesis
    proof (cases c)
      case None
      with assms n c show ?thesis by (intro skip) (simp_all add: apply_plugin_def)
    next
      case cfg: (Some cfg)
      let ?same = "case GetLastApplied (sv_state sv) ns of
          Ok lastApplied \<Rightarrow> ConfigsEqual (Some (CMap cfg)) lastApplied | _ \<Rightarrow> False"
      show ?thesis
      proof (cases ?same)
        case True
        with assms n c cfg show ?thesis by (intro skip) (simp_all add: apply_plugin_def)
      next
        case ne: False
        show ?thesis
        proof (cases "Registry_Get (sv_registry sv) ns")
          case None
          with assms n c cfg ne show ?thesis by (simp add: apply_plugin_def)
        next
          case pl: (Some p)
          show ?thesis
          proof (cases "pl_ApplyConfig p (Some (CMap cfg))")
            case ok: None
            from assms n c cfg ne pl ok obtain sr where "mark_ready (pl_services p) (sv_services sv) = Ok sr"
              "e = None" "sv' = sv\<lparr>sv_trace := sv_trace sv @ [PApply ns (enc_config (CMap cfg))],
                sv_state := SetLastApplied ns (Some (CMap cfg)) (sv_state sv), sv_services := sr\<rparr>"
              by (auto simp: apply_plugin_def Let_def)
            with n c cfg pl ok show ?thesis by (intro applied) simp_all
          next
            case (Some msg)
            with assms n c cfg ne pl show ?thesis by (intro refused) (auto simp: apply_plugin_def Let_def)
          qed
        qed
      qed
    qed
  qed (use assms n in \<open>simp_all add: apply_plugin_def\<close>)
qed

lemma SetLastApplied_snaps [simp]:
  "st_snapshots (SetLastApplied k c s) = st_snapshots s" "st_snapshotList (SetLastApplied k c s) = st_snapshotList s"
  by (simp_all add: SetLastApplied_def put_entry_def)

lemma apply_plugin_frame: "apply_plugin ns sv = Ok (sv', e) \<Longrightarrow> plugin_frame sv sv'"
  by (erule apply_plugin_cases) (simp_all add: plugin_frame_def SetLastApplied_layers)

lemma apply_plugins_frame: "apply_plugins nss sv = Ok (sv', e) \<Longrightarrow> plugin_frame sv sv'"
proof (induction nss sv rule: apply_plugins.induct)
  case (2 ns rest sv)
  then obtain sv1 e1 where s: "apply_plugin ns sv = Ok (sv1, e1)"
    by (auto split: outcome.splits option.splits)
  with 2 show ?case
    by (cases e1) (auto dest: apply_plugin_frame intro: plugin_frame_trans)
qed simp

lemma reg_ok_named:
  assumes "reg_ok r" and "GetPluginNameForNamespace r ns = Some n"
  shows "Registry_Get r ns \<noteq> None"
proof -
  from assms(2) obtain ns' where "name_entry r ns = Some (n, ns')" by (auto simp: GetPluginNameForNamespace_def)
  with assms(1) have "mget (pr_nameToNS r) n = Some ns" by (simp add: name_entry_Some_iff)
  then have "ns \<in> set (map snd (pr_nameToNS r))" by (force dest: map_of_SomeD)
  with assms(1) show ?thesis by (simp add: reg_ok_def Registry_Get_def mget_None_iff)
qed

lemma apply_plugin_total:
  assumes "reg_ok (sv_registry sv)" and "sr_ok (sv_services sv)"
  shows "\<exists>sv' e. apply_plugin ns sv = Ok (sv', e) \<and> sr_ok (sv_services sv')"
proof (cases "GetPluginNameForNamespace (sv_registry sv) ns")
  case None
  with assms(2) show ?thesis by (simp add: apply_plugin_def)
next
  case (Some n)
  then obtain p where p: "Registry_Get (sv_registry sv) ns = Some p" using reg_ok_named [OF assms(1)] by blast
  obtain sr where sr: "mark_ready (pl_services p) (sv_services sv) = Ok sr" "sr_ok sr"
    using mark_ready_ok [OF assms(2)] by blast
  have "plugin_config sv ns n \<noteq> Panic"
    using p by (auto simp: plugin_config_def split: outcome.splits option.splits)
  then obtain c where c: "plugin_config sv ns n = Ok c"
    using plugin_config_not_Err [of sv ns n] by (cases "plugin_config sv ns n") auto
  show ?thesis
  proof (cases c)
    case None
    with Some c assms(2) show ?thesis by (simp add: apply_plugin_def)
  next
    case (Some cfg)
    with \<open>GetPluginNameForNamespace _ _ = Some n\<close> c p sr assms(2) show ?thesis
      by (cases "pl_ApplyConfig p (Some (CMap cfg))") (simp_all add: apply_plugin_def Let_def split: outcome.splits)
  qed
qed

lemma apply_plugins_total:
  "reg_ok (sv_registry sv) \<Longrightarrow> sr_ok (sv_services sv) \<Longrightarrow>
     \<exists>sv' e. apply_plugins nss sv = Ok (sv', e) \<and> sr_ok (sv_services sv')"
proof (induction nss sv rule: apply_plugins.induct)
  case (2 ns rest sv)
  from apply_plugin_total [OF 2(2,3)] obtain sv1 e1 where s: "apply_plugin ns sv = Ok (sv1, e1)" "sr_ok (sv_services sv1)"
    by blast
  with apply_plugin_frame [OF s(1)] 2 show ?case by (cases e1) (auto simp: plugin_frame_def)
qed simp

section \<open>The whole operation\<close>

lemma mark_change_frame [simp]: "dm_server (mark_change now d) = dm_server d" "dm_snaps (mark_change now d) = dm_snaps d"
  "dm_world (mark_change now d) = dm_world d"
  by (simp_all add: mark_change_def)

text \<open>How an apply can end.\<close>

lemma execute_cases:
  assumes "executeApplyWithRollback load sys now snap d = Some (d', r)"
  obtains (forward) w e where "sy_EnableIPForwarding sys (dm_world d) = (w, Some e)"
      "dm_server d' = dm_server d" "dm_world d' = w" "dm_snaps d' = dm_snaps d" "r = Err (''ip forwarding: '' @ e)"
  | (nil) "GetCommittedInterfaces (sv_state (dm_server d)) = None" "r = Panic"
      "dm_server d' = dm_server d"
  | (iface) w e where "dm_server d' = dm_server d" "dm_snaps d' = dm_snaps d" "r = Err e"
      "dm_world d' = fst (sy_RestoreSnapshot sys snap [''ipforward'', ''interfaces''] w)"
  | (stuck) nss where "ordered_namespaces load (dm_server d) = Some nss"
      "\<And>x. apply_plugins nss (dm_server d) \<noteq> Ok x" "dm_server d' = dm_server d"
      "\<And>ws. r \<noteq> Ok ws"
  | (plugin) nss sv1 e w where "ordered_namespaces load (dm_server d) = Some nss" "dm_snaps d' = dm_snaps d"
      "apply_plugins nss (dm_server d) = Ok (sv1, Some e)" "dm_server d' = rollbackPlugins sv1" "r = Err e"
      "dm_world d' = fst (sy_RestoreSnapshot sys snap [''ipforward'', ''interfaces''] w)"
  | (route) nss sv1 e w where "ordered_namespaces load (dm_server d) = Some nss" "dm_snaps d' = dm_snaps d"
      "apply_plugins nss (dm_server d) = Ok (sv1, None)" "dm_server d' = rollbackPlugins sv1"
      "r = Err (''routes: '' @ e)" "dm_world d' = fst (sy_RestoreSnapshot sys snap [''all''] w)"
  | (finished) nss w1 w2 w3 c where "ordered_namespaces load (dm_server d) = Some nss" "dm_snaps d' = dm_snaps d"
      "apply_plugins nss (dm_server d) = Ok (dm_server d', None)" "r = Ok []"
      "sy_EnableIPForwarding sys (dm_world d) = (w1, None)"
      "GetCommittedInterfaces (sv_state (dm_server d)) = Some c"
      "apply_ifaces sys (ic_Interfaces c) (orderInterfaces (entries (ic_Interfaces c))) w1 = (w2, None)"
      "apply_routes sys (dm_server d') w2 = (w3, None)" "dm_world d' = w3"
proof -
  let ?d = "mark_change now d"
  obtain w1 e1 where f: "sy_EnableIPForwarding sys (dm_world d) = (w1, e1)" by (metis surj_pair)
  show ?thesis
  proof (cases e1)
    case (Some e)
    with f assms show ?thesis by (intro forward [of w1 e]) (auto simp: executeApplyWithRollback_def Let_def)
  next
    case e1: None
    show ?thesis
    proof (cases "GetCommittedInterfaces (sv_state (dm_server d))")
      case None
      with f e1 assms show ?thesis by (intro nil) (auto simp: executeApplyWithRollback_def Let_def)
    next
      case c: (Some c)
      obtain w2 e2 where i: "apply_ifaces sys (ic_Interfaces c) (orderInterfaces (entries (ic_Interfaces c))) w1 = (w2, e2)"
        by (metis surj_pair)
      show ?thesis
      proof (cases e2)
        case (Some e)
        with f e1 c i assms show ?thesis by (intro iface [of e w2]) (auto simp: executeApplyWithRollback_def Let_def)
      next
        case e2: None
        with f e1 c i assms obtain nss where nss: "ordered_namespaces load (dm_server d) = Some nss"
          by (auto simp: executeApplyWithRollback_def Let_def split: option.splits)
        note pre = f e1 c i e2 nss assms
        show ?thesis
        proof (cases "apply_plugins nss (dm_server d)")
          case (Ok x)
          obtain sv1 e3 where x: "x = (sv1, e3)" by (cases x)
          show ?thesis
          proof (cases e3)
            case (Some e)
            with pre Ok x show ?thesis
              by (intro plugin [of nss sv1 e w2]) (auto simp: executeApplyWithRollback_def Let_def)
          next
            case e3: None
            obtain w3 e4 where r4: "apply_routes sys sv1 w2 = (w3, e4)" by (metis surj_pair)
            show ?thesis
            proof (cases e4)
              case (Some e)
              with pre Ok x e3 r4 show ?thesis
                by (intro route [of nss sv1 e w3]) (auto simp: executeApplyWithRollback_def Let_def)
            next
              case None
              with pre Ok x e3 r4 show ?thesis
                by (intro finished [of nss w1 c w2 w3]) (auto simp: executeApplyWithRollback_def Let_def)
            qed
          qed
        qed (use pre in \<open>auto simp: executeApplyWithRollback_def Let_def intro: stuck\<close>)
      qed
    qed
  qed
qed

lemma execute_frame:
  "executeApplyWithRollback load sys now snap d = Some (d', r) \<Longrightarrow> plugin_frame (dm_server d) (dm_server d')"
  by (erule execute_cases)
     (auto dest!: apply_plugins_frame intro: plugin_frame_trans)

lemma layers_registry:
  "st_registry s = st_registry t \<Longrightarrow> committed_layer s = committed_layer t \<and> pending_layer s = pending_layer t"
  by (simp add: layer_defs fun_eq_iff)

text \<open>The daemon's configuration: its registries, its files and the two layers of its state.\<close>

definition same_config :: "Server \<Rightarrow> Server \<Rightarrow> bool" where
  "same_config sv sv' \<longleftrightarrow>
     sv_registry sv' = sv_registry sv \<and> sv_dir sv' = sv_dir sv \<and> sv_files sv' = sv_files sv \<and>
     committed_layer (sv_state sv') = committed_layer (sv_state sv) \<and>
     pending_layer (sv_state sv') = pending_layer (sv_state sv)"

lemma same_config_trans: "same_config a b \<Longrightarrow> same_config b c \<Longrightarrow> same_config a c"
  by (simp add: same_config_def)

lemma plugin_frame_config: "plugin_frame a b \<Longrightarrow> same_config a b"
  by (simp add: plugin_frame_def same_config_def)

lemma save_snapshot_frame:
  "save_snapshot env c snap d = (d', e) \<Longrightarrow>
     same_config (dm_server d) (dm_server d') \<and> dm_world d' = dm_world d \<and>
     sv_services (dm_server d') = sv_services (dm_server d) \<and> st_registry (sv_state (dm_server d')) = st_registry (sv_state (dm_server d)) \<and>
     sv_trace (dm_server d') = sv_trace (dm_server d)"
  by (auto simp: save_snapshot_def SaveSnapshot_def Let_def same_config_def layer_defs split: prod.splits)

lemma prune_snapshots_frame:
  "same_config (dm_server d) (dm_server (prune_snapshots n d))"
  "st_registry (sv_state (dm_server (prune_snapshots n d))) = st_registry (sv_state (dm_server d))"
  "dm_world (prune_snapshots n d) = dm_world d"
  by (auto simp: prune_snapshots_def same_config_def dest: Prune_registry layers_registry [OF Prune_registry]
      split: prod.splits)

lemma handleApply_cases:
  assumes "handleApply load sys env d = Some (d', r)"
  obtains (capture) "d' = d" "\<And>s. sy_CaptureSystemSnapshot sys (en_now env) (dm_world d) \<noteq> Ok s" "\<And>m. r \<noteq> Ok (okay DNone m)"
  | (failed) snap x where "sy_CaptureSystemSnapshot sys (en_now env) (dm_world d) = Ok snap"
      "executeApplyWithRollback load sys (en_now env) snap
         (fst (save_snapshot env (ss_CheckpointID snap) snap d)) = Some (d', x)" "\<And>ws. x \<noteq> Ok ws"
      "\<And>m. r \<noteq> Ok (okay DNone m)"
  | (success) snap d2 ws m where "sy_CaptureSystemSnapshot sys (en_now env) (dm_world d) = Ok snap"
      "executeApplyWithRollback load sys (en_now env) snap
         (fst (save_snapshot env (ss_CheckpointID snap) snap d)) = Some (d2, Ok ws)"
      "d' = prune_snapshots 10 d2" "r = Ok (okay DNone m)"
proof (cases "sy_CaptureSystemSnapshot sys (en_now env) (dm_world d)")
  case snap: (Ok snap)
  let ?d1 = "fst (save_snapshot env (ss_CheckpointID snap) snap d)"
  from snap assms obtain d2 x where e: "executeApplyWithRollback load sys (en_now env) snap ?d1 = Some (d2, x)"
    by (cases "executeApplyWithRollback load sys (en_now env) snap ?d1") (auto simp: handleApply_def Let_def)
  show ?thesis
  proof (cases x)
    case (Ok ws)
    with snap e assms show ?thesis by (intro success [of snap d2 ws]) (auto simp: handleApply_def Let_def)
  next
    case (Err m)
    with snap e assms show ?thesis by (intro failed [of snap x]) (auto simp: handleApply_def Let_def okay_simps(4) [symmetric])
  next
    case Panic
    with snap e assms show ?thesis by (intro failed [of snap x]) (auto simp: handleApply_def Let_def)
  qed
qed (use assms in \<open>auto simp: handleApply_def okay_simps(4) [symmetric] intro!: capture\<close>)

section \<open>A kernel for examples\<close>

text \<open>A kernel that logs what it is asked and refuses nothing but the configuration of routes.\<close>

definition ex_sys :: "string list System" where
  "ex_sys =
     \<lparr>sy_CaptureSystemSnapshot = (\<lambda>now w. Ok \<lparr>ss_Timestamp = now, ss_CheckpointID = ''auto-1'', ss_IPForwarding = False,
         ss_Interfaces = [], ss_Routes = None, ss_NftablesRules = []\<rparr>),
      sy_EnableIPForwarding = (\<lambda>w. (w @ [''forward''], None)),
      sy_ApplyInterfaceConfig = (\<lambda>n i w. (w @ [n], None)),
      sy_ApplyRoutesConfig = (\<lambda>c w. (w @ [''routes''], Some ''refused'')),
      sy_RestoreSnapshot = (\<lambda>s scope w. (w @ [''restore''], None)),
      sy_RestoreNftablesRules = (\<lambda>r w. (w, None))\<rparr>"

definition ex_env :: Env where
  "ex_env = \<lparr>en_now = 100, en_stamp = ''20250101-120000'', en_fault = no_faults, en_dir_ok = True, en_write_ok = True\<rparr>"

definition ex_daemon :: "string list Daemon" where
  "ex_daemon = \<lparr>dm_server = ex_server, dm_snaps = [], dm_observer = None, dm_reconciles = 0, dm_world = []\<rparr>"

lemma ex_registries: "registries_ok ex_server"
  by (simp add: registries_ok_def ex_server_def sr_ok_new reg_ok_Register reg_ok_new)
     (rule reg_ok_Register [OF reg_ok_new], simp add: NewPluginRegistry_def mkeys_def)

lemma ex_loaded: "GetCommittedInterfaces (sv_state ex_server) \<noteq> None" "GetCurrentJackConfig (sv_state ex_server) = None"
  by (simp_all add: ex_defs GetCommittedInterfaces_def GetCommitted_def GetCurrentJackConfig_def GetCurrent_def)

section \<open>Properties\<close>

text \<open>
  C5 (apply_keeps_config): an apply, whether it succeeds, fails and rolls back, or is asked for by
  the observer, changes neither the committed nor any pending configuration, no configuration file and
  no registration.
\<close>

theorem apply_keeps_config:
  assumes "handleApply load sys env d = Some (d', r)"
  shows "same_config (dm_server d) (dm_server d')"
  using assms
proof (cases rule: handleApply_cases)
  case capture
  then show ?thesis by (simp add: same_config_def)
next
  case (failed snap x)
  then show ?thesis
    using save_snapshot_frame [of env "ss_CheckpointID snap" snap d] execute_frame plugin_frame_config same_config_trans
    by (metis surjective_pairing)
next
  case (success snap d2 ws m)
  have "same_config (dm_server d) (dm_server d2)"
    using success(2) save_snapshot_frame [of env "ss_CheckpointID snap" snap d] execute_frame plugin_frame_config same_config_trans
    by (metis surjective_pairing)
  then show ?thesis unfolding success(3) using prune_snapshots_frame(1) same_config_trans by blast
qed

theorem apply_keeps_config_witness:
  "\<exists>d' r. handleApply ex_load ex_sys ex_env ex_daemon = Some (d', r) \<and>
     committed_layer (sv_state (dm_server d')) = committed_layer (sv_state ex_server)"
proof -
  have "handleApply ex_load ex_sys ex_env ex_daemon \<noteq> None" by code_simp
  then obtain d' r where "handleApply ex_load ex_sys ex_env ex_daemon = Some (d', r)" by (metis not_None_eq surj_pair)
  with apply_keeps_config [OF this] show ?thesis by (auto simp: same_config_def ex_daemon_def)
qed

text \<open>What an apply relies on.\<close>

definition apply_ready :: "'w Daemon \<Rightarrow> bool" where
  "apply_ready d \<longleftrightarrow>
     reg_ok (sv_registry (dm_server d)) \<and> sr_ok (sv_services (dm_server d)) \<and>
     GetCommittedInterfaces (sv_state (dm_server d)) \<noteq> None \<and>
     (\<forall>jc. GetCurrentJackConfig (sv_state (dm_server d)) = Some jc \<longrightarrow> mwf (entries (jc_Plugins jc)))"

lemma ordered_namespaces_total:
  assumes "\<And>jc. GetCurrentJackConfig (sv_state sv) = Some jc \<Longrightarrow> mwf (entries (jc_Plugins jc))"
  shows "\<exists>nss. ordered_namespaces load sv = Some nss"
proof (cases "GetCurrentJackConfig (sv_state sv)")
  case (Some jc)
  obtain xs where "orderPluginsByDependencies load (entries (jc_Plugins jc)) = Some xs"
    using order_correct [OF assms [OF Some], of load "\<lambda>_. 0"] by blast
  with Some show ?thesis by (simp add: ordered_namespaces_def)
qed (simp add: ordered_namespaces_def)

lemma execute_total:
  assumes "apply_ready d"
  shows "\<exists>d' r. executeApplyWithRollback load sys now snap d = Some (d', r) \<and> r \<noteq> Panic \<and> sr_ok (sv_services (dm_server d'))"
proof -
  obtain nss where nss: "ordered_namespaces load (dm_server d) = Some nss"
    using ordered_namespaces_total assms by (metis apply_ready_def)
  obtain sv1 e where p: "apply_plugins nss (dm_server d) = Ok (sv1, e)" "sr_ok (sv_services sv1)"
    using apply_plugins_total assms by (metis apply_ready_def)
  obtain c where c: "GetCommittedInterfaces (sv_state (dm_server d)) = Some c" using assms by (auto simp: apply_ready_def)
  have sr: "sr_ok (sv_services (dm_server d))" using assms by (simp add: apply_ready_def)
  have "sr_ok (sv_services (rollbackPlugins sv1))" using p(2) by (simp add: rollbackPlugins_def)
  with nss p c sr show ?thesis
    by (cases e) (auto simp: executeApplyWithRollback_def Let_def split: prod.splits option.splits)
qed

lemma apply_answers:
  assumes "apply_ready d" and "sy_CaptureSystemSnapshot sys (en_now env) (dm_world d) \<noteq> Panic"
  shows "\<exists>d' resp. handleApply load sys env d = Some (d', Ok resp) \<and> sr_ok (sv_services (dm_server d'))"
proof (cases "sy_CaptureSystemSnapshot sys (en_now env) (dm_world d)")
  case (Ok snap)
  obtain d1 e where s: "save_snapshot env (ss_CheckpointID snap) snap d = (d1, e)" by (metis surj_pair)
  note fr = save_snapshot_frame [OF s]
  have "apply_ready d1" using assms(1) fr by (auto simp: apply_ready_def same_config_def GetCommittedInterfaces_def
      GetCommitted_def GetCurrentJackConfig_def GetCurrent_def)
  then obtain d2 x where x: "executeApplyWithRollback load sys (en_now env) snap d1 = Some (d2, x)" "x \<noteq> Panic"
    "sr_ok (sv_services (dm_server d2))" using execute_total by blast
  then show ?thesis using Ok s
    by (cases x) (auto simp: handleApply_def Let_def prune_snapshots_def split: prod.splits)
qed (use assms in \<open>simp_all add: handleApply_def apply_ready_def\<close>)

section \<open>A second apply\<close>

lemma ConfigsEqual_refl [simp]: "ConfigsEqual (Some c) (Some c)"
  by (simp add: ConfigsEqual_def)

definition up_to_date :: "Server \<Rightarrow> string \<Rightarrow> bool" where
  "up_to_date sv ns \<longleftrightarrow>
     (\<exists>m. committed_layer (sv_state sv) ns = Some (CMap m) \<and>
        (GetPluginNameForNamespace (sv_registry sv) ns = None \<or>
         ConfigsEqual (Some (CMap m)) (applied_layer (sv_state sv) ns)))"

lemma committed_known: "committed_layer s k = Some c \<Longrightarrow> mget (st_registry s) k \<noteq> None"
  by (auto simp: committed_layer_def split: option.splits)

lemma plugin_config_committed:
  "committed_layer (sv_state sv) ns = Some (CMap m) \<Longrightarrow> plugin_config sv ns n = Ok (Some m)"
  using committed_known [of "sv_state sv" ns] by (auto simp: plugin_config_def GetCommitted_layers)

lemma up_to_date_skips: "up_to_date sv ns \<Longrightarrow> apply_plugin ns sv = Ok (sv, None)"
  using committed_known [of "sv_state sv" ns]
  by (auto simp: up_to_date_def apply_plugin_def plugin_config_committed GetLastApplied_layer split: option.splits)

lemma apply_makes_up_to_date:
  assumes "apply_plugin ns sv = Ok (sv', None)" and "committed_layer (sv_state sv) ns = Some (CMap m)"
  shows "up_to_date sv' ns"
proof (cases "up_to_date sv ns")
  case True
  with assms(1) show ?thesis by (simp add: up_to_date_skips)
next
  case False
  have known: "mget (st_registry (sv_state sv)) ns \<noteq> None" by (rule committed_known [OF assms(2)])
  from False assms(2) obtain n where n: "GetPluginNameForNamespace (sv_registry sv) ns = Some n"
    and ne: "\<not> ConfigsEqual (Some (CMap m)) (applied_layer (sv_state sv) ns)"
    by (auto simp: up_to_date_def)
  from assms(1) show ?thesis
  proof (cases rule: apply_plugin_cases)
    case skip
    with assms(1) n ne known show ?thesis
      by (auto simp: apply_plugin_def plugin_config_committed [OF assms(2)] GetLastApplied_layer Let_def
          dest: arg_cong [where f = sv_trace] split: option.splits)
  next
    case (applied cfg n' p sr)
    then show ?thesis
      using assms(2) plugin_config_committed [OF assms(2), of n'] by (simp add: up_to_date_def SetLastApplied_layers)
  qed simp
qed

lemma up_to_date_stays:
  assumes "up_to_date sv ns" and "apply_plugin ns' sv = Ok (sv', None)"
  shows "up_to_date sv' ns"
proof (cases "ns' = ns")
  case True
  with assms show ?thesis by (simp add: up_to_date_skips)
next
  case False
  with assms(2,1) show ?thesis
    by (cases rule: apply_plugin_cases) (auto simp: up_to_date_def SetLastApplied_layers)
qed

lemma apply_plugins_up_to_date:
  "apply_plugins nss sv = Ok (sv', None) \<Longrightarrow>
   (\<And>ns. ns \<in> set nss \<Longrightarrow> \<exists>m. committed_layer (sv_state sv) ns = Some (CMap m)) \<Longrightarrow>
   (\<forall>ns \<in> set nss. up_to_date sv' ns) \<and> (\<forall>ns. up_to_date sv ns \<longrightarrow> up_to_date sv' ns)"
proof (induction nss sv rule: apply_plugins.induct)
  case (2 ns rest sv)
  from 2(2) obtain sv1 where s: "apply_plugin ns sv = Ok (sv1, None)" "apply_plugins rest sv1 = Ok (sv', None)"
    by (auto split: outcome.splits option.splits)
  obtain m where "committed_layer (sv_state sv) ns = Some (CMap m)" using 2(3) [of ns] by auto
  then have "up_to_date sv1 ns" by (rule apply_makes_up_to_date [OF s(1)])
  moreover have "committed_layer (sv_state sv1) = committed_layer (sv_state sv)"
    using apply_plugin_frame [OF s(1)] by (simp add: plugin_frame_def)
  moreover note 2(1) [OF s(1) refl refl s(2)] 2(3) up_to_date_stays [OF _ s(1)]
  ultimately show ?case by auto
qed simp

lemma up_to_date_all: "\<forall>ns \<in> set nss. up_to_date sv ns \<Longrightarrow> apply_plugins nss sv = Ok (sv, None)"
  by (induction nss) (simp_all add: up_to_date_skips)

lemma GetCurrentJackConfig_layers:
  "GetCurrentJackConfig s =
     (case (committed_layer s ++ pending_layer s) ''jack'' of Some (CJack c) \<Rightarrow> Some c | _ \<Rightarrow> None)"
  by (auto simp: GetCurrentJackConfig_def GetCurrent_def layer_defs map_add_def split: option.splits config.splits)

lemma ordered_namespaces_frame: "plugin_frame sv sv' \<Longrightarrow> ordered_namespaces load sv' = ordered_namespaces load sv"
  unfolding plugin_frame_def ordered_namespaces_def GetCurrentJackConfig_layers by (elim conjE) (simp only:)

lemma ordered_namespaces_registered:
  assumes "reg_ok (sv_registry sv)" and "ordered_namespaces load sv = Some nss"
  shows "set nss \<subseteq> set (Registry_List (sv_registry sv))"
proof
  fix ns assume "ns \<in> set nss"
  with assms(2) consider "ns \<in> set (Registry_List (sv_registry sv))"
    | n where "GetNamespaceForPlugin (sv_registry sv) n = Some ns"
    by (auto simp: ordered_namespaces_def map_filter_def split: option.splits)
  then show "ns \<in> set (Registry_List (sv_registry sv))"
  proof cases
    case 2
    then have "ns \<in> set (map snd (pr_nameToNS (sv_registry sv)))"
      by (force simp: GetNamespaceForPlugin_def dest: map_of_SomeD)
    with assms(1) show ?thesis by (simp add: reg_ok_def Registry_List_def)
  qed
qed


text \<open>Whether an apply ended well; a question the examples can be asked.\<close>

definition applied_well :: "('w Daemon \<times> string list outcome) option \<Rightarrow> bool" where
  "applied_well r = (case r of Some (_, Ok _) \<Rightarrow> True | _ \<Rightarrow> False)"

lemma applied_well_iff: "applied_well r \<longleftrightarrow> (\<exists>d ws. r = Some (d, Ok ws))"
  by (auto simp: applied_well_def split: option.splits outcome.splits)


section \<open>Failures\<close>

text \<open>
  C4 (apply_failure_restores): an apply that fails has either changed nothing but the forwarding
  switch, which the kernel refused, or its last act on the kernel is to restore the snapshot taken before it:
  the forwarding switch and the interfaces, or everything when the routes were refused. It never
  reports success.
\<close>

theorem apply_failure_restores:
  assumes "executeApplyWithRollback load sys now snap d = Some (d', Err e)"
    and "reg_ok (sv_registry (dm_server d))" and "sr_ok (sv_services (dm_server d))"
  shows "(\<exists>e'. sy_EnableIPForwarding sys (dm_world d) = (dm_world d', Some e') \<and> dm_server d' = dm_server d) \<or>
         (\<exists>w scope. dm_world d' = fst (sy_RestoreSnapshot sys snap scope w) \<and>
            scope \<in> {[''ipforward'', ''interfaces''], [''all'']})"
  using assms(1)
proof (cases rule: execute_cases)
  case (stuck nss)
  with apply_plugins_total [OF assms(2,3), of nss] show ?thesis by blast
qed auto

theorem apply_failure_restores_witness:
  "\<exists>d' e. executeApplyWithRollback ex_load (ex_sys\<lparr>sy_ApplyInterfaceConfig := \<lambda>n i w. (w, Some ''busy'')\<rparr>) 100 ex_snap ex_daemon
      = Some (d', Err e) \<and> last (dm_world d') = ''restore''"
proof -
  let ?sys = "ex_sys\<lparr>sy_ApplyInterfaceConfig := \<lambda>n i w. (w, Some ''busy'')\<rparr>"
  let ?r = "executeApplyWithRollback ex_load ?sys 100 ex_snap ex_daemon"
  have "\<not> applied_well ?r \<and> ?r \<noteq> None \<and> snd (the ?r) \<noteq> Panic" by code_simp
  then obtain d' e where e: "?r = Some (d', Err e)"
    by (cases "snd (the ?r)") (auto simp: applied_well_iff)
  from apply_failure_restores [OF e] have "last (dm_world d') = ''restore''"
    using ex_registries by (auto simp: ex_daemon_def registries_ok_def ex_sys_def)
  with e show ?thesis by blast
qed

text \<open>
  The rollback after a failing plugin does not restore the plugins that
  were configured before it in the same apply. Each of them is flushed and sent the new configuration
  again, because that configuration has already been recorded as the last applied one.
\<close>

theorem rollback_reapplies_new:
  assumes "committed_layer (sv_state sv) a = Some (CMap m)" and "a \<noteq> b"
    and "GetPluginNameForNamespace (sv_registry sv) a = Some n"
    and "\<not> ConfigsEqual (Some (CMap m)) (applied_layer (sv_state sv) a)"
    and "apply_plugins [a, b] sv = Ok (sv', Some e)" and "apply_plugin a sv = Ok (sv1, None)"
  shows "rollback_calls sv' a = [PFlush a, PApply a (enc_config (CMap m))]"
proof -
  have b: "apply_plugin b sv1 = Ok (sv', Some e)"
    using assms(5,6) by (auto split: outcome.splits option.splits)
  have known: "mget (st_registry (sv_state sv)) a \<noteq> None" by (rule committed_known [OF assms(1)])
  have "applied_layer (sv_state sv1) a = Some (CMap m) \<and> sv_registry sv1 = sv_registry sv"
    using assms(6)
  proof (cases rule: apply_plugin_cases)
    case skip
    with assms(3,4,6) known show ?thesis
      by (auto simp: apply_plugin_def plugin_config_committed [OF assms(1)] GetLastApplied_layer Let_def
          dest: arg_cong [where f = sv_trace] split: option.splits)
  next
    case (applied cfg n' p sr)
    then show ?thesis using plugin_config_committed [OF assms(1), of n'] by (simp add: SetLastApplied_layers)
  qed simp
  moreover have "applied_layer (sv_state sv') = applied_layer (sv_state sv1) \<and> sv_registry sv' = sv_registry sv1"
    using b by (cases rule: apply_plugin_cases) simp_all
  ultimately have ap: "applied_layer (sv_state sv') a = Some (CMap m)" "sv_registry sv' = sv_registry sv" by simp_all
  then have "GetLastApplied (sv_state sv') a = Ok (Some (CMap m))"
    by (auto simp: GetLastApplied_def applied_layer_def split: option.splits)
  with ap(2) assms(3) show ?thesis by (simp add: rollback_calls_def)
qed

text \<open>Two plugins with committed configurations, of which the second refuses what it is sent.\<close>

definition named_plugin :: "string \<Rightarrow> (config option \<Rightarrow> goerror) \<Rightarrow> Plugin" where
  "named_plugin ns answer =
     ex_plugin\<lparr>pl_Metadata := (pl_Metadata ex_plugin)\<lparr>pm_Namespace := ns\<rparr>, pl_services := [], pl_ApplyConfig := answer\<rparr>"

definition ex_two :: Server where
  "ex_two = ex_server
     \<lparr>sv_registry := fst (Register (named_plugin ''b'' (\<lambda>_. Some ''no'')) ''pb''
                       (fst (Register (named_plugin ''a'' (\<lambda>_. None)) ''pa'' NewPluginRegistry))),
      sv_state := LoadCommitted ''b'' (Some (CMap (Some [])))
                    (LoadCommitted ''a'' (Some (CMap (Some [(''x'', JBool True)]))) NewState)\<rparr>"

text \<open>
  A plugin enabled by command has no committed configuration. The first
  apply sends it its configuration file, and records that; the second apply then finds an entry whose
  committed configuration is nil, and sends \<open>null\<close> to the running plugin.
\<close>

theorem enabled_plugin_gets_null:
  assumes "mget (st_registry (sv_state sv)) ns = None"
    and "GetPluginNameForNamespace (sv_registry sv) ns = Some n"
    and "Registry_Get (sv_registry sv) ns = Some p" and "sr_ok (sv_services sv)"
    and "LoadConfig (sv_dir sv) (sv_files sv) n = Loaded v" and "dec_generic v = Ok (Some m)"
    and "pl_ApplyConfig p (Some (CMap (Some m))) = None"
  shows "\<exists>sv1 sv2 e. apply_plugin ns sv = Ok (sv1, None) \<and> apply_plugin ns sv1 = Ok (sv2, e) \<and>
     sv_trace sv2 = sv_trace sv @ [PApply ns (enc_config (CMap (Some m))), PApply ns JNull]"
proof -
  obtain sr where sr: "mark_ready (pl_services p) (sv_services sv) = Ok sr" "sr_ok sr"
    using mark_ready_ok [OF assms(4)] by blast
  obtain sr2 where sr2: "mark_ready (pl_services p) sr = Ok sr2" using mark_ready_ok [OF sr(2)] by blast
  let ?st = "SetLastApplied ns (Some (CMap (Some m))) (sv_state sv)"
  let ?sv1 = "sv\<lparr>sv_trace := sv_trace sv @ [PApply ns (enc_config (CMap (Some m)))], sv_state := ?st, sv_services := sr\<rparr>"
  have "plugin_config sv ns n = Ok (Some (Some m))"
    using assms(1,5,6) by (simp add: plugin_config_def GetCommitted_def)
  then have 1: "apply_plugin ns sv = Ok (?sv1, None)"
    using assms(1-3,7) sr(1) by (simp add: apply_plugin_def GetLastApplied_def Let_def)
  have entry: "mget (st_registry ?st) ns = Some (zero_ConfigEntry\<lparr>ce_LastApplied := Some (CMap (Some m))\<rparr>)"
    using assms(1) by (simp add: SetLastApplied_def put_entry_get entry_of_def)
  have "plugin_config ?sv1 ns n = Ok (Some None)"
    using entry by (simp add: plugin_config_def GetCommitted_def zero_ConfigEntry_def)
  moreover have "\<not> ConfigsEqual (Some (CMap None)) (Some (CMap (Some m)))"
    by (simp add: ConfigsEqual_def)
  moreover have "GetLastApplied ?st ns = Ok (Some (CMap (Some m)))"
    using entry by (simp add: GetLastApplied_def)
  ultimately have "\<exists>sv2 e. apply_plugin ns ?sv1 = Ok (sv2, e) \<and>
      sv_trace sv2 = sv_trace ?sv1 @ [PApply ns JNull]"
    using assms(2,3) sr2 by (cases "pl_ApplyConfig p (Some (CMap None))") (simp_all add: apply_plugin_def Let_def)
  with 1 show ?thesis by auto
qed

definition ex_enabled :: Server where
  "ex_enabled = ex_server\<lparr>sv_state := NewState,
     sv_files := [(''/etc/jack/wireguard.json'', FJson (JObj [(''mtu'', JNum 1420)]))]\<rparr>"

end
