(* ===== verification/Daemon_Invariant.thy ===== *)
theory Daemon_Invariant
  imports Apply_Facts
begin

text \<open>
  The daemon as a state machine. A state is reachable when start-up, requests, observed network
  events and the reconciliations these start lead to it, in any order and for any behaviour of the kernel,
  the file system and the clock. Its invariant says that the stores stay typed and the two registries
  consistent, which is what apply relies on.
\<close>

section \<open>Reachable states\<close>

definition fresh :: "string \<Rightarrow> config_dir \<Rightarrow> snapshot_dir \<Rightarrow> 'w \<Rightarrow> 'w Daemon" where
  "fresh dir files snaps w =
     \<lparr>dm_server = \<lparr>sv_state = NewState, sv_registry = NewPluginRegistry, sv_services = NewServiceRegistry,
        sv_dir = dir, sv_files = files, sv_trace = []\<rparr>,
      dm_snaps = snaps, dm_observer = None, dm_reconciles = 0, dm_world = w\<rparr>"

inductive reachable :: "(string \<Rightarrow> Plugin outcome) \<Rightarrow> 'w Daemon \<Rightarrow> bool" for load where
  started: "Start load sys nl listed env onStartup (fresh dir files snaps w) = Some (Ok (d, None)) \<Longrightarrow> reachable load d"
| requested: "reachable load d \<Longrightarrow> handleRequest load available sys qu fmtv env req d = Some (d', Ok resp) \<Longrightarrow>
    reachable load d'"
| observed: "reachable load d \<Longrightarrow> reachable load (observe now u d)"
| reconciled: "reachable load d \<Longrightarrow> dm_reconciles d = Suc k \<Longrightarrow>
    reconcile load sys env (d\<lparr>dm_reconciles := k\<rparr>) = Some (d', Ok resp) \<Longrightarrow> reachable load d'"

section \<open>The invariant\<close>

definition jack_ok :: "config option \<Rightarrow> bool" where
  "jack_ok c \<longleftrightarrow> (case c of Some (CJack jc) \<Rightarrow> mwf (entries (jc_Plugins jc)) | _ \<Rightarrow> True)"

definition ifaces_ok :: "config option \<Rightarrow> bool" where
  "ifaces_ok c \<longleftrightarrow> (case c of None \<Rightarrow> True | Some (CInterfaces _) \<Rightarrow> True | _ \<Rightarrow> False)"

definition layers_ok :: "State \<Rightarrow> bool" where
  "layers_ok s \<longleftrightarrow>
     state_wf s \<and> (\<exists>c. committed_layer s ''interfaces'' = Some (CInterfaces c)) \<and> ifaces_ok (pending_layer s ''interfaces'') \<and>
     jack_ok (committed_layer s ''jack'') \<and> jack_ok (pending_layer s ''jack'')"

text \<open>Every registered name is one the loader answers for, with the namespace it was registered under.\<close>

definition names_ok :: "(string \<Rightarrow> Plugin outcome) \<Rightarrow> PluginRegistry \<Rightarrow> bool" where
  "names_ok load r \<longleftrightarrow>
     (\<forall>n ns. mget (pr_nameToNS r) n = Some ns \<longrightarrow> (\<exists>p. load n = Ok p \<and> pm_Namespace (pl_Metadata p) = ns))"

definition server_ok :: "(string \<Rightarrow> Plugin outcome) \<Rightarrow> Server \<Rightarrow> bool" where
  "server_ok load sv \<longleftrightarrow> layers_ok (sv_state sv) \<and> registries_ok sv \<and> names_ok load (sv_registry sv)"

lemma ifaces_ok_simps [simp]: "ifaces_ok None" "ifaces_ok (Some (CInterfaces c))"
  by (simp_all add: ifaces_ok_def)

lemma jack_ok_simps [simp]: "jack_ok None" "jack_ok (Some (CInterfaces c))" "jack_ok (Some (CMap m))" "jack_ok (Some (CRoutes r))"
  "jack_ok (Some (CJack jc)) \<longleftrightarrow> mwf (entries (jc_Plugins jc))"
  by (simp_all add: jack_ok_def)

lemma names_ok_stable: "names_ok load (sv_registry sv) \<Longrightarrow> stable_names load sv"
  unfolding names_ok_def stable_names_def by fastforce

section \<open>Operations of the state\<close>

lemma layers_ok_registry: "st_registry s' = st_registry s \<Longrightarrow> layers_ok s' \<longleftrightarrow> layers_ok s"
  by (simp add: layers_ok_def layer_defs state_wf_def)

lemma layers_ok_SetPending:
  assumes "layers_ok s" and "k = ''interfaces'' \<longrightarrow> ifaces_ok c" and "k = ''jack'' \<longrightarrow> jack_ok c"
  shows "layers_ok (SetPending k c s)"
  using assms by (simp add: layers_ok_def SetPending_layers state_wf_ops)

lemma layers_ok_LoadCommitted:
  assumes "layers_ok s" and "k \<noteq> ''interfaces''" and "k = ''jack'' \<longrightarrow> jack_ok c"
  shows "layers_ok (LoadCommitted k c s)"
  using assms by (simp add: layers_ok_def LoadCommitted_layers state_wf_ops)

lemma layers_ok_SetLastApplied: "layers_ok s \<Longrightarrow> layers_ok (SetLastApplied k c s)"
  by (simp add: layers_ok_def SetLastApplied_layers state_wf_ops)

lemma layers_ok_CommitPending: "layers_ok s \<Longrightarrow> layers_ok (fst (CommitPending s))"
  by (auto simp: layers_ok_def CommitPending_layers state_wf_ops map_add_def ifaces_ok_def split: option.splits config.splits)

lemma layers_ok_RevertPending: "layers_ok s \<Longrightarrow> layers_ok (fst (RevertPending s))"
  by (auto simp: layers_ok_def RevertPending_layers state_wf_ops)

lemma SetValue_kinds:
  assumes "ParseConfigType p = Ok ct" and "SetValue c p v = Ok c'"
  shows "ct = ''interfaces'' \<longrightarrow> ifaces_ok (Some c')" and "jack_ok (Some c')"
  using assms
  by (auto simp: ParseConfigType_def SetValue_def Let_def split: if_splits option.splits config.splits)

section \<open>Requests keep the invariant\<close>

lemma server_ok_frame:
  assumes "server_ok load sv" and "sv_registry sv' = sv_registry sv" and "sv_services sv' = sv_services sv"
    and "layers_ok (sv_state sv')"
  shows "server_ok load sv'"
  using assms by (simp add: server_ok_def registries_ok_def)

lemma set_ok: "server_ok load sv \<Longrightarrow> handleSet p v sv = Ok (sv', r) \<Longrightarrow> server_ok load sv'"
  by (erule handleSet_cases)
     (auto intro!: layers_ok_SetPending simp: server_ok_def registries_ok_def dest: SetValue_kinds)

lemma commit_ok: "server_ok load sv \<Longrightarrow> handleCommit st fl sv = (sv', r) \<Longrightarrow> server_ok load sv'"
proof -
  assume ok: "server_ok load sv" and c: "handleCommit st fl sv = (sv', r)"
  obtain st1 e1 where cp: "CommitPending (sv_state sv) = (st1, e1)" by (metis surj_pair)
  obtain sv2 e2 where sv: "save_types st fl (GetPendingTypes (sv_state sv)) (sv\<lparr>sv_state := st1\<rparr>) = (sv2, e2)" by (metis surj_pair)
  have "sv_state sv2 = st1 \<and> sv_registry sv2 = sv_registry sv \<and> sv_services sv2 = sv_services sv"
    using save_types_frame [of st fl "GetPendingTypes (sv_state sv)" "sv\<lparr>sv_state := st1\<rparr>"] sv by simp
  moreover have "sv' = sv \<or> sv' = sv\<lparr>sv_state := st1\<rparr> \<or> sv' = sv2"
    using c by (auto simp: handleCommit_def Let_def cp sv split: option.splits if_splits)
  ultimately have "(sv_state sv' = sv_state sv \<or> sv_state sv' = fst (CommitPending (sv_state sv))) \<and>
        sv_registry sv' = sv_registry sv \<and> sv_services sv' = sv_services sv" using cp by auto
  with ok show ?thesis
    by (intro server_ok_frame [OF ok]) (auto simp: server_ok_def layers_ok_CommitPending)
qed

lemma revert_ok: "server_ok load sv \<Longrightarrow> handleRevert sv = (sv', r) \<Longrightarrow> server_ok load sv'"
  by (auto simp: handleRevert_def server_ok_def registries_ok_def dest: layers_ok_RevertPending split: prod.splits option.splits)

lemma names_ok_Register:
  assumes "names_ok load r" and "load n = Ok p"
  shows "names_ok load (fst (Register p n r))"
  using assms by (auto simp: names_ok_def Register_def Let_def gomap_simps)

lemma names_ok_Unregister: "names_ok load r \<Longrightarrow> names_ok load (Unregister ns r)"
  by (auto simp: names_ok_def Unregister_def gomap_simps split: option.splits if_splits)

lemma enable_ok:
  assumes "server_ok load sv" and "handlePluginEnable load st f n sv = Ok (sv', r)"
  shows "server_ok load sv'"
proof -
  have "registries_ok sv'"
    using assms registries_after_enable [OF _ _ assms(2)] names_ok_stable [of load sv] by (simp add: server_ok_def)
  moreover from enable_cases [OF assms(2)] have "sv_state sv' = sv_state sv \<and> names_ok load (sv_registry sv')"
    using assms(1) names_ok_Register [of load "sv_registry sv" n]
    by (auto simp: server_ok_def intro: names_ok_Unregister split: if_splits)
  ultimately show ?thesis using assms(1) by (simp add: server_ok_def)
qed

lemma disable_ok:
  assumes "server_ok load sv" and "handlePluginDisable st f n sv = Ok (sv', r)"
  shows "server_ok load sv'"
proof -
  have "registries_ok sv'"
    using assms registries_after_disable [OF _ assms(2)] by (simp add: server_ok_def)
  moreover from disable_cases [OF assms(2)] have "sv_state sv' = sv_state sv \<and> names_ok load (sv_registry sv')"
    using assms(1) by (auto simp: server_ok_def names_ok_Unregister)
  ultimately show ?thesis using assms(1) by (simp add: server_ok_def)
qed

lemma rescan_ok:
  assumes "server_ok load sv" and "handlePluginRescan load av st f sv = Ok (sv', r)"
  shows "server_ok load sv'"
  using assms
  by (auto simp: handlePluginRescan_def server_ok_def registries_ok_def dest!: save_jack_frame
      split: outcome.splits if_splits prod.splits)

section \<open>Apply and rollback keep the invariant\<close>

lemma apply_plugin_ok:
  assumes "server_ok load sv" and "apply_plugin ns sv = Ok (sv', e)"
  shows "server_ok load sv'"
  using assms(2)
proof (cases rule: apply_plugin_cases)
  case (applied cfg n p sr)
  have "sr_ok sr" using mark_ready_ok [of "sv_services sv" "pl_services p"] applied(6) assms(1)
    by (auto simp: server_ok_def registries_ok_def)
  with applied assms(1) show ?thesis
    by (simp add: server_ok_def registries_ok_def layers_ok_SetLastApplied)
qed (use assms in \<open>simp_all add: server_ok_def registries_ok_def\<close>)

lemma apply_plugins_ok: "apply_plugins nss sv = Ok (sv', e) \<Longrightarrow> server_ok load sv \<Longrightarrow> server_ok load sv'"
proof (induction nss sv rule: apply_plugins.induct)
  case (2 ns rest sv)
  then obtain sv1 e1 where s: "apply_plugin ns sv = Ok (sv1, e1)"
    by (auto split: outcome.splits option.splits)
  with 2 apply_plugin_ok [OF 2(3) s] show ?case by (cases e1) auto
qed simp

lemma rollbackPlugins_ok: "server_ok load sv \<Longrightarrow> server_ok load (rollbackPlugins sv)"
  by (simp add: server_ok_def registries_ok_def rollbackPlugins_def)

lemma execute_ok:
  assumes "executeApplyWithRollback load sys now snap d = Some (d', r)" and "server_ok load0 (dm_server d)"
  shows "server_ok load0 (dm_server d')"
  using assms(1)
  by (cases rule: execute_cases) (use assms(2) in \<open>auto intro: rollbackPlugins_ok dest: apply_plugins_ok\<close>)

lemma save_snapshot_ok:
  "save_snapshot env c snap d = (d', e) \<Longrightarrow> server_ok load (dm_server d) \<Longrightarrow> server_ok load (dm_server d')"
  using save_snapshot_frame [of env c snap d d' e] layers_ok_registry [of "sv_state (dm_server d')" "sv_state (dm_server d)"]
  by (auto simp: server_ok_def registries_ok_def same_config_def)

lemma prune_snapshots_ok: "server_ok load (dm_server d) \<Longrightarrow> server_ok load (dm_server (prune_snapshots n d))"
  using prune_snapshots_frame(1) [of d n] prune_snapshots_frame(2) [of n d] layers_ok_registry [of "sv_state (dm_server (prune_snapshots n d))" "sv_state (dm_server d)"]
  by (auto simp: server_ok_def registries_ok_def same_config_def prune_snapshots_def split: prod.splits)

lemma apply_ok:
  assumes "handleApply load0 sys env d = Some (d', r)" and "server_ok load (dm_server d)"
  shows "server_ok load (dm_server d')"
  using assms(1)
proof (cases rule: handleApply_cases)
  case capture
  with assms(2) show ?thesis by simp
next
  case (failed snap x)
  show ?thesis
    using execute_ok [OF failed(2)] save_snapshot_ok [OF surjective_pairing] assms(2) by blast
next
  case (success snap d2 ws m)
  have "server_ok load (dm_server d2)"
    using execute_ok [OF success(2)] save_snapshot_ok [OF surjective_pairing] assms(2) by blast
  with success(3) show ?thesis by (simp add: prune_snapshots_ok)
qed

lemma rollback_ok:
  assumes "handleRollback sys c d = (d', r)" and "server_ok load (dm_server d)"
  shows "server_ok load (dm_server d')"
  using assms
  by (auto simp: handleRollback_def Let_def rollbackPlugins_ok split: outcome.splits prod.splits option.splits)

lemma checkpoint_ok:
  assumes "handleCheckpointCreate sys env d = (d', r)" and "server_ok load (dm_server d)"
  shows "server_ok load (dm_server d')"
  using assms
  by (auto simp: handleCheckpointCreate_def Let_def split: outcome.splits prod.splits option.splits
      dest: save_snapshot_ok)

section \<open>Every request keeps the invariant\<close>

lemma on_server_ok:
  assumes "on_server d x = Some (d', Ok resp)" and "server_ok load (dm_server d)"
    and "\<And>sv r. x = Ok (sv, r) \<Longrightarrow> server_ok load sv"
  shows "server_ok load (dm_server d')"
  using assms by (auto simp: on_server_def split: outcome.splits)

lemma reading_ok: "reading d x = Some (d', Ok resp) \<Longrightarrow> server_ok load (dm_server d) \<Longrightarrow> server_ok load (dm_server d')"
  by (auto simp: reading_def)

lemma request_ok:
  assumes "handleRequest load av sys qu fmtv env req d = Some (d', Ok resp)" and "server_ok load (dm_server d)"
  shows "server_ok load (dm_server d')"
proof -
  note ok = assms(2)
  note on = on_server_ok [OF _ ok]
  show ?thesis
    using assms(1) unfolding handleRequest_def Let_def
    by (auto split: if_splits
        intro: reading_ok [OF _ ok] on set_ok [OF ok] commit_ok [OF ok] revert_ok [OF ok] enable_ok [OF ok]
          disable_ok [OF ok] rescan_ok [OF ok] apply_ok [OF _ ok] rollback_ok [OF _ ok] checkpoint_ok [OF _ ok])
qed

section \<open>Start-up establishes the invariant\<close>

definition start_ok :: "(string \<Rightarrow> Plugin outcome) \<Rightarrow> Server \<Rightarrow> bool" where
  "start_ok load sv \<longleftrightarrow>
     state_wf (sv_state sv) \<and> pending_layer (sv_state sv) = Map.empty \<and> jack_ok (committed_layer (sv_state sv) ''jack'') \<and>
     registries_ok sv \<and> names_ok load (sv_registry sv)"

lemma set_plugin_state_mwf:
  "set_plugin_state n ps jc = Ok jc' \<Longrightarrow> mwf (entries (jc_Plugins jc)) \<Longrightarrow> mwf (entries (jc_Plugins jc'))"
  by (auto simp: set_plugin_state_def map_assign_def entries_def gomap_wf split: option.splits)

lemma start_ok_LoadCommitted: "start_ok load sv \<Longrightarrow> k = ''jack'' \<longrightarrow> jack_ok c \<Longrightarrow>
    start_ok load (sv\<lparr>sv_state := LoadCommitted k c (sv_state sv)\<rparr>)"
  by (auto simp: start_ok_def LoadCommitted_layers state_wf_ops registries_ok_def fun_eq_iff)

lemma loadSinglePlugin_start_ok:
  assumes "loadSinglePlugin load name (jc, sv) = Ok ((jc', sv'), err)" and "start_ok load sv" and "mwf (entries (jc_Plugins jc))"
  shows "start_ok load sv' \<and> mwf (entries (jc_Plugins jc'))"
proof (cases "load name")
  case (Ok p)
  let ?ns = "pm_Namespace (pl_Metadata p)"
  obtain reg re where reg: "Register p name (sv_registry sv) = (reg, re)" by (metis surj_pair)
  obtain sr se where sr: "RegisterPlugin ?ns p (pl_services p) (sv_services sv) = (sr, se)" by (metis surj_pair)
  have r: "registries_ok sv" "names_ok load (sv_registry sv)" using assms(2) by (auto simp: start_ok_def)
  have ok: "reg_ok reg" "sr_ok sr" "names_ok load reg"
    using Register_ok [of sv load name p] names_ok_stable r Ok reg sr names_ok_Register [OF r(2) Ok]
      sr_ok_RegisterPlugin [of "sv_services sv" ?ns p "pl_services p"]
    by (auto simp: registries_ok_def)
  have st: "state_wf (sv_state sv)" "pending_layer (sv_state sv) = Map.empty" "jack_ok (committed_layer (sv_state sv) ''jack'')"
    using assms(2) by (auto simp: start_ok_def)
  let ?cfg = "initial_config sv name (pl_Metadata p)"
  let ?st = "LoadCommitted ?ns (Some (CMap ?cfg)) (sv_state sv)"
  have st': "state_wf ?st" "pending_layer ?st = Map.empty" "jack_ok (committed_layer ?st ''jack'')"
    using st by (auto simp: LoadCommitted_layers state_wf_ops fun_eq_iff)
  obtain r' where r': "mark_ready (pl_services p) sr = Ok r'" "sr_ok r'" using mark_ready_ok [OF ok(2)] by blast
  note facts = Ok reg sr r' ok st st' r reg_ok_Unregister [OF ok(1)] names_ok_Unregister [OF ok(3)]
  have "mwf (entries (jc_Plugins jc'))"
    using assms(1,3) Ok reg sr r'(1)
    by (cases re; cases se; cases "pl_ApplyConfig p (Some (CMap ?cfg))")
       (auto simp: loadSinglePlugin_def Let_def dest: set_plugin_state_mwf split: if_splits)
  moreover have "start_ok load sv'"
    using assms(1) facts
    by (cases re; cases se; cases "pl_ApplyConfig p (Some (CMap ?cfg))")
       (auto simp: loadSinglePlugin_def Let_def start_ok_def registries_ok_def closed_def split: if_splits)
  ultimately show ?thesis by simp
qed (use assms in \<open>auto simp: loadSinglePlugin_def\<close>)

lemma wave_start_ok:
  "wave load names ls n = Ok (ls', n') \<Longrightarrow> start_ok load (ls_server ls) \<Longrightarrow> mwf (entries (jc_Plugins (ls_jack ls))) \<Longrightarrow>
   start_ok load (ls_server ls') \<and> mwf (entries (jc_Plugins (ls_jack ls')))"
proof (induction load names ls n rule: wave.induct)
  case (2 load name rest ls n)
  show ?case
  proof (cases "name \<in> set (ls_loaded ls) \<or> \<not> canLoadPlugin load (ls_server ls) name")
    case True
    with 2 show ?thesis by (auto split: if_splits)
  next
    case False
    with 2 obtain jc sv err where l: "loadSinglePlugin load name (ls_jack ls, ls_server ls) = Ok ((jc, sv), err)"
      by (auto split: outcome.splits)
    from False 2 l loadSinglePlugin_start_ok [OF l] show ?thesis by auto
  qed
qed simp

lemma waves_start_ok:
  "waves fuel load en ls = Some (Ok ls') \<Longrightarrow> start_ok load (ls_server ls) \<Longrightarrow> mwf (entries (jc_Plugins (ls_jack ls))) \<Longrightarrow>
   start_ok load (ls_server ls') \<and> mwf (entries (jc_Plugins (ls_jack ls')))"
proof (induction fuel arbitrary: ls)
  case 0
  then show ?case by (simp add: waves.simps split: if_splits)
next
  case (Suc k)
  show ?case
  proof (cases "length en \<le> length (ls_loaded ls)")
    case True
    with Suc.prems show ?thesis by (simp add: waves.simps)
  next
    case False
    with Suc.prems obtain ls1 n1 where w: "wave load en ls 0 = Ok (ls1, n1)"
      by (auto simp: waves.simps [of "Suc k"] split: outcome.splits)
    from False Suc w wave_start_ok [OF w] show ?thesis
      by (auto simp: waves.simps [of "Suc k"] split: if_splits)
  qed
qed

lemma loadPlugins_start_ok:
  assumes "loadPlugins load st f sv = Some (Ok (sv', e))" and "start_ok load sv"
  shows "start_ok load sv'"
proof (cases "LoadJackConfig (sv_dir sv) (sv_files sv)")
  case (Ok jc)
  let ?en = "enabled_of (entries (jc_Plugins jc))"
  let ?ls = "\<lparr>ls_loaded = [], ls_jack = jc, ls_server = sv\<rparr>"
  obtain ls where ls: "waves (length ?en) load ?en ?ls = Some (Ok ls)"
    using assms(1) Ok by (auto simp: loadPlugins_def Let_def split: option.splits outcome.splits)
  have ok: "start_ok load (ls_server ls)" "mwf (entries (jc_Plugins (ls_jack ls)))"
    using waves_start_ok [OF ls] assms(2) LoadJackConfig_shape(2) [OF Ok] by auto
  obtain files where "sv' = (ls_server ls)\<lparr>sv_files := files, sv_state := LoadCommittedJackConfig (ls_jack ls) (sv_state (ls_server ls))\<rparr>"
    using assms(1) Ok ls by (auto simp: loadPlugins_def Let_def split: prod.splits)
  with start_ok_LoadCommitted [OF ok(1), of "''jack''" "Some (CJack (ls_jack ls))"] ok(2) show ?thesis
    by (auto simp: start_ok_def registries_ok_def LoadCommittedJackConfig_def)
qed (use assms in \<open>auto simp: loadPlugins_def\<close>)

lemma load_plugin_config_ok:
  assumes "server_ok load sv" and "\<And>n p. load n = Ok p \<Longrightarrow> pm_Namespace (pl_Metadata p) \<noteq> ''interfaces''"
  shows "server_ok load (load_plugin_config ns sv)"
proof (cases "GetPluginNameForNamespace (sv_registry sv) ns")
  case (Some n)
  then have "mget (pr_nameToNS (sv_registry sv)) n = Some ns"
    using assms(1) by (auto simp: server_ok_def registries_ok_def GetPluginNameForNamespace_def name_entry_Some_iff)
  then have "ns \<noteq> ''interfaces''" using assms unfolding server_ok_def names_ok_def by metis
  with Some assms(1) show ?thesis
    by (auto simp: load_plugin_config_def Let_def server_ok_def registries_ok_def intro!: layers_ok_LoadCommitted)
qed (use assms in \<open>simp add: load_plugin_config_def\<close>)

lemma load_plugin_configs_ok:
  assumes "\<And>n p. load n = Ok p \<Longrightarrow> pm_Namespace (pl_Metadata p) \<noteq> ''interfaces''"
  shows "server_ok load sv \<Longrightarrow> server_ok load (foldl (\<lambda>sv ns. load_plugin_config ns sv) sv nss)"
  by (induction nss arbitrary: sv) (use assms load_plugin_config_ok in auto)

lemma fresh_ok: "start_ok load (dm_server (fresh dir files snaps w))"
  using reg_ok_new sr_ok_new
  by (auto simp: fresh_def start_ok_def registries_ok_def names_ok_def NewState_def state_wf_def
      NewPluginRegistry_def layer_defs mwf_def)

lemma Start_ok:
  assumes "Start load sys nl listed env b d0 = Some (Ok (d, None))" and "start_ok load (dm_server d0)"
    and "\<And>n p. load n = Ok p \<Longrightarrow> pm_Namespace (pl_Metadata p) \<noteq> ''interfaces''"
  shows "server_ok load (dm_server d)"
proof -
  obtain sv1 e1 where sv1: "loadPlugins load (en_stamp env) (en_fault env ''jack'') (dm_server d0) = Some (Ok (sv1, e1))"
    using assms(1) by (auto simp: Start_def split: option.splits outcome.splits)
  have ok1: "start_ok load sv1" using loadPlugins_start_ok [OF sv1 assms(2)] .
  let ?sv2 = "sv1\<lparr>sv_state := fst (LoadSnapshotsFromDisk (en_dir_ok env) listed (sv_state sv1))\<rparr>"
  obtain files r where l: "LoadInterfacesConfig (sv_dir ?sv2) (en_stamp env) (en_fault env ''interfaces'') nl (sv_files ?sv2) = (files, r)"
    by (metis surj_pair)
  then obtain ic where r: "r = Ok ic" using assms(1) sv1 by (cases r) (auto simp: Start_def Let_def)
  have reg2: "st_registry (sv_state ?sv2) = st_registry (sv_state sv1)"
    by (simp add: LoadSnapshotsFromDisk_def Let_def split: option.splits)
  then have s2: "state_wf (sv_state ?sv2)" "pending_layer (sv_state ?sv2) = Map.empty"
    "jack_ok (committed_layer (sv_state ?sv2) ''jack'')"
    using ok1 by (simp_all add: start_ok_def layer_defs state_wf_def fun_eq_iff)
  let ?sv4 = "?sv2\<lparr>sv_files := files, sv_state := LoadCommittedRoutes (load_routes (?sv2\<lparr>sv_files := files,
      sv_state := LoadCommittedInterfaces ic (sv_state ?sv2)\<rparr>)) (LoadCommittedInterfaces ic (sv_state ?sv2))\<rparr>"
  have "server_ok load ?sv4"
    using ok1 s2 by (simp add: start_ok_def server_ok_def layers_ok_def registries_ok_def LoadCommittedRoutes_def
        LoadCommittedInterfaces_def LoadCommitted_layers state_wf_ops)
  moreover have "dm_server d = foldl (\<lambda>sv ns. load_plugin_config ns sv) ?sv4 (Registry_List (sv_registry ?sv4))"
    using assms(1) sv1 l r by (auto simp: Start_def Let_def mark_change_def split: if_splits option.splits)
  ultimately show ?thesis using load_plugin_configs_ok [OF assms(3)] by simp
qed

section \<open>The invariant of the daemon\<close>

lemma reachable_server_ok:
  assumes "reachable load d" and "\<And>n p. load n = Ok p \<Longrightarrow> pm_Namespace (pl_Metadata p) \<noteq> ''interfaces''"
  shows "server_ok load (dm_server d)"
  using assms(1)
proof (induction rule: reachable.induct)
  case started
  then show ?case using Start_ok fresh_ok assms(2) by metis
next
  case requested
  then show ?case by (blast intro: request_ok)
next
  case (observed d now u)
  then show ?case by (simp add: observe_def split: option.splits prod.splits)
next
  case (reconciled d k sys env d' resp)
  then show ?case using apply_ok [of load sys env "mark_change (en_now env) (d\<lparr>dm_reconciles := k\<rparr>)" d' "Ok resp" load]
    by (simp add: reconcile_def mark_change_def)
qed

lemma layers_ok_interfaces: "layers_ok s \<Longrightarrow> GetCommittedInterfaces s \<noteq> None"
  by (auto simp: layers_ok_def GetCommittedInterfaces_def GetCommitted_def committed_layer_def split: option.splits)

lemma layers_ok_jack: "layers_ok s \<Longrightarrow> GetCurrentJackConfig s = Some jc \<Longrightarrow> mwf (entries (jc_Plugins jc))"
  unfolding layers_ok_def GetCurrentJackConfig_def GetCurrent_def committed_layer_def pending_layer_def
  by (auto split: option.splits config.splits outcome.splits if_splits)

lemma server_ok_ready: "server_ok load (dm_server d) \<Longrightarrow> apply_ready d"
  using layers_ok_interfaces layers_ok_jack
  by (auto simp: server_ok_def registries_ok_def apply_ready_def)

definition ex_boot :: "string \<Rightarrow> Plugin outcome" where
  "ex_boot n = (if n = ''wireguard'' then Ok ex_plugin else Err ''not found'')"

definition ex_nl :: Netlink where
  "ex_nl =
     \<lparr>nl_LinkList = Some [\<lparr>ln_Name = ''eth0'', ln_Index = 2, ln_Kind = LDevice, ln_Up = True, ln_Loopback = False\<rparr>],
      nl_LinkByIndex = (\<lambda>_. None), nl_AddrList = (\<lambda>_. None), nl_RouteList = Some []\<rparr>"

definition ex_started :: "string list Daemon" where
  "ex_started =
     (case Start ex_boot ex_sys ex_nl (Some []) ex_env True (fresh ''/etc/jack'' [] [] []) of
        Some (Ok (d, None)) \<Rightarrow> d | _ \<Rightarrow> ex_daemon)"

lemma ex_started_reachable: "reachable ex_boot ex_started"
proof -
  let ?s = "Start ex_boot ex_sys ex_nl (Some []) ex_env True (fresh ''/etc/jack'' [] [] [])"
  have "(case ?s of Some (Ok (d, None)) \<Rightarrow> True | _ \<Rightarrow> False)" by code_simp
  then obtain d where "?s = Some (Ok (d, None))" by (auto split: option.splits outcome.splits)
  then show ?thesis by (auto simp: ex_started_def intro: reachable.started)
qed

lemma ex_boot_namespaces: "ex_boot n = Ok p \<Longrightarrow> pm_Namespace (pl_Metadata p) \<noteq> ''interfaces''"
  by (auto simp: ex_boot_def ex_plugin_def split: if_splits)

section \<open>Properties\<close>





end
