(* ===== verification/Kernel.thy ===== *)
theory Kernel
  imports Go_Net Types
begin

text \<open>
  What the system layer (\<open>src/system\<close>) works with: the address arithmetic of Go's \<open>net\<close> package, and the
  client interfaces of \<open>src/system/interfaces.go\<close> through which it reaches the kernel. The kernel itself is a
  state of any type, and the clients are a record of operations on it.
\<close>

section \<open>Addresses and networks of the net package\<close>

text \<open>An address or a mask is its bytes; the empty list is nil.\<close>

record IPNet =
  in_IP :: ip
  in_Mask :: "nat list"

definition ip_To4 :: "ip \<Rightarrow> ip" where
  "ip_To4 a =
     (if length a = 4 then a
      else if length a = 16 then (case To4 a of Some b \<Rightarrow> b | None \<Rightarrow> [])
      else [])"

definition v4_in_v6 :: "nat list" where
  "v4_in_v6 = replicate 10 0 @ [255, 255]"

definition ip_Equal :: "ip \<Rightarrow> ip \<Rightarrow> bool" where
  "ip_Equal a b \<longleftrightarrow>
     (if length a = length b then a = b
      else if length a = 4 \<and> length b = 16 then take 12 b = v4_in_v6 \<and> a = drop 12 b
      else if length a = 16 \<and> length b = 4 then take 12 a = v4_in_v6 \<and> drop 12 a = b
      else False)"

definition hex_digit :: "nat \<Rightarrow> char" where
  "hex_digit n = char_of (if n < 10 then 48 + n else 87 + n)"

definition hex_byte :: "nat \<Rightarrow> string" where
  "hex_byte b = [hex_digit (b div 16), hex_digit (b mod 16)]"

definition mask_String :: "nat list \<Rightarrow> string" where
  "mask_String m = (if m = [] then ''<nil>'' else concat (map hex_byte m))"

text \<open>One byte of a mask: the number of leading ones when it has that shape.\<close>

definition byte_ones :: "nat \<Rightarrow> nat option" where
  "byte_ones b = find (\<lambda>k. b = 256 - 2 ^ (8 - k)) [0..<8]"

fun simpleMaskLength :: "nat list \<Rightarrow> nat option" where
  "simpleMaskLength [] = Some 0"
| "simpleMaskLength (v # m) =
     (if v = 255 then map_option (\<lambda>n. n + 8) (simpleMaskLength m)
      else case byte_ones v of
        None \<Rightarrow> None
      | Some k \<Rightarrow> if list_all (\<lambda>b. b = 0) m then Some k else None)"

definition networkNumberAndMask :: "IPNet \<Rightarrow> (ip \<times> nat list) option" where
  "networkNumberAndMask n =
     (let ip = (if ip_To4 (in_IP n) = [] then in_IP n else ip_To4 (in_IP n)); m = in_Mask n in
      if length ip \<noteq> 4 \<and> length ip \<noteq> 16 then None
      else if length m = 4 then (if length ip \<noteq> 4 then None else Some (ip, m))
      else if length m = 16 then Some (ip, if length ip = 4 then drop 12 m else m)
      else None)"

subsection \<open>Printing\<close>

text \<open>A group of an IPv6 address: at most four hexadecimal digits without leading zeros.\<close>

definition hex_group :: "nat \<Rightarrow> string" where
  "hex_group w =
     (if w \<ge> 4096 then [hex_digit (w div 4096)] else []) @
     (if w \<ge> 256 then [hex_digit (w div 256 mod 16)] else []) @
     (if w \<ge> 16 then [hex_digit (w div 16 mod 16)] else []) @ [hex_digit (w mod 16)]"

fun v6_words :: "nat list \<Rightarrow> nat list" where
  "v6_words (a # b # r) = (a * 256 + b) # v6_words r"
| "v6_words r = []"

definition zeros_at :: "nat list \<Rightarrow> nat \<Rightarrow> nat" where
  "zeros_at ws i = length (takeWhile (\<lambda>w. w = 0) (drop i ws))"

text \<open>The first longest run of at least two zero groups, as start and end.\<close>

definition zero_run :: "nat list \<Rightarrow> (nat \<times> nat) option" where
  "zero_run ws =
     foldl (\<lambda>best i.
        let l = zeros_at ws i in
        if l \<ge> 2 \<and> l > (case best of None \<Rightarrow> 0 | Some (s, e) \<Rightarrow> e - s) then Some (i, i + l) else best)
       None [0..<length ws]"

definition show_v6 :: "nat list \<Rightarrow> string" where
  "show_v6 a =
     (let ws = v6_words a in
      case zero_run ws of
        None \<Rightarrow> join_with '':'' (map hex_group ws)
      | Some (s, e) \<Rightarrow>
          join_with '':'' (map hex_group (take s ws)) @ ''::'' @ join_with '':'' (map hex_group (drop e ws)))"

definition ip_String :: "ip \<Rightarrow> string" where
  "ip_String a =
     (if a = [] then ''<nil>''
      else if length a \<noteq> 4 \<and> length a \<noteq> 16 then ''?'' @ concat (map hex_byte a)
      else if ip_To4 a \<noteq> [] then show_v4 (ip_To4 a)
      else show_v6 a)"

definition net_String :: "IPNet \<Rightarrow> string" where
  "net_String n =
     (case networkNumberAndMask n of
        None \<Rightarrow> ''<nil>''
      | Some (ip, m) \<Rightarrow>
          (case simpleMaskLength m of
             None \<Rightarrow> ip_String ip @ ''/'' @ mask_String m
           | Some l \<Rightarrow> ip_String ip @ ''/'' @ show_nat l))"

definition net_Contains :: "IPNet \<Rightarrow> ip \<Rightarrow> bool" where
  "net_Contains n ip0 =
     (let ip = (if ip_To4 ip0 = [] then ip0 else ip_To4 ip0) in
      case networkNumberAndMask n of
        None \<Rightarrow> ip = []
      | Some (nn, m) \<Rightarrow>
          length ip = length nn \<and>
          list_all (\<lambda>(a, b, k). and a k = and b k) (zip nn (zip ip m)))"

text \<open>\<open>net.ParseCIDR\<close>: the network of a literal; an IPv4 network keeps four bytes.\<close>

definition cidr_bytes :: "nat \<Rightarrow> nat \<Rightarrow> nat list" where
  "cidr_bytes n len = mask_bytes n (replicate len 255)"

definition ParseCIDR_net :: "string \<Rightarrow> IPNet option" where
  "ParseCIDR_net s =
     (case ParseCIDR s of
        None \<Rightarrow> None
      | Some (bs, n, bits) \<Rightarrow>
          Some (if bits = 32 then \<lparr>in_IP = drop 12 bs, in_Mask = cidr_bytes n 4\<rparr>
                else \<lparr>in_IP = bs, in_Mask = cidr_bytes n 16\<rparr>))"

text \<open>\<open>net.IPMask(net.ParseIP(netmask).To4())\<close>: nil when the text is not an IPv4 address.\<close>

definition dotted_mask :: "string \<Rightarrow> nat list" where
  "dotted_mask netmask = (case ParseIP netmask of None \<Rightarrow> [] | Some a \<Rightarrow> ip_To4 a)"

section \<open>What netlink reports\<close>

record KLink =
  lk_Name :: string
  lk_Index :: int
  lk_MTU :: int
  lk_Up :: bool
  lk_MasterIndex :: int
  lk_ParentIndex :: int
  lk_Type :: string
  lk_VlanId :: "int option"

text \<open>The VLAN number is there when the link is a \<open>*netlink.Vlan\<close>.\<close>

record NRoute =
  nr_Dst :: "IPNet option"
  nr_Gw :: ip
  nr_LinkIndex :: int
  nr_Priority :: int
  nr_Table :: int
  nr_Scope :: int
  nr_Protocol :: int

definition zero_KLink :: KLink where
  "zero_KLink = \<lparr>lk_Name = [], lk_Index = 0, lk_MTU = 0, lk_Up = False, lk_MasterIndex = 0, lk_ParentIndex = 0,
     lk_Type = [], lk_VlanId = None\<rparr>"

definition zero_NRoute :: NRoute where
  "zero_NRoute = \<lparr>nr_Dst = None, nr_Gw = [], nr_LinkIndex = 0, nr_Priority = 0, nr_Table = 0, nr_Scope = 0, nr_Protocol = 0\<rparr>"

section \<open>Clients\<close>

text \<open>
  The operations of \<open>NetlinkClient\<close>, \<open>FilesystemClient\<close> and \<open>CommandRunner\<close> that the managers call, with the
  other calls into the operating system (\<open>exec\<close>, \<open>os.CreateTemp\<close>, \<open>netlink.ParseAddr\<close>). Queries read the
  state, commands may change it and report an error; addresses and routes are listed for the IPv4
  family, and of an address only its network is used.
\<close>

type_synonym 'w act = "'w \<Rightarrow> 'w \<times> goerror"

record 'w Clients =
  cl_LinkByName :: "string \<Rightarrow> 'w \<Rightarrow> string + KLink"
  cl_LinkByIndex :: "int \<Rightarrow> 'w \<Rightarrow> string + KLink"
  cl_LinkList :: "'w \<Rightarrow> string + KLink list"
  cl_LinkAdd :: "KLink \<Rightarrow> 'w act"
  cl_LinkDel :: "KLink \<Rightarrow> 'w act"
  cl_LinkSetUp :: "KLink \<Rightarrow> 'w act"
  cl_LinkSetDown :: "KLink \<Rightarrow> 'w act"
  cl_LinkSetMTU :: "KLink \<Rightarrow> int \<Rightarrow> 'w act"
  cl_LinkSetMaster :: "KLink \<Rightarrow> KLink \<Rightarrow> 'w act"
  cl_LinkSetNoMaster :: "KLink \<Rightarrow> 'w act"
  cl_AddrList :: "KLink \<Rightarrow> 'w \<Rightarrow> string + IPNet list"
  cl_AddrAdd :: "KLink \<Rightarrow> IPNet \<Rightarrow> 'w act"
  cl_AddrDel :: "KLink \<Rightarrow> IPNet \<Rightarrow> 'w act"
  cl_RouteAdd :: "NRoute \<Rightarrow> 'w act"
  cl_RouteDel :: "NRoute \<Rightarrow> 'w act"
  cl_RouteList :: "KLink option \<Rightarrow> 'w \<Rightarrow> string + NRoute list"
  cl_ReadFile :: "string \<Rightarrow> 'w \<Rightarrow> string + string"
  cl_WriteFile :: "string \<Rightarrow> string \<Rightarrow> 'w act"
  cl_Run :: "string list \<Rightarrow> 'w \<Rightarrow> 'w \<times> string \<times> goerror"
  cl_LookPath :: "string \<Rightarrow> 'w \<Rightarrow> goerror"
  cl_CommandRun :: "string list \<Rightarrow> 'w act"
  cl_CommandStart :: "string list \<Rightarrow> 'w act"
  cl_CreateTemp :: "string \<Rightarrow> 'w \<Rightarrow> 'w \<times> (string + string)"
  cl_Remove :: "string \<Rightarrow> 'w act"
  cl_ParseAddr :: "string \<Rightarrow> string + IPNet"

section \<open>Actions\<close>

text \<open>
  Early return on the first error, wrapping of an error, a loop that returns on the first error, and a
  call whose error is only logged.
\<close>

definition nop :: "'w act" where
  "nop w = (w, None)"

definition fails :: "string \<Rightarrow> 'w act" where
  "fails e w = (w, Some e)"

definition andthen :: "'w act \<Rightarrow> 'w act \<Rightarrow> 'w act" where
  "andthen f g w = (case f w of (w', None) \<Rightarrow> g w' | (w', Some e) \<Rightarrow> (w', Some e))"

definition wrapping :: "string \<Rightarrow> 'w act \<Rightarrow> 'w act" where
  "wrapping p f w = (case f w of (w', err) \<Rightarrow> (w', map_option (\<lambda>e. p @ e) err))"

definition querying :: "('w \<Rightarrow> string + 'a) \<Rightarrow> string \<Rightarrow> ('a \<Rightarrow> 'w act) \<Rightarrow> 'w act" where
  "querying q p k w = (case q w of Inl e \<Rightarrow> (w, Some (p @ e)) | Inr x \<Rightarrow> k x w)"

definition logged :: "'w act \<Rightarrow> 'w act" where
  "logged f w = (fst (f w), None)"

fun each :: "('a \<Rightarrow> 'w act) \<Rightarrow> 'a list \<Rightarrow> 'w act" where
  "each f [] = nop"
| "each f (x # xs) = andthen (f x) (each f xs)"

subsection \<open>Reasoning about actions\<close>

lemma andthen_ok_iff: "andthen f g w = (w', None) \<longleftrightarrow> (\<exists>v. f w = (v, None) \<and> g v = (w', None))"
  by (auto simp: andthen_def split: prod.splits option.splits)

lemma wrapping_ok_iff [simp]: "wrapping p f w = (w', None) \<longleftrightarrow> f w = (w', None)"
  by (auto simp: wrapping_def split: prod.splits)

lemma querying_ok_iff: "querying q p k w = (w', None) \<longleftrightarrow> (\<exists>x. q w = Inr x \<and> k x w = (w', None))"
  by (auto simp: querying_def split: sum.splits)

lemma nop_simps [simp]: "nop w = (w, None)" "fails e w = (w, Some e)"
  by (simp_all add: nop_def fails_def)

lemma logged_ok [simp]: "logged f w = (w', None) \<longleftrightarrow> w' = fst (f w)" "snd (logged f w) = None" "fst (logged f w) = fst (f w)"
  by (auto simp: logged_def)

lemmas act_ok = andthen_ok_iff querying_ok_iff

text \<open>A set of states closed under an action, whether it succeeds or not.\<close>

definition keeps :: "('w \<Rightarrow> bool) \<Rightarrow> 'w act \<Rightarrow> bool" where
  "keeps P f \<longleftrightarrow> (\<forall>w. P w \<longrightarrow> P (fst (f w)))"

lemma keeps_I [intro?]: "(\<And>w. P w \<Longrightarrow> P (fst (f w))) \<Longrightarrow> keeps P f"
  by (simp add: keeps_def)

lemma keeps_D: "keeps P f \<Longrightarrow> P w \<Longrightarrow> P (fst (f w))"
  by (simp add: keeps_def)

lemma keeps_act:
  "keeps P nop" "keeps P (fails e)"
  "keeps P f \<Longrightarrow> keeps P g \<Longrightarrow> keeps P (andthen f g)"
  "keeps P f \<Longrightarrow> keeps P (wrapping p f)"
  "(\<And>x. keeps P (k x)) \<Longrightarrow> keeps P (querying q p k)"
  "keeps P f \<Longrightarrow> keeps P (logged f)"
  by (auto simp: keeps_def andthen_def wrapping_def querying_def logged_def split: prod.splits option.splits sum.splits)

lemma keeps_each: "(\<And>x. x \<in> set xs \<Longrightarrow> keeps P (f x)) \<Longrightarrow> keeps P (each f xs)"
  by (induction xs) (auto intro: keeps_act)

end
