(* ===== verification/Network_Manager.thy ===== *)
theory Network_Manager
  imports Kernel
begin

text \<open>
  Interface configuration, \<open>src/system/network_manager.go\<close>, with the sysctl client of
  \<open>src/system/interfaces.go\<close>. Printing is left out. A link a function holds is the copy of its attributes at the
  time it was looked up.
\<close>

section \<open>IP forwarding\<close>

definition replaceDotsWithSlash :: "string \<Rightarrow> string" where
  "replaceDotsWithSlash s = map (\<lambda>c. if c = CHR ''.'' then CHR ''/'' else c) s"

definition sysctl_path :: "string \<Rightarrow> string" where
  "sysctl_path key = ''/proc/sys/'' @ replaceDotsWithSlash key"

definition sysctl_Set :: "'w Clients \<Rightarrow> string \<Rightarrow> string \<Rightarrow> 'w act" where
  "sysctl_Set cl key v = cl_WriteFile cl (sysctl_path key) v"

definition EnableIPForwarding :: "'w Clients \<Rightarrow> 'w act" where
  "EnableIPForwarding cl =
     wrapping ''failed to set net.ipv4.ip_forward: '' (sysctl_Set cl ''net.ipv4.ip_forward'' ''1'')"

section \<open>Addresses\<close>

definition flushIPs :: "'w Clients \<Rightarrow> KLink \<Rightarrow> 'w act" where
  "flushIPs cl link =
     querying (cl_AddrList cl link) ''failed to list addresses: '' (\<lambda>addrs.
       each (\<lambda>addr. wrapping ''failed to remove IP: '' (cl_AddrDel cl link addr)) addrs)"

definition setStaticIP :: "'w Clients \<Rightarrow> KLink \<Rightarrow> string \<Rightarrow> string \<Rightarrow> 'w act" where
  "setStaticIP cl link ipAddr netmask =
     (if ipAddr = '''' then nop
      else case ParseIP ipAddr of
        None \<Rightarrow> fails (''invalid IP address: '' @ ipAddr)
      | Some ip \<Rightarrow>
          wrapping ''failed to add IP address: ''
            (cl_AddrAdd cl link \<lparr>in_IP = ip, in_Mask = dotted_mask netmask\<rparr>))"

text \<open>The test both address routines make of an address of the link.\<close>

definition is_desired :: "ip \<Rightarrow> nat list \<Rightarrow> IPNet \<Rightarrow> bool" where
  "is_desired desiredIP desiredMask addr \<longleftrightarrow>
     ip_Equal (in_IP addr) desiredIP \<and> mask_String (in_Mask addr) = mask_String desiredMask"

definition checkIPMatches :: "'w Clients \<Rightarrow> KLink \<Rightarrow> string \<Rightarrow> string \<Rightarrow> 'w \<Rightarrow> string + bool" where
  "checkIPMatches cl link ipAddr netmask w =
     (if ipAddr = '''' then Inr True
      else case ParseIP ipAddr of
        None \<Rightarrow> Inl (''invalid IP address: '' @ ipAddr)
      | Some desiredIP \<Rightarrow>
          (case cl_AddrList cl link w of
             Inl e \<Rightarrow> Inl (''failed to list addresses: '' @ e)
           | Inr addrs \<Rightarrow> Inr (list_ex (is_desired desiredIP (dotted_mask netmask)) addrs)))"

definition ensureStaticIP :: "'w Clients \<Rightarrow> KLink \<Rightarrow> string \<Rightarrow> string \<Rightarrow> 'w act" where
  "ensureStaticIP cl link ipAddr netmask =
     (if ipAddr = '''' then nop
      else case ParseIP ipAddr of
        None \<Rightarrow> fails (''invalid IP address: '' @ ipAddr)
      | Some desiredIP \<Rightarrow>
          (let desiredMask = dotted_mask netmask in
           querying (cl_AddrList cl link) ''failed to list addresses: '' (\<lambda>addrs.
             andthen
               (each (\<lambda>addr. wrapping ''failed to remove IP: '' (cl_AddrDel cl link addr))
                  (filter (\<lambda>addr. \<not> is_desired desiredIP desiredMask addr) addrs))
               (if \<not> list_ex (is_desired desiredIP desiredMask) addrs
                then wrapping ''failed to add IP address: ''
                       (cl_AddrAdd cl link \<lparr>in_IP = desiredIP, in_Mask = desiredMask\<rparr>)
                else nop))))"

section \<open>Default gateway and DHCP\<close>

definition is_default :: "NRoute \<Rightarrow> bool" where
  "is_default route \<longleftrightarrow> (case nr_Dst route of None \<Rightarrow> True | Some d \<Rightarrow> net_String d = ''0.0.0.0/0'')"

definition setDefaultGateway :: "'w Clients \<Rightarrow> KLink \<Rightarrow> string \<Rightarrow> int \<Rightarrow> 'w act" where
  "setDefaultGateway cl link gateway metric =
     (if gateway = '''' then nop
      else case ParseIP gateway of
        None \<Rightarrow> fails (''invalid gateway address: '' @ gateway)
      | Some gw \<Rightarrow>
          querying (cl_RouteList cl None) ''failed to list routes: '' (\<lambda>routes.
            andthen
              (each (\<lambda>route. logged (cl_RouteDel cl route)) (filter is_default routes))
              (wrapping ''failed to add default route: ''
                 (cl_RouteAdd cl (zero_NRoute\<lparr>nr_LinkIndex := lk_Index link, nr_Gw := gw,
                                              nr_Priority := metric, nr_Table := 254\<rparr>)))))"

definition startDHCPClient :: "'w Clients \<Rightarrow> string \<Rightarrow> 'w act" where
  "startDHCPClient cl deviceName w =
     (case cl_LookPath cl ''dhclient'' w of
        Some e \<Rightarrow> (w, Some (''dhclient not found: '' @ e))
      | None \<Rightarrow>
          andthen (logged (cl_CommandRun cl [''pkill'', ''-f'', ''dhclient.*'' @ deviceName]))
            (wrapping ''failed to start dhclient: '' (cl_CommandStart cl [''dhclient'', ''-v'', deviceName])) w)"

text \<open>
  The switch on the protocol, which the physical interfaces share with bridges and VLANs up to the
  routine that sets the address.
\<close>

definition by_protocol :: "'w Clients \<Rightarrow> 'w act \<Rightarrow> KLink \<Rightarrow> string \<Rightarrow> Interface \<Rightarrow> 'w act" where
  "by_protocol cl set_address link deviceName iface =
     (if if_Protocol iface = ''static'' then
        andthen set_address
          (if if_Gateway iface \<noteq> '''' then
             setDefaultGateway cl link (if_Gateway iface) (if if_Metric iface = 0 then 100 else if_Metric iface)
           else nop)
      else if if_Protocol iface = ''dhcp'' then startDHCPClient cl deviceName
      else if if_Protocol iface = ''none'' \<or> if_Protocol iface = '''' then nop
      else fails (''unknown protocol: '' @ if_Protocol iface))"

definition applyIPConfiguration :: "'w Clients \<Rightarrow> KLink \<Rightarrow> string \<Rightarrow> Interface \<Rightarrow> 'w act" where
  "applyIPConfiguration cl link deviceName iface =
     by_protocol cl (ensureStaticIP cl link (if_IPAddr iface) (if_Netmask iface)) link deviceName iface"

section \<open>Physical interfaces\<close>

definition default_mtu :: "Interface \<Rightarrow> Interface" where
  "default_mtu iface = (if if_MTU iface = 0 then iface\<lparr>if_MTU := 1500\<rparr> else iface)"

definition applyPhysicalInterface :: "'w Clients \<Rightarrow> string \<Rightarrow> Interface \<Rightarrow> 'w act" where
  "applyPhysicalInterface cl name iface0 =
     (let iface = default_mtu iface0 in
      querying (cl_LinkByName cl (if_Device iface)) (''failed to find interface '' @ if_Device iface @ '': '') (\<lambda>link.
      andthen
        (if lk_MTU link \<noteq> if_MTU iface
         then wrapping ''failed to set MTU: '' (cl_LinkSetMTU cl link (if_MTU iface)) else nop)
      (andthen (wrapping ''failed to bring up interface: '' (cl_LinkSetUp cl link))
      (andthen (wrapping ''failed to flush IPs: '' (flushIPs cl link))
        (by_protocol cl (setStaticIP cl link (if_IPAddr iface) (if_Netmask iface)) link (if_Device iface) iface)))))"

section \<open>Bridges\<close>

definition stringSlicesEqual :: "string list \<Rightarrow> string list \<Rightarrow> bool" where
  "stringSlicesEqual a b = (if length a \<noteq> length b then False else list_all (\<lambda>item. item \<in> set a) b)"

definition getBridgePorts :: "'w Clients \<Rightarrow> string \<Rightarrow> 'w \<Rightarrow> string + string list" where
  "getBridgePorts cl bridgeName w =
     (case cl_LinkByName cl bridgeName w of
        Inl e \<Rightarrow> Inl (''failed to get bridge: '' @ e)
      | Inr bridge \<Rightarrow>
          (case cl_LinkList cl w of
             Inl e \<Rightarrow> Inl (''failed to list links: '' @ e)
           | Inr links \<Rightarrow>
               Inr (map lk_Name (filter (\<lambda>link. lk_MasterIndex link = lk_Index bridge) links))))"

definition bridgeConfigMatches :: "'w Clients \<Rightarrow> KLink \<Rightarrow> Interface \<Rightarrow> 'w \<Rightarrow> string + bool" where
  "bridgeConfigMatches cl bridge desired w =
     (if lk_MTU bridge \<noteq> if_MTU desired then Inr False
      else case getBridgePorts cl (lk_Name bridge) w of
        Inl e \<Rightarrow> Inl e
      | Inr currentPorts \<Rightarrow> Inr (stringSlicesEqual currentPorts (elems (if_BridgePorts desired))))"

definition addPortToBridge :: "'w Clients \<Rightarrow> string \<Rightarrow> KLink \<Rightarrow> 'w act" where
  "addPortToBridge cl portName bridge =
     querying (cl_LinkByName cl portName) (''failed to find port '' @ portName @ '': '') (\<lambda>port.
       andthen (wrapping (''failed to bring up port '' @ portName @ '': '') (cl_LinkSetUp cl port))
         (wrapping (''failed to add port '' @ portName @ '' to bridge: '') (cl_LinkSetMaster cl port bridge)))"

definition removePortFromBridge :: "'w Clients \<Rightarrow> string \<Rightarrow> 'w act" where
  "removePortFromBridge cl portName =
     querying (cl_LinkByName cl portName) (''failed to find port '' @ portName @ '': '') (\<lambda>port.
       wrapping (''failed to remove port '' @ portName @ '' from bridge: '') (cl_LinkSetNoMaster cl port))"

definition updateBridgePorts :: "'w Clients \<Rightarrow> KLink \<Rightarrow> Interface \<Rightarrow> 'w act" where
  "updateBridgePorts cl bridge iface =
     querying (getBridgePorts cl (lk_Name bridge)) ''failed to get current bridge ports: '' (\<lambda>currentPorts.
       let desired = elems (if_BridgePorts iface) in
       andthen
         (each (removePortFromBridge cl) (filter (\<lambda>p. p \<notin> set desired) currentPorts))
         (each (\<lambda>p. addPortToBridge cl p bridge) (filter (\<lambda>p. p \<notin> set currentPorts) desired)))"

definition createBridge :: "'w Clients \<Rightarrow> string \<Rightarrow> Interface \<Rightarrow> 'w \<Rightarrow> 'w \<times> (string + KLink)" where
  "createBridge cl bridgeDevice iface w =
     (case wrapping ''failed to create bridge: ''
             (cl_LinkAdd cl (zero_KLink\<lparr>lk_Name := bridgeDevice, lk_MTU := if_MTU iface, lk_Type := ''bridge''\<rparr>)) w of
        (w1, Some e) \<Rightarrow> (w1, Inl e)
      | (w1, None) \<Rightarrow>
          (case cl_LinkByName cl bridgeDevice w1 of
             Inl e \<Rightarrow> (w1, Inl (''failed to get newly created bridge: '' @ e))
           | Inr bridge \<Rightarrow>
               (case andthen (each (\<lambda>p. addPortToBridge cl p bridge) (elems (if_BridgePorts iface)))
                       (wrapping ''failed to bring up bridge: '' (cl_LinkSetUp cl bridge)) w1 of
                  (w2, Some e) \<Rightarrow> (w2, Inl e)
                | (w2, None) \<Rightarrow> (w2, Inr bridge))))"

definition create_and_configure :: "'w Clients \<Rightarrow> string \<Rightarrow> Interface \<Rightarrow> 'w act" where
  "create_and_configure cl bridgeDevice iface w =
     (case createBridge cl bridgeDevice iface w of
        (w1, Inl e) \<Rightarrow> (w1, Some e)
      | (w1, Inr bridge) \<Rightarrow> applyIPConfiguration cl bridge bridgeDevice iface w1)"

definition applyBridgeInterface :: "'w Clients \<Rightarrow> string \<Rightarrow> Interface \<Rightarrow> 'w act" where
  "applyBridgeInterface cl name iface0 w =
     (let bridgeDevice = (if if_Device iface0 = '''' then name else if_Device iface0); iface = default_mtu iface0 in
      case cl_LinkByName cl bridgeDevice w of
        Inl _ \<Rightarrow> create_and_configure cl bridgeDevice iface w
      | Inr existingBridge \<Rightarrow>
          (case bridgeConfigMatches cl existingBridge iface w of
             Inl e \<Rightarrow> (w, Some (''failed to check bridge config: '' @ e))
           | Inr True \<Rightarrow>
               (if if_Protocol iface = ''static'' then
                  (case checkIPMatches cl existingBridge (if_IPAddr iface) (if_Netmask iface) w of
                     Inl e \<Rightarrow> (w, Some (''failed to check IP matches: '' @ e))
                   | Inr True \<Rightarrow> (w, None)
                   | Inr False \<Rightarrow> applyIPConfiguration cl existingBridge bridgeDevice iface w)
                else (w, None))
           | Inr False \<Rightarrow>
               (if lk_MTU existingBridge \<noteq> if_MTU iface then
                  andthen (wrapping ''failed to delete bridge for MTU change: '' (cl_LinkDel cl existingBridge))
                    (create_and_configure cl bridgeDevice iface) w
                else
                  andthen (updateBridgePorts cl existingBridge iface)
                    (applyIPConfiguration cl existingBridge bridgeDevice iface) w)))"

section \<open>VLANs\<close>

definition applyVLANInterface :: "'w Clients \<Rightarrow> string \<Rightarrow> Interface \<Rightarrow> 'w act" where
  "applyVLANInterface cl name iface0 =
     (let iface = default_mtu iface0; dev = if_DeviceName iface in
      if if_Device iface = '''' then fails ''parent device not specified for VLAN''
      else if if_VLANId iface = 0 then fails ''VLAN ID not specified''
      else if dev = '''' then fails ''device_name not specified for VLAN interface''
      else
        querying (cl_LinkByName cl (if_Device iface)) (''failed to find parent interface '' @ if_Device iface @ '': '') (\<lambda>parent.
        andthen (wrapping ''failed to bring up parent interface: '' (cl_LinkSetUp cl parent))
        (andthen
          (\<lambda>w. case cl_LinkByName cl dev w of
                 Inr existingLink \<Rightarrow> wrapping ''failed to delete existing VLAN interface: '' (cl_LinkDel cl existingLink) w
               | Inl _ \<Rightarrow> (w, None))
        (andthen
          (wrapping ''failed to create VLAN interface: ''
            (cl_LinkAdd cl (zero_KLink\<lparr>lk_Name := dev, lk_ParentIndex := lk_Index parent, lk_MTU := if_MTU iface,
                                        lk_Type := ''vlan'', lk_VlanId := Some (if_VLANId iface)\<rparr>)))
        (querying (cl_LinkByName cl dev) ''failed to get VLAN interface: '' (\<lambda>vlanLink.
        andthen (wrapping ''failed to bring up VLAN interface: '' (cl_LinkSetUp cl vlanLink))
        (andthen (wrapping ''failed to flush IPs: '' (flushIPs cl vlanLink))
          (applyIPConfiguration cl vlanLink dev iface))))))))"

section \<open>Dispatch\<close>

definition disableInterface :: "'w Clients \<Rightarrow> string \<Rightarrow> Interface \<Rightarrow> 'w act" where
  "disableInterface cl name iface w =
     (let deviceName = (if if_Device iface \<noteq> '''' then if_Device iface
                        else if if_DeviceName iface \<noteq> '''' then if_DeviceName iface else name) in
      case cl_LinkByName cl deviceName w of
        Inl _ \<Rightarrow> (w, None)
      | Inr link \<Rightarrow> wrapping (''failed to bring down '' @ deviceName @ '': '') (cl_LinkSetDown cl link) w)"

definition ApplyInterfaceConfig :: "'w Clients \<Rightarrow> string \<Rightarrow> Interface \<Rightarrow> 'w act" where
  "ApplyInterfaceConfig cl name iface =
     (if \<not> if_Enabled iface then disableInterface cl name iface
      else if if_Type iface = ''physical'' then applyPhysicalInterface cl name iface
      else if if_Type iface = ''bridge'' then applyBridgeInterface cl name iface
      else if if_Type iface = ''vlan'' then applyVLANInterface cl name iface
      else fails (''unsupported interface type: '' @ if_Type iface))"

end
