(* ===== verification/Routes_Manager.thy ===== *)
theory Routes_Manager
  imports Kernel Config_Files
begin

text \<open>
  Static routes, \<open>src/system/routes_manager.go\<close> and \<open>src/system/routes.go\<close>, with the search for the interface of
  a gateway in \<open>src/system/interfaces.go\<close>. The routes of a configuration are visited in the order of the
  association list, which stands for any order.
\<close>

definition routesMatch :: "NRoute \<Rightarrow> NRoute \<Rightarrow> bool" where
  "routesMatch a b \<longleftrightarrow>
     (if (nr_Dst a = None) \<noteq> (nr_Dst b = None) then False
      else if (case (nr_Dst a, nr_Dst b) of (Some x, Some y) \<Rightarrow> net_String x \<noteq> net_String y | _ \<Rightarrow> False) then False
      else if \<not> ip_Equal (nr_Gw a) (nr_Gw b) then False
      else if nr_LinkIndex a \<noteq> nr_LinkIndex b \<and> nr_LinkIndex a \<noteq> 0 \<and> nr_LinkIndex b \<noteq> 0 then False
      else nr_Table a = nr_Table b)"

fun first_containing :: "'w Clients \<Rightarrow> ip \<Rightarrow> 'w \<Rightarrow> KLink list \<Rightarrow> int option" where
  "first_containing cl gateway w [] = None"
| "first_containing cl gateway w (link # links) =
     (case cl_AddrList cl link w of
        Inl _ \<Rightarrow> first_containing cl gateway w links
      | Inr addrs \<Rightarrow>
          if list_ex (\<lambda>addr. net_Contains addr gateway) addrs then Some (lk_Index link)
          else first_containing cl gateway w links)"

definition findInterfaceForGateway :: "'w Clients \<Rightarrow> ip \<Rightarrow> 'w \<Rightarrow> string + int" where
  "findInterfaceForGateway cl gateway w =
     (case cl_LinkList cl w of
        Inl e \<Rightarrow> Inl (''failed to list interfaces: '' @ e)
      | Inr links \<Rightarrow>
          (case first_containing cl gateway w links of
             Some index \<Rightarrow> Inr index
           | None \<Rightarrow> Inl (''no interface found with network containing gateway '' @ ip_String gateway)))"

text \<open>The link index and the scope of the route: by its gateway, or by its interface alone.\<close>

definition SCOPE_LINK :: int where
  "SCOPE_LINK = 253"

definition route_link :: "'w Clients \<Rightarrow> Route \<Rightarrow> NRoute \<Rightarrow> 'w \<Rightarrow> string + NRoute" where
  "route_link cl route nlRoute w =
     (if rt_Gateway route \<noteq> '''' then
        (case ParseIP (rt_Gateway route) of
           None \<Rightarrow> Inl (''invalid gateway address: '' @ rt_Gateway route)
         | Some gw \<Rightarrow>
             if rt_Interface route \<noteq> '''' then
               (case cl_LinkByName cl (rt_Interface route) w of
                  Inl e \<Rightarrow> Inl (''interface '' @ rt_Interface route @ '' not found: '' @ e)
                | Inr link \<Rightarrow> Inr (nlRoute\<lparr>nr_Gw := gw, nr_LinkIndex := lk_Index link\<rparr>))
             else
               (case findInterfaceForGateway cl gw w of
                  Inl e \<Rightarrow> Inl (''failed to find interface for gateway '' @ rt_Gateway route @ '': '' @ e)
                | Inr linkIndex \<Rightarrow> Inr (nlRoute\<lparr>nr_Gw := gw, nr_LinkIndex := linkIndex\<rparr>)))
      else if rt_Interface route \<noteq> '''' then
        (case cl_LinkByName cl (rt_Interface route) w of
           Inl e \<Rightarrow> Inl (''interface '' @ rt_Interface route @ '' not found: '' @ e)
         | Inr link \<Rightarrow> Inr (nlRoute\<lparr>nr_LinkIndex := lk_Index link, nr_Scope := SCOPE_LINK\<rparr>))
      else Inl ''route must specify either gateway or interface'')"

definition route_dst :: "string \<Rightarrow> string + IPNet" where
  "route_dst destination =
     (if destination = ''default'' then Inr (the (ParseCIDR_net ''0.0.0.0/0''))
      else case ParseCIDR_net destination of
        None \<Rightarrow> Inl (''invalid destination '' @ destination @ '': '' @ lib_err ''net.ParseCIDR'' destination)
      | Some d \<Rightarrow> Inr d)"

text \<open>The removal of routes equal to the new one: a failing list or removal is only logged.\<close>

definition remove_matching :: "'w Clients \<Rightarrow> NRoute \<Rightarrow> 'w act" where
  "remove_matching cl nlRoute w =
     (case cl_RouteList cl None w of
        Inl _ \<Rightarrow> (w, None)
      | Inr existingRoutes \<Rightarrow>
          each (\<lambda>existing. logged (cl_RouteDel cl existing))
            (filter (\<lambda>existing. routesMatch existing nlRoute) existingRoutes) w)"

definition applyRoute :: "'w Clients \<Rightarrow> string \<Rightarrow> Route \<Rightarrow> 'w act" where
  "applyRoute cl routeName route w =
     (case Route_Validate route of
        Some e \<Rightarrow> (w, Some (''invalid route configuration: '' @ e))
      | None \<Rightarrow>
          (case route_dst (rt_Destination route) of
             Inl e \<Rightarrow> (w, Some e)
           | Inr dst \<Rightarrow>
               (case route_link cl route
                       (zero_NRoute\<lparr>nr_Dst := Some dst, nr_Priority := rt_Metric route,
                                    nr_Table := (if rt_Table route = 0 then 254 else rt_Table route)\<rparr>) w of
                  Inl e \<Rightarrow> (w, Some e)
                | Inr nlRoute \<Rightarrow>
                    andthen (remove_matching cl nlRoute)
                      (wrapping ''failed to add route: '' (cl_RouteAdd cl nlRoute)) w)))"

definition ApplyRoutesConfig :: "'w Clients \<Rightarrow> RoutesConfig option \<Rightarrow> 'w act" where
  "ApplyRoutesConfig cl config =
     (case config of
        None \<Rightarrow> nop
      | Some c \<Rightarrow>
          each (\<lambda>(routeName, route).
              if \<not> rt_Enabled route then nop
              else wrapping (''failed to apply route '' @ routeName @ '': '') (applyRoute cl routeName route))
            (entries (rc_Routes c)))"

end
