(* ===== verification/Snapshot_Manager.thy ===== *)
theory Snapshot_Manager
  imports Kernel State_Store Routes_Manager
begin

text \<open>
  Capturing and restoring the system, \<open>src/system/snapshot_manager.go\<close> and \<open>src/system/rollback.go\<close>. Most
  failures of a restore are only logged, and the model drops them the same way.
\<close>

section \<open>Capture\<close>

definition sm_getBridgePorts :: "'w Clients \<Rightarrow> string \<Rightarrow> 'w \<Rightarrow> string + string list" where
  "sm_getBridgePorts cl bridgeName w =
     (case cl_LinkByName cl bridgeName w of
        Inl e \<Rightarrow> Inl (''failed to find bridge '' @ bridgeName @ '': '' @ e)
      | Inr bridge \<Rightarrow>
          (case cl_LinkList cl w of
             Inl e \<Rightarrow> Inl (''failed to list interfaces: '' @ e)
           | Inr links \<Rightarrow>
               Inr (map lk_Name (filter (\<lambda>link. lk_MasterIndex link = lk_Index bridge) links))))"

text \<open>A slice built by \<open>append\<close> from nil.\<close>

definition appended :: "'a list \<Rightarrow> 'a slice" where
  "appended xs = (if xs = [] then None else Some xs)"

definition capture_kind :: "'w Clients \<Rightarrow> KLink \<Rightarrow> 'w \<Rightarrow> InterfaceSnapshot \<Rightarrow> InterfaceSnapshot" where
  "capture_kind cl link w snapshot =
     (if lk_Type link = ''bridge'' then
        (case sm_getBridgePorts cl (lk_Name link) w of
           Inl _ \<Rightarrow> snapshot\<lparr>is_Type := ''bridge''\<rparr>
         | Inr ports \<Rightarrow> snapshot\<lparr>is_Type := ''bridge'', is_Ports := appended ports\<rparr>)
      else if lk_Type link = ''vlan'' then
        (case lk_VlanId link of
           None \<Rightarrow> snapshot\<lparr>is_Type := ''vlan''\<rparr>
         | Some vlanId \<Rightarrow>
             snapshot\<lparr>is_Type := ''vlan'', is_VLANId := vlanId,
               is_ParentDevice := (case cl_LinkByIndex cl (lk_ParentIndex link) w of
                                     Inl _ \<Rightarrow> is_ParentDevice snapshot | Inr parent \<Rightarrow> lk_Name parent)\<rparr>)
      else if lk_Type link = ''wireguard'' then snapshot\<lparr>is_Type := ''wireguard''\<rparr>
      else snapshot\<lparr>is_Type := ''physical''\<rparr>)"

definition captureInterfaceState :: "'w Clients \<Rightarrow> KLink \<Rightarrow> 'w \<Rightarrow> string + InterfaceSnapshot" where
  "captureInterfaceState cl link w =
     (case cl_AddrList cl link w of
        Inl e \<Rightarrow> Inl (''failed to list addresses: '' @ e)
      | Inr addrs \<Rightarrow>
          (let gateway = (case cl_RouteList cl (Some link) w of
                            Inl _ \<Rightarrow> None
                          | Inr routes \<Rightarrow> find (\<lambda>route. nr_Dst route = None \<and> nr_Gw route \<noteq> []) routes) in
           Inr (capture_kind cl link w
             \<lparr>is_Name = lk_Name link, is_Type = '''', is_Existed = True, is_MTU = lk_MTU link,
              is_State = (if lk_Up link then ''up'' else ''down''),
              is_Addresses = appended (map net_String addrs),
              is_Gateway = (case gateway of None \<Rightarrow> '''' | Some route \<Rightarrow> ip_String (nr_Gw route)),
              is_Metric = (case gateway of None \<Rightarrow> 0 | Some route \<Rightarrow> nr_Priority route),
              is_Ports = None, is_VLANId = 0, is_ParentDevice = ''''\<rparr>)))"

text \<open>What the snapshot records of a route: destination, gateway and device as text.\<close>

definition route_Dst :: "NRoute \<Rightarrow> string" where
  "route_Dst route = (case nr_Dst route of None \<Rightarrow> ''default'' | Some d \<Rightarrow> net_String d)"

definition route_Gw :: "NRoute \<Rightarrow> string" where
  "route_Gw route = (if nr_Gw route = [] then '''' else ip_String (nr_Gw route))"

definition route_Dev :: "'w Clients \<Rightarrow> NRoute \<Rightarrow> 'w \<Rightarrow> string" where
  "route_Dev cl route w =
     (if nr_LinkIndex route > 0 then
        (case cl_LinkByIndex cl (nr_LinkIndex route) w of Inl _ \<Rightarrow> '''' | Inr link \<Rightarrow> lk_Name link)
      else '''')"

definition capture_route :: "'w Clients \<Rightarrow> 'w \<Rightarrow> NRoute \<Rightarrow> RouteSnapshot" where
  "capture_route cl w route =
     \<lparr>rs_Destination = route_Dst route, rs_Gateway = route_Gw route, rs_Device = route_Dev cl route w,
      rs_Metric = nr_Priority route, rs_Table = nr_Table route, rs_Scope = nr_Scope route\<rparr>"

definition capture_links :: "'w Clients \<Rightarrow> 'w \<Rightarrow> KLink list \<Rightarrow> (string, InterfaceSnapshot) gomap" where
  "capture_links cl w links =
     foldl (\<lambda>m link.
        if lk_Name link = ''lo'' then m
        else case captureInterfaceState cl link w of
          Inl _ \<Rightarrow> m
        | Inr snap \<Rightarrow> mput (lk_Name link) snap m) [] links"

definition ip_forward_file :: string where
  "ip_forward_file = ''/proc/sys/net/ipv4/ip_forward''"

text \<open>
  \<open>now\<close> is the time in nanoseconds; the identifier carries the seconds. The call of \<open>nft\<close> is the only
  one that might touch the kernel, and it lists a table; its output is read in the state of the capture.
\<close>

definition CaptureSystemSnapshot :: "'w Clients \<Rightarrow> int \<Rightarrow> 'w \<Rightarrow> SystemSnapshot outcome" where
  "CaptureSystemSnapshot cl now w =
     (let ipForwarding = (case cl_ReadFile cl ip_forward_file w of
                            Inl _ \<Rightarrow> False | Inr data \<Rightarrow> trim_space data = ''1'') in
      case cl_LinkList cl w of
        Inl e \<Rightarrow> Err (''failed to list interfaces: '' @ e)
      | Inr links \<Rightarrow>
          (case cl_RouteList cl None w of
             Inl e \<Rightarrow> Err (''failed to list routes: '' @ e)
           | Inr routes \<Rightarrow>
               (let (_, output, err) = cl_Run cl [''nft'', ''-j'', ''list'', ''table'', ''inet'', ''jack''] w in
                Ok \<lparr>ss_Timestamp = now, ss_CheckpointID = ''auto-'' @ show_int (now div 1000000000),
                    ss_IPForwarding = ipForwarding, ss_Interfaces = capture_links cl w links,
                    ss_Routes = appended (map (capture_route cl w) routes),
                    ss_NftablesRules = (if err = None then output else '''')\<rparr>)))"

section \<open>Restoring interfaces\<close>

definition restoreIPAddresses :: "'w Clients \<Rightarrow> KLink \<Rightarrow> string list \<Rightarrow> 'w act" where
  "restoreIPAddresses cl link snapshotAddrs =
     querying (cl_AddrList cl link) ''failed to list current addresses: '' (\<lambda>currentAddrs.
       andthen
         (each (\<lambda>current. logged (cl_AddrDel cl link current))
            (filter (\<lambda>current. net_String current \<notin> set snapshotAddrs) currentAddrs))
         (each (\<lambda>addrStr. case cl_ParseAddr cl addrStr of
                  Inl _ \<Rightarrow> nop
                | Inr addr \<Rightarrow> logged (cl_AddrAdd cl link addr))
            (filter (\<lambda>addrStr. addrStr \<notin> net_String ` set currentAddrs) snapshotAddrs)))"

definition restoreBridgePorts :: "'w Clients \<Rightarrow> KLink \<Rightarrow> string list \<Rightarrow> 'w act" where
  "restoreBridgePorts cl bridge snapshotPorts =
     querying (sm_getBridgePorts cl (lk_Name bridge)) ''failed to get current bridge ports: '' (\<lambda>currentPorts.
       andthen
         (each (\<lambda>port w. case cl_LinkByName cl port w of
                  Inl _ \<Rightarrow> (w, None)
                | Inr portLink \<Rightarrow> logged (cl_LinkSetNoMaster cl portLink) w)
            (filter (\<lambda>port. port \<notin> set snapshotPorts) currentPorts))
         (each (\<lambda>port w. case cl_LinkByName cl port w of
                  Inl _ \<Rightarrow> (w, None)
                | Inr portLink \<Rightarrow> logged (cl_LinkSetMaster cl portLink bridge) w)
            (filter (\<lambda>port. port \<notin> set currentPorts) snapshotPorts)))"

definition recreateInterface :: "InterfaceSnapshot \<Rightarrow> 'w act" where
  "recreateInterface snapshot = nop"

definition restoreInterfaceState :: "'w Clients \<Rightarrow> InterfaceSnapshot \<Rightarrow> (string, KLink) gomap \<Rightarrow> 'w act" where
  "restoreInterfaceState cl snapshot currentLinks =
     (case mget currentLinks (is_Name snapshot) of
        None \<Rightarrow> recreateInterface snapshot
      | Some link \<Rightarrow>
          andthen
            (if lk_MTU link \<noteq> is_MTU snapshot
             then wrapping ''failed to set MTU: '' (cl_LinkSetMTU cl link (is_MTU snapshot)) else nop)
          (andthen
            (if lk_Up link \<noteq> (is_State snapshot = ''up'') then
               (if is_State snapshot = ''up'' then wrapping ''failed to set link up: '' (cl_LinkSetUp cl link)
                else wrapping ''failed to set link down: '' (cl_LinkSetDown cl link))
             else nop)
          (andthen
            (wrapping ''failed to restore IP addresses: '' (restoreIPAddresses cl link (elems (is_Addresses snapshot))))
            (if is_Type snapshot = ''bridge'' \<and> elems (is_Ports snapshot) \<noteq> [] then
               wrapping ''failed to restore bridge ports: '' (restoreBridgePorts cl link (elems (is_Ports snapshot)))
             else nop))))"

definition links_by_name :: "KLink list \<Rightarrow> (string, KLink) gomap" where
  "links_by_name links = foldl (\<lambda>m link. mput (lk_Name link) link m) [] links"

definition is_created :: "(string, InterfaceSnapshot) gomap \<Rightarrow> string \<Rightarrow> bool" where
  "is_created snapshots name \<longleftrightarrow>
     name \<noteq> ''lo'' \<and> (case mget snapshots name of None \<Rightarrow> True | Some snapshot \<Rightarrow> \<not> is_Existed snapshot)"

definition rollbackInterfaces :: "'w Clients \<Rightarrow> (string, InterfaceSnapshot) gomap \<Rightarrow> 'w act" where
  "rollbackInterfaces cl snapshots =
     querying (cl_LinkList cl) ''failed to list current interfaces: '' (\<lambda>currentLinks.
       let currentNames = links_by_name currentLinks in
       andthen
         (each (\<lambda>(name, link). logged (cl_LinkDel cl link)) (filter (\<lambda>(name, link). is_created snapshots name) currentNames))
         (each (\<lambda>(name, snapshot). logged (restoreInterfaceState cl snapshot currentNames))
            (filter (\<lambda>(name, snapshot). is_Existed snapshot) snapshots)))"

section \<open>Restoring routes\<close>

definition snapshotRoutesMatch :: "'w Clients \<Rightarrow> 'w \<Rightarrow> NRoute \<Rightarrow> RouteSnapshot \<Rightarrow> bool" where
  "snapshotRoutesMatch cl w route snapshot \<longleftrightarrow>
     (if route_Dst route \<noteq> rs_Destination snapshot then False
      else if route_Gw route \<noteq> rs_Gateway snapshot then False
      else if route_Dev cl route w \<noteq> rs_Device snapshot then False
      else if nr_Priority route \<noteq> rs_Metric snapshot then False
      else nr_Table route = rs_Table snapshot)"

definition snapshotRouteExists :: "'w Clients \<Rightarrow> 'w \<Rightarrow> NRoute \<Rightarrow> RouteSnapshot list \<Rightarrow> bool" where
  "snapshotRouteExists cl w route snapshots = list_ex (snapshotRoutesMatch cl w route) snapshots"

definition snapshotRouteInCurrent :: "'w Clients \<Rightarrow> 'w \<Rightarrow> RouteSnapshot \<Rightarrow> NRoute list \<Rightarrow> bool" where
  "snapshotRouteInCurrent cl w snapshot routes = list_ex (\<lambda>route. snapshotRoutesMatch cl w route snapshot) routes"

text \<open>One turn of each of the two loops; the lookups of a turn see the kernel as the earlier turns left it.\<close>

definition drop_route :: "'w Clients \<Rightarrow> RouteSnapshot list \<Rightarrow> NRoute \<Rightarrow> 'w act" where
  "drop_route cl snapshotRoutes current w =
     (if nr_Protocol current = 2 then (w, None)
      else if nr_Scope current = SCOPE_LINK then (w, None)
      else if \<not> snapshotRouteExists cl w current snapshotRoutes then logged (cl_RouteDel cl current) w
      else (w, None))"

definition readd_route :: "'w Clients \<Rightarrow> NRoute list \<Rightarrow> RouteSnapshot \<Rightarrow> 'w act" where
  "readd_route cl currentRoutes snapshot w =
     (if snapshotRouteInCurrent cl w snapshot currentRoutes then (w, None)
      else
        (let route = zero_NRoute\<lparr>nr_Priority := rs_Metric snapshot, nr_Table := rs_Table snapshot,
                                 nr_Scope := rs_Scope snapshot\<rparr>;
             add = (\<lambda>dst.
               logged (cl_RouteAdd cl (route\<lparr>nr_Dst := dst,
                 nr_Gw := (if rs_Gateway snapshot = '''' then []
                           else case ParseIP (rs_Gateway snapshot) of None \<Rightarrow> [] | Some gw \<Rightarrow> gw),
                 nr_LinkIndex := (if rs_Device snapshot = '''' then 0
                                  else case cl_LinkByName cl (rs_Device snapshot) w of
                                         Inl _ \<Rightarrow> 0 | Inr link \<Rightarrow> lk_Index link)\<rparr>)) w) in
         if rs_Destination snapshot = ''default'' then add None
         else case ParseCIDR_net (rs_Destination snapshot) of
           None \<Rightarrow> (w, None)
         | Some dst \<Rightarrow> add (Some dst)))"

definition rollbackRoutes :: "'w Clients \<Rightarrow> RouteSnapshot list \<Rightarrow> 'w act" where
  "rollbackRoutes cl snapshotRoutes =
     querying (cl_RouteList cl None) ''failed to list current routes: '' (\<lambda>currentRoutes.
       andthen (each (drop_route cl snapshotRoutes) currentRoutes)
         (each (readd_route cl currentRoutes) snapshotRoutes))"

section \<open>Restore\<close>

definition rollbackIPForwarding :: "'w Clients \<Rightarrow> bool \<Rightarrow> 'w act" where
  "rollbackIPForwarding cl enabled =
     wrapping ''failed to write to /proc/sys/net/ipv4/ip_forward: ''
       (cl_WriteFile cl ip_forward_file (if enabled then ''1'' else ''0''))"

definition containsScope :: "string list \<Rightarrow> string \<Rightarrow> bool" where
  "containsScope scopes scope = (scope \<in> set scopes)"

text \<open>A part of the restore runs whatever the parts before it reported.\<close>

definition restore_part :: "string list \<Rightarrow> string \<Rightarrow> 'w act \<Rightarrow> 'w \<times> string list \<Rightarrow> 'w \<times> string list" where
  "restore_part scope part f we =
     (case we of (w, errors) \<Rightarrow>
        if containsScope scope part \<or> containsScope scope ''all'' then
          (case f w of
             (w', Some e) \<Rightarrow> (w', errors @ [part @ '': '' @ e])
           | (w', None) \<Rightarrow> (w', errors))
        else (w, errors))"

definition RestoreSnapshot :: "'w Clients \<Rightarrow> SystemSnapshot \<Rightarrow> string list \<Rightarrow> 'w act" where
  "RestoreSnapshot cl snapshot scope w =
     (let (w1, errors) =
        restore_part scope ''ipforward'' (rollbackIPForwarding cl (ss_IPForwarding snapshot))
          (restore_part scope ''interfaces'' (rollbackInterfaces cl (ss_Interfaces snapshot))
            (restore_part scope ''routes'' (rollbackRoutes cl (elems (ss_Routes snapshot))) (w, []))) in
      (w1, if length errors > 0 then
             Some (''rollback completed with '' @ show_nat (length errors) @ '' error(s): ['' @
                   join_with '' '' errors @ '']'')
           else None))"

text \<open>The temporary file is removed when the function returns.\<close>

definition RestoreNftablesRules :: "'w Clients \<Rightarrow> string \<Rightarrow> 'w act" where
  "RestoreNftablesRules cl rulesJSON w =
     (if rulesJSON = '''' then (w, None)
      else case cl_CreateTemp cl ''jack-nft-rollback-*.json'' w of
        (w1, Inl e) \<Rightarrow> (w1, Some (''failed to create temp file: '' @ e))
      | (w1, Inr tmpFile) \<Rightarrow>
          (case (case cl_WriteFile cl tmpFile rulesJSON w1 of
                   (w2, Some e) \<Rightarrow> (w2, Some (''failed to write rules to temp file: '' @ e))
                 | (w2, None) \<Rightarrow>
                     (case cl_Run cl [''nft'', ''-j'', ''-f'', tmpFile] w2 of
                        (w3, output, Some e) \<Rightarrow>
                          (w3, Some (''failed to restore firewall rules: '' @ e @ '' (output: '' @ output @ '')''))
                      | (w3, output, None) \<Rightarrow> (w3, None))) of
             (w4, err) \<Rightarrow> (fst (cl_Remove cl tmpFile w4), err)))"

end
