(* ===== verification/System_Layer.thy ===== *)
theory System_Layer
  imports Apply Network_Manager Snapshot_Manager
begin

text \<open>
  The system layer the daemon calls: the package functions of \<open>src/system\<close> (\<open>network.go\<close>, \<open>routes.go\<close>,
  \<open>rollback.go\<close>, \<open>snapshot.go\<close>), which delegate to the default managers. With it, whatever is shown of the
  daemon over any system layer holds over this one.
\<close>

definition default_system :: "'w Clients \<Rightarrow> 'w System" where
  "default_system cl =
     \<lparr>sy_CaptureSystemSnapshot = CaptureSystemSnapshot cl,
      sy_EnableIPForwarding = EnableIPForwarding cl,
      sy_ApplyInterfaceConfig = ApplyInterfaceConfig cl,
      sy_ApplyRoutesConfig = (\<lambda>c. ApplyRoutesConfig cl (Some c)),
      sy_RestoreSnapshot = RestoreSnapshot cl,
      sy_RestoreNftablesRules = RestoreNftablesRules cl\<rparr>"

end
