(* ===== verification/Kernel_Example.thy ===== *)
theory Kernel_Example
  imports Kernel
begin

text \<open>
  A small kernel with links, addresses, routes and files, on which the properties of the system layer are
  exercised. It refuses unknown devices, repeated names and repeated addresses.
\<close>

record kernel =
  ke_links :: "KLink list"
  ke_addrs :: "(string \<times> IPNet) list"
  ke_routes :: "NRoute list"
  ke_files :: "(string, string) gomap"
  ke_started :: "string list list"

definition ke_find :: "(KLink \<Rightarrow> bool) \<Rightarrow> kernel \<Rightarrow> string + KLink" where
  "ke_find P w = (case find P (ke_links w) of None \<Rightarrow> Inl ''Link not found'' | Some l \<Rightarrow> Inr l)"

definition ke_update :: "string \<Rightarrow> (KLink \<Rightarrow> KLink) \<Rightarrow> kernel act" where
  "ke_update name f w =
     (if name \<in> lk_Name ` set (ke_links w)
      then (w\<lparr>ke_links := map (\<lambda>l. if lk_Name l = name then f l else l) (ke_links w)\<rparr>, None)
      else (w, Some ''no such device''))"

definition ke_AddrAdd :: "KLink \<Rightarrow> IPNet \<Rightarrow> kernel act" where
  "ke_AddrAdd link a w =
     (let a4 = a\<lparr>in_IP := (if ip_To4 (in_IP a) = [] then in_IP a else ip_To4 (in_IP a))\<rparr> in
      if (lk_Name link, a4) \<in> set (ke_addrs w) then (w, Some ''file exists'')
      else (w\<lparr>ke_addrs := ke_addrs w @ [(lk_Name link, a4)]\<rparr>, None))"

definition ke_AddrDel :: "KLink \<Rightarrow> IPNet \<Rightarrow> kernel act" where
  "ke_AddrDel link a w =
     (if (lk_Name link, a) \<in> set (ke_addrs w) then (w\<lparr>ke_addrs := filter (\<lambda>x. x \<noteq> (lk_Name link, a)) (ke_addrs w)\<rparr>, None)
      else (w, Some ''cannot assign requested address''))"

definition ke_LinkAdd :: "KLink \<Rightarrow> kernel act" where
  "ke_LinkAdd link w =
     (if lk_Name link \<in> lk_Name ` set (ke_links w) then (w, Some ''file exists'')
      else (w\<lparr>ke_links := ke_links w @ [link\<lparr>lk_Index := 1 + foldl max 0 (map lk_Index (ke_links w))\<rparr>],
             ke_addrs := filter (\<lambda>x. fst x \<noteq> lk_Name link) (ke_addrs w)\<rparr>, None))"

definition ke_LinkDel :: "KLink \<Rightarrow> kernel act" where
  "ke_LinkDel link w =
     (w\<lparr>ke_links := filter (\<lambda>l. lk_Name l \<noteq> lk_Name link) (ke_links w),
        ke_addrs := filter (\<lambda>x. fst x \<noteq> lk_Name link) (ke_addrs w)\<rparr>, None)"

definition ke_parse :: "string \<Rightarrow> string + IPNet" where
  "ke_parse s =
     (case (ParseIP (takeWhile (\<lambda>c. c \<noteq> CHR ''/'') s), ParseCIDR_net s) of
        (Some a, Some n) \<Rightarrow> Inr (n\<lparr>in_IP := (if ip_To4 a = [] then a else ip_To4 a)\<rparr>)
      | _ \<Rightarrow> Inl ''invalid address'')"

definition ex_clients :: "kernel Clients" where
  "ex_clients =
     \<lparr>cl_LinkByName = (\<lambda>n. ke_find (\<lambda>l. lk_Name l = n)),
      cl_LinkByIndex = (\<lambda>i. ke_find (\<lambda>l. lk_Index l = i)),
      cl_LinkList = (\<lambda>w. Inr (ke_links w)),
      cl_LinkAdd = ke_LinkAdd,
      cl_LinkDel = ke_LinkDel,
      cl_LinkSetUp = (\<lambda>l. ke_update (lk_Name l) (lk_Up_update (\<lambda>_. True))),
      cl_LinkSetDown = (\<lambda>l. ke_update (lk_Name l) (lk_Up_update (\<lambda>_. False))),
      cl_LinkSetMTU = (\<lambda>l mtu. ke_update (lk_Name l) (lk_MTU_update (\<lambda>_. mtu))),
      cl_LinkSetMaster = (\<lambda>l b. ke_update (lk_Name l) (lk_MasterIndex_update (\<lambda>_. lk_Index b))),
      cl_LinkSetNoMaster = (\<lambda>l. ke_update (lk_Name l) (lk_MasterIndex_update (\<lambda>_. 0))),
      cl_AddrList = (\<lambda>l w. Inr (map snd (filter (\<lambda>x. fst x = lk_Name l) (ke_addrs w)))),
      cl_AddrAdd = ke_AddrAdd,
      cl_AddrDel = ke_AddrDel,
      cl_RouteAdd = (\<lambda>r w. (w\<lparr>ke_routes := ke_routes w @ [r]\<rparr>, None)),
      cl_RouteDel = (\<lambda>r w. (w\<lparr>ke_routes := removeAll r (ke_routes w)\<rparr>, None)),
      cl_RouteList = (\<lambda>l w. Inr (case l of None \<Rightarrow> ke_routes w
                                 | Some k \<Rightarrow> filter (\<lambda>r. nr_LinkIndex r = lk_Index k) (ke_routes w))),
      cl_ReadFile = (\<lambda>n w. case mget (ke_files w) n of None \<Rightarrow> Inl ''no such file'' | Some c \<Rightarrow> Inr c),
      cl_WriteFile = (\<lambda>n c w. (w\<lparr>ke_files := mput n c (ke_files w)\<rparr>, None)),
      cl_Run = (\<lambda>c w. (w, [], None)),
      cl_LookPath = (\<lambda>n w. None),
      cl_CommandRun = (\<lambda>c w. (w, None)),
      cl_CommandStart = (\<lambda>c w. (w\<lparr>ke_started := ke_started w @ [c]\<rparr>, None)),
      cl_CreateTemp = (\<lambda>n w. (w, Inr ''/tmp/jack-nft-rollback-1.json'')),
      cl_Remove = (\<lambda>n w. (w\<lparr>ke_files := mdel n (ke_files w)\<rparr>, None)),
      cl_ParseAddr = ke_parse\<rparr>"

text \<open>A router with an uplink, a switch port in a bridge, and a default route.\<close>

definition ex_kernel :: kernel where
  "ex_kernel =
     \<lparr>ke_links =
        [zero_KLink\<lparr>lk_Name := ''lo'', lk_Index := 1, lk_MTU := 65536, lk_Up := True, lk_Type := ''device''\<rparr>,
         zero_KLink\<lparr>lk_Name := ''eth0'', lk_Index := 2, lk_MTU := 1500, lk_Up := True, lk_Type := ''device''\<rparr>,
         zero_KLink\<lparr>lk_Name := ''eth1'', lk_Index := 3, lk_MTU := 1500, lk_Up := True, lk_MasterIndex := 4, lk_Type := ''device''\<rparr>,
         zero_KLink\<lparr>lk_Name := ''br-lan'', lk_Index := 4, lk_MTU := 1500, lk_Up := True, lk_Type := ''bridge''\<rparr>],
      ke_addrs = [(''eth0'', \<lparr>in_IP = [10, 0, 0, 2], in_Mask = [255, 255, 255, 0]\<rparr>),
                  (''br-lan'', \<lparr>in_IP = [192, 168, 1, 1], in_Mask = [255, 255, 255, 0]\<rparr>)],
      ke_routes = [zero_NRoute\<lparr>nr_Gw := [10, 0, 0, 1], nr_LinkIndex := 2, nr_Priority := 100, nr_Table := 254\<rparr>],
      ke_files = [(''/proc/sys/net/ipv4/ip_forward'', ''0'')], ke_started = []\<rparr>"

end
