(* ===== verification/Snapshot_Facts.thy ===== *)
theory Snapshot_Facts
  imports System_Layer Kernel_Example
begin

text \<open>
  Snapshots of the system: what a capture records, and that restoring it at once changes nothing.
\<close>

section \<open>Captured interfaces\<close>

definition captured :: "'w Clients \<Rightarrow> 'w \<Rightarrow> KLink \<Rightarrow> bool" where
  "captured cl w link \<longleftrightarrow> lk_Name link \<noteq> ''lo'' \<and> (\<exists>addrs. cl_AddrList cl link w = Inr addrs)"

lemma captureInterfaceState_Inr: "(\<exists>s. captureInterfaceState cl link w = Inr s) \<longleftrightarrow> (\<exists>addrs. cl_AddrList cl link w = Inr addrs)"
  by (auto simp: captureInterfaceState_def Let_def split: sum.splits)

lemma capture_kind_fields:
  "is_Name (capture_kind cl link w s) = is_Name s" "is_Existed (capture_kind cl link w s) = is_Existed s"
  "is_MTU (capture_kind cl link w s) = is_MTU s" "is_State (capture_kind cl link w s) = is_State s"
  "is_Addresses (capture_kind cl link w s) = is_Addresses s"
  by (auto simp: capture_kind_def split: sum.splits option.splits)

lemma capture_kind_type: "is_Type (capture_kind cl link w s) \<in> {''bridge'', ''vlan'', ''wireguard'', ''physical''}"
  by (auto simp: capture_kind_def split: sum.splits option.splits)

lemma capture_kind_ports:
  "is_Ports s = None \<Longrightarrow> elems (is_Ports (capture_kind cl link w s)) \<noteq> [] \<Longrightarrow>
   lk_Type link = ''bridge'' \<and> sm_getBridgePorts cl (lk_Name link) w = Inr (elems (is_Ports (capture_kind cl link w s)))"
  by (auto simp: capture_kind_def appended_def elems_def split: sum.splits option.splits if_splits)

lemma elems_appended [simp]: "elems (appended xs) = xs"
  by (simp add: appended_def elems_def)

lemma captured_fields:
  assumes "captureInterfaceState cl link w = Inr s" and "cl_AddrList cl link w = Inr addrs"
  shows "is_Name s = lk_Name link" "is_Existed s" "is_MTU s = lk_MTU link" "(is_State s = ''up'') = lk_Up link"
    "is_State s \<in> {''up'', ''down''}" "is_Type s \<in> {''bridge'', ''vlan'', ''wireguard'', ''physical''}"
    "elems (is_Addresses s) = map net_String addrs"
    "elems (is_Ports s) \<noteq> [] \<Longrightarrow> sm_getBridgePorts cl (lk_Name link) w = Inr (elems (is_Ports s))"
proof -
  obtain s0 where s: "s = capture_kind cl link w s0" and s0: "is_Name s0 = lk_Name link" "is_Existed s0" "is_MTU s0 = lk_MTU link"
    "is_State s0 = (if lk_Up link then ''up'' else ''down'')" "is_Addresses s0 = appended (map net_String addrs)" "is_Ports s0 = None"
    by (rule that [OF sym]) (use assms in \<open>auto simp: captureInterfaceState_def Let_def\<close>)
  show "is_Name s = lk_Name link" "is_Existed s" "is_MTU s = lk_MTU link" "(is_State s = ''up'') = lk_Up link"
    "is_State s \<in> {''up'', ''down''}" "elems (is_Addresses s) = map net_String addrs"
    by (simp_all add: s s0 capture_kind_fields)
  show "is_Type s \<in> {''bridge'', ''vlan'', ''wireguard'', ''physical''}" unfolding s by (rule capture_kind_type)
  show "elems (is_Ports s) \<noteq> [] \<Longrightarrow> sm_getBridgePorts cl (lk_Name link) w = Inr (elems (is_Ports s))"
    unfolding s by (rule conjunct2 [OF capture_kind_ports [OF s0(6)]])
qed

lemma capture_links_snoc:
  "capture_links cl w (links @ [l]) =
     (if lk_Name l = ''lo'' then capture_links cl w links
      else case captureInterfaceState cl l w of Inl _ \<Rightarrow> capture_links cl w links
        | Inr snap \<Rightarrow> mput (lk_Name l) snap (capture_links cl w links))"
  by (simp add: capture_links_def split: sum.splits)

lemma capture_links_entry:
  "mget (capture_links cl w links) n = Some s \<Longrightarrow>
   n \<noteq> ''lo'' \<and> (\<exists>l \<in> set links. lk_Name l = n \<and> captureInterfaceState cl l w = Inr s)"
  by (induction links rule: rev_induct)
     (auto simp: capture_links_def [of _ _ "[]"] capture_links_snoc gomap_simps split: if_splits sum.splits)

lemma capture_links_mwf: "mwf (capture_links cl w links)"
  by (induction links rule: rev_induct)
     (auto simp: capture_links_def [of _ _ "[]"] capture_links_snoc gomap_wf split: sum.splits)

lemma capture_links_get:
  "distinct (map lk_Name links) \<Longrightarrow> l \<in> set links \<Longrightarrow> lk_Name l \<noteq> ''lo'' \<Longrightarrow> captureInterfaceState cl l w = Inr s \<Longrightarrow>
   mget (capture_links cl w links) (lk_Name l) = Some s"
proof (induction links rule: rev_induct)
  case (snoc x xs)
  then show ?case
    by (cases "l = x") (auto simp: capture_links_snoc gomap_simps image_iff split: sum.splits)
qed simp

section \<open>Restoring what is there\<close>

lemma each_nop: "(\<And>x. x \<in> set xs \<Longrightarrow> f x w = (w, None)) \<Longrightarrow> each f xs w = (w, None)"
  by (induction xs) (auto simp: andthen_def)

lemma route_matches_capture: "snapshotRoutesMatch cl w r (capture_route cl w r)"
  by (simp add: snapshotRoutesMatch_def capture_route_def)

lemma rollbackRoutes_noop:
  assumes "cl_RouteList cl None w = Inr routes"
  shows "rollbackRoutes cl (map (capture_route cl w) routes) w = (w, None)"
proof -
  have "each (drop_route cl (map (capture_route cl w) routes)) routes w = (w, None)"
    by (rule each_nop) (auto simp: drop_route_def snapshotRouteExists_def list_ex_iff intro!: bexI route_matches_capture)
  moreover have "each (readd_route cl routes) (map (capture_route cl w) routes) w = (w, None)"
    by (rule each_nop) (auto simp: readd_route_def snapshotRouteInCurrent_def list_ex_iff intro!: bexI route_matches_capture)
  ultimately show ?thesis using assms by (simp add: rollbackRoutes_def querying_def andthen_def)
qed

lemma restoreIPAddresses_noop:
  assumes "cl_AddrList cl link w = Inr addrs"
  shows "restoreIPAddresses cl link (map net_String addrs) w = (w, None)"
proof -
  have "filter (\<lambda>current. net_String current \<notin> set (map net_String addrs)) addrs = []"
    "filter (\<lambda>s. s \<notin> net_String ` set addrs) (map net_String addrs) = []" by (auto simp: filter_empty_conv)
  with assms show ?thesis unfolding restoreIPAddresses_def querying_def by (simp only: each.simps sum.case) (simp add: andthen_def)
qed

lemma restoreBridgePorts_noop:
  assumes "sm_getBridgePorts cl (lk_Name bridge) w = Inr ports"
  shows "restoreBridgePorts cl bridge ports w = (w, None)"
proof -
  have "filter (\<lambda>p. p \<notin> set ports) ports = []" by (simp add: filter_empty_conv)
  with assms show ?thesis unfolding restoreBridgePorts_def querying_def by (simp only: each.simps sum.case) (simp add: andthen_def)
qed

lemma restoreInterfaceState_noop:
  assumes "captureInterfaceState cl link w = Inr s" and "mget links (lk_Name link) = Some link"
  shows "restoreInterfaceState cl s links w = (w, None)"
proof -
  obtain addrs where a: "cl_AddrList cl link w = Inr addrs" using assms(1) captureInterfaceState_Inr [of cl link w] by auto
  note f = captured_fields [OF assms(1) a]
  have "restoreIPAddresses cl link (elems (is_Addresses s)) w = (w, None)"
    using restoreIPAddresses_noop [OF a] f(7) by simp
  moreover have "elems (is_Ports s) \<noteq> [] \<Longrightarrow> restoreBridgePorts cl link (elems (is_Ports s)) w = (w, None)"
    by (rule restoreBridgePorts_noop [OF f(8)])
  ultimately show ?thesis using f assms(2)
    by (simp add: restoreInterfaceState_def andthen_def wrapping_def)
qed

lemma links_by_name_get:
  "distinct (map lk_Name links) \<Longrightarrow> mget (links_by_name links) n = Some l \<longleftrightarrow> l \<in> set links \<and> lk_Name l = n"
  by (induction links rule: rev_induct) (auto simp: links_by_name_def gomap_simps image_iff)

lemma links_by_name_mwf: "mwf (links_by_name links)"
  by (induction links rule: rev_induct) (auto simp: links_by_name_def gomap_wf)

lemma rollbackInterfaces_noop:
  assumes "cl_LinkList cl w = Inr links" and "distinct (map lk_Name links)"
    and "\<And>l. l \<in> set links \<Longrightarrow> lk_Name l \<noteq> ''lo'' \<Longrightarrow> \<exists>addrs. cl_AddrList cl l w = Inr addrs"
  shows "rollbackInterfaces cl (capture_links cl w links) w = (w, None)"
proof -
  let ?snaps = "capture_links cl w links" and ?names = "links_by_name links"
  have "\<not> is_created ?snaps n" if "(n, l) \<in> set ?names" for n l
  proof -
    have l: "l \<in> set links" "lk_Name l = n"
      using that links_by_name_mwf [of links] by (auto simp: mget_iff_entry [symmetric] links_by_name_get [OF assms(2)])
    show ?thesis
    proof (cases "n = ''lo''")
      case False
      then obtain s where s: "captureInterfaceState cl l w = Inr s"
        using assms(3) [OF l(1)] captureInterfaceState_Inr [of cl l w] l(2) by auto
      have "mget ?snaps n = Some s" using capture_links_get [OF assms(2) l(1) _ s] False l(2) by simp
      moreover obtain addrs where "cl_AddrList cl l w = Inr addrs" using s captureInterfaceState_Inr [of cl l w] by auto
      then have "is_Existed s" by (rule captured_fields(2) [OF s])
      ultimately show ?thesis by (simp add: is_created_def)
    qed (simp add: is_created_def)
  qed
  then have "filter (\<lambda>(name, link). is_created ?snaps name) ?names = []" by (auto simp: filter_empty_conv)
  moreover have "each (\<lambda>(name, snapshot). logged (restoreInterfaceState cl snapshot ?names))
      (filter (\<lambda>(name, snapshot). is_Existed snapshot) ?snaps) w = (w, None)"
  proof (rule each_nop, clarsimp)
    fix n s assume "(n, s) \<in> set ?snaps"
    then have "mget ?snaps n = Some s" using capture_links_mwf [of cl w links] by (simp add: mget_iff_entry)
    then obtain l where "l \<in> set links" "lk_Name l = n" "captureInterfaceState cl l w = Inr s"
      using capture_links_entry by metis
    then show "w = fst (restoreInterfaceState cl s ?names w)"
      using restoreInterfaceState_noop [of cl l w s ?names] links_by_name_get [OF assms(2)] by simp
  qed
  ultimately show ?thesis using assms(1) by (simp add: rollbackInterfaces_def querying_def andthen_def)
qed

lemma CaptureSystemSnapshot_Ok:
  assumes "CaptureSystemSnapshot cl now w = Ok s"
  obtains links routes where "cl_LinkList cl w = Inr links" and "cl_RouteList cl None w = Inr routes"
    and "ss_Interfaces s = capture_links cl w links" and "elems (ss_Routes s) = map (capture_route cl w) routes"
  using assms by (auto simp: CaptureSystemSnapshot_def Let_def split: sum.splits prod.splits)

section \<open>Properties\<close>

text \<open>
  C19 (restore_after_capture): restoring a snapshot right after it was taken leaves interfaces, addresses,
  bridge ports and routes alone, whatever they are; a restore of everything does nothing but write the recorded
  forwarding flag. The hypotheses are that link names are unique and that the addresses of every link could be read.
\<close>

theorem restore_after_capture:
  assumes "CaptureSystemSnapshot cl now w = Ok s" and "cl_LinkList cl w = Inr links" and "distinct (map lk_Name links)"
    and "\<And>l. l \<in> set links \<Longrightarrow> lk_Name l \<noteq> ''lo'' \<Longrightarrow> \<exists>addrs. cl_AddrList cl l w = Inr addrs"
  shows "RestoreSnapshot cl s [''routes'', ''interfaces''] w = (w, None) \<and>
         fst (RestoreSnapshot cl s [''all''] w) =
           fst (cl_WriteFile cl ''/proc/sys/net/ipv4/ip_forward'' (if ss_IPForwarding s then ''1'' else ''0'') w)"
proof -
  obtain routes where r: "cl_RouteList cl None w = Inr routes" "ss_Interfaces s = capture_links cl w links"
    "elems (ss_Routes s) = map (capture_route cl w) routes"
    using CaptureSystemSnapshot_Ok [OF assms(1)] assms(2) by force
  have "rollbackRoutes cl (elems (ss_Routes s)) w = (w, None)" using rollbackRoutes_noop [OF r(1)] r(3) by simp
  moreover have "rollbackInterfaces cl (ss_Interfaces s) w = (w, None)" using rollbackInterfaces_noop [OF assms(2-4)] r(2) by simp
  ultimately show ?thesis
    by (simp add: RestoreSnapshot_def restore_part_def containsScope_def rollbackIPForwarding_def wrapping_def
        ip_forward_file_def split: prod.splits option.splits)
qed

theorem restore_after_capture_witness:
  "\<exists>s. CaptureSystemSnapshot ex_clients 5000000000 ex_kernel = Ok s \<and> ss_Interfaces s \<noteq> [] \<and> ss_Routes s \<noteq> None \<and>
       RestoreSnapshot ex_clients s [''routes'', ''interfaces''] ex_kernel = (ex_kernel, None)"
proof -
  have "case CaptureSystemSnapshot ex_clients 5000000000 ex_kernel of Ok s \<Rightarrow> ss_Interfaces s \<noteq> [] \<and> ss_Routes s \<noteq> None | _ \<Rightarrow> False"
    by code_simp
  then obtain s where s: "CaptureSystemSnapshot ex_clients 5000000000 ex_kernel = Ok s" "ss_Interfaces s \<noteq> []" "ss_Routes s \<noteq> None"
    by (auto split: outcome.splits)
  have "distinct (map lk_Name (ke_links ex_kernel))" by (simp add: ex_kernel_def zero_KLink_def)
  with restore_after_capture [OF s(1), of "ke_links ex_kernel"] s show ?thesis by (simp add: ex_clients_def)
qed



end
