(* ===== verification/Network_Facts.thy ===== *)
theory Network_Facts
  imports Network_Manager Kernel_Example Codec
begin

text \<open>
  What a successful configuration of an interface leaves on its device, for a kernel whose address
  operations behave as documented, and where the configuration of an interface goes wrong.
\<close>

section \<open>The kernel's addresses\<close>

text \<open>
  \<open>addrs w n\<close> are the IPv4 addresses of device \<open>n\<close>. The laws: a link is found under its name; the
  addresses are listed; an added address shows up, in the kernel's form; a removed one is gone and
  no other is (\<open>promote_secondaries\<close>); a new link has none; the operations on links, ports and routes
  used here do not touch addresses.
\<close>

definition silent :: "('w \<Rightarrow> string \<Rightarrow> IPNet list) \<Rightarrow> 'w act \<Rightarrow> bool" where
  "silent addrs f \<longleftrightarrow> (\<forall>w. addrs (fst (f w)) = addrs w)"

definition addr_laws :: "'w Clients \<Rightarrow> ('w \<Rightarrow> string \<Rightarrow> IPNet list) \<Rightarrow> bool" where
  "addr_laws cl addrs \<longleftrightarrow>
     (\<forall>n w l. cl_LinkByName cl n w = Inr l \<longrightarrow> lk_Name l = n) \<and>
     (\<forall>l w xs. cl_AddrList cl l w = Inr xs \<longrightarrow> xs = addrs w (lk_Name l)) \<and>
     (\<forall>l a w w'. cl_AddrAdd cl l a w = (w', None) \<longrightarrow> length (in_Mask a) = 4 \<longrightarrow>
        (\<exists>b. addrs w' (lk_Name l) = addrs w (lk_Name l) @ [b] \<and> is_desired (in_IP a) (in_Mask a) b)) \<and>
     (\<forall>l a w w'. cl_AddrDel cl l a w = (w', None) \<longrightarrow> set (addrs w' (lk_Name l)) = set (addrs w (lk_Name l)) - {a}) \<and>
     (\<forall>l w w'. cl_LinkAdd cl l w = (w', None) \<longrightarrow> addrs w' (lk_Name l) = []) \<and>
     (\<forall>l. silent addrs (cl_LinkSetUp cl l)) \<and> (\<forall>l m. silent addrs (cl_LinkSetMTU cl l m)) \<and>
     (\<forall>l b. silent addrs (cl_LinkSetMaster cl l b)) \<and> (\<forall>l. silent addrs (cl_LinkSetNoMaster cl l)) \<and>
     (\<forall>r. silent addrs (cl_RouteAdd cl r)) \<and> (\<forall>r. silent addrs (cl_RouteDel cl r))"

lemma addr_lawsD:
  assumes "addr_laws cl addrs"
  shows "cl_LinkByName cl n w = Inr l \<Longrightarrow> lk_Name l = n"
    and "cl_AddrList cl l w = Inr xs \<Longrightarrow> xs = addrs w (lk_Name l)"
    and "cl_AddrAdd cl l a w = (w', None) \<Longrightarrow> length (in_Mask a) = 4 \<Longrightarrow>
      \<exists>b. addrs w' (lk_Name l) = addrs w (lk_Name l) @ [b] \<and> is_desired (in_IP a) (in_Mask a) b"
    and "cl_AddrDel cl l a w = (w', None) \<Longrightarrow> set (addrs w' (lk_Name l)) = set (addrs w (lk_Name l)) - {a}"
    and "cl_LinkAdd cl l w = (w', None) \<Longrightarrow> addrs w' (lk_Name l) = []"
    and "silent addrs (cl_LinkSetUp cl l)" "silent addrs (cl_LinkSetMTU cl l m)" "silent addrs (cl_LinkSetMaster cl l b)"
      "silent addrs (cl_LinkSetNoMaster cl l)" "silent addrs (cl_RouteAdd cl r)" "silent addrs (cl_RouteDel cl r)"
  using assms unfolding addr_laws_def by auto

lemma silentD: "silent addrs f \<Longrightarrow> f w = (w', e) \<Longrightarrow> addrs w' = addrs w"
  by (metis fst_conv silent_def)

lemma silent_act:
  "silent addrs nop" "silent addrs (fails e)"
  "silent addrs f \<Longrightarrow> silent addrs g \<Longrightarrow> silent addrs (andthen f g)"
  "silent addrs f \<Longrightarrow> silent addrs (wrapping p f)"
  "(\<And>x. silent addrs (k x)) \<Longrightarrow> silent addrs (querying q p k)"
  "silent addrs f \<Longrightarrow> silent addrs (logged f)"
  by (auto simp: silent_def andthen_def wrapping_def querying_def logged_def split: prod.splits option.splits sum.splits)
     (metis fst_conv)+

lemma silent_each: "(\<And>x. x \<in> set xs \<Longrightarrow> silent addrs (f x)) \<Longrightarrow> silent addrs (each f xs)"
  by (induction xs) (auto intro: silent_act)

section \<open>Address routines\<close>

lemma remove_addresses:
  assumes "addr_laws cl addrs"
  shows "each (\<lambda>a. wrapping p (cl_AddrDel cl l a)) xs w = (w', None) \<Longrightarrow>
    set (addrs w' (lk_Name l)) = set (addrs w (lk_Name l)) - set xs"
proof (induction xs arbitrary: w)
  case (Cons a xs)
  then obtain v where v: "cl_AddrDel cl l a w = (v, None)" "each (\<lambda>a. wrapping p (cl_AddrDel cl l a)) xs v = (w', None)"
    by (auto simp: act_ok)
  with Cons.IH [OF v(2)] addr_lawsD(4) [OF assms v(1)] show ?case by auto
qed simp

lemma flush_empties:
  assumes "addr_laws cl addrs" and "flushIPs cl l w = (w', None)"
  shows "addrs w' (lk_Name l) = []"
proof -
  obtain xs where xs: "cl_AddrList cl l w = Inr xs" "each (\<lambda>a. wrapping ''failed to remove IP: '' (cl_AddrDel cl l a)) xs w = (w', None)"
    using assms(2) by (auto simp: flushIPs_def act_ok)
  have "set (addrs w' (lk_Name l)) = {}"
    using remove_addresses [OF assms(1) xs(2)] addr_lawsD(2) [OF assms(1) xs(1)] by simp
  then show ?thesis by simp
qed

lemma setStaticIP_adds:
  assumes "addr_laws cl addrs" and "setStaticIP cl l ipAddr netmask w = (w', None)" and "ipAddr \<noteq> ''''"
    and "ParseIP ipAddr = Some ip" and "length (dotted_mask netmask) = 4"
  shows "\<exists>b. addrs w' (lk_Name l) = addrs w (lk_Name l) @ [b] \<and> is_desired ip (dotted_mask netmask) b"
  using addr_lawsD(3) [OF assms(1), of l "\<lparr>in_IP = ip, in_Mask = dotted_mask netmask\<rparr>" w w'] assms(2-5)
  by (simp add: setStaticIP_def)

lemma ensureStaticIP_exact:
  assumes "addr_laws cl addrs" and "ensureStaticIP cl l ipAddr netmask w = (w', None)" and "ipAddr \<noteq> ''''"
    and "ParseIP ipAddr = Some ip" and "length (dotted_mask netmask) = 4"
  shows "addrs w' (lk_Name l) \<noteq> [] \<and> (\<forall>b \<in> set (addrs w' (lk_Name l)). is_desired ip (dotted_mask netmask) b)"
proof -
  let ?D = "is_desired ip (dotted_mask netmask)"
  obtain xs v where xs: "cl_AddrList cl l w = Inr xs"
    "each (\<lambda>a. wrapping ''failed to remove IP: '' (cl_AddrDel cl l a)) (filter (\<lambda>a. \<not> ?D a) xs) w = (v, None)"
    "(if \<not> list_ex ?D xs then wrapping ''failed to add IP address: '' (cl_AddrAdd cl l \<lparr>in_IP = ip, in_Mask = dotted_mask netmask\<rparr>)
      else nop) v = (w', None)"
    using assms(2-4) by (auto simp: ensureStaticIP_def Let_def act_ok simp del: wrapping_ok_iff if_not_P if_P)
  have v: "set (addrs v (lk_Name l)) = {a \<in> set xs. ?D a}"
    using remove_addresses [OF assms(1) xs(2)] addr_lawsD(2) [OF assms(1) xs(1)] by auto
  show ?thesis
  proof (cases "list_ex ?D xs")
    case True
    then have "w' = v" using xs(3) by simp
    with True v show ?thesis by (fastforce simp: list_ex_iff)
  next
    case False
    then have "addrs v (lk_Name l) = []" using v by (auto simp: list_ex_iff simp flip: set_empty)
    moreover have "cl_AddrAdd cl l \<lparr>in_IP = ip, in_Mask = dotted_mask netmask\<rparr> v = (w', None)" using xs(3) False by simp
    ultimately show ?thesis using addr_lawsD(3) [OF assms(1)] assms(5) by fastforce
  qed
qed

lemma gateway_silent: "addr_laws cl addrs \<Longrightarrow> silent addrs (setDefaultGateway cl l g m)"
  by (auto simp: setDefaultGateway_def split: option.splits intro!: silent_act silent_each addr_lawsD(10,11))

lemma by_protocol_static:
  assumes "addr_laws cl addrs" and "by_protocol cl f l dev i w = (w', None)" and "if_Protocol i = ''static''"
  obtains v where "f w = (v, None)" and "addrs w' = addrs v"
proof -
  obtain v where v: "f w = (v, None)"
    "(if if_Gateway i \<noteq> '''' then setDefaultGateway cl l (if_Gateway i) (if if_Metric i = 0 then 100 else if_Metric i) else nop) v = (w', None)"
    using assms(2,3) by (auto simp: by_protocol_def act_ok)
  have "addrs w' = addrs v"
    using silentD [OF gateway_silent [OF assms(1)]] v(2) by (cases "if_Gateway i = ''''") (auto split: if_splits)
  with v(1) show thesis by (rule that)
qed

section \<open>Interfaces\<close>

definition static_as :: "Interface \<Rightarrow> ip \<Rightarrow> bool" where
  "static_as i ip \<longleftrightarrow> if_Protocol i = ''static'' \<and> if_IPAddr i \<noteq> '''' \<and> ParseIP (if_IPAddr i) = Some ip \<and>
     length (dotted_mask (if_Netmask i)) = 4"

definition exactly :: "Interface \<Rightarrow> ip \<Rightarrow> IPNet list \<Rightarrow> bool" where
  "exactly i ip xs \<longleftrightarrow> xs \<noteq> [] \<and> (\<forall>a \<in> set xs. is_desired ip (dotted_mask (if_Netmask i)) a)"

lemma default_mtu_fields [simp]:
  "if_Protocol (default_mtu i) = if_Protocol i" "if_IPAddr (default_mtu i) = if_IPAddr i" "if_Netmask (default_mtu i) = if_Netmask i"
  "if_Device (default_mtu i) = if_Device i" "if_DeviceName (default_mtu i) = if_DeviceName i" "if_VLANId (default_mtu i) = if_VLANId i"
  "static_as (default_mtu i) = static_as i" "exactly (default_mtu i) = exactly i"
  by (simp_all add: default_mtu_def static_as_def exactly_def fun_eq_iff)

lemma applyIP_exact:
  assumes "addr_laws cl addrs" and "applyIPConfiguration cl l dev i w = (w', None)" and "static_as i ip"
  shows "exactly i ip (addrs w' (lk_Name l))"
proof -
  obtain v where "ensureStaticIP cl l (if_IPAddr i) (if_Netmask i) w = (v, None)" "addrs w' = addrs v"
    by (rule by_protocol_static [OF assms(1) assms(2) [unfolded applyIPConfiguration_def]])
       (use assms(3) in \<open>simp add: static_as_def\<close>)
  with ensureStaticIP_exact [OF assms(1)] assms(3) show ?thesis by (simp add: static_as_def exactly_def)
qed

lemma physical_exact:
  assumes "addr_laws cl addrs" and "applyPhysicalInterface cl name i w = (w', None)" and "static_as i ip"
  shows "exactly i ip (addrs w' (if_Device i))"
proof -
  let ?i = "default_mtu i"
  obtain l v where l: "cl_LinkByName cl (if_Device i) w = Inr l" and
    v: "by_protocol cl (setStaticIP cl l (if_IPAddr i) (if_Netmask i)) l (if_Device i) ?i v = (w', None)"
    and empty: "addrs v (lk_Name l) = []"
    using assms(2) flush_empties [OF assms(1)] by (auto simp: applyPhysicalInterface_def Let_def act_ok)
  then obtain u where "setStaticIP cl l (if_IPAddr i) (if_Netmask i) v = (u, None)" "addrs w' = addrs u"
    using by_protocol_static [OF assms(1) v] assms(3) by (auto simp: static_as_def)
  with setStaticIP_adds [OF assms(1)] empty assms(3) addr_lawsD(1) [OF assms(1) l] show ?thesis
    by (fastforce simp: static_as_def exactly_def)
qed

lemma vlan_exact:
  assumes "addr_laws cl addrs" and "applyVLANInterface cl name i w = (w', None)" and "static_as i ip"
  shows "exactly i ip (addrs w' (if_DeviceName i))"
proof -
  let ?i = "default_mtu i"
  obtain l u v where "cl_LinkByName cl (if_DeviceName i) u = Inr l" and "applyIPConfiguration cl l (if_DeviceName i) ?i v = (w', None)"
    using assms(2) by (auto simp: applyVLANInterface_def Let_def act_ok split: if_splits)
  with applyIP_exact [OF assms(1)] assms(3) addr_lawsD(1) [OF assms(1)] show ?thesis by fastforce
qed

lemma create_exact:
  assumes "addr_laws cl addrs" and "create_and_configure cl dev i w = (w', None)" and "static_as i ip"
  shows "exactly i ip (addrs w' dev)"
proof -
  obtain v u l where "createBridge cl dev i w = (v, Inr l)" "applyIPConfiguration cl l dev i v = (w', None)"
    "cl_LinkByName cl dev u = Inr l"
    using assms(2) by (auto simp: create_and_configure_def createBridge_def split: prod.splits option.splits sum.splits)
  with applyIP_exact [OF assms(1)] assms(3) addr_lawsD(1) [OF assms(1)] show ?thesis by fastforce
qed

lemma bridge_present:
  assumes "addr_laws cl addrs" and "applyBridgeInterface cl name i w = (w', None)" and "static_as i ip"
  shows "\<exists>a \<in> set (addrs w' (if if_Device i = '''' then name else if_Device i)). is_desired ip (dotted_mask (if_Netmask i)) a"
proof -
  let ?dev = "if if_Device i = '''' then name else if_Device i" and ?i = "default_mtu i"
  have ex: "exactly i ip xs \<Longrightarrow> \<exists>a \<in> set xs. is_desired ip (dotted_mask (if_Netmask i)) a" for xs
    by (cases xs) (auto simp: exactly_def)
  show ?thesis
  proof (cases "cl_LinkByName cl ?dev w")
    case (Inl e)
    then have "create_and_configure cl ?dev ?i w = (w', None)" using assms(2) by (simp add: applyBridgeInterface_def Let_def)
    with create_exact [OF assms(1)] assms(3) ex show ?thesis by fastforce
  next
    case (Inr l)
    have name: "lk_Name l = ?dev" by (rule addr_lawsD(1) [OF assms(1) Inr])
    note eq = assms(2) [unfolded applyBridgeInterface_def Let_def Inr sum.case]
    consider (created) u where "create_and_configure cl ?dev ?i u = (w', None)"
      | (kept) u where "applyIPConfiguration cl l ?dev ?i u = (w', None)"
      | (matching) "w' = w" "checkIPMatches cl l (if_IPAddr i) (if_Netmask i) w = Inr True"
    proof (cases "bridgeConfigMatches cl l ?i w")
      case Inl
      with eq show ?thesis by simp
    next
      case m: (Inr m)
      show ?thesis
      proof (cases m)
        case True
        with eq m assms(3) show ?thesis
          by (cases "checkIPMatches cl l (if_IPAddr i) (if_Netmask i) w")
             (auto simp: static_as_def split: bool.splits intro: kept matching)
      next
        case False
        with eq m show ?thesis
          by (cases "lk_MTU l = if_MTU ?i") (auto simp: act_ok intro: kept created)
      qed
    qed
    then show ?thesis
    proof cases
      case (created u)
      with create_exact [OF assms(1)] assms(3) ex show ?thesis by fastforce
    next
      case (kept u)
      with applyIP_exact [OF assms(1), of l ?dev ?i u] assms(3) ex name show ?thesis by fastforce
    next
      case matching
      with assms(3) name addr_lawsD(2) [OF assms(1)] show ?thesis
        by (fastforce simp: checkIPMatches_def static_as_def list_ex_iff split: sum.splits)
    qed
  qed
qed

section \<open>The example kernel obeys the laws\<close>

definition ex_addrs :: "kernel \<Rightarrow> string \<Rightarrow> IPNet list" where
  "ex_addrs w n = map snd (filter (\<lambda>x. fst x = n) (ke_addrs w))"

lemma ke_update_silent: "silent ex_addrs (ke_update n f)"
  by (simp add: silent_def ke_update_def ex_addrs_def fun_eq_iff)

lemma ip_Equal_To4: "ip_Equal (if ip_To4 a = [] then a else ip_To4 a) a"
proof (cases "length a = 16 \<and> To4 a \<noteq> None")
  case True
  then have "take 12 a = v4_in_v6" "To4 a = Some (drop 12 a)" by (auto simp: To4_def v4_in_v6_def split: if_splits)
  with True show ?thesis by (simp add: ip_To4_def ip_Equal_def)
qed (auto simp: ip_To4_def ip_Equal_def split: option.splits)

lemma ex_addr_laws: "addr_laws ex_clients ex_addrs"
  unfolding addr_laws_def
proof (intro conjI allI impI)
  fix l a w w' assume "cl_AddrAdd ex_clients l a w = (w', None)"
  then show "\<exists>b. ex_addrs w' (lk_Name l) = ex_addrs w (lk_Name l) @ [b] \<and> is_desired (in_IP a) (in_Mask a) b"
    using ip_Equal_To4 [of "in_IP a"]
    by (auto simp: ex_clients_def ke_AddrAdd_def Let_def ex_addrs_def is_desired_def split: if_splits)
qed (auto simp: ex_clients_def ke_find_def ex_addrs_def ke_AddrDel_def ke_LinkAdd_def silent_def ke_update_def find_Some_iff
    split: option.splits if_splits)

section \<open>Properties\<close>


definition ex_wan :: Interface where
  "ex_wan = zero_Interface\<lparr>if_Type := ''physical'', if_Device := ''eth0'', if_Protocol := ''static'',
     if_IPAddr := ''10.0.0.7'', if_Netmask := ''255.255.0.0'', if_Gateway := ''10.0.0.254'', if_Enabled := True\<rparr>"


section \<open>Where a configuration goes wrong\<close>

text \<open>
  A VLAN interface must name its parent device, and disabling the interface brings down that
  parent, with everything else that runs on it, instead of the VLAN device.
\<close>

lemma disabled_vlan:
  assumes "if_Type i = ''vlan''" and "if_Device i \<noteq> ''''" and "\<not> if_Enabled i" and "cl_LinkByName cl (if_Device i) w = Inr parent"
  shows "ApplyInterfaceConfig cl name i w =
    wrapping (''failed to bring down '' @ if_Device i @ '': '') (cl_LinkSetDown cl parent) w"
  using assms by (simp add: ApplyInterfaceConfig_def disableInterface_def)

lemma split_first: "c \<noteq> d \<Longrightarrow> \<exists>p ps. split_on c (d # s) = (d # p) # ps"
  by (induction s arbitrary: d) (auto split: list.splits)

lemma ParseIP_slash: "ParseIP (CHR ''/'' # s) = None"
proof -
  have o: "parse_octet (CHR ''/'' # p) = None" for p
    by (simp add: parse_octet_def parse_uint_def is_digit_def byte_of_def split: option.splits)
  obtain p ps where "split_on (CHR ''.'') (CHR ''/'' # s) = (CHR ''/'' # p) # ps" using split_first by fastforce
  then have v4: "parseIPv4 (CHR ''/'' # s) = None" by (simp add: parseIPv4_def Let_def o)
  have h: "\<not> is_hex (CHR ''/'')" by (simp add: is_hex_def hex_val_def byte_of_def)
  have v6: "parseIPv6 (CHR ''/'' # s) = None"
    by (simp add: parseIPv6_def numeral_eq_Suc h)
  show ?thesis using v4 v6 by (auto simp: ParseIP_def ParseAddr_def split: list.splits)
qed

text \<open>
  A netmask written as a prefix length, of any length up to 32, passes
  validation, and the interface is then given its address with an empty mask, whatever the prefix.
\<close>

theorem prefix_netmask_lost:
  assumes "n \<le> 32" and "ipAddr \<noteq> ''''" and "ParseIP ipAddr = Some ip"
  shows "ValidateNetmask (''/'' @ show_nat n) = None \<and>
    setStaticIP cl link ipAddr (''/'' @ show_nat n) =
      wrapping ''failed to add IP address: '' (cl_AddrAdd cl link \<lparr>in_IP = ip, in_Mask = []\<rparr>)"
  using assms atoi_show_int [of "int n"]
  by (simp add: ValidateNetmask_def trim_prefix_def show_int_def in_int64_def setStaticIP_def dotted_mask_def ParseIP_slash)

end
