(* ===== verification/Routes_Facts.thy ===== *)
theory Routes_Facts
  imports Routes_Manager Kernel_Example Codec
begin

text \<open>
  What a successful application of the static routes leaves in the kernel's routing table, for a kernel whose
  route operations behave as documented.
\<close>

section \<open>Equality of addresses\<close>

definition canon :: "ip \<Rightarrow> ip" where
  "canon a = (if length a = 16 \<and> take 12 a = v4_in_v6 then drop 12 a else a)"

lemma ip_Equal_canon: "ip_Equal a b \<longleftrightarrow> canon a = canon b"
proof -
  have "take 12 a = take 12 b \<Longrightarrow> drop 12 a = drop 12 b \<Longrightarrow> a = b" by (metis append_take_drop_id)
  moreover have "length (drop 12 x) = 4" if "length x = 16" for x :: ip using that by simp
  ultimately show ?thesis by (auto simp: ip_Equal_def canon_def)
qed

section \<open>The kernel's routes\<close>

definition dst_text :: "NRoute \<Rightarrow> string" where
  "dst_text r = (case nr_Dst r of None \<Rightarrow> ''0.0.0.0/0'' | Some d \<Rightarrow> net_String d)"

definition same_route :: "NRoute \<Rightarrow> NRoute \<Rightarrow> bool" where
  "same_route a b \<longleftrightarrow> dst_text a = dst_text b \<and> ip_Equal (nr_Gw a) (nr_Gw b) \<and> nr_Table a = nr_Table b"

text \<open>
  \<open>routes w\<close> is the routing table. The laws: it is what is listed; an added route is in it, possibly in
  another notation; a removed route is gone and nothing else is; a failed removal changes nothing.
\<close>

definition route_laws :: "'w Clients \<Rightarrow> ('w \<Rightarrow> NRoute list) \<Rightarrow> bool" where
  "route_laws cl routes \<longleftrightarrow>
     (\<forall>w xs. cl_RouteList cl None w = Inr xs \<longrightarrow> xs = routes w) \<and>
     (\<forall>r w w'. cl_RouteAdd cl r w = (w', None) \<longrightarrow> (\<exists>k. same_route k r \<and> set (routes w') = insert k (set (routes w)))) \<and>
     (\<forall>r w w'. cl_RouteDel cl r w = (w', None) \<longrightarrow> set (routes w') = set (routes w) - {r}) \<and>
     (\<forall>r w w' e. cl_RouteDel cl r w = (w', Some e) \<longrightarrow> routes w' = routes w)"

lemma route_lawsD:
  assumes "route_laws cl routes"
  shows "cl_RouteList cl None w = Inr xs \<Longrightarrow> xs = routes w"
    and "cl_RouteAdd cl r w = (w', None) \<Longrightarrow> \<exists>k. same_route k r \<and> set (routes w') = insert k (set (routes w))"
    and "set (routes w) - {r} \<subseteq> set (routes (fst (cl_RouteDel cl r w)))"
proof -
  show "set (routes w) - {r} \<subseteq> set (routes (fst (cl_RouteDel cl r w)))"
  proof (cases "cl_RouteDel cl r w")
    case (Pair w' e)
    have "e = None \<Longrightarrow> set (routes w') = set (routes w) - {r}" "e \<noteq> None \<Longrightarrow> routes w' = routes w"
      using assms Pair unfolding route_laws_def by blast+
    with Pair show ?thesis by (cases e) auto
  qed
qed (use assms in \<open>auto simp: route_laws_def\<close>)

section \<open>One route\<close>

text \<open>The kernel route \<open>k\<close> carries out the configured route \<open>r\<close>.\<close>

definition serves :: "NRoute \<Rightarrow> Route \<Rightarrow> bool" where
  "serves k r \<longleftrightarrow>
     (\<exists>d. route_dst (rt_Destination r) = Inr d \<and> dst_text k = net_String d) \<and>
     (if rt_Gateway r = '''' then nr_Gw k = [] else \<exists>gw. ParseIP (rt_Gateway r) = Some gw \<and> ip_Equal (nr_Gw k) gw) \<and>
     nr_Table k = (if rt_Table r = 0 then 254 else rt_Table r)"

lemma canon_Nil [simp]: "canon a = [] \<longleftrightarrow> a = []" "[] = canon a \<longleftrightarrow> a = []" "canon [] = []"
  by (auto simp: canon_def)

lemma serves_same: "serves k r \<Longrightarrow> same_route k k' \<Longrightarrow> serves k' r"
  by (auto simp: serves_def same_route_def ip_Equal_canon split: if_splits)

lemma route_link_serves:
  assumes "route_link cl r (zero_NRoute\<lparr>nr_Dst := Some d, nr_Priority := p, nr_Table := t\<rparr>) w = Inr nl"
    and "route_dst (rt_Destination r) = Inr d" and "t = (if rt_Table r = 0 then 254 else rt_Table r)"
  shows "serves nl r" and "nr_Dst nl = Some d"
  using assms
  by (auto simp: route_link_def serves_def dst_text_def zero_NRoute_def ip_Equal_canon split: if_splits option.splits sum.splits)

lemma remove_matching_keeps:
  assumes "route_laws cl routes" and "k \<in> set (routes w)" and "\<not> routesMatch k nl"
  shows "k \<in> set (routes (fst (remove_matching cl nl w)))"
proof -
  have "keeps (\<lambda>w. k \<in> set (routes w)) (each (\<lambda>e. logged (cl_RouteDel cl e)) (filter (\<lambda>e. routesMatch e nl) xs))" for xs
  proof (intro keeps_each keeps_act keeps_I)
    fix x w assume "x \<in> set (filter (\<lambda>e. routesMatch e nl) xs)" "k \<in> set (routes w)"
    then show "k \<in> set (routes (fst (cl_RouteDel cl x w)))"
      using subsetD [OF route_lawsD(3) [OF assms(1), of w x], of k] assms(3) by auto
  qed
  then show ?thesis using assms(2) by (auto simp: remove_matching_def keeps_def split: sum.splits)
qed

lemma routesMatch_same: "routesMatch k nl \<Longrightarrow> same_route k nl"
  by (auto simp: routesMatch_def same_route_def dst_text_def split: if_splits option.splits)

lemma applyRoute_steps:
  assumes "applyRoute cl n r w = (w', None)"
  obtains nl v where "serves nl r" and "remove_matching cl nl w = (v, None)" and "cl_RouteAdd cl nl v = (w', None)"
proof -
  let ?t = "if rt_Table r = 0 then 254 else rt_Table r"
  obtain d nl where d: "route_dst (rt_Destination r) = Inr d"
    and nl: "route_link cl r (zero_NRoute\<lparr>nr_Dst := Some d, nr_Priority := rt_Metric r, nr_Table := ?t\<rparr>) w = Inr nl"
    and steps: "andthen (remove_matching cl nl) (wrapping ''failed to add route: '' (cl_RouteAdd cl nl)) w = (w', None)"
    using assms unfolding applyRoute_def by (auto split: option.splits sum.splits)
  show thesis using that route_link_serves(1) [OF nl d refl] steps by (auto simp: act_ok)
qed

lemma applyRoute_serves:
  assumes "route_laws cl routes" and "applyRoute cl n r w = (w', None)"
  shows "\<exists>k \<in> set (routes w'). serves k r"
    and "(\<exists>k \<in> set (routes w). serves k r0) \<Longrightarrow> \<exists>k \<in> set (routes w'). serves k r0"
proof -
  obtain nl v where s: "serves nl r" "remove_matching cl nl w = (v, None)" "cl_RouteAdd cl nl v = (w', None)"
    using assms(2) by (rule applyRoute_steps)
  obtain k' where k': "same_route k' nl" "set (routes w') = insert k' (set (routes v))"
    using route_lawsD(2) [OF assms(1) s(3)] by blast
  have k'_serves: "serves k' x" if "serves nl x" for x
    using serves_same [OF that] k'(1) by (auto simp: same_route_def ip_Equal_canon)
  with s(1) k'(2) show "\<exists>k \<in> set (routes w'). serves k r" by auto
  assume "\<exists>k \<in> set (routes w). serves k r0"
  then obtain k where k: "k \<in> set (routes w)" "serves k r0" by blast
  show "\<exists>k \<in> set (routes w'). serves k r0"
  proof (cases "routesMatch k nl")
    case True
    then have "serves k' r0" using serves_same [OF k(2) routesMatch_same] k'_serves by blast
    with k'(2) show ?thesis by auto
  next
    case False
    then have "k \<in> set (routes v)" using remove_matching_keeps [OF assms(1) k(1)] s(2) by (metis fst_conv)
    with k(2) k'(2) show ?thesis by auto
  qed
qed

section \<open>All routes\<close>

abbreviation apply_entry :: "'w Clients \<Rightarrow> string \<times> Route \<Rightarrow> 'w act" where
  "apply_entry cl \<equiv> (\<lambda>(n, r). if \<not> rt_Enabled r then nop
      else wrapping (''failed to apply route '' @ n @ '': '') (applyRoute cl n r))"

lemma each_routes:
  assumes "route_laws cl routes"
  shows "each (apply_entry cl) xs w = (w', None) \<Longrightarrow>
     (\<forall>(n, r) \<in> set xs. rt_Enabled r \<longrightarrow> (\<exists>k \<in> set (routes w'). serves k r)) \<and>
     (\<forall>r. (\<exists>k \<in> set (routes w). serves k r) \<longrightarrow> (\<exists>k \<in> set (routes w'). serves k r))"
proof (induction xs arbitrary: w)
  case (Cons x xs)
  obtain n r where x: "x = (n, r)" by (cases x)
  obtain v where v: "apply_entry cl (n, r) w = (v, None)" "each (apply_entry cl) xs v = (w', None)"
    using Cons.prems x by (auto simp: act_ok)
  note IH = Cons.IH [OF v(2)]
  show ?case
  proof (cases "rt_Enabled r")
    case True
    then have a: "applyRoute cl n r w = (v, None)" using v(1) by simp
    with IH applyRoute_serves [OF assms a] show ?thesis by (auto simp: x)
  next
    case False
    with IH v(1) show ?thesis by (auto simp: x)
  qed
qed simp

section \<open>The interface of a gateway\<close>

lemma first_containing_Some:
  "first_containing cl gw w links = Some i \<Longrightarrow>
   \<exists>l \<in> set links. lk_Index l = i \<and> (\<exists>xs. cl_AddrList cl l w = Inr xs \<and> (\<exists>a \<in> set xs. net_Contains a gw))"
  by (induction links) (auto simp: list_ex_iff split: sum.splits if_splits)

section \<open>Properties\<close>


definition ex_routes :: RoutesConfig where
  "ex_routes = \<lparr>rc_Routes = Some [(''lab'', zero_Route\<lparr>rt_Destination := ''172.16.0.0/12'', rt_Gateway := ''192.168.1.9'', rt_Enabled := True\<rparr>),
      (''off'', zero_Route\<lparr>rt_Destination := ''default'', rt_Gateway := ''192.168.1.8''\<rparr>)], rc_Version = ''1.0''\<rparr>"

lemma ex_route_laws: "route_laws ex_clients ke_routes"
  by (auto simp: route_laws_def ex_clients_def same_route_def ip_Equal_canon)


end
