(* ===== verification/Firewall.thy ===== *)
theory Firewall
  imports Kernel
begin

text \<open>
  The firewall plugin, \<open>src/plugins/core/firewall\<close>: its configuration and validation (\<open>types.go\<close>), the
  generation of rules (\<open>firewall_rules.go\<close>), and the provider that hands them to \<open>nft\<close> (\<open>firewall.go\<close>). The
  commands \<open>nft\<close> and the file system are operations on a state of any type.
\<close>

section \<open>Configuration\<close>

record FirewallDefaults =
  fd_Input :: string
  fd_Forward :: string
  fd_Output :: string
  fd_SynFlood :: bool
  fd_DropInvalid :: bool

record Zone =
  zn_Name :: string
  zn_Interfaces :: "string slice"
  zn_Input :: string
  zn_Forward :: string
  zn_Output :: string
  zn_Masquerade :: bool
  zn_MTUFix :: bool
  zn_Family :: string
  zn_Comment :: string

record Forwarding =
  fw_Src :: string
  fw_Dest :: string
  fw_Family :: string
  fw_Comment :: string

record Rule =
  ru_Name :: string
  ru_Src :: string
  ru_Dest :: string
  ru_Proto :: string
  ru_SrcIP :: string
  ru_DestIP :: string
  ru_SrcPort :: string
  ru_DestPort :: string
  ru_ICMPType :: "string slice"
  ru_Target :: string
  ru_Family :: string
  ru_Limit :: string

record PortForward =
  pf_Name :: string
  pf_Src :: string
  pf_Dest :: string
  pf_Proto :: string
  pf_SrcDPort :: string
  pf_DestIP :: string
  pf_DestPort :: string
  pf_Target :: string
  pf_Enabled :: bool
  pf_Comment :: string

record FirewallLoggingConfig =
  fl_Enabled :: bool
  fl_LogAccepts :: bool
  fl_LogDrops :: bool
  fl_SamplingRate :: int
  fl_RateLimitPerSec :: int
  fl_MaxLogEntries :: int
  fl_RetentionDays :: int

record FirewallConfig =
  fc_Version :: string
  fc_Enabled :: bool
  fc_Defaults :: FirewallDefaults
  fc_Zones :: "(string, Zone) gomap"
  fc_Forwardings :: "Forwarding slice"
  fc_Rules :: "Rule slice"
  fc_PortForwards :: "PortForward slice"
  fc_Logging :: FirewallLoggingConfig

section \<open>Validation\<close>

definition Zone_Validate :: "Zone \<Rightarrow> goerror" where
  "Zone_Validate z =
     (let v = NewCollector;
          v = check_if (elems (zn_Interfaces z) = []) (Check (Some ''zone has no interfaces'')) v;
          v = CheckMsg (ValidatePolicy (zn_Input z)) ''invalid input policy'' v;
          v = CheckMsg (ValidatePolicy (zn_Forward z)) ''invalid forward policy'' v
      in ec_Error v)"

definition Forwarding_Validate :: "(string, Zone) gomap \<Rightarrow> Forwarding \<Rightarrow> goerror" where
  "Forwarding_Validate zones f =
     (let v = NewCollector;
          v = check_if (fw_Src f = '''') (Check (Some ''source zone not specified'')) v;
          v = check_if (fw_Dest f = '''') (Check (Some ''destination zone not specified'')) v;
          v = check_if (mget zones (fw_Src f) = None \<and> fw_Src f \<noteq> '''')
                (Check (Some (''references non-existent source zone: '' @ fw_Src f))) v;
          v = check_if (mget zones (fw_Dest f) = None \<and> fw_Dest f \<noteq> '''')
                (Check (Some (''references non-existent dest zone: '' @ fw_Dest f))) v
      in ec_Error v)"

definition Rule_Validate :: "(string, Zone) gomap \<Rightarrow> Rule \<Rightarrow> goerror" where
  "Rule_Validate zones r =
     (let v = NewCollector;
          v = check_if (ru_Src r \<noteq> '''' \<and> mget zones (ru_Src r) = None)
                (Check (Some (''references non-existent source zone: '' @ ru_Src r))) v;
          v = CheckMsg (ValidatePolicy (ru_Target r)) ''invalid target'' v;
          v = check_if (ru_Proto r \<noteq> '''') (Check (ValidateProtocol (ru_Proto r) [''tcp'', ''udp'', ''icmp'', ''icmpv6''])) v;
          v = check_if (ru_SrcPort r \<noteq> '''') (CheckMsg (ValidatePortString (ru_SrcPort r)) ''invalid source port'') v;
          v = check_if (ru_DestPort r \<noteq> '''') (CheckMsg (ValidatePortString (ru_DestPort r)) ''invalid destination port'') v;
          v = check_if (ru_SrcIP r \<noteq> '''') (CheckMsg (ValidateIP (ru_SrcIP r)) ''invalid source IP'') v;
          v = check_if (ru_DestIP r \<noteq> '''') (CheckMsg (ValidateIP (ru_DestIP r)) ''invalid destination IP'') v
      in ec_Error v)"

definition PortForward_Validate :: "PortForward \<Rightarrow> goerror" where
  "PortForward_Validate pf =
     (let v = NewCollector;
          v = (if pf_DestIP pf = '''' then Check (Some ''missing destination IP'') v
               else CheckMsg (ValidateIP (pf_DestIP pf)) ''invalid destination IP'' v);
          v = (if pf_SrcDPort pf = '''' then Check (Some ''missing source port'') v
               else CheckMsg (ValidatePortString (pf_SrcDPort pf)) ''invalid source port'' v);
          v = check_if (pf_DestPort pf \<noteq> '''') (CheckMsg (ValidatePortString (pf_DestPort pf)) ''invalid destination port'') v;
          v = check_if (pf_Proto pf \<noteq> '''')
                (CheckMsg (ValidateProtocol (pf_Proto pf) [''tcp'', ''udp'']) ''invalid protocol (must be tcp or udp)'') v
      in ec_Error v)"

text \<open>The interfaces of a zone are entered into the map of interfaces seen so far.\<close>

definition claim_interfaces ::
  "string \<Rightarrow> string list \<Rightarrow> ErrorCollector \<times> (string, string) gomap \<Rightarrow> ErrorCollector \<times> (string, string) gomap" where
  "claim_interfaces zoneName ifaces vm =
     foldl (\<lambda>(v, m) iface.
        (case mget m iface of
           None \<Rightarrow> v
         | Some existingZone \<Rightarrow>
             Check (Some (''interface '' @ iface @ '' appears in multiple zones: '' @ existingZone @ '' and '' @ zoneName)) v,
         mput iface zoneName m)) vm ifaces"

definition validate_zones :: "(string, Zone) gomap \<Rightarrow> ErrorCollector \<Rightarrow> ErrorCollector" where
  "validate_zones zones v0 =
     fst (foldl (\<lambda>(v, m) (zoneName, zone).
            if zoneName = '''' then (Check (Some ''zone name cannot be empty'') v, m)
            else
              (let (v', m') = claim_interfaces zoneName (elems (zn_Interfaces zone)) (v, m) in
               (CheckMsg (Zone_Validate zone) (''zone '' @ zoneName) v', m'))) (v0, []) zones)"

definition FirewallConfig_Validate :: "FirewallConfig option \<Rightarrow> goerror" where
  "FirewallConfig_Validate config =
     (case config of
        None \<Rightarrow> ec_Error (Check (Some ''config is nil'') NewCollector)
      | Some fc \<Rightarrow>
          (let v = NewCollector;
               v = check_if (fc_Zones fc = []) (Check (Some ''no zones defined'')) v;
               v = validate_zones (fc_Zones fc) v;
               v = foldl (\<lambda>v (idx, fwd). CheckMsg (Forwarding_Validate (fc_Zones fc) fwd) (''forwarding '' @ show_nat idx) v)
                     v (List.enumerate 0 (elems (fc_Forwardings fc)));
               v = foldl (\<lambda>v rule. CheckMsg (Rule_Validate (fc_Zones fc) rule) (''rule '' @ ru_Name rule) v)
                     v (elems (fc_Rules fc));
               v = foldl (\<lambda>v pf. CheckMsg (PortForward_Validate pf) (''port forward '' @ pf_Name pf) v)
                     v (elems (fc_PortForwards fc))
           in ec_Error v))"

definition ValidateFirewallConfig :: "FirewallConfig option \<Rightarrow> goerror" where
  "ValidateFirewallConfig config = FirewallConfig_Validate config"

section \<open>Generating rules\<close>

definition shouldLog :: "string \<Rightarrow> FirewallLoggingConfig \<Rightarrow> bool" where
  "shouldLog action cfg =
     (if \<not> fl_Enabled cfg then False
      else if to_lower action = ''accept'' then fl_LogAccepts cfg
      else if to_lower action = ''drop'' \<or> to_lower action = ''reject'' then fl_LogDrops cfg
      else False)"

definition getNFLOGGroup :: "string \<Rightarrow> nat" where
  "getNFLOGGroup action = (if to_lower action = ''accept'' then 101 else 100)"

definition quote_comment :: "string \<Rightarrow> string" where
  "quote_comment s = ''comment '' @ [CHR 0x22] @ s @ [CHR 0x22]"

definition GeneratePortForwardDNATRule :: "PortForward \<Rightarrow> string" where
  "GeneratePortForwardDNATRule pf =
     (let dnatTarget = (if pf_DestPort pf \<noteq> '''' \<and> pf_DestPort pf \<noteq> pf_SrcDPort pf
                        then pf_DestIP pf @ '':'' @ pf_DestPort pf else pf_DestIP pf) in
      join_with '' ''
        ((if pf_Proto pf \<noteq> '''' then [''meta l4proto '' @ pf_Proto pf] else []) @
         (if pf_SrcDPort pf \<noteq> '''' then [''th dport '' @ pf_SrcDPort pf] else []) @
         [''counter dnat to '' @ dnatTarget @ '' '' @ quote_comment (pf_Comment pf)]))"

definition log_part :: "string \<Rightarrow> FirewallLoggingConfig \<Rightarrow> string list" where
  "log_part action cfg = (if shouldLog action cfg then [''log group '' @ show_nat (getNFLOGGroup action)] else [])"

definition GeneratePortForwardFilterRule :: "PortForward \<Rightarrow> FirewallLoggingConfig \<Rightarrow> string" where
  "GeneratePortForwardFilterRule pf cfg =
     join_with '' ''
       ([''ip daddr '' @ pf_DestIP pf] @
        (if pf_Proto pf \<noteq> '''' then [''meta l4proto '' @ pf_Proto pf] else []) @
        (if pf_DestPort pf \<noteq> '''' then [''th dport '' @ pf_DestPort pf]
         else if pf_SrcDPort pf \<noteq> '''' then [''th dport '' @ pf_SrcDPort pf] else []) @
        log_part ''accept'' cfg @
        [''counter accept '' @ quote_comment (''Allow-PortForward-'' @ pf_Name pf)])"

definition GenerateCustomRule :: "Rule \<Rightarrow> FirewallLoggingConfig \<Rightarrow> string" where
  "GenerateCustomRule rule cfg =
     (let target = to_lower (ru_Target rule);
          parts =
            (if ru_Name rule = ''Allow-Established-Related'' \<or> has_prefix (ru_Name rule) ''Allow-Established-Related-''
             then [''ct state established,related'']
             else
               (if ru_Proto rule \<noteq> '''' then
                  (if ru_Proto rule = ''icmp'' then [''meta l4proto icmp''] else [''meta l4proto '' @ ru_Proto rule])
                else []) @
               (if ru_DestPort rule \<noteq> '''' then [''th dport '' @ ru_DestPort rule] else []) @
               (if ru_SrcPort rule \<noteq> '''' then [''th sport '' @ ru_SrcPort rule] else [])) in
      join_with '' '' (parts @ log_part target cfg @ [''counter '' @ target @ '' '' @ quote_comment (ru_Name rule)]))"

section \<open>Talking to nft\<close>

text \<open>
  \<open>nh_Run\<close> runs \<open>nft\<close> with arguments and gives its combined output and its error; \<open>nh_digest\<close> is the
  hexadecimal SHA-256 of the configuration's JSON text.
\<close>

record 'w NftHost =
  nh_Run :: "string list \<Rightarrow> 'w \<Rightarrow> 'w \<times> string \<times> goerror"
  nh_ReadFile :: "string \<Rightarrow> 'w \<Rightarrow> string + string"
  nh_WriteFile :: "string \<Rightarrow> string \<Rightarrow> 'w act"
  nh_MkdirAll :: "string \<Rightarrow> 'w act"
  nh_digest :: "FirewallConfig \<Rightarrow> string"

record FirewallProvider =
  fp_tableName :: string
  fp_configHashPath :: string
  fp_loggingConfig :: FirewallLoggingConfig

definition runNft :: "'w NftHost \<Rightarrow> string list \<Rightarrow> 'w act" where
  "runNft h args w =
     (case nh_Run h args w of
        (w', output, Some e) \<Rightarrow> (w', Some (''nft command failed: '' @ output @ '': '' @ e))
      | (w', output, None) \<Rightarrow> (w', None))"

text \<open>A command whose output and error are both dropped.\<close>

definition nft_quiet :: "'w NftHost \<Rightarrow> string list \<Rightarrow> 'w act" where
  "nft_quiet h args w = (fst (nh_Run h args w), None)"

definition ensureBaseChain :: "'w NftHost \<Rightarrow> FirewallProvider \<Rightarrow> string \<Rightarrow> string \<Rightarrow> 'w act" where
  "ensureBaseChain h n chainType chainName =
     (let hookType = (if chainName = ''input'' \<or> chainName = ''forward'' \<or> chainName = ''output'' then chainName else '''');
          priority = (if chainType = ''nat'' then ''100''
                      else if chainName = ''input'' \<or> chainName = ''forward'' \<or> chainName = ''output'' then ''0'' else '''') in
      nft_quiet h [''add'', ''chain'', ''inet'', fp_tableName n, chainName,
        ''{ type '' @ chainType @ '' hook '' @ hookType @ '' priority '' @ priority @ ''; }''])"

definition addRule :: "'w NftHost \<Rightarrow> FirewallProvider \<Rightarrow> string \<Rightarrow> string \<Rightarrow> string \<Rightarrow> 'w act" where
  "addRule h n chainType chainName rule =
     andthen
       (if chainName = ''input'' \<or> chainName = ''forward'' \<or> chainName = ''output''
        then ensureBaseChain h n chainType chainName else nop)
       (runNft h [''add'', ''rule'', ''inet'', fp_tableName n, chainName, rule])"

definition Firewall_Flush :: "'w NftHost \<Rightarrow> FirewallProvider \<Rightarrow> 'w act" where
  "Firewall_Flush h n = nft_quiet h [''delete'', ''table'', ''inet'', fp_tableName n]"

definition createTable :: "'w NftHost \<Rightarrow> FirewallProvider \<Rightarrow> 'w act" where
  "createTable h n w =
     (case nh_Run h [''add'', ''table'', ''inet'', fp_tableName n] w of
        (w', _, err) \<Rightarrow> (w', map_option (\<lambda>e. ''failed to create table: '' @ e) err))"

definition addGlobalRules :: "'w NftHost \<Rightarrow> FirewallProvider \<Rightarrow> 'w act" where
  "addGlobalRules h n = addRule h n ''filter'' ''forward'' ''ct state established,related counter accept''"

definition createZoneChains :: "'w NftHost \<Rightarrow> FirewallProvider \<Rightarrow> string \<Rightarrow> Zone \<Rightarrow> 'w act" where
  "createZoneChains h n zoneName zone =
     (let inputChain = ''input_'' @ zoneName; forwardChain = ''forward_'' @ zoneName; outputChain = ''output_'' @ zoneName in
      andthen (runNft h [''add'', ''chain'', ''inet'', fp_tableName n, inputChain])
      (andthen (runNft h [''add'', ''chain'', ''inet'', fp_tableName n, forwardChain])
      (andthen (runNft h [''add'', ''chain'', ''inet'', fp_tableName n, outputChain])
        (each (\<lambda>iface.
           andthen (addRule h n ''filter'' ''input'' (''iifname '' @ iface @ '' jump '' @ inputChain))
             (addRule h n ''filter'' ''forward'' (''iifname '' @ iface @ '' jump '' @ forwardChain)))
          (elems (zn_Interfaces zone))))))"

definition policy_rule :: "string \<Rightarrow> FirewallLoggingConfig \<Rightarrow> string" where
  "policy_rule policy cfg =
     (if shouldLog policy cfg then ''log group '' @ show_nat (getNFLOGGroup policy) @ '' counter '' @ policy
      else ''counter '' @ policy)"

definition applyDefaultPolicies :: "'w NftHost \<Rightarrow> FirewallProvider \<Rightarrow> FirewallConfig \<Rightarrow> 'w act" where
  "applyDefaultPolicies h n config =
     each (\<lambda>(zoneName, zone).
       andthen (addRule h n ''filter'' (''input_'' @ zoneName) (policy_rule (to_lower (zn_Input zone)) (fp_loggingConfig n)))
         (addRule h n ''filter'' (''forward_'' @ zoneName) (policy_rule (to_lower (zn_Forward zone)) (fp_loggingConfig n))))
       (fc_Zones config)"

definition forwarding_rule :: "Forwarding \<Rightarrow> FirewallLoggingConfig \<Rightarrow> string \<Rightarrow> string" where
  "forwarding_rule fwd cfg srcIface =
     (if shouldLog ''accept'' cfg then
        ''iifname '' @ srcIface @ '' log group '' @ show_nat (getNFLOGGroup ''accept'') @ '' counter accept '' @ quote_comment (fw_Comment fwd)
      else ''iifname '' @ srcIface @ '' counter accept '' @ quote_comment (fw_Comment fwd))"

text \<open>A zone that is not in the map is the zero zone, without interfaces.\<close>

definition zone_interfaces :: "(string, Zone) gomap \<Rightarrow> string \<Rightarrow> string list" where
  "zone_interfaces zones name = (case mget zones name of None \<Rightarrow> [] | Some zone \<Rightarrow> elems (zn_Interfaces zone))"

definition applyForwarding :: "'w NftHost \<Rightarrow> FirewallProvider \<Rightarrow> (string, Zone) gomap \<Rightarrow> Forwarding \<Rightarrow> 'w act" where
  "applyForwarding h n zones fwd =
     each (\<lambda>srcIface. addRule h n ''filter'' (''forward_'' @ fw_Src fwd) (forwarding_rule fwd (fp_loggingConfig n) srcIface))
       (zone_interfaces zones (fw_Src fwd))"

definition applyMasquerade :: "'w NftHost \<Rightarrow> FirewallProvider \<Rightarrow> Zone \<Rightarrow> 'w act" where
  "applyMasquerade h n zone =
     andthen
       (logged (runNft h [''add'', ''chain'', ''inet'', fp_tableName n, ''postrouting'',
          ''{'', ''type'', ''nat'', ''hook'', ''postrouting'', ''priority'', ''100'', '';'', ''}'']))
       (each (\<lambda>iface. addRule h n ''nat'' ''postrouting'' (''oifname '' @ iface @ '' masquerade'')) (elems (zn_Interfaces zone)))"

definition applyPortForward :: "'w NftHost \<Rightarrow> FirewallProvider \<Rightarrow> PortForward \<Rightarrow> 'w act" where
  "applyPortForward h n pf =
     andthen
       (logged (runNft h [''add'', ''chain'', ''inet'', fp_tableName n, ''prerouting'',
          ''{'', ''type'', ''nat'', ''hook'', ''prerouting'', ''priority'', ''-100'', '';'', ''}'']))
     (andthen (addRule h n ''nat'' ''prerouting'' (GeneratePortForwardDNATRule pf))
       (addRule h n ''filter'' ''forward'' (GeneratePortForwardFilterRule pf (fp_loggingConfig n))))"

definition applyRule :: "'w NftHost \<Rightarrow> FirewallProvider \<Rightarrow> Rule \<Rightarrow> 'w act" where
  "applyRule h n rule =
     addRule h n ''filter'' (''input_'' @ ru_Src rule) (GenerateCustomRule rule (fp_loggingConfig n))"

section \<open>Applying a configuration\<close>

definition tableExists :: "'w NftHost \<Rightarrow> FirewallProvider \<Rightarrow> 'w \<Rightarrow> 'w \<times> bool" where
  "tableExists h n w =
     (case nh_Run h [''list'', ''table'', ''inet'', fp_tableName n] w of (w', _, err) \<Rightarrow> (w', err = None))"

definition readConfigHash :: "'w NftHost \<Rightarrow> FirewallProvider \<Rightarrow> 'w \<Rightarrow> string + string" where
  "readConfigHash h n w =
     (case nh_ReadFile h (fp_configHashPath n) w of Inl e \<Rightarrow> Inl e | Inr data \<Rightarrow> Inr (trim_space data))"

definition saveConfigHash :: "'w NftHost \<Rightarrow> FirewallProvider \<Rightarrow> string \<Rightarrow> 'w act" where
  "saveConfigHash h n hash =
     andthen (wrapping ''failed to create directory: '' (nh_MkdirAll h ''/var/lib/jack''))
       (wrapping ''failed to write hash: '' (nh_WriteFile h (fp_configHashPath n) hash))"

definition calculateConfigHash :: "'w NftHost \<Rightarrow> FirewallConfig \<Rightarrow> string" where
  "calculateConfigHash h config = nh_digest h config"

text \<open>The part of \<open>ApplyConfig\<close> after the comparison of hashes, and its part after the flush.\<close>

definition build :: "'w NftHost \<Rightarrow> FirewallProvider \<Rightarrow> FirewallConfig \<Rightarrow> 'w act" where
  "build h n config =
     andthen (createTable h n)
     (andthen (wrapping ''failed to add global rules: '' (addGlobalRules h n))
     (andthen
       (each (\<lambda>(zoneName, zone). wrapping (''failed to create zone '' @ zoneName @ '': '') (createZoneChains h n zoneName zone))
         (fc_Zones config))
     (andthen
       (each (\<lambda>rule. wrapping (''failed to apply rule '' @ ru_Name rule @ '': '') (applyRule h n rule)) (elems (fc_Rules config)))
     (andthen
       (each (\<lambda>fwd. wrapping ''failed to apply forwarding: '' (applyForwarding h n (fc_Zones config) fwd)) (elems (fc_Forwardings config)))
     (andthen
       (each (\<lambda>(zoneName, zone).
          if zn_Masquerade zone then wrapping (''failed to apply masquerade for '' @ zoneName @ '': '') (applyMasquerade h n zone) else nop)
         (fc_Zones config))
     (andthen
       (each (\<lambda>pf. if pf_Enabled pf then wrapping (''failed to apply port forward '' @ pf_Name pf @ '': '') (applyPortForward h n pf) else nop)
         (elems (fc_PortForwards config)))
       (wrapping ''failed to apply default policies: '' (applyDefaultPolicies h n config))))))))"

definition rebuild :: "'w NftHost \<Rightarrow> FirewallProvider \<Rightarrow> FirewallConfig \<Rightarrow> 'w act" where
  "rebuild h n config = andthen (wrapping ''failed to flush rules: '' (Firewall_Flush h n)) (build h n config)"

definition Firewall_ApplyConfig :: "'w NftHost \<Rightarrow> FirewallConfig \<Rightarrow> FirewallProvider \<times> 'w \<Rightarrow> (FirewallProvider \<times> 'w) \<times> goerror" where
  "Firewall_ApplyConfig h config nw =
     (case nw of (n0, w0) \<Rightarrow>
      let n = n0\<lparr>fp_loggingConfig := fc_Logging config\<rparr>; newHash = calculateConfigHash h config;
          (w1, unchanged) = (if readConfigHash h n w0 = Inr newHash then tableExists h n w0 else (w0, False)) in
      if unchanged then ((n, w1), None)
      else
        (case andthen (rebuild h n config) (logged (saveConfigHash h n newHash)) w1 of
           (w2, err) \<Rightarrow> ((n, w2), err)))"

definition Firewall_Validate :: "FirewallConfig option \<Rightarrow> goerror" where
  "Firewall_Validate config = ValidateFirewallConfig config"

definition Firewall_Disable :: "'w NftHost \<Rightarrow> FirewallProvider \<Rightarrow> 'w act" where
  "Firewall_Disable h n = Firewall_Flush h n"

section \<open>Status\<close>

record FirewallStatus =
  fs_Enabled :: bool
  fs_Backend :: string
  fs_RuleCount :: nat

definition is_rule_line :: "string \<Rightarrow> bool" where
  "is_rule_line line \<longleftrightarrow>
     (let trimmed = trim_space line in
      length line > 0 \<and> (line ! 0 = CHR 0x09 \<or> line ! 0 = CHR '' '') \<and>
      \<not> contains trimmed ''chain '' \<and> \<not> contains trimmed ''table '' \<and>
      trimmed \<noteq> ''{'' \<and> trimmed \<noteq> ''}'' \<and> trimmed \<noteq> '''')"

definition Firewall_Status :: "'w NftHost \<Rightarrow> FirewallProvider \<Rightarrow> 'w \<Rightarrow> 'w \<times> FirewallStatus" where
  "Firewall_Status h n w =
     (case nh_Run h [''list'', ''table'', ''inet'', fp_tableName n] w of
        (w', output, Some _) \<Rightarrow> (w', \<lparr>fs_Enabled = False, fs_Backend = ''nftables'', fs_RuleCount = 0\<rparr>)
      | (w', output, None) \<Rightarrow>
          (w', \<lparr>fs_Enabled = True, fs_Backend = ''nftables'',
               fs_RuleCount = length (filter is_rule_line (split_on (CHR 0x0A) output))\<rparr>))"

end
