(* ===== verification/Firewall_Facts.thy ===== *)
theory Firewall_Facts
  imports Firewall
begin

text \<open>
  What a rebuilt firewall contains, for an \<open>nft\<close> that appends added rules to their chain, and when a
  configuration is not rebuilt.
\<close>

section \<open>The rules of the table\<close>

text \<open>
  \<open>rules w c\<close> are the rules of chain \<open>c\<close> in the plugin's table. The laws: a rule is appended to its chain; deleting
  the table leaves no rules; creating the table or a chain, listing, and writing files do not change rules.
\<close>

definition nft_laws :: "'w NftHost \<Rightarrow> string \<Rightarrow> ('w \<Rightarrow> string \<Rightarrow> string list) \<Rightarrow> bool" where
  "nft_laws h t rules \<longleftrightarrow>
     (\<forall>c r w w' out. nh_Run h [''add'', ''rule'', ''inet'', t, c, r] w = (w', out, None) \<longrightarrow>
        rules w' = (rules w)(c := rules w c @ [r])) \<and>
     (\<forall>w c. rules (fst (nh_Run h [''delete'', ''table'', ''inet'', t] w)) c = []) \<and>
     (\<forall>w. rules (fst (nh_Run h [''add'', ''table'', ''inet'', t] w)) = rules w) \<and>
     (\<forall>c def w. rules (fst (nh_Run h ([''add'', ''chain'', ''inet'', t, c] @ def) w)) = rules w) \<and>
     (\<forall>w. rules (fst (nh_Run h [''list'', ''table'', ''inet'', t] w)) = rules w) \<and>
     (\<forall>p w. rules (fst (nh_MkdirAll h p w)) = rules w) \<and> (\<forall>p d w. rules (fst (nh_WriteFile h p d w)) = rules w)"

text \<open>A successful action appends \<open>g c\<close> to every chain \<open>c\<close>.\<close>

definition appends :: "('w \<Rightarrow> string \<Rightarrow> string list) \<Rightarrow> 'w act \<Rightarrow> (string \<Rightarrow> string list) \<Rightarrow> bool" where
  "appends rules f g \<longleftrightarrow> (\<forall>w w'. f w = (w', None) \<longrightarrow> rules w' = (\<lambda>c. rules w c @ g c))"

lemma appendsD: "appends rules f g \<Longrightarrow> f w = (w', None) \<Longrightarrow> rules w' c = rules w c @ g c"
  by (simp add: appends_def)

lemma appends_nop: "appends rules nop (\<lambda>c. [])"
  by (simp add: appends_def)

lemma appends_andthen: "appends rules f g \<Longrightarrow> appends rules f' g' \<Longrightarrow> appends rules (andthen f f') (\<lambda>c. g c @ g' c)"
  by (auto simp: appends_def act_ok)

lemma appends_wrapping: "appends rules f g \<Longrightarrow> appends rules (wrapping p f) g"
  by (simp add: appends_def)

lemma appends_if: "appends rules f g \<Longrightarrow> appends rules f' g' \<Longrightarrow> appends rules (if b then f else f') (if b then g else g')"
  by simp

lemma appends_each: "(\<And>x. appends rules (f x) (g x)) \<Longrightarrow> appends rules (each f xs) (\<lambda>c. concat (map (\<lambda>x. g x c) xs))"
  by (induction xs) (auto intro: appends_nop dest: appends_andthen)

lemma appends_quiet:
  "nft_laws h t rules \<Longrightarrow> appends rules (nft_quiet h ([''add'', ''chain'', ''inet'', t, c] @ def)) (\<lambda>c. [])"
  "nft_laws h t rules \<Longrightarrow> appends rules (runNft h ([''add'', ''chain'', ''inet'', t, c] @ def)) (\<lambda>c. [])"
  "nft_laws h t rules \<Longrightarrow> appends rules (logged (runNft h ([''add'', ''chain'', ''inet'', t, c] @ def))) (\<lambda>c. [])"
  by (auto simp: appends_def nft_laws_def nft_quiet_def runNft_def logged_def split: prod.splits option.splits)
     (metis fst_conv)+

lemma appends_rule:
  assumes "nft_laws h t rules" and "fp_tableName n = t"
  shows "appends rules (addRule h n ct ch r) (\<lambda>c. if c = ch then [r] else [])"
proof -
  have "appends rules (runNft h [''add'', ''rule'', ''inet'', t, ch, r]) (\<lambda>c. if c = ch then [r] else [])"
    using assms(1) by (auto simp: appends_def nft_laws_def runNft_def fun_eq_iff split: prod.splits option.splits)
  moreover have "appends rules (if ch = ''input'' \<or> ch = ''forward'' \<or> ch = ''output'' then ensureBaseChain h n ct ch else nop) (\<lambda>c. [])"
    using appends_quiet(1) [OF assms(1), of ch] assms(2) by (auto simp: ensureBaseChain_def Let_def intro: appends_nop)
  ultimately show ?thesis using appends_andthen by (fastforce simp: addRule_def assms(2))
qed

lemma appends_table: "nft_laws h t rules \<Longrightarrow> fp_tableName n = t \<Longrightarrow> appends rules (createTable h n) (\<lambda>c. [])"
  by (auto simp: appends_def nft_laws_def createTable_def split: prod.splits) (metis fst_conv)

section \<open>A rebuilt table\<close>

text \<open>What each step contributes to a chain.\<close>

definition chain_jumps :: "string \<Rightarrow> Zone \<Rightarrow> string \<Rightarrow> string list" where
  "chain_jumps zoneName zone c = concat (map (\<lambda>iface.
     (if c = ''input'' then [''iifname '' @ iface @ '' jump '' @ ''input_'' @ zoneName] else []) @
     (if c = ''forward'' then [''iifname '' @ iface @ '' jump '' @ ''forward_'' @ zoneName] else [])) (elems (zn_Interfaces zone)))"

definition nat_rules :: "FirewallLoggingConfig \<Rightarrow> PortForward \<Rightarrow> string \<Rightarrow> string list" where
  "nat_rules cfg pf c =
     (if c = ''prerouting'' then [GeneratePortForwardDNATRule pf] else []) @
     (if c = ''forward'' then [GeneratePortForwardFilterRule pf cfg] else [])"

definition zone_policies :: "FirewallLoggingConfig \<Rightarrow> string \<times> Zone \<Rightarrow> string \<Rightarrow> string list" where
  "zone_policies cfg nz c =
     (case nz of (zoneName, zone) \<Rightarrow>
        (if c = ''input_'' @ zoneName then [policy_rule (to_lower (zn_Input zone)) cfg] else []) @
        (if c = ''forward_'' @ zoneName then [policy_rule (to_lower (zn_Forward zone)) cfg] else []))"

definition table_rules :: "FirewallConfig \<Rightarrow> FirewallLoggingConfig \<Rightarrow> string \<Rightarrow> string list" where
  "table_rules config cfg c =
     (if c = ''forward'' then [''ct state established,related counter accept''] else []) @
     concat (map (\<lambda>(zoneName, zone). chain_jumps zoneName zone c) (fc_Zones config)) @
     concat (map (\<lambda>rule. if c = ''input_'' @ ru_Src rule then [GenerateCustomRule rule cfg] else []) (elems (fc_Rules config))) @
     concat (map (\<lambda>fwd. if c = ''forward_'' @ fw_Src fwd
        then map (forwarding_rule fwd cfg) (zone_interfaces (fc_Zones config) (fw_Src fwd)) else []) (elems (fc_Forwardings config))) @
     concat (map (\<lambda>(zoneName, zone). if zn_Masquerade zone \<and> c = ''postrouting''
        then map (\<lambda>iface. ''oifname '' @ iface @ '' masquerade'') (elems (zn_Interfaces zone)) else []) (fc_Zones config)) @
     concat (map (\<lambda>pf. if pf_Enabled pf then nat_rules cfg pf c else []) (elems (fc_PortForwards config))) @
     concat (map (\<lambda>nz. zone_policies cfg nz c) (fc_Zones config))"

lemma concat_map_if: "concat (map (\<lambda>x. if b then f x else []) xs) = (if b then concat (map f xs) else [])"
  by (induction xs) auto

lemma appends_cong: "appends rules f g \<Longrightarrow> g = g' \<Longrightarrow> appends rules f g'"
  by simp

lemma appends_chain_cmd:
  assumes "nft_laws h (fp_tableName n) rules"
  shows "appends rules (runNft h [''add'', ''chain'', ''inet'', fp_tableName n, ch]) (\<lambda>c. [])"
    and "appends rules (logged (runNft h [''add'', ''chain'', ''inet'', fp_tableName n, ch, a1, a2, a3, a4, a5, a6, a7, a8, a9])) (\<lambda>c. [])"
  using appends_quiet(2) [OF assms, of ch "[]"] appends_quiet(3) [OF assms, of ch "[a1, a2, a3, a4, a5, a6, a7, a8, a9]"] by simp_all

lemmas appends_intros = appends_andthen appends_wrapping appends_each appends_rule [OF _ refl] appends_table [OF _ refl] appends_chain_cmd

lemma appends_chains:
  assumes "nft_laws h (fp_tableName n) rules"
  shows "appends rules (createZoneChains h n z zone) (chain_jumps z zone)"
  unfolding createZoneChains_def Let_def
  by (rule appends_cong, (rule appends_intros assms)+) (simp add: chain_jumps_def fun_eq_iff)

lemma appends_policies:
  assumes "nft_laws h (fp_tableName n) rules"
  shows "appends rules (applyDefaultPolicies h n config) (\<lambda>c. concat (map (\<lambda>nz. zone_policies (fp_loggingConfig n) nz c) (fc_Zones config)))"
  unfolding applyDefaultPolicies_def
proof (rule appends_each)
  fix nz :: "string \<times> Zone"
  show "appends rules (case nz of (zoneName, zone) \<Rightarrow>
      andthen (addRule h n ''filter'' (''input_'' @ zoneName) (policy_rule (to_lower (zn_Input zone)) (fp_loggingConfig n)))
        (addRule h n ''filter'' (''forward_'' @ zoneName) (policy_rule (to_lower (zn_Forward zone)) (fp_loggingConfig n))))
     (zone_policies (fp_loggingConfig n) nz)"
    by (cases nz, simp, rule appends_cong, (rule appends_intros assms)+) (simp add: zone_policies_def fun_eq_iff)
qed

lemma appends_forwarding:
  assumes "nft_laws h (fp_tableName n) rules"
  shows "appends rules (applyForwarding h n zones fwd) (\<lambda>c. if c = ''forward_'' @ fw_Src fwd
     then map (forwarding_rule fwd (fp_loggingConfig n)) (zone_interfaces zones (fw_Src fwd)) else [])"
  unfolding applyForwarding_def
  by (rule appends_cong, (rule appends_intros assms)+) (simp add: fun_eq_iff concat_map_if concat_map_singleton)

lemma appends_masquerade:
  assumes "nft_laws h (fp_tableName n) rules"
  shows "appends rules (applyMasquerade h n zone) (\<lambda>c. if c = ''postrouting''
     then map (\<lambda>iface. ''oifname '' @ iface @ '' masquerade'') (elems (zn_Interfaces zone)) else [])"
  unfolding applyMasquerade_def
  by (rule appends_cong, (rule appends_intros assms)+) (simp add: fun_eq_iff concat_map_if concat_map_singleton)

lemma appends_port_forward:
  assumes "nft_laws h (fp_tableName n) rules"
  shows "appends rules (applyPortForward h n pf) (nat_rules (fp_loggingConfig n) pf)"
  unfolding applyPortForward_def
  by (rule appends_cong, (rule appends_intros assms)+) (simp add: fun_eq_iff nat_rules_def)

lemma appends_build:
  assumes "nft_laws h (fp_tableName n) rules"
  shows "appends rules (build h n config) (table_rules config (fp_loggingConfig n))"
proof -
  let ?cfg = "fp_loggingConfig n"
  have zones: "appends rules (case nz of (zoneName, zone) \<Rightarrow> wrapping (''failed to create zone '' @ zoneName @ '': '') (createZoneChains h n zoneName zone))
      (\<lambda>c. case nz of (zoneName, zone) \<Rightarrow> chain_jumps zoneName zone c)" for nz
    by (cases nz) (simp add: appends_wrapping appends_chains [OF assms])
  have masq: "appends rules (case nz of (zoneName, zone) \<Rightarrow>
        if zn_Masquerade zone then wrapping (''failed to apply masquerade for '' @ zoneName @ '': '') (applyMasquerade h n zone) else nop)
      (\<lambda>c. case nz of (zoneName, zone) \<Rightarrow> if zn_Masquerade zone \<and> c = ''postrouting''
        then map (\<lambda>iface. ''oifname '' @ iface @ '' masquerade'') (elems (zn_Interfaces zone)) else [])" for nz
    using appends_masquerade [OF assms] by (cases nz) (auto intro: appends_wrapping appends_nop)
  have pf: "appends rules (if pf_Enabled p then wrapping (''failed to apply port forward '' @ pf_Name p @ '': '') (applyPortForward h n p) else nop)
      (\<lambda>c. if pf_Enabled p then nat_rules ?cfg p c else [])" for p
    using appends_port_forward [OF assms] by (auto intro: appends_wrapping appends_nop)
  show ?thesis
    unfolding build_def addGlobalRules_def applyRule_def
    by (rule appends_cong, (rule appends_andthen appends_wrapping appends_table [OF assms refl] appends_rule [OF assms refl]
          appends_policies [OF assms] appends_each zones masq pf appends_forwarding [OF assms])+)
       (simp add: table_rules_def fun_eq_iff)
qed

lemma rebuild_rules:
  assumes "nft_laws h (fp_tableName n) rules" and "rebuild h n config w = (w', None)"
  shows "rules w' = table_rules config (fp_loggingConfig n)"
proof -
  obtain w1 where w1: "Firewall_Flush h n w = (w1, None)" "build h n config w1 = (w', None)"
    using assms(2) by (auto simp: rebuild_def act_ok)
  moreover have "rules w1 c = []" for c
    using w1(1) assms(1) by (auto simp: Firewall_Flush_def nft_quiet_def nft_laws_def)
  ultimately show ?thesis using appendsD [OF appends_build [OF assms(1)]] by (simp add: fun_eq_iff)
qed

lemma ApplyConfig_rebuilds:
  assumes "nft_laws h (fp_tableName n) rules" and "Firewall_ApplyConfig h config (n, w) = ((n', w'), None)"
    and "readConfigHash h n w \<noteq> Inr (nh_digest h config)"
  shows "rules w' = table_rules config (fc_Logging config)"
proof -
  let ?n = "n\<lparr>fp_loggingConfig := fc_Logging config\<rparr>"
  have "readConfigHash h ?n w \<noteq> Inr (nh_digest h config)" using assms(3) by (simp add: readConfigHash_def)
  then obtain w1 where w1: "rebuild h ?n config w = (w1, None)" "logged (saveConfigHash h ?n (nh_digest h config)) w1 = (w', None)"
    using assms(2) by (auto simp: Firewall_ApplyConfig_def calculateConfigHash_def Let_def act_ok split: prod.splits)
  have "rules (fst (saveConfigHash h ?n d w1)) = rules w1" for d
    using assms(1)
    by (auto simp: saveConfigHash_def andthen_def wrapping_def nft_laws_def split: prod.splits option.splits) (metis fst_conv)+
  with w1 rebuild_rules [of h ?n rules config w w1] assms(1) show ?thesis by simp
qed

section \<open>The chains of a zone\<close>

lemma concat_nil [simp]: "concat (map (\<lambda>x. []) xs) = []"
  by (induction xs) auto

lemma concat_at_key:
  assumes "mwf m" and "(k, v) \<in> set m"
  shows "concat (map (\<lambda>(k', v'). if k' = k then f v' else []) m) = f v"
  using assms
proof (induction m)
  case (Cons x m)
  obtain k' v' where x: "x = (k', v')" by (cases x)
  show ?case
  proof (cases "k' = k")
    case True
    then have "concat (map (\<lambda>(k', v'). if k' = k then f v' else []) m) = []"
      using Cons.prems(1) x by (auto simp: mwf_def rev_image_eqI)
    moreover have "v' = v" using Cons.prems True x by (auto simp: mwf_def rev_image_eqI)
    ultimately show ?thesis using True x by simp
  next
    case False
    with Cons x show ?thesis by (auto simp: mwf_def)
  qed
qed simp

lemma zone_chains:
  assumes "mwf (fc_Zones config)" and "(z, zone) \<in> set (fc_Zones config)"
  shows "table_rules config cfg (''input_'' @ z) =
      map (\<lambda>r. GenerateCustomRule r cfg) (filter (\<lambda>r. ru_Src r = z) (elems (fc_Rules config))) @ [policy_rule (to_lower (zn_Input zone)) cfg]"
    and "table_rules config cfg (''forward_'' @ z) =
      concat (map (\<lambda>f. map (forwarding_rule f cfg) (elems (zn_Interfaces zone))) (filter (\<lambda>f. fw_Src f = z) (elems (fc_Forwardings config)))) @
      [policy_rule (to_lower (zn_Forward zone)) cfg]"
proof -
  have z: "zone_interfaces (fc_Zones config) z = elems (zn_Interfaces zone)"
    using assms by (simp add: zone_interfaces_def mget_iff_entry [symmetric])
  have "concat (map (\<lambda>nz. zone_policies cfg nz (''input_'' @ z)) (fc_Zones config)) = [policy_rule (to_lower (zn_Input zone)) cfg]"
    using concat_at_key [OF assms, of "\<lambda>zone. [policy_rule (to_lower (zn_Input zone)) cfg]"]
    by (simp add: zone_policies_def split_def eq_commute)
  moreover have "concat (map (\<lambda>nz. zone_policies cfg nz (''forward_'' @ z)) (fc_Zones config)) = [policy_rule (to_lower (zn_Forward zone)) cfg]"
    using concat_at_key [OF assms, of "\<lambda>zone. [policy_rule (to_lower (zn_Forward zone)) cfg]"]
    by (simp add: zone_policies_def split_def eq_commute)
  moreover have "chain_jumps a b (''input_'' @ z) = []" "chain_jumps a b (''forward_'' @ z) = []"
    "nat_rules cfg p (''input_'' @ z) = []" "nat_rules cfg p (''forward_'' @ z) = []" for a b p
    by (simp_all add: chain_jumps_def nat_rules_def)
  moreover have "concat (map (\<lambda>r. if z = ru_Src r then [GenerateCustomRule r cfg] else []) rs) =
      map (\<lambda>r. GenerateCustomRule r cfg) (filter (\<lambda>r. ru_Src r = z) rs)" for rs
    by (induction rs) auto
  moreover have "concat (map (\<lambda>f. if z = fw_Src f then map (forwarding_rule f cfg) (zone_interfaces (fc_Zones config) (fw_Src f)) else []) fs) =
      concat (map (\<lambda>f. map (forwarding_rule f cfg) (elems (zn_Interfaces zone))) (filter (\<lambda>f. fw_Src f = z) fs))" for fs
    using z by (induction fs) auto
  ultimately show "table_rules config cfg (''input_'' @ z) =
      map (\<lambda>r. GenerateCustomRule r cfg) (filter (\<lambda>r. ru_Src r = z) (elems (fc_Rules config))) @ [policy_rule (to_lower (zn_Input zone)) cfg]"
    and "table_rules config cfg (''forward_'' @ z) =
      concat (map (\<lambda>f. map (forwarding_rule f cfg) (elems (zn_Interfaces zone))) (filter (\<lambda>f. fw_Src f = z) (elems (fc_Forwardings config)))) @
      [policy_rule (to_lower (zn_Forward zone)) cfg]"
    by (simp_all add: table_rules_def split_def cong: if_cong)
qed

section \<open>An nft for examples\<close>

text \<open>The rules in the order they were added, each with its chain; no command fails and no file is kept.\<close>

type_synonym ruleset = "(string \<times> string) list"

definition ex_run :: "string list \<Rightarrow> ruleset \<Rightarrow> ruleset \<times> string \<times> goerror" where
  "ex_run args w =
     (if take 3 args = [''add'', ''rule'', ''inet''] then (w @ [(args ! 4, args ! 5)], [], None)
      else if take 3 args = [''delete'', ''table'', ''inet''] then ([], [], None)
      else (w, [], None))"

definition ex_nft :: "ruleset NftHost" where
  "ex_nft = \<lparr>nh_Run = ex_run, nh_ReadFile = (\<lambda>p w. Inl ''no such file''), nh_WriteFile = (\<lambda>p d w. (w, None)),
     nh_MkdirAll = (\<lambda>p w. (w, None)), nh_digest = (\<lambda>c. '''')\<rparr>"

definition ex_rules :: "ruleset \<Rightarrow> string \<Rightarrow> string list" where
  "ex_rules w c = map snd (filter (\<lambda>x. fst x = c) w)"

lemma ex_nft_laws: "nft_laws ex_nft t ex_rules"
  by (auto simp: nft_laws_def ex_nft_def ex_run_def ex_rules_def)

definition ex_firewall :: FirewallProvider where
  "ex_firewall = \<lparr>fp_tableName = ''jack'', fp_configHashPath = ''/var/lib/jack/firewall-config.hash'',
     fp_loggingConfig = \<lparr>fl_Enabled = False, fl_LogAccepts = False, fl_LogDrops = False, fl_SamplingRate = 0, fl_RateLimitPerSec = 0,
       fl_MaxLogEntries = 0, fl_RetentionDays = 0\<rparr>\<rparr>"

definition ex_zone :: "string \<Rightarrow> string \<Rightarrow> Zone" where
  "ex_zone iface policy = \<lparr>zn_Name = [], zn_Interfaces = Some [iface], zn_Input = policy, zn_Forward = ''DROP'', zn_Output = ''ACCEPT'',
     zn_Masquerade = False, zn_MTUFix = False, zn_Family = [], zn_Comment = []\<rparr>"

definition ex_ssh :: "string \<Rightarrow> Rule" where
  "ex_ssh src = \<lparr>ru_Name = ''Allow-SSH'', ru_Src = ''wan'', ru_Dest = [], ru_Proto = ''tcp'', ru_SrcIP = src, ru_DestIP = [], ru_SrcPort = [],
     ru_DestPort = ''22'', ru_ICMPType = None, ru_Target = ''ACCEPT'', ru_Family = [], ru_Limit = []\<rparr>"

definition ex_fw_config :: "string \<Rightarrow> FirewallConfig" where
  "ex_fw_config src = \<lparr>fc_Version = [], fc_Enabled = True,
     fc_Defaults = \<lparr>fd_Input = ''DROP'', fd_Forward = ''DROP'', fd_Output = ''ACCEPT'', fd_SynFlood = False, fd_DropInvalid = False\<rparr>,
     fc_Zones = [(''lan'', ex_zone ''br-lan'' ''ACCEPT''), (''wan'', ex_zone ''eth0'' ''DROP'')],
     fc_Forwardings = Some [\<lparr>fw_Src = ''lan'', fw_Dest = ''wan'', fw_Family = [], fw_Comment = ''out''\<rparr>],
     fc_Rules = Some [ex_ssh src], fc_PortForwards = None, fc_Logging = fp_loggingConfig ex_firewall\<rparr>"

lemma ex_fw_applies: "\<exists>w'. Firewall_ApplyConfig ex_nft (ex_fw_config src) (ex_firewall, []) = ((ex_firewall, w'), None)"
proof -
  have "map_prod fst id (Firewall_ApplyConfig ex_nft (ex_fw_config []) (ex_firewall, [])) = (ex_firewall, None)" by code_simp
  moreover have "Firewall_ApplyConfig ex_nft (ex_fw_config src) (ex_firewall, []) = Firewall_ApplyConfig ex_nft (ex_fw_config []) (ex_firewall, [])"
    by (simp add: Firewall_ApplyConfig_def ex_fw_config_def readConfigHash_def ex_nft_def calculateConfigHash_def rebuild_def build_def
        applyDefaultPolicies_def applyRule_def GenerateCustomRule_def ex_ssh_def elems_def)
  ultimately show ?thesis by (cases "Firewall_ApplyConfig ex_nft (ex_fw_config []) (ex_firewall, [])") auto
qed

section \<open>Properties\<close>



text \<open>A configuration without the fields in question.\<close>

definition unrestricted :: "FirewallConfig \<Rightarrow> FirewallConfig" where
  "unrestricted c = c\<lparr>
     fc_Defaults := \<lparr>fd_Input = [], fd_Forward = [], fd_Output = [], fd_SynFlood = False, fd_DropInvalid = False\<rparr>,
     fc_Rules := map_option (map (\<lambda>r. r\<lparr>ru_SrcIP := [], ru_DestIP := [], ru_Dest := [], ru_ICMPType := None, ru_Limit := [], ru_Family := []\<rparr>))
       (fc_Rules c),
     fc_Forwardings := map_option (map (\<lambda>f. f\<lparr>fw_Dest := [], fw_Family := []\<rparr>)) (fc_Forwardings c)\<rparr>"

lemma table_rules_unrestricted: "table_rules (unrestricted c) cfg = table_rules c cfg"
proof -
  have r: "GenerateCustomRule (r\<lparr>ru_SrcIP := [], ru_DestIP := [], ru_Dest := [], ru_ICMPType := None, ru_Limit := [], ru_Family := []\<rparr>) cfg =
      GenerateCustomRule r cfg" for r by (simp add: GenerateCustomRule_def)
  have f: "forwarding_rule (f\<lparr>fw_Dest := [], fw_Family := []\<rparr>) cfg = forwarding_rule f cfg" for f
    by (simp add: forwarding_rule_def fun_eq_iff)
  show ?thesis
    by (cases "fc_Rules c"; cases "fc_Forwardings c")
       (simp_all add: table_rules_def unrestricted_def elems_def comp_def r f fun_eq_iff cong: if_cong)
qed

text \<open>
  The addresses, the destination zone, the ICMP types, the limit and the family
  of a rule, the destination of a forwarding, and all the defaults have no effect: two configurations that
  differ in nothing else lead to the same rules. A rule that accepts one source address accepts every one.
\<close>

theorem restrictions_ignored:
  assumes "nft_laws h (fp_tableName n) rules" and "unrestricted c2 = unrestricted c1"
    and "Firewall_ApplyConfig h c1 (n, w) = ((n1, w1), None)" and "readConfigHash h n w \<noteq> Inr (nh_digest h c1)"
    and "Firewall_ApplyConfig h c2 (n, v) = ((n2, w2), None)" and "readConfigHash h n v \<noteq> Inr (nh_digest h c2)"
  shows "rules w2 = rules w1"
proof -
  have "fc_Logging c2 = fc_Logging c1"
    using arg_cong [OF assms(2), of fc_Logging] by (simp add: unrestricted_def)
  with ApplyConfig_rebuilds [OF assms(1,3,4)] ApplyConfig_rebuilds [OF assms(1,5,6)] show ?thesis
    using table_rules_unrestricted assms(2) by metis
qed

end
