(* ===== verification/Packet_Log.thy ===== *)
theory Packet_Log
  imports Firewall "HOL-Library.Word"
begin

unbundle bit_operations_syntax

text \<open>
  The packet log of the firewall plugin: parsing of captured packets (\<open>parser.go\<close>), sampling, the rate
  limiter and the processing of one packet (\<open>capture.go\<close>), under \<open>src/plugins/core/firewall\<close>. A payload is a list
  of bytes, and an index or a slice out of range panics as in Go. The time is an argument.
\<close>

type_synonym byte = "8 word"

section \<open>Parsing\<close>

definition byte_at :: "byte list \<Rightarrow> nat \<Rightarrow> byte outcome" where
  "byte_at p i = (if i < length p then Ok (p ! i) else Panic)"

definition slice_of :: "byte list \<Rightarrow> nat \<Rightarrow> nat \<Rightarrow> byte list outcome" where
  "slice_of p a b = (if a \<le> b \<and> b \<le> length p then Ok (take (b - a) (drop a p)) else Panic)"

definition Uint16 :: "byte list \<Rightarrow> nat outcome" where
  "Uint16 bs = (if length bs < 2 then Panic else Ok (unat (bs ! 0) * 256 + unat (bs ! 1)))"

record FirewallLogEntry =
  fe_ID :: int
  fe_Timestamp :: string
  fe_Action :: string
  fe_SrcIP :: string
  fe_DstIP :: string
  fe_Protocol :: string
  fe_SrcPort :: nat
  fe_DstPort :: nat
  fe_InterfaceIn :: string
  fe_InterfaceOut :: string
  fe_PacketLength :: nat
  fe_CreatedAt :: string

definition parse_ports :: "byte list \<Rightarrow> nat \<Rightarrow> FirewallLogEntry \<Rightarrow> FirewallLogEntry outcome" where
  "parse_ports payload ihl entry =
     (if length payload \<ge> ihl + 4 then
        obind (slice_of payload ihl (ihl + 2)) (\<lambda>s.
        obind (Uint16 s) (\<lambda>src.
        obind (slice_of payload (ihl + 2) (ihl + 4)) (\<lambda>d.
        obind (Uint16 d) (\<lambda>dst. Ok (entry\<lparr>fe_SrcPort := src, fe_DstPort := dst\<rparr>)))))
      else Ok entry)"

definition ParseIPPacket :: "string \<Rightarrow> byte list \<Rightarrow> string \<Rightarrow> FirewallLogEntry outcome" where
  "ParseIPPacket timestamp payload action =
     (if length payload < 20 then Err (''packet too short: '' @ show_nat (length payload) @ '' bytes'')
      else
        obind (byte_at payload 0) (\<lambda>first.
        let ipVersion = drop_bit 4 first in
        if ipVersion \<noteq> 4 then Err (''unsupported IP version: '' @ show_nat (unat ipVersion))
        else
          (let ihl = unat (first AND 0x0F) * 4 in
           if length payload < ihl then
             Err (''packet shorter than IHL: '' @ show_nat (length payload) @ '' < '' @ show_nat ihl)
           else
             obind (slice_of payload 2 4) (\<lambda>len.
             obind (Uint16 len) (\<lambda>totalLength.
             obind (byte_at payload 9) (\<lambda>protocol.
             obind (slice_of payload 12 16) (\<lambda>src.
             obind (slice_of payload 16 20) (\<lambda>dst.
             let entry = \<lparr>fe_ID = 0, fe_Timestamp = timestamp, fe_Action = action,
                          fe_SrcIP = ip_String (map unat src), fe_DstIP = ip_String (map unat dst), fe_Protocol = '''',
                          fe_SrcPort = 0, fe_DstPort = 0, fe_InterfaceIn = '''', fe_InterfaceOut = '''',
                          fe_PacketLength = totalLength, fe_CreatedAt = ''''\<rparr> in
             if protocol = 6 then parse_ports payload ihl (entry\<lparr>fe_Protocol := ''TCP''\<rparr>)
             else if protocol = 17 then parse_ports payload ihl (entry\<lparr>fe_Protocol := ''UDP''\<rparr>)
             else if protocol = 1 then Ok (entry\<lparr>fe_Protocol := ''ICMP''\<rparr>)
             else Ok (entry\<lparr>fe_Protocol := ''PROTO-'' @ show_nat (unat protocol)\<rparr>)))))))))"

definition ShouldLogEntry :: "FirewallLogEntry \<Rightarrow> FirewallLoggingConfig \<Rightarrow> bool" where
  "ShouldLogEntry entry config =
     (if \<not> fl_Enabled config then False
      else if fe_Action entry = ''ACCEPT'' then fl_LogAccepts config
      else if fe_Action entry = ''DROP'' \<or> fe_Action entry = ''REJECT'' then fl_LogDrops config
      else False)"

definition ApplySampling :: "int \<Rightarrow> int \<Rightarrow> bool" where
  "ApplySampling samplingCounter samplingRate =
     (if samplingRate \<le> 1 then True else samplingCounter mod samplingRate = 0)"

section \<open>Rate limiting\<close>

record RateLimiter =
  rl_maxPerSec :: int
  rl_tokens :: int
  rl_lastReset :: int

definition NewRateLimiter :: "int \<Rightarrow> int \<Rightarrow> RateLimiter" where
  "NewRateLimiter now maxPerSec = \<lparr>rl_maxPerSec = maxPerSec, rl_tokens = maxPerSec, rl_lastReset = now\<rparr>"

definition one_second :: int where
  "one_second = 1000000000"

definition Allow :: "int \<Rightarrow> RateLimiter \<Rightarrow> RateLimiter \<times> bool" where
  "Allow now r =
     (if rl_maxPerSec r \<le> 0 then (r, True)
      else
        (let r1 = (if now - rl_lastReset r \<ge> one_second
                   then r\<lparr>rl_tokens := rl_maxPerSec r, rl_lastReset := now\<rparr> else r) in
         if rl_tokens r1 > 0 then (r1\<lparr>rl_tokens := rl_tokens r1 - 1\<rparr>, True) else (r1, False)))"

section \<open>Capture\<close>

text \<open>The attributes of a captured packet, and the state of the capture; \<open>lc_db\<close> are the entries handed to the database.\<close>

record Attribute =
  at_Payload :: "byte list option"
  at_InDev :: "nat option"
  at_OutDev :: "nat option"

record LogCapture =
  lc_config :: FirewallLoggingConfig
  lc_samplingCounter :: int
  lc_rateLimiter :: RateLimiter
  lc_db :: "FirewallLogEntry list"

definition NewLogCapture :: "int \<Rightarrow> FirewallLoggingConfig \<Rightarrow> LogCapture" where
  "NewLogCapture now config =
     \<lparr>lc_config = config, lc_samplingCounter = 0, lc_rateLimiter = NewRateLimiter now (fl_RateLimitPerSec config), lc_db = []\<rparr>"

definition with_devices :: "Attribute \<Rightarrow> FirewallLogEntry \<Rightarrow> FirewallLogEntry" where
  "with_devices attrs entry =
     (let e = (case at_InDev attrs of None \<Rightarrow> entry | Some d \<Rightarrow> entry\<lparr>fe_InterfaceIn := ''if'' @ show_nat d\<rparr>) in
      case at_OutDev attrs of None \<Rightarrow> e | Some d \<Rightarrow> e\<lparr>fe_InterfaceOut := ''if'' @ show_nat d\<rparr>)"

text \<open>A failing insertion is dropped like a successful one, so the entry counts as handed over.\<close>

definition processNFLOGPacket :: "int \<Rightarrow> string \<Rightarrow> Attribute \<Rightarrow> string \<Rightarrow> LogCapture \<Rightarrow> LogCapture outcome" where
  "processNFLOGPacket now timestamp attrs action c =
     (case at_Payload attrs of
        None \<Rightarrow> Ok c
      | Some payload \<Rightarrow>
          if payload = [] then Ok c
          else
            (case ParseIPPacket timestamp payload action of
               Panic \<Rightarrow> Panic
             | Err _ \<Rightarrow> Ok c
             | Ok parsed \<Rightarrow>
                 (let entry = with_devices attrs parsed in
                  if \<not> ShouldLogEntry entry (lc_config c) then Ok c
                  else
                    (let c1 = c\<lparr>lc_samplingCounter := lc_samplingCounter c + 1\<rparr> in
                     if \<not> ApplySampling (lc_samplingCounter c1) (fl_SamplingRate (lc_config c)) then Ok c1
                     else
                       (case Allow now (lc_rateLimiter c1) of
                          (r, False) \<Rightarrow> Ok (c1\<lparr>lc_rateLimiter := r\<rparr>)
                        | (r, True) \<Rightarrow> Ok (c1\<lparr>lc_rateLimiter := r, lc_db := lc_db c1 @ [entry]\<rparr>))))))"

text \<open>The maintenance of the database, an operation on its state for each of the three tasks.\<close>

record 'w LogDatabase =
  ld_CleanupOldLogs :: "int \<Rightarrow> 'w act"
  ld_EnforceMaxEntries :: "int \<Rightarrow> 'w act"
  ld_Vacuum :: "'w act"

definition PerformMaintenance :: "'w LogDatabase \<Rightarrow> FirewallLoggingConfig \<Rightarrow> 'w act" where
  "PerformMaintenance db config =
     andthen
       (if fl_RetentionDays config > 0
        then wrapping ''failed to cleanup old logs: '' (ld_CleanupOldLogs db (fl_RetentionDays config)) else nop)
     (andthen
       (if fl_MaxLogEntries config > 0
        then wrapping ''failed to enforce max entries: '' (ld_EnforceMaxEntries db (fl_MaxLogEntries config)) else nop)
       (wrapping ''failed to vacuum database: '' (ld_Vacuum db)))"

section \<open>Parsing never leaves the payload\<close>

lemma slice_of_ok: "a \<le> b \<Longrightarrow> b \<le> length p \<Longrightarrow> slice_of p a b = Ok (take (b - a) (drop a p))"
  by (simp add: slice_of_def)

lemma Uint16_ok: "length bs = 2 \<Longrightarrow> \<exists>v < 65536. Uint16 bs = Ok v"
proof -
  assume "length bs = 2"
  moreover have "unat (bs ! 0) < 256" "unat (bs ! 1) < 256" using unsigned_less [where ?'a = nat and w = "bs ! 0"]
      unsigned_less [where ?'a = nat and w = "bs ! 1"] by simp_all
  ultimately show ?thesis by (simp add: Uint16_def)
qed

lemma parse_ports_ok:
  "fe_SrcPort e < 65536 \<Longrightarrow> fe_DstPort e < 65536 \<Longrightarrow>
   \<exists>s d. parse_ports p ihl e = Ok (e\<lparr>fe_SrcPort := s, fe_DstPort := d\<rparr>) \<and> s < 65536 \<and> d < 65536"
proof (cases "length p \<ge> ihl + 4")
  case True
  obtain s where s: "Uint16 (take 2 (drop ihl p)) = Ok s" "s < 65536"
    using Uint16_ok [of "take 2 (drop ihl p)"] True by auto
  obtain d where d: "Uint16 (take 2 (drop (ihl + 2) p)) = Ok d" "d < 65536"
    using Uint16_ok [of "take 2 (drop (ihl + 2) p)"] True by auto
  have "parse_ports p ihl e = Ok (e\<lparr>fe_SrcPort := s, fe_DstPort := d\<rparr>)"
    using True s(1) d(1) by (simp add: parse_ports_def slice_of_def)
  with s(2) d(2) show ?thesis by blast
next
  case False
  then have "parse_ports p ihl e = Ok (e\<lparr>fe_SrcPort := fe_SrcPort e, fe_DstPort := fe_DstPort e\<rparr>)" by (simp add: parse_ports_def)
  moreover assume "fe_SrcPort e < 65536" "fe_DstPort e < 65536"
  ultimately show ?thesis by blast
qed

definition entry_ok :: "byte list \<Rightarrow> FirewallLogEntry \<Rightarrow> bool" where
  "entry_ok p e \<longleftrightarrow> fe_SrcPort e < 65536 \<and> fe_DstPort e < 65536 \<and> fe_PacketLength e < 65536 \<and>
     fe_SrcIP e = show_v4 (map unat (take 4 (drop 12 p))) \<and> fe_DstIP e = show_v4 (map unat (take 4 (drop 16 p)))"

lemma parse_ports_entry: "entry_ok p e \<Longrightarrow> \<exists>e'. parse_ports p ihl e = Ok e' \<and> entry_ok p e'"
  using parse_ports_ok [of e p ihl] by (auto simp: entry_ok_def)

lemma ParseIPPacket_total:
  "(\<exists>e. ParseIPPacket ts p a = Ok e \<and> entry_ok p e) \<or> (\<exists>m. ParseIPPacket ts p a = Err m)"
proof (cases "length p < 20")
  case False
  have ip: "ip_String bs = show_v4 bs" if "length bs = 4" for bs
    using that by (auto simp: ip_String_def ip_To4_def)
  obtain v where v: "Uint16 (take 2 (drop 2 p)) = Ok v" "v < 65536" using Uint16_ok [of "take 2 (drop 2 p)"] False by auto
  have e: "entry_ok p \<lparr>fe_ID = 0, fe_Timestamp = ts, fe_Action = a, fe_SrcIP = ip_String (map unat (take 4 (drop 12 p))),
     fe_DstIP = ip_String (map unat (take 4 (drop 16 p))), fe_Protocol = pr, fe_SrcPort = 0, fe_DstPort = 0,
     fe_InterfaceIn = '''', fe_InterfaceOut = '''', fe_PacketLength = v, fe_CreatedAt = ''''\<rparr>" for pr
    using False v(2) ip [of "map unat (take 4 (drop 12 p))"] ip [of "map unat (take 4 (drop 16 p))"] by (simp add: entry_ok_def)
  have "p \<noteq> []" using False by auto
  then show ?thesis using False v(1) e parse_ports_entry [OF e]
    by (simp add: ParseIPPacket_def byte_at_def slice_of_def Let_def)
qed (simp add: ParseIPPacket_def)

section \<open>The limiter\<close>

definition limiter_ok :: "RateLimiter \<Rightarrow> bool" where
  "limiter_ok r \<longleftrightarrow> 0 < rl_maxPerSec r \<and> 0 \<le> rl_tokens r \<and> rl_tokens r \<le> rl_maxPerSec r"

lemma Allow_cases:
  assumes "limiter_ok r" and "Allow now r = (r', b)"
  shows "limiter_ok r' \<and> rl_maxPerSec r' = rl_maxPerSec r \<and>
    (if now - rl_lastReset r \<ge> one_second
     then rl_lastReset r' = now \<and> b \<and> rl_tokens r' = rl_maxPerSec r - 1
     else rl_lastReset r' = rl_lastReset r \<and> (if b then rl_tokens r' = rl_tokens r - 1 else rl_tokens r' = rl_tokens r))"
  using assms by (auto simp: limiter_ok_def Allow_def Let_def split: if_splits)

text \<open>The entries a packet adds, and its effect on the limiter: none, or one call of \<open>Allow\<close>.\<close>

lemma process_cases:
  assumes "processNFLOGPacket now ts attrs a c = Ok c'"
  obtains "lc_rateLimiter c' = lc_rateLimiter c" and "lc_db c' = lc_db c" and "lc_config c' = lc_config c"
  | b where "Allow now (lc_rateLimiter c) = (lc_rateLimiter c', b)" and "length (lc_db c') = length (lc_db c) + (if b then 1 else 0)"
      and "lc_config c' = lc_config c"
proof (cases "Allow now (lc_rateLimiter c)")
  case (Pair r b)
  show thesis
    using assms that Pair
    by (auto simp: processNFLOGPacket_def Let_def split: option.splits if_splits outcome.splits bool.splits)
qed

lemma process_total: "processNFLOGPacket now ts attrs a c \<noteq> Panic \<and> (\<forall>m. processNFLOGPacket now ts attrs a c \<noteq> Err m)"
proof -
  have "ParseIPPacket ts p a \<noteq> Panic" for p using ParseIPPacket_total [of ts p a] by auto
  then show ?thesis
    by (auto simp: processNFLOGPacket_def Let_def split: option.splits outcome.splits prod.splits bool.splits)
qed

section \<open>A stream of packets\<close>

record packet =
  pk_time :: int
  pk_stamp :: string
  pk_attrs :: Attribute
  pk_action :: string

definition run_packets :: "packet list \<Rightarrow> LogCapture \<Rightarrow> LogCapture outcome" where
  "run_packets ps = ofold (\<lambda>p. processNFLOGPacket (pk_time p) (pk_stamp p) (pk_attrs p) (pk_action p)) ps"

lemma run_packets_simps [simp]:
  "run_packets [] c = Ok c"
  "run_packets (p # ps) c =
     obind (processNFLOGPacket (pk_time p) (pk_stamp p) (pk_attrs p) (pk_action p) c) (run_packets ps)"
  by (simp_all add: run_packets_def fun_eq_iff)

lemma run_packets_total: "\<exists>c'. run_packets ps c = Ok c'"
proof (induction ps arbitrary: c)
  case (Cons p ps)
  obtain c1 where "processNFLOGPacket (pk_time p) (pk_stamp p) (pk_attrs p) (pk_action p) c = Ok c1"
    using process_total [of "pk_time p" "pk_stamp p" "pk_attrs p" "pk_action p" c]
    by (cases "processNFLOGPacket (pk_time p) (pk_stamp p) (pk_attrs p) (pk_action p) c") auto
  with Cons show ?case by simp
qed simp

text \<open>Without a reset the tokens bound the entries; with one reset, the tokens and a full bucket.\<close>

lemma entries_no_reset:
  "limiter_ok (lc_rateLimiter c) \<Longrightarrow> \<forall>p \<in> set ps. pk_time p - rl_lastReset (lc_rateLimiter c) < one_second \<Longrightarrow>
   run_packets ps c = Ok c' \<Longrightarrow> int (length (lc_db c')) \<le> int (length (lc_db c)) + rl_tokens (lc_rateLimiter c)"
proof (induction ps arbitrary: c)
  case Nil
  then show ?case by (simp add: limiter_ok_def)
next
  case (Cons p ps)
  obtain c1 where c1: "processNFLOGPacket (pk_time p) (pk_stamp p) (pk_attrs p) (pk_action p) c = Ok c1" "run_packets ps c1 = Ok c'"
    using Cons.prems(3) by auto
  show ?case
  proof (cases rule: process_cases [OF c1(1)])
    case 1
    with Cons.IH [of c1] Cons.prems c1(2) show ?thesis by simp
  next
    case (2 b)
    with Allow_cases [OF Cons.prems(1) 2(1)] Cons.IH [of c1] Cons.prems c1(2) show ?thesis by (cases b) auto
  qed
qed

lemma entries_one_reset:
  "limiter_ok (lc_rateLimiter c) \<Longrightarrow> \<forall>p \<in> set ps. t \<le> pk_time p \<and> pk_time p < t + one_second \<Longrightarrow>
   run_packets ps c = Ok c' \<Longrightarrow>
   int (length (lc_db c')) \<le> int (length (lc_db c)) + rl_tokens (lc_rateLimiter c) + rl_maxPerSec (lc_rateLimiter c)"
proof (induction ps arbitrary: c)
  case Nil
  then show ?case by (simp add: limiter_ok_def)
next
  case (Cons p ps)
  obtain c1 where c1: "processNFLOGPacket (pk_time p) (pk_stamp p) (pk_attrs p) (pk_action p) c = Ok c1" "run_packets ps c1 = Ok c'"
    using Cons.prems(3) by auto
  show ?case
  proof (cases rule: process_cases [OF c1(1)])
    case 1
    with Cons.IH [of c1] Cons.prems c1(2) show ?thesis by simp
  next
    case (2 b)
    note a = Allow_cases [OF Cons.prems(1) 2(1)]
    show ?thesis
    proof (cases "pk_time p - rl_lastReset (lc_rateLimiter c) \<ge> one_second")
      case True
      then have "rl_lastReset (lc_rateLimiter c1) = pk_time p" "b" "limiter_ok (lc_rateLimiter c1)"
        "rl_tokens (lc_rateLimiter c1) = rl_maxPerSec (lc_rateLimiter c) - 1" using a by simp_all
      with entries_no_reset [of c1 ps c'] Cons.prems(1,2) c1(2) 2(2) show ?thesis
        by (fastforce simp: limiter_ok_def)
    next
      case False
      with a 2(2) Cons.IH [of c1] Cons.prems c1(2) show ?thesis by (cases b) auto
    qed
  qed
qed

lemma Allow_keeps_ok:
  "limiter_ok r \<Longrightarrow> limiter_ok (fst (Allow now r)) \<and> rl_maxPerSec (fst (Allow now r)) = rl_maxPerSec r"
  using Allow_cases [of r now "fst (Allow now r)" "snd (Allow now r)"] by simp

lemma run_packets_ok:
  "run_packets ps c = Ok c' \<Longrightarrow> limiter_ok (lc_rateLimiter c) \<Longrightarrow>
   limiter_ok (lc_rateLimiter c') \<and> rl_maxPerSec (lc_rateLimiter c') = rl_maxPerSec (lc_rateLimiter c)"
proof (induction ps arbitrary: c)
  case (Cons p ps)
  then obtain c1 where c1: "processNFLOGPacket (pk_time p) (pk_stamp p) (pk_attrs p) (pk_action p) c = Ok c1" "run_packets ps c1 = Ok c'"
    by auto
  show ?case
  proof (cases rule: process_cases [OF c1(1)])
    case 1
    with Cons.IH [OF c1(2)] Cons.prems show ?thesis by simp
  next
    case (2 b)
    with Cons.IH [OF c1(2)] Cons.prems Allow_cases [OF Cons.prems(2) 2(1)] show ?thesis by simp
  qed
qed simp

section \<open>Properties\<close>

text \<open>
  C22 (packet_parse_safe): no payload, however short or malformed, makes the parser read outside it; when it
  accepts a packet, ports and length are 16-bit values and the addresses are the header's.
\<close>

theorem packet_parse_safe:
  "ParseIPPacket timestamp payload action \<noteq> Panic \<and>
   (\<forall>e. ParseIPPacket timestamp payload action = Ok e \<longrightarrow>
      fe_SrcPort e < 65536 \<and> fe_DstPort e < 65536 \<and> fe_PacketLength e < 65536 \<and>
      fe_SrcIP e = show_v4 (map unat (take 4 (drop 12 payload))) \<and> fe_DstIP e = show_v4 (map unat (take 4 (drop 16 payload))))"
  using ParseIPPacket_total [of timestamp payload action] by (auto simp: entry_ok_def)

definition ex_packet :: "byte list" where
  "ex_packet = [0x45, 0, 0, 40, 0, 0, 0, 0, 64, 6, 0, 0, 10, 0, 0, 1, 10, 0, 0, 2, 0x01, 0xBB, 0xC0, 0x00]"

theorem packet_parse_safe_witness:
  "\<exists>e. ParseIPPacket ''t'' ex_packet ''DROP'' = Ok e \<and> fe_SrcIP e = ''10.0.0.1'' \<and> fe_SrcPort e < 65536"
proof -
  have "is_ok (ParseIPPacket ''t'' ex_packet ''DROP'')"
    by (simp add: ParseIPPacket_def ex_packet_def byte_at_def slice_of_def Uint16_def parse_ports_def Let_def)
  then obtain e where e: "ParseIPPacket ''t'' ex_packet ''DROP'' = Ok e" by (auto simp: is_ok_iff)
  have "map unat (take 4 (drop 12 ex_packet)) = [10, 0, 0, 1]" by (simp add: ex_packet_def)
  moreover have "show_v4 [10, 0, 0, 1] = ''10.0.0.1''" by code_simp
  ultimately have "show_v4 (map unat (take 4 (drop 12 ex_packet))) = ''10.0.0.1''" by simp
  with packet_parse_safe [of "''t''" ex_packet "''DROP''"] e show ?thesis by auto
qed

text \<open>
  C23 (log_rate_bound): with a positive rate limit, the packets that arrive within one second, whatever came
  before them, lead to at most twice the configured number of log entries; processing a stream of packets
  always ends without a panic.
\<close>

theorem log_rate_bound:
  assumes "fl_RateLimitPerSec config > 0" and "run_packets before (NewLogCapture start config) = Ok c"
    and "\<forall>p \<in> set ps. t \<le> pk_time p \<and> pk_time p < t + one_second"
  shows "\<exists>c'. run_packets ps c = Ok c' \<and> int (length (lc_db c')) \<le> int (length (lc_db c)) + 2 * fl_RateLimitPerSec config"
proof -
  have new: "limiter_ok (lc_rateLimiter (NewLogCapture start config))"
    "rl_maxPerSec (lc_rateLimiter (NewLogCapture start config)) = fl_RateLimitPerSec config"
    using assms(1) by (simp_all add: limiter_ok_def NewLogCapture_def NewRateLimiter_def)
  note ok = run_packets_ok [OF assms(2) new(1)]
  obtain c' where "run_packets ps c = Ok c'" using run_packets_total by blast
  with entries_one_reset [OF conjunct1 [OF ok] assms(3)] ok new(2) show ?thesis by (fastforce simp: limiter_ok_def)
qed

definition ex_log_config :: FirewallLoggingConfig where
  "ex_log_config = \<lparr>fl_Enabled = True, fl_LogAccepts = True, fl_LogDrops = True, fl_SamplingRate = 1, fl_RateLimitPerSec = 1,
     fl_MaxLogEntries = 0, fl_RetentionDays = 0\<rparr>"

definition ex_arrival :: "int \<Rightarrow> packet" where
  "ex_arrival t = \<lparr>pk_time = t, pk_stamp = ''t'', pk_attrs = \<lparr>at_Payload = Some ex_packet, at_InDev = Some 2, at_OutDev = None\<rparr>,
     pk_action = ''DROP''\<rparr>"

theorem log_rate_bound_witness:
  "\<exists>c'. run_packets [ex_arrival 900000000, ex_arrival 1000000000, ex_arrival 1100000000] (NewLogCapture 0 ex_log_config) = Ok c' \<and>
     int (length (lc_db c')) \<le> int (length (lc_db (NewLogCapture 0 ex_log_config))) + 2 * 1"
  using log_rate_bound [of ex_log_config "[]" 0 "NewLogCapture 0 ex_log_config"
      "[ex_arrival 900000000, ex_arrival 1000000000, ex_arrival 1100000000]" 900000000]
  by (simp add: ex_log_config_def ex_arrival_def one_second_def)

end
