(* ===== verification/Plugin_Actions.thy ===== *)
theory Plugin_Actions
  imports Kernel
begin

text \<open>
  What the plugins under \<open>src/plugins/core\<close> share: validation that stops at the first error, actions that may
  panic besides failing, and \<open>strings.Fields\<close>.
\<close>

section \<open>Validation by early return\<close>

text \<open>A loop of checks with early returns gives the first error.\<close>

fun first_error :: "goerror list \<Rightarrow> goerror" where
  "first_error [] = None"
| "first_error (e # es) = (case e of None \<Rightarrow> first_error es | Some m \<Rightarrow> Some m)"

definition reject :: "bool \<Rightarrow> string \<Rightarrow> goerror" where
  "reject b m = (if b then Some m else None)"

lemma first_error_None_iff [simp]: "first_error es = None \<longleftrightarrow> (\<forall>e \<in> set es. e = None)"
  by (induction es) (auto split: option.splits)

lemma reject_None_iff [simp]: "reject b m = None \<longleftrightarrow> \<not> b"
  by (simp add: reject_def)

declare first_error.simps [simp del]

section \<open>Actions that may panic\<close>

type_synonym 'w pact = "'w \<Rightarrow> 'w \<times> unit outcome"

definition plift :: "'w act \<Rightarrow> 'w pact" where
  "plift f w = (case f w of (w', None) \<Rightarrow> (w', Ok ()) | (w', Some e) \<Rightarrow> (w', Err e))"

definition pthen :: "'w pact \<Rightarrow> 'w pact \<Rightarrow> 'w pact" where
  "pthen f g w = (case f w of (w', Ok _) \<Rightarrow> g w' | (w', Err e) \<Rightarrow> (w', Err e) | (w', Panic) \<Rightarrow> (w', Panic))"

definition pwrap :: "string \<Rightarrow> 'w pact \<Rightarrow> 'w pact" where
  "pwrap p f w = (case f w of (w', r) \<Rightarrow> (w', wrap_err p r))"

definition pquery :: "('w \<Rightarrow> string + 'a) \<Rightarrow> string \<Rightarrow> ('a \<Rightarrow> 'w pact) \<Rightarrow> 'w pact" where
  "pquery q p k w = (case q w of Inl e \<Rightarrow> (w, Err (p @ e)) | Inr x \<Rightarrow> k x w)"

fun peach :: "('a \<Rightarrow> 'w pact) \<Rightarrow> 'a list \<Rightarrow> 'w pact" where
  "peach f [] = (\<lambda>w. (w, Ok ()))"
| "peach f (x # xs) = pthen (f x) (peach f xs)"

text \<open>An action that never panics, whatever the state it runs in.\<close>

definition panic_free :: "'w pact \<Rightarrow> bool" where
  "panic_free f \<longleftrightarrow> (\<forall>w. snd (f w) \<noteq> Panic)"

lemma panic_free_plift [simp, intro]: "panic_free (plift f)"
  by (simp add: panic_free_def plift_def split: prod.splits option.splits)

lemma panic_free_pthen [intro]: "panic_free f \<Longrightarrow> panic_free g \<Longrightarrow> panic_free (pthen f g)"
proof -
  assume f: "panic_free f" and g: "panic_free g"
  have "snd (pthen f g w) \<noteq> Panic" for w
  proof (cases "f w")
    case (Pair v r)
    with f g show ?thesis by (cases r) (auto simp: pthen_def panic_free_def dest: spec [of _ w])
  qed
  then show ?thesis by (simp add: panic_free_def)
qed

lemma panic_free_pwrap [intro]: "panic_free f \<Longrightarrow> panic_free (pwrap p f)"
  by (simp add: panic_free_def pwrap_def case_prod_unfold)

lemma panic_free_pquery [intro]: "(\<And>x. panic_free (k x)) \<Longrightarrow> panic_free (pquery q p k)"
  by (auto simp: panic_free_def pquery_def split: sum.splits)

lemma panic_free_peach [intro]: "(\<And>x. x \<in> set xs \<Longrightarrow> panic_free (f x)) \<Longrightarrow> panic_free (peach f xs)"
proof (induction xs)
  case Nil
  then show ?case by (simp add: panic_free_def)
next
  case (Cons x xs)
  then show ?case by (simp add: panic_free_pthen)
qed

section \<open>strings.Fields\<close>

text \<open>The pieces between runs of spaces; \<open>acc\<close> is the piece read so far.\<close>

function fields_from :: "string \<Rightarrow> string \<Rightarrow> string list" where
  "fields_from acc [] = (if acc = [] then [] else [acc])"
| "fields_from acc (c # s) =
     (case strip_any space_runes (c # s) of
        Some t \<Rightarrow> (if acc = [] then [] else [acc]) @ fields_from [] t
      | None \<Rightarrow> fields_from (acc @ [c]) s)"
  by pat_completeness auto

lemma space_runes_nonempty: "[] \<notin> set space_runes"
  by (auto simp: space_runes_def)

termination fields_from
  by (relation "measure (\<lambda>(acc, s). length s)") (auto dest: strip_any_shorter simp: space_runes_nonempty)

definition go_fields :: "string \<Rightarrow> string list" where
  "go_fields s = fields_from [] s"

end
