(* ===== verification/Wireguard.thy ===== *)
theory Wireguard
  imports Plugin_Actions
begin

text \<open>
  The VPN plugin, \<open>src/plugins/core/wireguard\<close>: its configuration (\<open>types.go\<close>), the pure helpers
  (\<open>wireguard_config.go\<close>) and the provider that drives \<open>ip\<close>, \<open>wg\<close> and netlink (\<open>wireguard.go\<close>). The map of
  interfaces is visited in the order of the association list, which stands for any order.
\<close>

section \<open>Configuration\<close>

record VPNPeer =
  vp_PublicKey :: string
  vp_PresharedKey :: string
  vp_Endpoint :: string
  vp_AllowedIPs :: "string slice"
  vp_PersistentKeepalive :: int
  vp_Comment :: string

record VPNInterface =
  vi_Type :: string
  vi_Enabled :: bool
  vi_DeviceName :: string
  vi_PrivateKey :: string
  vi_ListenPort :: int
  vi_Address :: string
  vi_Netmask :: string
  vi_MTU :: int
  vi_Peers :: "VPNPeer slice"
  vi_FirewallZone :: string
  vi_Comment :: string

record VPNConfig =
  vc_Version :: string
  vc_Interfaces :: "(string, VPNInterface) gomap"

definition VPNPeer_Validate :: "VPNPeer \<Rightarrow> goerror" where
  "VPNPeer_Validate wp =
     (let v = NewCollector;
          v = CheckMsg (ValidateWireGuardKey (vp_PublicKey wp)) ''invalid public key'' v;
          v = check_if (vp_PresharedKey wp \<noteq> '''')
                (CheckMsg (ValidateWireGuardKey (vp_PresharedKey wp)) ''invalid preshared key'') v;
          v = check_if (vp_Endpoint wp \<noteq> '''')
                (CheckMsg (ValidateEndpoint (vp_Endpoint wp)) ''invalid endpoint'') v;
          v = foldl (\<lambda>v a. CheckMsg (ValidateCIDR a) (''invalid allowed IP '' @ a) v)
                v (elems (vp_AllowedIPs wp))
      in ec_Error v)"

definition VPNInterface_Validate :: "VPNInterface \<Rightarrow> goerror" where
  "VPNInterface_Validate vi =
     (let v = NewCollector;
          v = check_if (vi_ListenPort vi > 0) (CheckMsg (ValidatePort (vi_ListenPort vi)) ''invalid listen port'') v;
          v = check_if (vi_PrivateKey vi \<noteq> '''')
                (CheckMsg (ValidateWireGuardKey (vi_PrivateKey vi)) ''invalid private key'') v;
          v = check_if (vi_Address vi \<noteq> '''') (CheckMsg (ValidateIP (vi_Address vi)) ''invalid address'') v;
          v = check_if (vi_Netmask vi \<noteq> '''') (CheckMsg (ValidateNetmask (vi_Netmask vi)) ''invalid netmask'') v;
          v = check_if (vi_MTU vi > 0) (CheckMsg (ValidateMTU (vi_MTU vi)) ''invalid MTU'') v;
          v = foldl (\<lambda>v (idx, peer). CheckMsg (VPNPeer_Validate peer) (''peer '' @ show_nat idx) v)
                v (List.enumerate 0 (elems (vi_Peers vi)))
      in ec_Error v)"

definition VPNConfig_Validate :: "VPNConfig \<Rightarrow> goerror" where
  "VPNConfig_Validate vc =
     ec_Error (foldl (\<lambda>v (ifaceName, iface). CheckMsg (VPNInterface_Validate iface) (''VPN interface '' @ ifaceName) v)
       NewCollector (vc_Interfaces vc))"

section \<open>Helpers\<close>

definition netmask_table :: "(string, string) gomap" where
  "netmask_table =
     [(''255.255.255.255'', ''32''), (''255.255.255.254'', ''31''), (''255.255.255.252'', ''30''),
      (''255.255.255.248'', ''29''), (''255.255.255.240'', ''28''), (''255.255.255.224'', ''27''),
      (''255.255.255.192'', ''26''), (''255.255.255.128'', ''25''), (''255.255.255.0'', ''24''),
      (''255.255.254.0'', ''23''), (''255.255.252.0'', ''22''), (''255.255.248.0'', ''21''),
      (''255.255.240.0'', ''20''), (''255.255.224.0'', ''19''), (''255.255.192.0'', ''18''),
      (''255.255.128.0'', ''17''), (''255.255.0.0'', ''16''), (''255.254.0.0'', ''15''),
      (''255.252.0.0'', ''14''), (''255.248.0.0'', ''13''), (''255.240.0.0'', ''12''),
      (''255.224.0.0'', ''11''), (''255.192.0.0'', ''10''), (''255.128.0.0'', ''9''), (''255.0.0.0'', ''8'')]"

definition NetmaskToCIDR :: "string \<Rightarrow> string" where
  "NetmaskToCIDR netmask = (case mget netmask_table netmask of Some cidr \<Rightarrow> cidr | None \<Rightarrow> ''24'')"

definition FormatCIDR :: "string \<Rightarrow> string \<Rightarrow> string" where
  "FormatCIDR ipAddr netmask =
     (if contains ipAddr ''/'' then ipAddr else ipAddr @ ''/'' @ NetmaskToCIDR netmask)"

definition StringSlicesEqual :: "string list \<Rightarrow> string list \<Rightarrow> bool" where
  "StringSlicesEqual a b =
     (if length a \<noteq> length b then False
      else let aMap = foldl (\<lambda>m item. mput item True m) [] a in
        list_all (\<lambda>item. mget aMap item = Some True) b)"

definition BuildPeerArgs :: "string \<Rightarrow> VPNPeer \<Rightarrow> string list \<times> bool" where
  "BuildPeerArgs deviceName peer =
     ([''set'', deviceName, ''peer'', vp_PublicKey peer] @
      (if vp_PresharedKey peer \<noteq> '''' then [''preshared-key'', ''/dev/stdin''] else []) @
      (if vp_Endpoint peer \<noteq> '''' then [''endpoint'', vp_Endpoint peer] else []) @
      (if length (elems (vp_AllowedIPs peer)) > 0
       then [''allowed-ips'', join_with '','' (elems (vp_AllowedIPs peer))] else []) @
      (if vp_PersistentKeepalive peer > 0
       then [''persistent-keepalive'', show_int (vp_PersistentKeepalive peer)] else []),
      vp_PresharedKey peer \<noteq> '''')"

subsection \<open>Validation before use\<close>

definition validate_peer :: "string \<Rightarrow> nat \<Rightarrow> VPNPeer \<Rightarrow> goerror" where
  "validate_peer name i peer =
     (let who = ''interface '' @ name @ '', peer '' @ show_nat i in
      first_error
       ([reject (vp_PublicKey peer = '''') (who @ '': public_key is required''),
         reject (length (vp_PublicKey peer) < 40 \<or> contains (vp_PublicKey peer) '' '')
           (who @ '': invalid public_key format (expected base64 key, typically 44 characters)''),
         reject (length (elems (vp_AllowedIPs peer)) = 0) (who @ '': allowed_ips is required'')] @
        map (\<lambda>(j, allowedIP).
               reject (ParseCIDR allowedIP = None)
                 (who @ '', allowed_ip '' @ show_nat j @ '': invalid CIDR '' @ allowedIP @ '': '' @ lib_err ''ParseCIDR'' allowedIP))
          (List.enumerate 0 (elems (vp_AllowedIPs peer))) @
        [reject (vp_Endpoint peer \<noteq> '''' \<and> length (split_on (CHR '':'') (vp_Endpoint peer)) \<noteq> 2)
           (who @ '': invalid endpoint format (expected host:port)''),
         reject (vp_PersistentKeepalive peer < 0 \<or> vp_PersistentKeepalive peer > 65535)
           (who @ '': invalid persistent_keepalive '' @ show_int (vp_PersistentKeepalive peer) @ '' (must be 0-65535)'')]))"

definition validate_interface :: "string \<Rightarrow> VPNInterface \<Rightarrow> goerror" where
  "validate_interface name iface =
     (let who = ''interface '' @ name @ '': '' in
      first_error
       ([reject (vi_DeviceName iface = '''') (who @ ''device_name is required''),
         reject (vi_PrivateKey iface = '''') (who @ ''private_key is required''),
         reject (vi_Address iface = '''') (who @ ''address is required''),
         reject (vi_Netmask iface = '''') (who @ ''netmask is required''),
         reject (vi_ListenPort iface < 0 \<or> vi_ListenPort iface > 65535)
           (who @ ''invalid listen port '' @ show_int (vi_ListenPort iface) @ '' (must be 0-65535)''),
         reject (vi_MTU iface < 0 \<or> vi_MTU iface > 9000)
           (who @ ''invalid MTU '' @ show_int (vi_MTU iface) @ '' (must be 0-9000)''),
         (if \<not> contains (vi_Address iface) ''/''
          then reject (ParseIP (vi_Address iface) = None) (who @ ''invalid IP address: '' @ vi_Address iface)
          else reject (ParseCIDR (vi_Address iface) = None)
            (who @ ''invalid CIDR address '' @ vi_Address iface @ '': '' @ lib_err ''ParseCIDR'' (vi_Address iface)))] @
        map (\<lambda>(i, peer). validate_peer name i peer) (List.enumerate 0 (elems (vi_Peers iface)))))"

definition ValidateVPNConfig :: "VPNConfig option \<Rightarrow> goerror" where
  "ValidateVPNConfig config =
     (case config of
        None \<Rightarrow> Some ''config is nil''
      | Some vc \<Rightarrow>
          if length (vc_Interfaces vc) = 0 then Some ''no interfaces defined''
          else first_error (map (\<lambda>(name, iface). validate_interface name iface) (vc_Interfaces vc)))"

section \<open>The provider\<close>

text \<open>
  Beside the calls of \<^typ>\<open>'w Clients\<close>, the provider lists addresses and routes of all families and runs
  commands with an input, of which it reads the combined output.
\<close>

record 'w WgClients = "'w Clients" +
  wg_AddrList :: "KLink \<Rightarrow> 'w \<Rightarrow> string + IPNet list"
  wg_RouteList :: "'w \<Rightarrow> string + NRoute list"
  wg_Exec :: "string list \<Rightarrow> string \<Rightarrow> 'w \<Rightarrow> 'w \<times> string \<times> goerror"

record WireGuardProvider =
  wg_interfaces :: "(string, VPNInterface) gomap"

definition WireGuard_New :: "'w WgClients \<Rightarrow> 'w \<Rightarrow> string + WireGuardProvider" where
  "WireGuard_New c w =
     (case cl_LookPath c ''wg'' w of
        Some e \<Rightarrow> Inl (''wireguard-tools not found: '' @ e @ '' (install with: apt install wireguard-tools)'')
      | None \<Rightarrow> Inr \<lparr>wg_interfaces = []\<rparr>)"

text \<open>\<open>cmd.CombinedOutput\<close>, with the output in the text of the error.\<close>

definition exec_checked :: "'w WgClients \<Rightarrow> string list \<Rightarrow> string \<Rightarrow> string \<Rightarrow> 'w act" where
  "exec_checked c args stdin msg w =
     (case wg_Exec c args stdin w of
        (w', output, Some e) \<Rightarrow> (w', Some (msg @ output @ '': '' @ e))
      | (w', output, None) \<Rightarrow> (w', None))"

definition configurePeer :: "'w WgClients \<Rightarrow> string \<Rightarrow> VPNPeer \<Rightarrow> 'w pact" where
  "configurePeer c deviceName peer =
     (case BuildPeerArgs deviceName peer of (args, needsStdin) \<Rightarrow>
        pthen
          (plift (exec_checked c (''wg'' # args) (if needsStdin then vp_PresharedKey peer else '''') ''failed to configure peer: ''))
          (\<lambda>w. if length (vp_PublicKey peer) < 16 then (w, Panic) else (w, Ok ())))"

definition wg_flushIPs :: "'w WgClients \<Rightarrow> KLink \<Rightarrow> 'w act" where
  "wg_flushIPs c link =
     querying (wg_AddrList c link) ''failed to list addresses: ''
       (each (\<lambda>addr. wrapping (''failed to delete address '' @ net_String addr @ '': '') (cl_AddrDel c link addr)))"

definition wg_setStaticIP :: "'w WgClients \<Rightarrow> KLink \<Rightarrow> string \<Rightarrow> string \<Rightarrow> 'w act" where
  "wg_setStaticIP c link ipAddr netmask =
     (let cidr = FormatCIDR ipAddr netmask in
      case cl_ParseAddr c cidr of
        Inl e \<Rightarrow> fails (''invalid IP address '' @ cidr @ '': '' @ e)
      | Inr addr \<Rightarrow> wrapping ''failed to add address: '' (cl_AddrAdd c link addr))"

subsection \<open>Routes\<close>

definition is_default :: "NRoute \<Rightarrow> bool" where
  "is_default route \<longleftrightarrow>
     (case nr_Dst route of None \<Rightarrow> True | Some d \<Rightarrow> net_String d = ''0.0.0.0/0'')"

text \<open>The loop over the routes, with the gateway, its link and the lowest metric so far.\<close>

definition consider_route ::
  "'w WgClients \<Rightarrow> 'w \<Rightarrow> (ip \<times> KLink) option \<times> int \<Rightarrow> NRoute \<Rightarrow> (ip \<times> KLink) option \<times> int" where
  "consider_route c w best route =
     (if is_default route \<and> nr_Gw route \<noteq> [] \<and> nr_Priority route < snd best then
        (case cl_LinkByIndex c (nr_LinkIndex route) w of
           Inl _ \<Rightarrow> best
         | Inr link \<Rightarrow>
             if lk_Type link \<noteq> ''wireguard'' then (Some (nr_Gw route, link), nr_Priority route) else best)
      else best)"

definition default_gateway :: "'w WgClients \<Rightarrow> 'w \<Rightarrow> NRoute list \<Rightarrow> (ip \<times> KLink) option" where
  "default_gateway c w routes = fst (foldl (consider_route c w) (None, 999999) routes)"

definition addEndpointRoute :: "'w WgClients \<Rightarrow> string \<Rightarrow> 'w act" where
  "addEndpointRoute c endpoint =
     (case SplitHostPort endpoint of
        None \<Rightarrow> fails (''invalid endpoint format '' @ endpoint @ '': '' @ lib_err ''SplitHostPort'' endpoint)
      | Some (host, _) \<Rightarrow>
          (case ParseIP host of
             None \<Rightarrow> fails (''invalid endpoint IP: '' @ host)
           | Some endpointIP \<Rightarrow>
               querying (wg_RouteList c) ''failed to list routes: '' (\<lambda>routes w.
                 (case default_gateway c w routes of
                    None \<Rightarrow> (w, Some ''no default gateway found'')
                  | Some (defaultGW, defaultLink) \<Rightarrow>
                      (case cl_RouteAdd c
                              (zero_NRoute\<lparr>nr_Dst := Some \<lparr>in_IP = endpointIP, in_Mask = cidr_bytes 32 4\<rparr>,
                                 nr_Gw := defaultGW, nr_LinkIndex := lk_Index defaultLink\<rparr>) w of
                         (w', None) \<Rightarrow> (w', None)
                       | (w', Some e) \<Rightarrow>
                           (w', if contains e ''file exists'' then None
                                else Some (''failed to add endpoint route: '' @ e)))))))"

definition peer_route :: "KLink \<Rightarrow> string \<Rightarrow> IPNet \<Rightarrow> NRoute" where
  "peer_route link allowedIP ipNet =
     zero_NRoute\<lparr>nr_LinkIndex := lk_Index link, nr_Dst := Some ipNet, nr_Priority := 50,
       nr_Scope := (if allowedIP = ''0.0.0.0/0'' \<or> allowedIP = ''::/0'' then 253 else 0)\<rparr>"

definition addPeerRoutes :: "'w WgClients \<Rightarrow> KLink \<Rightarrow> VPNInterface \<Rightarrow> 'w act" where
  "addPeerRoutes c link iface =
     each (\<lambda>peer.
       each (\<lambda>allowedIP.
         (case ParseCIDR_net allowedIP of
            None \<Rightarrow> nop
          | Some ipNet \<Rightarrow>
              andthen
                (if (allowedIP = ''0.0.0.0/0'' \<or> allowedIP = ''::/0'') \<and> vp_Endpoint peer \<noteq> ''''
                 then logged (addEndpointRoute c (vp_Endpoint peer)) else nop)
                (logged (cl_RouteAdd c (peer_route link allowedIP ipNet)))))
         (elems (vp_AllowedIPs peer)))
       (elems (vi_Peers iface))"

subsection \<open>Comparing with the kernel\<close>

definition peer_line_matches :: "(string, VPNPeer) gomap \<Rightarrow> string \<Rightarrow> string + bool" where
  "peer_line_matches desiredPeers line =
     (let peerFields = go_fields line in
      if length peerFields < 9 then Inl ''invalid wg dump peer line''
      else
        (case mget desiredPeers (peerFields ! 1) of
           None \<Rightarrow> Inr False
         | Some desiredPeer \<Rightarrow>
             Inr (\<not> (vp_Endpoint desiredPeer \<noteq> '''' \<and> peerFields ! 3 \<noteq> vp_Endpoint desiredPeer) \<and>
                  StringSlicesEqual (split_on (CHR '','') (peerFields ! 4)) (elems (vp_AllowedIPs desiredPeer)) \<and>
                  \<not> (vp_PersistentKeepalive desiredPeer > 0 \<and>
                     peerFields ! 8 \<noteq> show_int (vp_PersistentKeepalive desiredPeer)))))"

fun peer_lines_match :: "(string, VPNPeer) gomap \<Rightarrow> string list \<Rightarrow> string + bool" where
  "peer_lines_match desiredPeers [] = Inr True"
| "peer_lines_match desiredPeers (line # ls) =
     (case peer_line_matches desiredPeers line of
        Inl e \<Rightarrow> Inl e
      | Inr False \<Rightarrow> Inr False
      | Inr True \<Rightarrow> peer_lines_match desiredPeers ls)"

definition dump_matches :: "VPNInterface \<Rightarrow> string \<Rightarrow> string + bool" where
  "dump_matches desired output =
     (let lns = split_on (CHR 0x0A) (trim_space output) in
      if length lns < 1 then Inl ''empty wg dump output''
      else let interfaceFields = go_fields (lns ! 0) in
        if length interfaceFields < 4 then Inl ''invalid wg dump interface line''
        else if vi_ListenPort desired > 0 \<and> interfaceFields ! 3 \<noteq> show_int (vi_ListenPort desired) \<and>
                interfaceFields ! 3 \<noteq> ''0'' then Inr False
        else if length lns - 1 \<noteq> length (elems (vi_Peers desired)) then Inr False
        else
          peer_lines_match
            (foldl (\<lambda>m peer. mput (vp_PublicKey peer) peer m) [] (elems (vi_Peers desired))) (drop 1 lns))"

definition link_matches :: "'w WgClients \<Rightarrow> VPNInterface \<Rightarrow> 'w \<Rightarrow> string + bool" where
  "link_matches c desired w =
     (case cl_LinkByName c (vi_DeviceName desired) w of
        Inl e \<Rightarrow> Inl (''failed to get interface: '' @ e)
      | Inr link \<Rightarrow>
          if vi_MTU desired > 0 \<and> lk_MTU link \<noteq> vi_MTU desired then Inr False
          else
            (case cl_AddrList c link w of
               Inl e \<Rightarrow> Inl (''failed to list addresses: '' @ e)
             | Inr addrs \<Rightarrow>
                 if addrs = [] \<and> vi_Address desired \<noteq> '''' then Inr False
                 else if addrs \<noteq> [] \<and> vi_Address desired \<noteq> '''' \<and> ip_String (in_IP (hd addrs)) \<noteq> vi_Address desired
                 then Inr False
                 else Inr True))"

definition interfaceConfigMatches :: "'w WgClients \<Rightarrow> VPNInterface \<Rightarrow> 'w \<Rightarrow> 'w \<times> (string + bool)" where
  "interfaceConfigMatches c desired w =
     (case wg_Exec c [''wg'', ''show'', vi_DeviceName desired, ''dump''] '''' w of
        (w', output, Some e) \<Rightarrow> (w', Inl (''failed to run 'wg show': '' @ e))
      | (w', output, None) \<Rightarrow>
          (w', (case dump_matches desired output of
                  Inl e \<Rightarrow> Inl e
                | Inr False \<Rightarrow> Inr False
                | Inr True \<Rightarrow> link_matches c desired w')))"

subsection \<open>Applying\<close>

text \<open>The part of \<open>applyInterface\<close> that creates the interface and configures it.\<close>

definition configureLink :: "'w WgClients \<Rightarrow> VPNInterface \<Rightarrow> KLink \<Rightarrow> 'w act" where
  "configureLink c iface wgLink =
     andthen (if vi_MTU iface > 0 then wrapping ''failed to set MTU: '' (cl_LinkSetMTU c wgLink (vi_MTU iface)) else nop)
     (andthen (wrapping ''failed to bring up interface: '' (cl_LinkSetUp c wgLink))
     (andthen (wrapping ''failed to flush IPs: '' (wg_flushIPs c wgLink))
     (andthen (wrapping ''failed to set IP address: '' (wg_setStaticIP c wgLink (vi_Address iface) (vi_Netmask iface)))
       (wrapping ''failed to add peer routes: '' (addPeerRoutes c wgLink iface)))))"

definition createInterface :: "'w WgClients \<Rightarrow> VPNInterface \<Rightarrow> 'w pact" where
  "createInterface c iface =
     (let dev = vi_DeviceName iface in
      pthen (plift (exec_checked c [''ip'', ''link'', ''add'', ''dev'', dev, ''type'', ''wireguard''] '''' ''failed to create interface: ''))
      (pthen (plift (exec_checked c [''wg'', ''set'', dev, ''private-key'', ''/dev/stdin''] (vi_PrivateKey iface) ''failed to set private key: ''))
      (pthen
        (plift (if vi_ListenPort iface > 0
                then exec_checked c [''wg'', ''set'', dev, ''listen-port'', show_int (vi_ListenPort iface)] '''' ''failed to set listen port: ''
                else nop))
      (pthen
        (peach (\<lambda>(i, peer). pwrap (''failed to configure peer '' @ show_nat i @ '': '') (configurePeer c dev peer))
          (List.enumerate 0 (elems (vi_Peers iface))))
        (pquery (cl_LinkByName c dev) ''failed to get interface: '' (\<lambda>wgLink. plift (configureLink c iface wgLink)))))))"

definition applyInterface :: "'w WgClients \<Rightarrow> VPNInterface \<Rightarrow> 'w pact" where
  "applyInterface c iface w =
     (case cl_LinkByName c (vi_DeviceName iface) w of
        Inl _ \<Rightarrow> createInterface c iface w
      | Inr existingLink \<Rightarrow>
          (case interfaceConfigMatches c iface w of
             (w', Inr True) \<Rightarrow> plift (wrapping ''failed to add peer routes: '' (addPeerRoutes c existingLink iface)) w'
           | (w', _) \<Rightarrow>
               pthen (plift (wrapping ''failed to delete existing interface: '' (cl_LinkDel c existingLink)))
                 (createInterface c iface) w'))"

definition apply_entry :: "'w WgClients \<Rightarrow> string \<Rightarrow> VPNInterface \<Rightarrow> 'w pact" where
  "apply_entry c name iface w =
     (if \<not> vi_Enabled iface then
        (case cl_LinkByName c (vi_DeviceName iface) w of
           Inl _ \<Rightarrow> (w, Ok ())
         | Inr link \<Rightarrow>
             plift (wrapping (''failed to remove interface '' @ vi_DeviceName iface @ '': '') (cl_LinkDel c link)) w)
      else pwrap (''failed to apply interface '' @ name @ '': '') (applyInterface c iface) w)"

definition WireGuard_ApplyConfig ::
  "'w WgClients \<Rightarrow> VPNConfig \<Rightarrow> WireGuardProvider \<times> 'w \<Rightarrow> (WireGuardProvider \<times> 'w) \<times> unit outcome" where
  "WireGuard_ApplyConfig c config pw =
     (case peach (\<lambda>(name, iface). apply_entry c name iface) (vc_Interfaces config) (snd pw) of
        (w', r) \<Rightarrow> (((fst pw)\<lparr>wg_interfaces := vc_Interfaces config\<rparr>, w'), r))"

definition WireGuard_Validate :: "VPNConfig option \<Rightarrow> goerror" where
  "WireGuard_Validate config = ValidateVPNConfig config"

definition WireGuard_Flush :: "'w WgClients \<Rightarrow> 'w act" where
  "WireGuard_Flush c =
     querying (cl_LinkList c) ''failed to list links: ''
       (each (\<lambda>link. if lk_Type link = ''wireguard'' then logged (cl_LinkDel c link) else nop))"

definition WireGuard_Enable :: "'w WgClients \<Rightarrow> WireGuardProvider \<Rightarrow> 'w act" where
  "WireGuard_Enable c p =
     each (\<lambda>(name, iface).
       if \<not> vi_Enabled iface then nop
       else
         querying (cl_LinkByName c (vi_DeviceName iface)) (''interface '' @ name @ '' not found: '')
           (\<lambda>link. wrapping (''failed to bring up '' @ name @ '': '') (cl_LinkSetUp c link)))
       (wg_interfaces p)"

definition WireGuard_Disable :: "'w WgClients \<Rightarrow> WireGuardProvider \<Rightarrow> 'w act" where
  "WireGuard_Disable c p =
     each (\<lambda>(name, iface) w.
       (case cl_LinkByName c (vi_DeviceName iface) w of
          Inl _ \<Rightarrow> (w, None)
        | Inr link \<Rightarrow> logged (cl_LinkSetDown c link) w))
       (wg_interfaces p)"

definition WireGuard_Status :: "'w WgClients \<Rightarrow> 'w \<Rightarrow> string + (bool \<times> string \<times> nat)" where
  "WireGuard_Status c w =
     (case cl_LinkList c w of
        Inl e \<Rightarrow> Inl (''failed to list links: '' @ e)
      | Inr links \<Rightarrow>
          (let tunnelCount = length (filter (\<lambda>link. lk_Type link = ''wireguard'' \<and> lk_Up link) links) in
           Inr (tunnelCount > 0, ''wireguard'', tunnelCount)))"

end
