(* ===== verification/Wireguard_Facts.thy ===== *)
theory Wireguard_Facts
  imports Wireguard Kernel_Example "HOL-Library.Multiset"
begin

text \<open>
  What the VPN plugin guarantees: a validated configuration cannot make it panic, the address it sets, the gateway it
  chooses for the endpoint of a tunnel, how it hands over secrets, and when it recreates a tunnel.
\<close>

section \<open>Validation and panics\<close>

lemma validate_peer_key: "validate_peer name i peer = None \<Longrightarrow> 40 \<le> length (vp_PublicKey peer)"
  by (auto simp: validate_peer_def Let_def)

lemma validate_interface_peers:
  assumes "validate_interface name iface = None" "peer \<in> set (elems (vi_Peers iface))"
  shows "40 \<le> length (vp_PublicKey peer)"
proof -
  obtain i where "i < length (elems (vi_Peers iface))" "elems (vi_Peers iface) ! i = peer"
    using assms(2) by (auto simp: in_set_conv_nth)
  then have "(i, peer) \<in> set (List.enumerate 0 (elems (vi_Peers iface)))"
    by (simp add: in_set_enumerate_eq)
  with assms(1) have "validate_peer name i peer = None"
    by (force simp: validate_interface_def Let_def)
  then show ?thesis by (rule validate_peer_key)
qed

lemma panic_free_configurePeer: "16 \<le> length (vp_PublicKey peer) \<Longrightarrow> panic_free (configurePeer c dev peer)"
proof -
  assume k: "16 \<le> length (vp_PublicKey peer)"
  obtain args b where "BuildPeerArgs dev peer = (args, b)" by fastforce
  with k have "configurePeer c dev peer =
      pthen (plift (exec_checked c (''wg'' # args) (if b then vp_PresharedKey peer else '''') ''failed to configure peer: ''))
        (\<lambda>w. (w, Ok ()))"
    by (simp add: configurePeer_def)
  then show ?thesis
    by (auto intro: panic_free_pthen simp: panic_free_def [of "\<lambda>w. (w, Ok ())"])
qed

lemma panic_free_createInterface:
  assumes "\<And>peer. peer \<in> set (elems (vi_Peers iface)) \<Longrightarrow> 16 \<le> length (vp_PublicKey peer)"
  shows "panic_free (createInterface c iface)"
proof -
  have "panic_free (peach (\<lambda>(i, peer). pwrap (''failed to configure peer '' @ show_nat i @ '': '') (configurePeer c dev peer))
          (List.enumerate 0 (elems (vi_Peers iface))))" for dev
    using assms by (intro panic_free_peach) (auto simp: in_set_enumerate_eq intro!: panic_free_pwrap panic_free_configurePeer)
  then show ?thesis
    unfolding createInterface_def Let_def by (intro panic_free_pthen panic_free_plift panic_free_pquery)
qed

lemma panic_free_applyInterface:
  assumes "panic_free (createInterface c iface)"
  shows "panic_free (applyInterface c iface)"
proof -
  have del: "snd (pthen (plift f) (createInterface c iface) w) \<noteq> Panic" for f w
    using panic_free_pthen [OF panic_free_plift assms] by (simp add: panic_free_def)
  have lift: "snd (plift f w) \<noteq> Panic" for f :: "'a act" and w
    using panic_free_plift [of f] by (simp add: panic_free_def)
  show ?thesis
    using assms del lift
    by (auto simp: panic_free_def applyInterface_def split: sum.splits prod.splits bool.splits)
qed

lemma panic_free_apply_entry:
  assumes "panic_free (applyInterface c iface)"
  shows "panic_free (apply_entry c name iface)"
proof -
  have lift: "snd (plift f w) \<noteq> Panic" for f :: "'a act" and w
    using panic_free_plift [of f] by (simp add: panic_free_def)
  show ?thesis
    using lift panic_free_pwrap [OF assms]
    by (auto simp: panic_free_def apply_entry_def split: sum.splits)
qed

lemmas panic_free_apply = panic_free_apply_entry [OF panic_free_applyInterface [OF panic_free_createInterface]]


section \<open>A concrete host\<close>

text \<open>A host whose \<open>ip link add\<close> creates the device, and whose \<open>wg show\<close> prints one peer in the format of \<open>wg(8)\<close>.\<close>

definition ex_dump :: string where
  "ex_dump =
     join_with [CHR 0x09] [''cHJpdg'', ''cHVi'', ''51820'', ''off''] @ [CHR 0x0A] @
     join_with [CHR 0x09] [''cGVlcg'', ''(none)'', ''(none)'', ''10.8.0.2/32'', ''0'', ''0'', ''0'', ''25''] @ [CHR 0x0A]"

definition ex_exec :: "string list \<Rightarrow> string \<Rightarrow> kernel \<Rightarrow> kernel \<times> string \<times> goerror" where
  "ex_exec args stdin w =
     (case args of
        [_, _, _, _, dev, _, ty] \<Rightarrow> (case ke_LinkAdd (zero_KLink\<lparr>lk_Name := dev, lk_Type := ty\<rparr>) w of (w', err) \<Rightarrow> (w', '''', err))
      | [_, _, _, _] \<Rightarrow> (w, ex_dump, None)
      | _ \<Rightarrow> (w, '''', None))"

definition ex_wg :: "kernel WgClients" where
  "ex_wg = Clients.extend ex_clients
     (WgClients.fields (cl_AddrList ex_clients) (cl_RouteList ex_clients None) ex_exec)"

definition ex_peer :: VPNPeer where
  "ex_peer = \<lparr>vp_PublicKey = replicate 44 (CHR ''A''), vp_PresharedKey = '''', vp_Endpoint = ''203.0.113.7:51820'',
     vp_AllowedIPs = Some [''0.0.0.0/0''], vp_PersistentKeepalive = 25, vp_Comment = ''''\<rparr>"

definition ex_tunnel :: VPNInterface where
  "ex_tunnel = \<lparr>vi_Type = ''wireguard'', vi_Enabled = True, vi_DeviceName = ''wg0'', vi_PrivateKey = replicate 44 (CHR ''B''),
     vi_ListenPort = 51820, vi_Address = ''10.8.0.1'', vi_Netmask = ''255.255.255.0'', vi_MTU = 1420, vi_Peers = Some [ex_peer],
     vi_FirewallZone = ''vpn'', vi_Comment = ''''\<rparr>"

definition ex_vpn :: VPNConfig where
  "ex_vpn = \<lparr>vc_Version = ''1.0'', vc_Interfaces = [(''tun'', ex_tunnel)]\<rparr>"

lemma ex_vpn_valid: "ValidateVPNConfig (Some ex_vpn) = None"
proof -
  have c: "ParseCIDR ''0.0.0.0/0'' \<noteq> None" "ParseIP ''10.8.0.1'' \<noteq> None" by code_simp+
  have n: "\<not> contains ''10.8.0.1'' ''/''" "\<not> contains (replicate 44 (CHR ''A'')) '' ''"
    "length (split_on (CHR '':'') ''203.0.113.7:51820'') = 2" by code_simp+
  have l: "replicate 44 (CHR ''A'') \<noteq> []" "replicate 44 (CHR ''B'') \<noteq> []" by simp_all
  have "validate_peer ''tun'' 0 ex_peer = None"
    unfolding validate_peer_def Let_def using c n l by (simp add: ex_peer_def elems_def)
  then have "validate_interface ''tun'' ex_tunnel = None"
    unfolding validate_interface_def Let_def using c n l by (simp add: ex_tunnel_def elems_def)
  then show ?thesis by (simp add: ValidateVPNConfig_def ex_vpn_def)
qed


section \<open>Recreating a tunnel\<close>

text \<open>
  \<open>wg(8)\<close> documents the output of \<open>wg show <interface> dump\<close>: after the line of the interface there is one line for each peer,
  with the public key, the preshared key, the endpoint, the allowed addresses, the latest handshake, the bytes received and sent,
  and the keepalive interval. (Only \<open>wg show all dump\<close> puts the name of the interface in front.)
\<close>

definition documented_dump :: "string \<Rightarrow> bool" where
  "documented_dump out \<longleftrightarrow>
     list_all (\<lambda>line. length (go_fields line) = 8) (drop 1 (split_on (CHR 0x0A) (trim_space out)))"

lemma documented_dump_no_match:
  assumes "documented_dump out" "elems (vi_Peers desired) \<noteq> []"
  shows "dump_matches desired out \<noteq> Inr True"
proof (cases "drop 1 (split_on (CHR 0x0A) (trim_space out))")
  case Nil
  then have "length (split_on (CHR 0x0A) (trim_space out)) - 1 \<noteq> length (elems (vi_Peers desired))"
    using assms(2) by (metis length_0_conv length_drop list.size(3))
  then show ?thesis by (simp add: dump_matches_def Let_def)
next
  case (Cons line ls)
  with assms(1) have "length (go_fields line) = 8" by (simp add: documented_dump_def)
  then have "peer_lines_match ps (drop 1 (split_on (CHR 0x0A) (trim_space out))) = Inl ''invalid wg dump peer line''" for ps
    by (simp only: Cons peer_lines_match.simps) (simp add: peer_line_matches_def)
  then show ?thesis by (simp only: dump_matches_def Let_def split: if_split) simp
qed

text \<open>
  When the device of a tunnel with a peer exists and \<open>wg\<close> prints its documented format, the comparison with the
  kernel cannot succeed, so that every apply deletes the tunnel and creates it again, also when nothing has changed.
\<close>

theorem tunnel_recreated:
  assumes "cl_LinkByName c (vi_DeviceName iface) w = Inr link"
    and "wg_Exec c [''wg'', ''show'', vi_DeviceName iface, ''dump''] '''' w = (w', out, None)"
    and "documented_dump out" and "elems (vi_Peers iface) \<noteq> []"
  shows "applyInterface c iface w =
    pthen (plift (wrapping ''failed to delete existing interface: '' (cl_LinkDel c link))) (createInterface c iface) w'"
proof -
  have "dump_matches iface out \<noteq> Inr True" using assms by (intro documented_dump_no_match)
  then have "snd (interfaceConfigMatches c iface w) \<noteq> Inr True"
    and "fst (interfaceConfigMatches c iface w) = w'"
    using assms(2) by (auto simp: interfaceConfigMatches_def split: sum.splits bool.splits)
  then show ?thesis
    using assms(1) by (auto simp: applyInterface_def split: prod.splits sum.splits bool.splits)
qed

definition ex_running :: kernel where
  "ex_running = fst (ex_exec [''ip'', ''link'', ''add'', ''dev'', ''wg0'', ''type'', ''wireguard''] '''' ex_kernel)"

section \<open>The address of a tunnel\<close>

definition mask_entry_ok :: "nat \<Rightarrow> bool" where
  "mask_entry_ok n \<longleftrightarrow> NetmaskToCIDR (show_v4 (cidr_bytes n 4)) = show_nat (if 8 \<le> n then n else 24)"

lemma mask_entries_ok:
  "list_all mask_entry_ok [0..<9]" "list_all mask_entry_ok [9..<17]"
  "list_all mask_entry_ok [17..<25]" "list_all mask_entry_ok [25..<33]"
  subgoal by code_simp
  subgoal by code_simp
  subgoal by code_simp
  subgoal by code_simp
  done

lemma NetmaskToCIDR_dotted:
  assumes "n \<le> 32"
  shows "NetmaskToCIDR (show_v4 (cidr_bytes n 4)) = show_nat (if 8 \<le> n then n else 24)"
proof -
  have "n \<in> set [0..<9] \<or> n \<in> set [9..<17] \<or> n \<in> set [17..<25] \<or> n \<in> set [25..<33]"
    using assms by (simp only: set_upt atLeastLessThan_iff) linarith
  then have "mask_entry_ok n" using mask_entries_ok by (auto simp only: list_all_iff)
  then show ?thesis by (simp only: mask_entry_ok_def)
qed

lemma contains_char: "contains s [c] \<longleftrightarrow> c \<in> set s"
  by (induction s) auto

text \<open>
  For an IPv4 address without a prefix length and the dotted netmask of a prefix of 8 to 32 bits, the address that is
  set has exactly that mask. The table has no entries for shorter prefixes, and an interface with such a mask gets 24 bits.
\<close>

theorem vpn_address:
  assumes "ParseAddr a = Some (32, bs)" and "\<not> contains a ''/''" and "n \<le> 32"
  shows "map_option in_Mask (ParseCIDR_net (FormatCIDR a (show_v4 (cidr_bytes n 4)))) =
    Some (cidr_bytes (if 8 \<le> n then n else 24) 4)"
proof -
  let ?k = "if 8 \<le> n then n else 24"
  have k: "?k \<le> 32" using assms(3) by simp
  have slash: "CHR ''/'' \<notin> set a" using assms(2) by (simp add: contains_char)
  have f: "FormatCIDR a (show_v4 (cidr_bytes n 4)) = a @ CHR ''/'' # show_nat ?k"
    using assms(2,3) by (simp add: FormatCIDR_def NetmaskToCIDR_dotted)
  have tw: "takeWhile (\<lambda>c. c \<noteq> CHR ''/'') (a @ CHR ''/'' # r) = a" for r
    using slash by (induction a) auto
  have d: "dtoi (show_nat ?k) = Some ?k"
    using k by (simp add: dtoi_def parse_uint_show_nat del: show_nat.simps)
  have "ParseCIDR (a @ CHR ''/'' # show_nat ?k) = Some (mask_bytes (?k + (128 - 32)) bs, ?k, 32)"
    unfolding ParseCIDR_def Let_def tw using assms(1) d k by (simp del: show_nat.simps)
  then show ?thesis by (simp add: f ParseCIDR_net_def del: show_nat.simps)
qed

section \<open>Comparing allowed addresses\<close>

lemma mget_marks: "mget (foldl (\<lambda>m item. mput item True m) m0 a) k = (if k \<in> set a then Some True else mget m0 k)"
  by (induction a arbitrary: m0) (auto simp: update_conv')

lemma StringSlicesEqual_iff: "StringSlicesEqual a b \<longleftrightarrow> length a = length b \<and> set b \<subseteq> set a"
  by (auto simp: StringSlicesEqual_def Let_def list_all_iff mget_marks)

text \<open>Without repetitions in the wanted list the comparison is equality up to order; with them it is not even symmetric.\<close>

lemma slices_equal_mset: "distinct b \<Longrightarrow> StringSlicesEqual a b \<longleftrightarrow> mset a = mset b"
proof
  assume b: "distinct b" and "StringSlicesEqual a b"
  then have l: "length a = length b" and s: "set b \<subseteq> set a" by (auto simp: StringSlicesEqual_iff)
  from b l have "card (set a) \<le> card (set b)" by (metis card_length distinct_card)
  with s have "set a = set b" by (metis card_seteq List.finite_set)
  with b l have "distinct a" by (metis card_distinct distinct_card)
  with b \<open>set a = set b\<close> show "mset a = mset b" by (simp add: set_eq_iff_mset_eq_distinct)
next
  assume "mset a = mset b"
  then show "StringSlicesEqual a b" by (metis StringSlicesEqual_iff mset_eq_setD mset_eq_length order_refl)
qed

lemma slices_equal_repeated:
  "StringSlicesEqual [''10.0.0.0/8'', ''192.168.0.0/16''] [''10.0.0.0/8'', ''10.0.0.0/8'']"
  "\<not> StringSlicesEqual [''10.0.0.0/8'', ''10.0.0.0/8''] [''10.0.0.0/8'', ''192.168.0.0/16'']"
  by (simp_all add: StringSlicesEqual_iff)

section \<open>The gateway of the endpoint\<close>

definition usable :: "'w WgClients \<Rightarrow> 'w \<Rightarrow> NRoute \<Rightarrow> KLink \<Rightarrow> bool" where
  "usable c w r link \<longleftrightarrow>
     is_default r \<and> nr_Gw r \<noteq> [] \<and> nr_Priority r < 999999 \<and>
     cl_LinkByIndex c (nr_LinkIndex r) w = Inr link \<and> lk_Type link \<noteq> ''wireguard''"

text \<open>What the loop knows after the routes \<open>rs\<close>.\<close>

definition gateway_inv ::
  "'w WgClients \<Rightarrow> 'w \<Rightarrow> NRoute list \<Rightarrow> (ip \<times> KLink) option \<times> int \<Rightarrow> bool" where
  "gateway_inv c w rs best \<longleftrightarrow>
     (\<forall>r \<in> set rs. \<forall>l. usable c w r l \<longrightarrow> snd best \<le> nr_Priority r) \<and> snd best \<le> 999999 \<and>
     (case fst best of
        None \<Rightarrow> snd best = 999999
      | Some (gw, link) \<Rightarrow> \<exists>r \<in> set rs. usable c w r link \<and> nr_Gw r = gw \<and> nr_Priority r = snd best)"

lemma gateway_inv_step: "gateway_inv c w rs best \<Longrightarrow> gateway_inv c w (rs @ [r]) (consider_route c w best r)"
proof -
  assume inv: "gateway_inv c w rs best"
  have old: "gateway_inv c w (rs @ [r]) best" if "\<And>l. usable c w r l \<Longrightarrow> snd best \<le> nr_Priority r"
    using inv that by (auto simp: gateway_inv_def split: option.splits)
  show ?thesis
  proof (cases "\<exists>l. usable c w r l \<and> nr_Priority r < snd best")
    case True
    then obtain l where u: "usable c w r l" and p: "nr_Priority r < snd best" by blast
    then have "consider_route c w best r = (Some (nr_Gw r, l), nr_Priority r)"
      by (auto simp: consider_route_def usable_def)
    moreover have "nr_Priority r \<le> nr_Priority r'" if "r' \<in> set rs" "usable c w r' l'" for r' l'
      using inv that p by (fastforce simp: gateway_inv_def)
    ultimately show ?thesis using u by (auto simp: gateway_inv_def usable_def)
  next
    case False
    then have "consider_route c w best r = best"
      using inv by (auto simp: consider_route_def usable_def gateway_inv_def split: sum.splits)
    with old False show ?thesis by fastforce
  qed
qed

lemma gateway_inv_foldl: "gateway_inv c w rs best \<Longrightarrow> gateway_inv c w (rs @ routes) (foldl (consider_route c w) best routes)"
proof (induction routes arbitrary: rs best)
  case (Cons r routes)
  then show ?case using Cons.IH [OF gateway_inv_step [OF Cons.prems, of r]] by simp
qed simp

text \<open>
  The gateway through which the endpoint of a tunnel is routed belongs to a default route of a device that is
  not itself a tunnel, and no usable default route has a lower metric; there is none only when no default route is usable.
\<close>

theorem endpoint_gateway:
  "case default_gateway c w routes of
     Some (gw, link) \<Rightarrow> \<exists>r \<in> set routes. usable c w r link \<and> nr_Gw r = gw \<and>
       (\<forall>r' \<in> set routes. \<forall>l. usable c w r' l \<longrightarrow> nr_Priority r \<le> nr_Priority r')
   | None \<Rightarrow> \<forall>r \<in> set routes. \<forall>l. \<not> usable c w r l"
proof -
  let ?best = "foldl (consider_route c w) (None, 999999) routes"
  have "gateway_inv c w [] (None, 999999)" by (simp add: gateway_inv_def)
  then have inv: "gateway_inv c w routes ?best"
    using gateway_inv_foldl [of c w "[]"] by simp
  show ?thesis
  proof (cases "fst ?best")
    case None
    with inv have "999999 \<le> nr_Priority r" if "r \<in> set routes" "usable c w r l" for r l
      using that by (fastforce simp: gateway_inv_def)
    moreover have "usable c w r l \<Longrightarrow> nr_Priority r < 999999" for r l by (simp add: usable_def)
    ultimately have "\<not> usable c w r l" if "r \<in> set routes" for r l using that by fastforce
    with None show ?thesis by (simp add: default_gateway_def)
  next
    case (Some g)
    obtain gw link where g: "g = (gw, link)" by fastforce
    with inv Some obtain r where "r \<in> set routes" "usable c w r link" "nr_Gw r = gw" "nr_Priority r = snd ?best"
      by (auto simp: gateway_inv_def)
    moreover from inv have "\<forall>r' \<in> set routes. \<forall>l. usable c w r' l \<longrightarrow> snd ?best \<le> nr_Priority r'"
      by (simp add: gateway_inv_def)
    ultimately have "\<exists>r \<in> set routes. usable c w r link \<and> nr_Gw r = gw \<and>
        (\<forall>r' \<in> set routes. \<forall>l. usable c w r' l \<longrightarrow> nr_Priority r \<le> nr_Priority r')" by force
    with Some g show ?thesis by (simp add: default_gateway_def)
  qed
qed

section \<open>Secrets\<close>

text \<open>
  The command line of a peer does not depend on the preshared key, which is handed over through the input: two keys give
  the same arguments.
\<close>

lemma preshared_key_hidden:
  assumes "k \<noteq> ''''" "k' \<noteq> ''''"
  shows "BuildPeerArgs dev (peer\<lparr>vp_PresharedKey := k\<rparr>) = BuildPeerArgs dev (peer\<lparr>vp_PresharedKey := k'\<rparr>)"
    and "snd (BuildPeerArgs dev (peer\<lparr>vp_PresharedKey := k\<rparr>))"
  using assms by (simp_all add: BuildPeerArgs_def)

end
