(* ===== verification/Plugin_Codec.thy ===== *)
theory Plugin_Codec
  imports Plugin_Actions Config_Files
begin

text \<open>
  Decoding of plugin configurations: handlers for the fields of a struct by type, in the manner of
  \<open>encoding/json\<close>. A field that is null or absent keeps its value.
\<close>

definition field_of ::
  "string \<Rightarrow> ('a \<Rightarrow> json \<Rightarrow> 'a outcome) \<Rightarrow> ('s \<Rightarrow> 'a) \<Rightarrow> (('a \<Rightarrow> 'a) \<Rightarrow> 's \<Rightarrow> 's) \<Rightarrow> 's handler" where
  "field_of tag dec get upd = (tag, \<lambda>v s. obind (dec (get s) v) (\<lambda>x. Ok (upd (\<lambda>_. x) s)))"

abbreviation str_field :: "string \<Rightarrow> ('s \<Rightarrow> string) \<Rightarrow> ((string \<Rightarrow> string) \<Rightarrow> 's \<Rightarrow> 's) \<Rightarrow> 's handler" where
  "str_field tag \<equiv> field_of tag dec_string"

abbreviation int_field :: "string \<Rightarrow> ('s \<Rightarrow> int) \<Rightarrow> ((int \<Rightarrow> int) \<Rightarrow> 's \<Rightarrow> 's) \<Rightarrow> 's handler" where
  "int_field tag \<equiv> field_of tag dec_int"

abbreviation bool_field :: "string \<Rightarrow> ('s \<Rightarrow> bool) \<Rightarrow> ((bool \<Rightarrow> bool) \<Rightarrow> 's \<Rightarrow> 's) \<Rightarrow> 's handler" where
  "bool_field tag \<equiv> field_of tag dec_bool"

definition slice_field ::
  "string \<Rightarrow> (json \<Rightarrow> 'a outcome) \<Rightarrow> ('s \<Rightarrow> 'a slice) \<Rightarrow> (('a slice \<Rightarrow> 'a slice) \<Rightarrow> 's \<Rightarrow> 's) \<Rightarrow> 's handler" where
  "slice_field tag dec = field_of tag (\<lambda>_. dec_slice ''[]'' dec)"

text \<open>A map whose nil value is not told apart from the empty one.\<close>

definition map_field ::
  "string \<Rightarrow> (json \<Rightarrow> 'a outcome) \<Rightarrow> ('s \<Rightarrow> (string, 'a) gomap) \<Rightarrow>
   (((string, 'a) gomap \<Rightarrow> (string, 'a) gomap) \<Rightarrow> 's \<Rightarrow> 's) \<Rightarrow> 's handler" where
  "map_field tag dec =
     field_of tag (\<lambda>_ v. obind (dec_map ''map'' dec v) (\<lambda>m. Ok (case m of None \<Rightarrow> [] | Some m' \<Rightarrow> m')))"

end
