(* ===== verification/Wireguard_Rpc.thy ===== *)
theory Wireguard_Rpc
  imports Wireguard Plugin_Codec
begin

text \<open>The RPC surface of the VPN plugin, \<open>src/plugins/core/wireguard/rpc_provider.go\<close>, with the decoding of its configuration.\<close>

definition dec_VPNPeer :: "json \<Rightarrow> VPNPeer outcome" where
  "dec_VPNPeer v =
     dec_object ''main.WireGuardPeer''
       [str_field ''public_key'' vp_PublicKey vp_PublicKey_update, str_field ''preshared_key'' vp_PresharedKey vp_PresharedKey_update,
        str_field ''endpoint'' vp_Endpoint vp_Endpoint_update,
        slice_field ''allowed_ips'' (dec_string []) vp_AllowedIPs vp_AllowedIPs_update,
        int_field ''persistent_keepalive'' vp_PersistentKeepalive vp_PersistentKeepalive_update,
        str_field ''comment'' vp_Comment vp_Comment_update] v
       \<lparr>vp_PublicKey = [], vp_PresharedKey = [], vp_Endpoint = [], vp_AllowedIPs = None, vp_PersistentKeepalive = 0, vp_Comment = []\<rparr>"

definition dec_VPNInterface :: "json \<Rightarrow> VPNInterface outcome" where
  "dec_VPNInterface v =
     dec_object ''main.VPNInterface''
       [str_field ''type'' vi_Type vi_Type_update, bool_field ''enabled'' vi_Enabled vi_Enabled_update,
        str_field ''device_name'' vi_DeviceName vi_DeviceName_update, str_field ''private_key'' vi_PrivateKey vi_PrivateKey_update,
        int_field ''listen_port'' vi_ListenPort vi_ListenPort_update, str_field ''address'' vi_Address vi_Address_update,
        str_field ''netmask'' vi_Netmask vi_Netmask_update, int_field ''mtu'' vi_MTU vi_MTU_update,
        slice_field ''peers'' dec_VPNPeer vi_Peers vi_Peers_update,
        str_field ''firewall_zone'' vi_FirewallZone vi_FirewallZone_update, str_field ''comment'' vi_Comment vi_Comment_update] v
       \<lparr>vi_Type = [], vi_Enabled = False, vi_DeviceName = [], vi_PrivateKey = [], vi_ListenPort = 0, vi_Address = [], vi_Netmask = [],
        vi_MTU = 0, vi_Peers = None, vi_FirewallZone = [], vi_Comment = []\<rparr>"

definition dec_VPNConfig :: "json \<Rightarrow> VPNConfig outcome" where
  "dec_VPNConfig v =
     dec_object ''main.VPNConfig''
       [str_field ''version'' vc_Version vc_Version_update,
        map_field ''interfaces'' dec_VPNInterface vc_Interfaces vc_Interfaces_update] v
       \<lparr>vc_Version = [], vc_Interfaces = []\<rparr>"

definition WireGuard_rpc_ApplyConfig ::
  "'w WgClients \<Rightarrow> json \<Rightarrow> WireGuardProvider \<times> 'w \<Rightarrow> (WireGuardProvider \<times> 'w) \<times> unit outcome" where
  "WireGuard_rpc_ApplyConfig c configJSON pw =
     (case dec_VPNConfig configJSON of
        Err e \<Rightarrow> (pw, Err e)
      | Panic \<Rightarrow> (pw, Panic)
      | Ok vpnConfig \<Rightarrow> WireGuard_ApplyConfig c vpnConfig pw)"

definition WireGuard_rpc_ValidateConfig :: "json \<Rightarrow> unit outcome" where
  "WireGuard_rpc_ValidateConfig configJSON =
     obind (dec_VPNConfig configJSON)
       (\<lambda>vpnConfig. case WireGuard_Validate (Some vpnConfig) of None \<Rightarrow> Ok () | Some e \<Rightarrow> Err e)"

definition WireGuard_rpc_Status :: "'w WgClients \<Rightarrow> 'w \<Rightarrow> json outcome" where
  "WireGuard_rpc_Status c w =
     (case WireGuard_Status c w of
        Inl e \<Rightarrow> Err e
      | Inr (enabled, provider, tunnels) \<Rightarrow>
          Ok (JObj [(''enabled'', JBool enabled), (''provider'', JStr provider), (''tunnels'', JNum (of_nat tunnels))]))"

text \<open>
  The configuration null, which the daemon may send, is the empty configuration: it is rejected by validation but applied
  without an error, and the provider forgets its interfaces.
\<close>

lemma null_vpn_config:
  "WireGuard_rpc_ApplyConfig c JNull (p, w) = ((p\<lparr>wg_interfaces := []\<rparr>, w), Ok ())"
  "WireGuard_rpc_ValidateConfig JNull = Err ''no interfaces defined''"
  by (simp_all add: WireGuard_rpc_ApplyConfig_def WireGuard_rpc_ValidateConfig_def dec_VPNConfig_def dec_object_def
      WireGuard_ApplyConfig_def WireGuard_Validate_def ValidateVPNConfig_def)

end
