(* ===== verification/Dnsmasq.thy ===== *)
theory Dnsmasq
  imports Plugin_Codec
begin

text \<open>
  The DHCP and DNS plugin, \<open>src/plugins/core/dnsmasq\<close>: its configuration with the \<open>Validate\<close> methods (\<open>types.go\<close>), the
  checks it makes before use (\<open>dnsmasq_config.go\<close>), and the provider that writes the configuration file and drives
  the service (\<open>dnsmasq.go\<close>). Maps are visited in the order of the association list, which stands for any order.
\<close>

section \<open>Configuration\<close>

record DHCPServer =
  ds_Enabled :: bool
  ds_Domain :: string
  ds_LeaseFile :: string
  ds_Authoritative :: bool
  ds_LogDHCP :: bool
  ds_Comment :: string

record DHCPPool =
  dp_Interface :: string
  dp_Start :: int
  dp_Limit :: int
  dp_LeaseTime :: string
  dp_DHCPv4 :: string
  dp_DHCPv6 :: string
  dp_RA :: string
  dp_RAManagement :: int
  dp_RADefault :: int
  dp_DNS :: "string slice"
  dp_Domain :: string
  dp_Comment :: string

record StaticLease =
  sl_Name :: string
  sl_MAC :: string
  sl_IP :: string
  sl_Comment :: string

record DHCPConfig =
  dc_Version :: string
  dc_Server :: DHCPServer
  dc_DHCPPools :: "(string, DHCPPool) gomap"
  dc_StaticLeases :: "StaticLease slice"

record DNSServer =
  dn_Enabled :: bool
  dn_Port :: int
  dn_Domain :: string
  dn_ExpandHosts :: bool
  dn_LocaliseQueries :: bool
  dn_RebindProtection :: bool
  dn_RebindLocalhost :: bool
  dn_Authoritative :: bool
  dn_DomainNeeded :: bool
  dn_BogusPriv :: bool
  dn_LogQueries :: bool
  dn_CacheSize :: int
  dn_Upstreams :: "string slice"
  dn_Comment :: string

record ARecord =
  ar_Name :: string
  ar_IP :: string
  ar_TTL :: int
  ar_Comment :: string

record AAAARecord =
  aa_Name :: string
  aa_IP :: string
  aa_TTL :: int
  aa_Comment :: string

record CNAMERecord =
  cn_CNAME :: string
  cn_Target :: string
  cn_TTL :: int
  cn_Comment :: string

record MXRecord =
  mx_Domain :: string
  mx_Server :: string
  mx_Priority :: int
  mx_TTL :: int
  mx_Comment :: string

record SRVRecord =
  srv_Service :: string
  srv_Proto :: string
  srv_Domain :: string
  srv_Target :: string
  srv_Port :: int
  srv_Priority :: int
  srv_Weight :: int
  srv_TTL :: int
  srv_Comment :: string

record TXTRecord =
  txt_Name :: string
  txt_Text :: string
  txt_TTL :: int
  txt_Comment :: string

record PTRRecord =
  ptr_IP :: string
  ptr_Name :: string
  ptr_TTL :: int
  ptr_Comment :: string

record DNSRecords =
  dr_ARecords :: "ARecord slice"
  dr_AAAARecords :: "AAAARecord slice"
  dr_CNAMERecords :: "CNAMERecord slice"
  dr_MXRecords :: "MXRecord slice"
  dr_SRVRecords :: "SRVRecord slice"
  dr_TXTRecords :: "TXTRecord slice"
  dr_PTRRecords :: "PTRRecord slice"

record DNSConfig =
  dnc_Version :: string
  dnc_Server :: DNSServer
  dnc_Records :: DNSRecords

section \<open>The Validate methods\<close>

definition DHCPPool_Validate :: "DHCPPool \<Rightarrow> goerror" where
  "DHCPPool_Validate dp =
     (let v = NewCollector;
          v = check_if (dp_Start dp \<le> 0) (Check (Some ''start address must be positive'')) v;
          v = check_if (dp_Limit dp \<le> 0) (Check (Some ''limit must be positive'')) v;
          v = check_if (dp_Limit dp > 65536)
                (Check (Some (''limit '' @ show_int (dp_Limit dp) @ '' exceeds reasonable maximum (65536)''))) v;
          v = check_if (dp_Interface dp = '''') (Check (Some ''interface not specified'')) v;
          v = foldl (\<lambda>v dns. CheckMsg (ValidateIP dns) (''invalid DNS server '' @ dns) v) v (elems (dp_DNS dp));
          v = check_if (dp_Domain dp \<noteq> '''') (CheckMsg (ValidateDomain (dp_Domain dp)) ''invalid domain'') v
      in ec_Error v)"

definition StaticLease_Validate :: "StaticLease \<Rightarrow> goerror" where
  "StaticLease_Validate sl =
     (let v = NewCollector;
          v = CheckMsg (ValidateMAC (sl_MAC sl)) ''invalid MAC address'' v;
          v = CheckMsg (ValidateIP (sl_IP sl)) ''invalid IP address'' v
      in ec_Error v)"

text \<open>The ranges of two pools, whose ends are computed with 64 bits.\<close>

definition pool_end :: "DHCPPool \<Rightarrow> int" where
  "pool_end p = wrap64 (wrap64 (dp_Start p + dp_Limit p) - 1)"

definition pools_overlap :: "DHCPPool \<Rightarrow> DHCPPool \<Rightarrow> bool" where
  "pools_overlap p1 p2 \<longleftrightarrow> dp_Start p1 \<le> pool_end p2 \<and> dp_Start p2 \<le> pool_end p1"

definition check_pair :: "string \<times> DHCPPool \<Rightarrow> ErrorCollector \<Rightarrow> string \<times> DHCPPool \<Rightarrow> ErrorCollector" where
  "check_pair e1 v e2 =
     (case (e1, e2) of ((poolName1, pool1), (poolName2, pool2)) \<Rightarrow>
        if poolName1 = poolName2 then v
        else if dp_Interface pool1 \<noteq> dp_Interface pool2 then v
        else check_if (pools_overlap pool1 pool2)
          (Check (Some (''DHCP pools '' @ poolName1 @ '' and '' @ poolName2 @ '' have overlapping IP ranges on interface '' @
             dp_Interface pool1))) v)"

definition DHCPConfig_Validate :: "DHCPConfig \<Rightarrow> goerror" where
  "DHCPConfig_Validate dc =
     (let v = NewCollector;
          v = foldl (\<lambda>v (poolName, pool). CheckMsg (DHCPPool_Validate pool) (''DHCP pool '' @ poolName) v) v (dc_DHCPPools dc);
          v = foldl (\<lambda>v e1. foldl (check_pair e1) v (dc_DHCPPools dc)) v (dc_DHCPPools dc);
          v = foldl (\<lambda>v (idx, lease). CheckMsg (StaticLease_Validate lease) (''static lease '' @ show_nat idx) v)
                v (List.enumerate 0 (elems (dc_StaticLeases dc)))
      in ec_Error v)"

definition ARecord_Validate :: "ARecord \<Rightarrow> goerror" where
  "ARecord_Validate ar =
     (let v = NewCollector;
          v = CheckMsg (ValidateDomain (ar_Name ar)) ''invalid name'' v;
          v = CheckMsg (ValidateIP (ar_IP ar)) ''invalid IP'' v
      in ec_Error v)"

definition AAAARecord_Validate :: "AAAARecord \<Rightarrow> goerror" where
  "AAAARecord_Validate ar =
     (let v = NewCollector;
          v = CheckMsg (ValidateDomain (aa_Name ar)) ''invalid name'' v;
          v = CheckMsg (ValidateIP (aa_IP ar)) ''invalid IP'' v
      in ec_Error v)"

definition CNAMERecord_Validate :: "CNAMERecord \<Rightarrow> goerror" where
  "CNAMERecord_Validate cr =
     (let v = NewCollector;
          v = CheckMsg (ValidateDomain (cn_CNAME cr)) ''invalid CNAME'' v;
          v = CheckMsg (ValidateDomain (cn_Target cr)) ''invalid target'' v
      in ec_Error v)"

definition PTRRecord_Validate :: "PTRRecord \<Rightarrow> goerror" where
  "PTRRecord_Validate ptr =
     (let v = NewCollector;
          v = CheckMsg (ValidateIP (ptr_IP ptr)) ''invalid IP'' v;
          v = CheckMsg (ValidateDomain (ptr_Name ptr)) ''invalid name'' v
      in ec_Error v)"

definition check_records :: "('a \<Rightarrow> goerror) \<Rightarrow> string \<Rightarrow> 'a slice \<Rightarrow> ErrorCollector \<Rightarrow> ErrorCollector" where
  "check_records validate kind rs v =
     foldl (\<lambda>v (idx, record). CheckMsg (validate record) (kind @ '' record '' @ show_nat idx) v) v (List.enumerate 0 (elems rs))"

definition DNSConfig_Validate :: "DNSConfig \<Rightarrow> goerror" where
  "DNSConfig_Validate dn =
     (let s = dnc_Server dn; r = dnc_Records dn;
          v = WithContext ''DNS server'' NewCollector;
          v = check_if (dn_Port s > 0) (CheckMsg (ValidatePort (dn_Port s)) ''invalid port'') v;
          v = check_if (dn_Domain s \<noteq> '''') (CheckMsg (ValidateDomain (dn_Domain s)) ''invalid domain'') v;
          v = foldl (\<lambda>v upstream. CheckMsg (ValidateIP upstream) (''invalid upstream '' @ upstream) v) v (elems (dn_Upstreams s));
          v = check_records ARecord_Validate ''A'' (dr_ARecords r) v;
          v = check_records AAAARecord_Validate ''AAAA'' (dr_AAAARecords r) v;
          v = check_records CNAMERecord_Validate ''CNAME'' (dr_CNAMERecords r) v;
          v = check_records PTRRecord_Validate ''PTR'' (dr_PTRRecords r) v
      in ec_Error v)"

section \<open>Checks before use\<close>

definition digit_class :: "(char \<times> char) list" where
  "digit_class = [(CHR ''0'', CHR ''9'')]"

definition isValidLeaseTime :: "string \<Rightarrow> bool" where
  "isValidLeaseTime leaseTime =
     rmatch (RCat (RClass digit_class) (RCat (RStar (RClass digit_class))
       (RClass [(CHR ''m'', CHR ''m''), (CHR ''h'', CHR ''h''), (CHR ''d'', CHR ''d''), (CHR ''w'', CHR ''w'')]))) leaseTime"

definition hex_class :: "(char \<times> char) list" where
  "hex_class = [(CHR ''0'', CHR ''9''), (CHR ''A'', CHR ''F''), (CHR ''a'', CHR ''f'')]"

definition mac_regex :: "char \<Rightarrow> rexp" where
  "mac_regex sep =
     RCat (RTimes 5 (RCat (RTimes 2 (RClass hex_class)) (RChar sep))) (RTimes 2 (RClass hex_class))"

definition isValidMAC :: "string \<Rightarrow> bool" where
  "isValidMAC mac \<longleftrightarrow> rmatch (mac_regex (CHR '':'')) mac \<or> rmatch (mac_regex (CHR ''-'')) mac"

definition validate_pool :: "string \<Rightarrow> DHCPPool \<Rightarrow> goerror" where
  "validate_pool poolName pool =
     (let who = ''pool '' @ poolName @ '': '' in
      first_error
       ([reject (dp_Interface pool = '''') (who @ ''interface is required''),
         reject (dp_Start pool < 0 \<or> dp_Start pool > 255)
           (who @ ''invalid start address '' @ show_int (dp_Start pool) @ '' (must be 0-255)''),
         reject (dp_Limit pool < 1 \<or> dp_Limit pool > 255)
           (who @ ''invalid limit '' @ show_int (dp_Limit pool) @ '' (must be 1-255)''),
         reject (wrap64 (dp_Start pool + dp_Limit pool) > 255)
           (who @ ''start ('' @ show_int (dp_Start pool) @ '') + limit ('' @ show_int (dp_Limit pool) @ '') exceeds 255''),
         reject (dp_LeaseTime pool \<noteq> '''' \<and> \<not> isValidLeaseTime (dp_LeaseTime pool))
           (who @ ''invalid lease time format '' @ dp_LeaseTime pool @ '' (expected format: 1h, 12h, 7d)'')] @
        map (\<lambda>(i, dns). reject (ParseIP dns = None)
               (who @ ''invalid DNS server IP at index '' @ show_nat i @ '': '' @ dns)) (List.enumerate 0 (elems (dp_DNS pool)))))"

definition validate_lease :: "nat \<Rightarrow> StaticLease \<Rightarrow> goerror" where
  "validate_lease i lease =
     (let who = ''static lease '' @ show_nat i @ '': '' in
      first_error
        [reject (sl_MAC lease = '''') (who @ ''MAC address is required''),
         reject (\<not> isValidMAC (sl_MAC lease)) (who @ ''invalid MAC address format: '' @ sl_MAC lease),
         reject (sl_IP lease = '''') (who @ ''IP address is required''),
         reject (ParseIP (sl_IP lease) = None) (who @ ''invalid IP address: '' @ sl_IP lease)])"

definition ValidateDHCPConfig :: "DHCPConfig option \<Rightarrow> goerror" where
  "ValidateDHCPConfig config =
     (case config of
        None \<Rightarrow> Some ''config is nil''
      | Some dc \<Rightarrow>
          first_error
           ([reject (ds_Enabled (dc_Server dc) \<and> length (dc_DHCPPools dc) = 0) ''DHCP enabled but no pools defined''] @
            map (\<lambda>(poolName, pool). validate_pool poolName pool) (dc_DHCPPools dc) @
            map (\<lambda>(i, lease). validate_lease i lease) (List.enumerate 0 (elems (dc_StaticLeases dc)))))"

definition indexed :: "(nat \<Rightarrow> 'a \<Rightarrow> goerror list) \<Rightarrow> 'a slice \<Rightarrow> goerror list" where
  "indexed f rs = concat (map (\<lambda>(i, r). f i r) (List.enumerate 0 (elems rs)))"

definition check_a :: "nat \<Rightarrow> ARecord \<Rightarrow> goerror list" where
  "check_a i r =
     [reject (ar_Name r = '''') (''A record '' @ show_nat i @ '': name is required''),
      reject (ParseIP (ar_IP r) = None) (''A record '' @ show_nat i @ '' ('' @ ar_Name r @ ''): invalid IPv4 address: '' @ ar_IP r)]"

definition check_aaaa :: "nat \<Rightarrow> AAAARecord \<Rightarrow> goerror list" where
  "check_aaaa i r =
     [reject (aa_Name r = '''') (''AAAA record '' @ show_nat i @ '': name is required''),
      reject (case ParseIP (aa_IP r) of None \<Rightarrow> True | Some ip \<Rightarrow> To4 ip \<noteq> None)
        (''AAAA record '' @ show_nat i @ '' ('' @ aa_Name r @ ''): invalid IPv6 address: '' @ aa_IP r)]"

definition check_cname :: "nat \<Rightarrow> CNAMERecord \<Rightarrow> goerror list" where
  "check_cname i r =
     [reject (cn_CNAME r = '''') (''CNAME record '' @ show_nat i @ '': cname is required''),
      reject (cn_Target r = '''') (''CNAME record '' @ show_nat i @ '' ('' @ cn_CNAME r @ ''): target is required'')]"

definition check_mx :: "nat \<Rightarrow> MXRecord \<Rightarrow> goerror list" where
  "check_mx i r =
     [reject (mx_Domain r = '''') (''MX record '' @ show_nat i @ '': domain is required''),
      reject (mx_Server r = '''') (''MX record '' @ show_nat i @ '' ('' @ mx_Domain r @ ''): server is required''),
      reject (mx_Priority r < 0) (''MX record '' @ show_nat i @ '' ('' @ mx_Domain r @ ''): priority cannot be negative'')]"

definition check_srv :: "nat \<Rightarrow> SRVRecord \<Rightarrow> goerror list" where
  "check_srv i r =
     [reject (srv_Service r = '''') (''SRV record '' @ show_nat i @ '': service is required''),
      reject (srv_Proto r = '''') (''SRV record '' @ show_nat i @ '' ('' @ srv_Service r @ ''): proto is required''),
      reject (srv_Target r = '''') (''SRV record '' @ show_nat i @ '' ('' @ srv_Service r @ ''): target is required''),
      reject (srv_Port r < 1 \<or> srv_Port r > 65535)
        (''SRV record '' @ show_nat i @ '' ('' @ srv_Service r @ ''): invalid port '' @ show_int (srv_Port r))]"

definition check_ptr :: "nat \<Rightarrow> PTRRecord \<Rightarrow> goerror list" where
  "check_ptr i r =
     [reject (ptr_IP r = '''') (''PTR record '' @ show_nat i @ '': IP is required''),
      reject (ParseIP (ptr_IP r) = None) (''PTR record '' @ show_nat i @ '': invalid IP address: '' @ ptr_IP r),
      reject (ptr_Name r = '''') (''PTR record '' @ show_nat i @ '' ('' @ ptr_IP r @ ''): name is required'')]"

definition ValidateDNSConfig :: "DNSConfig option \<Rightarrow> goerror" where
  "ValidateDNSConfig config =
     (case config of
        None \<Rightarrow> Some ''config is nil''
      | Some dc \<Rightarrow>
          (let s = dnc_Server dc; r = dnc_Records dc in
           first_error
            ([reject (dn_Port s \<noteq> 0 \<and> (dn_Port s < 1 \<or> dn_Port s > 65535))
                (''invalid DNS port '' @ show_int (dn_Port s) @ '' (must be 1-65535)'')] @
             indexed (\<lambda>i upstream. [reject (ParseIP upstream = None)
                (''invalid upstream DNS server at index '' @ show_nat i @ '': '' @ upstream)]) (dn_Upstreams s) @
             indexed check_a (dr_ARecords r) @ indexed check_aaaa (dr_AAAARecords r) @
             indexed check_cname (dr_CNAMERecords r) @ indexed check_mx (dr_MXRecords r) @
             indexed check_srv (dr_SRVRecords r) @ indexed check_ptr (dr_PTRRecords r))))"

section \<open>Helpers of the template\<close>

definition NetworkPortion :: "string \<Rightarrow> string" where
  "NetworkPortion ip = (case last_index_of (CHR ''.'') ip of None \<Rightarrow> ip | Some lastDot \<Rightarrow> take lastDot ip)"

definition entries_of :: "InterfacesConfig \<Rightarrow> (string \<times> Interface) list" where
  "entries_of c = (case ic_Interfaces c of None \<Rightarrow> [] | Some m \<Rightarrow> m)"

definition GetInterfaceIPsFromConfig :: "InterfacesConfig \<Rightarrow> (string, string) gomap" where
  "GetInterfaceIPsFromConfig interfacesConfig =
     foldl (\<lambda>ips (name, iface). if if_IPAddr iface \<noteq> '''' then mput name (if_IPAddr iface) ips else ips)
       [] (entries_of interfacesConfig)"

definition GetInterfaceDevicesFromConfig :: "InterfacesConfig \<Rightarrow> (string, string) gomap" where
  "GetInterfaceDevicesFromConfig interfacesConfig =
     foldl (\<lambda>devices (name, iface).
        if if_Type iface = ''bridge'' \<and> if_DeviceName iface \<noteq> '''' then mput name (if_DeviceName iface) devices
        else if if_Type iface = ''physical'' \<and> if_Device iface \<noteq> '''' then mput name (if_Device iface) devices
        else devices)
       [] (entries_of interfacesConfig)"

section \<open>The provider\<close>

text \<open>
  The host: commands with their combined output and error, files, the configuration directory, and the template engine
  of the standard library, which checks a template and renders it with the data.
\<close>

record TemplateData =
  td_Config :: DHCPConfig
  td_InterfaceIPs :: "(string, string) gomap"
  td_InterfaceDevices :: "(string, string) gomap"

record 'w DnsHost =
  dh_LookPath :: "string \<Rightarrow> 'w \<Rightarrow> goerror"
  dh_Run :: "string list \<Rightarrow> 'w \<Rightarrow> 'w \<times> string \<times> goerror"
  dh_ReadFile :: "string \<Rightarrow> 'w \<Rightarrow> string + string"
  dh_WriteFile :: "string \<Rightarrow> string \<Rightarrow> 'w act"
  dh_MkdirAll :: "string \<Rightarrow> 'w act"
  dh_dir :: string
  dh_configs :: "'w \<Rightarrow> config_dir"
  dh_Parse :: "string \<Rightarrow> goerror"
  dh_Execute :: "string \<Rightarrow> TemplateData \<Rightarrow> string + string"

record DnsmasqProvider =
  dq_dhcpConfigPath :: string
  dq_templatePath :: string

definition NewDnsmasq :: "'w DnsHost \<Rightarrow> 'w \<Rightarrow> string + DnsmasqProvider" where
  "NewDnsmasq h w =
     (case dh_LookPath h ''dnsmasq'' w of
        Some e \<Rightarrow> Inl (''dnsmasq not found: '' @ e)
      | None \<Rightarrow> Inr \<lparr>dq_dhcpConfigPath = ''/etc/dnsmasq.d/jack.conf'',
                     dq_templatePath = ''/etc/jack/templates/dnsmasq.conf.tmpl''\<rparr>)"

definition run_quiet :: "'w DnsHost \<Rightarrow> string list \<Rightarrow> 'w act" where
  "run_quiet h args w = (case dh_Run h args w of (w', _, err) \<Rightarrow> (w', err))"

definition startService :: "'w DnsHost \<Rightarrow> 'w act" where
  "startService h = run_quiet h [''systemctl'', ''start'', ''dnsmasq'']"

definition stopService :: "'w DnsHost \<Rightarrow> 'w act" where
  "stopService h = run_quiet h [''systemctl'', ''stop'', ''dnsmasq'']"

definition reloadService :: "'w DnsHost \<Rightarrow> 'w act" where
  "reloadService h = run_quiet h [''systemctl'', ''reload-or-restart'', ''dnsmasq'']"

definition isServiceRunning :: "'w DnsHost \<Rightarrow> 'w \<Rightarrow> 'w \<times> bool" where
  "isServiceRunning h w =
     (case run_quiet h [''systemctl'', ''is-active'', ''dnsmasq''] w of (w', err) \<Rightarrow> (w', err = None))"

definition load_interfaces :: "'w DnsHost \<Rightarrow> 'w \<Rightarrow> InterfacesConfig option" where
  "load_interfaces h w =
     (case LoadConfig (dh_dir h) (dh_configs h w) ''interfaces'' of
        Loaded v \<Rightarrow> (case dec_InterfacesConfig v of Ok c \<Rightarrow> Some c | _ \<Rightarrow> None)
      | _ \<Rightarrow> None)"

definition getInterfaceIPs :: "'w DnsHost \<Rightarrow> 'w \<Rightarrow> (string, string) gomap" where
  "getInterfaceIPs h w = (case load_interfaces h w of None \<Rightarrow> [] | Some c \<Rightarrow> GetInterfaceIPsFromConfig c)"

definition getInterfaceDevices :: "'w DnsHost \<Rightarrow> 'w \<Rightarrow> (string, string) gomap" where
  "getInterfaceDevices h w = (case load_interfaces h w of None \<Rightarrow> [] | Some c \<Rightarrow> GetInterfaceDevicesFromConfig c)"

definition generateDHCPConfigString :: "'w DnsHost \<Rightarrow> DnsmasqProvider \<Rightarrow> DHCPConfig \<Rightarrow> 'w \<Rightarrow> string + string" where
  "generateDHCPConfigString h d config w =
     (case dh_ReadFile h (dq_templatePath d) w of
        Inl e \<Rightarrow> Inl (''failed to read template: '' @ e)
      | Inr tmplContent \<Rightarrow>
          (case dh_Parse h tmplContent of
             Some e \<Rightarrow> Inl (''failed to parse template: '' @ e)
           | None \<Rightarrow>
               (case dh_Execute h tmplContent
                       \<lparr>td_Config = config, td_InterfaceIPs = getInterfaceIPs h w,
                        td_InterfaceDevices = getInterfaceDevices h w\<rparr> of
                  Inl e \<Rightarrow> Inl (''failed to execute template: '' @ e)
                | Inr buf \<Rightarrow> Inr buf)))"

definition writeDHCPConfig :: "'w DnsHost \<Rightarrow> DnsmasqProvider \<Rightarrow> string \<Rightarrow> 'w act" where
  "writeDHCPConfig h d content =
     andthen (wrapping ''failed to create config directory: '' (dh_MkdirAll h ''/etc/dnsmasq.d''))
       (wrapping ''failed to write config file: '' (dh_WriteFile h (dq_dhcpConfigPath d) content))"

definition testConfig :: "'w DnsHost \<Rightarrow> DnsmasqProvider \<Rightarrow> 'w act" where
  "testConfig h d w =
     (case dh_Run h [''dnsmasq'', ''--test'', ''-C'', dq_dhcpConfigPath d] w of
        (w', output, Some e) \<Rightarrow> (w', Some (''config test failed: '' @ output @ '': '' @ e))
      | (w', output, None) \<Rightarrow> (w', None))"

text \<open>The part of \<open>ApplyDHCPConfig\<close> after the file is written, which \<open>ApplyDNSConfig\<close> shares.\<close>

definition test_and_reload :: "'w DnsHost \<Rightarrow> DnsmasqProvider \<Rightarrow> 'w act" where
  "test_and_reload h d =
     andthen (wrapping ''config validation failed: '' (testConfig h d))
       (wrapping ''failed to reload dnsmasq: '' (reloadService h))"

definition ApplyDHCPConfig :: "'w DnsHost \<Rightarrow> DnsmasqProvider \<Rightarrow> DHCPConfig \<Rightarrow> 'w act" where
  "ApplyDHCPConfig h d config w =
     (if \<not> ds_Enabled (dc_Server config) then stopService h w
      else
        (case generateDHCPConfigString h d config w of
           Inl e \<Rightarrow> (w, Some (''failed to generate config: '' @ e))
         | Inr newConfig \<Rightarrow>
             if dh_ReadFile h (dq_dhcpConfigPath d) w = Inr newConfig then (w, None)
             else
               andthen (wrapping ''failed to write config: '' (writeDHCPConfig h d newConfig)) (test_and_reload h d) w))"

definition ValidateDHCP :: "DHCPConfig option \<Rightarrow> goerror" where
  "ValidateDHCP config = ValidateDHCPConfig config"

definition FlushDHCP :: "'w act" where
  "FlushDHCP = nop"

definition EnableDHCP :: "'w DnsHost \<Rightarrow> 'w act" where
  "EnableDHCP h = startService h"

definition DisableDHCP :: "'w DnsHost \<Rightarrow> 'w act" where
  "DisableDHCP h = stopService h"

definition StatusDHCP :: "'w DnsHost \<Rightarrow> 'w \<Rightarrow> 'w \<times> bool \<times> string \<times> nat" where
  "StatusDHCP h w =
     (case isServiceRunning h w of (w', enabled) \<Rightarrow>
        (w', enabled, ''dnsmasq'',
         (case dh_ReadFile h ''/var/lib/misc/dnsmasq.leases'' w' of
            Inl _ \<Rightarrow> 0
          | Inr data \<Rightarrow> length (filter (\<lambda>line. trim_space line \<noteq> '''') (split_on (CHR 0x0A) data)))))"

definition generateDNSConfig :: "'w DnsHost \<Rightarrow> 'w act" where
  "generateDNSConfig h =
     andthen (wrapping ''failed to create config directory: '' (dh_MkdirAll h ''/etc/dnsmasq.d''))
       (fails ''DNS configuration not yet implemented'')"

definition ApplyDNSConfig :: "'w DnsHost \<Rightarrow> DnsmasqProvider \<Rightarrow> DNSConfig \<Rightarrow> 'w act" where
  "ApplyDNSConfig h d config =
     (if \<not> dn_Enabled (dnc_Server config) then stopService h
      else andthen (wrapping ''failed to generate config: '' (generateDNSConfig h)) (test_and_reload h d))"

definition ValidateDNS :: "DNSConfig option \<Rightarrow> goerror" where
  "ValidateDNS config = ValidateDNSConfig config"

definition FlushDNS :: "'w DnsHost \<Rightarrow> 'w act" where
  "FlushDNS h = reloadService h"

definition EnableDNS :: "'w DnsHost \<Rightarrow> 'w act" where
  "EnableDNS h = startService h"

definition DisableDNS :: "'w DnsHost \<Rightarrow> 'w act" where
  "DisableDNS h = stopService h"

definition StatusDNS :: "'w DnsHost \<Rightarrow> 'w \<Rightarrow> 'w \<times> bool \<times> string \<times> nat" where
  "StatusDNS h w = (case isServiceRunning h w of (w', enabled) \<Rightarrow> (w', enabled, ''dnsmasq'', 0))"

section \<open>The RPC surface\<close>

definition dec_DHCPServer :: "DHCPServer \<Rightarrow> json \<Rightarrow> DHCPServer outcome" where
  "dec_DHCPServer cur v =
     dec_object ''main.DHCPServer''
       [bool_field ''enabled'' ds_Enabled ds_Enabled_update, str_field ''domain'' ds_Domain ds_Domain_update,
        str_field ''leasefile'' ds_LeaseFile ds_LeaseFile_update,
        bool_field ''authoritative'' ds_Authoritative ds_Authoritative_update,
        bool_field ''log_dhcp'' ds_LogDHCP ds_LogDHCP_update, str_field ''comment'' ds_Comment ds_Comment_update] v cur"

definition dec_DHCPPool :: "json \<Rightarrow> DHCPPool outcome" where
  "dec_DHCPPool v =
     dec_object ''main.DHCPPool''
       [str_field ''interface'' dp_Interface dp_Interface_update, int_field ''start'' dp_Start dp_Start_update,
        int_field ''limit'' dp_Limit dp_Limit_update, str_field ''leasetime'' dp_LeaseTime dp_LeaseTime_update,
        str_field ''dhcpv4'' dp_DHCPv4 dp_DHCPv4_update, str_field ''dhcpv6'' dp_DHCPv6 dp_DHCPv6_update,
        str_field ''ra'' dp_RA dp_RA_update, int_field ''ra_management'' dp_RAManagement dp_RAManagement_update,
        int_field ''ra_default'' dp_RADefault dp_RADefault_update, slice_field ''dns'' (dec_string []) dp_DNS dp_DNS_update,
        str_field ''domain'' dp_Domain dp_Domain_update, str_field ''comment'' dp_Comment dp_Comment_update] v
       \<lparr>dp_Interface = [], dp_Start = 0, dp_Limit = 0, dp_LeaseTime = [], dp_DHCPv4 = [], dp_DHCPv6 = [], dp_RA = [],
        dp_RAManagement = 0, dp_RADefault = 0, dp_DNS = None, dp_Domain = [], dp_Comment = []\<rparr>"

definition dec_StaticLease :: "json \<Rightarrow> StaticLease outcome" where
  "dec_StaticLease v =
     dec_object ''main.StaticLease''
       [str_field ''name'' sl_Name sl_Name_update, str_field ''mac'' sl_MAC sl_MAC_update,
        str_field ''ip'' sl_IP sl_IP_update, str_field ''comment'' sl_Comment sl_Comment_update] v
       \<lparr>sl_Name = [], sl_MAC = [], sl_IP = [], sl_Comment = []\<rparr>"

definition zero_DHCPConfig :: DHCPConfig where
  "zero_DHCPConfig =
     \<lparr>dc_Version = [],
      dc_Server = \<lparr>ds_Enabled = False, ds_Domain = [], ds_LeaseFile = [], ds_Authoritative = False, ds_LogDHCP = False, ds_Comment = []\<rparr>,
      dc_DHCPPools = [], dc_StaticLeases = None\<rparr>"

definition dec_DHCPConfig :: "json \<Rightarrow> DHCPConfig outcome" where
  "dec_DHCPConfig v =
     dec_object ''main.DHCPConfig''
       [str_field ''version'' dc_Version dc_Version_update, field_of ''server'' dec_DHCPServer dc_Server dc_Server_update,
        map_field ''dhcp_pools'' dec_DHCPPool dc_DHCPPools dc_DHCPPools_update,
        slice_field ''static_leases'' dec_StaticLease dc_StaticLeases dc_StaticLeases_update] v zero_DHCPConfig"

text \<open>Decoding never panics; its error is returned as it is.\<close>

definition Dnsmasq_rpc_ApplyConfig :: "'w DnsHost \<Rightarrow> DnsmasqProvider \<Rightarrow> json \<Rightarrow> 'w pact" where
  "Dnsmasq_rpc_ApplyConfig h d configJSON w =
     (case dec_map ''map'' Ok configJSON of
        Err e \<Rightarrow> (w, Err e)
      | Panic \<Rightarrow> (w, Panic)
      | Ok configMap \<Rightarrow>
          if configMap = None \<or> configMap = Some [] then (w, Ok ())
          else
            (case dec_DHCPConfig configJSON of
               Err e \<Rightarrow> (w, Err e)
             | Panic \<Rightarrow> (w, Panic)
             | Ok dhcpConfig \<Rightarrow> plift (ApplyDHCPConfig h d dhcpConfig) w))"

definition Dnsmasq_rpc_ValidateConfig :: "json \<Rightarrow> unit outcome" where
  "Dnsmasq_rpc_ValidateConfig configJSON =
     obind (dec_DHCPConfig configJSON)
       (\<lambda>dhcpConfig. case ValidateDHCP (Some dhcpConfig) of None \<Rightarrow> Ok () | Some e \<Rightarrow> Err e)"

definition Dnsmasq_rpc_Status :: "'w DnsHost \<Rightarrow> 'w \<Rightarrow> 'w \<times> json" where
  "Dnsmasq_rpc_Status h w =
     (case StatusDHCP h w of (w', enabled, provider, leaseCount) \<Rightarrow>
        (w', JObj [(''enabled'', JBool enabled), (''lease_count'', JNum (of_nat leaseCount)), (''provider'', JStr provider)]))"

end
