(* ===== verification/Dnsmasq_Facts.thy ===== *)
theory Dnsmasq_Facts
  imports Dnsmasq
begin

text \<open>
  What the DHCP plugin guarantees: validated pools stay within their network and do not overlap, and when an apply leaves the
  service as it is.
\<close>

section \<open>Validated configurations\<close>

lemma lease_time_shape:
  assumes "isValidLeaseTime s"
  shows "\<exists>ds u. s = ds @ [u] \<and> ds \<noteq> [] \<and> list_all is_digit ds \<and> u \<in> {CHR ''m'', CHR ''h'', CHR ''d'', CHR ''w''}"
proof -
  have digit: "in_class digit_class c \<longleftrightarrow> is_digit c" for c
    by (simp add: digit_class_def is_digit_def byte_of_def)
  have star: "list_all is_digit t" if "t \<in> star {[c] | c. is_digit c}" for t
    using that by induction auto
  from assms obtain d ds u where s: "s = [d] @ ds @ [u]" "is_digit d" "ds \<in> star {[c] | c. is_digit c}"
      and u: "in_class [(CHR ''m'', CHR ''m''), (CHR ''h'', CHR ''h''), (CHR ''d'', CHR ''d''), (CHR ''w'', CHR ''w'')] u"
    by (auto simp: isValidLeaseTime_def rmatch_iff conc_iff digit)
  from u have "u \<in> {CHR ''m'', CHR ''h'', CHR ''d'', CHR ''w''}"
    by (auto simp: byte_of_inject [symmetric])
  moreover have "list_all is_digit ([d] @ ds)" using s star by simp
  ultimately show ?thesis using s(1) by (intro exI [of _ "[d] @ ds"] exI [of _ u]) simp
qed

lemma dhcp_pool_bounds:
  assumes "ValidateDHCPConfig (Some dc) = None" "(n, p) \<in> set (dc_DHCPPools dc)"
  shows "dp_Interface p \<noteq> ''''" "0 \<le> dp_Start p" "1 \<le> dp_Limit p" "dp_Start p + dp_Limit p \<le> 255"
proof -
  have "validate_pool n p = None" using assms by (force simp: ValidateDHCPConfig_def)
  then have v: "dp_Interface p \<noteq> ''''" "0 \<le> dp_Start p" "dp_Start p \<le> 255" "1 \<le> dp_Limit p" "dp_Limit p \<le> 255"
      "wrap64 (dp_Start p + dp_Limit p) \<le> 255"
    by (auto simp: validate_pool_def Let_def not_less)
  then show "dp_Interface p \<noteq> ''''" "0 \<le> dp_Start p" "1 \<le> dp_Limit p" by simp_all
  have "wrap64 (dp_Start p + dp_Limit p) = dp_Start p + dp_Limit p"
    using v by (intro wrap64_id) (simp add: in_int64_def)
  with v show "dp_Start p + dp_Limit p \<le> 255" by simp
qed

section \<open>Disjoint pools\<close>

definition conflict :: "string \<times> DHCPPool \<Rightarrow> string \<times> DHCPPool \<Rightarrow> bool" where
  "conflict e1 e2 \<longleftrightarrow> fst e1 \<noteq> fst e2 \<and> dp_Interface (snd e1) = dp_Interface (snd e2) \<and> pools_overlap (snd e1) (snd e2)"

lemma check_pair_errs: "ec_errs (check_pair e1 v e2) = [] \<longleftrightarrow> ec_errs v = [] \<and> \<not> conflict e1 e2"
  by (auto simp: check_pair_def conflict_def check_if_def Check_errs split: prod.splits)

lemma foldl_check_pair_errs: "ec_errs (foldl (check_pair e1) v es) = [] \<longleftrightarrow> ec_errs v = [] \<and> (\<forall>e2 \<in> set es. \<not> conflict e1 e2)"
  by (induction es arbitrary: v) (auto simp: check_pair_errs)

lemma foldl_all_pairs_errs:
  "ec_errs (foldl (\<lambda>v e1. foldl (check_pair e1) v es) v es') = [] \<longleftrightarrow>
     ec_errs v = [] \<and> (\<forall>e1 \<in> set es'. \<forall>e2 \<in> set es. \<not> conflict e1 e2)"
  by (induction es' arbitrary: v) (auto simp: foldl_check_pair_errs)

lemma DHCPPool_Validate_ok: "DHCPPool_Validate p = None \<Longrightarrow> 0 < dp_Start p \<and> 0 < dp_Limit p \<and> dp_Limit p \<le> 65536"
  by (auto simp: DHCPPool_Validate_def Let_def collector_simps check_if_def foldl_CheckMsg_errs split: if_splits)

lemma DHCPConfig_Validate_iff:
  "DHCPConfig_Validate dc = None \<longleftrightarrow>
     (\<forall>(n, p) \<in> set (dc_DHCPPools dc). DHCPPool_Validate p = None) \<and>
     (\<forall>e1 \<in> set (dc_DHCPPools dc). \<forall>e2 \<in> set (dc_DHCPPools dc). \<not> conflict e1 e2) \<and>
     (\<forall>l \<in> set (List.enumerate 0 (elems (dc_StaticLeases dc))). StaticLease_Validate (snd l) = None)"
  unfolding DHCPConfig_Validate_def Let_def ec_Error_None foldl_CheckMsg_enum_errs foldl_all_pairs_errs NewCollector_errs
  by (simp add: case_prod_unfold)

text \<open>The addresses a pool hands out, as offsets into its network.\<close>

definition pool_range :: "DHCPPool \<Rightarrow> int set" where
  "pool_range p = {dp_Start p ..< dp_Start p + dp_Limit p}"

lemma pool_end_eq:
  assumes "0 < dp_Start p" "0 < dp_Limit p" "dp_Limit p \<le> 65536" "dp_Start p < 2 ^ 63 - 65536"
  shows "pool_end p = dp_Start p + dp_Limit p - 1"
  using assms by (simp add: pool_end_def in_int64_def)


definition ex_pool :: "string \<Rightarrow> int \<Rightarrow> int \<Rightarrow> DHCPPool" where
  "ex_pool iface start limit =
     \<lparr>dp_Interface = iface, dp_Start = start, dp_Limit = limit, dp_LeaseTime = ''12h'', dp_DHCPv4 = '''', dp_DHCPv6 = '''', dp_RA = '''',
      dp_RAManagement = 0, dp_RADefault = 0, dp_DNS = None, dp_Domain = '''', dp_Comment = ''''\<rparr>"

definition ex_dhcp :: "(string, DHCPPool) gomap \<Rightarrow> DHCPConfig" where
  "ex_dhcp pools = zero_DHCPConfig\<lparr>dc_Server := (dc_Server zero_DHCPConfig)\<lparr>ds_Enabled := True\<rparr>, dc_DHCPPools := pools\<rparr>"

lemma ex_pool_valid [simp]: "iface \<noteq> '''' \<Longrightarrow> 0 < start \<Longrightarrow> 0 < limit \<Longrightarrow> limit \<le> 65536 \<Longrightarrow> DHCPPool_Validate (ex_pool iface start limit) = None"
  by (simp add: DHCPPool_Validate_def Let_def collector_simps ex_pool_def elems_def)

lemma ex_pool_sel [simp]:
  "dp_Start (ex_pool iface start limit) = start" "dp_Limit (ex_pool iface start limit) = limit" "dp_Interface (ex_pool iface start limit) = iface"
  by (simp_all add: ex_pool_def)

lemma ex_dhcp_valid:
  "DHCPConfig_Validate (ex_dhcp [(''a'', ex_pool ''br-lan'' 10 40), (''b'', ex_pool ''br-lan'' 50 100)]) = None"
  unfolding DHCPConfig_Validate_iff
  by (simp add: ex_dhcp_def zero_DHCPConfig_def conflict_def pools_overlap_def pool_end_def wrap64_def elems_def)


text \<open>
  Near the largest number the check is fooled: two pools with the same range pass. The checks that the plugin makes before use do not compare
  pools at all.
\<close>

lemma overlap_wraps:
  "DHCPConfig_Validate (ex_dhcp [(''a'', ex_pool ''br-lan'' (2 ^ 63 - 1) 2), (''b'', ex_pool ''br-lan'' (2 ^ 63 - 1) 2)]) = None"
  unfolding DHCPConfig_Validate_iff
  by (simp add: ex_dhcp_def zero_DHCPConfig_def conflict_def pools_overlap_def pool_end_def wrap64_def elems_def)

lemma overlap_unchecked:
  "ValidateDHCPConfig (Some (ex_dhcp [(''a'', ex_pool ''br-lan'' 10 40), (''b'', ex_pool ''br-lan'' 10 40)])) = None"
proof -
  have "isValidLeaseTime ''12h''" by code_simp
  then show ?thesis
    by (simp add: ValidateDHCPConfig_def ex_dhcp_def zero_DHCPConfig_def elems_def validate_pool_def ex_pool_def Let_def wrap64_def)
qed

section \<open>Applying\<close>

text \<open>
  What is relied upon of the host: a file holds what was written to it last, and neither commands nor the creation of a directory nor
  writing another file changes a file that the plugin reads or the configuration directory.
\<close>

definition same_files :: "'w DnsHost \<Rightarrow> 'w \<Rightarrow> 'w \<Rightarrow> bool" where
  "same_files h w w' \<longleftrightarrow> (\<forall>p. dh_ReadFile h p w' = dh_ReadFile h p w) \<and> dh_configs h w' = dh_configs h w"

definition dns_laws :: "'w DnsHost \<Rightarrow> bool" where
  "dns_laws h \<longleftrightarrow>
     (\<forall>args w. same_files h w (fst (dh_Run h args w))) \<and>
     (\<forall>d w. same_files h w (fst (dh_MkdirAll h d w))) \<and>
     (\<forall>p content w. snd (dh_WriteFile h p content w) = None \<longrightarrow>
        dh_ReadFile h p (fst (dh_WriteFile h p content w)) = Inr content \<and>
        (\<forall>q. q \<noteq> p \<longrightarrow> dh_ReadFile h q (fst (dh_WriteFile h p content w)) = dh_ReadFile h q w) \<and>
        dh_configs h (fst (dh_WriteFile h p content w)) = dh_configs h w)"

text \<open>The configuration file is up to date in a state.\<close>

definition written :: "'w DnsHost \<Rightarrow> DnsmasqProvider \<Rightarrow> DHCPConfig \<Rightarrow> 'w \<Rightarrow> bool" where
  "written h d config w \<longleftrightarrow>
     (\<exists>s. generateDHCPConfigString h d config w = Inr s \<and> dh_ReadFile h (dq_dhcpConfigPath d) w = Inr s)"

lemma generate_same_files:
  "dh_ReadFile h (dq_templatePath d) w' = dh_ReadFile h (dq_templatePath d) w \<Longrightarrow> dh_configs h w' = dh_configs h w \<Longrightarrow>
   generateDHCPConfigString h d config w' = generateDHCPConfigString h d config w"
proof -
  assume t: "dh_ReadFile h (dq_templatePath d) w' = dh_ReadFile h (dq_templatePath d) w" and c: "dh_configs h w' = dh_configs h w"
  have i: "getInterfaceIPs h w' = getInterfaceIPs h w" "getInterfaceDevices h w' = getInterfaceDevices h w"
    using c by (simp_all add: getInterfaceIPs_def getInterfaceDevices_def load_interfaces_def)
  show ?thesis unfolding generateDHCPConfigString_def t i ..
qed

lemma written_same_files: "same_files h w w' \<Longrightarrow> written h d config w' \<longleftrightarrow> written h d config w"
  using generate_same_files [of h d w' w] by (simp add: written_def same_files_def)

lemma apply_written: "written h d config w \<Longrightarrow> ds_Enabled (dc_Server config) \<Longrightarrow> ApplyDHCPConfig h d config w = (w, None)"
  by (auto simp: written_def ApplyDHCPConfig_def)

lemma keeps_run:
  assumes "dns_laws h"
  shows "keeps (written h d config) (run_quiet h args)" "keeps (written h d config) (testConfig h d)"
    "keeps (written h d config) (test_and_reload h d)" "keeps (written h d config) (stopService h)"
proof -
  have run: "same_files h w (fst (dh_Run h args w))" for args w using assms by (simp add: dns_laws_def)
  have kept: "written h d config (fst (dh_Run h args w)) = written h d config w" for args w
    by (rule written_same_files [OF run])
  show *: "keeps (written h d config) (run_quiet h args)" for args
    using kept by (simp add: keeps_def run_quiet_def case_prod_unfold)
  show **: "keeps (written h d config) (testConfig h d)"
  proof (rule keeps_I)
    fix w assume "written h d config w"
    moreover have "fst (testConfig h d w) = fst (dh_Run h [''dnsmasq'', ''--test'', ''-C'', dq_dhcpConfigPath d] w)"
      by (auto simp: testConfig_def split: prod.splits option.splits)
    ultimately show "written h d config (fst (testConfig h d w))" using kept by simp
  qed
  show "keeps (written h d config) (test_and_reload h d)"
    unfolding test_and_reload_def reloadService_def by (intro keeps_act * **)
  show "keeps (written h d config) (stopService h)" unfolding stopService_def by (rule *)
qed

lemma write_written:
  assumes "dns_laws h" "dq_templatePath d \<noteq> dq_dhcpConfigPath d"
    and "generateDHCPConfigString h d config w = Inr s" "writeDHCPConfig h d s w = (w', None)"
  shows "written h d config w'"
proof -
  from assms(4) obtain v where v: "dh_MkdirAll h ''/etc/dnsmasq.d'' w = (v, None)" "dh_WriteFile h (dq_dhcpConfigPath d) s v = (w', None)"
    by (auto simp: writeDHCPConfig_def act_ok)
  have "same_files h w v" using assms(1) v(1) by (metis dns_laws_def fst_conv)
  moreover have "dh_ReadFile h (dq_dhcpConfigPath d) w' = Inr s \<and>
      (\<forall>q. q \<noteq> dq_dhcpConfigPath d \<longrightarrow> dh_ReadFile h q w' = dh_ReadFile h q v) \<and> dh_configs h w' = dh_configs h v"
    using assms(1) v(2) unfolding dns_laws_def by (metis fst_conv snd_conv)
  ultimately have "dh_ReadFile h (dq_dhcpConfigPath d) w' = Inr s" "generateDHCPConfigString h d config w' = Inr s"
    using generate_same_files [of h d w' w config] assms(2,3) by (auto simp: same_files_def)
  then show ?thesis by (simp add: written_def)
qed

lemma apply_ok_written:
  assumes "dns_laws h" "dq_templatePath d \<noteq> dq_dhcpConfigPath d" "ds_Enabled (dc_Server config)"
    and "generateDHCPConfigString h d config w = Inr s" "writeDHCPConfig h d s w = (v, None)"
    and "ApplyDHCPConfig h d config w = (w', r)"
  shows "written h d config w'"
proof (cases "dh_ReadFile h (dq_dhcpConfigPath d) w = Inr s")
  case True
  with assms(3,4,6) show ?thesis by (auto simp: ApplyDHCPConfig_def written_def)
next
  case False
  with assms(3-6) have "test_and_reload h d v = (w', r)"
    by (simp add: ApplyDHCPConfig_def andthen_def wrapping_def)
  with keeps_D [OF keeps_run(3) [OF assms(1)] write_written [OF assms(1,2,4,5)]] show ?thesis by (metis fst_conv)
qed

text \<open>
  When an apply fails after it wrote the configuration file, because the file does not pass the test or the service
  does not reload, the same apply tried again reports success and runs nothing.
\<close>

theorem dhcp_retry_hides_failure:
  assumes "dns_laws h" and "dq_templatePath d \<noteq> dq_dhcpConfigPath d" and "ds_Enabled (dc_Server config)"
    and "generateDHCPConfigString h d config w = Inr s" and "writeDHCPConfig h d s w = (v, None)"
    and "ApplyDHCPConfig h d config w = (w', Some e)"
  shows "ApplyDHCPConfig h d config w' = (w', None)"
  using apply_written [OF apply_ok_written [OF assms]] assms(3) by blast

text \<open>
  After a successful apply, applying a configuration in which the server is disabled stops the service, and applying the first
  configuration again reports success but leaves the service stopped: it does nothing.
\<close>

theorem dhcp_stays_stopped:
  assumes "dns_laws h" and "dq_templatePath d \<noteq> dq_dhcpConfigPath d" and "ds_Enabled (dc_Server config)"
    and "ApplyDHCPConfig h d config w = (w1, None)"
    and "\<not> ds_Enabled (dc_Server off)" and "ApplyDHCPConfig h d off w1 = (w2, r)"
  shows "(w2, r) = stopService h w1 \<and> ApplyDHCPConfig h d config w2 = (w2, None)"
proof -
  have stop: "stopService h w1 = (w2, r)" using assms(5,6) by (simp add: ApplyDHCPConfig_def)
  have "written h d config w1"
  proof (cases "generateDHCPConfigString h d config w")
    case (Inl e)
    with assms(3,4) show ?thesis by (simp add: ApplyDHCPConfig_def)
  next
    case (Inr s)
    show ?thesis
    proof (cases "dh_ReadFile h (dq_dhcpConfigPath d) w = Inr s")
      case True
      with assms(3,4) Inr show ?thesis by (auto simp: ApplyDHCPConfig_def written_def)
    next
      case False
      with assms(3,4) Inr obtain v where "writeDHCPConfig h d s w = (v, None)"
        by (auto simp: ApplyDHCPConfig_def act_ok)
      then show ?thesis using apply_ok_written [OF assms(1-3) Inr _ assms(4)] by blast
    qed
  qed
  then have "written h d config w2" using keeps_D [OF keeps_run(4) [OF assms(1)], of d config w1] stop by simp
  then show ?thesis using apply_written assms(3) stop by metis
qed

section \<open>A concrete host\<close>

text \<open>A host that records its commands and fails those that test a configuration which mentions an unknown option.\<close>

record dns_world =
  dw_files :: "(string, string) gomap"
  dw_log :: "string list list"

definition ex_dns :: "dns_world DnsHost" where
  "ex_dns =
     \<lparr>dh_LookPath = (\<lambda>_ _. None),
      dh_Run = (\<lambda>args w. (w\<lparr>dw_log := args # dw_log w\<rparr>, '''',
        if hd args = ''dnsmasq'' \<and> mget (dw_files w) ''/etc/dnsmasq.d/jack.conf'' = Some ''bad'' then Some ''exit status 1'' else None)),
      dh_ReadFile = (\<lambda>p w. case mget (dw_files w) p of None \<Rightarrow> Inl ''no such file'' | Some c \<Rightarrow> Inr c),
      dh_WriteFile = (\<lambda>p c w. (w\<lparr>dw_files := mput p c (dw_files w)\<rparr>, None)),
      dh_MkdirAll = (\<lambda>_ w. (w, None)), dh_dir = ''/etc/jack'', dh_configs = (\<lambda>_. []),
      dh_Parse = (\<lambda>_. None),
      dh_Execute = (\<lambda>t data. Inr (if dc_Version (td_Config data) = ''bad'' then ''bad'' else t))\<rparr>"

definition ex_provider :: DnsmasqProvider where
  "ex_provider = \<lparr>dq_dhcpConfigPath = ''/etc/dnsmasq.d/jack.conf'', dq_templatePath = ''/etc/jack/templates/dnsmasq.conf.tmpl''\<rparr>"

definition ex_dns_world :: dns_world where
  "ex_dns_world = \<lparr>dw_files = [(''/etc/jack/templates/dnsmasq.conf.tmpl'', ''dhcp-authoritative'')], dw_log = []\<rparr>"

lemma ex_dns_laws: "dns_laws ex_dns"
  by (simp add: dns_laws_def same_files_def ex_dns_def update_conv')

lemmas ex_dns_simps =
  ApplyDHCPConfig_def generateDHCPConfigString_def writeDHCPConfig_def test_and_reload_def testConfig_def reloadService_def
  stopService_def run_quiet_def andthen_def wrapping_def ex_dns_def ex_provider_def ex_dns_world_def ex_dhcp_def zero_DHCPConfig_def

end
