(* ===== verification/Go_Path.thy ===== *)
theory Go_Path
  imports Go_Strings
begin

text \<open>The functions of \<open>path/filepath\<close> that the plugins use, on Unix paths.\<close>

text \<open>\<open>filepath.Clean\<close>: the elements of a path without empty ones and dots, each parent taking its directory away.\<close>

definition clean_step :: "bool \<Rightarrow> string list \<Rightarrow> string \<Rightarrow> string list" where
  "clean_step rooted done seg =
     (if seg = '''' \<or> seg = ''.'' then done
      else if seg = ''..'' then
        (if done \<noteq> [] \<and> last done \<noteq> ''..'' then butlast done
         else if rooted then done else done @ [''..''])
      else done @ [seg])"

definition path_clean :: "string \<Rightarrow> string" where
  "path_clean path =
     (let rooted = (path \<noteq> [] \<and> hd path = CHR ''/'');
          segs = foldl (clean_step rooted) [] (split_on (CHR ''/'') path) in
      if rooted then CHR ''/'' # join_with ''/'' segs
      else if segs = [] then ''.'' else join_with ''/'' segs)"

text \<open>\<open>filepath.Join\<close> of a directory that is not empty and a name.\<close>

definition filepath_join :: "string \<Rightarrow> string \<Rightarrow> string" where
  "filepath_join dir name = path_clean (if name = '''' then dir else dir @ ''/'' @ name)"

text \<open>\<open>filepath.Dir\<close>: everything up to the last slash, cleaned.\<close>

definition filepath_dir :: "string \<Rightarrow> string" where
  "filepath_dir path = path_clean (rev (dropWhile (\<lambda>c. c \<noteq> CHR ''/'') (rev path)))"

text \<open>\<open>filepath.Base\<close>: the last element, after trailing slashes are taken away.\<close>

definition filepath_base :: "string \<Rightarrow> string" where
  "filepath_base path =
     (if path = '''' then ''.''
      else let back = dropWhile (\<lambda>c. c = CHR ''/'') (rev path) in
           if back = [] then ''/'' else rev (takeWhile (\<lambda>c. c \<noteq> CHR ''/'') back))"

end
