(* ===== verification/Leds.thy ===== *)
theory Leds
  imports Plugin_Codec Go_Path Go_Text
begin

text \<open>
  The LED plugin, \<open>src/plugins/core/leds\<close>: the files of a LED under \<open>/sys/class/leds\<close> (\<open>leds.go\<close>, \<open>leds_config.go\<close>), the provider
  with its record of applied and original settings (\<open>provider.go\<close>) and the RPC surface with its commands (\<open>rpc_provider.go\<close>).
  Maps are visited in the order of the association list, which stands for any order.
\<close>

section \<open>Configuration\<close>

record LEDSettings =
  le_Brightness :: int
  le_Trigger :: string
  le_DelayOn :: int
  le_DelayOff :: int
  le_Pattern :: string
  le_Repeat :: int
  le_DeviceName :: string
  le_Mode :: string

record LEDConfig =
  lc_LEDs :: "(string, LEDSettings) gomap"

record LEDState =
  ls_Name :: string
  ls_Brightness :: int
  ls_MaxBrightness :: int
  ls_CurrentTrigger :: string
  ls_AvailTriggers :: "string list"

definition zero_LEDSettings :: LEDSettings where
  "zero_LEDSettings =
     \<lparr>le_Brightness = 0, le_Trigger = [], le_DelayOn = 0, le_DelayOff = 0, le_Pattern = [], le_Repeat = 0, le_DeviceName = [], le_Mode = []\<rparr>"

section \<open>Triggers\<close>

definition ParseActiveTrigger :: "string \<Rightarrow> string" where
  "ParseActiveTrigger triggerContent =
     (case (index_of (CHR ''['') triggerContent, index_of (CHR '']'') triggerContent) of
        (Some start, Some e) \<Rightarrow>
          if e > start then drop (start + 1) (take e triggerContent)
          else (case go_fields triggerContent of [] \<Rightarrow> '''' | f # _ \<Rightarrow> f)
      | _ \<Rightarrow> (case go_fields triggerContent of [] \<Rightarrow> '''' | f # _ \<Rightarrow> f))"

definition ParseAvailableTriggers :: "string \<Rightarrow> string list" where
  "ParseAvailableTriggers triggerContent =
     go_fields (filter (\<lambda>c. c \<noteq> CHR '']'') (filter (\<lambda>c. c \<noteq> CHR ''['') triggerContent))"

definition netdev_flags :: "string list" where
  "netdev_flags = [''link'', ''tx'', ''rx'', ''tx_err'', ''rx_err'', ''full_duplex'', ''half_duplex'']"

definition ValidateNetdevMode :: "string \<Rightarrow> goerror" where
  "ValidateNetdevMode mode =
     (if mode = '''' then None
      else first_error (map (\<lambda>flag. reject (flag \<notin> set netdev_flags) (''invalid netdev mode flag: '' @ flag)) (go_fields mode)))"

section \<open>Files of a LED\<close>

record 'w LedHost =
  lh_ReadDir :: "string \<Rightarrow> 'w \<Rightarrow> string + string list"
  lh_Stat :: "string \<Rightarrow> 'w \<Rightarrow> bool"
  lh_ReadFile :: "string \<Rightarrow> 'w \<Rightarrow> string + string"
  lh_WriteFile :: "string \<Rightarrow> string \<Rightarrow> 'w act"

definition LEDBasePath :: string where
  "LEDBasePath = ''/sys/class/leds''"

definition GetLEDPath :: "string \<Rightarrow> string" where
  "GetLEDPath ledName = filepath_join LEDBasePath ledName"

definition ListLEDs :: "'w LedHost \<Rightarrow> 'w \<Rightarrow> string + string list" where
  "ListLEDs h w =
     (case lh_ReadDir h LEDBasePath w of
        Inl e \<Rightarrow> Inl (''failed to list LEDs at '' @ LEDBasePath @ '': '' @ e)
      | Inr names \<Rightarrow> Inr (filter (\<lambda>n. lh_Stat h (GetLEDPath n) w) names))"

definition readLEDFile :: "'w LedHost \<Rightarrow> string \<Rightarrow> string \<Rightarrow> 'w \<Rightarrow> string + string" where
  "readLEDFile h ledName fileName w =
     (case lh_ReadFile h (filepath_join (GetLEDPath ledName) fileName) w of
        Inl e \<Rightarrow> Inl (''failed to read '' @ fileName @ '' for LED '' @ ledName @ '': '' @ e)
      | Inr data \<Rightarrow> Inr (trim_space data))"

definition writeLEDFile :: "'w LedHost \<Rightarrow> string \<Rightarrow> string \<Rightarrow> string \<Rightarrow> 'w act" where
  "writeLEDFile h ledName fileName val =
     wrapping (''failed to write '' @ val @ '' to '' @ fileName @ '' for LED '' @ ledName @ '': '')
       (lh_WriteFile h (filepath_join (GetLEDPath ledName) fileName) val)"

definition read_number :: "'w LedHost \<Rightarrow> string \<Rightarrow> string \<Rightarrow> 'w \<Rightarrow> string + int" where
  "read_number h ledName fileName w =
     (case readLEDFile h ledName fileName w of
        Inl e \<Rightarrow> Inl e
      | Inr v \<Rightarrow> (case atoi v of None \<Rightarrow> Inl (lib_err ''Atoi'' v) | Some i \<Rightarrow> Inr i))"

definition SetBrightness :: "'w LedHost \<Rightarrow> string \<Rightarrow> int \<Rightarrow> 'w act" where
  "SetBrightness h ledName brightness = writeLEDFile h ledName ''brightness'' (show_int brightness)"

definition GetBrightness :: "'w LedHost \<Rightarrow> string \<Rightarrow> 'w \<Rightarrow> string + int" where
  "GetBrightness h ledName = read_number h ledName ''brightness''"

definition GetMaxBrightness :: "'w LedHost \<Rightarrow> string \<Rightarrow> 'w \<Rightarrow> string + int" where
  "GetMaxBrightness h ledName = read_number h ledName ''max_brightness''"

definition SetTrigger :: "'w LedHost \<Rightarrow> string \<Rightarrow> string \<Rightarrow> 'w act" where
  "SetTrigger h ledName trigger = writeLEDFile h ledName ''trigger'' trigger"

definition GetTrigger :: "'w LedHost \<Rightarrow> string \<Rightarrow> 'w \<Rightarrow> string + string" where
  "GetTrigger h ledName w = (case readLEDFile h ledName ''trigger'' w of Inl e \<Rightarrow> Inl e | Inr v \<Rightarrow> Inr (ParseActiveTrigger v))"

definition GetAvailableTriggers :: "'w LedHost \<Rightarrow> string \<Rightarrow> 'w \<Rightarrow> string + string list" where
  "GetAvailableTriggers h ledName w =
     (case readLEDFile h ledName ''trigger'' w of Inl e \<Rightarrow> Inl e | Inr v \<Rightarrow> Inr (ParseAvailableTriggers v))"

definition SetDelayOn :: "'w LedHost \<Rightarrow> string \<Rightarrow> int \<Rightarrow> 'w act" where
  "SetDelayOn h ledName ms = writeLEDFile h ledName ''delay_on'' (show_int ms)"

definition SetDelayOff :: "'w LedHost \<Rightarrow> string \<Rightarrow> int \<Rightarrow> 'w act" where
  "SetDelayOff h ledName ms = writeLEDFile h ledName ''delay_off'' (show_int ms)"

definition SetPattern :: "'w LedHost \<Rightarrow> string \<Rightarrow> string \<Rightarrow> 'w act" where
  "SetPattern h ledName pattern = writeLEDFile h ledName ''pattern'' pattern"

definition SetRepeat :: "'w LedHost \<Rightarrow> string \<Rightarrow> int \<Rightarrow> 'w act" where
  "SetRepeat h ledName n = writeLEDFile h ledName ''repeat'' (show_int n)"

definition SetNetdevDevice :: "'w LedHost \<Rightarrow> string \<Rightarrow> string \<Rightarrow> 'w act" where
  "SetNetdevDevice h ledName deviceName = writeLEDFile h ledName ''device_name'' deviceName"

definition SetNetdevMode :: "'w LedHost \<Rightarrow> string \<Rightarrow> string \<Rightarrow> 'w act" where
  "SetNetdevMode h ledName mode =
     (case ValidateNetdevMode mode of
        Some e \<Rightarrow> fails e
      | None \<Rightarrow> each (\<lambda>flag. wrapping (''failed to enable '' @ flag @ '': '') (writeLEDFile h ledName flag ''1'')) (go_fields mode))"

definition LEDExists :: "'w LedHost \<Rightarrow> string \<Rightarrow> 'w \<Rightarrow> bool" where
  "LEDExists h ledName w = lh_Stat h (GetLEDPath ledName) w"

section \<open>The provider\<close>

record LEDProvider =
  lp_appliedLEDs :: "(string, LEDSettings) gomap"
  lp_originalState :: "(string, LEDSettings) gomap"

definition NewLEDProvider :: LEDProvider where
  "NewLEDProvider = \<lparr>lp_appliedLEDs = [], lp_originalState = []\<rparr>"

definition saveOriginalState :: "'w LedHost \<Rightarrow> string \<Rightarrow> LEDProvider \<times> 'w \<Rightarrow> LEDProvider \<times> 'w" where
  "saveOriginalState h ledName pw =
     (case (GetBrightness h ledName (snd pw), GetTrigger h ledName (snd pw)) of
        (Inr brightness, Inr trigger) \<Rightarrow>
          ((fst pw)\<lparr>lp_originalState :=
              mput ledName (zero_LEDSettings\<lparr>le_Brightness := brightness, le_Trigger := trigger\<rparr>) (lp_originalState (fst pw))\<rparr>, snd pw)
      | _ \<Rightarrow> pw)"

definition when_set :: "bool \<Rightarrow> string \<Rightarrow> 'w act \<Rightarrow> 'w act" where
  "when_set b p f = (if b then wrapping p f else nop)"

definition trigger_parameters :: "'w LedHost \<Rightarrow> string \<Rightarrow> LEDSettings \<Rightarrow> 'w act" where
  "trigger_parameters h ledName s =
     (if le_Trigger s = ''timer'' then
        andthen (when_set (le_DelayOn s > 0) ''failed to set delay_on: '' (SetDelayOn h ledName (le_DelayOn s)))
          (when_set (le_DelayOff s > 0) ''failed to set delay_off: '' (SetDelayOff h ledName (le_DelayOff s)))
      else if le_Trigger s = ''pattern'' then
        andthen (when_set (le_Pattern s \<noteq> '''') ''failed to set pattern: '' (SetPattern h ledName (le_Pattern s)))
          (when_set (le_Repeat s \<noteq> 0) ''failed to set repeat: '' (SetRepeat h ledName (le_Repeat s)))
      else if le_Trigger s = ''netdev'' then
        andthen (when_set (le_DeviceName s \<noteq> '''') ''failed to set device_name: '' (SetNetdevDevice h ledName (le_DeviceName s)))
          (when_set (le_Mode s \<noteq> '''') ''failed to set mode: '' (SetNetdevMode h ledName (le_Mode s)))
      else nop)"

definition applyLEDSettings :: "'w LedHost \<Rightarrow> string \<Rightarrow> LEDSettings \<Rightarrow> 'w act" where
  "applyLEDSettings h ledName s =
     andthen
       (if le_Trigger s \<noteq> '''' then
          andthen (wrapping ''failed to set trigger: '' (SetTrigger h ledName (le_Trigger s))) (trigger_parameters h ledName s)
        else nop)
       (when_set (le_Brightness s \<ge> 0) ''failed to set brightness: '' (SetBrightness h ledName (le_Brightness s)))"

text \<open>The last loop of \<open>ApplyConfig\<close>; what was applied before a failure is recorded.\<close>

fun apply_leds ::
  "'w LedHost \<Rightarrow> (string \<times> LEDSettings) list \<Rightarrow> LEDProvider \<times> 'w \<Rightarrow> (LEDProvider \<times> 'w) \<times> goerror" where
  "apply_leds h [] pw = (pw, None)"
| "apply_leds h ((ledName, settings) # ls) pw =
     (case applyLEDSettings h ledName settings (snd pw) of
        (w', Some e) \<Rightarrow> ((fst pw, w'), Some (''failed to configure LED '' @ ledName @ '': '' @ e))
      | (w', None) \<Rightarrow>
          apply_leds h ls ((fst pw)\<lparr>lp_appliedLEDs := mput ledName settings (lp_appliedLEDs (fst pw))\<rparr>, w'))"

definition LED_ApplyConfig :: "'w LedHost \<Rightarrow> LEDConfig \<Rightarrow> LEDProvider \<times> 'w \<Rightarrow> (LEDProvider \<times> 'w) \<times> goerror" where
  "LED_ApplyConfig h config pw =
     (case first_error (map (\<lambda>(ledName, _). reject (\<not> LEDExists h ledName (snd pw)) (''LED does not exist: '' @ ledName)) (lc_LEDs config)) of
        Some e \<Rightarrow> (pw, Some e)
      | None \<Rightarrow>
          (let pw1 = (if lp_originalState (fst pw) = [] then foldl (\<lambda>q (ledName, _). saveOriginalState h ledName q) pw (lc_LEDs config) else pw) in
           apply_leds h (lc_LEDs config) pw1))"

definition validate_led :: "'w LedHost \<Rightarrow> 'w \<Rightarrow> string \<Rightarrow> LEDSettings \<Rightarrow> goerror" where
  "validate_led h w ledName s =
     (if \<not> LEDExists h ledName w then Some (''LED does not exist: '' @ ledName)
      else if le_Brightness s < 0 then Some (''invalid brightness for '' @ ledName @ '': must be >= 0'')
      else
        (case GetMaxBrightness h ledName w of
           Inl e \<Rightarrow> Some (''failed to get max_brightness for '' @ ledName @ '': '' @ e)
         | Inr maxBrightness \<Rightarrow>
             if le_Brightness s > maxBrightness then
               Some (''brightness '' @ show_int (le_Brightness s) @ '' exceeds max_brightness '' @ show_int maxBrightness @ '' for '' @ ledName)
             else if le_Trigger s \<noteq> '''' then
               (case GetAvailableTriggers h ledName w of
                  Inl e \<Rightarrow> Some (''failed to get available triggers for '' @ ledName @ '': '' @ e)
                | Inr availTriggers \<Rightarrow>
                    reject (le_Trigger s \<notin> set availTriggers)
                      (''invalid trigger '' @ quoted (le_Trigger s) @ '' for '' @ ledName @ '' (available: ['' @ join_with '' '' availTriggers @ ''])''))
             else None))"

definition LED_ValidateConfig :: "'w LedHost \<Rightarrow> 'w \<Rightarrow> LEDConfig option \<Rightarrow> goerror" where
  "LED_ValidateConfig h w config =
     (case config of
        None \<Rightarrow> Some ''config cannot be nil''
      | Some c \<Rightarrow> first_error (map (\<lambda>(ledName, s). validate_led h w ledName s) (lc_LEDs c)))"

definition restore_led :: "'w LedHost \<Rightarrow> string \<Rightarrow> LEDSettings \<Rightarrow> 'w act" where
  "restore_led h ledName s =
     andthen (if le_Trigger s \<noteq> '''' then logged (SetTrigger h ledName (le_Trigger s)) else nop)
       (logged (SetBrightness h ledName (le_Brightness s)))"

definition LED_Flush :: "'w LedHost \<Rightarrow> LEDProvider \<times> 'w \<Rightarrow> (LEDProvider \<times> 'w) \<times> goerror" where
  "LED_Flush h pw =
     (case each (\<lambda>(ledName, s). restore_led h ledName s) (lp_originalState (fst pw)) (snd pw) of
        (w', _) \<Rightarrow> (((fst pw)\<lparr>lp_appliedLEDs := []\<rparr>, w'), None))"

definition led_state :: "'w LedHost \<Rightarrow> 'w \<Rightarrow> string \<Rightarrow> LEDState list" where
  "led_state h w ledName =
     (case (GetBrightness h ledName w, GetMaxBrightness h ledName w, GetTrigger h ledName w) of
        (Inr brightness, Inr maxBrightness, Inr currentTrigger) \<Rightarrow>
          [\<lparr>ls_Name = ledName, ls_Brightness = brightness, ls_MaxBrightness = maxBrightness, ls_CurrentTrigger = currentTrigger,
            ls_AvailTriggers = (case GetAvailableTriggers h ledName w of Inl _ \<Rightarrow> [] | Inr ts \<Rightarrow> ts)\<rparr>]
      | _ \<Rightarrow> [])"

definition LED_Status :: "'w LedHost \<Rightarrow> 'w \<Rightarrow> string + LEDState list" where
  "LED_Status h w =
     (case ListLEDs h w of
        Inl e \<Rightarrow> Inl (''failed to list LEDs: '' @ e)
      | Inr allLEDs \<Rightarrow> Inr (concat (map (led_state h w) allLEDs)))"

section \<open>The RPC surface\<close>

definition dec_LEDSettings :: "json \<Rightarrow> LEDSettings outcome" where
  "dec_LEDSettings v =
     dec_object ''main.LEDSettings''
       [int_field ''brightness'' le_Brightness le_Brightness_update, str_field ''trigger'' le_Trigger le_Trigger_update,
        int_field ''delay_on'' le_DelayOn le_DelayOn_update, int_field ''delay_off'' le_DelayOff le_DelayOff_update,
        str_field ''pattern'' le_Pattern le_Pattern_update, int_field ''repeat'' le_Repeat le_Repeat_update,
        str_field ''device_name'' le_DeviceName le_DeviceName_update, str_field ''mode'' le_Mode le_Mode_update] v zero_LEDSettings"

definition dec_LEDConfig :: "json \<Rightarrow> LEDConfig outcome" where
  "dec_LEDConfig v = dec_object ''main.LEDConfig'' [map_field ''leds'' dec_LEDSettings lc_LEDs lc_LEDs_update] v \<lparr>lc_LEDs = []\<rparr>"

definition LED_rpc_ApplyConfig :: "'w LedHost \<Rightarrow> json \<Rightarrow> LEDProvider \<times> 'w \<Rightarrow> (LEDProvider \<times> 'w) \<times> unit outcome" where
  "LED_rpc_ApplyConfig h configJSON pw =
     (case dec_LEDConfig configJSON of
        Err e \<Rightarrow> (pw, Err e)
      | Panic \<Rightarrow> (pw, Panic)
      | Ok config \<Rightarrow> plift (LED_ApplyConfig h config) pw)"

definition LED_rpc_ValidateConfig :: "'w LedHost \<Rightarrow> 'w \<Rightarrow> json \<Rightarrow> unit outcome" where
  "LED_rpc_ValidateConfig h w configJSON =
     obind (dec_LEDConfig configJSON)
       (\<lambda>config. case LED_ValidateConfig h w (Some config) of None \<Rightarrow> Ok () | Some e \<Rightarrow> Err e)"

text \<open>The list of LEDs as \<open>jack led list\<close> prints it.\<close>

definition executeList :: "'w LedHost \<Rightarrow> 'w \<Rightarrow> string + string" where
  "executeList h w =
     (case LED_Status h w of
        Inl e \<Rightarrow> Inl e
      | Inr leds \<Rightarrow>
          Inr (text_line ''Available LEDs'' @ text_line ''=============='' @ text_line '''' @
            (if leds = [] then text_line ''No LEDs found''
             else concat (map (\<lambda>led.
               text_line (ls_Name led) @ text_line (''  Max Brightness: '' @ show_int (ls_MaxBrightness led)) @
               text_line (''  Current Trigger: '' @ ls_CurrentTrigger led) @
               (if ls_AvailTriggers led \<noteq> [] then text_line (''  Available Triggers: '' @ join_with '', '' (ls_AvailTriggers led)) else '''') @
               text_line '''') leds))))"

definition status_line :: "string \<Rightarrow> string \<Rightarrow> string \<Rightarrow> string \<Rightarrow> string" where
  "status_line a b c d = text_line (pad_right 20 a @ '' '' @ pad_right 12 b @ '' '' @ pad_right 15 c @ '' '' @ pad_right 20 d)"

definition executeStatus :: "'w LedHost \<Rightarrow> 'w \<Rightarrow> string + string" where
  "executeStatus h w =
     (case LED_Status h w of
        Inl e \<Rightarrow> Inl e
      | Inr leds \<Rightarrow>
          Inr (text_line ''LED Status'' @ text_line ''=========='' @ text_line '''' @
            (if leds = [] then text_line ''No LEDs found''
             else
               status_line ''LED'' ''Brightness'' ''Max Brightness'' ''Trigger'' @ text_line (replicate 70 (CHR ''-'')) @
               concat (map (\<lambda>led. status_line (ls_Name led) (show_int (ls_Brightness led)) (show_int (ls_MaxBrightness led)) (ls_CurrentTrigger led)) leds))))"

definition LED_ExecuteCLICommand :: "'w LedHost \<Rightarrow> string \<Rightarrow> 'w \<Rightarrow> string + string" where
  "LED_ExecuteCLICommand h command w =
     (let parts = go_fields command in
      if parts = [] then Inl ''empty command''
      else if parts ! 0 \<noteq> ''led'' then Inl (''unknown command: '' @ parts ! 0)
      else if length parts < 2 then Inl ''led command requires subcommand: status or list''
      else if parts ! 1 = ''status'' then executeStatus h w
      else if parts ! 1 = ''list'' then executeList h w
      else Inl (''unknown led subcommand: '' @ parts ! 1))"

end
