(* ===== verification/Text_Facts.thy ===== *)
theory Text_Facts
  imports Plugin_Actions
begin

text \<open>Splitting text into fields: words joined by single spaces are read back, as the plugins and the command line need it.\<close>

section \<open>Fields of printed words\<close>

text \<open>A byte that is not part of a space in any encoding.\<close>

definition printable :: "char \<Rightarrow> bool" where
  "printable c \<longleftrightarrow> 33 \<le> byte_of c \<and> byte_of c < 127"

definition word_ok :: "string \<Rightarrow> bool" where
  "word_ok s \<longleftrightarrow> s \<noteq> [] \<and> list_all printable s"

lemma strip_any_other: "\<forall>r \<in> set rs. r \<noteq> [] \<and> hd r \<noteq> byte_of c \<Longrightarrow> strip_any rs (c # s) = None"
proof (induction rs)
  case (Cons r rs)
  then show ?case by (cases r) auto
qed simp

lemma space_heads: "r \<in> set space_runes \<Longrightarrow> r \<noteq> [] \<and> (hd r \<le> 32 \<or> 127 \<le> hd r)"
  by (auto simp: space_runes_def)

lemma strip_printable: "printable c \<Longrightarrow> strip_any space_runes (c # s) = None"
  using space_heads by (intro strip_any_other) (fastforce simp: printable_def)

lemma strip_space: "strip_any space_runes (CHR '' '' # s) = Some s"
  by (simp add: space_runes_def byte_of_def)

lemma fields_from_word: "list_all printable v \<Longrightarrow> fields_from acc (v @ s) = fields_from (acc @ v) s"
  by (induction v arbitrary: acc) (simp_all add: strip_printable)

lemma fields_join: "list_all word_ok ws \<Longrightarrow> go_fields (join_with '' '' ws) = ws"
proof (induction ws rule: induct_list012)
  case (2 v)
  then show ?case using fields_from_word [of v "[]" "[]"] by (simp add: go_fields_def word_ok_def)
next
  case (3 v v' ws)
  then have v: "v \<noteq> []" "list_all printable v" by (simp_all add: word_ok_def)
  have "go_fields (v @ CHR '' '' # s) = v # go_fields s" for s
    using v fields_from_word [of v "[]" "CHR '' '' # s"] by (simp add: go_fields_def strip_space)
  with 3 show ?case by simp
qed (simp add: go_fields_def)

end
