(* ===== verification/Leds_Facts.thy ===== *)
theory Leds_Facts
  imports Leds Text_Facts
begin

text \<open>
  What the LED plugin guarantees: it reads back the trigger list the kernel prints, remembers original settings only once, and
  where its paths lead.
\<close>

section \<open>Triggers\<close>

text \<open>The kernel prints the available triggers in a line with the active one in brackets.\<close>

definition show_triggers :: "string list \<Rightarrow> string \<Rightarrow> string list \<Rightarrow> string" where
  "show_triggers before active after = join_with '' '' (before @ [CHR ''['' # active @ '']''] @ after)"

definition bracket_free :: "string \<Rightarrow> bool" where
  "bracket_free s \<longleftrightarrow> CHR ''['' \<notin> set s \<and> CHR '']'' \<notin> set s"

lemma join_with_set: "set (join_with sep ws) \<subseteq> set sep \<union> (\<Union>v \<in> set ws. set v)"
  by (induction ws rule: induct_list012) auto

lemma join_with_app_prefix:
  "\<exists>p. (\<forall>s t. join_with '' '' (ws @ (s # t)) = p @ join_with '' '' (s # t)) \<and> set p \<subseteq> {CHR '' ''} \<union> (\<Union>v \<in> set ws. set v)"
proof (induction ws)
  case Nil
  show ?case by (intro exI [of _ "[]"]) simp
next
  case (Cons v ws)
  then obtain p where p: "\<forall>s t. join_with '' '' (ws @ (s # t)) = p @ join_with '' '' (s # t)" "set p \<subseteq> {CHR '' ''} \<union> (\<Union>v \<in> set ws. set v)"
    by blast
  have "join_with '' '' ((v # ws) @ (s # t)) = (v @ '' '' @ p) @ join_with '' '' (s # t)" for s t
  proof -
    have "join_with '' '' (v # (ws @ (s # t))) = v @ '' '' @ join_with '' '' (ws @ (s # t))" by (cases "ws @ (s # t)") auto
    with p(1) show ?thesis by simp
  qed
  with p(2) show ?case by (intro exI [of _ "v @ '' '' @ p"]) auto
qed

lemma index_of_append: "c \<notin> set p \<Longrightarrow> index_of c (p @ c # s) = Some (length p)"
  by (induction p) auto

lemma join_with_Cons_prefix: "\<exists>s. join_with '' '' (v # ws) = v @ s"
  by (cases ws) auto

lemma show_triggers_split:
  assumes "list_all bracket_free before"
  shows "\<exists>p s. show_triggers before active after = p @ CHR ''['' # active @ CHR '']'' # s \<and> bracket_free p"
proof -
  obtain p where p: "\<And>s t. join_with '' '' (before @ (s # t)) = p @ join_with '' '' (s # t)"
      "set p \<subseteq> {CHR '' ''} \<union> (\<Union>v \<in> set before. set v)"
    using join_with_app_prefix [of before] by blast
  obtain s where "join_with '' '' ((CHR ''['' # active @ '']'') # after) = (CHR ''['' # active @ '']'') @ s"
    using join_with_Cons_prefix by blast
  moreover have "bracket_free p" using p(2) assms by (fastforce simp: bracket_free_def list_all_iff)
  ultimately show ?thesis unfolding show_triggers_def append_Cons append_Nil p(1) by auto
qed

lemma active_trigger_round:
  assumes "list_all bracket_free before" "bracket_free active"
  shows "ParseActiveTrigger (show_triggers before active after) = active"
proof -
  obtain p s where ps: "show_triggers before active after = p @ CHR ''['' # active @ CHR '']'' # s" "bracket_free p"
    using show_triggers_split [OF assms(1)] by blast
  have "index_of (CHR ''['') (p @ CHR ''['' # active @ CHR '']'' # s) = Some (length p)"
    using ps(2) by (intro index_of_append) (simp add: bracket_free_def)
  moreover have "index_of (CHR '']'') ((p @ CHR ''['' # active) @ CHR '']'' # s) = Some (length (p @ CHR ''['' # active))"
    using ps(2) assms(2) by (intro index_of_append) (simp add: bracket_free_def)
  ultimately show ?thesis by (simp add: ps(1) ParseActiveTrigger_def)
qed

lemma filter_join: "sep \<noteq> [] \<Longrightarrow> list_all P sep \<Longrightarrow> filter P (join_with sep ws) = join_with sep (map (filter P) ws)"
  by (induction ws rule: induct_list012) (auto simp: list_all_iff)

lemma available_triggers_round:
  assumes "list_all (\<lambda>s. bracket_free s \<and> word_ok s) (before @ [active] @ after)"
  shows "ParseAvailableTriggers (show_triggers before active after) = before @ [active] @ after"
proof -
  have keep: "filter (\<lambda>c. c \<noteq> CHR '']'') (filter (\<lambda>c. c \<noteq> CHR ''['') v) = v" if "bracket_free v" for v
    using that by (auto simp: bracket_free_def filter_id_conv)
  have "filter (\<lambda>c. c \<noteq> CHR '']'') (filter (\<lambda>c. c \<noteq> CHR ''['') (show_triggers before active after)) = join_with '' '' (before @ [active] @ after)"
    using assms keep by (simp add: show_triggers_def filter_join list_all_iff map_idI)
  moreover have "list_all word_ok (before @ [active] @ after)" using assms by (simp add: list_all_iff)
  ultimately show ?thesis unfolding ParseAvailableTriggers_def by (metis fields_join)
qed

section \<open>The provider\<close>

text \<open>
  Once a first configuration was applied, the original settings of LEDs that a later configuration adds are not recorded, and a
  flush does not restore them.
\<close>

lemma apply_leds_original: "lp_originalState (fst (fst (apply_leds h ls pw))) = lp_originalState (fst pw)"
  by (induction h ls pw rule: apply_leds.induct) (auto split: prod.splits option.splits)

lemma led_original_fixed:
  "lp_originalState p \<noteq> [] \<Longrightarrow> lp_originalState (fst (fst (LED_ApplyConfig h config (p, w)))) = lp_originalState p"
  by (simp add: LED_ApplyConfig_def apply_leds_original split: option.splits)

text \<open>
  The kernel documents that writing 0 to the brightness of a LED clears its trigger. A LED whose configuration has a trigger and no brightness
  decodes to brightness 0, so that a successful application leaves it without a trigger.
\<close>

definition zero_clears_trigger :: "'w LedHost \<Rightarrow> bool" where
  "zero_clears_trigger h \<longleftrightarrow> (\<forall>ledName w w'. SetBrightness h ledName 0 w = (w', None) \<longrightarrow> GetTrigger h ledName w' = Inr ''none'')"

lemma led_trigger_cleared:
  assumes "zero_clears_trigger h" "le_Brightness s = 0" "applyLEDSettings h ledName s w = (w', None)"
  shows "GetTrigger h ledName w' = Inr ''none''"
  using assms by (auto simp: applyLEDSettings_def when_set_def zero_clears_trigger_def act_ok)

lemma led_default_brightness:
  "dec_LEDSettings (JObj [(''trigger'', JStr t)]) = Ok (zero_LEDSettings\<lparr>le_Trigger := t\<rparr>)"
  by (simp add: dec_LEDSettings_def dec_object_def dec_pairs_def find_handler_def field_of_def dec_string_def)

text \<open>A name with parent directories leads out of the directory of the LEDs.\<close>

lemma led_path_escapes: "GetLEDPath ''../../../tmp/x'' = ''/tmp/x''"
  by (simp add: GetLEDPath_def LEDBasePath_def filepath_join_def path_clean_def clean_step_def)

end
