(* ===== verification/Monitoring.thy ===== *)
theory Monitoring
  imports Plugin_Codec "HOL-Library.Word"
begin

text \<open>
  The monitoring plugin, \<open>src/plugins/core/monitoring\<close>: reading of \<open>/proc\<close> and of the link counters (\<open>metrics.go\<close>), the provider with its bandwidth history and
  its collection loops (\<open>provider.go\<close>), and the units of its output (\<open>rpc_provider.go\<close>). Counters are 64-bit words. Floating-point
  operations are arguments, and so are the contents of the files read.
\<close>

section \<open>Metrics\<close>

record 'f SystemMetrics =
  sm_Timestamp :: int
  sm_MemoryUsedMB :: "64 word"
  sm_MemoryTotalMB :: "64 word"
  sm_CPUPercent :: 'f
  sm_MemoryPercent :: 'f
  sm_LoadAvg1 :: 'f
  sm_LoadAvg5 :: 'f
  sm_LoadAvg15 :: 'f

record InterfaceMetrics =
  im_Timestamp :: int
  im_Name :: string
  im_State :: string
  im_RXBytes :: "64 word"
  im_TXBytes :: "64 word"
  im_RXPackets :: "64 word"
  im_TXPackets :: "64 word"
  im_RXErrors :: "64 word"
  im_TXErrors :: "64 word"
  im_RXBytesRate :: "64 word"
  im_TXBytesRate :: "64 word"

record MonitoringConfig =
  mc_Enabled :: bool
  mc_CollectionInterval :: int

text \<open>
  The operations on \<open>float64\<close> that the code performs: \<open>100.0 * (1.0 - idle / total)\<close>, \<open>used / total * 100\<close>, \<open>strconv.ParseFloat\<close> with 0 for an error,
  the conversion of a rate to megabits, and a rate in bytes over nanoseconds, truncated to 64 bits.
\<close>

record 'f Floats =
  fl_zero :: 'f
  fl_cpu :: "64 word \<Rightarrow> 64 word \<Rightarrow> 'f"
  fl_mem :: "64 word \<Rightarrow> 64 word \<Rightarrow> 'f"
  fl_parse :: "string \<Rightarrow> 'f"
  fl_mbps :: "64 word \<Rightarrow> 'f"
  fl_rate :: "64 word \<Rightarrow> int \<Rightarrow> 64 word"

section \<open>Reading files\<close>

text \<open>\<open>bufio.Scanner\<close>: the lines of a text, without a final carriage return; an empty last line is none.\<close>

definition drop_cr :: "string \<Rightarrow> string" where
  "drop_cr s = (if s \<noteq> [] \<and> last s = CHR 0x0D then butlast s else s)"

definition scan_lines :: "string \<Rightarrow> string list" where
  "scan_lines s =
     (let ls = split_on (CHR 0x0A) s in map drop_cr (if ls \<noteq> [] \<and> last ls = [] then butlast ls else ls))"

text \<open>\<open>strconv.ParseUint\<close> with its error dropped: 0 for a syntax error, the largest value when out of range.\<close>

definition parse_u64 :: "string \<Rightarrow> 64 word" where
  "parse_u64 s =
     (case parse_uint s of None \<Rightarrow> 0 | Some n \<Rightarrow> if n < 2 ^ 64 then of_nat n else - 1)"

definition readCPUStat :: "string + string \<Rightarrow> string + (64 word \<times> 64 word)" where
  "readCPUStat file =
     (case file of
        Inl e \<Rightarrow> Inl e
      | Inr content \<Rightarrow>
          (case filter (\<lambda>line. has_prefix line ''cpu '') (scan_lines content) of
             [] \<Rightarrow> Inr (0, 0)
           | line # _ \<Rightarrow>
               (let fs = go_fields line in
                if length fs < 5 then Inl ''invalid /proc/stat format''
                else Inr (parse_u64 (fs ! 4), sum_list (map parse_u64 (drop 1 fs))))))"

definition getCPUPercent :: "'f Floats \<Rightarrow> string + string \<Rightarrow> string + string \<Rightarrow> string + 'f" where
  "getCPUPercent fl file1 file2 =
     (case readCPUStat file1 of
        Inl e \<Rightarrow> Inl e
      | Inr (idle1, total1) \<Rightarrow>
          (case readCPUStat file2 of
             Inl e \<Rightarrow> Inl e
           | Inr (idle2, total2) \<Rightarrow>
               (let idleDelta = idle2 - idle1; totalDelta = total2 - total1 in
                if totalDelta = 0 then Inr (fl_zero fl) else Inr (fl_cpu fl idleDelta totalDelta))))"

record MemInfo =
  mi_memTotal :: "64 word"
  mi_memFree :: "64 word"
  mi_memBuffers :: "64 word"
  mi_memCached :: "64 word"

definition mem_line :: "MemInfo \<Rightarrow> string \<Rightarrow> MemInfo" where
  "mem_line m line =
     (let fs = go_fields line in
      if length fs < 2 then m
      else let v = parse_u64 (fs ! 1) in
        if fs ! 0 = ''MemTotal:'' then m\<lparr>mi_memTotal := v\<rparr>
        else if fs ! 0 = ''MemFree:'' then m\<lparr>mi_memFree := v\<rparr>
        else if fs ! 0 = ''Buffers:'' then m\<lparr>mi_memBuffers := v\<rparr>
        else if fs ! 0 = ''Cached:'' then m\<lparr>mi_memCached := v\<rparr>
        else m)"

definition getMemoryInfo :: "string + string \<Rightarrow> string + (64 word \<times> 64 word)" where
  "getMemoryInfo file =
     (case file of
        Inl e \<Rightarrow> Inl e
      | Inr content \<Rightarrow>
          (let m = foldl mem_line \<lparr>mi_memTotal = 0, mi_memFree = 0, mi_memBuffers = 0, mi_memCached = 0\<rparr> (scan_lines content) in
           Inr ((mi_memTotal m - mi_memFree m - mi_memBuffers m - mi_memCached m) div 1024, mi_memTotal m div 1024)))"

definition getLoadAverage :: "'f Floats \<Rightarrow> string + string \<Rightarrow> string + ('f \<times> 'f \<times> 'f)" where
  "getLoadAverage fl file =
     (case file of
        Inl e \<Rightarrow> Inl e
      | Inr data \<Rightarrow>
          (let fs = go_fields data in
           if length fs < 3 then Inl ''invalid /proc/loadavg format''
           else Inr (fl_parse fl (fs ! 0), fl_parse fl (fs ! 1), fl_parse fl (fs ! 2))))"

text \<open>The files of one collection: \<open>/proc/stat\<close> twice, \<open>/proc/meminfo\<close>, \<open>/proc/loadavg\<close>.\<close>

record ProcFiles =
  pf_stat1 :: "string + string"
  pf_stat2 :: "string + string"
  pf_meminfo :: "string + string"
  pf_loadavg :: "string + string"

definition GetSystemMetrics :: "'f Floats \<Rightarrow> int \<Rightarrow> ProcFiles \<Rightarrow> 'f SystemMetrics" where
  "GetSystemMetrics fl now files =
     (let (cpu :: 'f) = (case getCPUPercent fl (pf_stat1 files) (pf_stat2 files) of Inl _ \<Rightarrow> fl_zero fl | Inr c \<Rightarrow> c);
          (used, total) = (case getMemoryInfo (pf_meminfo files) of Inl _ \<Rightarrow> (0, 0) | Inr ut \<Rightarrow> ut);
          (l1, l5, l15) = (case getLoadAverage fl (pf_loadavg files) of Inl _ \<Rightarrow> (fl_zero fl, fl_zero fl, fl_zero fl) | Inr l \<Rightarrow> l) in
      \<lparr>sm_Timestamp = now, sm_MemoryUsedMB = used, sm_MemoryTotalMB = total, sm_CPUPercent = cpu,
       sm_MemoryPercent = (if total > 0 then fl_mem fl used total else fl_zero fl),
       sm_LoadAvg1 = l1, sm_LoadAvg5 = l5, sm_LoadAvg15 = l15\<rparr>)"

section \<open>Interfaces\<close>

record LinkStats =
  st_RxBytes :: "64 word"
  st_TxBytes :: "64 word"
  st_RxPackets :: "64 word"
  st_TxPackets :: "64 word"
  st_RxErrors :: "64 word"
  st_TxErrors :: "64 word"

definition link_metrics :: "int \<Rightarrow> string \<times> bool \<times> LinkStats \<Rightarrow> InterfaceMetrics" where
  "link_metrics now l =
     (case l of (name, up, stats) \<Rightarrow>
        \<lparr>im_Timestamp = now, im_Name = name, im_State = (if up then ''UP'' else ''DOWN''), im_RXBytes = st_RxBytes stats,
         im_TXBytes = st_TxBytes stats, im_RXPackets = st_RxPackets stats, im_TXPackets = st_TxPackets stats,
         im_RXErrors = st_RxErrors stats, im_TXErrors = st_TxErrors stats, im_RXBytesRate = 0, im_TXBytesRate = 0\<rparr>)"

text \<open>The links netlink lists: name, whether up, and the counters, which may be missing.\<close>

definition GetInterfaceMetrics :: "int \<Rightarrow> string + (string \<times> bool \<times> LinkStats option) list \<Rightarrow> string + InterfaceMetrics list" where
  "GetInterfaceMetrics now links =
     (case links of
        Inl e \<Rightarrow> Inl (''failed to list links: '' @ e)
      | Inr ls \<Rightarrow>
          Inr (concat (map (\<lambda>(name, up, stats).
            if name = ''lo'' then []
            else (case stats of None \<Rightarrow> [] | Some st \<Rightarrow> [link_metrics now (name, up, st)])) ls)))"

definition CalculateRates :: "'f Floats \<Rightarrow> InterfaceMetrics list \<Rightarrow> InterfaceMetrics list \<Rightarrow> InterfaceMetrics list" where
  "CalculateRates fl prev current =
     (let prevMap = foldl (\<lambda>m p. mput (im_Name p) p m) [] prev in
      map (\<lambda>curr.
        (case mget prevMap (im_Name curr) of
           None \<Rightarrow> curr
         | Some p \<Rightarrow>
             (let timeDelta = im_Timestamp curr - im_Timestamp p in
              if timeDelta > 0 then
                curr\<lparr>im_RXBytesRate := fl_rate fl (im_RXBytes curr - im_RXBytes p) timeDelta,
                     im_TXBytesRate := fl_rate fl (im_TXBytes curr - im_TXBytes p) timeDelta\<rparr>
              else curr))) current)"

section \<open>History\<close>

record 'f InterfaceHistory =
  ih_RXRates :: "'f list"
  ih_TXRates :: "'f list"
  ih_Timestamps :: "int list"
  ih_maxSize :: nat

definition NewInterfaceHistory :: "nat \<Rightarrow> 'f InterfaceHistory" where
  "NewInterfaceHistory n = \<lparr>ih_RXRates = [], ih_TXRates = [], ih_Timestamps = [], ih_maxSize = n\<rparr>"

text \<open>Slicing an empty slice from 1 panics, which is None.\<close>

definition slice_from_1 :: "'a list \<Rightarrow> 'a list option" where
  "slice_from_1 xs = (if xs = [] then None else Some (drop 1 xs))"

definition history_Add :: "'f \<Rightarrow> 'f \<Rightarrow> int \<Rightarrow> 'f InterfaceHistory \<Rightarrow> 'f InterfaceHistory option" where
  "history_Add rxRate txRate timestamp h =
     (case (if length (ih_RXRates h) \<ge> ih_maxSize h then
              (case (slice_from_1 (ih_RXRates h), slice_from_1 (ih_TXRates h), slice_from_1 (ih_Timestamps h)) of
                 (Some r, Some t, Some ts) \<Rightarrow> Some (h\<lparr>ih_RXRates := r, ih_TXRates := t, ih_Timestamps := ts\<rparr>)
               | _ \<Rightarrow> None)
            else Some h) of
        None \<Rightarrow> None
      | Some h' \<Rightarrow>
          Some (h'\<lparr>ih_RXRates := ih_RXRates h' @ [rxRate], ih_TXRates := ih_TXRates h' @ [txRate],
                   ih_Timestamps := ih_Timestamps h' @ [timestamp]\<rparr>))"

record 'f MonitoringProvider =
  mp_lastUpdate :: int
  mp_systemMetrics :: "'f SystemMetrics option"
  mp_config :: "MonitoringConfig option"
  mp_interfaceMetrics :: "InterfaceMetrics list"
  mp_prevInterfaceMetrics :: "InterfaceMetrics list"
  mp_bandwidthHistory :: "(string, 'f InterfaceHistory) gomap"

definition NewMonitoringProvider :: "int \<Rightarrow> 'f MonitoringProvider" where
  "NewMonitoringProvider now =
     \<lparr>mp_lastUpdate = now, mp_systemMetrics = None, mp_config = None, mp_interfaceMetrics = [], mp_prevInterfaceMetrics = [],
      mp_bandwidthHistory = []\<rparr>"

definition add_history ::
  "'f Floats \<Rightarrow> InterfaceMetrics \<Rightarrow> (string, 'f InterfaceHistory) gomap \<Rightarrow> (string, 'f InterfaceHistory) gomap option" where
  "add_history fl metric m =
     map_option (\<lambda>h. mput (im_Name metric) h m)
       (history_Add (fl_mbps fl (im_RXBytesRate metric)) (fl_mbps fl (im_TXBytesRate metric)) (im_Timestamp metric)
          (case mget m (im_Name metric) of None \<Rightarrow> NewInterfaceHistory 12 | Some h \<Rightarrow> h))"

fun add_histories ::
  "'f Floats \<Rightarrow> InterfaceMetrics list \<Rightarrow> (string, 'f InterfaceHistory) gomap \<Rightarrow> (string, 'f InterfaceHistory) gomap option" where
  "add_histories fl [] m = Some m"
| "add_histories fl (x # xs) m = (case add_history fl x m of None \<Rightarrow> None | Some m' \<Rightarrow> add_histories fl xs m')"

definition updateMetrics ::
  "'f Floats \<Rightarrow> int \<Rightarrow> ProcFiles \<Rightarrow> string + (string \<times> bool \<times> LinkStats option) list \<Rightarrow>
   'f MonitoringProvider \<Rightarrow> 'f MonitoringProvider option" where
  "updateMetrics fl now files links p0 =
     (let p = p0\<lparr>mp_systemMetrics := Some (GetSystemMetrics fl now files)\<rparr> in
      case GetInterfaceMetrics now links of
        Inl _ \<Rightarrow> Some p
      | Inr ifMetrics \<Rightarrow>
          (let p1 = p\<lparr>mp_prevInterfaceMetrics := mp_interfaceMetrics p, mp_interfaceMetrics := ifMetrics, mp_lastUpdate := now\<rparr> in
           if length (mp_prevInterfaceMetrics p1) > 0 then
             (let rated = CalculateRates fl (mp_prevInterfaceMetrics p1) (mp_interfaceMetrics p1) in
              map_option (\<lambda>m. p1\<lparr>mp_interfaceMetrics := rated, mp_bandwidthHistory := m\<rparr>)
                (add_histories fl rated (mp_bandwidthHistory p1)))
           else Some p1))"

section \<open>Units\<close>

text \<open>
  The loop of \<open>formatBytes\<close> and \<open>formatBandwidth\<close>, with \<open>n\<close> the quotient so far: the divisor and the index of the unit.
\<close>

function unit_loop :: "nat \<Rightarrow> 64 word \<Rightarrow> nat \<Rightarrow> 64 word \<times> nat" where
  "unit_loop n d e = (if n \<ge> 1024 then unit_loop (n div 1024) (d * 1024) (e + 1) else (d, e))"
  by pat_completeness auto

termination unit_loop
  by (relation "measure (\<lambda>(n, d, e). n)") auto

declare unit_loop.simps [simp del]

text \<open>\<open>format2\<close> prints a quotient with two decimals; the unit is a character of the string, whose index may not exceed 5.\<close>

definition format_unit :: "(64 word \<Rightarrow> 64 word \<Rightarrow> string) \<Rightarrow> string \<Rightarrow> 64 word \<Rightarrow> string outcome" where
  "format_unit format2 per bytes =
     (if bytes = 0 then Ok (''0 B'' @ per)
      else if bytes < 1024 then Ok (show_nat (unat bytes) @ '' B'' @ per)
      else
        (case unit_loop (unat bytes div 1024) 1024 0 of (d, e) \<Rightarrow>
           if e < 6 then Ok (format2 bytes d @ '' '' @ [''KMGTPE'' ! e] @ ''iB'' @ per) else Panic))"

definition formatBytes :: "(64 word \<Rightarrow> 64 word \<Rightarrow> string) \<Rightarrow> 64 word \<Rightarrow> string outcome" where
  "formatBytes format2 bytes = format_unit format2 '''' bytes"

definition formatBandwidth :: "(64 word \<Rightarrow> 64 word \<Rightarrow> string) \<Rightarrow> 64 word \<Rightarrow> string outcome" where
  "formatBandwidth format2 bytesPerSec = format_unit format2 ''/s'' bytesPerSec"

section \<open>Collection loops\<close>

text \<open>
  \<open>ApplyConfig\<close>, \<open>Stop\<close> and the goroutines of \<open>monitoringLoop\<close> as interleaved steps. Channels are numbered in the order of their creation. A loop is collecting, or
  it waits in its \<open>select\<close> on the channel that was current when it entered it. \<open>ml_applying\<close> holds between the two halves of an apply.
\<close>

datatype loop = Collecting | Waiting nat

record monitor =
  ml_chan :: nat
  ml_closed :: "nat list"
  ml_loops :: "loop list"
  ml_applying :: bool

definition monitor_init :: monitor where
  "monitor_init = \<lparr>ml_chan = 0, ml_closed = [], ml_loops = [], ml_applying = False\<rparr>"

definition monitor_Stop :: "monitor \<Rightarrow> monitor" where
  "monitor_Stop m = (if ml_chan m \<in> set (ml_closed m) then m else m\<lparr>ml_closed := ml_chan m # ml_closed m\<rparr>)"

inductive monitor_step :: "monitor \<Rightarrow> monitor \<Rightarrow> bool" where
  stop: "\<not> ml_applying m \<Longrightarrow> monitor_step m (monitor_Stop m)"
| apply_stop: "\<not> ml_applying m \<Longrightarrow> monitor_step m ((monitor_Stop m)\<lparr>ml_applying := True\<rparr>)"
| apply_start: "ml_applying m \<Longrightarrow>
    monitor_step m (m\<lparr>ml_chan := ml_chan m + 1, ml_loops := ml_loops m @ [Collecting], ml_applying := False\<rparr>)"
| enter: "i < length (ml_loops m) \<Longrightarrow> ml_loops m ! i = Collecting \<Longrightarrow>
    monitor_step m (m\<lparr>ml_loops := (ml_loops m)[i := Waiting (ml_chan m)]\<rparr>)"
| tick: "i < length (ml_loops m) \<Longrightarrow> ml_loops m ! i = Waiting c \<Longrightarrow>
    monitor_step m (m\<lparr>ml_loops := (ml_loops m)[i := Collecting]\<rparr>)"
| finish: "i < length (ml_loops m) \<Longrightarrow> ml_loops m ! i = Waiting c \<Longrightarrow> c \<in> set (ml_closed m) \<Longrightarrow>
    monitor_step m (m\<lparr>ml_loops := take i (ml_loops m) @ drop (Suc i) (ml_loops m)\<rparr>)"

end
