(* ===== verification/Monitoring_Facts.thy ===== *)
theory Monitoring_Facts
  imports Monitoring
begin

text \<open>
  What the monitoring plugin guarantees: the unit of a printed size always exists and fits, the history is bounded and collecting never
  panics, and which collection loops a stop ends.
\<close>

section \<open>Units\<close>

lemma unit_loop_index: "n < 1024 ^ k \<Longrightarrow> 0 < k \<Longrightarrow> snd (unit_loop n d e) < e + k"
proof (induction n d e arbitrary: k rule: unit_loop.induct)
  case (1 n d e)
  show ?case
  proof (cases "n \<ge> 1024")
    case True
    obtain j where k: "k = Suc j" using "1.prems"(2) by (cases k) auto
    with "1.prems"(1) have j: "n div 1024 < 1024 ^ j" by (simp add: less_mult_imp_div_less mult.commute)
    with True have "0 < j" by (cases j) auto
    with "1.IH" [OF True j] True k show ?thesis by (subst unit_loop.simps) simp
  next
    case False
    with "1.prems"(2) show ?thesis by (subst unit_loop.simps) simp
  qed
qed

lemma unit_loop_divisor:
  assumes "unit_loop n d e = (d', e')" "unat d * n \<le> b" "b < unat d * (n + 1)" "b < 2 ^ 64" "0 < n"
  shows "unat d' \<le> b \<and> b < 1024 * unat d' \<and> unat d' = unat d * 1024 ^ (e' - e) \<and> e \<le> e'"
  using assms
proof (induction n d e rule: unit_loop.induct)
  case (1 n d e)
  show ?case
  proof (cases "n \<ge> 1024")
    case True
    have "unat d * 1024 \<le> unat d * n" using True by simp
    with "1.prems"(2,4) have "unat d * 1024 < 2 ^ 64" by linarith
    then have d: "unat (d * 1024) = unat d * 1024" by (subst unat_mult_lem [THEN iffD1]) simp_all
    have q: "1024 * (n div 1024) \<le> n" "n < 1024 * (n div 1024 + 1)" by (simp_all add: Suc_leI dividend_less_times_div)
    have "unat d * (1024 * (n div 1024)) \<le> unat d * n" by (rule mult_le_mono2 [OF q(1)])
    then have lo: "unat (d * 1024) * (n div 1024) \<le> b" using "1.prems"(2) unfolding d mult.assoc by linarith
    have "unat d * (n + 1) \<le> unat d * (1024 * (n div 1024 + 1))" using q(2) by (intro mult_le_mono2) simp
    then have hi: "b < unat (d * 1024) * (n div 1024 + 1)" using "1.prems"(3) unfolding d mult.assoc by linarith
    have "unit_loop (n div 1024) (d * 1024) (e + 1) = (d', e')"
      using "1.prems"(1) True by (subst (asm) unit_loop.simps) simp
    moreover have "0 < n div 1024" using True by (simp add: div_greater_zero_iff)
    ultimately have ih: "unat d' \<le> b" "b < 1024 * unat d'" "unat d' = unat d * 1024 * 1024 ^ (e' - (e + 1))" "e + 1 \<le> e'"
      using "1.IH" [OF True _ lo hi "1.prems"(4)] d by auto
    have "(1024 :: nat) ^ (e' - e) = 1024 * 1024 ^ (e' - (e + 1))" using ih(4) by (metis Suc_diff_le Suc_eq_plus1 diff_Suc_Suc power_Suc)
    then show ?thesis using ih by (simp add: mult.assoc)
  next
    case False
    then have dd: "d' = d" "e' = e" using "1.prems"(1) by (subst (asm) unit_loop.simps, simp)+
    have "unat d * (n + 1) \<le> unat d * 1024" using False by (intro mult_le_mono2) simp
    then have "b < unat d * 1024" using "1.prems"(3) by (rule less_le_trans [rotated])
    moreover have "unat d * 1 \<le> unat d * n" using "1.prems"(5) by (intro mult_le_mono2) simp
    then have "unat d * 1 \<le> b" using "1.prems"(2) by (rule order_trans)
    ultimately show ?thesis using dd by (simp add: mult.commute)
  qed
qed

text \<open>
  The printed size of any 64-bit counter has a unit: the index into the six unit letters is in range, the divisor is the
  matching power of 1024 without overflow, and the printed quotient is at least 1 and below 1024.
\<close>

theorem format_units:
  "formatBytes f b \<noteq> Panic \<and> formatBandwidth f b \<noteq> Panic \<and>
   (1024 \<le> b \<longrightarrow> (\<exists>d e. unit_loop (unat b div 1024) 1024 0 = (d, e) \<and> e < 6 \<and> unat d = 1024 ^ (e + 1) \<and> unat d \<le> unat b \<and> unat b < 1024 * unat d))"
proof -
  have b: "unat b < 2 ^ 64" using unsigned_less [of b] by simp
  have "unat b div 1024 < 1024 ^ 6" using b by (simp add: less_mult_imp_div_less)
  then have e: "snd (unit_loop (unat b div 1024) 1024 0) < 6" using unit_loop_index [of _ 6 1024 0] by simp
  have np: "formatBytes f b \<noteq> Panic" "formatBandwidth f b \<noteq> Panic"
    using e by (auto simp: formatBytes_def formatBandwidth_def format_unit_def split: prod.splits)
  show ?thesis
  proof (intro conjI np impI)
    assume "1024 \<le> b"
    then have g: "1024 \<le> unat b" by (simp add: word_le_nat_alt)
    obtain d e' where de: "unit_loop (unat b div 1024) 1024 0 = (d, e')" by fastforce
    have "unat (1024 :: 64 word) * (unat b div 1024) \<le> unat b" "unat b < unat (1024 :: 64 word) * (unat b div 1024 + 1)"
      by (simp_all add: dividend_less_times_div Suc_leI)
    from unit_loop_divisor [OF de this b] g e de show
      "\<exists>d e. unit_loop (unat b div 1024) 1024 0 = (d, e) \<and> e < 6 \<and> unat d = 1024 ^ (e + 1) \<and> unat d \<le> unat b \<and> unat b < 1024 * unat d"
      by (auto simp: div_greater_zero_iff)
  qed
qed

section \<open>History\<close>

definition hist_ok :: "'f InterfaceHistory \<Rightarrow> bool" where
  "hist_ok h \<longleftrightarrow> length (ih_TXRates h) = length (ih_RXRates h) \<and> length (ih_Timestamps h) = length (ih_RXRates h) \<and>
     length (ih_RXRates h) \<le> 12 \<and> ih_maxSize h = 12"

lemma history_Add_ok:
  assumes "hist_ok h"
  shows "\<exists>h'. history_Add r t ts h = Some h' \<and> hist_ok h'"
proof (cases "length (ih_RXRates h) \<ge> 12")
  case True
  with assms have "ih_RXRates h \<noteq> []" "ih_TXRates h \<noteq> []" "ih_Timestamps h \<noteq> []" by (auto simp: hist_ok_def)
  with True assms show ?thesis by (auto simp: history_Add_def slice_from_1_def hist_ok_def)
next
  case False
  with assms show ?thesis by (auto simp: history_Add_def hist_ok_def)
qed

definition histories_ok :: "(string, 'f InterfaceHistory) gomap \<Rightarrow> bool" where
  "histories_ok m \<longleftrightarrow> (\<forall>k h. mget m k = Some h \<longrightarrow> hist_ok h)"

lemma add_history_ok:
  assumes "histories_ok m"
  shows "\<exists>m'. add_history fl x m = Some m' \<and> histories_ok m'"
proof -
  have "hist_ok (case mget m (im_Name x) of None \<Rightarrow> NewInterfaceHistory 12 | Some h \<Rightarrow> h)"
    using assms by (auto simp: histories_ok_def NewInterfaceHistory_def hist_ok_def split: option.splits)
  from history_Add_ok [OF this] obtain h' where
    h': "history_Add (fl_mbps fl (im_RXBytesRate x)) (fl_mbps fl (im_TXBytesRate x)) (im_Timestamp x)
           (case mget m (im_Name x) of None \<Rightarrow> NewInterfaceHistory 12 | Some h \<Rightarrow> h) = Some h'" "hist_ok h'" by blast
  then have "add_history fl x m = Some (mput (im_Name x) h' m)" by (simp add: add_history_def)
  moreover have "histories_ok (mput (im_Name x) h' m)" using assms h'(2) by (simp add: histories_ok_def update_conv')
  ultimately show ?thesis by blast
qed

lemma add_histories_ok: "histories_ok m \<Longrightarrow> \<exists>m'. add_histories fl xs m = Some m' \<and> histories_ok m'"
proof (induction xs arbitrary: m)
  case (Cons x xs)
  from add_history_ok [OF Cons.prems, of fl x] obtain m1 where "add_history fl x m = Some m1" "histories_ok m1" by blast
  with Cons.IH [of m1] show ?case by auto
qed simp

lemma updateMetrics_ok:
  assumes "histories_ok (mp_bandwidthHistory p)"
  shows "\<exists>p'. updateMetrics fl now files links p = Some p' \<and> histories_ok (mp_bandwidthHistory p')"
proof (cases "GetInterfaceMetrics now links")
  case (Inl e)
  with assms show ?thesis by (simp add: updateMetrics_def)
next
  case (Inr ms)
  from assms add_histories_ok obtain m' where
    "add_histories fl (CalculateRates fl (mp_interfaceMetrics p) ms) (mp_bandwidthHistory p) = Some m'" "histories_ok m'" by blast
  with Inr assms show ?thesis by (auto simp: updateMetrics_def Let_def)
qed

text \<open>The states of the provider after any number of collections.\<close>

type_synonym collection = "int \<times> ProcFiles \<times> (string + (string \<times> bool \<times> LinkStats option) list)"

fun collect :: "'f Floats \<Rightarrow> collection list \<Rightarrow> 'f MonitoringProvider \<Rightarrow> 'f MonitoringProvider option" where
  "collect fl [] p = Some p"
| "collect fl ((now, files, links) # cs) p =
     (case updateMetrics fl now files links p of None \<Rightarrow> None | Some p' \<Rightarrow> collect fl cs p')"

lemma collect_ok: "histories_ok (mp_bandwidthHistory p) \<Longrightarrow> \<exists>p'. collect fl cs p = Some p' \<and> histories_ok (mp_bandwidthHistory p')"
proof (induction cs arbitrary: p)
  case (Cons c cs)
  obtain now files links where c: "c = (now, files, links)" by (cases c)
  from updateMetrics_ok [OF Cons.prems, of fl now files links] obtain p1 where
    "updateMetrics fl now files links p = Some p1" "histories_ok (mp_bandwidthHistory p1)" by blast
  with Cons.IH [of p1] c show ?case by auto
qed simp

text \<open>
  Collecting any number of times from the start, whatever the files and links say, never panics, and every history keeps at most twelve points
  with as many rates as timestamps.
\<close>

theorem history_bounded:
  "\<exists>p. collect fl cs (NewMonitoringProvider t0) = Some p \<and>
     (\<forall>name h. mget (mp_bandwidthHistory p) name = Some h \<longrightarrow>
        length (ih_RXRates h) \<le> 12 \<and> length (ih_TXRates h) = length (ih_RXRates h) \<and> length (ih_Timestamps h) = length (ih_RXRates h))"
  using collect_ok [of "NewMonitoringProvider t0" fl cs] by (auto simp: NewMonitoringProvider_def histories_ok_def hist_ok_def)

section \<open>Collection loops\<close>

definition monitor_inv :: "monitor \<Rightarrow> bool" where
  "monitor_inv m \<longleftrightarrow>
     (\<forall>c. Waiting c \<in> set (ml_loops m) \<longrightarrow> c \<le> ml_chan m) \<and> (\<forall>c < ml_chan m. c \<in> set (ml_closed m)) \<and>
     (ml_applying m \<longrightarrow> ml_chan m \<in> set (ml_closed m))"

lemma monitor_Stop_simps [simp]:
  "ml_chan (monitor_Stop m) = ml_chan m" "ml_loops (monitor_Stop m) = ml_loops m"
  "set (ml_closed (monitor_Stop m)) = insert (ml_chan m) (set (ml_closed m))"
  by (auto simp: monitor_Stop_def)

lemma monitor_step_inv: "monitor_step m m' \<Longrightarrow> monitor_inv m \<Longrightarrow> monitor_inv m'"
proof (induction rule: monitor_step.induct)
  case (apply_start m)
  then show ?case by (auto simp: monitor_inv_def less_Suc_eq dest: le_SucI)
next
  case (enter i m)
  then show ?case by (auto simp: monitor_inv_def dest!: set_update_subset_insert [THEN subsetD])
next
  case (tick i m c)
  then show ?case by (auto simp: monitor_inv_def dest!: set_update_subset_insert [THEN subsetD])
next
  case (finish i m c)
  then show ?case by (auto simp: monitor_inv_def dest: in_set_takeD in_set_dropD)
qed (auto simp: monitor_inv_def)

lemma monitor_reachable_inv: "monitor_step\<^sup>*\<^sup>* monitor_init m \<Longrightarrow> monitor_inv m"
proof (induction rule: rtranclp_induct)
  case base
  show ?case by (simp add: monitor_init_def monitor_inv_def)
next
  case (step m m')
  then show ?case by (blast intro: monitor_step_inv)
qed

lemma loops_end:
  assumes "monitor_inv m" "ml_chan m \<in> set (ml_closed m)"
  shows "\<exists>m'. monitor_step\<^sup>*\<^sup>* m m' \<and> ml_loops m' = [] \<and> ml_chan m' = ml_chan m"
  using assms
proof (induction "length (ml_loops m)" arbitrary: m)
  case 0
  then show ?case by auto
next
  case (Suc n)
  then obtain l ls where ls: "ml_loops m = l # ls" by (cases "ml_loops m") auto
  let ?rest = "m\<lparr>ml_loops := ls\<rparr>"
  have "monitor_step\<^sup>*\<^sup>* m ?rest"
  proof (cases l)
    case Collecting
    let ?w = "m\<lparr>ml_loops := Waiting (ml_chan m) # ls\<rparr>"
    have "monitor_step m ?w" using monitor_step.enter [of 0 m] ls Collecting by simp
    moreover have "monitor_step ?w ?rest" using monitor_step.finish [of 0 ?w "ml_chan m"] Suc.prems by simp
    ultimately show ?thesis by (meson converse_rtranclp_into_rtranclp r_into_rtranclp)
  next
    case (Waiting c)
    then have "c \<le> ml_chan m" using Suc.prems(1) ls by (simp add: monitor_inv_def)
    then have "c \<in> set (ml_closed m)" using Suc.prems by (auto simp: monitor_inv_def le_less)
    then show ?thesis using monitor_step.finish [of 0 m c] ls Waiting by auto
  qed
  moreover have "monitor_inv ?rest" using Suc.prems(1) ls by (auto simp: monitor_inv_def)
  ultimately show ?case using Suc.hyps(1) [of ?rest] Suc.hyps(2) Suc.prems(2) ls by (auto intro: rtranclp_trans)
qed


definition monitor_at :: "nat \<Rightarrow> nat list \<Rightarrow> loop list \<Rightarrow> bool \<Rightarrow> monitor" where
  "monitor_at ch cl ls applying = \<lparr>ml_chan = ch, ml_closed = cl, ml_loops = ls, ml_applying = applying\<rparr>"

lemma first_apply:
  "monitor_step monitor_init (monitor_at 0 [0] [] True)" "monitor_step (monitor_at 0 [0] [] True) (monitor_at 1 [0] [Collecting] False)"
  using monitor_step.apply_stop [of monitor_init] monitor_step.apply_start [of "monitor_at 0 [0] [] True"]
  by (simp_all add: monitor_at_def monitor_init_def monitor_Stop_def)

lemma first_apply_reaches: "monitor_step\<^sup>*\<^sup>* monitor_init (monitor_at 1 [0] [Collecting] False)"
  using first_apply by (meson converse_rtranclp_into_rtranclp rtranclp.rtrancl_refl)


text \<open>
  A second apply that arrives while the first loop is collecting leaves two loops running: the first one enters its \<open>select\<close> with the new channel.
\<close>

lemma monitor_leak:
  "\<exists>m. monitor_step\<^sup>*\<^sup>* monitor_init m \<and> ml_loops m = [Waiting 2, Waiting 2] \<and> ml_chan m = 2 \<and> 2 \<notin> set (ml_closed m)"
proof -
  have s3: "monitor_step (monitor_at 1 [0] [Collecting] False) (monitor_at 1 [1, 0] [Collecting] True)"
    using monitor_step.apply_stop [of "monitor_at 1 [0] [Collecting] False"] by (simp add: monitor_at_def monitor_Stop_def)
  have s4: "monitor_step (monitor_at 1 [1, 0] [Collecting] True) (monitor_at 2 [1, 0] [Collecting, Collecting] False)"
    using monitor_step.apply_start [of "monitor_at 1 [1, 0] [Collecting] True"] by (simp add: monitor_at_def numeral_2_eq_2)
  have s5: "monitor_step (monitor_at 2 [1, 0] [Collecting, Collecting] False) (monitor_at 2 [1, 0] [Waiting 2, Collecting] False)"
    using monitor_step.enter [of 0 "monitor_at 2 [1, 0] [Collecting, Collecting] False"] by (simp add: monitor_at_def)
  have s6: "monitor_step (monitor_at 2 [1, 0] [Waiting 2, Collecting] False) (monitor_at 2 [1, 0] [Waiting 2, Waiting 2] False)"
    using monitor_step.enter [of 1 "monitor_at 2 [1, 0] [Waiting 2, Collecting] False"] by (simp add: monitor_at_def)
  have "monitor_step\<^sup>*\<^sup>* monitor_init (monitor_at 2 [1, 0] [Waiting 2, Waiting 2] False)"
    using first_apply_reaches s3 s4 s5 s6 by (meson rtranclp.rtrancl_into_rtrancl)
  then show ?thesis by (intro exI [of _ "monitor_at 2 [1, 0] [Waiting 2, Waiting 2] False"]) (simp add: monitor_at_def)
qed

text \<open>A counter that went down, as after a restart of its device, gives the difference modulo \<open>2^64\<close>.\<close>

lemma rate_after_reset:
  assumes "im_Name c = im_Name p" "im_Timestamp p < im_Timestamp c"
  shows "map im_RXBytesRate (CalculateRates fl [p] [c]) = [fl_rate fl (im_RXBytes c - im_RXBytes p) (im_Timestamp c - im_Timestamp p)]"
  using assms by (simp add: CalculateRates_def Let_def)

end
