(* ===== verification/Monitoring_Rpc.thy ===== *)
theory Monitoring_Rpc
  imports Monitoring_Facts Go_Text
begin

text \<open>
  The RPC surface of the monitoring plugin, \<open>src/plugins/core/monitoring/rpc_provider.go\<close>, with the apply and the status of its provider. The \<open>fmt\<close> verbs for floats, the
  format of times and the third-party plots are arguments.
\<close>

section \<open>Configuration\<close>

definition dec_MonitoringConfig :: "json \<Rightarrow> MonitoringConfig outcome" where
  "dec_MonitoringConfig v =
     dec_object ''main.MonitoringConfig''
       [bool_field ''enabled'' mc_Enabled mc_Enabled_update, int_field ''collection_interval'' mc_CollectionInterval mc_CollectionInterval_update] v
       \<lparr>mc_Enabled = False, mc_CollectionInterval = 0\<rparr>"

text \<open>An apply that nothing interleaves with; the collection loop it starts is a goroutine of \<open>monitor\<close>.\<close>

definition Monitoring_apply :: "MonitoringConfig option \<Rightarrow> 'f MonitoringProvider \<times> monitor \<Rightarrow> 'f MonitoringProvider \<times> monitor" where
  "Monitoring_apply config pm =
     (case pm of (p, m) \<Rightarrow>
        (p\<lparr>mp_config := config\<rparr>,
         case config of
           None \<Rightarrow> m
         | Some c \<Rightarrow>
             if \<not> mc_Enabled c then monitor_Stop m
             else (let m1 = monitor_Stop m in m1\<lparr>ml_chan := ml_chan m1 + 1, ml_loops := ml_loops m1 @ [Collecting]\<rparr>)))"

definition Monitoring_rpc_ApplyConfig ::
  "json \<Rightarrow> 'f MonitoringProvider \<times> monitor \<Rightarrow> ('f MonitoringProvider \<times> monitor) \<times> unit outcome" where
  "Monitoring_rpc_ApplyConfig configJSON pm =
     (case dec_MonitoringConfig configJSON of
        Err e \<Rightarrow> (pm, Err e)
      | Panic \<Rightarrow> (pm, Panic)
      | Ok config \<Rightarrow> (Monitoring_apply (Some config) pm, Ok ()))"

definition Monitoring_rpc_ValidateConfig :: "json \<Rightarrow> unit outcome" where
  "Monitoring_rpc_ValidateConfig configJSON = obind (dec_MonitoringConfig configJSON) (\<lambda>_. Ok ())"

definition Monitoring_rpc_Flush :: "'f MonitoringProvider \<times> monitor \<Rightarrow> 'f MonitoringProvider \<times> monitor" where
  "Monitoring_rpc_Flush pm = (fst pm, monitor_Stop (snd pm))"

record 'f MonitoringStatus =
  ms_enabled :: bool
  ms_last_update :: int
  ms_system_metrics :: "'f SystemMetrics option"
  ms_interface_metrics :: "InterfaceMetrics list"

definition Monitoring_Status :: "'f MonitoringProvider \<Rightarrow> 'f MonitoringStatus" where
  "Monitoring_Status p =
     \<lparr>ms_enabled = (case mp_config p of None \<Rightarrow> False | Some c \<Rightarrow> mc_Enabled c), ms_last_update = mp_lastUpdate p,
      ms_system_metrics = mp_systemMetrics p, ms_interface_metrics = mp_interfaceMetrics p\<rparr>"

section \<open>Commands\<close>

text \<open>\<open>%5.1f\<close>, \<open>%.2f\<close>, \<open>%6.2f\<close> of a float, a date, a time of day, the quotient of \<open>formatBytes\<close> and \<open>asciigraph.Plot\<close>.\<close>

record 'f Formats =
  fm_percent :: "'f \<Rightarrow> string"
  fm_load :: "'f \<Rightarrow> string"
  fm_mbps :: "'f \<Rightarrow> string"
  fm_date :: "int \<Rightarrow> string"
  fm_unit :: "64 word \<Rightarrow> 64 word \<Rightarrow> string"
  fm_plot :: "'f list \<Rightarrow> string"

definition u64_text :: "64 word \<Rightarrow> string" where
  "u64_text n = show_nat (unat n)"

definition system_text :: "'f Formats \<Rightarrow> 'f SystemMetrics option \<Rightarrow> string" where
  "system_text fm sys =
     (case sys of
        None \<Rightarrow> text_line ''No system metrics available''
      | Some s \<Rightarrow>
          text_line (''CPU Usage:       '' @ fm_percent fm (sm_CPUPercent s) @ ''%'') @
          text_line (''Memory Usage:    '' @ fm_percent fm (sm_MemoryPercent s) @ ''% ('' @ u64_text (sm_MemoryUsedMB s) @ '' MB / '' @
            u64_text (sm_MemoryTotalMB s) @ '' MB)'') @
          text_line (''Load Average:    '' @ fm_load fm (sm_LoadAvg1 s) @ '', '' @ fm_load fm (sm_LoadAvg5 s) @ '', '' @ fm_load fm (sm_LoadAvg15 s)) @
          text_line (''Last Updated:    '' @ fm_date fm (sm_Timestamp s)))"

definition iface_line :: "string \<Rightarrow> string \<Rightarrow> string \<Rightarrow> string \<Rightarrow> string \<Rightarrow> string \<Rightarrow> string" where
  "iface_line a b c d e f =
     text_line (pad_right 15 a @ '' '' @ pad_right 8 b @ '' '' @ pad_left 15 c @ '' '' @ pad_left 15 d @ '' '' @ pad_left 10 e @ '' '' @ pad_left 10 f)"

definition iface_text :: "'f Formats \<Rightarrow> InterfaceMetrics \<Rightarrow> string outcome" where
  "iface_text fm x =
     obind (formatBytes (fm_unit fm) (im_RXBytes x)) (\<lambda>rx.
     obind (formatBytes (fm_unit fm) (im_TXBytes x)) (\<lambda>tx.
     obind (formatBandwidth (fm_unit fm) (im_RXBytesRate x)) (\<lambda>rxr.
     obind (formatBandwidth (fm_unit fm) (im_TXBytesRate x)) (\<lambda>txr. Ok (iface_line (im_Name x) (im_State x) rx tx rxr txr)))))"

definition mon_executeStats :: "'f Formats \<Rightarrow> 'f MonitoringProvider \<Rightarrow> string outcome" where
  "mon_executeStats fm p =
     (let st = Monitoring_Status p;
          head = text_line ''System Metrics'' @ text_line ''=============='' @ system_text fm (ms_system_metrics st) @ text_line '''' @
                 text_line ''Network Interfaces'' @ text_line ''=================='' in
      if ms_interface_metrics st \<noteq> [] then
        ofold (\<lambda>x buf. obind (iface_text fm x) (\<lambda>t. Ok (buf @ t))) (ms_interface_metrics st)
          (head @ iface_line ''Interface'' ''State'' ''RX Bytes'' ''TX Bytes'' ''RX Rate'' ''TX Rate'' @ text_line (replicate 78 (CHR ''-'')))
      else Ok (head @ text_line ''No interface metrics available''))"

definition graph_text :: "'f Formats \<Rightarrow> 'f InterfaceHistory option \<Rightarrow> string" where
  "graph_text fm history =
     (case history of
        None \<Rightarrow> text_line ''Collecting data... graphs will appear shortly.''
      | Some h \<Rightarrow>
          if length (ih_RXRates h) > 1 then
            text_line ''RX Rate (Mbps) - Last 1 minute:'' @ text_line (fm_plot fm (ih_RXRates h)) @ text_line '''' @
            text_line ''TX Rate (Mbps) - Last 1 minute:'' @ text_line (fm_plot fm (ih_TXRates h)) @ text_line '''' @
            text_line (''Showing '' @ show_nat (length (ih_RXRates h)) @ '' data points ('' @ show_nat (length (ih_RXRates h) * 5) @ '' seconds of history)'')
          else text_line ''Collecting data... graphs will appear shortly.'')"

definition rate_line :: "'f Floats \<Rightarrow> 'f Formats \<Rightarrow> string \<Rightarrow> 64 word \<Rightarrow> string outcome" where
  "rate_line fl fm name rate =
     obind (formatBandwidth (fm_unit fm) rate) (\<lambda>b. Ok (text_line (''  '' @ name @ '': '' @ pad_left 15 b @ '' ('' @ fm_mbps fm (fl_mbps fl rate) @ '' Mbps)'')))"

definition mon_executeBandwidth :: "'f Floats \<Rightarrow> 'f Formats \<Rightarrow> string \<Rightarrow> string list \<Rightarrow> 'f MonitoringProvider \<Rightarrow> string outcome" where
  "mon_executeBandwidth fl fm clock args p =
     (let target = (case args of [] \<Rightarrow> ''wg-proton'' | a # _ \<Rightarrow> a) in
      case find (\<lambda>x. im_Name x = target) (mp_interfaceMetrics p) of
        None \<Rightarrow> Err (''interface '' @ [CHR 0x27] @ target @ [CHR 0x27] @ '' not found'')
      | Some x \<Rightarrow>
          obind (rate_line fl fm ''RX'' (im_RXBytesRate x)) (\<lambda>rx.
          obind (rate_line fl fm ''TX'' (im_TXBytesRate x)) (\<lambda>tx.
          Ok (text_line (''Bandwidth Monitor - '' @ target @ '' (Press Ctrl+C to exit)'') @ text_line (replicate 40 (CHR ''='')) @ text_line '''' @
              text_line (''Updated: '' @ clock @ '' | State: '' @ im_State x) @ text_line '''' @ text_line ''Current Rates:'' @ rx @ tx @ text_line '''' @
              graph_text fm (mget (mp_bandwidthHistory p) target)))))"

definition Monitoring_ExecuteCLICommand ::
  "'f Floats \<Rightarrow> 'f Formats \<Rightarrow> string \<Rightarrow> string \<Rightarrow> string list \<Rightarrow> 'f MonitoringProvider \<Rightarrow> string outcome" where
  "Monitoring_ExecuteCLICommand fl fm clock command args p =
     (let parts = go_fields command in
      if parts = [] then Err ''empty command''
      else if parts ! 0 \<noteq> ''monitor'' then Err (''unknown command: '' @ parts ! 0)
      else if length parts < 2 then Err ''monitor command requires subcommand: stats or bandwidth''
      else if parts ! 1 = ''stats'' then mon_executeStats fm p
      else if parts ! 1 = ''bandwidth'' then mon_executeBandwidth fl fm clock args p
      else Err (''unknown monitor subcommand: '' @ parts ! 1))"

section \<open>Facts\<close>

text \<open>An undisturbed apply is a run of steps of the collection loops.\<close>

lemma Monitoring_apply_steps:
  assumes "\<not> ml_applying m"
  shows "monitor_step\<^sup>*\<^sup>* m (snd (Monitoring_apply config (p, m)))"
proof (cases config)
  case (Some c)
  show ?thesis
  proof (cases "mc_Enabled c")
    case True
    let ?m1 = "(monitor_Stop m)\<lparr>ml_applying := True\<rparr>"
    have "monitor_step m ?m1" using assms by (rule monitor_step.apply_stop)
    moreover have "monitor_step ?m1 (snd (Monitoring_apply config (p, m)))"
      using monitor_step.apply_start [of ?m1] Some True assms by (cases m) (simp add: Monitoring_apply_def Let_def monitor_Stop_def split: if_splits)
    ultimately show ?thesis by (meson converse_rtranclp_into_rtranclp rtranclp.rtrancl_refl)
  next
    case False
    with Some monitor_step.stop [OF assms] show ?thesis by (auto simp: Monitoring_apply_def)
  qed
qed (simp add: Monitoring_apply_def)

text \<open>No command panics, whatever the counters are.\<close>

lemma format_ok: "\<exists>t. formatBytes f b = Ok t" "\<exists>t. formatBandwidth f b = Ok t"
proof -
  have "formatBytes f b \<noteq> Err e" "formatBandwidth f b \<noteq> Err e" for e
    by (simp_all add: formatBytes_def formatBandwidth_def format_unit_def split: prod.splits)
  with format_units [of f b] show "\<exists>t. formatBytes f b = Ok t" "\<exists>t. formatBandwidth f b = Ok t"
    by (metis outcome.exhaust)+
qed

lemma iface_text_ok: "\<exists>t. iface_text fm x = Ok t"
proof -
  obtain a b where "formatBytes (fm_unit fm) (im_RXBytes x) = Ok a" "formatBytes (fm_unit fm) (im_TXBytes x) = Ok b" using format_ok(1) by metis
  moreover obtain c d where "formatBandwidth (fm_unit fm) (im_RXBytesRate x) = Ok c" "formatBandwidth (fm_unit fm) (im_TXBytesRate x) = Ok d"
    using format_ok(2) by metis
  ultimately show ?thesis by (simp add: iface_text_def)
qed

lemma iface_texts_ok: "\<exists>t. ofold (\<lambda>x buf. obind (iface_text fm x) (\<lambda>t. Ok (buf @ t))) xs buf = Ok t"
proof (induction xs arbitrary: buf)
  case (Cons x xs)
  obtain t where "iface_text fm x = Ok t" using iface_text_ok by blast
  with Cons show ?case by simp
qed simp

lemma monitoring_command_no_panic: "Monitoring_ExecuteCLICommand fl fm clock command args p \<noteq> Panic"
proof -
  have "mon_executeStats fm p \<noteq> Panic"
    using iface_texts_ok [of fm "mp_interfaceMetrics p"] by (auto simp: mon_executeStats_def Monitoring_Status_def Let_def) (metis outcome.distinct(3))
  moreover have "mon_executeBandwidth fl fm clock args p \<noteq> Panic"
  proof (cases "find (\<lambda>x. im_Name x = (case args of [] \<Rightarrow> ''wg-proton'' | a # _ \<Rightarrow> a)) (mp_interfaceMetrics p)")
    case (Some x)
    obtain r where "rate_line fl fm ''RX'' (im_RXBytesRate x) = Ok r" using format_ok(2) [of "fm_unit fm" "im_RXBytesRate x"] by (auto simp: rate_line_def)
    moreover obtain t where "rate_line fl fm ''TX'' (im_TXBytesRate x) = Ok t" using format_ok(2) [of "fm_unit fm" "im_TXBytesRate x"] by (auto simp: rate_line_def)
    ultimately show ?thesis using Some by (simp add: mon_executeBandwidth_def Let_def)
  qed (simp add: mon_executeBandwidth_def Let_def)
  ultimately show ?thesis by (simp add: Monitoring_ExecuteCLICommand_def Let_def)
qed

end
