(* ===== verification/Sqlite.thy ===== *)
theory Sqlite
  imports Plugin_Codec Go_Path Go_Text
begin

text \<open>
  The database plugin, \<open>src/plugins/core/sqlite3\<close>: the provider over a database (\<open>provider.go\<close>) and the RPC surface with the
  \<open>database\<close> service that other plugins call (\<open>rpc_provider.go\<close>). The database driver is a record of operations on a state of any
  type, with handles of any type. Text that is JSON is represented by its value, and the line breaks inside SQL statements are reduced to spaces.
\<close>

section \<open>The driver\<close>

text \<open>Values of a database, and the operations of \<open>database/sql\<close> over the driver.\<close>

datatype sqlval = SNull | SInt int | SReal rat | SText string | SBool bool | SBlob string

text \<open>
  \<open>sq_Exec\<close> gives the number of affected rows, which itself may fail; \<open>sq_Query\<close> gives columns, rows and the error that ended
  the iteration. \<open>sq_float\<close> and \<open>sq_base64\<close> render a float and a blob.
\<close>

record ('d, 'w) SqlDriver =
  sq_MkdirAll :: "string \<Rightarrow> 'w act"
  sq_Stat :: "string \<Rightarrow> 'w \<Rightarrow> string + int"
  sq_Open :: "string \<Rightarrow> 'w \<Rightarrow> 'w \<times> (string + 'd)"
  sq_Ping :: "'d \<Rightarrow> 'w act"
  sq_Close :: "'d \<Rightarrow> 'w act"
  sq_Exec :: "'d \<Rightarrow> string \<Rightarrow> sqlval list \<Rightarrow> 'w \<Rightarrow> 'w \<times> (string + (string + int))"
  sq_Query :: "'d \<Rightarrow> string \<Rightarrow> sqlval list \<Rightarrow> 'w \<Rightarrow> 'w \<times> (string + (string list \<times> sqlval list list \<times> goerror))"
  sq_float :: "rat \<Rightarrow> string"
  sq_base64 :: "string \<Rightarrow> string"

definition exec_only :: "('d, 'w) SqlDriver \<Rightarrow> 'd \<Rightarrow> string \<Rightarrow> sqlval list \<Rightarrow> 'w act" where
  "exec_only e d query args w = (case sq_Exec e d query args w of (w', Inl m) \<Rightarrow> (w', Some m) | (w', Inr _) \<Rightarrow> (w', None))"

section \<open>The provider\<close>

record DatabaseConfig =
  db_Enabled :: bool
  db_DatabasePath :: string
  db_LogStorageEnabled :: bool
  db_MaxLogEntries :: int

record 'd DatabaseProvider =
  dp_config :: DatabaseConfig
  dp_db :: 'd

definition closing :: "('d, 'w) SqlDriver \<Rightarrow> 'd \<Rightarrow> string \<Rightarrow> 'w act \<Rightarrow> 'w act" where
  "closing e d p f w = (case f w of (w', None) \<Rightarrow> (w', None) | (w', Some m) \<Rightarrow> (fst (sq_Close e d w'), Some (p @ m)))"

definition setup_connection :: "('d, 'w) SqlDriver \<Rightarrow> 'd \<Rightarrow> 'w act" where
  "setup_connection e d =
     andthen (closing e d ''failed to ping database: '' (sq_Ping e d))
     (andthen (closing e d ''failed to enable WAL mode: '' (exec_only e d ''PRAGMA journal_mode=WAL'' []))
     (andthen (logged (exec_only e d ''PRAGMA wal_checkpoint(RESTART)'' []))
       (closing e d ''failed to set busy timeout: '' (exec_only e d ''PRAGMA busy_timeout=2000'' []))))"

definition db_connect :: "('d, 'w) SqlDriver \<Rightarrow> DatabaseConfig \<Rightarrow> 'w \<Rightarrow> 'w \<times> (string + 'd)" where
  "db_connect e config w =
     (case sq_MkdirAll e (filepath_dir (db_DatabasePath config)) w of
        (w1, Some m) \<Rightarrow> (w1, Inl (''failed to create database directory: '' @ m))
      | (w1, None) \<Rightarrow>
          (case sq_Open e (db_DatabasePath config) w1 of
             (w2, Inl m) \<Rightarrow> (w2, Inl (''failed to open database: '' @ m))
           | (w2, Inr d) \<Rightarrow>
               (case setup_connection e d w2 of (w3, Some m) \<Rightarrow> (w3, Inl m) | (w3, None) \<Rightarrow> (w3, Inr d))))"

definition schema_statements :: "string list" where
  "schema_statements =
     [''CREATE TABLE IF NOT EXISTS logs (id INTEGER PRIMARY KEY AUTOINCREMENT, timestamp TEXT NOT NULL, level TEXT NOT NULL, component TEXT NOT NULL, message TEXT NOT NULL, fields TEXT)'',
      ''CREATE INDEX IF NOT EXISTS idx_logs_timestamp ON logs(timestamp)'',
      ''CREATE INDEX IF NOT EXISTS idx_logs_level ON logs(level)'',
      ''CREATE INDEX IF NOT EXISTS idx_logs_component ON logs(component)'',
      ''CREATE TABLE IF NOT EXISTS plugin_metadata (plugin_name TEXT PRIMARY KEY, version TEXT, last_update TEXT)'']"

definition initializeSchema :: "('d, 'w) SqlDriver \<Rightarrow> 'd \<Rightarrow> 'w act" where
  "initializeSchema e d = each (\<lambda>stmt. wrapping ''failed to create schema: '' (exec_only e d stmt [])) schema_statements"

definition db_Close :: "('d, 'w) SqlDriver \<Rightarrow> 'd DatabaseProvider \<Rightarrow> 'w act" where
  "db_Close e p = andthen (logged (exec_only e (dp_db p) ''PRAGMA wal_checkpoint(TRUNCATE)'' [])) (sq_Close e (dp_db p))"

definition NewDatabaseProvider :: "('d, 'w) SqlDriver \<Rightarrow> DatabaseConfig \<Rightarrow> 'w \<Rightarrow> 'w \<times> (string + 'd DatabaseProvider)" where
  "NewDatabaseProvider e config w =
     (case db_connect e config w of
        (w1, Inl m) \<Rightarrow> (w1, Inl m)
      | (w1, Inr d) \<Rightarrow>
          (let p = \<lparr>dp_config = config, dp_db = d\<rparr> in
           case initializeSchema e d w1 of
             (w2, Some m) \<Rightarrow> (fst (db_Close e p w2), Inl m)
           | (w2, None) \<Rightarrow> (w2, Inr p)))"

definition db_InsertLog :: "('d, 'w) SqlDriver \<Rightarrow> 'd DatabaseProvider \<Rightarrow> string \<Rightarrow> string \<Rightarrow> string \<Rightarrow> string \<Rightarrow> string \<Rightarrow> 'w act" where
  "db_InsertLog e p timestamp level component message flds =
     (if \<not> db_LogStorageEnabled (dp_config p) then nop
      else
        wrapping ''failed to insert log: ''
          (exec_only e (dp_db p) ''INSERT INTO logs (timestamp, level, component, message, fields) VALUES (?, ?, ?, ?, ?)''
             [SText timestamp, SText level, SText component, SText message, SText flds]))"

record DbStats =
  st_log_count :: int
  st_database_size_bytes :: int
  st_database_path :: string

subsection \<open>Scanning a row\<close>

text \<open>The conversions of \<open>database/sql\<close> to a string and to an \<open>int\<close>.\<close>

definition scan_string :: "('d, 'w) SqlDriver \<Rightarrow> sqlval \<Rightarrow> string + string" where
  "scan_string e v =
     (case v of
        SText s \<Rightarrow> Inr s
      | SBlob b \<Rightarrow> Inr b
      | SInt i \<Rightarrow> Inr (show_int i)
      | SReal q \<Rightarrow> Inr (sq_float e q)
      | SBool b \<Rightarrow> Inr (if b then ''true'' else ''false'')
      | SNull \<Rightarrow> Inl ''converting NULL to string is unsupported'')"

definition scan_int :: "('d, 'w) SqlDriver \<Rightarrow> sqlval \<Rightarrow> string + int" where
  "scan_int e v =
     (case v of
        SNull \<Rightarrow> Inl ''converting NULL to int is unsupported''
      | _ \<Rightarrow>
          (case scan_string e v of
             Inl m \<Rightarrow> Inl m
           | Inr s \<Rightarrow> (case atoi s of None \<Rightarrow> Inl (lib_err ''ParseInt'' s) | Some i \<Rightarrow> Inr i)))"

record SqlLogEntry =
  sle_ID :: int
  sle_Timestamp :: string
  sle_Level :: string
  sle_Component :: string
  sle_Message :: string
  sle_Fields :: string

fun scan_strings :: "('d, 'w) SqlDriver \<Rightarrow> sqlval list \<Rightarrow> string + string list" where
  "scan_strings e [] = Inr []"
| "scan_strings e (v # vs) =
     (case scan_string e v of
        Inl m \<Rightarrow> Inl m
      | Inr s \<Rightarrow> (case scan_strings e vs of Inl m \<Rightarrow> Inl m | Inr ss \<Rightarrow> Inr (s # ss)))"

definition scan_entry :: "('d, 'w) SqlDriver \<Rightarrow> sqlval list \<Rightarrow> string + SqlLogEntry" where
  "scan_entry e row =
     (if length row \<noteq> 6 then Inl ''sql: expected destination arguments in Scan''
      else
        (case scan_int e (row ! 0) of
           Inl m \<Rightarrow> Inl m
         | Inr i \<Rightarrow>
             (case scan_strings e (drop 1 row) of
                Inl m \<Rightarrow> Inl m
              | Inr ss \<Rightarrow>
                  Inr \<lparr>sle_ID = i, sle_Timestamp = ss ! 0, sle_Level = ss ! 1, sle_Component = ss ! 2, sle_Message = ss ! 3,
                       sle_Fields = ss ! 4\<rparr>)))"

fun scan_entries :: "('d, 'w) SqlDriver \<Rightarrow> sqlval list list \<Rightarrow> string + SqlLogEntry list" where
  "scan_entries e [] = Inr []"
| "scan_entries e (row # rows) =
     (case scan_entry e row of
        Inl m \<Rightarrow> Inl (''failed to scan log entry: '' @ m)
      | Inr x \<Rightarrow> (case scan_entries e rows of Inl m \<Rightarrow> Inl m | Inr xs \<Rightarrow> Inr (x # xs)))"

definition logs_query :: "string \<Rightarrow> string \<Rightarrow> int \<Rightarrow> string \<times> sqlval list" where
  "logs_query level component limit =
     (''SELECT id, timestamp, level, component, message, fields FROM logs WHERE 1=1'' @
      (if level \<noteq> '''' then '' AND level = ?'' else '''') @
      (if component \<noteq> '''' then '' AND component = ?'' else '''') @
      '' ORDER BY timestamp DESC'' @ (if limit > 0 then '' LIMIT ?'' else ''''),
      (if level \<noteq> '''' then [SText level] else []) @ (if component \<noteq> '''' then [SText component] else []) @
      (if limit > 0 then [SInt limit] else []))"

definition db_QueryLogs ::
  "('d, 'w) SqlDriver \<Rightarrow> 'd DatabaseProvider \<Rightarrow> string \<Rightarrow> string \<Rightarrow> int \<Rightarrow> 'w \<Rightarrow> 'w \<times> (string + SqlLogEntry list)" where
  "db_QueryLogs e p level component limit w =
     (case logs_query level component limit of (query, args) \<Rightarrow>
        (case sq_Query e (dp_db p) query args w of
           (w', Inl m) \<Rightarrow> (w', Inl (''failed to query logs: '' @ m))
         | (w', Inr (_, rows, err)) \<Rightarrow>
             (w', case scan_entries e rows of
                    Inl m \<Rightarrow> Inl m
                  | Inr es \<Rightarrow> (case err of Some m \<Rightarrow> Inl (''error iterating logs: '' @ m) | None \<Rightarrow> Inr es))))"

text \<open>The count is the first value of the first row.\<close>

definition db_Stats :: "('d, 'w) SqlDriver \<Rightarrow> 'd DatabaseProvider \<Rightarrow> 'w \<Rightarrow> 'w \<times> (string + DbStats)" where
  "db_Stats e p w =
     (case sq_Query e (dp_db p) ''SELECT COUNT(*) FROM logs'' [] w of
        (w', Inl m) \<Rightarrow> (w', Inl (''failed to count logs: '' @ m))
      | (w', Inr (_, rows, err)) \<Rightarrow>
          (w', case (case rows of
                       [] \<Rightarrow> (case err of Some m \<Rightarrow> Inl m | None \<Rightarrow> Inl ''sql: no rows in result set'')
                     | row # _ \<Rightarrow>
                         (case row of
                            [v] \<Rightarrow> scan_int e v
                          | _ \<Rightarrow> Inl ''sql: expected destination arguments in Scan'')) of
                 Inl m \<Rightarrow> Inl (''failed to count logs: '' @ m)
               | Inr n \<Rightarrow>
                   (case sq_Stat e (db_DatabasePath (dp_config p)) w' of
                      Inl m \<Rightarrow> Inl (''failed to stat database file: '' @ m)
                    | Inr size_bytes \<Rightarrow>
                        Inr \<lparr>st_log_count = n, st_database_size_bytes = size_bytes, st_database_path = db_DatabasePath (dp_config p)\<rparr>)))"

definition db_Vacuum :: "('d, 'w) SqlDriver \<Rightarrow> 'd DatabaseProvider \<Rightarrow> 'w act" where
  "db_Vacuum e p = wrapping ''failed to vacuum database: '' (exec_only e (dp_db p) ''VACUUM'' [])"

definition db_Exec :: "('d, 'w) SqlDriver \<Rightarrow> 'd DatabaseProvider \<Rightarrow> string \<Rightarrow> sqlval list \<Rightarrow> 'w \<Rightarrow> 'w \<times> (string + int)" where
  "db_Exec e p query args w =
     (case sq_Exec e (dp_db p) query args w of
        (w', Inl m) \<Rightarrow> (w', Inl (''failed to execute query: '' @ m))
      | (w', Inr (Inl m)) \<Rightarrow> (w', Inl (''failed to get rows affected: '' @ m))
      | (w', Inr (Inr n)) \<Rightarrow> (w', Inr n))"

definition db_Query ::
  "('d, 'w) SqlDriver \<Rightarrow> 'd DatabaseProvider \<Rightarrow> string \<Rightarrow> sqlval list \<Rightarrow> 'w \<Rightarrow> 'w \<times> (string + (string list \<times> sqlval list list))" where
  "db_Query e p query args w =
     (case sq_Query e (dp_db p) query args w of
        (w', Inl m) \<Rightarrow> (w', Inl (''failed to execute query: '' @ m))
      | (w', Inr (columns, rows, err)) \<Rightarrow>
          (w', case err of Some m \<Rightarrow> Inl (''error iterating rows: '' @ m) | None \<Rightarrow> Inr (columns, rows)))"

definition db_QueryRow ::
  "('d, 'w) SqlDriver \<Rightarrow> 'd DatabaseProvider \<Rightarrow> string \<Rightarrow> sqlval list \<Rightarrow> 'w \<Rightarrow> 'w \<times> (string + (string list \<times> sqlval list option))" where
  "db_QueryRow e p query args w =
     (case sq_Query e (dp_db p) query args w of
        (w', Inl m) \<Rightarrow> (w', Inl (''failed to execute query: '' @ m))
      | (w', Inr (columns, rows, err)) \<Rightarrow>
          (w', case rows of [] \<Rightarrow> Inr (columns, None) | row # _ \<Rightarrow> Inr (columns, Some row)))"

section \<open>The RPC surface\<close>

record 'd SQLite3 =
  s3_provider :: "'d DatabaseProvider option"
  s3_lastPath :: string

definition NewSQLite3RPCProvider :: "'d SQLite3" where
  "NewSQLite3RPCProvider = \<lparr>s3_provider = None, s3_lastPath = []\<rparr>"

definition dec_DatabaseConfig :: "json \<Rightarrow> DatabaseConfig outcome" where
  "dec_DatabaseConfig v =
     dec_object ''main.DatabaseConfig''
       [bool_field ''enabled'' db_Enabled db_Enabled_update, str_field ''database_path'' db_DatabasePath db_DatabasePath_update,
        bool_field ''log_storage_enabled'' db_LogStorageEnabled db_LogStorageEnabled_update,
        int_field ''max_log_entries'' db_MaxLogEntries db_MaxLogEntries_update] v
       \<lparr>db_Enabled = False, db_DatabasePath = [], db_LogStorageEnabled = False, db_MaxLogEntries = 0\<rparr>"

text \<open>Opening a database for a configuration, as the first two branches of \<open>ApplyConfig\<close> do.\<close>

definition open_provider ::
  "('d, 'w) SqlDriver \<Rightarrow> DatabaseConfig \<Rightarrow> 'd SQLite3 \<times> 'w \<Rightarrow> ('d SQLite3 \<times> 'w) \<times> goerror" where
  "open_provider e config sw =
     (case NewDatabaseProvider e config (snd sw) of
        (w', Inl m) \<Rightarrow> ((fst sw, w'), Some (''failed to create database provider: '' @ m))
      | (w', Inr p) \<Rightarrow> (((fst sw)\<lparr>s3_provider := Some p, s3_lastPath := db_DatabasePath config\<rparr>, w'), None))"

definition SQLite3_apply :: "('d, 'w) SqlDriver \<Rightarrow> DatabaseConfig \<Rightarrow> 'd SQLite3 \<times> 'w \<Rightarrow> ('d SQLite3 \<times> 'w) \<times> goerror" where
  "SQLite3_apply e config sw =
     (case s3_provider (fst sw) of
        None \<Rightarrow> open_provider e config sw
      | Some p \<Rightarrow>
          if db_DatabasePath config \<noteq> s3_lastPath (fst sw)
          then open_provider e config (fst sw, fst (db_Close e p (snd sw)))
          else (sw, None))"

definition SQLite3_ApplyConfig :: "('d, 'w) SqlDriver \<Rightarrow> json \<Rightarrow> 'd SQLite3 \<times> 'w \<Rightarrow> ('d SQLite3 \<times> 'w) \<times> unit outcome" where
  "SQLite3_ApplyConfig e configJSON sw =
     (case dec_DatabaseConfig configJSON of
        Err m \<Rightarrow> (sw, Err m)
      | Panic \<Rightarrow> (sw, Panic)
      | Ok config \<Rightarrow> plift (SQLite3_apply e config) sw)"

definition SQLite3_ValidateConfig :: "json \<Rightarrow> unit outcome" where
  "SQLite3_ValidateConfig configJSON =
     obind (dec_DatabaseConfig configJSON)
       (\<lambda>config. if db_DatabasePath config = '''' then Err ''database_path is required'' else Ok ())"

definition SQLite3_Flush :: "('d, 'w) SqlDriver \<Rightarrow> 'd SQLite3 \<times> 'w \<Rightarrow> ('d SQLite3 \<times> 'w) \<times> goerror" where
  "SQLite3_Flush e sw =
     (case s3_provider (fst sw) of
        None \<Rightarrow> (sw, None)
      | Some p \<Rightarrow> (case db_Close e p (snd sw) of (w', err) \<Rightarrow> ((fst sw, w'), err)))"

definition stats_json :: "DbStats \<Rightarrow> (string \<times> json) list" where
  "stats_json st =
     [(''database_path'', JStr (st_database_path st)), (''database_size_bytes'', JNum (of_int (st_database_size_bytes st)))]"

definition SQLite3_Status :: "('d, 'w) SqlDriver \<Rightarrow> 'd SQLite3 \<Rightarrow> 'w \<Rightarrow> 'w \<times> (string + json)" where
  "SQLite3_Status e s w =
     (case s3_provider s of
        None \<Rightarrow> (w, Inr (JObj [(''enabled'', JBool False), (''message'', JStr ''Database not initialized'')]))
      | Some p \<Rightarrow>
          (case db_Stats e p w of
             (w', Inl m) \<Rightarrow> (w', Inl (''failed to get stats: '' @ m))
           | (w', Inr st) \<Rightarrow>
               (w', Inr (JObj (stats_json st @ [(''enabled'', JBool True), (''log_count'', JNum (of_int (st_log_count st)))])))))"

subsection \<open>Commands\<close>

definition s3_executeStats :: "('d, 'w) SqlDriver \<Rightarrow> 'd SQLite3 \<Rightarrow> 'w \<Rightarrow> 'w \<times> (string + string)" where
  "s3_executeStats e s w =
     (case s3_provider s of
        None \<Rightarrow> (w, Inr (text_line ''Database not initialized''))
      | Some p \<Rightarrow>
          (case db_Stats e p w of
             (w', Inl m) \<Rightarrow> (w', Inl (''failed to get stats: '' @ m))
           | (w', Inr st) \<Rightarrow>
               (w', Inr (text_line ''Database Statistics:'' @ text_line (''  Path: '' @ st_database_path st) @
                 text_line (''  Size: '' @ show_int (st_database_size_bytes st) @ '' bytes'') @
                 text_line (''  Log entries: '' @ show_int (st_log_count st))))))"

text \<open>\<open>fmt.Sscanf\<close> with \<open>%d\<close>: spaces other than newlines, a sign and digits; None when there is no number of 64 bits.\<close>

definition sscanf_d :: "string \<Rightarrow> int option" where
  "sscanf_d s =
     (let t = trim_left (filter (\<lambda>r. r \<noteq> [10]) space_runes) s;
          sign = (if t \<noteq> [] \<and> (hd t = CHR ''-'' \<or> hd t = CHR ''+'') then [hd t] else []);
          ds = takeWhile is_digit (drop (length sign) t) in
      if ds = [] then None else atoi (sign @ ds))"

record LogArgs =
  la_level :: string
  la_component :: string
  la_limit :: int

text \<open>An option at the end of the line, without a value, is skipped.\<close>

fun parse_log_args :: "string list \<Rightarrow> LogArgs \<Rightarrow> LogArgs" where
  "parse_log_args (a # v # as) la =
     (if a = ''--level'' then parse_log_args as (la\<lparr>la_level := v\<rparr>)
      else if a = ''--component'' then parse_log_args as (la\<lparr>la_component := v\<rparr>)
      else if a = ''--limit'' then parse_log_args as (la\<lparr>la_limit := (case sscanf_d v of Some i \<Rightarrow> i | None \<Rightarrow> la_limit la)\<rparr>)
      else parse_log_args (v # as) la)"
| "parse_log_args [a] la = la"
| "parse_log_args [] la = la"

definition entry_text :: "SqlLogEntry \<Rightarrow> string" where
  "entry_text x =
     text_line (''['' @ sle_Timestamp x @ ''] '' @ to_upper (sle_Level x) @ '' - '' @ sle_Component x @ '': '' @ sle_Message x) @
     (if sle_Fields x \<noteq> '''' \<and> sle_Fields x \<noteq> ''null'' then text_line (''  Fields: '' @ sle_Fields x) else '''')"

definition s3_executeLogs :: "('d, 'w) SqlDriver \<Rightarrow> 'd SQLite3 \<Rightarrow> string list \<Rightarrow> 'w \<Rightarrow> 'w \<times> (string + string)" where
  "s3_executeLogs e s args w =
     (case s3_provider s of
        None \<Rightarrow> (w, Inr (text_line ''Database not initialized''))
      | Some p \<Rightarrow>
          (let la = parse_log_args args \<lparr>la_level = [], la_component = [], la_limit = 50\<rparr> in
           case db_QueryLogs e p (la_level la) (la_component la) (la_limit la) w of
             (w', Inl m) \<Rightarrow> (w', Inl (''failed to query logs: '' @ m))
           | (w', Inr xs) \<Rightarrow>
               (w', Inr (if xs = [] then text_line ''No logs found matching criteria''
                         else text_line (''Found '' @ show_nat (length xs) @ '' log entries:'') @ text_line '''' @ concat (map entry_text xs)))))"

definition s3_executeVacuum :: "('d, 'w) SqlDriver \<Rightarrow> 'd SQLite3 \<Rightarrow> 'w \<Rightarrow> 'w \<times> (string + string)" where
  "s3_executeVacuum e s w =
     (case s3_provider s of
        None \<Rightarrow> (w, Inr (text_line ''Database not initialized''))
      | Some p \<Rightarrow>
          (case db_Stats e p w of
             (w1, Inl m) \<Rightarrow> (w1, Inl (''failed to get database stats: '' @ m))
           | (w1, Inr before) \<Rightarrow>
               (case db_Vacuum e p w1 of
                  (w2, Some m) \<Rightarrow> (w2, Inl (''failed to vacuum database: '' @ m))
                | (w2, None) \<Rightarrow>
                    (case db_Stats e p w2 of
                       (w3, Inl m) \<Rightarrow> (w3, Inl (''failed to get database stats after vacuum: '' @ m))
                     | (w3, Inr after) \<Rightarrow>
                         (let spaceSaved = wrap64 (st_database_size_bytes before - st_database_size_bytes after) in
                          (w3, Inr (text_line ''Database vacuum completed successfully'' @
                            text_line (''  Size before: '' @ show_int (st_database_size_bytes before) @ '' bytes'') @
                            text_line (''  Size after:  '' @ show_int (st_database_size_bytes after) @ '' bytes'') @
                            (if spaceSaved > 0 then text_line (''  Space saved: '' @ show_int spaceSaved @ '' bytes'')
                             else text_line ''  No space reclaimed (database was already compact)''))))))))"

definition SQLite3_ExecuteCLICommand :: "('d, 'w) SqlDriver \<Rightarrow> 'd SQLite3 \<Rightarrow> string \<Rightarrow> string list \<Rightarrow> 'w \<Rightarrow> 'w \<times> (string + string)" where
  "SQLite3_ExecuteCLICommand e s command args w =
     (let parts = go_fields command in
      if length parts < 2 then (w, Inl ''invalid command format'')
      else if parts ! 1 = ''stats'' then s3_executeStats e s w
      else if parts ! 1 = ''logs'' then s3_executeLogs e s args w
      else if parts ! 1 = ''vacuum'' then s3_executeVacuum e s w
      else (w, Inl (''unknown subcommand: '' @ parts ! 1)))"

subsection \<open>Log events and the database service\<close>

definition json_string :: "json option \<Rightarrow> string" where
  "json_string v = (case v of Some (JStr s) \<Rightarrow> s | _ \<Rightarrow> '''')"

text \<open>\<open>text_of\<close> is the text of a JSON value.\<close>

definition SQLite3_OnLogEvent :: "('d, 'w) SqlDriver \<Rightarrow> (json \<Rightarrow> string) \<Rightarrow> 'd SQLite3 \<Rightarrow> json \<Rightarrow> 'w act" where
  "SQLite3_OnLogEvent e text_of s logEventJSON =
     (case s3_provider s of
        None \<Rightarrow> fails ''database not initialized''
      | Some p \<Rightarrow>
          (case dec_map ''map'' Ok logEventJSON of
             Ok m \<Rightarrow>
               (let ev = (case m of None \<Rightarrow> [] | Some x \<Rightarrow> x) in
                db_InsertLog e p (json_string (mget ev ''timestamp'')) (json_string (mget ev ''level'')) (json_string (mget ev ''component''))
                  (json_string (mget ev ''message'')) (text_of (case mget ev ''fields'' of None \<Rightarrow> JNull | Some v \<Rightarrow> v)))
           | Err m \<Rightarrow> fails (''failed to unmarshal log event: '' @ m)
           | Panic \<Rightarrow> fails ''''))"

text \<open>Arguments of a statement as they arrive: numbers are floats, and values that are no scalars are refused.\<close>

fun arg_value :: "json \<Rightarrow> sqlval option" where
  "arg_value JNull = Some SNull"
| "arg_value (JBool b) = Some (SBool b)"
| "arg_value (JNum q) = Some (SReal q)"
| "arg_value (JStr s) = Some (SText s)"
| "arg_value _ = None"

definition arg_values :: "json list \<Rightarrow> sqlval list option" where
  "arg_values vs = (if None \<in> set (map arg_value vs) then None else Some (map (the \<circ> arg_value) vs))"

fun value_json :: "('d, 'w) SqlDriver \<Rightarrow> sqlval \<Rightarrow> json" where
  "value_json e SNull = JNull"
| "value_json e (SInt i) = JNum (of_int i)"
| "value_json e (SReal q) = JNum q"
| "value_json e (SText s) = JStr s"
| "value_json e (SBool b) = JBool b"
| "value_json e (SBlob b) = JStr (sq_base64 e b)"

record QueryArgs =
  qa_Query :: string
  qa_Args :: "json slice"

definition dec_QueryArgs :: "json \<Rightarrow> QueryArgs outcome" where
  "dec_QueryArgs v =
     dec_object ''struct'' [str_field ''query'' qa_Query qa_Query_update, slice_field ''args'' Ok qa_Args qa_Args_update] v
       \<lparr>qa_Query = [], qa_Args = None\<rparr>"

text \<open>The decoded statement is handed on; an argument that cannot be bound fails as the statement would.\<close>

definition with_query ::
  "json \<Rightarrow> (string \<Rightarrow> sqlval list \<Rightarrow> 'w \<Rightarrow> 'w \<times> (string + json)) \<Rightarrow> 'w \<Rightarrow> 'w \<times> (string + json)" where
  "with_query argsJSON k w =
     (case dec_QueryArgs argsJSON of
        Ok q \<Rightarrow>
          (case arg_values (elems (qa_Args q)) of
             None \<Rightarrow> (w, Inl ''failed to execute query: sql: converting argument: unsupported type'')
           | Some args \<Rightarrow> k (qa_Query q) args w)
      | Err m \<Rightarrow> (w, Inl (''failed to unmarshal arguments: '' @ m))
      | Panic \<Rightarrow> (w, Inl ''''))"

definition handleExec :: "('d, 'w) SqlDriver \<Rightarrow> 'd DatabaseProvider \<Rightarrow> json \<Rightarrow> 'w \<Rightarrow> 'w \<times> (string + json)" where
  "handleExec e p argsJSON =
     with_query argsJSON (\<lambda>query args w.
       case db_Exec e p query args w of
         (w', Inl m) \<Rightarrow> (w', Inl m)
       | (w', Inr n) \<Rightarrow> (w', Inr (JObj [(''rows_affected'', JNum (of_int n))])))"

definition rows_json :: "json list \<Rightarrow> json" where
  "rows_json rs = (if rs = [] then JNull else JArr rs)"

definition handleQuery :: "('d, 'w) SqlDriver \<Rightarrow> 'd DatabaseProvider \<Rightarrow> json \<Rightarrow> 'w \<Rightarrow> 'w \<times> (string + json)" where
  "handleQuery e p argsJSON =
     with_query argsJSON (\<lambda>query args w.
       case db_Query e p query args w of
         (w', Inl m) \<Rightarrow> (w', Inl m)
       | (w', Inr (columns, rows)) \<Rightarrow>
           (w', Inr (JObj [(''columns'', JArr (map JStr columns)),
                           (''rows'', rows_json (map (\<lambda>row. JArr (map (value_json e) row)) rows))])))"

definition handleQueryRow :: "('d, 'w) SqlDriver \<Rightarrow> 'd DatabaseProvider \<Rightarrow> json \<Rightarrow> 'w \<Rightarrow> 'w \<times> (string + json)" where
  "handleQueryRow e p argsJSON =
     with_query argsJSON (\<lambda>query args w.
       case db_QueryRow e p query args w of
         (w', Inl m) \<Rightarrow> (w', Inl m)
       | (w', Inr (columns, v)) \<Rightarrow>
           (w', Inr (JObj [(''columns'', JArr (map JStr columns)),
                           (''values'', case v of None \<Rightarrow> JNull | Some row \<Rightarrow> JArr (map (value_json e) row))])))"

record InsertArgs =
  ia_Timestamp :: string
  ia_Level :: string
  ia_Component :: string
  ia_Message :: string
  ia_Fields :: string

definition handleInsertLog :: "('d, 'w) SqlDriver \<Rightarrow> 'd DatabaseProvider \<Rightarrow> json \<Rightarrow> 'w \<Rightarrow> 'w \<times> (string + json)" where
  "handleInsertLog e p argsJSON w =
     (case dec_object ''struct''
             [str_field ''timestamp'' ia_Timestamp ia_Timestamp_update, str_field ''level'' ia_Level ia_Level_update,
              str_field ''component'' ia_Component ia_Component_update, str_field ''message'' ia_Message ia_Message_update,
              str_field ''fields'' ia_Fields ia_Fields_update] argsJSON
             \<lparr>ia_Timestamp = [], ia_Level = [], ia_Component = [], ia_Message = [], ia_Fields = []\<rparr> of
        Ok a \<Rightarrow>
          (case db_InsertLog e p (ia_Timestamp a) (ia_Level a) (ia_Component a) (ia_Message a) (ia_Fields a) w of
             (w', Some m) \<Rightarrow> (w', Inl m)
           | (w', None) \<Rightarrow> (w', Inr (JObj [(''success'', JBool True)])))
      | Err m \<Rightarrow> (w, Inl (''failed to unmarshal arguments: '' @ m))
      | Panic \<Rightarrow> (w, Inl ''''))"

definition entry_json :: "SqlLogEntry \<Rightarrow> json" where
  "entry_json x =
     JObj [(''ID'', JNum (of_int (sle_ID x))), (''Timestamp'', JStr (sle_Timestamp x)), (''Level'', JStr (sle_Level x)),
           (''Component'', JStr (sle_Component x)), (''Message'', JStr (sle_Message x)), (''Fields'', JStr (sle_Fields x))]"

definition handleQueryLogs :: "('d, 'w) SqlDriver \<Rightarrow> 'd DatabaseProvider \<Rightarrow> json \<Rightarrow> 'w \<Rightarrow> 'w \<times> (string + json)" where
  "handleQueryLogs e p argsJSON w =
     (case dec_object ''struct''
             [str_field ''level'' la_level la_level_update, str_field ''component'' la_component la_component_update,
              int_field ''limit'' la_limit la_limit_update] argsJSON \<lparr>la_level = [], la_component = [], la_limit = 0\<rparr> of
        Ok a \<Rightarrow>
          (case db_QueryLogs e p (la_level a) (la_component a) (la_limit a) w of
             (w', Inl m) \<Rightarrow> (w', Inl m)
           | (w', Inr xs) \<Rightarrow> (w', Inr (rows_json (map entry_json xs))))
      | Err m \<Rightarrow> (w, Inl (''failed to unmarshal arguments: '' @ m))
      | Panic \<Rightarrow> (w, Inl ''''))"

definition handleStats :: "('d, 'w) SqlDriver \<Rightarrow> 'd DatabaseProvider \<Rightarrow> 'w \<Rightarrow> 'w \<times> (string + json)" where
  "handleStats e p w =
     (case db_Stats e p w of
        (w', Inl m) \<Rightarrow> (w', Inl m)
      | (w', Inr st) \<Rightarrow> (w', Inr (JObj (stats_json st @ [(''log_count'', JNum (of_int (st_log_count st)))]))))"

definition handleVacuum :: "('d, 'w) SqlDriver \<Rightarrow> 'd DatabaseProvider \<Rightarrow> 'w \<Rightarrow> 'w \<times> (string + json)" where
  "handleVacuum e p w =
     (case db_Vacuum e p w of (w', Some m) \<Rightarrow> (w', Inl m) | (w', None) \<Rightarrow> (w', Inr (JObj [(''success'', JBool True)])))"

definition SQLite3_CallService ::
  "('d, 'w) SqlDriver \<Rightarrow> 'd SQLite3 \<Rightarrow> string \<Rightarrow> string \<Rightarrow> json \<Rightarrow> 'w \<Rightarrow> 'w \<times> (string + json)" where
  "SQLite3_CallService e s serviceName method argsJSON w =
     (if serviceName \<noteq> ''database'' then (w, Inl (''unknown service: '' @ serviceName))
      else
        (case s3_provider s of
           None \<Rightarrow> (w, Inl ''database not initialized'')
         | Some p \<Rightarrow>
             if method = ''InsertLog'' then handleInsertLog e p argsJSON w
             else if method = ''QueryLogs'' then handleQueryLogs e p argsJSON w
             else if method = ''Stats'' then handleStats e p w
             else if method = ''Vacuum'' then handleVacuum e p w
             else if method = ''Exec'' then handleExec e p argsJSON w
             else if method = ''Query'' then handleQuery e p argsJSON w
             else if method = ''QueryRow'' then handleQueryRow e p argsJSON w
             else (w, Inl (''unknown method: '' @ method))))"

end
