(* ===== verification/Plugin_Process.thy ===== *)
theory Plugin_Process
  imports Plugin_Codec Registry Go_Path
begin

text \<open>
  Plugins as processes: their discovery (\<open>src/plugins/plugin.go\<close>), the RPC between daemon and plugin in both directions (\<open>src/plugins/rpc.go\<close>, \<open>client.go\<close>) and the loader that wraps
  a plugin (\<open>src/daemon/loader.go\<close>). The process, the connection and the broker are those of the libraries \<open>go-plugin\<close> and \<open>net/rpc\<close> and are arguments. A payload of
  JSON bytes is its value, None when there are no bytes. The state of any type is that of the plugins.
\<close>

section \<open>Discovery\<close>

record 'w PluginFiles =
  pf_runnable :: "string \<Rightarrow> 'w \<Rightarrow> bool"
  pf_ReadDir :: "string \<Rightarrow> 'w \<Rightarrow> string + (string \<times> bool) list"

definition pluginDirs :: "string list" where
  "pluginDirs = [''./bin'', ''/usr/lib/jack/plugins'', ''/opt/jack/plugins'']"

definition plugin_prefix :: string where
  "plugin_prefix = ''jack-plugin-''"

definition FindPlugin :: "'w PluginFiles \<Rightarrow> string list \<Rightarrow> string \<Rightarrow> 'w \<Rightarrow> string + string" where
  "FindPlugin h dirs name w =
     (case find (\<lambda>path. pf_runnable h path w) (map (\<lambda>dir. filepath_join dir (plugin_prefix @ name)) dirs) of
        Some path \<Rightarrow> Inr path
      | None \<Rightarrow> Inl (''plugin not found: '' @ name))"

text \<open>The names found in one directory; the names of all of them come out in the unspecified order of a map, each once.\<close>

definition dir_plugins :: "'w PluginFiles \<Rightarrow> 'w \<Rightarrow> string \<Rightarrow> string list" where
  "dir_plugins h w dir =
     (case pf_ReadDir h dir w of
        Inl _ \<Rightarrow> []
      | Inr es \<Rightarrow>
          map (\<lambda>(name, _). trim_prefix name plugin_prefix)
            (filter (\<lambda>(name, is_dir). \<not> is_dir \<and> has_prefix name plugin_prefix \<and> pf_runnable h (filepath_join dir name) w) es))"

definition ListPlugins :: "'w PluginFiles \<Rightarrow> string list \<Rightarrow> 'w \<Rightarrow> string list" where
  "ListPlugins h dirs w = remdups (concat (map (dir_plugins h w) dirs))"

section \<open>The provider interface\<close>

record ServiceDescriptor =
  sd_Name :: string
  sd_Description :: string
  sd_Methods :: "string list"

record CLICommand =
  cc_Name :: string
  cc_Short :: string
  cc_Long :: string
  cc_Subcommands :: "string list"
  cc_Continuous :: bool
  cc_PollInterval :: int

record MetadataResponse =
  mr_Namespace :: string
  mr_Version :: string
  mr_Description :: string
  mr_Category :: string
  mr_ConfigPath :: string
  mr_DefaultConfig :: "(string, json) gomap option"
  mr_Dependencies :: "string list"
  mr_RequiredServices :: "string list"
  mr_ProvidedServices :: "ServiceDescriptor list"
  mr_PathPrefix :: string
  mr_CLICommands :: "CLICommand list"

type_synonym ('w, 'a) call = "'w \<Rightarrow> 'w \<times> (string + 'a)"

record 'w Provider =
  pv_Metadata :: "('w, MetadataResponse) call"
  pv_ApplyConfig :: "json \<Rightarrow> 'w act"
  pv_ValidateConfig :: "json \<Rightarrow> 'w act"
  pv_Flush :: "'w act"
  pv_Status :: "('w, json option) call"
  pv_ExecuteCLICommand :: "string \<Rightarrow> string list \<Rightarrow> ('w, string) call"
  pv_OnLogEvent :: "json \<Rightarrow> 'w act"
  pv_GetProvidedServices :: "('w, ServiceDescriptor list) call"
  pv_CallService :: "string \<Rightarrow> string \<Rightarrow> json \<Rightarrow> ('w, json option) call"

section \<open>Replies\<close>

text \<open>The reply of a method: the text of its error, empty for none, and its value, the zero value when there is an error.\<close>

record 'a Reply =
  rp_Error :: string
  rp_Value :: 'a

definition serve_call :: "'a \<Rightarrow> ('w, 'a) call \<Rightarrow> 'w \<Rightarrow> 'w \<times> 'a Reply" where
  "serve_call zero f w =
     (case f w of
        (w', Inl e) \<Rightarrow> (w', \<lparr>rp_Error = e, rp_Value = zero\<rparr>)
      | (w', Inr v) \<Rightarrow> (w', \<lparr>rp_Error = '''', rp_Value = v\<rparr>))"

definition serve_act :: "'w act \<Rightarrow> 'w \<Rightarrow> 'w \<times> unit Reply" where
  "serve_act f w =
     (case f w of
        (w', Some e) \<Rightarrow> (w', \<lparr>rp_Error = e, rp_Value = ()\<rparr>)
      | (w', None) \<Rightarrow> (w', \<lparr>rp_Error = '''', rp_Value = ()\<rparr>))"

definition ErrFromString :: "string \<Rightarrow> goerror" where
  "ErrFromString s = (if s = '''' then None else Some s)"

text \<open>The connection delivers a call, or fails with an error of its own.\<close>

type_synonym 'w connection = "'w \<Rightarrow> goerror"

definition client_call :: "'w connection \<Rightarrow> ('w \<Rightarrow> 'w \<times> 'a Reply) \<Rightarrow> ('w, 'a) call" where
  "client_call conn serve w =
     (case conn w of
        Some e \<Rightarrow> (w, Inl e)
      | None \<Rightarrow>
          (case serve w of
             (w', r) \<Rightarrow> (w', case ErrFromString (rp_Error r) of Some e \<Rightarrow> Inl e | None \<Rightarrow> Inr (rp_Value r))))"

definition client_act :: "'w connection \<Rightarrow> ('w \<Rightarrow> 'w \<times> unit Reply) \<Rightarrow> 'w act" where
  "client_act conn serve w =
     (case conn w of
        Some e \<Rightarrow> (w, Some e)
      | None \<Rightarrow> (case serve w of (w', r) \<Rightarrow> (w', ErrFromString (rp_Error r))))"

section \<open>Plugin side\<close>

definition zero_Metadata :: MetadataResponse where
  "zero_Metadata =
     \<lparr>mr_Namespace = [], mr_Version = [], mr_Description = [], mr_Category = [], mr_ConfigPath = [], mr_DefaultConfig = None, mr_Dependencies = [],
      mr_RequiredServices = [], mr_ProvidedServices = [], mr_PathPrefix = [], mr_CLICommands = []\<rparr>"

definition server_Metadata :: "'w Provider \<Rightarrow> 'w \<Rightarrow> 'w \<times> MetadataResponse Reply" where
  "server_Metadata impl = serve_call zero_Metadata (pv_Metadata impl)"

definition server_ApplyConfig :: "'w Provider \<Rightarrow> json \<Rightarrow> 'w \<Rightarrow> 'w \<times> unit Reply" where
  "server_ApplyConfig impl configJSON = serve_act (pv_ApplyConfig impl configJSON)"

definition server_ValidateConfig :: "'w Provider \<Rightarrow> json \<Rightarrow> 'w \<Rightarrow> 'w \<times> unit Reply" where
  "server_ValidateConfig impl configJSON = serve_act (pv_ValidateConfig impl configJSON)"

definition server_Flush :: "'w Provider \<Rightarrow> 'w \<Rightarrow> 'w \<times> unit Reply" where
  "server_Flush impl = serve_act (pv_Flush impl)"

definition server_Status :: "'w Provider \<Rightarrow> 'w \<Rightarrow> 'w \<times> json option Reply" where
  "server_Status impl = serve_call None (pv_Status impl)"

definition server_ExecuteCLICommand :: "'w Provider \<Rightarrow> string \<Rightarrow> string list \<Rightarrow> 'w \<Rightarrow> 'w \<times> string Reply" where
  "server_ExecuteCLICommand impl command args = serve_call '''' (pv_ExecuteCLICommand impl command args)"

definition server_OnLogEvent :: "'w Provider \<Rightarrow> json \<Rightarrow> 'w \<Rightarrow> 'w \<times> unit Reply" where
  "server_OnLogEvent impl logEventJSON = serve_act (pv_OnLogEvent impl logEventJSON)"

definition server_GetProvidedServices :: "'w Provider \<Rightarrow> 'w \<Rightarrow> 'w \<times> ServiceDescriptor list Reply" where
  "server_GetProvidedServices impl = serve_call [] (pv_GetProvidedServices impl)"

definition server_CallService :: "'w Provider \<Rightarrow> string \<Rightarrow> string \<Rightarrow> json \<Rightarrow> 'w \<Rightarrow> 'w \<times> json option Reply" where
  "server_CallService impl serviceName method argsJSON = serve_call None (pv_CallService impl serviceName method argsJSON)"

section \<open>Daemon side\<close>

definition client_Metadata :: "'w connection \<Rightarrow> 'w Provider \<Rightarrow> ('w, MetadataResponse) call" where
  "client_Metadata conn impl = client_call conn (server_Metadata impl)"

definition client_ApplyConfig :: "'w connection \<Rightarrow> 'w Provider \<Rightarrow> json \<Rightarrow> 'w act" where
  "client_ApplyConfig conn impl configJSON = client_act conn (server_ApplyConfig impl configJSON)"

definition client_ValidateConfig :: "'w connection \<Rightarrow> 'w Provider \<Rightarrow> json \<Rightarrow> 'w act" where
  "client_ValidateConfig conn impl configJSON = client_act conn (server_ValidateConfig impl configJSON)"

definition client_Flush :: "'w connection \<Rightarrow> 'w Provider \<Rightarrow> 'w act" where
  "client_Flush conn impl = client_act conn (server_Flush impl)"

definition client_Status :: "'w connection \<Rightarrow> 'w Provider \<Rightarrow> ('w, json option) call" where
  "client_Status conn impl = client_call conn (server_Status impl)"

definition client_ExecuteCLICommand :: "'w connection \<Rightarrow> 'w Provider \<Rightarrow> string \<Rightarrow> string list \<Rightarrow> ('w, string) call" where
  "client_ExecuteCLICommand conn impl command args = client_call conn (server_ExecuteCLICommand impl command args)"

definition client_OnLogEvent :: "'w connection \<Rightarrow> 'w Provider \<Rightarrow> json \<Rightarrow> 'w act" where
  "client_OnLogEvent conn impl logEventJSON = client_act conn (server_OnLogEvent impl logEventJSON)"

definition client_GetProvidedServices :: "'w connection \<Rightarrow> 'w Provider \<Rightarrow> ('w, ServiceDescriptor list) call" where
  "client_GetProvidedServices conn impl = client_call conn (server_GetProvidedServices impl)"

definition client_CallService :: "'w connection \<Rightarrow> 'w Provider \<Rightarrow> string \<Rightarrow> string \<Rightarrow> json \<Rightarrow> ('w, json option) call" where
  "client_CallService conn impl serviceName method argsJSON = client_call conn (server_CallService impl serviceName method argsJSON)"

definition RPCClient :: "'w connection \<Rightarrow> 'w Provider \<Rightarrow> 'w Provider" where
  "RPCClient conn impl =
     \<lparr>pv_Metadata = client_Metadata conn impl, pv_ApplyConfig = client_ApplyConfig conn impl, pv_ValidateConfig = client_ValidateConfig conn impl,
      pv_Flush = client_Flush conn impl, pv_Status = client_Status conn impl, pv_ExecuteCLICommand = client_ExecuteCLICommand conn impl,
      pv_OnLogEvent = client_OnLogEvent conn impl, pv_GetProvidedServices = client_GetProvidedServices conn impl,
      pv_CallService = client_CallService conn impl\<rparr>"

section \<open>The daemon as a service of plugins\<close>

text \<open>A wait carries the deadline of its context, None when it has none.\<close>

record 'w DaemonService =
  ds_IsServiceReady :: "string \<Rightarrow> 'w \<Rightarrow> bool"
  ds_WaitForService :: "int option \<Rightarrow> string \<Rightarrow> 'w act"
  ds_WaitForServices :: "int option \<Rightarrow> string list \<Rightarrow> 'w act"
  ds_CallService :: "string \<Rightarrow> string \<Rightarrow> json \<Rightarrow> 'w \<Rightarrow> 'w \<times> (string + json)"

text \<open>The server waits with a background context, whatever the context of the caller.\<close>

definition dss_CallService :: "'w DaemonService \<Rightarrow> string \<Rightarrow> string \<Rightarrow> json \<Rightarrow> 'w \<Rightarrow> 'w \<times> json Reply" where
  "dss_CallService impl serviceName method argsJSON = serve_call JNull (ds_CallService impl serviceName method argsJSON)"

definition dss_WaitForService :: "'w DaemonService \<Rightarrow> string \<Rightarrow> 'w \<Rightarrow> 'w \<times> unit Reply" where
  "dss_WaitForService impl serviceName = serve_act (ds_WaitForService impl None serviceName)"

definition dss_WaitForServices :: "'w DaemonService \<Rightarrow> string list \<Rightarrow> 'w \<Rightarrow> 'w \<times> unit Reply" where
  "dss_WaitForServices impl serviceNames = serve_act (ds_WaitForServices impl None serviceNames)"

definition dss_IsServiceReady :: "'w DaemonService \<Rightarrow> string \<Rightarrow> 'w \<Rightarrow> bool" where
  "dss_IsServiceReady impl serviceName = ds_IsServiceReady impl serviceName"

lemmas dss_defs = dss_CallService_def dss_WaitForService_def dss_WaitForServices_def dss_IsServiceReady_def

text \<open>The client, in the plugin.\<close>

definition daemon_WaitForService :: "'w connection \<Rightarrow> 'w DaemonService \<Rightarrow> int option \<Rightarrow> string \<Rightarrow> 'w act" where
  "daemon_WaitForService conn impl deadline serviceName = client_act conn (dss_WaitForService impl serviceName)"

definition daemon_WaitForServices :: "'w connection \<Rightarrow> 'w DaemonService \<Rightarrow> int option \<Rightarrow> string list \<Rightarrow> 'w act" where
  "daemon_WaitForServices conn impl deadline serviceNames = client_act conn (dss_WaitForServices impl serviceNames)"

definition daemon_CallService :: "'w connection \<Rightarrow> 'w DaemonService \<Rightarrow> string \<Rightarrow> string \<Rightarrow> json \<Rightarrow> 'w \<Rightarrow> 'w \<times> (string + json)" where
  "daemon_CallService conn impl serviceName method argsJSON = client_call conn (dss_CallService impl serviceName method argsJSON)"

definition daemon_IsServiceReady :: "'w connection \<Rightarrow> 'w DaemonService \<Rightarrow> string \<Rightarrow> 'w \<Rightarrow> bool" where
  "daemon_IsServiceReady conn impl serviceName w = (case conn w of Some _ \<Rightarrow> False | None \<Rightarrow> dss_IsServiceReady impl serviceName w)"

definition DaemonServiceClient :: "'w connection \<Rightarrow> 'w DaemonService \<Rightarrow> 'w DaemonService" where
  "DaemonServiceClient conn impl =
     \<lparr>ds_IsServiceReady = daemon_IsServiceReady conn impl, ds_WaitForService = daemon_WaitForService conn impl,
      ds_WaitForServices = daemon_WaitForServices conn impl, ds_CallService = daemon_CallService conn impl\<rparr>"

section \<open>Setting up the connection back to the daemon\<close>

text \<open>
  \<open>SetupDaemonService\<close> of the daemon and the goroutine that \<open>SetDaemonService\<close> starts in the plugin, as interleaved steps. The daemon calls, dials and verifies; the
  goroutine accepts, hands the connection to the plugin or records an error, and closes the channel the verification waits for.
\<close>

datatype daemon_phase = DStart | DCalled | DDialed | DDone goerror

datatype plugin_phase = PIdle | PAccepting | PFinished

record handshake =
  su_daemon :: daemon_phase
  su_plugin :: plugin_phase
  su_impl :: bool
  su_setupErr :: goerror
  su_ready :: bool

definition setup_init :: handshake where
  "setup_init = \<lparr>su_daemon = DStart, su_plugin = PIdle, su_impl = False, su_setupErr = None, su_ready = False\<rparr>"

inductive setup_step :: "handshake \<Rightarrow> handshake \<Rightarrow> bool" where
  call: "su_daemon s = DStart \<Longrightarrow>
    setup_step s (s\<lparr>su_daemon := DCalled, su_plugin := PAccepting, su_setupErr := None, su_ready := False\<rparr>)"
| call_fails: "su_daemon s = DStart \<Longrightarrow>
    setup_step s (s\<lparr>su_daemon := DDone (Some (''failed to call SetDaemonService: '' @ e))\<rparr>)"
| call_reply_lost: "su_daemon s = DStart \<Longrightarrow>
    setup_step s (s\<lparr>su_daemon := DDone (Some (''failed to call SetDaemonService: '' @ e)), su_plugin := PAccepting, su_setupErr := None, su_ready := False\<rparr>)"
| dial: "su_daemon s = DCalled \<Longrightarrow> setup_step s (s\<lparr>su_daemon := DDialed\<rparr>)"
| dial_fails: "su_daemon s = DCalled \<Longrightarrow>
    setup_step s (s\<lparr>su_daemon := DDone (Some (''failed to dial daemon service connection: '' @ e))\<rparr>)"
| accepted: "su_plugin s = PAccepting \<Longrightarrow> setup_step s (s\<lparr>su_plugin := PFinished, su_impl := True\<rparr>)"
| accept_fails: "su_plugin s = PAccepting \<Longrightarrow>
    setup_step s (s\<lparr>su_plugin := PFinished, su_setupErr := Some (''failed to accept daemon service connection: '' @ e)\<rparr>)"
| close_ready: "su_plugin s = PFinished \<Longrightarrow> setup_step s (s\<lparr>su_ready := True\<rparr>)"
| verified: "su_daemon s = DDialed \<Longrightarrow> su_ready s \<Longrightarrow>
    setup_step s (s\<lparr>su_daemon := DDone (case su_setupErr s of None \<Rightarrow> None | Some e \<Rightarrow> Some (''daemon service verification failed: '' @ e))\<rparr>)"
| verify_fails: "su_daemon s = DDialed \<Longrightarrow>
    setup_step s (s\<lparr>su_daemon := DDone (Some (''failed to verify daemon service setup: '' @ e))\<rparr>)"

section \<open>The loader\<close>

record ('c, 'w) PluginHost =
  ph_NewClient :: "string \<Rightarrow> 'w \<Rightarrow> 'w \<times> (string + 'c)"
  ph_Dispense :: "'c \<Rightarrow> 'w \<Rightarrow> 'w \<times> (string + 'w Provider)"
  ph_Close :: "'c \<Rightarrow> 'w act"

record ('c, 'w) PluginLoader =
  lr_client :: 'c
  lr_provider :: "'w Provider"
  lr_metadata :: PluginMetadata
  lr_providedServices :: "ServiceDescriptor list"
  lr_requiredServices :: "string list"

definition metadata_of :: "MetadataResponse \<Rightarrow> PluginMetadata" where
  "metadata_of r =
     \<lparr>pm_Namespace = mr_Namespace r, pm_Version = mr_Version r, pm_Description = mr_Description r, pm_Category = mr_Category r,
      pm_ConfigPath = mr_ConfigPath r, pm_DefaultConfig = mr_DefaultConfig r, pm_Dependencies = mr_Dependencies r, pm_PathPrefix = mr_PathPrefix r\<rparr>"

definition LoadPlugin :: "'w PluginFiles \<Rightarrow> ('c, 'w) PluginHost \<Rightarrow> string \<Rightarrow> 'w \<Rightarrow> 'w \<times> (string + ('c, 'w) PluginLoader)" where
  "LoadPlugin files h name w =
     (case FindPlugin files pluginDirs name w of
        Inl e \<Rightarrow> (w, Inl (''plugin '' @ quoted name @ '' not found: '' @ e))
      | Inr path \<Rightarrow>
          (case ph_NewClient h path w of
             (w1, Inl e) \<Rightarrow> (w1, Inl (''failed to start plugin '' @ quoted name @ '': '' @ e))
           | (w1, Inr client) \<Rightarrow>
               (case ph_Dispense h client w1 of
                  (w2, Inl e) \<Rightarrow> (fst (ph_Close h client w2), Inl (''failed to dispense plugin '' @ quoted name @ '': '' @ e))
                | (w2, Inr provider) \<Rightarrow>
                    (case pv_Metadata provider w2 of
                       (w3, Inl e) \<Rightarrow> (fst (ph_Close h client w3), Inl (''failed to get metadata from plugin '' @ quoted name @ '': '' @ e))
                     | (w3, Inr r) \<Rightarrow>
                         (w3, Inr \<lparr>lr_client = client, lr_provider = provider, lr_metadata = metadata_of r,
                                   lr_providedServices = mr_ProvidedServices r, lr_requiredServices = mr_RequiredServices r\<rparr>)))))"

definition loader_ApplyConfig :: "('c, 'w) PluginLoader \<Rightarrow> json \<Rightarrow> 'w act" where
  "loader_ApplyConfig l config = pv_ApplyConfig (lr_provider l) (marshal config)"

definition loader_ValidateConfig :: "('c, 'w) PluginLoader \<Rightarrow> json \<Rightarrow> 'w act" where
  "loader_ValidateConfig l config = pv_ValidateConfig (lr_provider l) (marshal config)"

definition loader_Flush :: "('c, 'w) PluginLoader \<Rightarrow> 'w act" where
  "loader_Flush l = pv_Flush (lr_provider l)"

definition loader_Status :: "('c, 'w) PluginLoader \<Rightarrow> 'w \<Rightarrow> 'w \<times> (string, json) gomap option outcome" where
  "loader_Status l w =
     (case pv_Status (lr_provider l) w of
        (w', Inl e) \<Rightarrow> (w', Err e)
      | (w', Inr payload) \<Rightarrow>
          (w', wrap_err ''failed to unmarshal status: ''
                 (case payload of None \<Rightarrow> Err ''unexpected end of JSON input'' | Some v \<Rightarrow> dec_map ''map'' Ok v)))"

definition loader_ExecuteCLICommand :: "('c, 'w) PluginLoader \<Rightarrow> string \<Rightarrow> string list \<Rightarrow> ('w, string) call" where
  "loader_ExecuteCLICommand l = pv_ExecuteCLICommand (lr_provider l)"

end
