(* ===== verification/Firewall_Log.thy ===== *)
theory Firewall_Log
  imports Packet_Log Plugin_Process Go_Text
begin

text \<open>
  The database handler of the firewall plugin, \<open>src/plugins/core/firewall/db_operations.go\<close>: statements sent to the \<open>database\<close> service through the daemon. The
  daemon is a record of operations on a state of any type. JSON text is represented by its value, and the line breaks inside SQL statements are
  reduced to spaces. A call on a daemon that is nil panics.
\<close>

section \<open>The handler\<close>

record 'w FirewallDatabase =
  fd_daemonService :: "'w DaemonService option"
  fd_schemaInit :: bool

definition NewFirewallDatabase :: "'w DaemonService option \<Rightarrow> 'w FirewallDatabase" where
  "NewFirewallDatabase ds = \<lparr>fd_daemonService = ds, fd_schemaInit = False\<rparr>"

definition ResetInitialization :: "'w FirewallDatabase \<Rightarrow> 'w FirewallDatabase" where
  "ResetInitialization db = db\<lparr>fd_schemaInit := False\<rparr>"

text \<open>The arguments of a statement, with the keys in the order \<open>json.Marshal\<close> writes them.\<close>

definition statement_json :: "string \<Rightarrow> json list \<Rightarrow> json" where
  "statement_json query args = JObj [(''args'', JArr args), (''query'', JStr query)]"

definition call_database :: "'w FirewallDatabase \<Rightarrow> string \<Rightarrow> string \<Rightarrow> json list \<Rightarrow> 'w \<Rightarrow> 'w \<times> json outcome" where
  "call_database db method query args w =
     (case fd_daemonService db of
        None \<Rightarrow> (w, Panic)
      | Some ds \<Rightarrow>
          (case ds_CallService ds ''database'' method (statement_json query args) w of
             (w', Inl e) \<Rightarrow> (w', Err e)
           | (w', Inr v) \<Rightarrow> (w', Ok v)))"

section \<open>Schema\<close>

definition firewall_schema :: "string list" where
  "firewall_schema =
     [''CREATE TABLE IF NOT EXISTS firewall_logs (id INTEGER PRIMARY KEY AUTOINCREMENT, timestamp TEXT NOT NULL, action TEXT NOT NULL, src_ip TEXT NOT NULL, dst_ip TEXT NOT NULL, protocol TEXT, src_port INTEGER DEFAULT 0, dst_port INTEGER DEFAULT 0, interface_in TEXT, interface_out TEXT, packet_length INTEGER DEFAULT 0, created_at DATETIME DEFAULT CURRENT_TIMESTAMP)'',
      ''CREATE INDEX IF NOT EXISTS idx_firewall_logs_timestamp ON firewall_logs(timestamp)'',
      ''CREATE INDEX IF NOT EXISTS idx_firewall_logs_action ON firewall_logs(action)'',
      ''CREATE INDEX IF NOT EXISTS idx_firewall_logs_src_ip ON firewall_logs(src_ip)'',
      ''CREATE INDEX IF NOT EXISTS idx_firewall_logs_dst_ip ON firewall_logs(dst_ip)'',
      ''CREATE INDEX IF NOT EXISTS idx_firewall_logs_created_at ON firewall_logs(created_at)'']"

fun create_schema :: "'w DaemonService \<Rightarrow> nat \<Rightarrow> string list \<Rightarrow> 'w act" where
  "create_schema ds i [] = nop"
| "create_schema ds i (stmt # stmts) =
     andthen
       (\<lambda>w. case ds_CallService ds ''database'' ''Exec'' (statement_json stmt []) w of
          (w', Inl e) \<Rightarrow> (w', Some (''failed to create schema (statement '' @ show_nat (i + 1) @ ''): '' @ e))
        | (w', Inr _) \<Rightarrow> (w', None))
       (create_schema ds (i + 1) stmts)"

definition InitSchema :: "'w FirewallDatabase \<times> 'w \<Rightarrow> ('w FirewallDatabase \<times> 'w) \<times> goerror" where
  "InitSchema dw =
     (case dw of (db, w) \<Rightarrow>
        if fd_schemaInit db then (dw, None)
        else
          (case fd_daemonService db of
             None \<Rightarrow> (dw, Some ''daemon service not available'')
           | Some ds \<Rightarrow>
               (case create_schema ds 0 firewall_schema w of
                  (w', Some e) \<Rightarrow> ((db, w'), Some e)
                | (w', None) \<Rightarrow> ((db\<lparr>fd_schemaInit := True\<rparr>, w'), None))))"

section \<open>Statistics\<close>

record StatsResult =
  sr_Total :: int
  sr_Accepts :: int
  sr_Drops :: int

record RowValues =
  rv_Columns :: "string slice"
  rv_Values :: "json slice"

definition dec_RowValues :: "json \<Rightarrow> RowValues outcome" where
  "dec_RowValues v =
     dec_object ''struct'' [slice_field ''columns'' (dec_string '''') rv_Columns rv_Columns_update, slice_field ''values'' Ok rv_Values rv_Values_update] v
       \<lparr>rv_Columns = None, rv_Values = None\<rparr>"

text \<open>\<open>v.(float64)\<close> and \<open>v.(string)\<close> with the zero value for other types.\<close>

definition int_of_json :: "json \<Rightarrow> int" where
  "int_of_json v = (case v of JNum q \<Rightarrow> trunc64 q | _ \<Rightarrow> 0)"

definition str_of_json :: "json \<Rightarrow> string" where
  "str_of_json v = (case v of JStr s \<Rightarrow> s | _ \<Rightarrow> '''')"

definition first_count :: "RowValues \<Rightarrow> int" where
  "first_count r = (case elems (rv_Values r) of [] \<Rightarrow> 0 | v # _ \<Rightarrow> int_of_json v)"

definition query_count :: "'w FirewallDatabase \<Rightarrow> string \<Rightarrow> string \<Rightarrow> string \<Rightarrow> json list \<Rightarrow> 'w \<Rightarrow> 'w \<times> int outcome" where
  "query_count db what decoded query args w =
     (case call_database db ''QueryRow'' query args w of
        (w', r) \<Rightarrow>
          (w', obind (wrap_err (''failed to query '' @ what @ '': '') r) (\<lambda>v.
               obind (wrap_err (''failed to unmarshal '' @ decoded @ '': '') (dec_RowValues v)) (\<lambda>row. Ok (first_count row)))))"

definition QueryStats :: "'w FirewallDatabase \<Rightarrow> 'w \<Rightarrow> 'w \<times> StatsResult outcome" where
  "QueryStats db w =
     (case query_count db ''total logs'' ''total count'' ''SELECT COUNT(*) FROM firewall_logs'' [] w of
        (w1, Err e) \<Rightarrow> (w1, Err e)
      | (w1, Panic) \<Rightarrow> (w1, Panic)
      | (w1, Ok allLogs) \<Rightarrow>
          (case query_count db ''drops'' ''drops count'' ''SELECT COUNT(*) FROM firewall_logs WHERE action = ?'' [JStr ''DROP''] w1 of
             (w2, r) \<Rightarrow>
               (w2, obind r (\<lambda>drops. Ok \<lparr>sr_Total = allLogs, sr_Accepts = wrap64 (allLogs - drops), sr_Drops = drops\<rparr>))))"

section \<open>Entries\<close>

record LogEntry =
  fle_Timestamp :: string
  fle_Action :: string
  fle_SrcIP :: string
  fle_DstIP :: string
  fle_Protocol :: string
  fle_SrcPort :: int
  fle_DstPort :: int

record RowList =
  ro_Columns :: "string slice"
  ro_Rows :: "json slice slice"

definition dec_RowList :: "json \<Rightarrow> RowList outcome" where
  "dec_RowList v =
     dec_object ''struct''
       [slice_field ''columns'' (dec_string '''') ro_Columns ro_Columns_update,
        slice_field ''rows'' (dec_slice ''[]'' Ok) ro_Rows ro_Rows_update] v
       \<lparr>ro_Columns = None, ro_Rows = None\<rparr>"

text \<open>Rows with fewer than seven values are skipped.\<close>

definition row_entry :: "json list \<Rightarrow> LogEntry list" where
  "row_entry row =
     (if length row < 7 then []
      else
        [\<lparr>fle_Timestamp = str_of_json (row ! 0), fle_Action = str_of_json (row ! 1), fle_SrcIP = str_of_json (row ! 2),
          fle_DstIP = str_of_json (row ! 3), fle_Protocol = str_of_json (row ! 4), fle_SrcPort = int_of_json (row ! 5),
          fle_DstPort = int_of_json (row ! 6)\<rparr>])"

definition query_entries :: "'w FirewallDatabase \<Rightarrow> string \<Rightarrow> json list \<Rightarrow> 'w \<Rightarrow> 'w \<times> LogEntry list outcome" where
  "query_entries db query args w =
     (case call_database db ''Query'' query args w of
        (w', r) \<Rightarrow>
          (w', obind (wrap_err ''failed to query logs: '' r) (\<lambda>v.
               obind (wrap_err ''failed to unmarshal logs: '' (dec_RowList v)) (\<lambda>rows.
               Ok (concat (map (\<lambda>row. row_entry (elems row)) (elems (ro_Rows rows))))))))"

definition log_columns :: string where
  "log_columns = ''SELECT timestamp, action, src_ip, dst_ip, protocol, src_port, dst_port FROM firewall_logs''"

definition QueryLogs :: "'w FirewallDatabase \<Rightarrow> int \<Rightarrow> 'w \<Rightarrow> 'w \<times> LogEntry list outcome" where
  "QueryLogs db limit = query_entries db (log_columns @ '' ORDER BY id DESC LIMIT '' @ show_int limit) []"

record FirewallLogQuery =
  fq_Action :: string
  fq_SrcIP :: string
  fq_DstIP :: string
  fq_Protocol :: string
  fq_InterfaceIn :: string
  fq_InterfaceOut :: string
  fq_Limit :: int
  fq_Since :: string

text \<open>The conditions that are set, each with its value, in the order the code adds them.\<close>

definition log_conditions :: "FirewallLogQuery \<Rightarrow> (string \<times> string) list" where
  "log_conditions f =
     filter (\<lambda>(_, v). v \<noteq> '''')
       [('' AND action = ?'', fq_Action f), ('' AND src_ip = ?'', fq_SrcIP f), ('' AND dst_ip = ?'', fq_DstIP f),
        ('' AND protocol = ?'', fq_Protocol f), ('' AND interface_in = ?'', fq_InterfaceIn f), ('' AND interface_out = ?'', fq_InterfaceOut f)]"

definition QueryLogsFiltered :: "'w FirewallDatabase \<Rightarrow> FirewallLogQuery \<Rightarrow> 'w \<Rightarrow> 'w \<times> LogEntry list outcome" where
  "QueryLogsFiltered db f =
     (let conds = log_conditions f; limit = (if fq_Limit f = 0 then 20 else fq_Limit f) in
      query_entries db (log_columns @ '' WHERE 1=1'' @ concat (map fst conds) @ '' ORDER BY id DESC'' @ '' LIMIT '' @ show_int limit)
        (map (JStr \<circ> snd) conds))"

definition insert_query :: string where
  "insert_query = ''INSERT INTO firewall_logs (timestamp, action, src_ip, dst_ip, protocol, src_port, dst_port, interface_in, interface_out, packet_length) VALUES (?, ?, ?, ?, ?, ?, ?, ?, ?, ?)''"

definition insert_args :: "FirewallLogEntry \<Rightarrow> json list" where
  "insert_args entry =
     [JStr (fe_Timestamp entry), JStr (fe_Action entry), JStr (fe_SrcIP entry), JStr (fe_DstIP entry), JStr (fe_Protocol entry),
      JNum (of_nat (fe_SrcPort entry)), JNum (of_nat (fe_DstPort entry)), JStr (fe_InterfaceIn entry), JStr (fe_InterfaceOut entry),
      JNum (of_nat (fe_PacketLength entry))]"

definition InsertLog :: "'w FirewallDatabase \<Rightarrow> FirewallLogEntry \<Rightarrow> 'w pact" where
  "InsertLog db entry w =
     (case call_database db ''Exec'' insert_query (insert_args entry) w of
        (w', r) \<Rightarrow> (w', obind (wrap_err ''failed to insert log: '' r) (\<lambda>_. Ok ())))"

text \<open>The maintenance operations are stubs.\<close>

definition firewall_maintenance :: "'w LogDatabase" where
  "firewall_maintenance = \<lparr>ld_CleanupOldLogs = (\<lambda>_. nop), ld_EnforceMaxEntries = (\<lambda>_. nop), ld_Vacuum = nop\<rparr>"

end
