(* ===== verification/Sqlite_Facts.thy ===== *)
theory Sqlite_Facts
  imports Sqlite Firewall_Log
begin

text \<open>
  The database plugin: what its connection does after a flush, a failed change of path or a change of settings, and that the statements built from
  filters never contain a value of a filter.
\<close>

section \<open>The connection\<close>

text \<open>With an unchanged path an apply touches nothing, whatever the other settings say, also after a flush has closed the database.\<close>

lemma apply_same_path:
  "s3_provider (fst sw) = Some p \<Longrightarrow> db_DatabasePath config = s3_lastPath (fst sw) \<Longrightarrow> SQLite3_apply e config sw = (sw, None)"
  by (simp add: SQLite3_apply_def)

lemma flush_not_reopened:
  assumes "s3_provider (fst sw) = Some p" "db_DatabasePath config = s3_lastPath (fst sw)"
  shows "SQLite3_apply e config (fst (SQLite3_Flush e sw)) = ((fst sw, fst (db_Close e p (snd sw))), None)"
  using assms by (simp add: SQLite3_apply_def SQLite3_Flush_def split: prod.splits)

text \<open>A change of path that fails keeps the provider whose database it has closed, and the old path.\<close>

lemma failed_change_keeps_closed:
  assumes "s3_provider s = Some p" "db_DatabasePath config \<noteq> s3_lastPath s"
    and "NewDatabaseProvider e config (fst (db_Close e p w)) = (w', Inl m)"
  shows "SQLite3_apply e config (s, w) = ((s, w'), Some (''failed to create database provider: '' @ m))"
  using assms by (simp add: SQLite3_apply_def open_provider_def)

text \<open>A provider is handed out only with its schema in place; otherwise its connection was closed again.\<close>

lemma new_provider_cases:
  assumes "NewDatabaseProvider e config w = (w', Inr p)"
  shows "\<exists>w1. db_connect e config w = (w1, Inr (dp_db p)) \<and> initializeSchema e (dp_db p) w1 = (w', None) \<and> dp_config p = config"
  using assms by (auto simp: NewDatabaseProvider_def Let_def split: prod.splits sum.splits option.splits)

section \<open>Statements\<close>

text \<open>The text of a log query depends only on which filters are set, and has one placeholder for each value.\<close>

lemma logs_query_text:
  assumes "level = '''' \<longleftrightarrow> level' = ''''" "component = '''' \<longleftrightarrow> component' = ''''" "0 < limit \<longleftrightarrow> 0 < limit'"
  shows "fst (logs_query level component limit) = fst (logs_query level' component' limit')"
  using assms by (simp add: logs_query_def)

lemma logs_query_placeholders:
  "count_list (fst (logs_query level component limit)) (CHR ''?'') = length (snd (logs_query level component limit))"
  by (simp add: logs_query_def)

lemma conditions_placeholders: "count_list (concat (map fst (log_conditions f))) (CHR ''?'') = length (log_conditions f)"
  by (simp add: log_conditions_def)

end
