(* ===== verification/Firewall_Rpc.thy ===== *)
theory Firewall_Rpc
  imports Firewall_Log
begin

text \<open>
  The RPC surface of the firewall plugin, \<open>src/plugins/core/firewall/rpc_provider.go\<close>, with the decoding of its configuration (\<open>types.go\<close>) and the start and stop
  of the capture (\<open>capture.go\<close>). The background initialisation that an apply starts is a step of its own, taken at any time after it. NFLOG is a
  record of operations on a state of any type.
\<close>

section \<open>Decoding\<close>

definition zero_FirewallDefaults :: FirewallDefaults where
  "zero_FirewallDefaults = \<lparr>fd_Input = [], fd_Forward = [], fd_Output = [], fd_SynFlood = False, fd_DropInvalid = False\<rparr>"

definition dec_FirewallDefaults :: "FirewallDefaults \<Rightarrow> json \<Rightarrow> FirewallDefaults outcome" where
  "dec_FirewallDefaults d v =
     dec_object ''main.FirewallDefaults''
       [str_field ''input'' fd_Input fd_Input_update, str_field ''forward'' fd_Forward fd_Forward_update, str_field ''output'' fd_Output fd_Output_update,
        bool_field ''syn_flood'' fd_SynFlood fd_SynFlood_update, bool_field ''drop_invalid'' fd_DropInvalid fd_DropInvalid_update] v d"

definition dec_Zone :: "json \<Rightarrow> Zone outcome" where
  "dec_Zone v =
     dec_object ''main.Zone''
       [str_field ''name'' zn_Name zn_Name_update, slice_field ''interfaces'' (dec_string '''') zn_Interfaces zn_Interfaces_update,
        str_field ''input'' zn_Input zn_Input_update, str_field ''forward'' zn_Forward zn_Forward_update, str_field ''output'' zn_Output zn_Output_update,
        bool_field ''masquerade'' zn_Masquerade zn_Masquerade_update, bool_field ''mtu_fix'' zn_MTUFix zn_MTUFix_update,
        str_field ''family'' zn_Family zn_Family_update, str_field ''comment'' zn_Comment zn_Comment_update] v
       \<lparr>zn_Name = [], zn_Interfaces = None, zn_Input = [], zn_Forward = [], zn_Output = [], zn_Masquerade = False, zn_MTUFix = False,
        zn_Family = [], zn_Comment = []\<rparr>"

definition dec_Forwarding :: "json \<Rightarrow> Forwarding outcome" where
  "dec_Forwarding v =
     dec_object ''main.Forwarding''
       [str_field ''src'' fw_Src fw_Src_update, str_field ''dest'' fw_Dest fw_Dest_update, str_field ''family'' fw_Family fw_Family_update,
        str_field ''comment'' fw_Comment fw_Comment_update] v
       \<lparr>fw_Src = [], fw_Dest = [], fw_Family = [], fw_Comment = []\<rparr>"

definition dec_Rule :: "json \<Rightarrow> Rule outcome" where
  "dec_Rule v =
     dec_object ''main.Rule''
       [str_field ''name'' ru_Name ru_Name_update, str_field ''src'' ru_Src ru_Src_update, str_field ''dest'' ru_Dest ru_Dest_update,
        str_field ''proto'' ru_Proto ru_Proto_update, str_field ''src_ip'' ru_SrcIP ru_SrcIP_update, str_field ''dest_ip'' ru_DestIP ru_DestIP_update,
        str_field ''src_port'' ru_SrcPort ru_SrcPort_update, str_field ''dest_port'' ru_DestPort ru_DestPort_update,
        slice_field ''icmp_type'' (dec_string '''') ru_ICMPType ru_ICMPType_update, str_field ''target'' ru_Target ru_Target_update,
        str_field ''family'' ru_Family ru_Family_update, str_field ''limit'' ru_Limit ru_Limit_update] v
       \<lparr>ru_Name = [], ru_Src = [], ru_Dest = [], ru_Proto = [], ru_SrcIP = [], ru_DestIP = [], ru_SrcPort = [], ru_DestPort = [],
        ru_ICMPType = None, ru_Target = [], ru_Family = [], ru_Limit = []\<rparr>"

definition dec_PortForward :: "json \<Rightarrow> PortForward outcome" where
  "dec_PortForward v =
     dec_object ''main.PortForward''
       [str_field ''name'' pf_Name pf_Name_update, str_field ''src'' pf_Src pf_Src_update, str_field ''dest'' pf_Dest pf_Dest_update,
        str_field ''proto'' pf_Proto pf_Proto_update, str_field ''src_dport'' pf_SrcDPort pf_SrcDPort_update,
        str_field ''dest_ip'' pf_DestIP pf_DestIP_update, str_field ''dest_port'' pf_DestPort pf_DestPort_update,
        str_field ''target'' pf_Target pf_Target_update, bool_field ''enabled'' pf_Enabled pf_Enabled_update,
        str_field ''comment'' pf_Comment pf_Comment_update] v
       \<lparr>pf_Name = [], pf_Src = [], pf_Dest = [], pf_Proto = [], pf_SrcDPort = [], pf_DestIP = [], pf_DestPort = [], pf_Target = [],
        pf_Enabled = False, pf_Comment = []\<rparr>"

definition dec_FirewallLogging :: "FirewallLoggingConfig \<Rightarrow> json \<Rightarrow> FirewallLoggingConfig outcome" where
  "dec_FirewallLogging l v =
     dec_object ''main.LoggingConfig''
       [bool_field ''enabled'' fl_Enabled fl_Enabled_update, bool_field ''log_accepts'' fl_LogAccepts fl_LogAccepts_update,
        bool_field ''log_drops'' fl_LogDrops fl_LogDrops_update, int_field ''sampling_rate'' fl_SamplingRate fl_SamplingRate_update,
        int_field ''rate_limit_per_sec'' fl_RateLimitPerSec fl_RateLimitPerSec_update,
        int_field ''max_log_entries'' fl_MaxLogEntries fl_MaxLogEntries_update, int_field ''retention_days'' fl_RetentionDays fl_RetentionDays_update] v l"

definition zero_FirewallConfig :: FirewallConfig where
  "zero_FirewallConfig =
     \<lparr>fc_Version = [], fc_Enabled = False, fc_Defaults = zero_FirewallDefaults, fc_Zones = [], fc_Forwardings = None, fc_Rules = None,
      fc_PortForwards = None,
      fc_Logging = \<lparr>fl_Enabled = False, fl_LogAccepts = False, fl_LogDrops = False, fl_SamplingRate = 0, fl_RateLimitPerSec = 0,
                    fl_MaxLogEntries = 0, fl_RetentionDays = 0\<rparr>\<rparr>"

definition dec_FirewallConfig :: "json \<Rightarrow> FirewallConfig outcome" where
  "dec_FirewallConfig v =
     dec_object ''main.FirewallConfig''
       [str_field ''version'' fc_Version fc_Version_update, bool_field ''enabled'' fc_Enabled fc_Enabled_update,
        field_of ''defaults'' dec_FirewallDefaults fc_Defaults fc_Defaults_update, map_field ''zones'' dec_Zone fc_Zones fc_Zones_update,
        slice_field ''forwardings'' dec_Forwarding fc_Forwardings fc_Forwardings_update, slice_field ''rules'' dec_Rule fc_Rules fc_Rules_update,
        slice_field ''port_forwards'' dec_PortForward fc_PortForwards fc_PortForwards_update,
        field_of ''logging'' dec_FirewallLogging fc_Logging fc_Logging_update] v zero_FirewallConfig"

section \<open>Start and stop of the capture\<close>

record 'w Nflog =
  nf_Open :: "nat \<Rightarrow> 'w act"
  nf_Register :: "nat \<Rightarrow> 'w act"
  nf_Close :: "nat \<Rightarrow> 'w \<Rightarrow> 'w"

text \<open>A capture with the daemon its database handler was created for, its context and its handles.\<close>

record 'w CaptureSession =
  cs_log :: LogCapture
  cs_daemonService :: "'w DaemonService option"
  cs_cancelled :: bool
  cs_nflogDrops :: bool
  cs_nflogAccepts :: bool

definition new_session :: "int \<Rightarrow> 'w DaemonService option \<Rightarrow> FirewallLoggingConfig \<Rightarrow> 'w CaptureSession" where
  "new_session now ds config =
     \<lparr>cs_log = NewLogCapture now config, cs_daemonService = ds, cs_cancelled = False, cs_nflogDrops = False, cs_nflogAccepts = False\<rparr>"

definition open_drops :: "'w Nflog \<Rightarrow> 'w CaptureSession \<times> 'w \<Rightarrow> ('w CaptureSession \<times> 'w) \<times> goerror" where
  "open_drops nf cw =
     (case cw of (c, w) \<Rightarrow>
        (case nf_Open nf 100 w of
           (w1, Some e) \<Rightarrow> ((c, w1), Some (''failed to open NFLOG group 100: '' @ e))
         | (w1, None) \<Rightarrow>
             (case nf_Register nf 100 w1 of
                (w2, Some e) \<Rightarrow>
                  ((c\<lparr>cs_nflogDrops := True\<rparr>, nf_Close nf 100 w2), Some (''failed to register NFLOG drops callback: '' @ e))
              | (w2, None) \<Rightarrow> ((c\<lparr>cs_nflogDrops := True\<rparr>, w2), None))))"

definition close_drops :: "'w Nflog \<Rightarrow> 'w CaptureSession \<Rightarrow> 'w \<Rightarrow> 'w" where
  "close_drops nf c w = (if cs_nflogDrops c then nf_Close nf 100 w else w)"

definition open_accepts :: "'w Nflog \<Rightarrow> 'w CaptureSession \<times> 'w \<Rightarrow> ('w CaptureSession \<times> 'w) \<times> goerror" where
  "open_accepts nf cw =
     (case cw of (c, w) \<Rightarrow>
        (case nf_Open nf 101 w of
           (w1, Some e) \<Rightarrow> ((c, close_drops nf c w1), Some (''failed to open NFLOG group 101: '' @ e))
         | (w1, None) \<Rightarrow>
             (case nf_Register nf 101 w1 of
                (w2, Some e) \<Rightarrow>
                  ((c\<lparr>cs_nflogAccepts := True\<rparr>, close_drops nf c (nf_Close nf 101 w2)),
                   Some (''failed to register NFLOG accepts callback: '' @ e))
              | (w2, None) \<Rightarrow> ((c\<lparr>cs_nflogAccepts := True\<rparr>, w2), None))))"

definition capture_Start :: "'w Nflog \<Rightarrow> 'w CaptureSession \<times> 'w \<Rightarrow> ('w CaptureSession \<times> 'w) \<times> goerror" where
  "capture_Start nf cw =
     (let config = lc_config (cs_log (fst cw)) in
      if \<not> fl_Enabled config then (cw, None)
      else
        andthen (if fl_LogDrops config then open_drops nf else nop) (if fl_LogAccepts config then open_accepts nf else nop) cw)"

definition capture_Stop :: "'w Nflog \<Rightarrow> 'w CaptureSession \<Rightarrow> 'w \<Rightarrow> 'w CaptureSession \<times> 'w" where
  "capture_Stop nf c w =
     (c\<lparr>cs_cancelled := True\<rparr>, (let w1 = close_drops nf c w in if cs_nflogAccepts c then nf_Close nf 101 w1 else w1))"

section \<open>The provider\<close>

text \<open>The background initialisation: not requested yet, requested and to be run, or over; \<open>initOnce\<close> lets it be requested once.\<close>

datatype init_phase = NotRequested | Requested | Finished

record 'w FirewallRPCProvider =
  fr_provider :: FirewallProvider
  fr_config :: "FirewallConfig option"
  fr_capture :: "'w CaptureSession option"
  fr_db :: "'w FirewallDatabase option"
  fr_daemonService :: "'w DaemonService option"
  fr_captureStarted :: bool
  fr_init :: init_phase

definition NewFirewallRPCProvider :: "FirewallProvider \<Rightarrow> 'w FirewallRPCProvider" where
  "NewFirewallRPCProvider provider =
     \<lparr>fr_provider = provider, fr_config = None, fr_capture = None, fr_db = None, fr_daemonService = None, fr_captureStarted = False,
      fr_init = NotRequested\<rparr>"

definition database_ready :: "'w FirewallRPCProvider \<Rightarrow> 'w \<Rightarrow> bool" where
  "database_ready p w = (case fr_daemonService p of None \<Rightarrow> False | Some ds \<Rightarrow> ds_IsServiceReady ds ''database'' w)"

definition request_capture :: "int \<Rightarrow> FirewallLoggingConfig \<Rightarrow> 'w FirewallRPCProvider \<Rightarrow> 'w FirewallRPCProvider" where
  "request_capture now config p =
     p\<lparr>fr_db := Some (case fr_db p of None \<Rightarrow> NewFirewallDatabase (fr_daemonService p) | Some db \<Rightarrow> db),
       fr_capture := Some (case fr_capture p of
                             None \<Rightarrow> new_session now (case fr_db p of None \<Rightarrow> fr_daemonService p | Some db \<Rightarrow> fd_daemonService db) config
                           | Some c \<Rightarrow> c),
       fr_init := (if fr_init p = NotRequested then Requested else fr_init p)\<rparr>"

definition stop_capture :: "'w Nflog \<Rightarrow> 'w FirewallRPCProvider \<Rightarrow> 'w \<Rightarrow> 'w FirewallRPCProvider \<times> 'w" where
  "stop_capture nf p w =
     (case fr_capture p of
        None \<Rightarrow> (p, w)
      | Some c \<Rightarrow>
          if fr_captureStarted p then
            (case capture_Stop nf c w of (c', w') \<Rightarrow> (p\<lparr>fr_capture := Some c', fr_captureStarted := False\<rparr>, w'))
          else (p, w))"

definition Firewall_rpc_ApplyConfig ::
  "'w NftHost \<Rightarrow> 'w Nflog \<Rightarrow> int \<Rightarrow> json \<Rightarrow> 'w FirewallRPCProvider \<times> 'w \<Rightarrow> ('w FirewallRPCProvider \<times> 'w) \<times> unit outcome" where
  "Firewall_rpc_ApplyConfig h nf now configJSON pw =
     (case dec_FirewallConfig configJSON of
        Err e \<Rightarrow> (pw, Err e)
      | Panic \<Rightarrow> (pw, Panic)
      | Ok config \<Rightarrow>
          (let p1 = (fst pw)\<lparr>fr_config := Some config\<rparr> in
           if \<not> fc_Enabled config then ((p1, snd pw), Ok ())
           else
             (case Firewall_ApplyConfig h config (fr_provider p1, snd pw) of
                ((n, w1), Some e) \<Rightarrow> ((p1\<lparr>fr_provider := n\<rparr>, w1), Err e)
              | ((n, w1), None) \<Rightarrow>
                  (let p2 = p1\<lparr>fr_provider := n\<rparr> in
                   if fl_Enabled (fc_Logging config) then
                     ((if database_ready p2 w1 then request_capture now (fc_Logging config) p2 else p2, w1), Ok ())
                   else (stop_capture nf p2 w1, Ok ())))))"

definition Firewall_rpc_ValidateConfig :: "json \<Rightarrow> unit outcome" where
  "Firewall_rpc_ValidateConfig configJSON =
     obind (dec_FirewallConfig configJSON) (\<lambda>config. case Firewall_Validate (Some config) of None \<Rightarrow> Ok () | Some e \<Rightarrow> Err e)"

definition Firewall_rpc_Flush ::
  "'w NftHost \<Rightarrow> 'w Nflog \<Rightarrow> 'w FirewallRPCProvider \<times> 'w \<Rightarrow> ('w FirewallRPCProvider \<times> 'w) \<times> goerror" where
  "Firewall_rpc_Flush h nf pw =
     (case stop_capture nf (fst pw) (snd pw) of
        (p, w) \<Rightarrow> (case Firewall_Flush h (fr_provider p) w of (w', err) \<Rightarrow> ((p, w'), err)))"

definition SetDaemonService :: "'w DaemonService option \<Rightarrow> 'w FirewallRPCProvider \<Rightarrow> 'w FirewallRPCProvider" where
  "SetDaemonService daemon p =
     (let p1 = p\<lparr>fr_daemonService := daemon\<rparr> in
      case daemon of None \<Rightarrow> p1 | Some _ \<Rightarrow> p1\<lparr>fr_db := Some (NewFirewallDatabase daemon)\<rparr>)"

definition ensureSchemaInitialized ::
  "'w FirewallRPCProvider \<times> 'w \<Rightarrow> ('w FirewallRPCProvider \<times> 'w) \<times> unit outcome" where
  "ensureSchemaInitialized pw =
     (case fr_db (fst pw) of
        None \<Rightarrow> (pw, Err ''database not initialized'')
      | Some db \<Rightarrow>
          if fd_schemaInit db then (pw, Ok ())
          else
            (case fr_daemonService (fst pw) of
               None \<Rightarrow> (pw, Panic)
             | Some ds \<Rightarrow>
                 (case ds_WaitForService ds (Some 10000000000) ''database'' (snd pw) of
                    (w1, Some e) \<Rightarrow> ((fst pw, w1), Err (''database service not ready: '' @ e))
                  | (w1, None) \<Rightarrow>
                      (case InitSchema (db, w1) of
                         ((db', w2), err) \<Rightarrow>
                           (((fst pw)\<lparr>fr_db := Some db'\<rparr>, w2), (case err of None \<Rightarrow> Ok () | Some e \<Rightarrow> Err e))))))"

text \<open>The goroutine; its errors are only logged, and a panic ends the plugin.\<close>

definition background_init :: "'w Nflog \<Rightarrow> 'w FirewallRPCProvider \<times> 'w \<Rightarrow> ('w FirewallRPCProvider \<times> 'w) outcome" where
  "background_init nf pw =
     (case ensureSchemaInitialized pw of
        (_, Panic) \<Rightarrow> Panic
      | ((p, w), Err _) \<Rightarrow> Ok (p\<lparr>fr_init := Finished\<rparr>, w)
      | ((p, w), Ok _) \<Rightarrow>
          (case fr_capture p of
             None \<Rightarrow> Panic
           | Some c \<Rightarrow>
               (case capture_Start nf (c, w) of
                  ((c', w'), Some _) \<Rightarrow> Ok (p\<lparr>fr_capture := Some c', fr_init := Finished\<rparr>, w')
                | ((c', w'), None) \<Rightarrow> Ok (p\<lparr>fr_capture := Some c', fr_captureStarted := True, fr_init := Finished\<rparr>, w'))))"

section \<open>Status and commands\<close>

definition logging_enabled :: "'w FirewallRPCProvider \<Rightarrow> bool" where
  "logging_enabled p = (case fr_config p of None \<Rightarrow> False | Some config \<Rightarrow> fl_Enabled (fc_Logging config))"

definition schema_ready :: "'w FirewallRPCProvider \<Rightarrow> bool" where
  "schema_ready p = (case fr_db p of None \<Rightarrow> False | Some db \<Rightarrow> fd_schemaInit db)"

definition Firewall_rpc_Status :: "'w NftHost \<Rightarrow> 'w FirewallRPCProvider \<Rightarrow> 'w \<Rightarrow> 'w \<times> json" where
  "Firewall_rpc_Status h p w =
     (case Firewall_Status h (fr_provider p) w of
        (w', st) \<Rightarrow>
          (w', JObj [(''backend'', JStr (fs_Backend st)), (''database_ready'', JBool (database_ready p w')),
                     (''enabled'', JBool (fs_Enabled st)), (''logging_active'', JBool (fr_captureStarted p)),
                     (''logging_enabled'', JBool (logging_enabled p)), (''rule_count'', JNum (of_nat (fs_RuleCount st))),
                     (''schema_init'', JBool (schema_ready p)),
                     (''warnings'', if logging_enabled p \<and> \<not> database_ready p w'
                        then JArr [JStr ''Logging configured but database service unavailable (sqlite3 plugin may be disabled)''] else JNull)]))"

text \<open>The text of a command without a database; \<open>quoted1\<close> puts single quotes around a command.\<close>

definition quoted1 :: "string \<Rightarrow> string" where
  "quoted1 s = [CHR 0x27] @ s @ [CHR 0x27]"

definition logging_key :: string where
  "logging_key = [CHR 0x22] @ ''logging.enabled'' @ [CHR 0x22]"

definition unavailable_text :: "'w FirewallRPCProvider \<Rightarrow> 'w \<Rightarrow> string" where
  "unavailable_text p w =
     (if \<not> logging_enabled p then
        text_line ''Error: Firewall logging not enabled.'' @ text_line '''' @
        text_line (''Action: Set '' @ logging_key @ '': true in /etc/jack/firewall.json'') @
        text_line (''        Then run '' @ quoted1 ''jack apply'')
      else if \<not> database_ready p w then
        text_line ''Error: Firewall logging unavailable.'' @ text_line '''' @
        text_line ''Reason: Database service not ready (sqlite3 plugin may be disabled)'' @
        text_line (''Action: Run '' @ quoted1 ''jack plugin enable sqlite3'' @ '' and '' @ quoted1 ''jack apply'') @
        text_line '''' @
        text_line (''Note: If you don'' @ [CHR 0x27] @ ''t need logging, set '' @ logging_key @ '': false in /etc/jack/firewall.json'')
      else
        text_line ''Error: Firewall logging database not initialized.'' @ text_line '''' @
        text_line ''This may indicate a database initialization error.'' @ text_line ''Check daemon logs: journalctl -u jack -n 50'')"

definition fw_executeStats :: "'w FirewallDatabase \<Rightarrow> 'w \<Rightarrow> 'w \<times> string outcome" where
  "fw_executeStats db w =
     (case QueryStats db w of
        (w', r) \<Rightarrow>
          (w', obind (wrap_err ''failed to query stats: '' r) (\<lambda>stats.
               Ok (text_line ''Firewall Statistics:'' @ text_line (''  Total Logs:   '' @ show_int (sr_Total stats)) @
                   text_line (''  Accepts:      '' @ show_int (sr_Accepts stats)) @ text_line (''  Drops:        '' @ show_int (sr_Drops stats))))))"

definition log_line :: "string \<Rightarrow> string \<Rightarrow> string \<Rightarrow> string \<Rightarrow> string \<Rightarrow> string \<Rightarrow> string" where
  "log_line a b c d e f =
     text_line (pad_right 20 a @ '' '' @ pad_right 8 b @ '' '' @ pad_right 15 c @ '' -> '' @ pad_right 15 d @ '' '' @ pad_right 8 e @ '' '' @ f)"

definition log_lines :: "LogEntry list \<Rightarrow> string" where
  "log_lines logs =
     log_line ''TIMESTAMP'' ''ACTION'' ''SRC_IP'' ''DST_IP'' ''PROTO'' ''PORTS'' @ text_line (replicate 100 (CHR ''-'')) @
     concat (map (\<lambda>l.
       log_line (fle_Timestamp l) (fle_Action l) (fle_SrcIP l) (fle_DstIP l) (fle_Protocol l)
         (if fle_SrcPort l > 0 \<or> fle_DstPort l > 0 then show_int (fle_SrcPort l) @ '':'' @ show_int (fle_DstPort l) else '''')) logs)"

definition fw_executeLogs :: "'w FirewallDatabase \<Rightarrow> 'w \<Rightarrow> 'w \<times> string outcome" where
  "fw_executeLogs db w =
     (case QueryLogs db 100 w of
        (w', r) \<Rightarrow>
          (w', obind (wrap_err ''failed to query logs: '' r) (\<lambda>logs.
               Ok (if logs = [] then text_line ''No firewall logs found.''
                   else text_line (''Recent Firewall Logs ('' @ show_nat (length logs) @ '' entries):'') @ text_line '''' @ log_lines logs))))"

definition watch_filter :: "FirewallLogQuery \<Rightarrow> string \<Rightarrow> FirewallLogQuery" where
  "watch_filter f arg =
     (case split2 (CHR ''='') arg of
        [key, val] \<Rightarrow>
          if key = ''action'' then f\<lparr>fq_Action := val\<rparr>
          else if key = ''src_ip'' then f\<lparr>fq_SrcIP := val\<rparr>
          else if key = ''dst_ip'' then f\<lparr>fq_DstIP := val\<rparr>
          else if key = ''proto'' then f\<lparr>fq_Protocol := val\<rparr>
          else f
      | _ \<Rightarrow> f)"

definition zero_query :: FirewallLogQuery where
  "zero_query = \<lparr>fq_Action = [], fq_SrcIP = [], fq_DstIP = [], fq_Protocol = [], fq_InterfaceIn = [], fq_InterfaceOut = [], fq_Limit = 0, fq_Since = []\<rparr>"

definition fw_executeWatch :: "string \<Rightarrow> 'w FirewallDatabase \<Rightarrow> string list \<Rightarrow> 'w \<Rightarrow> 'w \<times> string outcome" where
  "fw_executeWatch clock db args w =
     (let f = foldl watch_filter (zero_query\<lparr>fq_Limit := 20\<rparr>) args in
      case QueryLogsFiltered db f w of
        (w', r) \<Rightarrow>
          (w', obind (wrap_err ''failed to query logs: '' r) (\<lambda>logs.
               Ok (text_line (''Firewall Logs (Last '' @ show_int (fq_Limit f) @ '' entries) - '' @ clock) @ text_line '''' @
                   (if logs = [] then text_line ''No logs matching filters.'' else log_lines logs)))))"

definition Firewall_ExecuteCLICommand ::
  "string \<Rightarrow> 'w FirewallRPCProvider \<Rightarrow> string \<Rightarrow> string list \<Rightarrow> 'w \<Rightarrow> 'w \<times> string outcome" where
  "Firewall_ExecuteCLICommand clock p command args w =
     (case fr_db p of
        None \<Rightarrow> (w, Ok (unavailable_text p w))
      | Some db \<Rightarrow>
          if \<not> fd_schemaInit db then (w, Ok (unavailable_text p w))
          else
            (let parts = go_fields command in
             if length parts < 2 then (w, Err ''invalid command format'')
             else if parts ! 1 = ''stats'' then fw_executeStats db w
             else if parts ! 1 = ''logs'' then fw_executeLogs db w
             else if parts ! 1 = ''watch'' then fw_executeWatch clock db args w
             else (w, Err (''unknown subcommand: '' @ parts ! 1))))"

text \<open>Insertion as the provider passes it on to its database handler.\<close>

definition Firewall_rpc_InsertLog :: "'w FirewallRPCProvider \<Rightarrow> FirewallLogEntry \<Rightarrow> 'w pact" where
  "Firewall_rpc_InsertLog p entry w = (case fr_db p of None \<Rightarrow> (w, Err ''database not initialized'') | Some db \<Rightarrow> InsertLog db entry w)"

end
