(* ===== verification/Firewall_Log_Facts.thy ===== *)
theory Firewall_Log_Facts
  imports Firewall_Rpc Sqlite
begin

text \<open>
  The firewall log through the database service: what the firewall plugin inserts is what it reads back and counts. And the life of the capture: it is started
  at most once.
\<close>

section \<open>Decoding of statements and results\<close>

lemma ofold_image: "ofold (\<lambda>v acc. obind (dec v) (\<lambda>x. Ok (acc @ [x]))) (map enc xs) acc = Ok (acc @ map f xs)"
  if "\<And>x. x \<in> set xs \<Longrightarrow> dec (enc x) = Ok (f x)"
  using that by (induction xs arbitrary: acc) auto

lemma dec_slice_image: "(\<And>x. x \<in> set xs \<Longrightarrow> dec (enc x) = Ok (f x)) \<Longrightarrow> dec_slice t dec (JArr (map enc xs)) = Ok (Some (map f xs))"
  by (simp add: dec_slice_def ofold_image)

lemma dec_slice_Ok: "dec_slice t Ok (JArr vs) = Ok (Some vs)"
  using dec_slice_image [of vs Ok "\<lambda>x. x" "\<lambda>x. x" t] by simp

lemmas dec_simps = dec_object_def dec_pairs_def find_handler_def field_of_def slice_field_def map_field_def

lemma dec_statement: "dec_QueryArgs (statement_json query args) = Ok \<lparr>qa_Query = query, qa_Args = Some args\<rparr>"
  by (simp add: dec_QueryArgs_def statement_json_def dec_simps dec_string_def dec_slice_Ok)

lemma dec_columns: "dec_slice t (dec_string '''') (JArr (map JStr cs)) = Ok (Some cs)"
  using dec_slice_image [of cs "dec_string ''''" JStr "\<lambda>x. x" t] by (simp add: dec_string_def)

lemma dec_rows:
  "dec_RowList (JObj [(''columns'', JArr (map JStr cs)), (''rows'', rows_json (map JArr rows))]) =
     Ok \<lparr>ro_Columns = Some cs, ro_Rows = (if rows = [] then None else Some (map Some rows))\<rparr>"
proof -
  have "dec_slice ''[]'' (dec_slice ''[]'' Ok) (JArr (map JArr rows)) = Ok (Some (map Some rows))"
    by (rule dec_slice_image) (simp add: dec_slice_Ok)
  moreover have "dec_slice t dec JNull = Ok None" for t and dec :: "json \<Rightarrow> json slice outcome" by (simp add: dec_slice_def)
  ultimately show ?thesis by (simp add: dec_RowList_def dec_simps dec_columns rows_json_def)
qed

lemma dec_row:
  "dec_RowValues (JObj [(''columns'', JArr (map JStr cs)), (''values'', JArr vs)]) = Ok \<lparr>rv_Columns = Some cs, rv_Values = Some vs\<rparr>"
  by (simp add: dec_RowValues_def dec_simps dec_columns dec_slice_Ok)

section \<open>The log table\<close>

text \<open>
  What SQLite documents of the statements the plugin runs, with \<open>tbl\<close> the rows of \<open>firewall_logs\<close> in the order of their identifiers, each with the ten inserted columns:
  an insertion appends a row and turns whole numbers of the integer columns into integers, a selection returns the newest rows first, a count counts.
\<close>

definition stored :: "bool \<Rightarrow> sqlval \<Rightarrow> sqlval" where
  "stored int_col v = (case v of SReal q \<Rightarrow> if int_col \<and> of_int \<lfloor>q\<rfloor> = q then SInt \<lfloor>q\<rfloor> else v | _ \<Rightarrow> v)"

definition log_kinds :: "bool list" where
  "log_kinds = [False, False, False, False, False, True, True, False, False, True]"

definition log_table_laws :: "('d, 'w) SqlDriver \<Rightarrow> 'd \<Rightarrow> ('w \<Rightarrow> sqlval list list) \<Rightarrow> bool" where
  "log_table_laws e d tbl \<longleftrightarrow>
     (\<forall>w vs. length vs = 10 \<and> SNull \<notin> set vs \<longrightarrow>
        (\<exists>w'. sq_Exec e d insert_query vs w = (w', Inr (Inr 1)) \<and> tbl w' = tbl w @ [map2 stored log_kinds vs])) \<and>
     (\<forall>w n. n > 0 \<longrightarrow>
        (\<exists>w' cols. sq_Query e d (log_columns @ '' ORDER BY id DESC LIMIT '' @ show_int n) [] w =
           (w', Inr (cols, take (nat n) (rev (map (take 7) (tbl w))), None)) \<and> tbl w' = tbl w)) \<and>
     (\<forall>w. \<exists>w' col. sq_Query e d ''SELECT COUNT(*) FROM firewall_logs'' [] w =
           (w', Inr ([col], [[SInt (int (length (tbl w)))]], None)) \<and> tbl w' = tbl w) \<and>
     (\<forall>w a. \<exists>w' col. sq_Query e d ''SELECT COUNT(*) FROM firewall_logs WHERE action = ?'' [SText a] w =
           (w', Inr ([col], [[SInt (int (length (filter (\<lambda>row. row ! 1 = SText a) (tbl w))))]], None)) \<and> tbl w' = tbl w)"

text \<open>A daemon that routes the calls of the \<open>database\<close> service to the database plugin.\<close>

definition database_daemon :: "('d, 'w) SqlDriver \<Rightarrow> 'd SQLite3 \<Rightarrow> 'w DaemonService" where
  "database_daemon e s =
     \<lparr>ds_IsServiceReady = (\<lambda>name w. name = ''database''), ds_WaitForService = (\<lambda>_ name. nop), ds_WaitForServices = (\<lambda>_ names. nop),
      ds_CallService = SQLite3_CallService e s\<rparr>"

definition entry_row :: "FirewallLogEntry \<Rightarrow> sqlval list" where
  "entry_row x =
     [SText (fe_Timestamp x), SText (fe_Action x), SText (fe_SrcIP x), SText (fe_DstIP x), SText (fe_Protocol x),
      SInt (int (fe_SrcPort x)), SInt (int (fe_DstPort x)), SText (fe_InterfaceIn x), SText (fe_InterfaceOut x), SInt (int (fe_PacketLength x))]"

definition log_entry :: "FirewallLogEntry \<Rightarrow> LogEntry" where
  "log_entry x =
     \<lparr>fle_Timestamp = fe_Timestamp x, fle_Action = fe_Action x, fle_SrcIP = fe_SrcIP x, fle_DstIP = fe_DstIP x,
      fle_Protocol = fe_Protocol x, fle_SrcPort = int (fe_SrcPort x), fle_DstPort = int (fe_DstPort x)\<rparr>"

fun insert_all :: "'w FirewallDatabase \<Rightarrow> FirewallLogEntry list \<Rightarrow> 'w pact" where
  "insert_all db [] = (\<lambda>w. (w, Ok ()))"
| "insert_all db (x # xs) = pthen (InsertLog db x) (insert_all db xs)"

text \<open>A database handler whose calls reach an open database plugin: what the plugin answers without an error arrives.\<close>

definition serves :: "('d, 'w) SqlDriver \<Rightarrow> 'd \<Rightarrow> 'w FirewallDatabase \<Rightarrow> bool" where
  "serves e d db \<longleftrightarrow>
     (\<exists>ds s p. fd_daemonService db = Some ds \<and> s3_provider s = Some p \<and> dp_db p = d \<and>
       (\<forall>method args w w' v. SQLite3_CallService e s ''database'' method args w = (w', Inr v) \<longrightarrow> ds_CallService ds ''database'' method args w = (w', Inr v)))"

lemma call_served:
  "serves e d db \<Longrightarrow> \<exists>s p. s3_provider s = Some p \<and> dp_db p = d \<and>
    (\<forall>method query args w w' v. SQLite3_CallService e s ''database'' method (statement_json query args) w = (w', Inr v) \<longrightarrow>
      call_database db method query args w = (w', Ok v))"
  unfolding serves_def call_database_def by (elim exE conjE, intro exI conjI allI impI) (assumption, assumption, simp)

lemma database_daemon_serves: "fd_daemonService db = Some (database_daemon e s) \<Longrightarrow> s3_provider s = Some p \<Longrightarrow> serves e (dp_db p) db"
  by (auto simp: serves_def database_daemon_def)

lemma stored_args:
  "arg_values (insert_args x) = Some (map (the \<circ> arg_value) (insert_args x)) \<and>
   map2 stored log_kinds (map (the \<circ> arg_value) (insert_args x)) = entry_row x \<and> SNull \<notin> set (map (the \<circ> arg_value) (insert_args x)) \<and>
   length (insert_args x) = 10"
  by (simp add: arg_values_def insert_args_def log_kinds_def stored_def entry_row_def)

lemma InsertLog_appends:
  assumes "log_table_laws e d tbl" "serves e d db"
  shows "\<exists>w'. InsertLog db x w = (w', Ok ()) \<and> tbl w' = tbl w @ [entry_row x]"
proof -
  let ?vs = "map (the \<circ> arg_value) (insert_args x)"
  have "length ?vs = 10 \<and> SNull \<notin> set ?vs" using stored_args [of x] by simp
  then obtain w' where "sq_Exec e d insert_query ?vs w = (w', Inr (Inr 1))" "tbl w' = tbl w @ [map2 stored log_kinds ?vs]"
    using assms(1) unfolding log_table_laws_def by blast
  moreover obtain s p where db: "s3_provider s = Some p" "dp_db p = d"
    and call: "\<forall>method query args w w' v. SQLite3_CallService e s ''database'' method (statement_json query args) w = (w', Inr v) \<longrightarrow>
      call_database db method query args w = (w', Ok v)"
    using call_served [OF assms(2)] by blast
  ultimately have exec: "\<exists>v. SQLite3_CallService e s ''database'' ''Exec'' (statement_json insert_query (insert_args x)) w = (w', Inr v)"
    "tbl w' = tbl w @ [entry_row x]"
    using stored_args [of x] by (auto simp: SQLite3_CallService_def handleExec_def with_query_def dec_statement elems_def db_Exec_def)
  from exec(1) obtain v where "call_database db ''Exec'' insert_query (insert_args x) w = (w', Ok v)" using call by blast
  with exec(2) show ?thesis by (auto simp: InsertLog_def)
qed

lemma insert_all_appends:
  "log_table_laws e d tbl \<Longrightarrow> serves e d db \<Longrightarrow> \<exists>w'. insert_all db xs w = (w', Ok ()) \<and> tbl w' = tbl w @ map entry_row xs"
proof (induction xs arbitrary: w)
  case (Cons x xs)
  from InsertLog_appends [OF Cons.prems, of x w] obtain w1 where w1: "InsertLog db x w = (w1, Ok ())" "tbl w1 = tbl w @ [entry_row x]" by blast
  from Cons.IH [OF Cons.prems, of w1] w1 show ?case by (auto simp: pthen_def)
qed simp

lemma row_of_entry:
  assumes "fe_SrcPort x < 65536" "fe_DstPort x < 65536"
  shows "row_entry (map (value_json e) (take 7 (entry_row x))) = [log_entry x]"
proof -
  have "trunc64 (rat_of_nat n) = int n" if "n < 65536" for n
    using trunc64_of_int [of "int n"] that by (simp add: in_int64_def)
  from this [OF assms(1)] this [OF assms(2)] show ?thesis
    by (simp add: row_entry_def entry_row_def log_entry_def str_of_json_def int_of_json_def numeral_eq_Suc)
qed

lemma concat_rows:
  "\<forall>x \<in> set xs. fe_SrcPort x < 65536 \<and> fe_DstPort x < 65536 \<Longrightarrow>
   concat (map (\<lambda>row. row_entry (map (value_json e) row)) (map (\<lambda>x. take 7 (entry_row x)) xs)) = map log_entry xs"
  by (induction xs) (simp_all add: row_of_entry)

lemma rows_elems:
  "concat (map (\<lambda>row. row_entry (elems row)) (elems (if rs = [] then None else Some (map Some rs)))) = concat (map row_entry rs)"
  by (simp add: elems_def comp_def)

lemma decoded_rows:
  "obind (wrap_err m (dec_RowList (JObj [(''columns'', JArr (map JStr cs)), (''rows'', rows_json (map JArr rows))])))
     (\<lambda>r. Ok (concat (map (\<lambda>row. row_entry (elems row)) (elems (ro_Rows r))))) = Ok (concat (map row_entry rows))"
  using rows_elems [of rows] by (simp add: dec_rows)

lemma QueryLogs_reads:
  assumes "log_table_laws e d tbl" "serves e d db" "n > 0" "tbl w = map entry_row xs"
    and "\<forall>x \<in> set xs. fe_SrcPort x < 65536 \<and> fe_DstPort x < 65536"
  shows "\<exists>w'. QueryLogs db n w = (w', Ok (take (nat n) (rev (map log_entry xs)))) \<and> tbl w' = tbl w"
proof -
  let ?ys = "take (nat n) (rev xs)" and ?rows = "take (nat n) (rev (map (take 7) (tbl w)))"
  obtain w' cols where q: "sq_Query e d (log_columns @ '' ORDER BY id DESC LIMIT '' @ show_int n) [] w = (w', Inr (cols, ?rows, None))"
    and w': "tbl w' = tbl w"
    using assms(1,3) unfolding log_table_laws_def by blast
  have rows: "?rows = map (\<lambda>x. take 7 (entry_row x)) ?ys" using assms(4) by (simp add: rev_map take_map comp_def)
  have "\<forall>x \<in> set ?ys. fe_SrcPort x < 65536 \<and> fe_DstPort x < 65536" using assms(5) by (auto dest: in_set_takeD)
  from concat_rows [OF this, of e] have c: "concat (map (\<lambda>row. row_entry (map (value_json e) row)) ?rows) = map log_entry ?ys" by (simp add: rows)
  have js: "map (\<lambda>row. JArr (map (value_json e) row)) rs = map JArr (map (map (value_json e)) rs)" for rs by simp
  obtain s p where db: "s3_provider s = Some p" "dp_db p = d"
    and call: "\<forall>method query args w w' v. SQLite3_CallService e s ''database'' method (statement_json query args) w = (w', Inr v) \<longrightarrow>
      call_database db method query args w = (w', Ok v)"
    using call_served [OF assms(2)] by blast
  have "call_database db ''Query'' (log_columns @ '' ORDER BY id DESC LIMIT '' @ show_int n) [] w =
      (w', Ok (JObj [(''columns'', JArr (map JStr cols)), (''rows'', rows_json (map JArr (map (map (value_json e)) ?rows)))]))"
    by (rule call [rule_format], use q db in \<open>simp add: SQLite3_CallService_def handleQuery_def with_query_def dec_statement elems_def arg_values_def db_Query_def js del: map_map\<close>)
  then have "QueryLogs db n w = (w', Ok (concat (map row_entry (map (map (value_json e)) ?rows))))"
    unfolding QueryLogs_def query_entries_def by (simp only: prod.case wrap_err.simps obind.simps(1) decoded_rows)
  with c have "QueryLogs db n w = (w', Ok (map log_entry ?ys))" by (simp only: map_map comp_def)
  with w' show ?thesis by (simp add: rev_map take_map)
qed

text \<open>Both counts come back as they are, as long as they fit the integers a \<open>float64\<close> holds exactly.\<close>

lemma query_count_reads:
  assumes "serves e d db" "arg_values args = Some vs" "sq_Query e d query vs w = (w', Inr (cols, [[SInt (int k)]], None))" "k < 2 ^ 53"
  shows "query_count db what decoded query args w = (w', Ok (int k))"
proof -
  have "trunc64 (rat_of_nat k) = int k" using trunc64_of_int [of "int k"] assms(4) by (simp add: in_int64_def)
  moreover obtain s p where db: "s3_provider s = Some p" "dp_db p = d"
    and call: "\<forall>method query args w w' v. SQLite3_CallService e s ''database'' method (statement_json query args) w = (w', Inr v) \<longrightarrow>
      call_database db method query args w = (w', Ok v)"
    using call_served [OF assms(1)] by blast
  have "\<exists>row. call_database db ''QueryRow'' query args w = (w', Ok row) \<and> row = JObj [(''columns'', JArr (map JStr cols)), (''values'', JArr [value_json e (SInt (int k))])]"
    by (intro exI conjI, rule call [rule_format], use db assms(2,3) in \<open>simp add: SQLite3_CallService_def handleQueryRow_def with_query_def dec_statement elems_def db_QueryRow_def\<close>) simp
  ultimately show ?thesis
    by (auto simp: query_count_def dec_row first_count_def elems_def int_of_json_def)
qed

lemma QueryStats_counts:
  assumes laws: "log_table_laws e d tbl" and db: "serves e d db" and w: "tbl w = map entry_row xs" and len: "length xs < 2 ^ 53"
  shows "\<exists>w'. QueryStats db w =
    (w', Ok \<lparr>sr_Total = int (length xs), sr_Accepts = int (length (filter (\<lambda>x. fe_Action x \<noteq> ''DROP'') xs)),
             sr_Drops = int (length (filter (\<lambda>x. fe_Action x = ''DROP'') xs))\<rparr>)"
proof -
  let ?drops = "length (filter (\<lambda>x. fe_Action x = ''DROP'') xs)"
  have d: "filter (\<lambda>row. row ! 1 = SText a) (map entry_row xs) = map entry_row (filter (\<lambda>x. fe_Action x = a) xs)" for a
    by (simp add: filter_map comp_def entry_row_def)
  obtain w1 c1 where w1: "sq_Query e d ''SELECT COUNT(*) FROM firewall_logs'' [] w = (w1, Inr ([c1], [[SInt (int (length (tbl w)))]], None))" "tbl w1 = tbl w"
    using laws unfolding log_table_laws_def by meson
  obtain w2 c2 where w2: "sq_Query e d ''SELECT COUNT(*) FROM firewall_logs WHERE action = ?'' [SText ''DROP''] w1 =
      (w2, Inr ([c2], [[SInt (int (length (filter (\<lambda>row. row ! 1 = SText ''DROP'') (tbl w1))))]], None))"
    using laws unfolding log_table_laws_def by meson
  have t: "length (filter (\<lambda>row. row ! 1 = SText ''DROP'') (tbl w1)) = ?drops" unfolding w1(2) w d by simp
  have k: "?drops < 2 ^ 53" using len by (rule le_less_trans [OF length_filter_le])
  have total: "query_count db ''total logs'' ''total count'' ''SELECT COUNT(*) FROM firewall_logs'' [] w = (w1, Ok (int (length xs)))"
    by (rule query_count_reads [OF db]) (use w1 w len in \<open>simp_all add: arg_values_def\<close>)
  have drops: "query_count db ''drops'' ''drops count'' ''SELECT COUNT(*) FROM firewall_logs WHERE action = ?'' [JStr ''DROP''] w1 = (w2, Ok (int ?drops))"
    by (rule query_count_reads [OF db]) (use w2 [unfolded t] k in \<open>simp_all add: arg_values_def\<close>)
  have sum: "length (filter (\<lambda>x. fe_Action x \<noteq> ''DROP'') xs) + ?drops = length xs"
    using sum_length_filter_compl [of "\<lambda>x. fe_Action x = ''DROP''" xs] by linarith
  then have "wrap64 (int (length xs) - int ?drops) = int (length (filter (\<lambda>x. fe_Action x \<noteq> ''DROP'') xs))"
    using len by (subst wrap64_id) (auto simp: in_int64_def)
  with total drops show ?thesis by (simp add: QueryStats_def)
qed

section \<open>Reading the log back\<close>


text \<open>A database with this table only.\<close>

definition ex_driver :: "(unit, sqlval list list) SqlDriver" where
  "ex_driver =
     \<lparr>sq_MkdirAll = (\<lambda>_. nop), sq_Stat = (\<lambda>_ _. Inr 0), sq_Open = (\<lambda>_ w. (w, Inr ())), sq_Ping = (\<lambda>_. nop), sq_Close = (\<lambda>_. nop),
      sq_Exec = (\<lambda>_ query vs w. (if query = insert_query then w @ [map2 stored log_kinds vs] else w, Inr (Inr 1))),
      sq_Query = (\<lambda>_ query vs w.
        (w, Inr (
           if query = ''SELECT COUNT(*) FROM firewall_logs'' then ([''COUNT(*)''], [[SInt (int (length w))]], None)
           else if query = ''SELECT COUNT(*) FROM firewall_logs WHERE action = ?'' then
             ([''COUNT(*)''], [[SInt (int (length (filter (\<lambda>row. row ! 1 = hd vs) w)))]], None)
           else
             ([], take (the (parse_uint (drop (length (log_columns @ '' ORDER BY id DESC LIMIT '')) query))) (rev (map (take 7) w)), None)))),
      sq_float = (\<lambda>_. ''''), sq_base64 = (\<lambda>b. b)\<rparr>"

lemma ex_driver_laws: "log_table_laws ex_driver () (\<lambda>w. w)"
proof -
  have limit: "the (parse_uint (drop (length (log_columns @ '' ORDER BY id DESC LIMIT '')) (log_columns @ '' ORDER BY id DESC LIMIT '' @ show_int n))) = nat n"
    if "n > 0" for n
    using that by (simp add: show_int_def parse_uint_show_nat)
  have other: "log_columns @ '' ORDER BY id DESC LIMIT '' @ s \<noteq> ''SELECT COUNT(*) FROM firewall_logs''"
    "log_columns @ '' ORDER BY id DESC LIMIT '' @ s \<noteq> ''SELECT COUNT(*) FROM firewall_logs WHERE action = ?''" for s
    by (simp_all add: log_columns_def)
  show ?thesis
    unfolding log_table_laws_def ex_driver_def SqlDriver.simps using limit other
    by (intro conjI allI impI) (auto simp del: append.simps drop_append length_append)
qed

definition ex_provider :: "unit DatabaseProvider" where
  "ex_provider =
     \<lparr>dp_config = \<lparr>db_Enabled = True, db_DatabasePath = ''/var/lib/jack/data.db'', db_LogStorageEnabled = True, db_MaxLogEntries = 0\<rparr>, dp_db = ()\<rparr>"

definition ex_log_db :: "sqlval list list FirewallDatabase" where
  "ex_log_db =
     \<lparr>fd_daemonService = Some (database_daemon ex_driver \<lparr>s3_provider = Some ex_provider, s3_lastPath = ''/var/lib/jack/data.db''\<rparr>), fd_schemaInit = True\<rparr>"

definition ex_entry :: "string \<Rightarrow> FirewallLogEntry" where
  "ex_entry action =
     \<lparr>fe_ID = 0, fe_Timestamp = ''2025-01-01T00:00:00Z'', fe_Action = action, fe_SrcIP = ''10.0.0.1'', fe_DstIP = ''10.0.0.2'', fe_Protocol = ''TCP'',
      fe_SrcPort = 40000, fe_DstPort = 443, fe_InterfaceIn = ''if2'', fe_InterfaceOut = '''', fe_PacketLength = 60, fe_CreatedAt = ''''\<rparr>"


section \<open>The life of the capture\<close>

text \<open>Requests, the replacement of the daemon connection and the background initialisation, in any order.\<close>

datatype 'w fw_event = FwApply int json | FwFlush | FwSetDaemon "'w DaemonService option" | FwBackground

fun fw_step :: "'w NftHost \<Rightarrow> 'w Nflog \<Rightarrow> 'w fw_event \<Rightarrow> 'w FirewallRPCProvider \<times> 'w \<Rightarrow> ('w FirewallRPCProvider \<times> 'w) outcome" where
  "fw_step h nf (FwApply now j) pw = Ok (fst (Firewall_rpc_ApplyConfig h nf now j pw))"
| "fw_step h nf FwFlush pw = Ok (fst (Firewall_rpc_Flush h nf pw))"
| "fw_step h nf (FwSetDaemon ds) pw = Ok (SetDaemonService ds (fst pw), snd pw)"
| "fw_step h nf FwBackground pw = (if fr_init (fst pw) = Requested then background_init nf pw else Ok pw)"

definition fw_run :: "'w NftHost \<Rightarrow> 'w Nflog \<Rightarrow> 'w fw_event list \<Rightarrow> 'w FirewallRPCProvider \<times> 'w \<Rightarrow> ('w FirewallRPCProvider \<times> 'w) outcome" where
  "fw_run h nf = ofold (fw_step h nf)"

definition spent :: "'w FirewallRPCProvider \<Rightarrow> bool" where
  "spent p \<longleftrightarrow> fr_init p = Finished \<and> \<not> fr_captureStarted p"

lemma spent_updates [simp]:
  "spent (p\<lparr>fr_config := x\<rparr>) = spent p" "spent (p\<lparr>fr_provider := n\<rparr>) = spent p" "spent (p\<lparr>fr_db := db\<rparr>) = spent p"
  "spent (p\<lparr>fr_daemonService := ds\<rparr>) = spent p"
  by (simp_all add: spent_def)

lemma request_capture_spent: "spent p \<Longrightarrow> spent (request_capture now config p)"
  by (simp add: spent_def request_capture_def)

lemma stop_capture_spent: "spent p \<Longrightarrow> stop_capture nf p w = (p, w)"
  by (simp add: spent_def stop_capture_def split: option.splits)

lemma apply_spent:
  assumes "spent (fst pw)"
  shows "spent (fst (fst (Firewall_rpc_ApplyConfig h nf now j pw)))"
proof (cases "dec_FirewallConfig j")
  case (Ok config)
  obtain n w err where "Firewall_ApplyConfig h config (fr_provider (fst pw), snd pw) = ((n, w), err)" by (metis surj_pair)
  with Ok assms show ?thesis
    by (cases err) (simp_all add: Firewall_rpc_ApplyConfig_def Let_def request_capture_spent stop_capture_spent)
qed (use assms in \<open>simp_all add: Firewall_rpc_ApplyConfig_def\<close>)

lemma step_spent:
  assumes "fw_step h nf ev pw = Ok pw'" "spent (fst pw)"
  shows "spent (fst pw')"
proof (cases ev)
  case (FwApply now j)
  with assms apply_spent [OF assms(2)] show ?thesis by auto
next
  case FwFlush
  with assms show ?thesis by (auto simp: Firewall_rpc_Flush_def stop_capture_spent split: prod.splits)
next
  case (FwSetDaemon ds)
  with assms show ?thesis by (auto simp: SetDaemonService_def Let_def split: option.splits)
next
  case FwBackground
  with assms show ?thesis by (simp add: spent_def)
qed

lemma run_spent: "fw_run h nf evs pw = Ok pw' \<Longrightarrow> spent (fst pw) \<Longrightarrow> spent (fst pw')"
proof (induction evs arbitrary: pw)
  case (Cons ev evs)
  then show ?case by (auto simp: fw_run_def intro: step_spent)
qed (simp add: fw_run_def)

text \<open>
  C27 (capture_never_restarts): once the background initialisation is over and the capture is not running, because logging was disabled, the rules were flushed or the
  start failed, no sequence of applies, flushes and reconnections starts it again.
\<close>

theorem capture_never_restarts:
  assumes "fr_init p = Finished" "\<not> fr_captureStarted p" "fw_run h nf evs (p, w) = Ok (p', w')"
  shows "fr_init p' = Finished \<and> \<not> fr_captureStarted p'"
  using run_spent [OF assms(3)] assms(1,2) by (simp add: spent_def)

text \<open>Neither is the logging configuration of a capture ever replaced: it stays the one of the apply that created the capture.\<close>

definition capture_config :: "'w FirewallRPCProvider \<Rightarrow> FirewallLoggingConfig option" where
  "capture_config p = map_option (\<lambda>c. lc_config (cs_log c)) (fr_capture p)"

lemma capture_config_updates [simp]:
  "capture_config (p\<lparr>fr_config := x\<rparr>) = capture_config p" "capture_config (p\<lparr>fr_provider := n\<rparr>) = capture_config p"
  "capture_config (p\<lparr>fr_db := db\<rparr>) = capture_config p" "capture_config (p\<lparr>fr_daemonService := ds\<rparr>) = capture_config p"
  by (simp_all add: capture_config_def)

lemma request_capture_config: "capture_config p = Some l \<Longrightarrow> capture_config (request_capture now config p) = Some l"
  by (auto simp: capture_config_def request_capture_def)

lemma stop_capture_config: "capture_config (fst (stop_capture nf p w)) = capture_config p"
  by (simp add: capture_config_def stop_capture_def capture_Stop_def split: option.splits)

lemma apply_capture_config:
  assumes "capture_config (fst pw) = Some l"
  shows "capture_config (fst (fst (Firewall_rpc_ApplyConfig h nf now j pw))) = Some l"
proof (cases "dec_FirewallConfig j")
  case (Ok config)
  obtain n w err where "Firewall_ApplyConfig h config (fr_provider (fst pw), snd pw) = ((n, w), err)" by (metis surj_pair)
  with Ok assms show ?thesis
    by (cases err) (simp_all add: Firewall_rpc_ApplyConfig_def Let_def request_capture_config stop_capture_config)
qed (use assms in \<open>simp_all add: Firewall_rpc_ApplyConfig_def\<close>)

lemma capture_Start_config: "lc_config (cs_log (fst (fst (capture_Start nf (c, w))))) = lc_config (cs_log c)"
proof -
  have "cs_log (fst (fst (open_drops nf (c, w)))) = cs_log c" "cs_log (fst (fst (open_accepts nf (c, w)))) = cs_log c" for c w
    by (simp_all add: open_drops_def open_accepts_def split: prod.splits option.splits)
  then have "cs_log (fst (fst (open_drops nf cw))) = cs_log (fst cw)" "cs_log (fst (fst (open_accepts nf cw))) = cs_log (fst cw)" for cw
    by (cases cw; simp)+
  then show ?thesis by (auto simp: capture_Start_def Let_def andthen_def nop_def split: prod.splits option.splits) (metis fst_conv)+
qed

lemma schema_capture_config: "capture_config (fst (fst (ensureSchemaInitialized pw))) = capture_config (fst pw)"
  by (simp add: ensureSchemaInitialized_def split: option.splits prod.splits)

lemma background_capture_config:
  assumes "background_init nf pw = Ok pw'" "capture_config (fst pw) = Some l"
  shows "capture_config (fst pw') = Some l"
proof -
  obtain p w r where e: "ensureSchemaInitialized pw = ((p, w), r)" by (metis surj_pair)
  have p: "capture_config p = Some l" using schema_capture_config [of pw] e assms(2) by simp
  then obtain c where c: "fr_capture p = Some c" "lc_config (cs_log c) = l" by (auto simp: capture_config_def)
  obtain c' w' err where s: "capture_Start nf (c, w) = ((c', w'), err)" by (metis surj_pair)
  have "lc_config (cs_log c') = l" using capture_Start_config [of nf c w] s c(2) by simp
  with assms(1) e c s show ?thesis
    by (cases r; cases err) (auto simp: background_init_def capture_config_def)
qed

theorem capture_config_fixed:
  "fw_run h nf evs pw = Ok pw' \<Longrightarrow> capture_config (fst pw) = Some l \<Longrightarrow> capture_config (fst pw') = Some l"
proof (induction evs arbitrary: pw)
  case (Cons ev evs)
  then obtain pw1 where pw1: "fw_step h nf ev pw = Ok pw1" "fw_run h nf evs pw1 = Ok pw'" by (auto simp: fw_run_def)
  have "capture_config (fst pw1) = Some l"
  proof (cases ev)
    case (FwApply now j)
    with pw1(1) apply_capture_config [OF Cons.prems(2)] show ?thesis by auto
  next
    case FwFlush
    with pw1(1) stop_capture_config [of nf "fst pw" "snd pw"] Cons.prems(2) show ?thesis
      by (auto simp: Firewall_rpc_Flush_def split: prod.splits)
  next
    case (FwSetDaemon ds)
    with pw1(1) Cons.prems(2) show ?thesis by (auto simp: SetDaemonService_def Let_def split: option.splits)
  next
    case FwBackground
    with pw1(1) Cons.prems(2) background_capture_config [OF _ Cons.prems(2)] show ?thesis by (simp split: if_splits)
  qed
  with Cons.IH pw1(2) show ?case by blast
qed (simp add: fw_run_def)

text \<open>Logging enabled, disabled and enabled again, with an \<open>nft\<close> that already holds the configuration.\<close>

definition logging_json :: "bool \<Rightarrow> json" where
  "logging_json b = JObj [(''enabled'', JBool True), (''logging'', JObj [(''enabled'', JBool b), (''log_drops'', JBool True)])]"

definition ex_nft :: "unit NftHost" where
  "ex_nft = \<lparr>nh_Run = (\<lambda>_ w. (w, '''', None)), nh_ReadFile = (\<lambda>_ _. Inr ''h''), nh_WriteFile = (\<lambda>_ _. nop), nh_MkdirAll = (\<lambda>_. nop), nh_digest = (\<lambda>_. ''h'')\<rparr>"

definition ex_nflog :: "unit Nflog" where
  "ex_nflog = \<lparr>nf_Open = (\<lambda>_. nop), nf_Register = (\<lambda>_. nop), nf_Close = (\<lambda>_ w. w)\<rparr>"

definition ex_daemon :: "unit DaemonService" where
  "ex_daemon = \<lparr>ds_IsServiceReady = (\<lambda>_ _. True), ds_WaitForService = (\<lambda>_ _. nop), ds_WaitForServices = (\<lambda>_ _. nop), ds_CallService = (\<lambda>_ _ _ w. (w, Inr JNull))\<rparr>"

definition ex_firewall :: "unit FirewallRPCProvider" where
  "ex_firewall =
     NewFirewallRPCProvider \<lparr>fp_tableName = ''jack'', fp_configHashPath = ''/var/lib/jack/firewall.hash'', fp_loggingConfig = fc_Logging zero_FirewallConfig\<rparr>"

lemma logging_json_decodes:
  "dec_FirewallConfig (logging_json b) =
     Ok (zero_FirewallConfig\<lparr>fc_Enabled := True, fc_Logging := (fc_Logging zero_FirewallConfig)\<lparr>fl_Enabled := b, fl_LogDrops := True\<rparr>\<rparr>)"
  by (simp add: dec_FirewallConfig_def logging_json_def dec_FirewallLogging_def dec_simps dec_bool_def zero_FirewallConfig_def)

lemma ex_nft_unchanged: "Firewall_ApplyConfig ex_nft config (n, ()) = ((n\<lparr>fp_loggingConfig := fc_Logging config\<rparr>, ()), None)"
proof -
  have "trim_space ''h'' = ''h''" by code_simp
  then show ?thesis by (simp add: Firewall_ApplyConfig_def readConfigHash_def calculateConfigHash_def tableExists_def ex_nft_def Let_def)
qed

lemma ex_schema: "create_schema ex_daemon i stmts () = ((), None)"
  by (induction stmts arbitrary: i) (simp_all add: nop_def andthen_def ex_daemon_def)

theorem capture_never_restarts_witness:
  "\<exists>p p'. fw_run ex_nft ex_nflog [FwSetDaemon (Some ex_daemon), FwApply 0 (logging_json True), FwBackground, FwApply 1 (logging_json False)]
            (ex_firewall, ()) = Ok (p, ()) \<and>
     fw_run ex_nft ex_nflog [FwApply 2 (logging_json True), FwBackground] (p, ()) = Ok (p', ()) \<and> logging_enabled p' \<and> \<not> fr_captureStarted p'"
proof -
  note evals = fw_run_def Firewall_rpc_ApplyConfig_def logging_json_decodes ex_nft_unchanged SetDaemonService_def ex_firewall_def
    NewFirewallRPCProvider_def NewFirewallDatabase_def request_capture_def database_ready_def stop_capture_def capture_Stop_def close_drops_def
    background_init_def ensureSchemaInitialized_def InitSchema_def capture_Start_def open_drops_def new_session_def NewLogCapture_def
    nop_def andthen_def ex_nflog_def zero_FirewallConfig_def Let_def
  have ex: "ds_IsServiceReady ex_daemon s w" "ds_WaitForService ex_daemon t s = nop" for s t w by (simp_all add: ex_daemon_def)
  define r where "r = fw_run ex_nft ex_nflog [FwSetDaemon (Some ex_daemon), FwApply 0 (logging_json True), FwBackground, FwApply 1 (logging_json False)]
            (ex_firewall, ())"
  obtain p where p: "r = Ok (p, ())" "fr_init p = Finished" "\<not> fr_captureStarted p" "fr_daemonService p = Some ex_daemon"
    by (simp add: r_def evals ex ex_schema)
  then obtain p' where p': "fw_run ex_nft ex_nflog [FwApply 2 (logging_json True), FwBackground] (p, ()) = Ok (p', ())" "logging_enabled p'"
    by (simp add: evals ex logging_enabled_def)
  from capture_never_restarts [OF p(2,3) p'(1)] p p' show ?thesis by (auto simp: r_def)
qed

end
