(* ===== verification/Logger.thy ===== *)
theory Logger
  imports Plugin_Actions Json
begin

text \<open>
  Structured logging of the daemon: \<open>src/daemon/logger/*.go\<close> and the subscribers of \<open>src/daemon/logger_bridge.go\<close>, with the set-up in \<open>src/cmd/daemon.go\<close>. Field values are
  JSON values, and \<open>text_of\<close> is the JSON text of a value. A log call returns the deliveries to subscribers it has started: goroutines that run later, in any order.
\<close>

section \<open>Levels\<close>

datatype LogLevel = LevelDebug | LevelInfo | LevelWarn | LevelError

fun level_rank :: "LogLevel \<Rightarrow> nat" where
  "level_rank LevelDebug = 0"
| "level_rank LevelInfo = 1"
| "level_rank LevelWarn = 2"
| "level_rank LevelError = 3"

lemma level_rank_inject [simp]: "level_rank a = level_rank b \<longleftrightarrow> a = b"
  by (cases a; cases b) auto

instantiation LogLevel :: linorder
begin

definition less_eq_LogLevel :: "LogLevel \<Rightarrow> LogLevel \<Rightarrow> bool" where
  "less_eq_LogLevel a b \<longleftrightarrow> level_rank a \<le> level_rank b"

definition less_LogLevel :: "LogLevel \<Rightarrow> LogLevel \<Rightarrow> bool" where
  "less_LogLevel a b \<longleftrightarrow> level_rank a < level_rank b"

instance
  by standard (auto simp: less_eq_LogLevel_def less_LogLevel_def)

end

definition ParseLevel :: "string \<Rightarrow> LogLevel" where
  "ParseLevel level =
     (if level = ''debug'' then LevelDebug
      else if level = ''info'' then LevelInfo
      else if level = ''warn'' then LevelWarn
      else if level = ''error'' then LevelError
      else LevelInfo)"

fun level_String :: "LogLevel \<Rightarrow> string" where
  "level_String LevelDebug = ''debug''"
| "level_String LevelInfo = ''info''"
| "level_String LevelWarn = ''warn''"
| "level_String LevelError = ''error''"

section \<open>Entries\<close>

record Entry =
  en_Timestamp :: string
  en_Level :: string
  en_Component :: string
  en_Message :: string
  en_Fields :: "(string, json) gomap"

definition NewEntry :: "string \<Rightarrow> string \<Rightarrow> string \<Rightarrow> string \<Rightarrow> (string, json) gomap \<Rightarrow> Entry" where
  "NewEntry now level component message flds =
     \<lparr>en_Timestamp = now, en_Level = level, en_Component = component, en_Message = message, en_Fields = flds\<rparr>"

definition ToJSON :: "Entry \<Rightarrow> json" where
  "ToJSON e =
     JObj [(''timestamp'', JStr (en_Timestamp e)), (''level'', JStr (en_Level e)), (''component'', JStr (en_Component e)),
           (''message'', JStr (en_Message e)), (''fields'', marshal (JObj (en_Fields e)))]"

definition jsonString :: "(json \<Rightarrow> string) \<Rightarrow> json \<Rightarrow> string" where
  "jsonString text_of v = (case v of JStr s \<Rightarrow> s | _ \<Rightarrow> text_of v)"

definition ToText :: "(json \<Rightarrow> string) \<Rightarrow> Entry \<Rightarrow> string" where
  "ToText text_of e =
     en_Timestamp e @ '' '' @ ''['' @ en_Level e @ '']'' @ (if en_Component e \<noteq> '''' then '' ['' @ en_Component e @ '']'' else '''') @
     '' '' @ en_Message e @ concat (map (\<lambda>(k, v). '' '' @ k @ ''='' @ jsonString text_of v) (en_Fields e))"

section \<open>The emitter\<close>

record 's Emitter =
  em_subscribers :: "'s list"

definition NewEmitter :: "'s Emitter" where
  "NewEmitter = \<lparr>em_subscribers = []\<rparr>"

definition Subscribe :: "'s \<Rightarrow> 's Emitter \<Rightarrow> 's Emitter" where
  "Subscribe sub e = e\<lparr>em_subscribers := em_subscribers e @ [sub]\<rparr>"

text \<open>The first position of a subscriber, and the list without it.\<close>

fun position :: "'s \<Rightarrow> 's list \<Rightarrow> nat option" where
  "position sub [] = None"
| "position sub (s # ss) = (if s = sub then Some 0 else map_option Suc (position sub ss))"

definition Unsubscribe :: "'s \<Rightarrow> 's Emitter \<Rightarrow> 's Emitter" where
  "Unsubscribe sub e =
     (case position sub (em_subscribers e) of
        None \<Rightarrow> e
      | Some i \<Rightarrow> e\<lparr>em_subscribers := take i (em_subscribers e) @ drop (i + 1) (em_subscribers e)\<rparr>)"

definition Emit :: "Entry \<Rightarrow> 's Emitter \<Rightarrow> ('s \<times> Entry) list" where
  "Emit entry e = map (\<lambda>sub. (sub, entry)) (em_subscribers e)"

section \<open>The logger\<close>

record 'w Backend =
  bk_Write :: "Entry \<Rightarrow> 'w act"
  bk_Close :: "'w act"

record LoggerConfig =
  lg_Level :: string
  lg_Format :: string
  lg_Component :: string

record 'w standardLogger =
  sl_level :: LogLevel
  sl_format :: string
  sl_backends :: "'w Backend list"
  sl_component :: string
  sl_fields :: "(string, json) gomap"

type_synonym Field = "string \<times> json"

definition NewLogger :: "LoggerConfig \<Rightarrow> 'w Backend list \<Rightarrow> 'w standardLogger" where
  "NewLogger config backends =
     \<lparr>sl_level = ParseLevel (lg_Level config), sl_format = lg_Format config, sl_backends = backends, sl_component = lg_Component config,
      sl_fields = []\<rparr>"

fun with_fields :: "Field list \<Rightarrow> 'w standardLogger \<Rightarrow> 'w standardLogger" where
  "with_fields [] l = l"
| "with_fields ((k, v) # fs) l =
     (let l1 = l\<lparr>sl_fields := mput k v (sl_fields l)\<rparr> in
      case v of
        JStr s \<Rightarrow> if k = ''component'' then l1\<lparr>sl_component := s\<rparr> else with_fields fs l1
      | _ \<Rightarrow> with_fields fs l1)"

definition logger_With :: "Field list \<Rightarrow> 'w standardLogger \<Rightarrow> 'w standardLogger" where
  "logger_With flds l = with_fields flds l"

definition merge_fields :: "(string, json) gomap \<Rightarrow> Field list \<Rightarrow> (string, json) gomap" where
  "merge_fields m flds = foldl (\<lambda>m (k, v). mput k v m) m flds"

text \<open>\<open>emitter\<close> is the emitter of the logger as it is at the time of the call; errors of a backend go to the standard error output only.\<close>

definition logger_log ::
  "string \<Rightarrow> 's Emitter option \<Rightarrow> 'w standardLogger \<Rightarrow> LogLevel \<Rightarrow> string \<Rightarrow> Field list \<Rightarrow> 'w \<Rightarrow> 'w \<times> ('s \<times> Entry) list" where
  "logger_log now emitter l level msg flds w =
     (if level < sl_level l then (w, [])
      else
        (let entry = NewEntry now (level_String level) (sl_component l) msg (merge_fields (sl_fields l) flds) in
         (foldl (\<lambda>w b. fst (bk_Write b entry w)) w (sl_backends l), (case emitter of None \<Rightarrow> [] | Some e \<Rightarrow> Emit entry e))))"

text \<open>The functions of the package log through the global logger, when there is one.\<close>

definition global_log ::
  "string \<Rightarrow> 's Emitter option \<Rightarrow> 'w standardLogger option \<Rightarrow> LogLevel \<Rightarrow> string \<Rightarrow> Field list \<Rightarrow> 'w \<Rightarrow> 'w \<times> ('s \<times> Entry) list" where
  "global_log now emitter std level msg flds w =
     (case std of None \<Rightarrow> (w, []) | Some l \<Rightarrow> logger_log now emitter l level msg flds w)"

section \<open>Backends\<close>

record ('h, 'w) LogHost =
  lo_MkdirAll :: "string \<Rightarrow> 'w act"
  lo_OpenFile :: "string \<Rightarrow> 'w \<Rightarrow> 'w \<times> (string + 'h)"
  lo_WriteString :: "'h \<Rightarrow> string \<Rightarrow> 'w act"
  lo_CloseFile :: "'h \<Rightarrow> 'w act"
  lo_LookPath :: "string \<Rightarrow> 'w \<Rightarrow> goerror"
  lo_Run :: "string list \<Rightarrow> string \<Rightarrow> 'w act"

fun findLastSlash :: "string \<Rightarrow> nat option" where
  "findLastSlash [] = None"
| "findLastSlash (c # s) =
     (case findLastSlash s of Some i \<Rightarrow> Some (i + 1) | None \<Rightarrow> if c = CHR ''/'' then Some 0 else None)"

definition entry_output :: "(json \<Rightarrow> string) \<Rightarrow> string \<Rightarrow> Entry \<Rightarrow> string" where
  "entry_output text_of format entry = (if format = ''json'' then text_of (ToJSON entry) else ToText text_of entry)"

definition file_backend :: "('h, 'w) LogHost \<Rightarrow> (json \<Rightarrow> string) \<Rightarrow> string \<Rightarrow> 'h \<Rightarrow> 'w Backend" where
  "file_backend h text_of format file =
     \<lparr>bk_Write = (\<lambda>entry. wrapping ''failed to write to log file: '' (lo_WriteString h file (entry_output text_of format entry @ [CHR 0x0A]))),
      bk_Close = lo_CloseFile h file\<rparr>"

text \<open>Without a slash in the path the slice expression panics.\<close>

definition NewFileBackend ::
  "('h, 'w) LogHost \<Rightarrow> (json \<Rightarrow> string) \<Rightarrow> string \<Rightarrow> string \<Rightarrow> 'w \<Rightarrow> 'w \<times> 'w Backend outcome" where
  "NewFileBackend h text_of path format w =
     (case findLastSlash path of
        None \<Rightarrow> (w, Panic)
      | Some i \<Rightarrow>
          (case lo_MkdirAll h (take i path) w of
             (w1, Some e) \<Rightarrow> (w1, Err (''failed to create log directory: '' @ e))
           | (w1, None) \<Rightarrow>
               (case lo_OpenFile h path w1 of
                  (w2, Inl e) \<Rightarrow> (w2, Err (''failed to open log file: '' @ e))
                | (w2, Inr file) \<Rightarrow> (w2, Ok (file_backend h text_of format file)))))"

definition journal_priority :: "string \<Rightarrow> string" where
  "journal_priority level =
     (if level = ''debug'' then ''7'' else if level = ''info'' then ''6'' else if level = ''warn'' then ''4'' else if level = ''error'' then ''3'' else ''6'')"

definition journald_backend :: "('h, 'w) LogHost \<Rightarrow> (json \<Rightarrow> string) \<Rightarrow> string \<Rightarrow> 'w Backend" where
  "journald_backend h text_of format =
     \<lparr>bk_Write = (\<lambda>entry. wrapping ''failed to write to journal: ''
        (lo_Run h [''systemd-cat'', ''-t'', ''jack'', ''-p'', journal_priority (en_Level entry)] (entry_output text_of format entry))),
      bk_Close = nop\<rparr>"

definition NewJournaldBackend :: "('h, 'w) LogHost \<Rightarrow> (json \<Rightarrow> string) \<Rightarrow> string \<Rightarrow> 'w \<Rightarrow> 'w Backend outcome" where
  "NewJournaldBackend h text_of format w =
     (case lo_LookPath h ''systemd-cat'' w of
        Some e \<Rightarrow> Err (''systemd-cat not found: '' @ e)
      | None \<Rightarrow> Ok (journald_backend h text_of format))"

definition daemon_log_config :: LoggerConfig where
  "daemon_log_config = \<lparr>lg_Level = ''info'', lg_Format = ''json'', lg_Component = ''daemon''\<rparr>"

text \<open>The set-up of the daemon, which ends with a first message; its emitter has no subscribers yet.\<close>

definition started_with :: "string \<Rightarrow> 'w Backend \<Rightarrow> Field list \<Rightarrow> 'w \<Rightarrow> 'w \<times> 'w standardLogger outcome" where
  "started_with now b flds w =
     (let l = NewLogger daemon_log_config [b] in
      (fst (logger_log now (Some (NewEmitter :: unit Emitter)) l LevelInfo ''Logging initialized'' flds w), Ok l))"

definition initializeLogger :: "('h, 'w) LogHost \<Rightarrow> (json \<Rightarrow> string) \<Rightarrow> string \<Rightarrow> 'w \<Rightarrow> 'w \<times> 'w standardLogger outcome" where
  "initializeLogger h text_of now w =
     (case (if lo_LookPath h ''systemd-cat'' w = None then NewJournaldBackend h text_of ''json'' w else Err '''') of
        Ok b \<Rightarrow> started_with now b [(''backend'', JStr ''journald''), (''format'', JStr ''json'')] w
      | Panic \<Rightarrow> (w, Panic)
      | Err _ \<Rightarrow>
          (case NewFileBackend h text_of ''/var/log/jack/jack.log'' ''json'' w of
             (w', Ok b) \<Rightarrow>
               started_with now b [(''backend'', JStr ''file''), (''file'', JStr ''/var/log/jack/jack.log''), (''format'', JStr ''json'')] w'
           | (w', Err e) \<Rightarrow> (w', Err (''failed to initialize file backend: '' @ e))
           | (w', Panic) \<Rightarrow> (w', Panic)))"

section \<open>Subscribers\<close>

definition plugin_OnLogEvent :: "(json \<Rightarrow> 'w act) \<Rightarrow> Entry \<Rightarrow> 'w act" where
  "plugin_OnLogEvent send entry w =
     (case send (ToJSON entry) w of
        (w', err) \<Rightarrow> (w', if err = Some ''plugin does not implement log event handling'' then None else err))"

record LogFilter =
  lf_Level :: string
  lf_Component :: string
  lf_Tail :: int

record SocketLogSubscriber =
  ss_filter :: "LogFilter option"
  ss_closed :: bool

text \<open>\<open>strings.EqualFold\<close> with the level of an entry: no letter of a level has a case fold outside ASCII.\<close>

definition filter_accepts :: "LogFilter option \<Rightarrow> Entry \<Rightarrow> bool" where
  "filter_accepts f entry =
     (case f of
        None \<Rightarrow> True
      | Some flt \<Rightarrow>
          (lf_Level flt = '''' \<or> to_lower (en_Level entry) = to_lower (lf_Level flt)) \<and>
          (lf_Component flt = '''' \<or> en_Component entry = lf_Component flt))"

definition socket_OnLogEvent ::
  "(json \<Rightarrow> string) \<Rightarrow> (string \<Rightarrow> 'w act) \<Rightarrow> Entry \<Rightarrow> SocketLogSubscriber \<times> 'w \<Rightarrow> (SocketLogSubscriber \<times> 'w) \<times> goerror" where
  "socket_OnLogEvent text_of write entry sw =
     (case sw of (s, w) \<Rightarrow>
        if ss_closed s then (sw, None)
        else if \<not> filter_accepts (ss_filter s) entry then (sw, None)
        else
          (case write (text_of (ToJSON entry) @ [CHR 0x0A]) w of
             (w', Some e) \<Rightarrow> ((s\<lparr>ss_closed := True\<rparr>, w'), Some e)
           | (w', None) \<Rightarrow> ((s, w'), None)))"

definition socket_Close :: "SocketLogSubscriber \<Rightarrow> SocketLogSubscriber" where
  "socket_Close s = s\<lparr>ss_closed := True\<rparr>"

end
