(* ===== verification/Logger_Facts.thy ===== *)
theory Logger_Facts
  imports Logger
begin

text \<open>
  The logger: which entries reach the backends and the subscribers, and what a log stream writes to its socket.
\<close>

section \<open>Levels\<close>

lemma ParseLevel_String [simp]: "ParseLevel (level_String l) = l"
  by (cases l) (simp_all add: ParseLevel_def)

section \<open>Emitter\<close>

lemma without_position: "(case position s ss of None \<Rightarrow> ss | Some i \<Rightarrow> take i ss @ drop (i + 1) ss) = remove1 s ss"
proof (induction ss)
  case (Cons a ss)
  then show ?case by (cases "position s ss") auto
qed simp

lemma Unsubscribe_remove1: "em_subscribers (Unsubscribe s e) = remove1 s (em_subscribers e)"
  unfolding without_position [symmetric] by (simp add: Unsubscribe_def split: option.splits)

text \<open>Subscriptions of a running daemon: a subscriber is created for one subscription and ends it at most once.\<close>

datatype 's sub_event = Sub 's | Unsub 's

fun subs_of :: "'s sub_event list \<Rightarrow> 's list" where
  "subs_of [] = []"
| "subs_of (Sub s # evs) = s # subs_of evs"
| "subs_of (Unsub s # evs) = subs_of evs"

definition sub_step :: "'s Emitter \<Rightarrow> 's sub_event \<Rightarrow> 's Emitter" where
  "sub_step e ev = (case ev of Sub s \<Rightarrow> Subscribe s e | Unsub s \<Rightarrow> Unsubscribe s e)"

lemma subscribers_distinct:
  assumes "distinct (subs_of evs)" "distinct (em_subscribers e)" "set (em_subscribers e) \<inter> set (subs_of evs) = {}"
  shows "distinct (em_subscribers (foldl sub_step e evs))"
  using assms
proof (induction evs arbitrary: e)
  case (Cons ev evs)
  show ?case
  proof (cases ev)
    case (Sub s)
    with Cons.prems Cons.IH [of "Subscribe s e"] show ?thesis by (auto simp: sub_step_def Subscribe_def)
  next
    case (Unsub s)
    have "set (remove1 s (em_subscribers e)) \<subseteq> set (em_subscribers e)" by (rule set_remove1_subset)
    with Unsub Cons.prems Cons.IH [of "Unsubscribe s e"] show ?thesis
      by (auto simp: sub_step_def Unsubscribe_remove1)
  qed
qed simp

text \<open>After its end a subscription receives nothing more.\<close>

lemma no_delivery_after_unsubscribe:
  assumes "distinct (em_subscribers e)"
  shows "s \<notin> fst ` set (Emit entry (Unsubscribe s e))"
  using assms by (auto simp: Emit_def Unsubscribe_remove1)

section \<open>Fan-out\<close>

lemma merge_fields_get: "mget (merge_fields m flds) k = (case map_of (rev flds) k of Some v \<Rightarrow> Some v | None \<Rightarrow> mget m k)"
proof (induction flds arbitrary: m)
  case (Cons f fs)
  then show ?case by (cases f) (simp add: merge_fields_def update_conv' map_add_def split: option.splits)
qed (simp add: merge_fields_def)

text \<open>
  A logger derived by \<open>With\<close> keeps level and backends. Fields that follow a component in one call are lost.
\<close>

lemma With_keeps: "sl_level (logger_With flds l) = sl_level l \<and> sl_backends (logger_With flds l) = sl_backends l"
proof -
  have "sl_level (with_fields flds l) = sl_level l \<and> sl_backends (with_fields flds l) = sl_backends l"
  proof (induction flds l rule: with_fields.induct)
    case (2 k v fs l)
    then show ?case by (cases v) (auto simp: Let_def)
  qed simp
  then show ?thesis by (simp add: logger_With_def)
qed

lemma With_component_cuts: "logger_With ((''component'', JStr c) # flds) l = logger_With [(''component'', JStr c)] l"
  by (simp add: logger_With_def Let_def)

text \<open>
  An entry below the level of the logger reaches nobody. Any other reaches every backend and every subscriber, also when a backend fails, with the fields of the
  call taking precedence over those of the logger.
\<close>

lemma log_below_level: "level < sl_level l \<Longrightarrow> logger_log now em l level msg flds w = (w, [])"
  by (simp add: logger_log_def)

lemma log_reaches_all:
  assumes "sl_level l \<le> level"
  shows "\<exists>entry. en_Level entry = level_String level \<and> en_Component entry = sl_component l \<and> en_Message entry = msg \<and>
    (\<forall>k. mget (en_Fields entry) k = (case map_of (rev flds) k of Some v \<Rightarrow> Some v | None \<Rightarrow> mget (sl_fields l) k)) \<and>
    fst (logger_log now em l level msg flds w) = foldl (\<lambda>w b. fst (bk_Write b entry w)) w (sl_backends l) \<and>
    snd (logger_log now em l level msg flds w) = (case em of None \<Rightarrow> [] | Some e \<Rightarrow> map (\<lambda>s. (s, entry)) (em_subscribers e))"
proof (intro exI conjI allI)
  let ?entry = "NewEntry now (level_String level) (sl_component l) msg (merge_fields (sl_fields l) flds)"
  show "mget (en_Fields ?entry) k = (case map_of (rev flds) k of Some v \<Rightarrow> Some v | None \<Rightarrow> mget (sl_fields l) k)" for k
    by (simp only: NewEntry_def Entry.simps merge_fields_get)
  show "fst (logger_log now em l level msg flds w) = foldl (\<lambda>w b. fst (bk_Write b ?entry w)) w (sl_backends l)"
    "snd (logger_log now em l level msg flds w) = (case em of None \<Rightarrow> [] | Some e \<Rightarrow> map (\<lambda>s. (s, ?entry)) (em_subscribers e))"
    using assms by (simp_all add: logger_log_def Let_def Emit_def not_less [symmetric] split: option.splits)
qed (simp_all add: NewEntry_def)

section \<open>Log streams\<close>

definition stream_line :: "(json \<Rightarrow> string) \<Rightarrow> Entry \<Rightarrow> string" where
  "stream_line text_of entry = text_of (ToJSON entry) @ [CHR 0x0A]"

text \<open>Lines written one after the other until the first failure.\<close>

fun write_lines :: "(string \<Rightarrow> 'w act) \<Rightarrow> string list \<Rightarrow> 'w \<Rightarrow> 'w" where
  "write_lines wr [] w = w"
| "write_lines wr (x # xs) w = (case wr x w of (w', None) \<Rightarrow> write_lines wr xs w' | (w', Some _) \<Rightarrow> w')"

definition stream_entries ::
  "(json \<Rightarrow> string) \<Rightarrow> (string \<Rightarrow> 'w act) \<Rightarrow> Entry list \<Rightarrow> SocketLogSubscriber \<times> 'w \<Rightarrow> SocketLogSubscriber \<times> 'w" where
  "stream_entries text_of wr es sw = foldl (\<lambda>sw e. fst (socket_OnLogEvent text_of wr e sw)) sw es"

lemma stream_closed: "ss_closed s \<Longrightarrow> stream_entries text_of wr es (s, w) = (s, w)"
  by (induction es) (simp_all add: stream_entries_def socket_OnLogEvent_def)

text \<open>
  Whatever the socket answers, the entries delivered to a log stream lead to exactly these writes: one line for every entry that the
  filter accepts, in the order of delivery, until a write fails; a closed stream writes nothing.
\<close>

lemma stream_writes:
  "snd (stream_entries text_of wr es (s, w)) =
     (if ss_closed s then w else write_lines wr (map (stream_line text_of) (filter (filter_accepts (ss_filter s)) es)) w)"
proof (induction es arbitrary: w)
  case (Cons e es)
  show ?case
  proof (cases "ss_closed s \<or> \<not> filter_accepts (ss_filter s) e")
    case True
    with Cons show ?thesis by (auto simp: stream_entries_def socket_OnLogEvent_def)
  next
    case False
    obtain w' err where wr: "wr (stream_line text_of e) w = (w', err)" by fastforce
    show ?thesis
    proof (cases err)
      case None
      with False wr Cons [of w'] show ?thesis by (simp add: stream_entries_def socket_OnLogEvent_def stream_line_def)
    next
      case (Some m)
      with False wr stream_closed [of "s\<lparr>ss_closed := True\<rparr>" text_of wr es w'] show ?thesis
        by (simp add: stream_entries_def socket_OnLogEvent_def stream_line_def)
    qed
  qed
qed (simp add: stream_entries_def)

section \<open>Set-up\<close>

text \<open>A log file without a directory in its path panics, and one in the root directory asks for a directory without a name.\<close>

lemma findLastSlash_None: "findLastSlash s = None \<longleftrightarrow> CHR ''/'' \<notin> set s"
  by (induction s) (auto split: option.splits)

lemma relative_log_file_panics: "CHR ''/'' \<notin> set path \<Longrightarrow> snd (NewFileBackend h text_of path format w) = Panic"
  by (simp add: NewFileBackend_def findLastSlash_None [THEN iffD2])

lemma findLastSlash_Some: "findLastSlash s = Some i \<Longrightarrow> i < length s \<and> s ! i = CHR ''/'' \<and> CHR ''/'' \<notin> set (drop (i + 1) s)"
proof (induction s arbitrary: i)
  case (Cons c s)
  then show ?case by (auto split: option.splits if_splits simp: findLastSlash_None)
qed simp

text \<open>The set-up of the daemon never panics, and its logger has one backend.\<close>

lemma initializeLogger_total:
  "snd (initializeLogger h text_of now w) \<noteq> Panic \<and>
   (\<forall>l. snd (initializeLogger h text_of now w) = Ok l \<longrightarrow> length (sl_backends l) = 1 \<and> sl_level l = LevelInfo)"
proof -
  have "findLastSlash ''/var/log/jack/jack.log'' = Some 13" by code_simp
  then have "snd (NewFileBackend h text_of ''/var/log/jack/jack.log'' ''json'' w) \<noteq> Panic"
    by (simp add: NewFileBackend_def split: prod.splits option.splits sum.splits)
  then show ?thesis
    by (auto simp: initializeLogger_def started_with_def NewJournaldBackend_def NewLogger_def daemon_log_config_def ParseLevel_def Let_def
      split: prod.splits outcome.splits option.splits if_splits)
qed

end
