(* ===== verification/Plugin_Process_Facts.thy ===== *)
theory Plugin_Process_Facts
  imports Plugin_Process
begin

text \<open>
  The connection between daemon and plugins: calls through it behave as local calls, its set-up ends only with a connected plugin, and listed plugins can be found.
\<close>

section \<open>Transparency\<close>

text \<open>No method answers with an error that has no text.\<close>

definition errors_have_text :: "'w Provider \<Rightarrow> bool" where
  "errors_have_text p \<longleftrightarrow>
     (\<forall>w. snd (pv_Metadata p w) \<noteq> Inl '''') \<and> (\<forall>c w. snd (pv_ApplyConfig p c w) \<noteq> Some '''') \<and>
     (\<forall>c w. snd (pv_ValidateConfig p c w) \<noteq> Some '''') \<and> (\<forall>w. snd (pv_Flush p w) \<noteq> Some '''') \<and>
     (\<forall>w. snd (pv_Status p w) \<noteq> Inl '''') \<and> (\<forall>c args w. snd (pv_ExecuteCLICommand p c args w) \<noteq> Inl '''') \<and>
     (\<forall>ev w. snd (pv_OnLogEvent p ev w) \<noteq> Some '''') \<and> (\<forall>w. snd (pv_GetProvidedServices p w) \<noteq> Inl '''') \<and>
     (\<forall>n m args w. snd (pv_CallService p n m args w) \<noteq> Inl '''')"

lemma call_through: "(\<And>w. snd (f w) \<noteq> Inl '''') \<Longrightarrow> client_call (\<lambda>_. None) (serve_call zero f) = f"
proof
  fix w
  assume "\<And>w. snd (f w) \<noteq> Inl ''''"
  then have "snd (f w) \<noteq> Inl ''''" .
  then show "client_call (\<lambda>_. None) (serve_call zero f) w = f w"
    by (cases "f w") (auto simp: client_call_def serve_call_def ErrFromString_def split: sum.splits)
qed

lemma act_through: "(\<And>w. snd (f w) \<noteq> Some '''') \<Longrightarrow> client_act (\<lambda>_. None) (serve_act f) = f"
proof
  fix w
  assume "\<And>w. snd (f w) \<noteq> Some ''''"
  then have "snd (f w) \<noteq> Some ''''" .
  then show "client_act (\<lambda>_. None) (serve_act f) w = f w"
    by (cases "f w") (auto simp: client_act_def serve_act_def ErrFromString_def split: option.splits)
qed


definition ex_impl :: "nat Provider" where
  "ex_impl =
     \<lparr>pv_Metadata = (\<lambda>w. (w, Inr zero_Metadata)), pv_ApplyConfig = (\<lambda>c w. if c = JNull then (w, Some ''no configuration'') else (w + 1, None)),
      pv_ValidateConfig = (\<lambda>c w. (w, None)), pv_Flush = (\<lambda>w. (0, None)), pv_Status = (\<lambda>w. (w, Inr (Some (JNum (of_nat w))))),
      pv_ExecuteCLICommand = (\<lambda>c args w. (w, Inl ''unknown command'')), pv_OnLogEvent = (\<lambda>e w. (w, Some ''plugin does not implement log event handling'')),
      pv_GetProvidedServices = (\<lambda>w. (w, Inr [])), pv_CallService = (\<lambda>n m args w. (w, Inl ''plugin does not provide any services''))\<rparr>"


text \<open>An error without a text is lost on the way, and a call over a lost connection has no effect.\<close>

lemma empty_error_lost:
  "pv_ApplyConfig impl c w = (w', Some '''') \<Longrightarrow> pv_ApplyConfig (RPCClient (\<lambda>_. None) impl) c w = (w', None)"
  by (simp add: RPCClient_def client_ApplyConfig_def server_ApplyConfig_def client_act_def serve_act_def ErrFromString_def)

lemma lost_connection:
  "conn w = Some e \<Longrightarrow> pv_ApplyConfig (RPCClient conn impl) c w = (w, Some e) \<and> pv_Status (RPCClient conn impl) w = (w, Inl e) \<and>
     pv_CallService (RPCClient conn impl) n m args w = (w, Inl e)"
  by (simp add: RPCClient_def client_ApplyConfig_def client_Status_def client_CallService_def client_act_def client_call_def)

text \<open>The deadline of a wait does not reach the daemon: a plugin that waits with a timeout waits without one.\<close>

lemma wait_deadline_lost: "ds_WaitForService (DaemonServiceClient conn impl) (Some t) = ds_WaitForService (DaemonServiceClient conn impl) None"
  by (simp add: DaemonServiceClient_def daemon_WaitForService_def fun_eq_iff)

section \<open>Set-up of the connection back\<close>

definition setup_inv :: "handshake \<Rightarrow> bool" where
  "setup_inv s \<longleftrightarrow>
     (su_plugin s = PFinished \<longrightarrow> su_impl s \<or> su_setupErr s \<noteq> None) \<and> (su_ready s \<longrightarrow> su_plugin s = PFinished) \<and>
     (su_daemon s = DCalled \<or> su_daemon s = DDialed \<longrightarrow> su_plugin s \<noteq> PIdle) \<and> (su_daemon s = DDone None \<longrightarrow> su_plugin s = PFinished \<and> su_impl s \<and> su_setupErr s = None)"

lemma setup_step_inv: "setup_step s s' \<Longrightarrow> setup_inv s \<Longrightarrow> setup_inv s'"
  by (induction rule: setup_step.induct) (auto simp: setup_inv_def split: option.splits)

lemma setup_reachable_inv: "setup_step\<^sup>*\<^sup>* setup_init s \<Longrightarrow> setup_inv s"
proof (induction rule: rtranclp_induct)
  case base
  show ?case by (simp add: setup_init_def setup_inv_def)
qed (rule setup_step_inv)

text \<open>The channel the verification waits for is closed by the plugin alone, whether it accepts the connection or not.\<close>

lemma dialed_ready:
  assumes "setup_inv s" "su_daemon s = DDialed"
  shows "\<exists>s'. setup_step\<^sup>*\<^sup>* s s' \<and> su_daemon s' = DDialed \<and> su_ready s'"
proof -
  have closes: "\<exists>s'. setup_step\<^sup>*\<^sup>* s s' \<and> su_daemon s' = DDialed \<and> su_ready s'" if fin: "su_plugin s = PFinished" "su_daemon s = DDialed" for s
    using setup_step.close_ready [OF fin(1)] fin(2) by (intro exI [of _ "s\<lparr>su_ready := True\<rparr>"]) auto
  show ?thesis
  proof (cases "su_plugin s = PFinished")
    case True
    then show ?thesis using closes assms(2) by blast
  next
    case False
    then have "su_plugin s = PAccepting" using assms by (cases "su_plugin s") (auto simp: setup_inv_def)
    then have "setup_step s (s\<lparr>su_plugin := PFinished, su_impl := True\<rparr>)" by (rule setup_step.accepted)
    moreover obtain s' where "setup_step\<^sup>*\<^sup>* (s\<lparr>su_plugin := PFinished, su_impl := True\<rparr>) s'" "su_daemon s' = DDialed" "su_ready s'"
      using closes [of "s\<lparr>su_plugin := PFinished, su_impl := True\<rparr>"] assms(2) by auto
    ultimately show ?thesis by (blast intro: converse_rtranclp_into_rtranclp)
  qed
qed

text \<open>
  C30 (plugin_handshake): whatever the order of the steps and failures of daemon, plugin and broker, the set-up reports success only when the plugin has accepted and holds its
  connection to the daemon, and while the daemon waits for the verification the plugin can still close the channel it waits for, without a step of the daemon.
\<close>

theorem plugin_handshake:
  assumes "setup_step\<^sup>*\<^sup>* setup_init s"
  shows "(su_daemon s = DDone None \<longrightarrow> su_plugin s = PFinished \<and> su_impl s \<and> su_setupErr s = None)
    \<and> (su_daemon s = DDialed \<longrightarrow> (\<exists>s'. setup_step\<^sup>*\<^sup>* s s' \<and> su_daemon s' = DDialed \<and> su_ready s'))"
proof -
  have inv: "setup_inv s" by (rule setup_reachable_inv [OF assms])
  then have "su_daemon s = DDone None \<longrightarrow> su_plugin s = PFinished \<and> su_impl s \<and> su_setupErr s = None" by (simp add: setup_inv_def)
  with dialed_ready [OF inv] show ?thesis by blast
qed

definition ex_setup :: "daemon_phase \<Rightarrow> plugin_phase \<Rightarrow> bool \<Rightarrow> bool \<Rightarrow> handshake" where
  "ex_setup d p impl ready = \<lparr>su_daemon = d, su_plugin = p, su_impl = impl, su_setupErr = None, su_ready = ready\<rparr>"

theorem plugin_handshake_witness:
  "setup_step\<^sup>*\<^sup>* setup_init (ex_setup (DDone None) PFinished True True) \<and> su_impl (ex_setup (DDone None) PFinished True True)"
proof -
  have s: "setup_step setup_init (ex_setup DCalled PAccepting False False)" "setup_step (ex_setup DCalled PAccepting False False) (ex_setup DDialed PAccepting False False)"
    "setup_step (ex_setup DDialed PAccepting False False) (ex_setup DDialed PFinished True False)"
    "setup_step (ex_setup DDialed PFinished True False) (ex_setup DDialed PFinished True True)"
    "setup_step (ex_setup DDialed PFinished True True) (ex_setup (DDone None) PFinished True True)"
    using setup_step.call [of setup_init] setup_step.dial [of "ex_setup DCalled PAccepting False False"]
      setup_step.accepted [of "ex_setup DDialed PAccepting False False"] setup_step.close_ready [of "ex_setup DDialed PFinished True False"]
      setup_step.verified [of "ex_setup DDialed PFinished True True"]
    by (simp_all add: ex_setup_def setup_init_def)
  then have r: "setup_step\<^sup>*\<^sup>* setup_init (ex_setup (DDone None) PFinished True True)"
    by (meson converse_rtranclp_into_rtranclp rtranclp.rtrancl_refl)
  from plugin_handshake [OF r] r show ?thesis by (simp add: ex_setup_def)
qed

section \<open>Discovery\<close>

lemma trim_prefix_inverse: "has_prefix s p \<Longrightarrow> p @ trim_prefix s p = s"
proof (induction s p rule: has_prefix.induct)
  case (2 p ps)
  then show ?case by simp
qed (auto simp: trim_prefix_def)

text \<open>Every listed plugin is found, at a path that can be run.\<close>

lemma listed_plugin_found:
  assumes "name \<in> set (ListPlugins h dirs w)"
  shows "\<exists>path. FindPlugin h dirs name w = Inr path \<and> pf_runnable h path w"
proof -
  let ?paths = "map (\<lambda>dir. filepath_join dir (plugin_prefix @ name)) dirs"
  obtain dir entry where d: "dir \<in> set dirs" "has_prefix entry plugin_prefix" "pf_runnable h (filepath_join dir entry) w" "name = trim_prefix entry plugin_prefix"
    using assms by (auto simp: ListPlugins_def dir_plugins_def split: sum.splits)
  then have "entry = plugin_prefix @ name" using trim_prefix_inverse by simp
  then have "\<exists>path \<in> set ?paths. pf_runnable h path w" using d by auto
  then obtain path where p: "find (\<lambda>path. pf_runnable h path w) ?paths = Some path" by (metis find_None_iff option.exhaust)
  then have "pf_runnable h path w" by (auto simp: find_Some_iff)
  with p show ?thesis by (simp add: FindPlugin_def)
qed

text \<open>A name with parent directories leads out of the plugin directories.\<close>

lemma plugin_name_escapes: "filepath_join ''/opt/jack/plugins'' (plugin_prefix @ ''x/../../../../tmp/evil'') = ''/tmp/evil''"
  by code_simp

text \<open>A plugin that was started and cannot be loaded is stopped again.\<close>

lemma failed_load_closes:
  assumes "LoadPlugin files h name w = (w', Inl e)" "FindPlugin files pluginDirs name w = Inr path" "ph_NewClient h path w = (w1, Inr client)"
  shows "\<exists>w2. w' = fst (ph_Close h client w2)"
  using assms by (auto simp: LoadPlugin_def split: prod.splits sum.splits)

end
