(* ===== verification/Inspect.thy ===== *)
theory Inspect
  imports Monitoring
begin

text \<open>
  The status queries of \<open>src/system/inspect.go\<close>. Commands, files and netlink are queries of a state of any type; the conversions of a duration to whole days, hours and
  minutes, which the code takes from floats, are arguments.
\<close>

record InterfaceStatus =
  is_Name :: string
  is_Type :: string
  is_Device :: string
  is_State :: string
  is_IPAddr :: "string list"
  is_MTU :: int
  is_stats :: LinkStats

record DaemonStatus =
  da_Uptime :: string
  da_ConfigPath :: string
  da_PID :: int
  da_Running :: bool

record SystemInfo =
  sy_Hostname :: string
  sy_KernelVersion :: string
  sy_Uptime :: string

record SystemStatus =
  ss_System :: SystemInfo
  ss_Interfaces :: "InterfaceStatus list"
  ss_Daemon :: DaemonStatus
  ss_IPForwarding :: bool

text \<open>\<open>in_mtime\<close> is the modification time of an existing file; \<open>in_seconds\<close> reads a number of seconds as a duration in nanoseconds.\<close>

record 'w InspectHost =
  in_socketEnv :: string
  in_mtime :: "string \<Rightarrow> 'w \<Rightarrow> int option"
  in_now :: int
  in_ReadFile :: "string \<Rightarrow> 'w \<Rightarrow> string + string"
  in_Output :: "string list \<Rightarrow> 'w \<Rightarrow> string + string"
  in_Hostname :: "'w \<Rightarrow> string + string"
  in_LinkList :: "'w \<Rightarrow> string + (KLink \<times> LinkStats option) list"
  in_AddrList :: "KLink \<Rightarrow> 'w \<Rightarrow> string + IPNet list"
  in_seconds :: "string \<Rightarrow> int option"
  in_days :: "int \<Rightarrow> int"
  in_hours :: "int \<Rightarrow> int"
  in_minutes :: "int \<Rightarrow> int"

definition getSocketPath :: "'w InspectHost \<Rightarrow> string" where
  "getSocketPath h = (if in_socketEnv h \<noteq> '''' then in_socketEnv h else ''/var/run/jack.sock'')"

text \<open>The remainders truncate towards zero, as those of Go do.\<close>

definition go_mod :: "int \<Rightarrow> int \<Rightarrow> int" where
  "go_mod a b = sgn a * (\<bar>a\<bar> mod \<bar>b\<bar>)"

definition formatDuration :: "'w InspectHost \<Rightarrow> int \<Rightarrow> string" where
  "formatDuration h d =
     (let days = in_days h d; hours = go_mod (in_hours h d) 24; minutes = go_mod (in_minutes h d) 60 in
      if days > 0 then show_int days @ ''d '' @ show_int hours @ ''h '' @ show_int minutes @ ''m''
      else if hours > 0 then show_int hours @ ''h '' @ show_int minutes @ ''m''
      else show_int minutes @ ''m'')"

definition getDaemonStatus :: "'w InspectHost \<Rightarrow> 'w \<Rightarrow> DaemonStatus" where
  "getDaemonStatus h w =
     (let st = \<lparr>da_Uptime = [], da_ConfigPath = ''/etc/jack'', da_PID = 0, da_Running = (in_mtime h (getSocketPath h) w \<noteq> None)\<rparr> in
      case in_Output h [''systemctl'', ''show'', ''-p'', ''MainPID'', ''--value'', ''jack''] w of
        Inl _ \<Rightarrow> st
      | Inr out \<Rightarrow>
          (case atoi (trim_space out) of
             None \<Rightarrow> st
           | Some pid \<Rightarrow>
               if pid > 0 then
                 (case in_mtime h (''/proc/'' @ show_int pid) w of
                    None \<Rightarrow> st\<lparr>da_PID := pid\<rparr>
                  | Some t \<Rightarrow> st\<lparr>da_PID := pid, da_Uptime := formatDuration h (in_now h - t)\<rparr>)
               else st))"

definition zero_LinkStats :: LinkStats where
  "zero_LinkStats = \<lparr>st_RxBytes = 0, st_TxBytes = 0, st_RxPackets = 0, st_TxPackets = 0, st_RxErrors = 0, st_TxErrors = 0\<rparr>"

definition interface_status :: "'w InspectHost \<Rightarrow> 'w \<Rightarrow> KLink \<times> LinkStats option \<Rightarrow> InterfaceStatus" where
  "interface_status h w l =
     (case l of (link, stats) \<Rightarrow>
        \<lparr>is_Name = lk_Name link, is_Type = (if lk_Type link = ''device'' then ''physical'' else lk_Type link), is_Device = lk_Name link,
         is_State = (if lk_Up link then ''up'' else ''down''), is_IPAddr = (case in_AddrList h link w of Inl _ \<Rightarrow> [] | Inr as \<Rightarrow> map net_String as),
         is_MTU = lk_MTU link, is_stats = (case stats of None \<Rightarrow> zero_LinkStats | Some s \<Rightarrow> s)\<rparr>)"

definition getInterfaceStatus :: "'w InspectHost \<Rightarrow> 'w \<Rightarrow> string + InterfaceStatus list" where
  "getInterfaceStatus h w =
     (case in_LinkList h w of
        Inl e \<Rightarrow> Inl e
      | Inr links \<Rightarrow> Inr (map (interface_status h w) (filter (\<lambda>(link, _). lk_Name link \<noteq> ''lo'') links)))"

definition getSystemInfo :: "'w InspectHost \<Rightarrow> 'w \<Rightarrow> SystemInfo" where
  "getSystemInfo h w =
     \<lparr>sy_Hostname = (case in_Hostname h w of Inl _ \<Rightarrow> [] | Inr n \<Rightarrow> n),
      sy_KernelVersion =
        (case in_ReadFile h ''/proc/version'' w of
           Inl _ \<Rightarrow> []
         | Inr data \<Rightarrow> (let parts = go_fields data in if length parts \<ge> 3 then parts ! 2 else [])),
      sy_Uptime =
        (case in_ReadFile h ''/proc/uptime'' w of
           Inl _ \<Rightarrow> []
         | Inr data \<Rightarrow>
             (case go_fields data of
                [] \<Rightarrow> []
              | f # _ \<Rightarrow> (case in_seconds h f of None \<Rightarrow> [] | Some d \<Rightarrow> formatDuration h d)))\<rparr>"

definition GetSystemStatus :: "'w InspectHost \<Rightarrow> 'w \<Rightarrow> string + SystemStatus" where
  "GetSystemStatus h w =
     (case getInterfaceStatus h w of
        Inl e \<Rightarrow> Inl (''failed to get interface status: '' @ e)
      | Inr ifs \<Rightarrow>
          Inr \<lparr>ss_System = getSystemInfo h w, ss_Interfaces = ifs, ss_Daemon = getDaemonStatus h w,
               ss_IPForwarding =
                 (case in_ReadFile h ''/proc/sys/net/ipv4/ip_forward'' w of Inl _ \<Rightarrow> False | Inr data \<Rightarrow> trim_space data = ''1'')\<rparr>)"

section \<open>Facts\<close>

text \<open>With exact conversions the parts of a printed duration that is not negative make it up to the minute, and are in range.\<close>

lemma duration_parts:
  assumes "0 \<le> d" "in_hours h d = d div 3600000000000" "in_days h d = d div 86400000000000" "in_minutes h d = d div 60000000000"
  shows "in_days h d * 1440 + go_mod (in_hours h d) 24 * 60 + go_mod (in_minutes h d) 60 = d div 60000000000 \<and>
    0 \<le> go_mod (in_hours h d) 24 \<and> go_mod (in_hours h d) 24 < 24 \<and> 0 \<le> go_mod (in_minutes h d) 60 \<and> go_mod (in_minutes h d) 60 < 60"
proof -
  let ?m = "d div 60000000000"
  have nn: "go_mod a b = a mod b" if "0 \<le> a" "0 < b" for a b :: int
    using that by (cases "a = 0") (auto simp: go_mod_def)
  have hd: "d div 3600000000000 = ?m div 60" "d div 86400000000000 = ?m div 60 div 24"
    using zdiv_zmult2_eq [of 60 d 60000000000] zdiv_zmult2_eq [of 24 d 3600000000000] by simp_all
  have core: "m div 60 div 24 * 1440 + m div 60 mod 24 * 60 + m mod 60 = m" for m :: int
    using div_mult_mod_eq [of m 60] div_mult_mod_eq [of "m div 60" 24] by linarith
  have "0 \<le> ?m" "0 \<le> ?m div 60" using assms(1) by (simp_all add: pos_imp_zdiv_nonneg_iff)
  then have "go_mod (?m div 60) 24 = ?m div 60 mod 24" "go_mod ?m 60 = ?m mod 60" by (simp_all only: nn zero_less_numeral)
  then show ?thesis unfolding assms(2-4) hd using core [of ?m] by (metis pos_mod_bound pos_mod_sign zero_less_numeral)
qed

lemma status_interfaces:
  "GetSystemStatus h w = Inr st \<Longrightarrow> in_LinkList h w = Inr links \<Longrightarrow>
   map is_Name (ss_Interfaces st) = filter (\<lambda>n. n \<noteq> ''lo'') (map (\<lambda>(link, _). lk_Name link) links)"
  by (auto simp: GetSystemStatus_def getInterfaceStatus_def interface_status_def filter_map comp_def case_prod_unfold split: sum.splits)

end
