(* ===== verification/Command_Line.thy ===== *)
theory Command_Line
  imports Daemon_Loop Plugin_Process Plugin_Actions Go_Text
begin

text \<open>
  The command line, \<open>src/cmd\<close>: the arguments of \<open>jack set\<close> and \<open>jack get\<close> with the answers they print (\<open>set.go\<close>, \<open>get.go\<close>), the commands that send one request and print the
  answer, the client of the socket (\<open>src/client/client.go\<close>), and the commands that plugins bring along (\<open>plugin_commands.go\<close>). The library \<open>cobra\<close> holds the commands as a
  tree, here a list of nodes. Requests are those of \<open>Daemon_Loop\<close>; an answer is what the client decodes. \<open>fmtv\<close> renders a value with \<open>%v\<close> and \<open>indented\<close> is \<open>json.MarshalIndent\<close>.
\<close>

section \<open>The client of the socket\<close>

record CliResponse =
  rs_Data :: "json option"
  rs_Message :: string
  rs_Error :: string
  rs_Success :: bool

type_synonym 'w sender = "Request \<Rightarrow> 'w \<Rightarrow> 'w \<times> (string + CliResponse)"

definition GetSocketPath :: "string \<Rightarrow> string" where
  "GetSocketPath custom = (if custom \<noteq> '''' then custom else ''/var/run/jack.sock'')"

text \<open>A connection: dialling, writing a line, and reading up to and with the next newline. \<open>enc\<close> and \<open>dec\<close> are \<open>Marshal\<close> and \<open>Unmarshal\<close> of \<open>encoding/json\<close>.\<close>

record 'w Dialer =
  di_Dial :: "string \<Rightarrow> 'w \<Rightarrow> 'w \<times> string option"
  di_Write :: "string \<Rightarrow> 'w \<Rightarrow> 'w \<times> string option"
  di_ReadBytes :: "'w \<Rightarrow> 'w \<times> (string + string)"
  di_Close :: "'w \<Rightarrow> 'w"

definition client_Send :: "'w Dialer \<Rightarrow> (Request \<Rightarrow> string + string) \<Rightarrow> (string \<Rightarrow> string + CliResponse) \<Rightarrow> string \<Rightarrow> 'w sender" where
  "client_Send d enc dec custom req w =
     (case di_Dial d (GetSocketPath custom) w of
        (w1, Some e) \<Rightarrow> (w1, Inl (''failed to connect to daemon (is it running?): '' @ e))
      | (w1, None) \<Rightarrow>
          (case enc req of
             Inl e \<Rightarrow> (di_Close d w1, Inl (''failed to marshal request: '' @ e))
           | Inr data \<Rightarrow>
               (case di_Write d (data @ [CHR 0x0A]) w1 of
                  (w2, Some e) \<Rightarrow> (di_Close d w2, Inl (''failed to send request: '' @ e))
                | (w2, None) \<Rightarrow>
                    (case di_ReadBytes d w2 of
                       (w3, Inl e) \<Rightarrow> (di_Close d w3, Inl (''failed to read response: '' @ e))
                     | (w3, Inr line) \<Rightarrow>
                         (di_Close d w3, case dec line of Inl e \<Rightarrow> Inl (''failed to parse response: '' @ e) | Inr r \<Rightarrow> Inr r)))))"

definition request :: "string \<Rightarrow> Request" where
  "request command = \<lparr>rq_Command = command, rq_Path = [], rq_Value = JNull, rq_Plugin = [], rq_CheckpointID = [], rq_CLICommand = [], rq_CLIArgs = []\<rparr>"

definition send_ok :: "'w sender \<Rightarrow> Request \<Rightarrow> 'w \<Rightarrow> 'w \<times> (string + CliResponse)" where
  "send_ok send req w =
     (case send req w of
        (w', Inl e) \<Rightarrow> (w', Inl e)
      | (w', Inr r) \<Rightarrow> (w', if rs_Success r then Inr r else Inl (rs_Error r)))"

section \<open>Commands of one request\<close>

definition send_message :: "'w sender \<Rightarrow> Request \<Rightarrow> string \<Rightarrow> 'w \<Rightarrow> 'w \<times> (string + string)" where
  "send_message send req pre w =
     (case send_ok send req w of
        (w', Inl e) \<Rightarrow> (w', Inl e)
      | (w', Inr r) \<Rightarrow> (w', Inr (text_line (pre @ rs_Message r))))"

definition executeDiff :: "'w sender \<Rightarrow> 'w \<Rightarrow> 'w \<times> (string + string)" where
  "executeDiff send = send_message send (request ''diff'') ''''"

definition executeCommit :: "'w sender \<Rightarrow> 'w \<Rightarrow> 'w \<times> (string + string)" where
  "executeCommit send = send_message send (request ''commit'') ''[OK] ''"

definition executeRevert :: "'w sender \<Rightarrow> 'w \<Rightarrow> 'w \<times> (string + string)" where
  "executeRevert send = send_message send (request ''revert'') ''[OK] ''"

text \<open>\<open>jack apply\<close> prints a line before it asks, also when the answer is an error.\<close>

definition executeApply :: "'w sender \<Rightarrow> 'w \<Rightarrow> 'w \<times> string \<times> (string + string)" where
  "executeApply send w =
     (case send_message send (request ''apply'') ''[OK] '' w of
        (w', r) \<Rightarrow> (w', text_line ''Applying configuration...'', r))"

text \<open>\<open>jack rollback\<close> takes at most one argument, which \<open>cobra\<close> checks.\<close>

definition run_rollback :: "'w sender \<Rightarrow> string list \<Rightarrow> 'w \<Rightarrow> 'w \<times> (string + string)" where
  "run_rollback send args = send_message send ((request ''rollback'')\<lparr>rq_CheckpointID := (case args of [] \<Rightarrow> '''' | a # _ \<Rightarrow> a)\<rparr>) ''''"

definition run_checkpoint_create :: "'w sender \<Rightarrow> 'w \<Rightarrow> 'w \<times> (string + string)" where
  "run_checkpoint_create send = send_message send (request ''checkpoint-create'') ''''"

definition runPluginEnable :: "'w sender \<Rightarrow> string \<Rightarrow> 'w \<Rightarrow> 'w \<times> (string + string)" where
  "runPluginEnable send pluginName = send_message send ((request ''plugin-enable'')\<lparr>rq_Plugin := pluginName\<rparr>) ''''"

definition runPluginDisable :: "'w sender \<Rightarrow> string \<Rightarrow> 'w \<Rightarrow> 'w \<times> (string + string)" where
  "runPluginDisable send pluginName = send_message send ((request ''plugin-disable'')\<lparr>rq_Plugin := pluginName\<rparr>) ''''"

definition runPluginRescan :: "'w sender \<Rightarrow> 'w \<Rightarrow> 'w \<times> (string + string)" where
  "runPluginRescan send = send_message send (request ''plugin-rescan'') ''''"

section \<open>The journal\<close>

definition journalctl_args :: "bool \<Rightarrow> int \<Rightarrow> string \<Rightarrow> string list" where
  "journalctl_args follow lines since =
     [''journalctl'', ''-u'', ''jack'']
     @ (if follow then [''-f''] else [])
     @ (if lines > 0 \<and> \<not> follow then [''-n'', show_int lines] else [])
     @ (if since \<noteq> '''' then [''--since'', since] else [])
     @ (if \<not> follow then [''--no-pager''] else [])"

definition tail_args :: "bool \<Rightarrow> int \<Rightarrow> string list" where
  "tail_args follow lines =
     [''tail''] @ (if follow then [''-f''] else []) @ (if lines > 0 then [''-n'', show_int lines] else []) @ [''/var/log/jack/jack.log'']"

section \<open>Sizes\<close>

text \<open>The loop of \<open>formatBytes\<close>: the divisor, as an \<open>int64\<close>, and the index of its unit, while \<open>n\<close> has another unit in it.\<close>

function size_unit :: "int \<Rightarrow> int \<Rightarrow> nat \<Rightarrow> int \<times> nat" where
  "size_unit n d e = (if n \<ge> 1024 then size_unit (n div 1024) (wrap64 (d * 1024)) (e + 1) else (d, e))"
  by auto
termination by (relation "measure (\<lambda>(n, _, _). nat n)") auto

declare size_unit.simps [simp del]

definition size_letters :: string where
  "size_letters = ''KMGTPE''"

text \<open>\<open>ratio\<close> renders the quotient of two numbers as floats with \<open>%.1f\<close>; an index past the letters panics.\<close>

definition status_formatBytes :: "(int \<Rightarrow> int \<Rightarrow> string) \<Rightarrow> int \<Rightarrow> string outcome" where
  "status_formatBytes ratio bytes =
     (if bytes < 1024 then Ok (show_int bytes @ '' B'')
      else case size_unit (bytes div 1024) 1024 0 of
             (d, e) \<Rightarrow> if e < length size_letters then Ok (ratio bytes d @ '' '' @ [size_letters ! e] @ ''iB'') else Panic)"

definition boolToStatus :: "bool \<Rightarrow> string" where
  "boolToStatus b = (if b then ''Active'' else ''Inactive'')"

section \<open>jack get and jack set\<close>

definition parseGetPath :: "string list \<Rightarrow> string" where
  "parseGetPath args = join_with ''.'' args"

definition parse_value :: "string \<Rightarrow> json" where
  "parse_value s =
     (if s = ''true'' then JBool True
      else if s = ''false'' then JBool False
      else case atoi s of Some i \<Rightarrow> JNum (of_int i) | None \<Rightarrow> JStr s)"

definition parseSetArgs :: "string list \<Rightarrow> string + (string \<times> json)" where
  "parseSetArgs args =
     (if length args < 1 then Inr ('''', JNull)
      else if length args < 2 then Inl ''requires at least 2 arguments (path and value)''
      else Inr (join_with ''.'' (butlast args), parse_value (last args)))"

definition category_order :: "string list" where
  "category_order = [''core'', ''firewall'', ''vpn'', ''dhcp'', ''monitoring'', ''hardware'', ''other'']"

definition category_text :: "(json \<Rightarrow> string) \<Rightarrow> (string \<times> json) list \<Rightarrow> string" where
  "category_text fmtv categories =
     text_line ''Available configuration namespaces:'' @
     concat (map (\<lambda>category.
       case mget categories category of
         Some (JArr nss) \<Rightarrow>
           if nss \<noteq> [] then text_line '''' @ text_line (category @ '':'') @ concat (map (\<lambda>ns. text_line (''  '' @ fmtv ns)) nss) else ''''
       | _ \<Rightarrow> '''') category_order)"

definition executeGet :: "(json \<Rightarrow> string) \<Rightarrow> (json \<Rightarrow> string) \<Rightarrow> 'w sender \<Rightarrow> string list \<Rightarrow> 'w \<Rightarrow> 'w \<times> (string + string)" where
  "executeGet fmtv indented send args w =
     (let path = parseGetPath args in
      case send_ok send ((request ''get'')\<lparr>rq_Path := path\<rparr>) w of
        (w', Inl e) \<Rightarrow> (w', Inl e)
      | (w', Inr r) \<Rightarrow>
          (w', Inr (case (path, rs_Data r) of
             ([], Some (JObj categories)) \<Rightarrow> category_text fmtv categories
           | _ \<Rightarrow> text_line (indented (case rs_Data r of None \<Rightarrow> JNull | Some v \<Rightarrow> v)))))"

definition executeSet :: "(json \<Rightarrow> string) \<Rightarrow> 'w sender \<Rightarrow> string list \<Rightarrow> 'w \<Rightarrow> 'w \<times> (string + string)" where
  "executeSet fmtv send args w =
     (case parseSetArgs args of
        Inl e \<Rightarrow> (w, Inl e)
      | Inr (path, v) \<Rightarrow>
          if path = '''' then
            (case send_ok send (request ''get'') w of
               (w', Inl e) \<Rightarrow> (w', Inl e)
             | (w', Inr r) \<Rightarrow>
                 (w', case rs_Data r of
                        Some (JObj categories) \<Rightarrow> Inr (category_text fmtv categories)
                      | _ \<Rightarrow> Inl ''unexpected response format''))
          else
            (case send_ok send ((request ''set'')\<lparr>rq_Path := path, rq_Value := v\<rparr>) w of
               (w', Inl e) \<Rightarrow> (w', Inl e)
             | (w', Inr r) \<Rightarrow> (w', Inr (text_line (rs_Message r)))))"

section \<open>Commands of plugins\<close>

definition spaces :: "CLICommand \<Rightarrow> nat" where
  "spaces c = count_list (cc_Name c) (CHR '' '')"

definition exchange :: "nat \<Rightarrow> CLICommand list \<Rightarrow> nat \<Rightarrow> CLICommand list" where
  "exchange i xs j = (if spaces (xs ! i) > spaces (xs ! j) then xs[i := xs ! j, j := xs ! i] else xs)"

definition sort_commands :: "CLICommand list \<Rightarrow> CLICommand list" where
  "sort_commands cs = foldl (\<lambda>xs i. foldl (exchange i) xs [i + 1..<length xs]) cs [0..<length cs]"

text \<open>
  What a command runs: the plugin's file, the command of its metadata and the subcommand. A node of the tree has its name, its subcommands with what each runs, and what it runs
  itself.
\<close>

record PluginRun =
  pr_path :: string
  pr_cmd :: CLICommand
  pr_sub :: string

record CommandNode =
  cn_Name :: string
  cn_subs :: "(string \<times> PluginRun) list"
  cn_run :: "PluginRun option"

definition findCommand :: "string \<Rightarrow> CommandNode list \<Rightarrow> CommandNode option" where
  "findCommand name tree = find (\<lambda>n. cn_Name n = name) tree"

fun update_first :: "('a \<Rightarrow> bool) \<Rightarrow> ('a \<Rightarrow> 'a) \<Rightarrow> 'a list \<Rightarrow> 'a list" where
  "update_first P f [] = []"
| "update_first P f (x # xs) = (if P x then f x # xs else x # update_first P f xs)"

definition add_sub :: "string \<Rightarrow> string \<times> PluginRun \<Rightarrow> CommandNode list \<Rightarrow> CommandNode list" where
  "add_sub parent sub tree =
     (case findCommand parent tree of
        None \<Rightarrow> tree @ [\<lparr>cn_Name = parent, cn_subs = [sub], cn_run = None\<rparr>]
      | Some _ \<Rightarrow> update_first (\<lambda>n. cn_Name n = parent) (\<lambda>n. n\<lparr>cn_subs := cn_subs n @ [sub]\<rparr>) tree)"

text \<open>The name of a node is its text up to the first space, as \<open>cobra\<close> defines it.\<close>

definition node_name :: "string \<Rightarrow> string" where
  "node_name usage = takeWhile (\<lambda>c. c \<noteq> CHR '' '') usage"

definition createPluginCommand :: "string \<Rightarrow> CommandNode list \<Rightarrow> CLICommand \<Rightarrow> CommandNode list" where
  "createPluginCommand path tree c =
     (let parts = go_fields (cc_Name c) in
      if length parts > 1 then
        add_sub (hd parts) (node_name (join_with '' '' (tl parts)), \<lparr>pr_path = path, pr_cmd = c, pr_sub = ''''\<rparr>) tree
      else if cc_Subcommands c \<noteq> [] then
        tree @ [\<lparr>cn_Name = node_name (cc_Name c),
                 cn_subs = map (\<lambda>s. (node_name s, \<lparr>pr_path = path, pr_cmd = c, pr_sub = s\<rparr>)) (cc_Subcommands c), cn_run = None\<rparr>]
      else
        tree @ [\<lparr>cn_Name = node_name (cc_Name c), cn_subs = [],
                 cn_run = Some \<lparr>pr_path = path, pr_cmd = c, pr_sub = ''''\<rparr>\<rparr>])"

definition register_all :: "string \<Rightarrow> CLICommand list \<Rightarrow> CommandNode list \<Rightarrow> CommandNode list" where
  "register_all path cmds tree = foldl (createPluginCommand path) tree (sort_commands cmds)"

definition registerPluginCommands :: "('c, 'w) PluginHost \<Rightarrow> string \<Rightarrow> CommandNode list \<Rightarrow> 'w \<Rightarrow> 'w \<times> (string + CommandNode list)" where
  "registerPluginCommands h path tree w =
     (case ph_NewClient h path w of
        (w1, Inl e) \<Rightarrow> (w1, Inl (''failed to start plugin: '' @ e))
      | (w1, Inr client) \<Rightarrow>
          (case ph_Dispense h client w1 of
             (w2, Inl e) \<Rightarrow> (fst (ph_Close h client w2), Inl (''failed to dispense plugin: '' @ e))
           | (w2, Inr provider) \<Rightarrow>
               (case pv_Metadata provider w2 of
                  (w3, Inl e) \<Rightarrow> (fst (ph_Close h client w3), Inl (''failed to get metadata: '' @ e))
                | (w3, Inr md) \<Rightarrow> (fst (ph_Close h client w3), Inr (register_all path (mr_CLICommands md) tree)))))"

text \<open>All plugins of a directory. \<open>glob\<close> gives the paths that match a pattern, as \<open>filepath.Glob\<close> does, and \<open>executable\<close> whether a path has a mode with an execute bit; a plugin that fails is warned about and skipped.\<close>

definition plugin_dir :: "string \<Rightarrow> string" where
  "plugin_dir custom = (if custom \<noteq> '''' then custom else ''/usr/lib/jack/plugins'')"

definition RegisterPluginCommands ::
  "(string \<Rightarrow> 'w \<Rightarrow> bool) \<Rightarrow> (string \<Rightarrow> 'w \<Rightarrow> string + string list) \<Rightarrow> ('c, 'w) PluginHost \<Rightarrow> string \<Rightarrow> CommandNode list \<Rightarrow> 'w \<Rightarrow> 'w \<times> CommandNode list" where
  "RegisterPluginCommands executable glob h custom tree w =
     (case glob (filepath_join (plugin_dir custom) ''jack-plugin-*'') w of
        Inl _ \<Rightarrow> (w, tree)
      | Inr paths \<Rightarrow>
          foldl (\<lambda>(w1, tree1) path.
            if \<not> executable path w1 then (w1, tree1)
            else case registerPluginCommands h path tree1 w1 of
                   (w2, Inl _) \<Rightarrow> (w2, tree1)
                 | (w2, Inr tree2) \<Rightarrow> (w2, tree2)) (w, tree) paths)"

section \<open>Running a command of a plugin\<close>

definition full_command :: "CLICommand \<Rightarrow> string \<Rightarrow> string" where
  "full_command c subcommand = (if subcommand \<noteq> '''' then cc_Name c @ '' '' @ subcommand else cc_Name c)"

definition isContinuous :: "CLICommand \<Rightarrow> string \<Rightarrow> bool" where
  "isContinuous c subcommand \<longleftrightarrow> cc_Continuous c \<or> full_command c subcommand = ''firewall watch''"

definition pollInterval :: "CLICommand \<Rightarrow> int" where
  "pollInterval c = (if cc_PollInterval c \<le> 0 then 2 else cc_PollInterval c)"

definition plugin_request :: "string \<Rightarrow> string \<Rightarrow> string list \<Rightarrow> Request" where
  "plugin_request pluginName fullCommand args = (request ''plugin-cli'')\<lparr>rq_Plugin := pluginName, rq_CLICommand := fullCommand, rq_CLIArgs := args\<rparr>"

definition executeOnce :: "'w sender \<Rightarrow> string \<Rightarrow> CLICommand \<Rightarrow> string \<Rightarrow> string list \<Rightarrow> 'w \<Rightarrow> 'w \<times> (string + string)" where
  "executeOnce send pluginName c subcommand args w =
     (case send_ok send (plugin_request pluginName (full_command c subcommand) args) w of
        (w', Inl e) \<Rightarrow> (w', Inl e)
      | (w', Inr r) \<Rightarrow>
          (w', Inr (case rs_Data r of Some (JStr out) \<Rightarrow> if out \<noteq> '''' then text_line (trim_space out) else '''' | _ \<Rightarrow> '''')))"

definition printCommandSnapshot :: "'w sender \<Rightarrow> string \<Rightarrow> string \<Rightarrow> string list \<Rightarrow> 'w \<Rightarrow> 'w \<times> string \<times> bool" where
  "printCommandSnapshot send pluginName fullCommand args w =
     (case send (plugin_request pluginName fullCommand args) w of
        (w', Inl e) \<Rightarrow> (w', text_line (''[ERROR] '' @ e) @ text_line '''' @ text_line ''Cannot continue - daemon communication failed.'', False)
      | (w', Inr r) \<Rightarrow>
          if \<not> rs_Success r then
            (w', text_line (''[ERROR] '' @ rs_Error r) @ text_line '''' @ text_line ''Cannot continue - command failed.'', False)
          else
            (case rs_Data r of
               Some (JStr out) \<Rightarrow>
                 if out = '''' then (w', '''', True)
                 else if has_prefix (trim_space out) ''Error:''
                 then (w', out @ text_line '''' @ text_line ''Cannot continue - service unavailable.'', False)
                 else (w', out, True)
             | _ \<Rightarrow> (w', '''', True)))"

definition clearScreen :: string where
  "clearScreen = [CHR 0x1B] @ ''[H'' @ [CHR 0x1B] @ ''[2J''"

text \<open>The polling loop until it ends by itself or, after \<open>ticks\<close> ticks, by a signal; the texts it prints, in order.\<close>

fun executeContinuousCommand :: "'w sender \<Rightarrow> string \<Rightarrow> string \<Rightarrow> string list \<Rightarrow> nat \<Rightarrow> 'w \<Rightarrow> 'w \<times> string list" where
  "executeContinuousCommand send pluginName fullCommand args ticks w =
     (case printCommandSnapshot send pluginName fullCommand args w of
        (w', out, continue) \<Rightarrow>
          if \<not> continue then (w', [out])
          else (case ticks of
                  0 \<Rightarrow> (w', [out, text_line '''' @ text_line ''Stopped.''])
                | Suc n \<Rightarrow> (case executeContinuousCommand send pluginName fullCommand args n w' of (w'', outs) \<Rightarrow> (w'', out # clearScreen # outs))))"

declare executeContinuousCommand.simps [simp del]

definition run_plugin_name :: "string \<Rightarrow> string" where
  "run_plugin_name path = trim_prefix (filepath_base path) ''jack-plugin-''"

definition executePluginCommand :: "'w sender \<Rightarrow> PluginRun \<Rightarrow> string list \<Rightarrow> nat \<Rightarrow> 'w \<Rightarrow> 'w \<times> (string + string list)" where
  "executePluginCommand send r args ticks w =
     (if isContinuous (pr_cmd r) (pr_sub r) then
        (case executeContinuousCommand send (run_plugin_name (pr_path r)) (full_command (pr_cmd r) (pr_sub r)) args ticks w of
           (w', outs) \<Rightarrow> (w', Inr outs))
      else
        (case executeOnce send (run_plugin_name (pr_path r)) (pr_cmd r) (pr_sub r) args w of
           (w', Inl e) \<Rightarrow> (w', Inl e)
         | (w', Inr out) \<Rightarrow> (w', Inr [out])))"

section \<open>The PID file\<close>

text \<open>\<open>pd_Alive\<close> says whether a process is found and can be signalled; removing the file is allowed to fail, its error is ignored.\<close>

datatype pid_read = NoFile | Unreadable string | Content string

record 'w PidHost =
  pd_ReadFile :: "string \<Rightarrow> 'w \<Rightarrow> pid_read"
  pd_Remove :: "string \<Rightarrow> 'w \<Rightarrow> 'w"
  pd_WriteFile :: "string \<Rightarrow> string \<Rightarrow> 'w act"
  pd_Alive :: "int \<Rightarrow> 'w \<Rightarrow> bool"

definition checkExistingDaemon :: "'w PidHost \<Rightarrow> string \<Rightarrow> 'w act" where
  "checkExistingDaemon h pidFile w =
     (case pd_ReadFile h pidFile w of
        NoFile \<Rightarrow> (w, None)
      | Unreadable e \<Rightarrow> (w, Some (''PID file exists but cannot be read: '' @ e @ '' (remove '' @ pidFile @ '' manually if daemon is not running)''))
      | Content data \<Rightarrow>
          (case atoi (trim_space data) of
             None \<Rightarrow> (w, Some (''invalid PID in '' @ pidFile @ '': '' @ trim_space data @ '' (remove file manually if daemon is not running)''))
           | Some pid \<Rightarrow>
               if pd_Alive h pid w
               then (w, Some (''daemon already running with PID '' @ show_int pid @ '' (stop it first or remove '' @ pidFile @ '' if it's stale)''))
               else (pd_Remove h pidFile w, None)))"

definition writePIDFile :: "'w PidHost \<Rightarrow> string \<Rightarrow> int \<Rightarrow> 'w act" where
  "writePIDFile h pidFile pid = pd_WriteFile h pidFile (text_line (show_int pid))"

definition claim_pid_file :: "'w PidHost \<Rightarrow> string \<Rightarrow> int \<Rightarrow> 'w act" where
  "claim_pid_file h env pid w =
     (let pidFile = (if env = '''' then ''/var/run/jack.pid'' else env) in
      case checkExistingDaemon h pidFile w of
        (w1, Some e) \<Rightarrow> (w1, Some e)
      | (w1, None) \<Rightarrow>
          (case writePIDFile h pidFile pid w1 of
             (w2, Some e) \<Rightarrow> (w2, Some (''Failed to write PID file: '' @ e))
           | (w2, None) \<Rightarrow> (w2, None)))"

end
