(* ===== verification/Protocol.thy ===== *)
theory Protocol
  imports Daemon_Loop Plugin_Codec Logger Command_Line
begin

text \<open>
  What travels over the socket: requests and responses of \<open>src/daemon/protocol.go\<close> as JSON values, the data of every handler included. A request carries the filter of a log
  stream besides the fields the handlers of \<open>Daemon_Loop\<close> read.
\<close>

section \<open>Requests\<close>

record StreamRequest = Request +
  rq_LogFilter :: "LogFilter option"

definition plain_request :: "StreamRequest \<Rightarrow> Request" where
  "plain_request r =
     \<lparr>rq_Command = rq_Command r, rq_Path = rq_Path r, rq_Value = rq_Value r, rq_Plugin = rq_Plugin r, rq_CheckpointID = rq_CheckpointID r,
      rq_CLICommand = rq_CLICommand r, rq_CLIArgs = rq_CLIArgs r\<rparr>"

definition with_filter :: "LogFilter option \<Rightarrow> Request \<Rightarrow> StreamRequest" where
  "with_filter flt r =
     \<lparr>rq_Command = rq_Command r, rq_Path = rq_Path r, rq_Value = rq_Value r, rq_Plugin = rq_Plugin r, rq_CheckpointID = rq_CheckpointID r,
      rq_CLICommand = rq_CLICommand r, rq_CLIArgs = rq_CLIArgs r, rq_LogFilter = flt\<rparr>"

text \<open>Encoding: a field with \<open>omitempty\<close> is left out when it is nil, empty or zero.\<close>

definition opt_str :: "string \<Rightarrow> string \<Rightarrow> (string \<times> json) list" where
  "opt_str tag s = (if s = '''' then [] else [(tag, JStr s)])"

definition enc_LogFilter :: "LogFilter \<Rightarrow> json" where
  "enc_LogFilter f =
     JObj (opt_str ''level'' (lf_Level f) @ opt_str ''component'' (lf_Component f) @
           (if lf_Tail f = 0 then [] else [(''tail'', JNum (of_int (lf_Tail f)))]))"

definition enc_Request :: "StreamRequest \<Rightarrow> json" where
  "enc_Request r =
     JObj ((if rq_Value r = JNull then [] else [(''value'', marshal (rq_Value r))]) @
           [(''command'', JStr (rq_Command r))] @ opt_str ''path'' (rq_Path r) @ opt_str ''plugin'' (rq_Plugin r) @
           opt_str ''cli_command'' (rq_CLICommand r) @
           (if rq_CLIArgs r = [] then [] else [(''cli_args'', JArr (map JStr (rq_CLIArgs r)))]) @
           opt_str ''checkpoint_id'' (rq_CheckpointID r) @
           (case rq_LogFilter r of None \<Rightarrow> [] | Some f \<Rightarrow> [(''log_filter'', enc_LogFilter f)]))"

definition LogFilter_fields :: "LogFilter handler list" where
  "LogFilter_fields =
       [str_field ''level'' lf_Level lf_Level_update, str_field ''component'' lf_Component lf_Component_update,
        int_field ''tail'' lf_Tail lf_Tail_update]"

definition dec_LogFilter :: "json \<Rightarrow> LogFilter outcome" where
  "dec_LogFilter v = dec_object ''daemon.LogFilter'' LogFilter_fields v \<lparr>lf_Level = '''', lf_Component = '''', lf_Tail = 0\<rparr>"

text \<open>The arguments of a command are a slice whose nil value the handlers do not tell apart from the empty one; a null filter is nil.\<close>

definition zero_Request :: StreamRequest where
  "zero_Request = with_filter None (request '''')"

definition Request_fields :: "StreamRequest handler list" where
  "Request_fields =
       [field_of ''value'' (\<lambda>_ x. Ok x) rq_Value rq_Value_update,
        str_field ''command'' rq_Command rq_Command_update, str_field ''path'' rq_Path rq_Path_update,
        str_field ''plugin'' rq_Plugin rq_Plugin_update, str_field ''cli_command'' rq_CLICommand rq_CLICommand_update,
        field_of ''cli_args'' (\<lambda>_ x. obind (dec_slice ''[]string'' (dec_string '''') x) (\<lambda>s. Ok (elems s))) rq_CLIArgs rq_CLIArgs_update,
        str_field ''checkpoint_id'' rq_CheckpointID rq_CheckpointID_update,
        field_of ''log_filter'' (\<lambda>_ x. if x = JNull then Ok None else obind (dec_LogFilter x) (\<lambda>f. Ok (Some f))) rq_LogFilter rq_LogFilter_update]"

definition dec_Request :: "json \<Rightarrow> StreamRequest outcome" where
  "dec_Request v = dec_object ''daemon.Request'' Request_fields v zero_Request"

section \<open>Responses\<close>

text \<open>\<open>stamp\<close> renders a time in the form of RFC 3339.\<close>

definition enc_SnapshotInfo :: "(int \<Rightarrow> string) \<Rightarrow> SnapshotInfo \<Rightarrow> json" where
  "enc_SnapshotInfo stamp s =
     JObj [(''checkpoint_id'', JStr (si_CheckpointID s)), (''timestamp'', JStr (stamp (si_Timestamp s))), (''trigger'', JStr (si_Trigger s))]"

fun enc_value :: "gval \<Rightarrow> json" where
  "enc_value (GJson v) = marshal v"
| "enc_value (GIPv6 c) = enc_gval (GIPv6Ptr (Some c))"
| "enc_value (GInterface i) = enc_Interface i"
| "enc_value (GInterfaceMap m) = enc_map enc_Interface m"
| "enc_value (GRoute r) = enc_Route r"
| "enc_value (GRoutePtr r) = enc_Route r"
| "enc_value (GRouteMap m) = enc_map enc_Route m"
| "enc_value (GRouteSlice rs) = enc_slice enc_Route rs"
| "enc_value v = enc_gval v"

fun enc_data :: "(int \<Rightarrow> string) \<Rightarrow> rdata \<Rightarrow> json" where
  "enc_data stamp DNone = JNull"
| "enc_data stamp (DValue g) = enc_value g"
| "enc_data stamp (DConfig c) = (case c of None \<Rightarrow> JNull | Some cfg \<Rightarrow> enc_config cfg)"
| "enc_data stamp (DAll m) = JObj (sort_key fst (map (\<lambda>(k, d). (k, enc_data stamp d)) m))"
| "enc_data stamp (DText s) = JStr s"
| "enc_data stamp (DNames ns) = JArr (map JStr ns)"
| "enc_data stamp (DSnapshots ss) = (if ss = [] then JNull else JArr (map (enc_SnapshotInfo stamp) ss))"
| "enc_data stamp (DInfo status plugins pending) =
     (case status of
        JObj fs \<Rightarrow> marshal (JObj (fs @ [(''plugins'', JObj plugins), (''pending'', JBool pending)]))
      | _ \<Rightarrow> JNull)"

definition enc_Response :: "(int \<Rightarrow> string) \<Rightarrow> Response \<Rightarrow> json" where
  "enc_Response stamp r =
     JObj ((if rsp_Data r = DNone then [] else [(''data'', enc_data stamp (rsp_Data r))]) @
           opt_str ''message'' (rsp_Message r) @ opt_str ''error'' (rsp_Error r) @ [(''success'', JBool (rsp_Success r))])"

definition Response_fields :: "CliResponse handler list" where
  "Response_fields =
       [field_of ''data'' (\<lambda>_ x. Ok (if x = JNull then None else Some x)) rs_Data rs_Data_update,
        str_field ''message'' rs_Message rs_Message_update, str_field ''error'' rs_Error rs_Error_update,
        bool_field ''success'' rs_Success rs_Success_update]"

definition dec_Response :: "json \<Rightarrow> CliResponse outcome" where
  "dec_Response v = dec_object ''daemon.Response'' Response_fields v \<lparr>rs_Data = None, rs_Message = '''', rs_Error = '''', rs_Success = False\<rparr>"

text \<open>The response as the client sees it.\<close>

definition seen_response :: "(int \<Rightarrow> string) \<Rightarrow> Response \<Rightarrow> CliResponse" where
  "seen_response stamp r =
     \<lparr>rs_Data = (if enc_data stamp (rsp_Data r) = JNull then None else Some (enc_data stamp (rsp_Data r))),
      rs_Message = rsp_Message r, rs_Error = rsp_Error r, rs_Success = rsp_Success r\<rparr>"

end
