(* ===== verification/Connection.thy ===== *)
theory Connection
  imports Protocol Logger_Facts
begin

text \<open>
  The connection layer of the daemon (\<open>src/daemon/server.go\<close>): the listener, the reading of one request from a connection and the answer to it, the log stream that keeps its
  connection open, and the client of the log stream (\<open>src/client/client.go\<close>). \<open>text_of\<close> and \<open>parse\<close> write and read the text of a JSON value; what a connection answers is
  an operation on a state of any type.
\<close>

section \<open>The listener\<close>

record 'w ListenHost =
  lh_Remove :: "string \<Rightarrow> 'w \<Rightarrow> 'w"
  lh_Listen :: "string \<Rightarrow> 'w act"
  lh_Chmod :: "string \<Rightarrow> 'w act"
  lh_CloseListener :: "'w \<Rightarrow> 'w"

text \<open>The handlers of the new server are the cases of \<open>handleRequest\<close>; \<open>dir\<close> and \<open>files\<close> are the configuration directory it finds.\<close>

definition new_server :: "string \<Rightarrow> config_dir \<Rightarrow> Server" where
  "new_server dir files =
     \<lparr>sv_state = NewState, sv_registry = NewPluginRegistry, sv_services = NewServiceRegistry, sv_dir = dir, sv_files = files, sv_trace = []\<rparr>"

definition NewServer :: "'w ListenHost \<Rightarrow> string \<Rightarrow> string \<Rightarrow> config_dir \<Rightarrow> 'w \<Rightarrow> 'w \<times> (string + Server)" where
  "NewServer h custom dir files w =
     (let path = GetSocketPath custom in
      case lh_Listen h path (lh_Remove h path w) of
        (w1, Some e) \<Rightarrow> (w1, Inl (''failed to create socket: '' @ e))
      | (w1, None) \<Rightarrow>
          (case lh_Chmod h path w1 of
             (w2, Some e) \<Rightarrow> (w2, Inl (''failed to set socket permissions: '' @ e))
           | (w2, None) \<Rightarrow> (w2, Inr (new_server dir files))))"

text \<open>\<open>CloseAll\<close> closes every plugin; an error of a plugin is logged. Closing the channel \<open>done\<close> a second time panics.\<close>

definition CloseAll :: "Server \<Rightarrow> Server" where
  "CloseAll sv = sv\<lparr>sv_trace := sv_trace sv @ map (\<lambda>(ns, _). PClose ns) (pr_plugins (sv_registry sv))\<rparr>"

definition Stop :: "'w ListenHost \<Rightarrow> string \<Rightarrow> bool \<Rightarrow> Server \<times> 'w \<Rightarrow> (Server \<times> 'w) outcome" where
  "Stop h custom stopped s =
     (case s of (sv, w) \<Rightarrow>
        if stopped then Panic else Ok (CloseAll sv, lh_Remove h (GetSocketPath custom) (lh_CloseListener h w)))"

section \<open>One connection\<close>

record 'c Conn =
  cx_ReadBytes :: "'c \<Rightarrow> 'c \<times> (string + string)"
  cx_Write :: "string \<Rightarrow> 'c act"
  cx_Close :: "'c \<Rightarrow> 'c"

text \<open>Marshalling has no error for the values of a response; an error of the write is logged.\<close>

definition sendResponse :: "(json \<Rightarrow> string) \<Rightarrow> (int \<Rightarrow> string) \<Rightarrow> 'c Conn \<Rightarrow> Response \<Rightarrow> 'c \<Rightarrow> 'c" where
  "sendResponse text_of stamp conn resp c = fst (cx_Write conn (text_of (enc_Response stamp resp) @ [CHR 0x0A]) c)"

text \<open>
  How the handling of a connection ends: answered and closed, as a log stream with its filter, with a handler that panics, or not at all. \<open>handle\<close> is \<open>handleRequest\<close>
  with its environment, and \<open>parse\<close> reads the text of a JSON value.
\<close>

datatype ('d, 'c) served = Closed 'd 'c | Stream LogFilter 'd 'c | Crash | Stuck

definition parse_request :: "(string \<Rightarrow> string + json) \<Rightarrow> string \<Rightarrow> StreamRequest outcome" where
  "parse_request parse data = (case parse data of Inl e \<Rightarrow> Err e | Inr v \<Rightarrow> dec_Request v)"

definition handleConnection ::
  "(string \<Rightarrow> string + json) \<Rightarrow> (json \<Rightarrow> string) \<Rightarrow> (int \<Rightarrow> string) \<Rightarrow> 'c Conn \<Rightarrow> (Request \<Rightarrow> 'd \<Rightarrow> ('d \<times> Response outcome) option) \<Rightarrow>
   'd \<Rightarrow> 'c \<Rightarrow> ('d, 'c) served" where
  "handleConnection parse text_of stamp conn handle d c =
     (case cx_ReadBytes conn c of
        (c1, Inl _) \<Rightarrow> Closed d (cx_Close conn c1)
      | (c1, Inr data) \<Rightarrow>
          (case parse_request parse data of
             Panic \<Rightarrow> Crash
           | Err e \<Rightarrow> Closed d (cx_Close conn (sendResponse text_of stamp conn (fail (''invalid request: '' @ e)) c1))
           | Ok req \<Rightarrow>
               if rq_Command req = ''logs-subscribe'' then
                 Stream (case rq_LogFilter req of None \<Rightarrow> \<lparr>lf_Level = '''', lf_Component = '''', lf_Tail = 0\<rparr> | Some f \<Rightarrow> f) d c1
               else
                 (case handle (plain_request req) d of
                    None \<Rightarrow> Stuck
                  | Some (d', Ok resp) \<Rightarrow> Closed d' (cx_Close conn (sendResponse text_of stamp conn resp c1))
                  | Some (d', Err e) \<Rightarrow> Closed d' (cx_Close conn (sendResponse text_of stamp conn (fail e) c1))
                  | Some (d', Panic) \<Rightarrow> Crash)))"

section \<open>Log streams\<close>

definition NewSocketLogSubscriber :: "LogFilter \<Rightarrow> SocketLogSubscriber" where
  "NewSocketLogSubscriber flt = \<lparr>ss_filter = Some flt, ss_closed = False\<rparr>"

text \<open>
  A plugin becomes a subscriber when the logger has an emitter; subscribers are told apart by a number. A log stream subscribes, receives the entries that are emitted until its
  client disconnects (its own two messages included), then ends its subscription and closes.
\<close>

definition registerPluginLogSubscriber :: "nat \<Rightarrow> nat Emitter option \<Rightarrow> nat Emitter option" where
  "registerPluginLogSubscriber sub emitter = map_option (Subscribe sub) emitter"

definition handleLogsSubscribe ::
  "(json \<Rightarrow> string) \<Rightarrow> 'c Conn \<Rightarrow> nat \<Rightarrow> LogFilter \<Rightarrow> Entry list \<Rightarrow> nat Emitter option \<Rightarrow> 'c \<Rightarrow> nat Emitter option \<times> SocketLogSubscriber \<times> 'c" where
  "handleLogsSubscribe text_of conn sub flt es emitter c =
     (let subscriber = NewSocketLogSubscriber flt in
      case emitter of
        None \<Rightarrow> (None, subscriber, c)
      | Some em \<Rightarrow>
          (case stream_entries text_of (cx_Write conn) es (subscriber, c) of
             (s, c') \<Rightarrow> (Some (Unsubscribe sub (Subscribe sub em)), socket_Close s, c')))"

section \<open>The client of a log stream\<close>

text \<open>The loop over the lines of the stream; it ends with the first error of the connection or of the callback.\<close>

partial_function (option) stream_loop :: "'w Dialer \<Rightarrow> (string \<Rightarrow> 'w act) \<Rightarrow> 'w \<Rightarrow> ('w \<times> string) option" where
  "stream_loop d callback w =
     (case di_ReadBytes d w of
        (w1, Inl e) \<Rightarrow> Some (w1, e)
      | (w1, Inr logData) \<Rightarrow>
          (case callback logData w1 of
             (w2, Some e) \<Rightarrow> Some (w2, e)
           | (w2, None) \<Rightarrow> stream_loop d callback w2))"

definition logs_request :: "LogFilter \<Rightarrow> StreamRequest" where
  "logs_request flt = with_filter (Some flt) (request ''logs-subscribe'')"

definition StreamLogs ::
  "'w Dialer \<Rightarrow> (json \<Rightarrow> string) \<Rightarrow> string \<Rightarrow> LogFilter \<Rightarrow> (string \<Rightarrow> 'w act) \<Rightarrow> 'w \<Rightarrow> ('w \<times> string) option" where
  "StreamLogs d text_of custom flt callback w =
     (case di_Dial d (GetSocketPath custom) w of
        (w1, Some e) \<Rightarrow> Some (w1, ''failed to connect to daemon (is it running?): '' @ e)
      | (w1, None) \<Rightarrow>
          (case di_Write d (text_of (enc_Request (logs_request flt)) @ [CHR 0x0A]) w1 of
             (w2, Some e) \<Rightarrow> Some (di_Close d w2, ''failed to send request: '' @ e)
           | (w2, None) \<Rightarrow>
               (case stream_loop d callback w2 of
                  None \<Rightarrow> None
                | Some (w3, e) \<Rightarrow> Some (di_Close d w3, e))))"

text \<open>\<open>jack logs watch\<close>: the filter of the arguments, and the callback that prints an entry.\<close>

definition logs_watch_filter :: "string \<Rightarrow> string list \<Rightarrow> LogFilter" where
  "logs_watch_filter component args = \<lparr>lf_Level = (case args of [] \<Rightarrow> '''' | a # _ \<Rightarrow> a), lf_Component = component, lf_Tail = 0\<rparr>"

definition zero_Entry :: Entry where
  "zero_Entry = \<lparr>en_Timestamp = '''', en_Level = '''', en_Component = '''', en_Message = '''', en_Fields = []\<rparr>"

definition Entry_fields :: "Entry handler list" where
  "Entry_fields =
       [str_field ''timestamp'' en_Timestamp en_Timestamp_update, str_field ''level'' en_Level en_Level_update,
        str_field ''component'' en_Component en_Component_update, str_field ''message'' en_Message en_Message_update,
        map_field ''fields'' Ok en_Fields en_Fields_update]"

definition dec_Entry :: "json \<Rightarrow> Entry outcome" where
  "dec_Entry v = dec_object ''logger.Entry'' Entry_fields v zero_Entry"

definition watch_text :: "Entry \<Rightarrow> string" where
  "watch_text e = text_line (''['' @ en_Timestamp e @ ''] ['' @ en_Level e @ ''] '' @ en_Component e @ '': '' @ en_Message e)"

definition watch_callback :: "(string \<Rightarrow> string + json) \<Rightarrow> (string \<Rightarrow> 'w \<Rightarrow> 'w) \<Rightarrow> string \<Rightarrow> 'w act" where
  "watch_callback parse print logData w =
     (case (case parse logData of Inl e \<Rightarrow> Err e | Inr v \<Rightarrow> dec_Entry v) of
        Ok entry \<Rightarrow> (print (watch_text entry) w, None)
      | Err e \<Rightarrow> (w, Some (''failed to parse log entry: '' @ e))
      | Panic \<Rightarrow> (w, Some ''failed to parse log entry: ''))"

end
