(* ===== verification/Connection_Facts.thy ===== *)
theory Connection_Facts
  imports Connection
begin

text \<open>
  The socket between the command line and the daemon: requests and responses survive their encoding, asking over the socket is calling the handler, and what \<open>jack logs watch\<close>
  prints is what the daemon logs.
\<close>

section \<open>Encoding of requests and responses\<close>

lemma dec_pairs_append: "dec_pairs hs (xs @ ys) s = obind (dec_pairs hs xs s) (dec_pairs hs ys)"
  by (simp add: dec_pairs_def ofold_append)

lemma dec_pairs_Cons: "dec_pairs hs ((k, v) # ps) s = obind (case find_handler hs k of None \<Rightarrow> Ok s | Some h \<Rightarrow> h v s) (dec_pairs hs ps)"
  by (simp add: dec_pairs_def)

lemma dec_pairs_Nil: "dec_pairs hs [] s = Ok s"
  by (simp add: dec_pairs_def)

lemma dec_opt_str:
  assumes "find_handler hs tag = Some (snd (str_field tag get upd))" "upd (\<lambda>_. '''') s = s"
  shows "dec_pairs hs (opt_str tag x) s = Ok (upd (\<lambda>_. x) s)"
  using assms by (auto simp: opt_str_def dec_pairs_Cons dec_pairs_Nil field_of_def dec_string_def)

lemma dec_strs: "dec_slice t (dec_string '''') (JArr (map JStr xs)) = Ok (Some xs)"
proof -
  have "ofold (\<lambda>v acc. obind (dec_string '''' v) (\<lambda>x. Ok (acc @ [x]))) (map JStr xs) acc = Ok (acc @ xs)" for acc
    by (induction xs arbitrary: acc) (simp_all add: dec_string_def)
  from this[of "[]"] show ?thesis by (simp add: dec_slice_def)
qed

lemma LogFilter_handlers:
  "find_handler LogFilter_fields ''level'' = Some (snd (str_field ''level'' lf_Level lf_Level_update))"
  "find_handler LogFilter_fields ''component'' = Some (snd (str_field ''component'' lf_Component lf_Component_update))"
  "find_handler LogFilter_fields ''tail'' = Some (snd (int_field ''tail'' lf_Tail lf_Tail_update))"
  by (simp_all add: find_handler_def LogFilter_fields_def field_of_def)

lemma dec_enc_LogFilter: "in_int64 (lf_Tail f) \<Longrightarrow> dec_LogFilter (enc_LogFilter f) = Ok f"
  by (simp add: dec_LogFilter_def enc_LogFilter_def dec_object_def dec_pairs_append dec_opt_str [OF LogFilter_handlers(1)]
      dec_opt_str [OF LogFilter_handlers(2)] dec_pairs_Cons dec_pairs_Nil LogFilter_handlers(3))
     (simp add: field_of_def dec_int_def)

lemma Request_handlers:
  "find_handler Request_fields ''value'' = Some (snd (field_of ''value'' (\<lambda>_ x. Ok x) rq_Value rq_Value_update))"
  "find_handler Request_fields ''command'' = Some (snd (str_field ''command'' rq_Command rq_Command_update))"
  "find_handler Request_fields ''path'' = Some (snd (str_field ''path'' rq_Path rq_Path_update))"
  "find_handler Request_fields ''plugin'' = Some (snd (str_field ''plugin'' rq_Plugin rq_Plugin_update))"
  "find_handler Request_fields ''cli_command'' = Some (snd (str_field ''cli_command'' rq_CLICommand rq_CLICommand_update))"
  "find_handler Request_fields ''checkpoint_id'' = Some (snd (str_field ''checkpoint_id'' rq_CheckpointID rq_CheckpointID_update))"
  by (simp_all add: find_handler_def Request_fields_def field_of_def)

lemma Request_args:
  "dec_pairs Request_fields [(''cli_args'', JArr (map JStr xs))] s = Ok (rq_CLIArgs_update (\<lambda>_. xs) s)"
  by (simp add: dec_pairs_Cons dec_pairs_Nil) (simp add: find_handler_def Request_fields_def field_of_def dec_strs elems_def)

lemma Request_filter:
  "in_int64 (lf_Tail f) \<Longrightarrow> dec_pairs Request_fields [(''log_filter'', enc_LogFilter f)] s = Ok (rq_LogFilter_update (\<lambda>_. Some f) s)"
  by (simp add: dec_pairs_Cons dec_pairs_Nil)
     (simp add: find_handler_def Request_fields_def field_of_def dec_enc_LogFilter, simp add: enc_LogFilter_def)

text \<open>A request is read back as it was sent, its value in the order of the encoder; a response as its client sees it.\<close>

lemma dec_enc_Request:
  assumes "\<forall>f. rq_LogFilter r = Some f \<longrightarrow> in_int64 (lf_Tail f)"
  shows "dec_Request (enc_Request r) = Ok (r\<lparr>rq_Value := marshal (rq_Value r)\<rparr>)"
proof -
  have val: "dec_pairs Request_fields (if rq_Value r = JNull then [] else [(''value'', marshal (rq_Value r))]) zero_Request
    = Ok (zero_Request\<lparr>rq_Value := marshal (rq_Value r)\<rparr>)"
    by (auto simp: dec_pairs_Cons dec_pairs_Nil Request_handlers(1)) (simp_all add: field_of_def zero_Request_def with_filter_def request_def)
  have command: "dec_pairs Request_fields [(''command'', JStr c)] s = Ok (rq_Command_update (\<lambda>_. c) s)" for c s
    by (simp add: dec_pairs_Cons dec_pairs_Nil Request_handlers(2)) (simp add: field_of_def dec_string_def)
  have args: "dec_pairs Request_fields (if xs = [] then [] else [(''cli_args'', JArr (map JStr xs))]) s = Ok (rq_CLIArgs_update (\<lambda>_. xs) s)"
    if "rq_CLIArgs_update (\<lambda>_. []) s = s" for xs s
    using that by (auto simp: Request_args dec_pairs_Nil)
  have filt: "dec_pairs Request_fields (case rq_LogFilter r of None \<Rightarrow> [] | Some f \<Rightarrow> [(''log_filter'', enc_LogFilter f)]) s
    = Ok (rq_LogFilter_update (\<lambda>_. rq_LogFilter r) s)" if "rq_LogFilter_update (\<lambda>_. None) s = s" for s
    using that assms by (auto simp: Request_filter dec_pairs_Nil split: option.splits)
  show ?thesis
    unfolding dec_Request_def enc_Request_def dec_object_def json.case dec_pairs_append val obind.simps command
    by (simp add: dec_opt_str [OF Request_handlers(3)] dec_opt_str [OF Request_handlers(4)] dec_opt_str [OF Request_handlers(5)]
        dec_opt_str [OF Request_handlers(6)] args filt zero_Request_def with_filter_def request_def)
qed

lemma Response_handlers:
  "find_handler Response_fields ''data'' = Some (snd (field_of ''data'' (\<lambda>_ x. Ok (if x = JNull then None else Some x)) rs_Data rs_Data_update))"
  "find_handler Response_fields ''message'' = Some (snd (str_field ''message'' rs_Message rs_Message_update))"
  "find_handler Response_fields ''error'' = Some (snd (str_field ''error'' rs_Error rs_Error_update))"
  "find_handler Response_fields ''success'' = Some (snd (bool_field ''success'' rs_Success rs_Success_update))"
  by (simp_all add: find_handler_def Response_fields_def field_of_def)

lemma dec_enc_Response: "dec_Response (enc_Response stamp r) = Ok (seen_response stamp r)"
proof -
  have dat: "dec_pairs Response_fields (if rsp_Data r = DNone then [] else [(''data'', enc_data stamp (rsp_Data r))]) s
    = Ok (rs_Data_update (\<lambda>_. rs_Data (seen_response stamp r)) s)" if "rs_Data_update (\<lambda>_. None) s = s" for s
    using that by (auto simp: dec_pairs_Cons dec_pairs_Nil Response_handlers(1) seen_response_def) (simp_all add: field_of_def)
  show ?thesis
    unfolding dec_Response_def enc_Response_def dec_object_def json.case dec_pairs_append
    by (simp add: dat dec_opt_str [OF Response_handlers(2)] dec_opt_str [OF Response_handlers(3)] dec_pairs_Cons dec_pairs_Nil Response_handlers(4))
       (simp add: field_of_def dec_bool_def seen_response_def)
qed

section \<open>Asking over the socket\<close>

text \<open>The text of a value is a line of its own, and reading the line gives the value back: what \<open>encoding/json\<close> documents for the values it decodes.\<close>

definition json_line :: "(json \<Rightarrow> string) \<Rightarrow> (string \<Rightarrow> string + json) \<Rightarrow> json \<Rightarrow> bool" where
  "json_line text_of parse v \<longleftrightarrow> CHR 0x0A \<notin> set (text_of v) \<and> parse (text_of v @ [CHR 0x0A]) = Inr v"

text \<open>\<open>ReadBytes\<close> on the bytes of a stream: the first line with its newline, and the rest.\<close>

definition read_line :: "string \<Rightarrow> (string \<times> string) option" where
  "read_line s =
     (case dropWhile (\<lambda>c. c \<noteq> CHR 0x0A) s of
        [] \<Rightarrow> None
      | c # r \<Rightarrow> Some (takeWhile (\<lambda>c. c \<noteq> CHR 0x0A) s @ [c], r))"

lemma read_line_append: "CHR 0x0A \<notin> set t \<Longrightarrow> read_line (t @ CHR 0x0A # r) = Some (t @ [CHR 0x0A], r)"
proof -
  assume t: "CHR 0x0A \<notin> set t"
  then have "dropWhile (\<lambda>c. c \<noteq> CHR 0x0A) (t @ CHR 0x0A # r) = CHR 0x0A # r" "takeWhile (\<lambda>c. c \<noteq> CHR 0x0A) (t @ CHR 0x0A # r) = t"
    by (induction t) auto
  then show ?thesis by (simp add: read_line_def)
qed

text \<open>
  A connected pair of sockets, each with the bytes that are on their way to it, and the daemon behind one of them. Its goroutine reads what the client has written when the client
  waits for the answer; a stream socket delivers bytes in order.
\<close>

record 'd wire =
  wi_daemon :: 'd
  wi_in :: string
  wi_out :: string

definition wire_conn :: "(string \<times> string) Conn" where
  "wire_conn =
     \<lparr>cx_ReadBytes = (\<lambda>(i, out). case read_line i of None \<Rightarrow> (('''', out), Inl ''EOF'') | Some (l, r) \<Rightarrow> ((r, out), Inr l)),
      cx_Write = (\<lambda>s (i, out). ((i, out @ s), None)), cx_Close = (\<lambda>c. c)\<rparr>"

definition wire_read :: "('d \<Rightarrow> string \<times> string \<Rightarrow> ('d, string \<times> string) served) \<Rightarrow> 'd wire \<Rightarrow> 'd wire \<times> (string + string)" where
  "wire_read serve w =
     (case serve (wi_daemon w) (wi_in w, wi_out w) of
        Closed d (i, out) \<Rightarrow>
          (case read_line out of
             None \<Rightarrow> (w\<lparr>wi_daemon := d, wi_in := i, wi_out := ''''\<rparr>, Inl ''EOF'')
           | Some (l, r) \<Rightarrow> (w\<lparr>wi_daemon := d, wi_in := i, wi_out := r\<rparr>, Inr l))
      | _ \<Rightarrow> (w, Inl ''EOF''))"

definition wire_dialer :: "('d \<Rightarrow> string \<times> string \<Rightarrow> ('d, string \<times> string) served) \<Rightarrow> 'd wire Dialer" where
  "wire_dialer serve =
     \<lparr>di_Dial = (\<lambda>_ w. (w\<lparr>wi_in := '''', wi_out := ''''\<rparr>, None)), di_Write = (\<lambda>s w. (w\<lparr>wi_in := wi_in w @ s\<rparr>, None)),
      di_ReadBytes = wire_read serve, di_Close = (\<lambda>w. w)\<rparr>"

definition enc_line :: "(json \<Rightarrow> string) \<Rightarrow> Request \<Rightarrow> string + string" where
  "enc_line text_of r = Inr (text_of (enc_Request (with_filter None r)))"

definition dec_line :: "(string \<Rightarrow> string + json) \<Rightarrow> string \<Rightarrow> string + CliResponse" where
  "dec_line parse l =
     (case parse l of
        Inl e \<Rightarrow> Inl e
      | Inr v \<Rightarrow> (case dec_Response v of Ok r \<Rightarrow> Inr r | Err e \<Rightarrow> Inl e | Panic \<Rightarrow> Inl ''''))"

text \<open>
  C31 (socket_transparent): a request the client sends over the socket reaches the handler as it was sent, the daemon ends in the state the handler leaves, and the client gets
  the response of the handler with its data as JSON. The hypotheses on the text of JSON are those of the two lines that travel; a value is one the encoder leaves in order, such as
  every scalar.
\<close>

theorem socket_transparent:
  assumes "rq_Command req \<noteq> ''logs-subscribe''" and "marshal (rq_Value req) = rq_Value req"
    and "handle req (wi_daemon w) = Some (d', Ok resp)"
    and "json_line text_of parse (enc_Request (with_filter None req))" and "json_line text_of parse (enc_Response stamp resp)"
  shows "\<exists>w'. client_Send (wire_dialer (handleConnection parse text_of stamp wire_conn handle)) (enc_line text_of) (dec_line parse) custom req w
      = (w', Inr (seen_response stamp resp)) \<and> wi_daemon w' = d'"
proof -
  let ?in = "text_of (enc_Request (with_filter None req))" and ?out = "text_of (enc_Response stamp resp)"
  have "dec_Request (enc_Request (with_filter None req)) = Ok (with_filter None req)"
    using dec_enc_Request [of "with_filter None req"] assms(2) by (simp add: with_filter_def)
  then have parsed: "parse_request parse (?in @ [CHR 0x0A]) = Ok (with_filter None req)"
    using assms(4) by (simp add: parse_request_def json_line_def)
  have plain: "plain_request (with_filter None req) = req" "rq_Command (with_filter None req) = rq_Command req"
    by (simp_all add: plain_request_def with_filter_def)
  have "handleConnection parse text_of stamp wire_conn handle (wi_daemon w) (?in @ [CHR 0x0A], '''') = Closed d' ('''', ?out @ [CHR 0x0A])"
    using read_line_append [of ?in "[]"] assms(1,3,4) parsed plain
    by (simp add: handleConnection_def wire_conn_def sendResponse_def json_line_def)
  moreover have "read_line (?out @ [CHR 0x0A]) = Some (?out @ [CHR 0x0A], '''')"
    using read_line_append [of ?out "[]"] assms(5) by (simp add: json_line_def)
  moreover have "dec_line parse (?out @ [CHR 0x0A]) = Inr (seen_response stamp resp)"
    using assms(5) by (simp add: dec_line_def json_line_def dec_enc_Response)
  ultimately show ?thesis
    by (simp add: client_Send_def wire_dialer_def wire_read_def enc_line_def)
qed

text \<open>A line that is no request is refused without reaching a handler; a handler that panics leaves the client without an answer.\<close>

lemma bad_line_refused:
  assumes "read_line i = Some (l, r)" "parse_request parse l = Err e"
  shows "handleConnection parse text_of stamp wire_conn handle d (i, out) =
    Closed d (r, out @ text_of (enc_Response stamp (fail (''invalid request: '' @ e))) @ [CHR 0x0A])"
  using assms by (simp add: handleConnection_def wire_conn_def sendResponse_def)

theorem socket_transparent_witness:
  "\<exists>text_of parse w'. client_Send (wire_dialer (handleConnection parse text_of (\<lambda>_. '''') wire_conn (\<lambda>_ sv. Some (sv, Ok (handleStatus sv)))))
     (enc_line text_of) (dec_line parse) '''' (request ''status'') \<lparr>wi_daemon = new_server ''/etc/jack'' [], wi_in = '''', wi_out = ''''\<rparr> =
     (w', Inr (seen_response (\<lambda>_. '''') (handleStatus (new_server ''/etc/jack'' []))))"
proof -
  let ?req = "enc_Request (with_filter None (request ''status''))" and ?resp = "enc_Response (\<lambda>_. '''') (handleStatus (new_server ''/etc/jack'' []))"
  let ?text = "\<lambda>v. if v = ?req then ''a'' else ''b''" and ?parse = "\<lambda>l. if l = ''a'' @ [CHR 0x0A] then Inr ?req else Inr ?resp"
  have "?resp \<noteq> ?req" by code_simp
  then have "json_line ?text ?parse ?req" "json_line ?text ?parse ?resp" by (simp_all add: json_line_def)
  with socket_transparent [of "request ''status''" "\<lambda>_ sv. Some (sv, Ok (handleStatus sv))" "\<lparr>wi_daemon = new_server ''/etc/jack'' [], wi_in = '''', wi_out = ''''\<rparr>"
      "new_server ''/etc/jack'' []" "handleStatus (new_server ''/etc/jack'' [])" ?text ?parse "\<lambda>_. ''''" "''''"]
  show ?thesis by (auto simp: request_def)
qed

section \<open>jack logs watch\<close>

lemma Entry_handlers:
  "find_handler Entry_fields ''timestamp'' = Some (snd (str_field ''timestamp'' en_Timestamp en_Timestamp_update))"
  "find_handler Entry_fields ''level'' = Some (snd (str_field ''level'' en_Level en_Level_update))"
  "find_handler Entry_fields ''component'' = Some (snd (str_field ''component'' en_Component en_Component_update))"
  "find_handler Entry_fields ''message'' = Some (snd (str_field ''message'' en_Message en_Message_update))"
  "find_handler Entry_fields ''fields'' = Some (snd (map_field ''fields'' Ok en_Fields en_Fields_update))"
  by (simp_all add: find_handler_def Entry_fields_def field_of_def map_field_def)

lemma ofold_ok: "(\<And>x s. \<exists>s'. f x s = Ok s') \<Longrightarrow> \<exists>s'. ofold f xs s = Ok s'"
proof (induction xs arbitrary: s)
  case (Cons x xs)
  then obtain s1 where "f x s = Ok s1" by blast
  then show ?case using Cons by simp
qed simp

text \<open>The texts of an entry survive the stream; its fields are not printed.\<close>

lemma dec_ToJSON: "\<exists>m. dec_Entry (ToJSON e) = Ok (e\<lparr>en_Fields := m\<rparr>)"
proof -
  obtain ps where ps: "marshal (JObj (en_Fields e)) = JObj ps" by simp
  have "\<exists>m. ofold (\<lambda>(k, v) m. obind (Ok v) (\<lambda>x. Ok (mput k x m))) ps [] = Ok m" by (rule ofold_ok) auto
  then obtain m where m: "dec_map ''map'' Ok (JObj ps) = Ok (Some m)" by (auto simp: dec_map_def)
  have flds: "dec_pairs Entry_fields [(''fields'', JObj ps)] s = Ok (en_Fields_update (\<lambda>_. m) s)" for s
    by (simp add: dec_pairs_Cons dec_pairs_Nil Entry_handlers(5)) (simp add: map_field_def field_of_def m)
  have "dec_Entry (ToJSON e) = Ok (e\<lparr>en_Fields := m\<rparr>)"
    unfolding dec_Entry_def ToJSON_def dec_object_def json.case dec_pairs_Cons Entry_handlers ps
    by (simp add: dec_pairs_Nil) (simp add: field_of_def map_field_def dec_string_def m zero_Entry_def)
  then show ?thesis ..
qed

lemma watch_line:
  assumes "json_line text_of parse (ToJSON e)"
  shows "watch_callback parse print (stream_line text_of e) w = (print (watch_text e) w, None)"
proof -
  obtain m where "dec_Entry (ToJSON e) = Ok (e\<lparr>en_Fields := m\<rparr>)" using dec_ToJSON by blast
  then show ?thesis using assms by (simp add: watch_callback_def stream_line_def json_line_def watch_text_def)
qed

text \<open>The client's side of the stream: the bytes it has not read yet and the texts it has printed.\<close>

definition watch_dialer :: "(string \<times> string list) Dialer" where
  "watch_dialer =
     \<lparr>di_Dial = (\<lambda>_ w. (w, None)), di_Write = (\<lambda>_ w. (w, None)),
      di_ReadBytes = (\<lambda>(i, p). case read_line i of None \<Rightarrow> (('''', p), Inl ''EOF'') | Some (l, r) \<Rightarrow> ((r, p), Inr l)),
      di_Close = (\<lambda>w. w)\<rparr>"

definition print_text :: "string \<Rightarrow> string \<times> string list \<Rightarrow> string \<times> string list" where
  "print_text t w = (fst w, snd w @ [t])"

lemma write_lines_wire: "write_lines (cx_Write wire_conn) ls (i, out) = (i, out @ concat ls)"
  by (induction ls arbitrary: out) (simp_all add: wire_conn_def)

lemma stream_loop_prints:
  assumes "\<forall>e \<in> set es. json_line text_of parse (ToJSON e)"
  shows "stream_loop watch_dialer (watch_callback parse print_text) (concat (map (stream_line text_of) es), p) =
    Some (('''', p @ map watch_text es), ''EOF'')"
  using assms
proof (induction es arbitrary: p)
  case Nil
  show ?case by (subst stream_loop.simps) (simp add: watch_dialer_def read_line_def)
next
  case (Cons e es)
  let ?rest = "concat (map (stream_line text_of) es)"
  have "read_line (stream_line text_of e @ ?rest) = Some (stream_line text_of e, ?rest)"
    using read_line_append [of "text_of (ToJSON e)" ?rest] Cons.prems by (simp add: stream_line_def json_line_def)
  then have read: "di_ReadBytes watch_dialer (stream_line text_of e @ ?rest, p) = ((?rest, p), Inr (stream_line text_of e))"
    by (simp add: watch_dialer_def)
  have "watch_callback parse print_text (stream_line text_of e) (?rest, p) = ((?rest, p @ [watch_text e]), None)"
    using Cons.prems by (subst watch_line) (simp_all add: print_text_def)
  then show ?case using Cons.IH [of "p @ [watch_text e]"] Cons.prems read by (subst stream_loop.simps) simp
qed



end
