(* ===== verification/Command_Line_Facts.thy ===== *)
theory Command_Line_Facts
  imports Command_Line Text_Facts "HOL-Library.Multiset"
begin

text \<open>
  The command line: sizes never leave the table of units, a value that is read back is the one that was set, the exchange sort of plugin commands sorts, and after it no command of
  a plugin hides another one behind a second node of the same name.
\<close>

section \<open>Sizes\<close>

lemma size_unit_bound:
  assumes "0 \<le> n" "n < 1024 ^ (k + 1)" "d = 1024 ^ (e + 1)" "e + k \<le> 5"
  shows "\<exists>j \<le> k. size_unit n d e = (1024 ^ (e + j + 1), e + j)"
  using assms
proof (induction k arbitrary: n d e)
  case 0
  then show ?case by (simp add: size_unit.simps)
next
  case (Suc k)
  show ?case
  proof (cases "n \<ge> 1024")
    case True
    have "(1024 :: int) ^ (e + 2) \<le> 1024 ^ 6"
      using Suc.prems(4) by (intro power_increasing) auto
    moreover have "(0 :: int) \<le> 1024 ^ (e + 2)" by simp
    moreover have "(1024 :: int) ^ 6 < 2 ^ 63" "- (2 ^ 63) \<le> (0 :: int)" by simp_all
    ultimately have "in_int64 (1024 ^ (e + 2))" unfolding in_int64_def by (meson le_less_trans order_trans)
    then have step: "size_unit n d e = size_unit (n div 1024) (1024 ^ (e + 2)) (e + 1)"
      using True Suc.prems(3) by (subst size_unit.simps) (simp add: mult.commute)
    have "n div 1024 < 1024 ^ (k + 1)" using Suc.prems(2) by (simp add: div_less_iff_less_mult mult.commute)
    then obtain j where "j \<le> k" "size_unit (n div 1024) (1024 ^ (e + 2)) (e + 1) = (1024 ^ (e + 1 + j + 1), e + 1 + j)"
      using Suc.IH[of "n div 1024" "1024 ^ (e + 2)" "e + 1"] Suc.prems(4) True pos_imp_zdiv_nonneg_iff[of 1024 n] by auto
    then show ?thesis using step by (intro exI[of _ "Suc j"]) auto
  qed (use Suc.prems in \<open>auto simp: size_unit.simps intro!: exI[of _ 0]\<close>)
qed

text \<open>For every size an \<open>int64\<close> can hold, the divisor is a power of 1024 that did not overflow and the unit is one of the six.\<close>

lemma status_formatBytes_total:
  assumes "in_int64 n" "n \<ge> 1024"
  shows "\<exists>e < 6. status_formatBytes ratio n = Ok (ratio n (1024 ^ (e + 1)) @ '' '' @ [''KMGTPE'' ! e] @ ''iB'')"
proof -
  have "n div 1024 < 1024 ^ (5 + 1)" using assms by (simp add: in_int64_def)
  then obtain e where "e \<le> 5" "size_unit (n div 1024) 1024 0 = (1024 ^ (e + 1), e)"
    using size_unit_bound[of "n div 1024" 5 1024 0] assms(2) pos_imp_zdiv_nonneg_iff[of 1024 n] by auto
  then show ?thesis using assms by (intro exI[of _ e]) (auto simp: status_formatBytes_def size_letters_def)
qed

section \<open>Sorting the commands of a plugin\<close>

lemma length_exchange [simp]: "length (exchange i xs j) = length xs"
  by (simp add: exchange_def)

lemma mset_exchange [simp]: "i < length xs \<Longrightarrow> j < length xs \<Longrightarrow> mset (exchange i xs j) = mset xs"
  by (simp add: exchange_def mset_swap)

text \<open>What one pass over the rest of the list leaves: the same commands, the prefix untouched, and at position \<open>i\<close> the least of those it has seen.\<close>

definition passed :: "nat \<Rightarrow> nat \<Rightarrow> CLICommand list \<Rightarrow> CLICommand list \<Rightarrow> bool" where
  "passed i m xs ys \<longleftrightarrow>
     length ys = length xs \<and> mset ys = mset xs \<and> (\<forall>k < i. ys ! k = xs ! k) \<and>
     (\<forall>j. i < j \<and> j < m \<longrightarrow> spaces (ys ! i) \<le> spaces (ys ! j)) \<and>
     (\<forall>k. i \<le> k \<and> k < length xs \<longrightarrow> (\<exists>k'. i \<le> k' \<and> k' < length xs \<and> ys ! k = xs ! k'))"

lemma passed_exchange:
  assumes "passed i m xs ys" "i < m" "m < length xs"
  shows "passed i (Suc m) xs (exchange i ys m)"
proof -
  have len: "length ys = length xs" and pre: "\<And>k. k < i \<Longrightarrow> ys ! k = xs ! k"
    and least: "\<And>j. i < j \<Longrightarrow> j < m \<Longrightarrow> spaces (ys ! i) \<le> spaces (ys ! j)"
    and src: "\<And>k. i \<le> k \<Longrightarrow> k < length xs \<Longrightarrow> \<exists>k'. i \<le> k' \<and> k' < length xs \<and> ys ! k = xs ! k'"
    using assms(1) by (auto simp: passed_def)
  have pos: "exchange i ys m ! k = ys ! k \<or> exchange i ys m ! k = ys ! i \<or> exchange i ys m ! k = ys ! m" if "k < length xs" for k
    using that len assms by (auto simp: exchange_def nth_list_update)
  have "spaces (exchange i ys m ! i) \<le> spaces (exchange i ys m ! j)" if "i < j" "j < Suc m" for j
    using that least[of j] len assms(2,3) by (cases "j = m") (auto simp: exchange_def nth_list_update)
  moreover have "\<exists>k'. i \<le> k' \<and> k' < length xs \<and> exchange i ys m ! k = xs ! k'" if "i \<le> k" "k < length xs" for k
    using pos[OF that(2)] src[OF that] src[of i] src[of m] assms(2,3) by auto
  moreover have "\<forall>k < i. exchange i ys m ! k = xs ! k"
    using pre assms(2) by (auto simp: exchange_def)
  ultimately show ?thesis
    using assms len by (simp add: passed_def)
qed

lemma passed_loop:
  assumes "i < m" "m \<le> length xs"
  shows "passed i m xs (foldl (exchange i) xs [i + 1..<m])"
  using assms
proof (induction m)
  case (Suc m)
  show ?case
  proof (cases "i = m")
    case False
    then have "passed i m xs (foldl (exchange i) xs [i + 1..<m])" using Suc by simp
    then show ?thesis using passed_exchange[of i m xs] Suc.prems False by simp
  qed (auto simp: passed_def)
qed simp

text \<open>The prefix of length \<open>m\<close> is in order and has the least commands.\<close>

definition arranged :: "nat \<Rightarrow> CLICommand list \<Rightarrow> CLICommand list \<Rightarrow> bool" where
  "arranged m cs xs \<longleftrightarrow>
     mset xs = mset cs \<and> (\<forall>i j. i < m \<and> i < j \<and> j < length cs \<longrightarrow> spaces (xs ! i) \<le> spaces (xs ! j))"

lemma arranged_pass:
  assumes "arranged m cs xs" "m < length cs" "passed m (length cs) xs ys"
  shows "arranged (Suc m) cs ys"
proof -
  have len: "length xs = length cs" using assms(1) mset_eq_length unfolding arranged_def by blast
  have "spaces (ys ! i) \<le> spaces (ys ! j)" if ij: "i < Suc m" "i < j" "j < length cs" for i j
  proof (cases "i = m")
    case False
    then have i: "i < m" "ys ! i = xs ! i" using ij assms(3) by (auto simp: passed_def)
    obtain k where "i < k" "k < length cs" "ys ! j = xs ! k"
    proof (cases "j < m")
      case True
      then have "ys ! j = xs ! j" using assms(3) by (simp add: passed_def)
      then show ?thesis using that[of j] ij by simp
    next
      case False
      then obtain k where "m \<le> k" "k < length cs" "ys ! j = xs ! k"
        using assms(3) ij(3) len unfolding passed_def by (metis linorder_not_less)
      then show ?thesis using that[of k] i by simp
    qed
    then show ?thesis using assms(1) i by (simp add: arranged_def)
  qed (use assms(3) ij in \<open>auto simp: passed_def\<close>)
  then show ?thesis using assms by (simp add: arranged_def passed_def)
qed

lemma arranged_loop:
  assumes "m \<le> length cs"
  shows "arranged m cs (foldl (\<lambda>xs i. foldl (exchange i) xs [i + 1..<length xs]) cs [0..<m])"
  using assms
proof (induction m)
  case (Suc m)
  let ?xs = "foldl (\<lambda>xs i. foldl (exchange i) xs [i + 1..<length xs]) cs [0..<m]"
  have ar: "arranged m cs ?xs" using Suc by simp
  then have len: "length ?xs = length cs" unfolding arranged_def using mset_eq_length by blast
  have "passed m (length cs) ?xs (foldl (exchange m) ?xs [m + 1..<length ?xs])"
    using passed_loop[of m "length cs" ?xs] len Suc.prems by simp
  then show ?case using arranged_pass[OF ar] Suc.prems by simp
qed (simp add: arranged_def)

lemma sort_commands_mset [simp]: "mset (sort_commands cs) = mset cs"
  using arranged_loop[of "length cs" cs] by (simp add: sort_commands_def arranged_def)

lemma sort_commands_sorted: "sorted (map spaces (sort_commands cs))"
proof -
  have "length (sort_commands cs) = length cs" by (metis size_mset sort_commands_mset)
  then show ?thesis
    using arranged_loop[of "length cs" cs] by (auto simp: sort_commands_def arranged_def sorted_iff_nth_mono_less)
qed

lemma sort_commands_set [simp]: "set (sort_commands cs) = set cs"
  by (metis set_mset_mset sort_commands_mset)

section \<open>Registering the commands of a plugin\<close>

definition tree_names :: "CommandNode list \<Rightarrow> string list" where
  "tree_names tree = map cn_Name tree"

definition multi_word :: "CLICommand \<Rightarrow> bool" where
  "multi_word c \<longleftrightarrow> length (go_fields (cc_Name c)) > 1"

definition first_word :: "CLICommand \<Rightarrow> string" where
  "first_word c = (if multi_word c then hd (go_fields (cc_Name c)) else node_name (cc_Name c))"

text \<open>What the tree has to run for a command: one entry, or one for each of its subcommands.\<close>

definition reachable_command :: "string \<Rightarrow> CommandNode list \<Rightarrow> CLICommand \<Rightarrow> bool" where
  "reachable_command path tree c \<longleftrightarrow>
     (\<exists>n \<in> set tree. cn_Name n = first_word c \<and>
        (if multi_word c
         then (node_name (join_with '' '' (tl (go_fields (cc_Name c)))), \<lparr>pr_path = path, pr_cmd = c, pr_sub = ''''\<rparr>) \<in> set (cn_subs n)
         else if cc_Subcommands c \<noteq> []
         then (\<forall>s \<in> set (cc_Subcommands c). (node_name s, \<lparr>pr_path = path, pr_cmd = c, pr_sub = s\<rparr>) \<in> set (cn_subs n))
         else cn_run n = Some \<lparr>pr_path = path, pr_cmd = c, pr_sub = ''''\<rparr>))"

lemma update_first_names [simp]:
  "(\<And>n. cn_Name (f n) = cn_Name n) \<Longrightarrow> tree_names (update_first P f t) = tree_names t"
  by (induction t) (auto simp: tree_names_def)

lemma findCommand_None: "findCommand name t = None \<longleftrightarrow> name \<notin> set (tree_names t)"
  by (auto simp: findCommand_def tree_names_def find_None_iff)

lemma create_names:
  "tree_names (createPluginCommand path t c) =
     (if multi_word c \<and> first_word c \<in> set (tree_names t) then tree_names t else tree_names t @ [first_word c])"
  using findCommand_None[of "first_word c" t]
  by (auto simp: createPluginCommand_def add_sub_def multi_word_def first_word_def Let_def split: option.splits)
     (auto simp: tree_names_def)

lemma create_fold_names:
  "set (tree_names (foldl (createPluginCommand path) t cs)) = set (tree_names t) \<union> first_word ` set cs"
  by (induction cs arbitrary: t) (auto simp: create_names)

lemma single_fold_names:
  "\<forall>c \<in> set cs. \<not> multi_word c \<Longrightarrow> tree_names (foldl (createPluginCommand path) t cs) = tree_names t @ map first_word cs"
  by (induction cs arbitrary: t) (auto simp: create_names)

lemma multi_fold_distinct:
  "\<forall>c \<in> set cs. multi_word c \<Longrightarrow> distinct (tree_names t) \<Longrightarrow> distinct (tree_names (foldl (createPluginCommand path) t cs))"
  by (induction cs arbitrary: t) (auto simp: create_names)

text \<open>Creating a command never takes a node or an entry away.\<close>

definition extends_tree :: "CommandNode list \<Rightarrow> CommandNode list \<Rightarrow> bool" where
  "extends_tree t t' \<longleftrightarrow>
     (\<forall>n \<in> set t. \<exists>n' \<in> set t'. cn_Name n' = cn_Name n \<and> cn_run n' = cn_run n \<and> set (cn_subs n) \<subseteq> set (cn_subs n'))"

lemma extends_refl [simp]: "extends_tree t t"
  by (auto simp: extends_tree_def)

lemma extends_trans: "extends_tree t u \<Longrightarrow> extends_tree u v \<Longrightarrow> extends_tree t v"
  unfolding extends_tree_def by (metis subset_trans)

lemma extends_append [simp]: "extends_tree t (t @ u)"
  by (auto simp: extends_tree_def)

lemma extends_update [simp]: "extends_tree t (update_first P (\<lambda>n. n\<lparr>cn_subs := cn_subs n @ [x]\<rparr>) t)"
  by (induction t) (auto simp: extends_tree_def)

lemma create_extends: "extends_tree t (createPluginCommand path t c)"
  by (auto simp: createPluginCommand_def add_sub_def Let_def split: option.splits)

lemma create_fold_extends: "extends_tree t (foldl (createPluginCommand path) t cs)"
  by (induction cs arbitrary: t) (auto intro: extends_trans create_extends)

lemma update_first_subs:
  "name \<in> set (tree_names t) \<Longrightarrow>
   \<exists>n \<in> set (update_first (\<lambda>n. cn_Name n = name) (\<lambda>n. n\<lparr>cn_subs := cn_subs n @ [x]\<rparr>) t). cn_Name n = name \<and> x \<in> set (cn_subs n)"
  by (induction t) (auto simp: tree_names_def)

lemma create_reachable: "reachable_command path (createPluginCommand path t c) c"
proof (cases "multi_word c")
  case True
  then show ?thesis
    using findCommand_None[of "first_word c" t] update_first_subs[of "first_word c" t]
    by (auto simp: reachable_command_def createPluginCommand_def add_sub_def multi_word_def first_word_def Let_def split: option.splits)
qed (auto simp: reachable_command_def createPluginCommand_def multi_word_def first_word_def Let_def)

lemma reachable_extends: "reachable_command path t c \<Longrightarrow> extends_tree t t' \<Longrightarrow> reachable_command path t' c"
  unfolding reachable_command_def extends_tree_def by (smt (verit, best) subsetD)

lemma fold_reachable: "c \<in> set cs \<Longrightarrow> reachable_command path (foldl (createPluginCommand path) t cs) c"
  by (induction cs arbitrary: t) (auto intro: reachable_extends[OF create_reachable create_fold_extends])

lemma sorted_filter_split:
  fixes f :: "'a \<Rightarrow> nat"
  shows "sorted (map f xs) \<Longrightarrow> xs = filter (\<lambda>x. f x = 0) xs @ filter (\<lambda>x. f x \<noteq> 0) xs"
proof (induction xs)
  case (Cons x xs)
  have "filter (\<lambda>x. f x = 0) xs = []" if "f x \<noteq> 0" using that Cons.prems by (force simp: filter_empty_conv)
  then show ?case using Cons by (cases "f x = 0") (auto simp: filter_id_conv)
qed simp

lemma register_all_reachable:
  assumes "distinct (tree_names tree)"
    and "\<forall>c \<in> set cmds. spaces c + 1 = length (go_fields (cc_Name c))"
    and "distinct (map first_word (filter (\<lambda>c. spaces c = 0) cmds))"
    and "\<forall>c \<in> set cmds. spaces c = 0 \<longrightarrow> first_word c \<notin> set (tree_names tree)"
  shows "distinct (tree_names (register_all path cmds tree))
    \<and> set (tree_names (register_all path cmds tree)) = set (tree_names tree) \<union> first_word ` set cmds
    \<and> (\<forall>c \<in> set cmds. reachable_command path (register_all path cmds tree) c)
    \<and> extends_tree tree (register_all path cmds tree)"
proof -
  let ?xs = "sort_commands cmds"
  let ?one = "filter (\<lambda>c. spaces c = 0) ?xs" and ?more = "filter (\<lambda>c. spaces c \<noteq> 0) ?xs"
  have multi: "multi_word c \<longleftrightarrow> spaces c \<noteq> 0" if "c \<in> set cmds" for c
    using that assms(2) by (auto simp: multi_word_def)
  have "mset (map first_word ?one) = mset (map first_word (filter (\<lambda>c. spaces c = 0) cmds))" by simp
  then have "distinct (map first_word ?one)" using assms(3) by (metis mset_eq_imp_distinct_iff)
  then have "distinct (tree_names (foldl (createPluginCommand path) tree ?one))"
    using assms(1,4) multi by (subst single_fold_names) auto
  then have "distinct (tree_names (foldl (createPluginCommand path) tree (?one @ ?more)))"
    using multi by (auto intro: multi_fold_distinct)
  then have "distinct (tree_names (register_all path cmds tree))"
    unfolding register_all_def sorted_filter_split[OF sort_commands_sorted[of cmds], symmetric] .
  then show ?thesis
    by (simp add: register_all_def create_fold_names create_fold_extends fold_reachable)
qed

text \<open>C39 (plugin_commands_reachable): the commands of a plugin whose names are words with single spaces between them, and whose single words are new and distinct, all become reachable in the command tree: each has
  its entry in the node of its first word, and no two nodes of the tree have the same name, so the node a command line finds is the one with the entry. This is what the sort by
  number of spaces is for: the node of a single word is there before a command of several words looks for its parent.\<close>

theorem plugin_commands_reachable:
  assumes "distinct (tree_names tree)"
    and "\<forall>c \<in> set cmds. spaces c + 1 = length (go_fields (cc_Name c))"
    and "distinct (map first_word (filter (\<lambda>c. spaces c = 0) cmds))"
    and "\<forall>c \<in> set cmds. spaces c = 0 \<longrightarrow> first_word c \<notin> set (tree_names tree)"
  shows "distinct (tree_names (register_all path cmds tree))
    \<and> set (tree_names (register_all path cmds tree)) = set (tree_names tree) \<union> first_word ` set cmds
    \<and> (\<forall>c \<in> set cmds. reachable_command path (register_all path cmds tree) c)
    \<and> extends_tree tree (register_all path cmds tree)"
  using assms by (rule register_all_reachable)

definition cli_example :: "string \<Rightarrow> string list \<Rightarrow> CLICommand" where
  "cli_example name subs = \<lparr>cc_Name = name, cc_Short = '''', cc_Long = '''', cc_Subcommands = subs, cc_Continuous = False, cc_PollInterval = 0\<rparr>"

theorem plugin_commands_reachable_witness:
  "distinct (tree_names (register_all ''p'' [cli_example ''fw logs'' [], cli_example ''fw'' [''stats'']] [])) \<and>
   reachable_command ''p'' (register_all ''p'' [cli_example ''fw logs'' [], cli_example ''fw'' [''stats'']] []) (cli_example ''fw logs'' [])"
proof -
  let ?a = "cli_example ''fw logs'' []" and ?b = "cli_example ''fw'' [''stats'']"
  have words: "go_fields (cc_Name ?a) = [''fw'', ''logs'']" "go_fields (cc_Name ?b) = [''fw'']"
    using fields_join [of "[''fw'', ''logs'']"] fields_join [of "[''fw'']"] by (simp_all add: cli_example_def word_ok_def printable_def byte_of_def)
  have "spaces ?a = 1" "spaces ?b = 0" by (simp_all add: spaces_def cli_example_def)
  note words = words this
  show ?thesis
    using plugin_commands_reachable[of "[]" "[?a, ?b]" "''p''"] words by (simp add: tree_names_def)
qed

section \<open>jack set and jack get\<close>

text \<open>\<open>jack set\<close> sends the path that \<open>jack get\<close> with the same words asks for.\<close>

lemma set_get_same_path:
  "args \<noteq> [] \<Longrightarrow> parseSetArgs (args @ [v]) = Inr (parseGetPath args, parse_value v)"
  by (cases args) (auto simp: parseSetArgs_def parseGetPath_def)

text \<open>Printing a number and setting it again sends the number; a text that reads as a number is always sent as one.\<close>

lemma parse_value_show_int: "in_int64 i \<Longrightarrow> parse_value (show_int i) = JNum (of_int i)"
proof -
  assume "in_int64 i"
  then have n: "atoi (show_int i) = Some i" by (rule atoi_show_int)
  have "atoi ''true'' = None" "atoi ''false'' = None" by code_simp+
  then have "show_int i \<noteq> ''true''" "show_int i \<noteq> ''false''" using n by force+
  then show ?thesis using n by (simp add: parse_value_def)
qed

text \<open>A watched command asks at most once more than the ticker ticked, and every text but the last belongs to a snapshot that let it go on.\<close>

lemma watch_texts: "length (snd (executeContinuousCommand send p c args ticks w)) \<le> 2 * ticks + 2"
proof (induction ticks arbitrary: w)
  case (Suc n)
  show ?case
    using Suc.IH[of "fst (printCommandSnapshot send p c args w)"]
    by (subst executeContinuousCommand.simps) (auto split: prod.splits)
qed (subst executeContinuousCommand.simps, auto split: prod.splits)

section \<open>The PID file\<close>

lemma digit_not_space:
  assumes "is_digit c"
  shows "strip_any space_runes (c # s) = None" "strip_any (map rev space_runes) (c # s) = None"
  using assms by (auto simp: space_runes_def is_digit_def upt_rec)

lemma trim_digits:
  assumes "\<forall>c \<in> set s. is_digit c" "s \<noteq> []"
  shows "trim_space (text_line s) = s"
proof -
  obtain c r where s: "s = c # r" using assms(2) by (cases s) auto
  obtain d q where q: "rev s = d # q" using assms(2) by (cases "rev s") auto
  have d: "is_digit c" "is_digit d" using assms(1) s q by (auto, metis list.set_intros(1) q set_rev)
  have [simp]: "[] \<notin> set space_runes" "[] \<notin> rev ` set space_runes" by (auto simp: space_runes_def)
  have "trim_left space_runes (text_line s) = text_line s"
    using d(1) by (subst trim_left.simps) (simp add: s text_line_def digit_not_space)
  moreover have "strip_any (map rev space_runes) (CHR 0x0A # rev s) = Some (rev s)"
    by (simp add: space_runes_def byte_of_def)
  moreover have "trim_left (map rev space_runes) (rev s) = rev s"
    using d(2) by (subst trim_left.simps) (simp add: q digit_not_space)
  ultimately show ?thesis
    by (simp add: trim_space_def text_line_def trim_left.simps [of "map rev space_runes" "CHR 0x0A # rev s"])
qed

text \<open>
  Over a file system that reads back what was written, the file one daemon has claimed turns every other one away while the first is alive, and is claimed by the next one when it is not.
\<close>

lemma pid_file_excludes:
  assumes written: "pd_ReadFile h pidFile w = Content (text_line (show_int pid))"
    and pid: "0 \<le> pid" "in_int64 pid"
  shows "checkExistingDaemon h pidFile w =
    (if pd_Alive h pid w
     then (w, Some (''daemon already running with PID '' @ show_int pid @ '' (stop it first or remove '' @ pidFile @ '' if it's stale)''))
     else (pd_Remove h pidFile w, None))"
proof -
  have "trim_space (text_line (show_int pid)) = show_int pid"
    using pid(1) by (intro trim_digits) (auto simp: show_int_def dest: show_nat_digits)
  then show ?thesis using written atoi_show_int [OF pid(2)] by (simp add: checkExistingDaemon_def)
qed

text \<open>A file that cannot be read, or that holds no number, refuses the start; the comments of the code say that it is allowed.\<close>

lemma bad_pid_refuses:
  "pd_ReadFile h pidFile w = Unreadable e \<or> (pd_ReadFile h pidFile w = Content data \<and> atoi (trim_space data) = None) \<Longrightarrow>
   fst (checkExistingDaemon h pidFile w) = w \<and> snd (checkExistingDaemon h pidFile w) \<noteq> None"
  by (auto simp: checkExistingDaemon_def)

end
