(* ===== verification/Cli_Facts.thy ===== *)
theory Cli_Facts
  imports Connection_Facts Server_Config_Facts Command_Line_Facts
begin

text \<open>
  The command line against the daemon: a sender that hands a request to \<open>handleRequest\<close> and gives back what a client sees of the response (which is what the socket does,
  \<open>socket_transparent\<close>), and the commands \<open>set\<close> and \<open>get\<close> on top of it.
\<close>

definition daemon_sender ::
  "(string \<Rightarrow> Plugin outcome) \<Rightarrow> string list outcome \<Rightarrow> 'w System \<Rightarrow> 'w Queries \<Rightarrow> (gval \<Rightarrow> string) \<Rightarrow> Env \<Rightarrow> (int \<Rightarrow> string) \<Rightarrow> 'w Daemon sender" where
  "daemon_sender load available sys qu fmtv env stamp req d =
     (case handleRequest load available sys qu fmtv env req d of
        Some (d', Ok resp) \<Rightarrow> (d', Inr (seen_response stamp resp))
      | _ \<Rightarrow> (d, Inl ''failed to read response: EOF''))"

lemma seen_okay [simp]:
  "rs_Success (seen_response stamp (okay dt m))" "rs_Message (seen_response stamp (okay dt m)) = m"
  "rs_Data (seen_response stamp (okay dt m)) = (if enc_data stamp dt = JNull then None else Some (enc_data stamp dt))"
  by (simp_all add: seen_response_def okay_def)

lemma seen_success: "rs_Success (seen_response stamp r) = rsp_Success r"
  by (simp add: seen_response_def)

lemma sender_get:
  "handleGet p (dm_server d) = Ok resp \<Longrightarrow>
   daemon_sender load available sys qu fmtv env stamp ((request ''get'')\<lparr>rq_Path := p\<rparr>) d = (d, Inr (seen_response stamp resp))"
  by (simp add: daemon_sender_def handleRequest_def request_def reading_def)

lemma sender_set:
  "daemon_sender load available sys qu fmtv env stamp ((request ''set'')\<lparr>rq_Path := p, rq_Value := v\<rparr>) d =
     (case handleSet p v (dm_server d) of
        Ok (sv, resp) \<Rightarrow> (d\<lparr>dm_server := sv\<rparr>, Inr (seen_response stamp resp))
      | Err e \<Rightarrow> (d, Inr (seen_response stamp (fail e)))
      | Panic \<Rightarrow> (d, Inl ''failed to read response: EOF''))"
  by (simp add: daemon_sender_def handleRequest_def request_def on_server_def split: outcome.splits)

section \<open>The listing of namespaces\<close>

lemma enc_config_no_array: "enc_config c \<noteq> JArr vs"
  by (cases c rule: enc_config.cases) auto

text \<open>The daemon answers a get without a path with its configurations by namespace, and none of them is a list.\<close>

definition no_array :: "rdata \<Rightarrow> bool" where
  "no_array d \<longleftrightarrow> (\<forall>stamp vs. enc_data stamp d \<noteq> JArr vs)"

lemma no_array_data [simp]:
  "no_array (DConfig c)" "no_array (DValue (GInterfaceMap m))" "no_array (DValue (GRouteMap m'))"
  by (auto simp: no_array_def enc_map_def enc_config_no_array split: option.splits)

lemma mput_values: "\<forall>x \<in> set m. P (snd x) \<Longrightarrow> P d \<Longrightarrow> \<forall>x \<in> set (mput k d m). P (snd x)"
  by (induction m) auto

lemma allConfigs_no_array: "\<forall>x \<in> set (allConfigs sv). no_array (snd x)"
proof -
  have fold: "\<forall>x \<in> set (foldl (\<lambda>m ns. case GetCurrent st ns of Ok cfg \<Rightarrow> mput ns (DConfig cfg) m | _ \<Rightarrow> m) m nss). no_array (snd x)"
    if "\<forall>x \<in> set m. no_array (snd x)" for st m nss
    using that
  proof (induction nss arbitrary: m)
    case (Cons ns nss)
    have put: "\<forall>x \<in> set (mput ns (DConfig cfg) m). no_array (snd x)" for cfg
      using Cons.prems by (rule mput_values) simp
    show ?case
      using Cons.IH [OF put] Cons.IH [OF Cons.prems] by (cases "GetCurrent st ns") (simp_all only: foldl.simps outcome.case)
  qed simp
  show ?thesis
    unfolding allConfigs_def Let_def by (rule fold) (auto split: option.splits intro!: mput_values)
qed

lemma mget_mem: "mget m k = Some v \<Longrightarrow> (k, v) \<in> set m"
  by (simp add: map_of_SomeD)

lemma category_text_no_array:
  assumes "\<forall>x \<in> set m. \<forall>vs. snd x \<noteq> JArr vs"
  shows "category_text fmtv m = text_line ''Available configuration namespaces:''"
proof -
  have "mget m k \<noteq> Some (JArr vs)" for k vs
    using assms mget_mem [of m k "JArr vs"] by fastforce
  then show ?thesis by (simp add: category_text_def split: option.splits json.splits)
qed

text \<open>
  \<open>jack get\<close> without a path prints its headline and nothing else, whatever the daemon holds: the command expects lists of namespaces by category, and
  the daemon answers with the configurations by namespace. \<open>jack set\<close> without arguments does the same.\<close>

theorem get_lists_nothing:
  "executeGet fmtv' indented (daemon_sender load available sys qu fmtv env stamp) [] d = (d, Inr (text_line ''Available configuration namespaces:''))
   \<and> executeSet fmtv' (daemon_sender load available sys qu fmtv env stamp) [] d = (d, Inr (text_line ''Available configuration namespaces:''))"
proof -
  let ?resp = "okay (DAll (allConfigs (dm_server d))) ''''"
  let ?m = "sort_key fst (map (\<lambda>(k, x). (k, enc_data stamp x)) (allConfigs (dm_server d)))"
  have "handleGet '''' (dm_server d) = Ok ?resp" by (simp add: handleGet_def)
  then have "daemon_sender load available sys qu fmtv env stamp ((request ''get'')\<lparr>rq_Path := ''''\<rparr>) d = (d, Inr (seen_response stamp ?resp))"
    by (rule sender_get)
  moreover have "(request ''get'')\<lparr>rq_Path := ''''\<rparr> = request ''get''" by (simp add: request_def)
  moreover have "category_text fmtv' ?m = text_line ''Available configuration namespaces:''"
    using allConfigs_no_array [of "dm_server d"] by (intro category_text_no_array) (auto simp: no_array_def)
  ultimately show ?thesis
    by (simp add: executeGet_def executeSet_def send_ok_def parseGetPath_def parseSetArgs_def)
qed

section \<open>Setting and getting\<close>

lemma parse_value_wf: "top_wf (GJson (parse_value s))"
  by (auto simp: parse_value_def top_wf_def split: option.splits)



end
