(* ===== verification/Core_Metadata.thy ===== *)
theory Core_Metadata
  imports Command_Line_Facts
begin

text \<open>
  What the plugins under \<open>src/plugins/core\<close> say of themselves (\<open>Metadata\<close>, \<open>GetProvidedServices\<close> of each \<open>rpc_provider.go\<close>), and the commands of \<open>jack\<close> itself
  (the \<open>init\<close> functions of \<open>src/cmd\<close>).
\<close>

definition no_metadata :: MetadataResponse where
  "no_metadata =
     \<lparr>mr_Namespace = '''', mr_Version = '''', mr_Description = '''', mr_Category = '''', mr_ConfigPath = '''', mr_DefaultConfig = None,
      mr_Dependencies = [], mr_RequiredServices = [], mr_ProvidedServices = [], mr_PathPrefix = '''', mr_CLICommands = []\<rparr>"

definition firewall_Metadata :: MetadataResponse where
  "firewall_Metadata = no_metadata
     \<lparr>mr_Namespace := ''firewall'', mr_Version := ''1.0.0'', mr_Description := ''nftables firewall management with optional logging'',
      mr_Category := ''firewall'', mr_ConfigPath := ''/etc/jack/firewall.json'',
      mr_CLICommands :=
        [\<lparr>cc_Name = ''firewall'', cc_Short = ''Query firewall logs and statistics'',
          cc_Long = ''Display firewall logging statistics and recent log entries.'',
          cc_Subcommands = [''stats'', ''logs''], cc_Continuous = False, cc_PollInterval = 0\<rparr>,
         \<lparr>cc_Name = ''firewall watch'', cc_Short = ''Monitor firewall logs in real-time'',
          cc_Long = ''Continuously display recent firewall log entries. Optional filters: action=ACCEPT|DROP, src_ip=IP, dst_ip=IP, proto=TCP|UDP|ICMP.'',
          cc_Subcommands = [], cc_Continuous = True, cc_PollInterval = 2\<rparr>]\<rparr>"

definition dnsmasq_Metadata :: MetadataResponse where
  "dnsmasq_Metadata = no_metadata
     \<lparr>mr_Namespace := ''dhcp'', mr_Version := ''1.0.0'', mr_Description := ''dnsmasq-based DHCP server'',
      mr_Category := ''dhcp'', mr_ConfigPath := ''/etc/jack/dhcp.json''\<rparr>"

definition wireguard_Metadata :: MetadataResponse where
  "wireguard_Metadata = no_metadata
     \<lparr>mr_Namespace := ''vpn'', mr_Version := ''1.0.0'', mr_Description := ''WireGuard-based VPN management'',
      mr_Category := ''vpn'', mr_ConfigPath := ''/etc/jack/vpn.json''\<rparr>"

definition leds_Metadata :: MetadataResponse where
  "leds_Metadata = no_metadata
     \<lparr>mr_Namespace := ''led'', mr_Version := ''1.0.0'', mr_Description := ''System LED control via sysfs'',
      mr_Category := ''hardware'', mr_ConfigPath := ''/etc/jack/led.json'', mr_PathPrefix := ''leds'',
      mr_CLICommands :=
        [\<lparr>cc_Name = ''led'', cc_Short = ''LED control and status'', cc_Long = ''Control system LEDs and display their current state.'',
          cc_Subcommands = [''status'', ''list''], cc_Continuous = False, cc_PollInterval = 0\<rparr>]\<rparr>"

definition monitoring_Metadata :: MetadataResponse where
  "monitoring_Metadata = no_metadata
     \<lparr>mr_Namespace := ''monitoring'', mr_Version := ''1.0.0'', mr_Description := ''System and network metrics collection'',
      mr_Category := ''monitoring'', mr_ConfigPath := ''/etc/jack/monitoring.json'',
      mr_DefaultConfig := Some [(''enabled'', JBool True), (''collection_interval'', JNum 5)],
      mr_CLICommands :=
        [\<lparr>cc_Name = ''monitor'', cc_Short = ''Monitor system resources and network bandwidth'',
          cc_Long = ''Display real-time system metrics including CPU, memory, load, and network bandwidth.'',
          cc_Subcommands = [''stats'', ''bandwidth''], cc_Continuous = True, cc_PollInterval = 2\<rparr>]\<rparr>"

definition sqlite3_services :: "ServiceDescriptor list" where
  "sqlite3_services =
     [\<lparr>sd_Name = ''database'', sd_Description = ''SQLite3 database operations for logging and storage'',
       sd_Methods = [''InsertLog'', ''QueryLogs'', ''Stats'', ''Vacuum'', ''Exec'', ''Query'', ''QueryRow'']\<rparr>]"

definition sqlite3_Metadata :: MetadataResponse where
  "sqlite3_Metadata = no_metadata
     \<lparr>mr_Namespace := ''sqlite3'', mr_Version := ''1.0.0'', mr_Description := ''SQLite3 database for logging and data storage'',
      mr_Category := ''database'', mr_ConfigPath := ''/etc/jack/sqlite3.json'',
      mr_DefaultConfig :=
        Some [(''enabled'', JBool True), (''database_path'', JStr ''/var/lib/jack/data.db''), (''log_storage_enabled'', JBool True),
              (''max_log_entries'', JNum 100000)],
      mr_ProvidedServices := sqlite3_services,
      mr_CLICommands :=
        [\<lparr>cc_Name = ''sqlite3'', cc_Short = ''Query database logs and statistics'',
          cc_Long = ''Query logs stored in SQLite database and view database statistics.'',
          cc_Subcommands = [''logs'', ''stats'', ''vacuum''], cc_Continuous = False, cc_PollInterval = 0\<rparr>]\<rparr>"

text \<open>The plugins in the order in which the files of a directory match, and the commands of \<open>jack\<close> itself, their own subcommands left out.\<close>

definition core_plugins :: "(string \<times> MetadataResponse) list" where
  "core_plugins =
     [(''/usr/lib/jack/plugins/jack-plugin-dnsmasq'', dnsmasq_Metadata), (''/usr/lib/jack/plugins/jack-plugin-firewall'', firewall_Metadata),
      (''/usr/lib/jack/plugins/jack-plugin-leds'', leds_Metadata), (''/usr/lib/jack/plugins/jack-plugin-monitoring'', monitoring_Metadata),
      (''/usr/lib/jack/plugins/jack-plugin-sqlite3'', sqlite3_Metadata), (''/usr/lib/jack/plugins/jack-plugin-wireguard'', wireguard_Metadata)]"

definition builtin_tree :: "CommandNode list" where
  "builtin_tree =
     map (\<lambda>n. \<lparr>cn_Name = n, cn_subs = [], cn_run = None\<rparr>)
       [''apply'', ''checkpoint'', ''commit'', ''daemon'', ''diff'', ''get'', ''logs'', ''plugin'', ''revert'', ''rollback'', ''set'', ''status'', ''validate'']"

definition core_tree :: "CommandNode list" where
  "core_tree = foldl (\<lambda>tree (path, md). register_all path (mr_CLICommands md) tree) builtin_tree core_plugins"

section \<open>Registering several plugins\<close>

definition own_words :: "MetadataResponse \<Rightarrow> string list" where
  "own_words md = map first_word (filter (\<lambda>c. spaces c = 0) (mr_CLICommands md))"

text \<open>Names of words with single spaces between them, where a command of several words belongs to a single word of the same plugin.\<close>

definition well_named :: "MetadataResponse \<Rightarrow> bool" where
  "well_named md \<longleftrightarrow>
     (\<forall>c \<in> set (mr_CLICommands md). spaces c + 1 = length (go_fields (cc_Name c)) \<and> first_word c \<in> set (own_words md))"

definition register_plugins :: "(string \<times> MetadataResponse) list \<Rightarrow> CommandNode list \<Rightarrow> CommandNode list" where
  "register_plugins ps tree = foldl (\<lambda>tree (path, md). register_all path (mr_CLICommands md) tree) tree ps"

lemma register_plugins_reachable:
  assumes "distinct (tree_names tree)" and "\<forall>x \<in> set ps. well_named (snd x)"
    and "distinct (concat (map (own_words \<circ> snd) ps))" and "set (tree_names tree) \<inter> set (concat (map (own_words \<circ> snd) ps)) = {}"
  shows "distinct (tree_names (register_plugins ps tree)) \<and> extends_tree tree (register_plugins ps tree) \<and>
    (\<forall>x \<in> set ps. \<forall>c \<in> set (mr_CLICommands (snd x)). reachable_command (fst x) (register_plugins ps tree) c)"
  using assms
proof (induction ps arbitrary: tree)
  case (Cons x ps)
  obtain path md where x: "x = (path, md)" by (cases x)
  let ?t = "register_all path (mr_CLICommands md) tree"
  have words: "distinct (own_words md)" "set (own_words md) \<inter> set (tree_names tree) = {}" "well_named md"
    using Cons.prems x by auto
  then have first: "distinct (tree_names ?t)" "set (tree_names ?t) = set (tree_names tree) \<union> first_word ` set (mr_CLICommands md)"
    "\<forall>c \<in> set (mr_CLICommands md). reachable_command path ?t c" "extends_tree tree ?t"
    using register_all_reachable [of tree "mr_CLICommands md" path] Cons.prems(1) by (auto simp: own_words_def well_named_def)
  have "first_word ` set (mr_CLICommands md) \<subseteq> set (own_words md)" using words(3) by (auto simp: well_named_def)
  then have "set (tree_names ?t) \<inter> set (concat (map (own_words \<circ> snd) ps)) = {}"
    using Cons.prems(3,4) first(2) x by (fastforce simp: disjoint_iff)
  then have rest: "distinct (tree_names (register_plugins ps ?t))" "extends_tree ?t (register_plugins ps ?t)"
    "\<forall>x \<in> set ps. \<forall>c \<in> set (mr_CLICommands (snd x)). reachable_command (fst x) (register_plugins ps ?t) c"
    using Cons.IH [OF first(1)] Cons.prems by auto
  have "register_plugins (x # ps) tree = register_plugins ps ?t" by (simp add: register_plugins_def x)
  then show ?case using rest first(3,4) x by (auto intro: reachable_extends extends_trans)
qed (simp add: register_plugins_def)

section \<open>The commands of the core plugins\<close>

lemmas core_metadata_defs = core_plugins_def dnsmasq_Metadata_def firewall_Metadata_def leds_Metadata_def monitoring_Metadata_def
  sqlite3_Metadata_def wireguard_Metadata_def no_metadata_def

lemma core_words:
  "go_fields ''firewall'' = [''firewall'']" "go_fields ''firewall watch'' = [''firewall'', ''watch'']" "go_fields ''led'' = [''led'']"
  "go_fields ''monitor'' = [''monitor'']" "go_fields ''sqlite3'' = [''sqlite3'']"
  using fields_join [of "[''firewall'']"] fields_join [of "[''firewall'', ''watch'']"] fields_join [of "[''led'']"] fields_join [of "[''monitor'']"]
    fields_join [of "[''sqlite3'']"]
  by (simp_all add: word_ok_def printable_def byte_of_def)

lemma core_own_words:
  "own_words dnsmasq_Metadata = []" "own_words firewall_Metadata = [''firewall'']" "own_words leds_Metadata = [''led'']"
  "own_words monitoring_Metadata = [''monitor'']" "own_words sqlite3_Metadata = [''sqlite3'']" "own_words wireguard_Metadata = []"
  by (simp_all add: core_metadata_defs own_words_def spaces_def first_word_def multi_word_def node_name_def core_words)

lemma core_well_named: "\<forall>x \<in> set core_plugins. well_named (snd x)"
proof -
  have "well_named dnsmasq_Metadata \<and> well_named firewall_Metadata \<and> well_named leds_Metadata \<and> well_named monitoring_Metadata \<and>
    well_named sqlite3_Metadata \<and> well_named wireguard_Metadata"
    unfolding well_named_def core_own_words
    by (simp add: core_metadata_defs spaces_def first_word_def multi_word_def node_name_def core_words)
  then show ?thesis by (simp add: core_plugins_def)
qed

text \<open>Every command of the core plugins is reachable, and none hides a command of \<open>jack\<close> or of another plugin.\<close>

lemma core_commands_reachable:
  "distinct (tree_names core_tree) \<and> extends_tree builtin_tree core_tree \<and>
   (\<forall>x \<in> set core_plugins. \<forall>c \<in> set (mr_CLICommands (snd x)). reachable_command (fst x) core_tree c)"
proof -
  have "core_tree = register_plugins core_plugins builtin_tree" by (simp add: core_tree_def register_plugins_def)
  then show ?thesis
    using register_plugins_reachable [OF _ core_well_named, of builtin_tree]
    by (simp add: core_plugins_def core_own_words builtin_tree_def tree_names_def)
qed

lemma core_namespaces_distinct: "distinct (map (mr_Namespace \<circ> snd) core_plugins) \<and> (\<forall>x \<in> set core_plugins. mr_Dependencies (snd x) = [] \<and> mr_RequiredServices (snd x) = [])"
  by code_simp

text \<open>The category of the database plugin is not among those the listing of namespaces goes through.\<close>

lemma database_category_unlisted: "mr_Category sqlite3_Metadata \<notin> set category_order"
  by code_simp

end
