(* ===== verification/Status_Print.thy ===== *)
theory Status_Print
  imports Inspect Command_Line Plugin_Actions
begin

text \<open>
  \<open>jack status\<close> (\<open>src/cmd/status.go\<close>): the JSON form of the system status (\<open>src/system/inspect.go\<close>) and what the command prints of it, compact and verbose. \<open>fmtv\<close> renders a
  value with \<open>%v\<close> (nil included), \<open>fmtf\<close> a number with \<open>%.0f\<close>, \<open>ratio\<close> a quotient as \<open>formatBytes\<close> does, and \<open>fl\<close> is the \<open>float64\<close> the client reads for a counter. A JSON object
  is printed in the order of its list, which stands for any iteration order of the map.
\<close>

section \<open>The status as JSON\<close>

definition enc_DaemonStatus :: "DaemonStatus \<Rightarrow> json" where
  "enc_DaemonStatus d =
     JObj [(''uptime'', JStr (da_Uptime d)), (''config_path'', JStr (da_ConfigPath d)), (''pid'', JNum (of_int (da_PID d))),
           (''running'', JBool (da_Running d))]"

definition enc_SystemInfo :: "SystemInfo \<Rightarrow> json" where
  "enc_SystemInfo s =
     JObj [(''hostname'', JStr (sy_Hostname s)), (''kernel_version'', JStr (sy_KernelVersion s)), (''uptime'', JStr (sy_Uptime s))]"

definition enc_InterfaceStatus :: "(nat \<Rightarrow> rat) \<Rightarrow> InterfaceStatus \<Rightarrow> json" where
  "enc_InterfaceStatus fl i =
     JObj [(''name'', JStr (InterfaceStatus.is_Name i)), (''type'', JStr (InterfaceStatus.is_Type i)), (''device'', JStr (InterfaceStatus.is_Device i)), (''state'', JStr (InterfaceStatus.is_State i)),
           (''ipaddr'', if InterfaceStatus.is_IPAddr i = [] then JNull else JArr (map JStr (InterfaceStatus.is_IPAddr i))), (''mtu'', JNum (of_int (InterfaceStatus.is_MTU i))),
           (''tx_packets'', JNum (fl (unat (st_TxPackets (InterfaceStatus.is_stats i))))), (''rx_packets'', JNum (fl (unat (st_RxPackets (InterfaceStatus.is_stats i))))),
           (''tx_bytes'', JNum (fl (unat (st_TxBytes (InterfaceStatus.is_stats i))))), (''rx_bytes'', JNum (fl (unat (st_RxBytes (InterfaceStatus.is_stats i))))),
           (''tx_errors'', JNum (fl (unat (st_TxErrors (InterfaceStatus.is_stats i))))), (''rx_errors'', JNum (fl (unat (st_RxErrors (InterfaceStatus.is_stats i)))))]"

definition enc_SystemStatus :: "(nat \<Rightarrow> rat) \<Rightarrow> SystemStatus \<Rightarrow> json" where
  "enc_SystemStatus fl s =
     JObj [(''daemon'', enc_DaemonStatus (SystemStatus.ss_Daemon s)),
           (''interfaces'', if SystemStatus.ss_Interfaces s = [] then JNull else JArr (map (enc_InterfaceStatus fl) (SystemStatus.ss_Interfaces s))),
           (''system'', enc_SystemInfo (SystemStatus.ss_System s)), (''ip_forwarding'', JBool (SystemStatus.ss_IPForwarding s))]"

section \<open>Reading the answer\<close>

text \<open>A key of a map, nil when it is absent; the type assertions of the code.\<close>

definition at_key :: "string \<Rightarrow> (string \<times> json) list \<Rightarrow> json" where
  "at_key k m = (case mget m k of None \<Rightarrow> JNull | Some v \<Rightarrow> v)"

fun as_map :: "json \<Rightarrow> (string \<times> json) list option" where
  "as_map (JObj m) = Some m"
| "as_map _ = None"

fun as_list :: "json \<Rightarrow> json list option" where
  "as_list (JArr l) = Some l"
| "as_list _ = None"

fun as_bool :: "json \<Rightarrow> bool option" where
  "as_bool (JBool b) = Some b"
| "as_bool _ = None"

fun as_str :: "json \<Rightarrow> string option" where
  "as_str (JStr s) = Some s"
| "as_str _ = None"

fun as_num :: "json \<Rightarrow> rat option" where
  "as_num (JNum q) = Some q"
| "as_num _ = None"

definition str_or_empty :: "json \<Rightarrow> string" where
  "str_or_empty v = (case as_str v of None \<Rightarrow> '''' | Some s \<Rightarrow> s)"

definition bool_or_false :: "json \<Rightarrow> bool" where
  "bool_or_false v = (case as_bool v of None \<Rightarrow> False | Some b \<Rightarrow> b)"

definition blank :: string where
  "blank = text_line ''''"

definition on :: "'a option \<Rightarrow> ('a \<Rightarrow> string) \<Rightarrow> string" where
  "on x f = (case x of None \<Rightarrow> '''' | Some y \<Rightarrow> f y)"

definition boolToYesNo :: "bool \<Rightarrow> string" where
  "boolToYesNo b = (if b then ''Yes'' else ''No'')"

text \<open>Titles of ASCII keys.\<close>

definition toTitleCase :: "string \<Rightarrow> string" where
  "toTitleCase s = join_with '' '' (map (\<lambda>w. to_upper (take 1 w) @ to_lower (drop 1 w)) (go_fields s))"

section \<open>Plugins\<close>

definition printPluginStatus :: "string \<Rightarrow> json \<Rightarrow> string" where
  "printPluginStatus namespace pluginStatus =
     on (as_map pluginStatus) (\<lambda>m.
       let enabled = (case as_bool (at_key ''enabled'' m) of Some e \<Rightarrow> e | None \<Rightarrow> bool_or_false (at_key ''running'' m)) in
       ''  '' @ (if enabled then ''[UP]'' else ''[DOWN]'') @ '' '' @ pad_right 12 namespace @
       on (as_str (at_key ''provider'' m)) (\<lambda>p. '' ('' @ p @ '')'') @
       on (as_num (at_key ''lease_count'' m)) (\<lambda>q. '' - '' @ show_int (trunc64 q) @ '' leases'') @
       on (as_num (at_key ''rule_count'' m)) (\<lambda>q. '' - '' @ show_int (trunc64 q) @ '' rules'') @ blank)"

definition warning_mark :: string where
  "warning_mark = ''  '' @ [CHR 0xE2, CHR 0x9A, CHR 0xA0, CHR 0xEF, CHR 0xB8, CHR 0x8F] @ ''  Warning: ''"

definition status_field :: "(rat \<Rightarrow> string) \<Rightarrow> string \<Rightarrow> string \<times> json \<Rightarrow> string" where
  "status_field fmtf namespace kv =
     (case kv of (key, v) \<Rightarrow>
        if namespace = ''monitoring'' \<and> (key = ''system_metrics'' \<or> key = ''interface_metrics'') then ''''
        else
          (let formattedKey = toTitleCase (map (\<lambda>c. if c = CHR ''_'' then CHR '' '' else c) key);
               row = (\<lambda>t. text_line (''  '' @ pad_right 12 (formattedKey @ '':'') @ '' '' @ t)) in
           case v of
             JBool b \<Rightarrow> row (boolToStatus b)
           | JNum q \<Rightarrow> row (fmtf q)
           | JStr s \<Rightarrow> row s
           | JArr l \<Rightarrow> if key = ''warnings'' then concat (map (\<lambda>x. on (as_str x) (\<lambda>s. text_line (warning_mark @ s))) l) else ''''
           | _ \<Rightarrow> ''''))"

definition printPluginStatusVerbose :: "(rat \<Rightarrow> string) \<Rightarrow> string \<Rightarrow> json \<Rightarrow> string" where
  "printPluginStatusVerbose fmtf namespace pluginStatus =
     on (as_map pluginStatus) (\<lambda>m. text_line namespace @ concat (map (status_field fmtf namespace) m))"

section \<open>Interfaces\<close>

text \<open>One direction of the statistics.\<close>

definition traffic_line :: "(int \<Rightarrow> int \<Rightarrow> string) \<Rightarrow> string \<Rightarrow> json \<Rightarrow> json \<Rightarrow> json \<Rightarrow> string outcome" where
  "traffic_line ratio label packets bytes errors =
     (case as_num packets of
        None \<Rightarrow> Ok ''''
      | Some p \<Rightarrow>
          obind (case as_num bytes of
                   None \<Rightarrow> Ok ''''
                 | Some b \<Rightarrow> obind (status_formatBytes ratio (trunc64 b)) (\<lambda>t. Ok ('' ('' @ t @ '')'')))
            (\<lambda>bs. Ok (text_line (label @ show_int (trunc64 p) @ '' packets'' @ bs @
               on (as_num errors) (\<lambda>e. if e > 0 then '' ['' @ show_int (trunc64 e) @ '' errors]'' else '''')))))"

definition printInterface :: "(json \<Rightarrow> string) \<Rightarrow> (int \<Rightarrow> int \<Rightarrow> string) \<Rightarrow> (string \<times> json) list \<Rightarrow> string outcome" where
  "printInterface fmtv ratio iface =
     (let state = str_or_empty (at_key ''state'' iface);
          head = text_line ((if state = ''up'' then ''[UP]'' else ''[DOWN]'') @ '' '' @ str_or_empty (at_key ''name'' iface) @
                            '' ('' @ str_or_empty (at_key ''type'' iface) @ '')'') @
                 text_line (''    State:      '' @ state) @
                 (case as_list (at_key ''ipaddr'' iface) of
                    Some (ip # ips) \<Rightarrow> text_line (''    IP Address: '' @ join_with '', '' (map fmtv (ip # ips)))
                  | _ \<Rightarrow> text_line ''    IP Address: (none)'') @
                 on (as_num (at_key ''mtu'' iface)) (\<lambda>q. if q > 0 then text_line (''    MTU:        '' @ show_int (trunc64 q)) else '''') in
      obind (traffic_line ratio ''    RX:         '' (at_key ''rx_packets'' iface) (at_key ''rx_bytes'' iface) (at_key ''rx_errors'' iface)) (\<lambda>rx.
      obind (traffic_line ratio ''    TX:         '' (at_key ''tx_packets'' iface) (at_key ''tx_bytes'' iface) (at_key ''tx_errors'' iface)) (\<lambda>tx.
      Ok (head @ rx @ tx @ blank))))"

fun print_interfaces :: "(json \<Rightarrow> string) \<Rightarrow> (int \<Rightarrow> int \<Rightarrow> string) \<Rightarrow> json list \<Rightarrow> string outcome" where
  "print_interfaces fmtv ratio [] = Ok ''''"
| "print_interfaces fmtv ratio (v # vs) =
     obind (case as_map v of None \<Rightarrow> Ok '''' | Some m \<Rightarrow> printInterface fmtv ratio m)
       (\<lambda>t. obind (print_interfaces fmtv ratio vs) (\<lambda>ts. Ok (t @ ts)))"

definition interface_states :: "json list \<Rightarrow> string list" where
  "interface_states vs = List.map_filter (\<lambda>v. case as_map v of None \<Rightarrow> None | Some m \<Rightarrow> as_str (at_key ''state'' m)) vs"

section \<open>The two forms\<close>

definition printCompactStatus :: "(json \<Rightarrow> string) \<Rightarrow> json \<Rightarrow> string" where
  "printCompactStatus fmtv data =
     (case as_map data of
        None \<Rightarrow> text_line ''Unable to parse status data''
      | Some m \<Rightarrow>
          text_line ''Jack Network Configuration Daemon'' @ text_line ''=================================='' @ blank @
          on (as_map (at_key ''daemon'' m)) (\<lambda>d.
            if bool_or_false (at_key ''running'' d) then text_line (''[OK] Daemon:     Running (PID: '' @ fmtv (at_key ''pid'' d) @ '')'')
            else text_line ''[DOWN] Daemon:   Not running'') @
          on (as_map (at_key ''system'' m)) (\<lambda>s.
            text_line (''  Hostname:   '' @ fmtv (at_key ''hostname'' s)) @ text_line (''  Uptime:     '' @ fmtv (at_key ''uptime'' s))) @
          blank @
          text_line (if bool_or_false (at_key ''pending'' m) then ''[WARN] Configuration: Pending changes (use 'jack diff' to view)''
                     else ''[OK] Configuration:   No pending changes'') @
          blank @
          text_line (if bool_or_false (at_key ''ip_forwarding'' m) then ''[OK] IP Forwarding: Enabled'' else ''[INFO] IP Forwarding: Disabled'') @
          on (as_map (at_key ''plugins'' m)) (\<lambda>ps.
            if ps = [] then '''' else blank @ text_line ''Plugins:'' @ concat (map (\<lambda>(ns, st). printPluginStatus ns st) ps)) @
          blank @
          on (as_list (at_key ''interfaces'' m)) (\<lambda>vs.
            let states = interface_states vs; up = length (filter (\<lambda>s. s = ''up'') states); down = length (filter (\<lambda>s. s \<noteq> ''up'') states) in
            text_line (''Interfaces: '' @ show_nat up @ '' up'' @ (if down > 0 then '', '' @ show_nat down @ '' down'' else ''''))) @
          blank @ text_line ''Use 'jack status -v' for detailed interface information'')"

definition printVerboseStatus :: "(json \<Rightarrow> string) \<Rightarrow> (rat \<Rightarrow> string) \<Rightarrow> (int \<Rightarrow> int \<Rightarrow> string) \<Rightarrow> json \<Rightarrow> string outcome" where
  "printVerboseStatus fmtv fmtf ratio data =
     (case as_map data of
        None \<Rightarrow> Ok (text_line ''Unable to parse status data'')
      | Some m \<Rightarrow>
          (let pending = bool_or_false (at_key ''pending'' m);
               head =
                 text_line ''Jack Network Configuration Daemon - Detailed Status'' @
                 text_line ''===================================================='' @ blank @
                 text_line ''DAEMON'' @ text_line ''------'' @
                 on (as_map (at_key ''daemon'' m)) (\<lambda>d.
                   let running = bool_or_false (at_key ''running'' d) in
                   text_line (''Status:      '' @ boolToStatus running) @
                   (if running then
                      text_line (''PID:         '' @ fmtv (at_key ''pid'' d)) @
                      on (as_str (at_key ''uptime'' d)) (\<lambda>u. if u \<noteq> '''' then text_line (''Uptime:      '' @ u) else '''')
                    else '''') @
                   text_line (''Config Path: '' @ fmtv (at_key ''config_path'' d))) @ blank @
                 text_line ''SYSTEM'' @ text_line ''------'' @
                 on (as_map (at_key ''system'' m)) (\<lambda>s.
                   text_line (''Hostname:       '' @ fmtv (at_key ''hostname'' s)) @ text_line (''Kernel:         '' @ fmtv (at_key ''kernel_version'' s)) @
                   text_line (''System Uptime:  '' @ fmtv (at_key ''uptime'' s))) @ blank @
                 text_line ''CONFIGURATION'' @ text_line ''-------------'' @
                 text_line (''Pending Changes: '' @ boolToYesNo pending) @
                 (if pending then text_line ''                 (use 'jack diff' to view)'' else '''') @ blank @
                 text_line ''IP FORWARDING'' @ text_line ''-------------'' @
                 on (as_bool (at_key ''ip_forwarding'' m)) (\<lambda>b. text_line (''Status: '' @ boolToStatus b)) @ blank @
                 on (as_map (at_key ''plugins'' m)) (\<lambda>ps.
                   if ps = [] then ''''
                   else text_line ''PLUGINS'' @ text_line ''-------'' @ concat (map (\<lambda>(ns, st). printPluginStatusVerbose fmtf ns st @ blank) ps)) @
                 text_line ''INTERFACES'' @ text_line ''----------'' in
           obind (case as_list (at_key ''interfaces'' m) of None \<Rightarrow> Ok '''' | Some vs \<Rightarrow> print_interfaces fmtv ratio vs) (\<lambda>t. Ok (head @ t))))"

definition runStatus :: "(json \<Rightarrow> string) \<Rightarrow> (rat \<Rightarrow> string) \<Rightarrow> (int \<Rightarrow> int \<Rightarrow> string) \<Rightarrow> 'w sender \<Rightarrow> bool \<Rightarrow> 'w \<Rightarrow> 'w \<times> string outcome" where
  "runStatus fmtv fmtf ratio send verbose w =
     (case send_ok send (request ''info'') w of
        (w', Inl e) \<Rightarrow> (w', Err (''[ERROR] '' @ e))
      | (w', Inr r) \<Rightarrow>
          (let data = (case rs_Data r of None \<Rightarrow> JNull | Some v \<Rightarrow> v) in
           (w', if verbose then printVerboseStatus fmtv fmtf ratio data else Ok (printCompactStatus fmtv data))))"

end
