(* ===== verification/Status_Print_Facts.thy ===== *)
theory Status_Print_Facts
  imports Status_Print Command_Line_Facts
begin

text \<open>\<open>jack status\<close>: it never panics, and the counts it prints are those of the links of the system.\<close>

section \<open>No panic\<close>

lemma trunc64_int64: "in_int64 (trunc64 q)"
  by (simp add: trunc64_def Let_def) (simp add: in_int64_def)

lemma status_formatBytes_ok: "in_int64 n \<Longrightarrow> \<exists>t. status_formatBytes ratio n = Ok t"
  using status_formatBytes_total [of n ratio] by (cases "n \<ge> 1024") (auto simp: status_formatBytes_def)

lemma traffic_line_ok: "\<exists>t. traffic_line ratio label packets bytes errors = Ok t"
proof (cases "as_num bytes")
  case (Some b)
  obtain t where "status_formatBytes ratio (trunc64 b) = Ok t" using status_formatBytes_ok [OF trunc64_int64] by blast
  with Some show ?thesis by (simp add: traffic_line_def split: option.splits)
qed (simp add: traffic_line_def split: option.splits)

lemma printInterface_ok: "\<exists>t. printInterface fmtv ratio m = Ok t"
proof -
  obtain rx tx where
    "traffic_line ratio ''    RX:         '' (at_key ''rx_packets'' m) (at_key ''rx_bytes'' m) (at_key ''rx_errors'' m) = Ok rx"
    "traffic_line ratio ''    TX:         '' (at_key ''tx_packets'' m) (at_key ''tx_bytes'' m) (at_key ''tx_errors'' m) = Ok tx"
    using traffic_line_ok by blast
  then show ?thesis by (simp add: printInterface_def Let_def)
qed

lemma print_interfaces_ok: "\<exists>t. print_interfaces fmtv ratio vs = Ok t"
proof (induction vs)
  case (Cons v vs)
  obtain t where t: "print_interfaces fmtv ratio vs = Ok t" using Cons by blast
  show ?case
  proof (cases "as_map v")
    case (Some m)
    obtain s where "printInterface fmtv ratio m = Ok s" using printInterface_ok by blast
    with Some t show ?thesis by simp
  qed (simp add: t)
qed simp

text \<open>
  C38 (status_no_panic): whatever JSON the daemon answers, \<open>jack status\<close> prints its text or ends with the error of the request; it never panics, in neither form: every counter
  is a 64-bit size when it is printed, and the unit of such a size is one of the six.\<close>

theorem status_no_panic: "snd (runStatus fmtv fmtf ratio send verbose w) \<noteq> Panic"
proof -
  have "printVerboseStatus fmtv fmtf ratio data \<noteq> Panic" for data
  proof (cases "as_map data")
    case (Some m)
    show ?thesis
    proof (cases "as_list (at_key ''interfaces'' m)")
      case (Some vs)
      obtain t where "print_interfaces fmtv ratio vs = Ok t" using print_interfaces_ok by blast
      with Some \<open>as_map data = Some m\<close> show ?thesis by (simp add: printVerboseStatus_def Let_def)
    qed (simp add: printVerboseStatus_def Let_def Some)
  qed (simp add: printVerboseStatus_def)
  then show ?thesis by (simp add: runStatus_def Let_def split: prod.splits sum.splits)
qed

section \<open>Counts\<close>

lemma interface_states_enc: "interface_states (map (enc_InterfaceStatus fl) ifs) = map InterfaceStatus.is_State ifs"
proof -
  have "(case as_map (enc_InterfaceStatus fl i) of None \<Rightarrow> None | Some m \<Rightarrow> as_str (at_key ''state'' m)) = Some (InterfaceStatus.is_State i)" for i
    by (simp add: enc_InterfaceStatus_def at_key_def)
  then show ?thesis by (simp add: interface_states_def List.map_filter_def comp_def)
qed

text \<open>The interfaces counted as up are the links other than the loopback that are up.\<close>

lemma status_counts:
  assumes "GetSystemStatus h w = Inr st" "in_LinkList h w = Inr links"
  shows "length (filter (\<lambda>s. s = ''up'') (interface_states (map (enc_InterfaceStatus fl) (SystemStatus.ss_Interfaces st)))) =
    length (filter (\<lambda>(link, _). lk_Name link \<noteq> ''lo'' \<and> lk_Up link) links)"
proof -
  have "SystemStatus.ss_Interfaces st = map (interface_status h w) (filter (\<lambda>(link, _). lk_Name link \<noteq> ''lo'') links)"
    using assms by (auto simp: GetSystemStatus_def getInterfaceStatus_def)
  then have "interface_states (map (enc_InterfaceStatus fl) (SystemStatus.ss_Interfaces st)) =
    map (\<lambda>x. if lk_Up (fst x) then ''up'' else ''down'') (filter (\<lambda>x. lk_Name (fst x) \<noteq> ''lo'') links)"
    unfolding interface_states_enc by (simp add: interface_status_def case_prod_unfold)
  then show ?thesis by (simp add: filter_map comp_def case_prod_unfold conj_commute cong: conj_cong)
qed

text \<open>A byte counter of at least 2 to the power of 63 is printed as a negative size.\<close>

lemma large_counter_negative: "q \<ge> 2 ^ 63 \<Longrightarrow> status_formatBytes ratio (trunc64 q) = Ok (show_int (- (2 ^ 63)) @ '' B'')"
proof -
  assume "q \<ge> 2 ^ 63"
  then have "\<lfloor>q\<rfloor> \<ge> 2 ^ 63" by (simp add: le_floor_iff)
  then have "trunc64 q = - (2 ^ 63)" using \<open>q \<ge> 2 ^ 63\<close> by (simp add: trunc64_def trunc_rat_def Let_def in_int64_def)
  then show ?thesis by (simp add: status_formatBytes_def)
qed

end
