(* ===== verification/Plugin_Listing.thy ===== *)
theory Plugin_Listing
  imports Command_Line Config_Files
begin

text \<open>
  \<open>jack validate\<close> (\<open>src/cmd/validate.go\<close>), which reads the configuration files without the daemon, and the listings of \<open>jack plugin\<close> (\<open>src/cmd/plugin.go\<close>), which start the
  plugins themselves for their metadata. Files of the configuration directory hold a JSON document or are unreadable, as in \<open>Config_Files\<close>.
\<close>

section \<open>jack validate\<close>

definition GetConfigDir :: "string \<Rightarrow> string" where
  "GetConfigDir custom = (if custom \<noteq> '''' then custom else ''/etc/jack'')"

definition validateInterfaces :: "string \<Rightarrow> config_dir \<Rightarrow> unit outcome" where
  "validateInterfaces dir fs =
     (case LoadConfig dir fs ''interfaces'' of
        NotExist e \<Rightarrow> Err e
      | BadFile e \<Rightarrow> Err e
      | Loaded v \<Rightarrow>
          (case dec_InterfacesConfig v of
             Err e \<Rightarrow> Err (''failed to parse interfaces config: '' @ e)
           | Panic \<Rightarrow> Panic
           | Ok c \<Rightarrow> if entries (ic_Interfaces c) = [] then Err ''no interfaces defined'' else Ok ()))"

text \<open>
  The check for a missing file is \<open>os.IsNotExist\<close>, which looks at the error itself; the error of \<open>LoadConfig\<close> wraps the one of the system and is never one it knows.
\<close>

definition os_IsNotExist_wrapped :: bool where
  "os_IsNotExist_wrapped = False"

definition validateRoutes :: "string \<Rightarrow> config_dir \<Rightarrow> unit outcome" where
  "validateRoutes dir fs =
     (case LoadConfig dir fs ''routes'' of
        NotExist e \<Rightarrow> if os_IsNotExist_wrapped then Ok () else Err e
      | BadFile e \<Rightarrow> Err e
      | Loaded v \<Rightarrow>
          (case dec_RoutesConfig v of
             Err e \<Rightarrow> Err (''failed to parse routes config: '' @ e)
           | Panic \<Rightarrow> Panic
           | Ok _ \<Rightarrow> Ok ()))"

definition validateJackConfig :: "string \<Rightarrow> config_dir \<Rightarrow> unit outcome" where
  "validateJackConfig dir fs =
     (case LoadJackConfig dir fs of
        Err e \<Rightarrow> Err e
      | Panic \<Rightarrow> Panic
      | Ok c \<Rightarrow> if entries (jc_Plugins c) = [] then Err ''no plugins configured'' else Ok ())"

definition validateGenericJSON :: "config_dir \<Rightarrow> string \<Rightarrow> unit outcome" where
  "validateGenericJSON fs path =
     (case mget fs path of
        None \<Rightarrow> Err ''failed to read''
      | Some FBad \<Rightarrow> Err ''JSON syntax error''
      | Some (FJson _) \<Rightarrow> Ok ())"

definition mark_bad :: string where "mark_bad = [CHR 0xE2, CHR 0x9D, CHR 0x8C] @ '' ''"
definition mark_good :: string where "mark_good = [CHR 0xE2, CHR 0x9C, CHR 0x93] @ '' ''"
definition mark_absent :: string where "mark_absent = [CHR 0xE2, CHR 0x8A, CHR 0x98] @ '' ''"

text \<open>The line of one check with whether it failed; a panic of a check ends the command.\<close>

definition check_line :: "string \<Rightarrow> unit outcome \<Rightarrow> (string \<times> bool) outcome" where
  "check_line name r =
     (case r of
        Ok _ \<Rightarrow> Ok (text_line (mark_good @ name @ '': valid''), False)
      | Err e \<Rightarrow> Ok (text_line (mark_bad @ name @ '': '' @ e), True)
      | Panic \<Rightarrow> Panic)"

definition check_plugin :: "string \<Rightarrow> config_dir \<Rightarrow> string \<Rightarrow> (string \<times> bool) outcome" where
  "check_plugin dir fs name =
     (let path = dir @ ''/'' @ name in
      if mget fs path = None then Ok (text_line (mark_absent @ name @ '': not found (optional)''), False)
      else check_line name (validateGenericJSON fs path))"

fun all_checks :: "(string \<times> bool) outcome list \<Rightarrow> (string \<times> bool) outcome" where
  "all_checks [] = Ok ('''', False)"
| "all_checks (c # cs) = obind c (\<lambda>(t, b). obind (all_checks cs) (\<lambda>(ts, bs). Ok (t @ ts, b \<or> bs)))"

definition plugin_files :: "string list" where
  "plugin_files = [''nftables.json'', ''dnsmasq.json'', ''wireguard.json'']"

text \<open>The text the command prints and whether it ends with success.\<close>

definition runValidate :: "string \<Rightarrow> config_dir \<Rightarrow> (string \<times> bool) outcome" where
  "runValidate dir fs =
     obind (all_checks
         ([check_line ''interfaces.json'' (validateInterfaces dir fs), check_line ''routes.json'' (validateRoutes dir fs),
           check_line ''jack.json'' (validateJackConfig dir fs)] @ map (check_plugin dir fs) plugin_files))
       (\<lambda>(t, bad). Ok (text_line (''Validating configuration files in '' @ dir @ ''...'') @ text_line '''' @ t @ text_line '''' @
          text_line (if bad then mark_bad @ ''Validation failed - please fix the errors above'' else mark_good @ ''All configuration files are valid''), \<not> bad))"

section \<open>jack plugin list, status and info\<close>

text \<open>A plugin is started for its metadata and closed again.\<close>

definition plugin_metadata :: "('c, 'w) PluginHost \<Rightarrow> string \<Rightarrow> 'w \<Rightarrow> 'w \<times> (string + MetadataResponse)" where
  "plugin_metadata h path w =
     (case ph_NewClient h path w of
        (w1, Inl e) \<Rightarrow> (w1, Inl (''failed to start plugin: '' @ e))
      | (w1, Inr client) \<Rightarrow>
          (case ph_Dispense h client w1 of
             (w2, Inl e) \<Rightarrow> (fst (ph_Close h client w2), Inl (''failed to dispense plugin: '' @ e))
           | (w2, Inr provider) \<Rightarrow>
               (case pv_Metadata provider w2 of
                  (w3, Inl e) \<Rightarrow> (fst (ph_Close h client w3), Inl e)
                | (w3, Inr md) \<Rightarrow> (fst (ph_Close h client w3), Inr md))))"

definition getPluginMetadata :: "('c, 'w) PluginHost \<Rightarrow> string \<Rightarrow> 'w \<Rightarrow> 'w \<times> string" where
  "getPluginMetadata h path w = (case plugin_metadata h path w of (w', Inl _) \<Rightarrow> (w', '''') | (w', Inr md) \<Rightarrow> (w', mr_Description md))"

definition enabled_map :: "JackConfig outcome \<Rightarrow> string \<Rightarrow> bool" where
  "enabled_map config name =
     (case config of
        Ok c \<Rightarrow> (case mget (entries (jc_Plugins c)) name of None \<Rightarrow> False | Some st \<Rightarrow> ps_Enabled st)
      | _ \<Rightarrow> False)"

definition list_line :: "'w PluginFiles \<Rightarrow> ('c, 'w) PluginHost \<Rightarrow> JackConfig outcome \<Rightarrow> string \<Rightarrow> 'w \<times> string \<Rightarrow> 'w \<times> string" where
  "list_line files h config name s =
     (case s of (w, out) \<Rightarrow>
        case FindPlugin files pluginDirs name w of
          Inl e \<Rightarrow> (w, out @ text_line (''  '' @ name @ '' - [ERROR: '' @ e @ '']''))
        | Inr path \<Rightarrow>
            (case getPluginMetadata h path w of
               (w', md) \<Rightarrow>
                 (w', out @ text_line (''  '' @ name @ '' ['' @ (if enabled_map config name then ''enabled'' else ''disabled'') @ ''] - '' @
                       (if md \<noteq> '''' then md @ '' ('' @ path @ '')'' else path)))))"

definition runPluginList :: "'w PluginFiles \<Rightarrow> ('c, 'w) PluginHost \<Rightarrow> JackConfig outcome \<Rightarrow> 'w \<Rightarrow> 'w \<times> string" where
  "runPluginList files h config w =
     (let pluginNames = ListPlugins files pluginDirs w in
      if pluginNames = [] then (w, text_line ''No plugins found'')
      else fold (list_line files h config) (sort pluginNames) (w, text_line ''Installed plugins:''))"

definition status_line :: "'w PluginFiles \<Rightarrow> ('c, 'w) PluginHost \<Rightarrow> string \<times> PluginState \<Rightarrow> 'w \<times> string \<Rightarrow> 'w \<times> string" where
  "status_line files h p s =
     (case s of (w, out) \<Rightarrow> case p of (name, st) \<Rightarrow>
        if \<not> ps_Enabled st then (w, out)
        else case FindPlugin files pluginDirs name w of
          Inl e \<Rightarrow> (w, out @ text_line (''  '' @ name @ '' - [NOT FOUND: '' @ e @ '']''))
        | Inr path \<Rightarrow>
            (case getPluginMetadata h path w of
               (w', md) \<Rightarrow> (w', out @ text_line (''  '' @ name @ (if md \<noteq> '''' then '' - '' @ md else '''')))))"

definition runPluginStatus :: "'w PluginFiles \<Rightarrow> ('c, 'w) PluginHost \<Rightarrow> JackConfig outcome \<Rightarrow> 'w \<Rightarrow> 'w \<times> string outcome" where
  "runPluginStatus files h config w =
     (case config of
        Panic \<Rightarrow> (w, Panic)
      | Err e \<Rightarrow> (w, Err (''failed to load jack config: '' @ e))
      | Ok c \<Rightarrow>
          if entries (jc_Plugins c) = [] then (w, Ok (text_line ''No plugins enabled''))
          else (case fold (status_line files h) (entries (jc_Plugins c)) (w, text_line ''Enabled plugins:'') of (w', out) \<Rightarrow> (w', Ok out)))"

text \<open>\<open>stat\<close> gives the size of a file and whether it can be executed.\<close>

definition command_text :: "CLICommand \<Rightarrow> string" where
  "command_text c =
     text_line (if cc_Subcommands c \<noteq> [] then ''  '' @ cc_Name c @ '' ('' @ join_with '', '' (cc_Subcommands c) @ '')'' else ''  '' @ cc_Name c)"

definition metadata_text :: "MetadataResponse \<Rightarrow> string" where
  "metadata_text md =
     text_line (''Namespace: '' @ mr_Namespace md) @ text_line (''Version: '' @ mr_Version md) @ text_line (''Description: '' @ mr_Description md) @
     (if mr_Dependencies md \<noteq> [] then text_line (''Dependencies: '' @ join_with '', '' (mr_Dependencies md)) else '''') @
     (if mr_CLICommands md \<noteq> [] then text_line ''CLI Commands:'' @ concat (map command_text (mr_CLICommands md)) else '''')"

definition runPluginInfo ::
  "'w PluginFiles \<Rightarrow> ('c, 'w) PluginHost \<Rightarrow> (string \<Rightarrow> 'w \<Rightarrow> string + int \<times> bool) \<Rightarrow> JackConfig outcome \<Rightarrow> string \<Rightarrow> 'w \<Rightarrow> 'w \<times> (string + string)" where
  "runPluginInfo files h stat config pluginName w =
     (case FindPlugin files pluginDirs pluginName w of
        Inl e \<Rightarrow> (w, Inl (''plugin '' @ quoted pluginName @ '' not found: '' @ e))
      | Inr path \<Rightarrow>
          (let out = text_line (''Plugin: '' @ pluginName) @ text_line (''Path: '' @ path) in
           case stat path w of
             Inl e \<Rightarrow> (w, Inr (out @ text_line (''Status: ERROR - '' @ e)))
           | Inr (bytes, exec) \<Rightarrow>
               (let out = out @ text_line (''Size: '' @ show_int bytes @ '' bytes'') @ text_line (''Executable: '' @ (if exec then ''true'' else ''false'')) in
                case plugin_metadata h path w of
                  (w', Inl e) \<Rightarrow> (w', Inr (out @ text_line (''Metadata: ERROR - '' @ e)))
                | (w', Inr md) \<Rightarrow>
                    (w', Inr (out @ metadata_text md @
                       (case config of
                          Ok c \<Rightarrow>
                            text_line (case mget (entries (jc_Plugins c)) pluginName of
                                Some st \<Rightarrow> if ps_Enabled st then ''Status: enabled (version '' @ ps_Version st @ '')'' else ''Status: disabled''
                              | None \<Rightarrow> ''Status: disabled'')
                        | _ \<Rightarrow> '''')))))) "

text \<open>What a successful \<open>jack validate\<close> promises, and what it requires needlessly.\<close>

section \<open>What validation promises\<close>

lemma all_checks_good: "all_checks cs = Ok (t, False) \<Longrightarrow> c \<in> set cs \<Longrightarrow> \<exists>s. c = Ok (s, False)"
proof (induction cs arbitrary: t)
  case (Cons c' cs)
  then obtain s s' where "c' = Ok (s, False)" "all_checks cs = Ok (s', False)" by auto
  with Cons show ?case by auto
qed simp

lemma check_line_good: "check_line name r = Ok (s, False) \<Longrightarrow> r = Ok ()"
  by (auto simp: check_line_def split: outcome.splits)

lemma validate_checks:
  assumes "runValidate dir fs = Ok (t, True)"
  shows "validateInterfaces dir fs = Ok ()" "validateRoutes dir fs = Ok ()" "validateJackConfig dir fs = Ok ()"
    "\<And>name. name \<in> set plugin_files \<Longrightarrow> \<exists>s. check_plugin dir fs name = Ok (s, False)"
proof -
  let ?cs = "[check_line ''interfaces.json'' (validateInterfaces dir fs), check_line ''routes.json'' (validateRoutes dir fs),
    check_line ''jack.json'' (validateJackConfig dir fs)] @ map (check_plugin dir fs) plugin_files"
  obtain ts where "all_checks ?cs = Ok (ts, False)" using assms unfolding runValidate_def by (auto simp del: all_checks.simps append.simps)
  note good = all_checks_good [OF this]
  show "validateInterfaces dir fs = Ok ()" "validateRoutes dir fs = Ok ()" "validateJackConfig dir fs = Ok ()"
    using good check_line_good by (metis append_Cons list.set_intros)+
  show "\<exists>s. check_plugin dir fs name = Ok (s, False)" if "name \<in> set plugin_files" for name
    using good [of "check_plugin dir fs name"] that by auto
qed


definition ex_valid_files :: config_dir where
  "ex_valid_files =
     [(config_path ''/etc/jack'' ''interfaces'', FJson (JObj [(''interfaces'', JObj [(''wan'', JObj [(''type'', JStr ''physical'')])])])),
      (config_path ''/etc/jack'' ''routes'', FJson (JObj []))]"

definition no_kernel :: Netlink where
  "no_kernel = \<lparr>nl_LinkList = None, nl_LinkByIndex = \<lambda>_. None, nl_AddrList = \<lambda>_. None, nl_RouteList = None\<rparr>"

lemma ex_valid_run: "(case runValidate ''/etc/jack'' ex_valid_files of Ok (_, b) \<Rightarrow> b | _ \<Rightarrow> False)"
  by code_simp


text \<open>Without a file of routes it fails, although the comment of the code calls the file optional.\<close>

lemma validate_needs_routes: "mget fs (config_path dir ''routes'') = None \<Longrightarrow> runValidate dir fs \<noteq> Ok (t, True)"
  using validate_checks(2) [of dir fs t] by (auto simp: validateRoutes_def LoadConfig_def os_IsNotExist_wrapped_def)

end
