(* ===== verification/Checkpoint_List.thy ===== *)
theory Checkpoint_List
  imports Cli_Facts
begin

text \<open>
  \<open>jack checkpoint list\<close> (\<open>src/cmd/checkpoint.go\<close>) and what it shows: the checkpoints the daemon holds. \<open>parse_time\<close> reads a time in the form of RFC 3339, \<open>shown\<close> is the time to
  the second, as the table has it.
\<close>

section \<open>The command\<close>

definition zero_SnapshotInfo :: SnapshotInfo where
  "zero_SnapshotInfo = \<lparr>si_CheckpointID = '''', si_Timestamp = 0, si_Trigger = ''''\<rparr>"

definition time_handler :: "(string \<Rightarrow> string + int) \<Rightarrow> json \<Rightarrow> SnapshotInfo \<Rightarrow> SnapshotInfo outcome" where
  "time_handler parse_time v s =
     (case v of
        JNull \<Rightarrow> Ok s
      | JStr t \<Rightarrow> (case parse_time t of Inl e \<Rightarrow> Err e | Inr i \<Rightarrow> Ok (s\<lparr>si_Timestamp := i\<rparr>))
      | _ \<Rightarrow> Err ''Time.UnmarshalJSON: input is not a JSON string'')"

definition SnapshotInfo_fields :: "(string \<Rightarrow> string + int) \<Rightarrow> SnapshotInfo handler list" where
  "SnapshotInfo_fields parse_time =
     [str_field ''checkpoint_id'' si_CheckpointID si_CheckpointID_update, (''timestamp'', time_handler parse_time),
      str_field ''trigger'' si_Trigger si_Trigger_update]"

definition dec_SnapshotInfo :: "(string \<Rightarrow> string + int) \<Rightarrow> json \<Rightarrow> SnapshotInfo outcome" where
  "dec_SnapshotInfo parse_time v = dec_object ''daemon.SnapshotInfo'' (SnapshotInfo_fields parse_time) v zero_SnapshotInfo"

definition checkpoint_row :: "string \<Rightarrow> string \<Rightarrow> string \<Rightarrow> string" where
  "checkpoint_row i t g = text_line (pad_right 30 i @ '' '' @ pad_right 25 t @ '' '' @ pad_right 10 g)"

definition checkpoint_table :: "(int \<Rightarrow> string) \<Rightarrow> SnapshotInfo list \<Rightarrow> string" where
  "checkpoint_table shown infos =
     (if infos = [] then text_line ''No checkpoints available''
      else checkpoint_row ''CHECKPOINT ID'' ''TIMESTAMP'' ''TRIGGER'' @ text_line (replicate 70 (CHR ''-'')) @
        concat (map (\<lambda>s. checkpoint_row (si_CheckpointID s) (shown (si_Timestamp s)) (si_Trigger s)) infos))"

definition run_checkpoint_list :: "(string \<Rightarrow> string + int) \<Rightarrow> (int \<Rightarrow> string) \<Rightarrow> 'w sender \<Rightarrow> 'w \<Rightarrow> 'w \<times> string outcome" where
  "run_checkpoint_list parse_time shown send w =
     (case send_ok send (request ''checkpoint-list'') w of
        (w', Inl e) \<Rightarrow> (w', Err e)
      | (w', Inr r) \<Rightarrow>
          (w', obind (wrap_err ''failed to parse snapshots: ''
                   (dec_slice ''[]'' (dec_SnapshotInfo parse_time) (case rs_Data r of None \<Rightarrow> JNull | Some v \<Rightarrow> v)))
                 (\<lambda>infos. Ok (checkpoint_table shown (elems infos)))))"

section \<open>What it shows\<close>

lemma dec_enc_SnapshotInfo:
  assumes "parse_time (stamp (si_Timestamp s)) = Inr (si_Timestamp s)"
  shows "dec_SnapshotInfo parse_time (enc_SnapshotInfo stamp s) = Ok s"
  using assms
  by (simp add: dec_SnapshotInfo_def enc_SnapshotInfo_def dec_object_def dec_pairs_Cons dec_pairs_Nil SnapshotInfo_fields_def find_handler_def
      field_of_def dec_string_def time_handler_def zero_SnapshotInfo_def)

lemma dec_SnapshotInfos:
  assumes "\<And>s. s \<in> set ss \<Longrightarrow> parse_time (stamp (si_Timestamp s)) = Inr (si_Timestamp s)"
  shows "dec_slice t (dec_SnapshotInfo parse_time) (JArr (map (enc_SnapshotInfo stamp) ss)) = Ok (Some ss)"
proof -
  have "ofold (\<lambda>v acc. obind (dec_SnapshotInfo parse_time v) (\<lambda>x. Ok (acc @ [x]))) (map (enc_SnapshotInfo stamp) ss) acc = Ok (acc @ ss)" for acc
    using assms by (induction ss arbitrary: acc) (simp_all add: dec_enc_SnapshotInfo)
  from this [of "[]"] show ?thesis by (simp add: dec_slice_def)
qed

text \<open>
  The command shows exactly the checkpoints the daemon holds in memory, one row each from the oldest to the newest, with identifier, time and trigger, when
  times survive their printed form; it changes nothing.\<close>

theorem checkpoint_list_exact:
  assumes "\<And>s. s \<in> set (ListSnapshots (sv_state (dm_server d))) \<Longrightarrow> parse_time (stamp (si_Timestamp s)) = Inr (si_Timestamp s)"
  shows "run_checkpoint_list parse_time shown (daemon_sender load available sys qu fmtv env stamp) d =
    (d, Ok (checkpoint_table shown (ListSnapshots (sv_state (dm_server d)))))"
proof -
  let ?ss = "ListSnapshots (sv_state (dm_server d))"
  have "daemon_sender load available sys qu fmtv env stamp (request ''checkpoint-list'') d = (d, Inr (seen_response stamp (okay (DSnapshots ?ss) '''')))"
    by (simp add: daemon_sender_def handleRequest_def request_def reading_def handleCheckpointList_def)
  moreover have "dec_slice ''[]'' (dec_SnapshotInfo parse_time)
      (case rs_Data (seen_response stamp (okay (DSnapshots ?ss) '''')) of None \<Rightarrow> JNull | Some v \<Rightarrow> v) = Ok (if ?ss = [] then None else Some ?ss)"
    using dec_SnapshotInfos [of ?ss parse_time stamp "''[]''"] assms by (simp add: dec_slice_def)
  ultimately show ?thesis by (simp add: run_checkpoint_list_def send_ok_def elems_def)
qed

end
