(* ===== verification/Service_Calls.thy ===== *)
theory Service_Calls
  imports Firewall_Log_Facts Plugin_Process_Facts Examples
begin

text \<open>
  A call of one plugin to a service of another: the RPC client of the daemon service in the calling plugin, the daemon's \<open>DaemonServiceImpl\<close> over its service registry
  (\<open>src/daemon/service_registry.go\<close>), and the RPC client of the providing plugin. The chain answers as the provider does, so the firewall log works across three processes.
\<close>

section \<open>The daemon service\<close>

text \<open>
  The registry is a part of the state; \<open>provider\<close> is the provider behind the loader of a registered plugin, and \<open>block\<close> is the wait itself, which ends when the service is
  ready or the deadline has passed, while other steps go on.
\<close>

definition registry_CallService ::
  "('w \<Rightarrow> ServiceRegistry) \<Rightarrow> (Plugin \<Rightarrow> 'w Provider) \<Rightarrow> string \<Rightarrow> string \<Rightarrow> json \<Rightarrow> ('w, json) call" where
  "registry_CallService registry provider serviceName meth argsJSON w =
     (case CallService_target (registry w) serviceName of
        Ok plugin \<Rightarrow>
          (case pv_CallService (provider plugin) serviceName meth argsJSON w of
             (w', Inl e) \<Rightarrow> (w', Inl e)
           | (w', Inr v) \<Rightarrow> (w', Inr (case v of None \<Rightarrow> JNull | Some x \<Rightarrow> x)))
      | Err e \<Rightarrow> (w, Inl e)
      | Panic \<Rightarrow> (w, Inl ''''))"

definition registry_WaitForService :: "('w \<Rightarrow> ServiceRegistry) \<Rightarrow> (int option \<Rightarrow> string \<Rightarrow> 'w act) \<Rightarrow> int option \<Rightarrow> string \<Rightarrow> 'w act" where
  "registry_WaitForService registry block deadline serviceName w =
     (case WaitForService False (registry w) serviceName of Some r \<Rightarrow> (w, r) | None \<Rightarrow> block deadline serviceName w)"

definition registry_WaitForServices :: "('w \<Rightarrow> ServiceRegistry) \<Rightarrow> (int option \<Rightarrow> string \<Rightarrow> 'w act) \<Rightarrow> int option \<Rightarrow> string list \<Rightarrow> 'w act" where
  "registry_WaitForServices registry block deadline = each (registry_WaitForService registry block deadline)"

definition DaemonServiceImpl ::
  "('w \<Rightarrow> ServiceRegistry) \<Rightarrow> (Plugin \<Rightarrow> 'w Provider) \<Rightarrow> (int option \<Rightarrow> string \<Rightarrow> 'w act) \<Rightarrow> 'w DaemonService" where
  "DaemonServiceImpl registry provider block =
     \<lparr>ds_IsServiceReady = (\<lambda>name w. IsServiceReady (registry w) name),
      ds_WaitForService = registry_WaitForService registry block,
      ds_WaitForServices = registry_WaitForServices registry block,
      ds_CallService = registry_CallService registry provider\<rparr>"

section \<open>The chain\<close>

text \<open>The service of a plugin as its caller sees it: a missing result is null.\<close>

definition service_answer :: "'w \<times> (string + json option) \<Rightarrow> 'w \<times> (string + json)" where
  "service_answer r = (fst r, map_sum (\<lambda>e. e) (\<lambda>v. case v of None \<Rightarrow> JNull | Some x \<Rightarrow> x) (snd r))"

lemma client_call_at: "snd (f w) \<noteq> Inl '''' \<Longrightarrow> client_call (\<lambda>_. None) (serve_call zero f) w = f w"
  by (cases "f w") (auto simp: client_call_def serve_call_def ErrFromString_def split: sum.splits)

lemma registry_call:
  assumes "CallService_target (registry w) name = Ok plugin"
  shows "registry_CallService registry provider name meth args w = service_answer (pv_CallService (provider plugin) name meth args w)"
  using assms by (cases "pv_CallService (provider plugin) name meth args w") (auto simp: registry_CallService_def service_answer_def split: sum.splits)

text \<open>The errors of the registry have a text.\<close>

lemma target_error_text: "CallService_target r name = Err e \<Longrightarrow> e \<noteq> ''''"
  by (auto simp: CallService_target_def split: option.splits)

lemma service_chain:
  assumes "CallService_target (registry w) name = Ok plugin" "provider plugin = RPCClient (\<lambda>_. None) impl"
    and "snd (pv_CallService impl name meth args w) \<noteq> Inl ''''"
  shows "ds_CallService (DaemonServiceClient (\<lambda>_. None) (DaemonServiceImpl registry provider block)) name meth args w =
    service_answer (pv_CallService impl name meth args w)"
proof -
  have rpc: "pv_CallService (provider plugin) name meth args w = pv_CallService impl name meth args w"
    using client_call_at [where f = "pv_CallService impl name meth args" and w = w and zero = None] assms(2,3)
    by (simp add: RPCClient_def client_CallService_def server_CallService_def)
  have reg: "registry_CallService registry provider name meth args w = service_answer (pv_CallService impl name meth args w)"
    by (simp only: registry_call [where registry = registry and w = w and plugin = plugin, OF assms(1)] rpc)
  have "snd (service_answer (pv_CallService impl name meth args w)) \<noteq> Inl ''''"
    using assms(3) by (cases "snd (pv_CallService impl name meth args w)") (simp_all add: service_answer_def)
  with reg show ?thesis
    by (simp add: DaemonServiceClient_def DaemonServiceImpl_def daemon_CallService_def dss_CallService_def client_call_at)
qed

text \<open>
  C36 (service_call_exact): a plugin that calls a service through the daemon over working connections gets exactly what the plugin behind the service answers, with its effects and
  errors, when the registry knows the service; otherwise it gets the error of the registry and nothing else happens.\<close>

theorem service_call_exact:
  assumes "\<And>plugin. provider plugin = RPCClient (\<lambda>_. None) (impl plugin)"
    and "\<And>plugin. snd (pv_CallService (impl plugin) name meth args w) \<noteq> Inl ''''"
  shows "ds_CallService (DaemonServiceClient (\<lambda>_. None) (DaemonServiceImpl registry provider block)) name meth args w =
    (case GetServiceProvider (registry w) name of
       None \<Rightarrow> (w, Inl (''service '' @ quoted name @ '' not found''))
     | Some ns \<Rightarrow>
         (case mget (sr_plugins (registry w)) ns of
            None \<Rightarrow> (w, Inl (''provider plugin '' @ quoted ns @ '' for service '' @ quoted name @ '' not found''))
          | Some plugin \<Rightarrow> service_answer (pv_CallService (impl plugin) name meth args w)))"
proof (cases "CallService_target (registry w) name")
  case (Ok plugin)
  have "ds_CallService (DaemonServiceClient (\<lambda>_. None) (DaemonServiceImpl registry provider block)) name meth args w =
      service_answer (pv_CallService (impl plugin) name meth args w)"
    by (rule service_chain [where plugin = plugin]) (use Ok assms in auto)
  with Ok show ?thesis
    by (auto simp: CallService_target_def GetServiceProvider_def split: option.splits)
next
  case (Err e)
  from target_error_text [OF Err] Err show ?thesis
    by (auto simp: DaemonServiceClient_def DaemonServiceImpl_def daemon_CallService_def client_call_def serve_call_def registry_CallService_def
      ErrFromString_def CallService_target_def GetServiceProvider_def dss_CallService_def split: option.splits)
next
  case Panic
  then show ?thesis by (simp add: CallService_target_def split: option.splits)
qed

section \<open>The firewall log across three processes\<close>

text \<open>The database plugin as a provider of its service.\<close>

definition sqlite_serves :: "('d, 'w) SqlDriver \<Rightarrow> 'd SQLite3 \<Rightarrow> 'w Provider \<Rightarrow> bool" where
  "sqlite_serves e s impl \<longleftrightarrow>
     (\<forall>name meth args w. pv_CallService impl name meth args w = (case SQLite3_CallService e s name meth args w of (w', r) \<Rightarrow> (w', map_sum (\<lambda>x. x) Some r)))"

lemma service_answer_Some: "service_answer (case p of (w', r) \<Rightarrow> (w', map_sum (\<lambda>x. x) Some r)) = p"
  by (cases p; cases "snd p") (auto simp: service_answer_def)

lemma chain_serves:
  assumes "sqlite_serves e s impl" "s3_provider s = Some p"
    and "\<And>w. CallService_target (registry w) ''database'' = Ok plugin" "provider plugin = RPCClient (\<lambda>_. None) impl"
  shows "serves e (dp_db p) \<lparr>fd_daemonService = Some (DaemonServiceClient (\<lambda>_. None) (DaemonServiceImpl registry provider block)), fd_schemaInit = b\<rparr>"
proof -
  let ?ds = "DaemonServiceClient (\<lambda>_. None) (DaemonServiceImpl registry provider block)"
  have "ds_CallService ?ds ''database'' meth args w = (w', Inr v)" if "SQLite3_CallService e s ''database'' meth args w = (w', Inr v)" for meth args w w' v
  proof -
    have call: "pv_CallService impl ''database'' meth args w = (w', Inr (Some v))" using assms(1) that by (simp add: sqlite_serves_def)
    have "ds_CallService ?ds ''database'' meth args w = service_answer (pv_CallService impl ''database'' meth args w)"
      by (rule service_chain [where plugin = plugin]) (use assms(3,4) call in auto)
    with call show ?thesis by (simp add: service_answer_def)
  qed
  with assms(2) show ?thesis by (auto simp: serves_def)
qed

text \<open>So what the firewall logs in its process is read back by it from the database in another, through the daemon.\<close>

lemma log_read_back_rpc:
  assumes "log_table_laws e (dp_db p) tbl" "sqlite_serves e s impl" "s3_provider s = Some p"
    and "\<And>w. CallService_target (registry w) ''database'' = Ok plugin" "provider plugin = RPCClient (\<lambda>_. None) impl"
    and "tbl w = []" "n > 0" "\<forall>x \<in> set xs. fe_SrcPort x < 65536 \<and> fe_DstPort x < 65536"
    and "db = \<lparr>fd_daemonService = Some (DaemonServiceClient (\<lambda>_. None) (DaemonServiceImpl registry provider block)), fd_schemaInit = b\<rparr>"
  shows "\<exists>w1 w2. insert_all db xs w = (w1, Ok ()) \<and> QueryLogs db n w1 = (w2, Ok (take (nat n) (rev (map log_entry xs))))"
proof -
  have served: "serves e (dp_db p) db"
    unfolding assms(9) by (rule chain_serves [where plugin = plugin]) (use assms in auto)
  from insert_all_appends [OF assms(1) served, of xs w] obtain w1 where w1: "insert_all db xs w = (w1, Ok ())" "tbl w1 = map entry_row xs"
    using assms(6) by auto
  from QueryLogs_reads [OF assms(1) served assms(7) w1(2) assms(8)] w1(1) show ?thesis by blast
qed

section \<open>Three processes\<close>

definition ex_sqlite :: "sqlval list list Provider" where
  "ex_sqlite =
     \<lparr>pv_Metadata = (\<lambda>w. (w, Inr zero_Metadata)), pv_ApplyConfig = (\<lambda>_. nop), pv_ValidateConfig = (\<lambda>_. nop), pv_Flush = nop,
      pv_Status = (\<lambda>w. (w, Inr None)), pv_ExecuteCLICommand = (\<lambda>_ _ w. (w, Inr '''')), pv_OnLogEvent = (\<lambda>_. nop),
      pv_GetProvidedServices = (\<lambda>w. (w, Inr [])),
      pv_CallService = (\<lambda>name meth args w.
        case SQLite3_CallService ex_driver \<lparr>s3_provider = Some ex_provider, s3_lastPath = ''/var/lib/jack/data.db''\<rparr> name meth args w of
          (w', r) \<Rightarrow> (w', map_sum (\<lambda>x. x) Some r))\<rparr>"

definition ex_database_registry :: ServiceRegistry where
  "ex_database_registry = fst (RegisterPlugin ''sqlite3'' ex_plugin [''database''] NewServiceRegistry)"

theorem service_call_exact_witness:
  "ds_CallService (DaemonServiceClient (\<lambda>_. None) (DaemonServiceImpl (\<lambda>_. ex_database_registry) (\<lambda>_. RPCClient (\<lambda>_. None) ex_sqlite) (\<lambda>_ _. nop)))
     ''database'' ''Nonsense'' JNull [] = ([], Inl ''unknown method: Nonsense'')"
proof -
  have answer: "pv_CallService ex_sqlite ''database'' ''Nonsense'' JNull [] = ([], Inl ''unknown method: Nonsense'')"
    by (simp add: ex_sqlite_def SQLite3_CallService_def)
  have found: "GetServiceProvider ex_database_registry ''database'' = Some ''sqlite3''" "mget (sr_plugins ex_database_registry) ''sqlite3'' = Some ex_plugin"
    by (simp_all add: ex_database_registry_def GetServiceProvider_def RegisterPlugin_def register_service_def NewServiceRegistry_def)
  show ?thesis
    by (subst service_call_exact [where impl = "\<lambda>_. ex_sqlite"]) (simp_all add: found answer service_answer_def)
qed

end
