(* ===== verification/Daemon_Process.thy ===== *)
theory Daemon_Process
  imports Connection Daemon_Invariant Command_Line_Facts
begin

text \<open>
  The daemon process (\<open>src/cmd/daemon.go\<close>): its start up to the accept loop, and its end on a signal, where a goroutine stops the server while the main goroutine leaves
  the accept loop, and whichever comes first ends the process.
\<close>

section \<open>Start\<close>

text \<open>The process has exited with a status, listens, has crashed with a panic, or hangs. \<open>os.Exit\<close> runs no deferred call, so the PID file stays.\<close>

datatype 'w daemon_process = Exited int 'w | Listening "'w Daemon" | Crashed | Hung

definition pid_file :: "string \<Rightarrow> string" where
  "pid_file env = (if env = '''' then ''/var/run/jack.pid'' else env)"

definition runDaemon ::
  "'w PidHost \<Rightarrow> ('h, 'w) LogHost \<Rightarrow> (json \<Rightarrow> string) \<Rightarrow> 'w ListenHost \<Rightarrow> (string \<Rightarrow> Plugin outcome) \<Rightarrow> 'w System \<Rightarrow> Netlink \<Rightarrow>
   (string \<times> bool) list option \<Rightarrow> Env \<Rightarrow> string \<Rightarrow> string \<Rightarrow> int \<Rightarrow> string \<Rightarrow> string \<Rightarrow> config_dir \<Rightarrow> snapshot_dir \<Rightarrow> bool \<Rightarrow> 'w \<Rightarrow> 'w daemon_process" where
  "runDaemon ph lh text_of nh load sys nl listed env now pid_env pid socket_env dir files snaps applyOnStart w =
     (case claim_pid_file ph pid_env pid w of
        (w1, Some e) \<Rightarrow> Exited 1 w1
      | (w1, None) \<Rightarrow>
          (case initializeLogger lh text_of now w1 of
             (w2, Panic) \<Rightarrow> Crashed
           | (w2, Err e) \<Rightarrow> Exited 1 w2
           | (w2, Ok _) \<Rightarrow>
               (case NewServer nh socket_env dir files w2 of
                  (w3, Inl e) \<Rightarrow> Exited 1 w3
                | (w3, Inr sv) \<Rightarrow>
                    (case Start load sys nl listed env applyOnStart
                            \<lparr>dm_server = sv, dm_snaps = snaps, dm_observer = None, dm_reconciles = 0, dm_world = w3\<rparr> of
                       None \<Rightarrow> Hung
                     | Some Panic \<Rightarrow> Crashed
                     | Some (Err e) \<Rightarrow> Exited 1 w3
                     | Some (Ok (d, Some e)) \<Rightarrow> Exited 1 (dm_world d)
                     | Some (Ok (d, None)) \<Rightarrow> Listening d))))"

text \<open>A daemon that listens is in a reachable state, so everything shown of those holds of it.\<close>

lemma listening_reachable:
  assumes "runDaemon ph lh text_of nh load sys nl listed env now pid_env pid socket_env dir files snaps applyOnStart w = Listening d"
  shows "reachable load d"
proof -
  have "\<exists>w3. Start load sys nl listed env applyOnStart (fresh dir files snaps w3) = Some (Ok (d, None))"
    using assms unfolding runDaemon_def NewServer_def new_server_def fresh_def
    by (auto simp: Let_def split: prod.splits option.splits outcome.splits sum.splits)
  then show ?thesis by (blast intro: reachable.started)
qed

text \<open>
  While a daemon runs whose number is in the PID file, a second one ends at once with status 1 and changes nothing; in particular it does not
  remove the socket of the first, which the creation of its server would do without asking.\<close>

lemma second_daemon_refused:
  assumes "pd_ReadFile ph (pid_file pid_env) w = Content (text_line (show_int pid))" "pd_Alive ph pid w" "0 \<le> pid" "in_int64 pid"
  shows "runDaemon ph lh text_of nh load sys nl listed env now pid_env own socket_env dir files snaps applyOnStart w = Exited 1 w"
  using pid_file_excludes [OF assms(1,3,4)] assms(2) by (simp add: runDaemon_def claim_pid_file_def pid_file_def)

text \<open>A start that fails after the PID file was written leaves it behind: the deferred removal does not run.\<close>

lemma failed_start_keeps_pid:
  assumes "claim_pid_file ph pid_env pid w = (w1, None)" "initializeLogger lh text_of now w1 = (w2, Err e)"
  shows "runDaemon ph lh text_of nh load sys nl listed env now pid_env pid socket_env dir files snaps applyOnStart w = Exited 1 w2"
  using assms by (simp add: runDaemon_def)

section \<open>End\<close>

text \<open>
  After a signal its goroutine calls \<open>Stop\<close> (close the channel \<open>done\<close>, close the listener, which also removes the socket, close the plugins, remove the socket) and exits. The main
  goroutine is in the accept loop; an error of \<open>Accept\<close> makes it look at \<open>done\<close> and return, which removes the PID file and ends the process.
\<close>

datatype signal_phase = SWaiting | SStop | SListener | SPlugins | SSocket | SExit

datatype main_phase = MAccept | MFailed | MReturned | MEnd

record shutdown =
  sh_signal :: signal_phase
  sh_main :: main_phase
  sh_done :: bool
  sh_listening :: bool
  sh_plugins_closed :: bool
  sh_socket :: bool
  sh_pid_file :: bool
  sh_exited :: bool

definition running :: shutdown where
  "running = \<lparr>sh_signal = SWaiting, sh_main = MAccept, sh_done = False, sh_listening = True, sh_plugins_closed = False, sh_socket = True,
     sh_pid_file = True, sh_exited = False\<rparr>"

inductive shutdown_step :: "shutdown \<Rightarrow> shutdown \<Rightarrow> bool" where
  signalled: "\<not> sh_exited s \<Longrightarrow> sh_signal s = SWaiting \<Longrightarrow> shutdown_step s (s\<lparr>sh_signal := SStop\<rparr>)"
| close_done: "\<not> sh_exited s \<Longrightarrow> sh_signal s = SStop \<Longrightarrow> shutdown_step s (s\<lparr>sh_done := True, sh_signal := SListener\<rparr>)"
| close_listener: "\<not> sh_exited s \<Longrightarrow> sh_signal s = SListener \<Longrightarrow> shutdown_step s (s\<lparr>sh_listening := False, sh_socket := False, sh_signal := SPlugins\<rparr>)"
| close_plugins: "\<not> sh_exited s \<Longrightarrow> sh_signal s = SPlugins \<Longrightarrow> shutdown_step s (s\<lparr>sh_plugins_closed := True, sh_signal := SSocket\<rparr>)"
| remove_socket: "\<not> sh_exited s \<Longrightarrow> sh_signal s = SSocket \<Longrightarrow> shutdown_step s (s\<lparr>sh_socket := False, sh_signal := SExit\<rparr>)"
| signal_exit: "\<not> sh_exited s \<Longrightarrow> sh_signal s = SExit \<Longrightarrow> shutdown_step s (s\<lparr>sh_exited := True\<rparr>)"
| accept_fails: "\<not> sh_exited s \<Longrightarrow> sh_main s = MAccept \<Longrightarrow> shutdown_step s (s\<lparr>sh_main := MFailed\<rparr>)"
| accept_again: "\<not> sh_exited s \<Longrightarrow> sh_main s = MFailed \<Longrightarrow> \<not> sh_done s \<Longrightarrow> shutdown_step s (s\<lparr>sh_main := MAccept\<rparr>)"
| returns: "\<not> sh_exited s \<Longrightarrow> sh_main s = MFailed \<Longrightarrow> sh_done s \<Longrightarrow> shutdown_step s (s\<lparr>sh_main := MReturned\<rparr>)"
| remove_pid: "\<not> sh_exited s \<Longrightarrow> sh_main s = MReturned \<Longrightarrow> shutdown_step s (s\<lparr>sh_pid_file := False, sh_main := MEnd\<rparr>)"
| main_exit: "\<not> sh_exited s \<Longrightarrow> sh_main s = MEnd \<Longrightarrow> shutdown_step s (s\<lparr>sh_exited := True\<rparr>)"

definition shutdown_inv :: "shutdown \<Rightarrow> bool" where
  "shutdown_inv s \<longleftrightarrow>
     (sh_done s \<longleftrightarrow> sh_signal s \<in> {SListener, SPlugins, SSocket, SExit}) \<and>
     (sh_listening s \<longleftrightarrow> sh_signal s \<in> {SWaiting, SStop, SListener}) \<and> (sh_socket s \<longleftrightarrow> sh_listening s) \<and>
     (sh_plugins_closed s \<longleftrightarrow> sh_signal s \<in> {SSocket, SExit}) \<and>
     (sh_main s \<in> {MReturned, MEnd} \<longrightarrow> sh_done s) \<and> (sh_pid_file s \<longleftrightarrow> sh_main s \<noteq> MEnd) \<and>
     (sh_exited s \<longrightarrow> sh_signal s = SExit \<or> sh_main s = MEnd)"

lemma shutdown_step_inv: "shutdown_step s s' \<Longrightarrow> shutdown_inv s \<Longrightarrow> shutdown_inv s'"
  by (erule shutdown_step.cases; cases "sh_signal s"; cases "sh_main s"; auto simp: shutdown_inv_def)

lemma shutdown_reachable_inv: "shutdown_step\<^sup>*\<^sup>* running s \<Longrightarrow> shutdown_inv s"
  by (induction rule: rtranclp_induct) (simp add: shutdown_inv_def running_def, rule shutdown_step_inv)

definition can_end :: "shutdown \<Rightarrow> bool" where
  "can_end s \<longleftrightarrow> (\<exists>t. shutdown_step\<^sup>*\<^sup>* s t \<and> sh_exited t)"

lemma can_end_step: "shutdown_step s s' \<Longrightarrow> can_end s' \<Longrightarrow> can_end s"
  unfolding can_end_def by (meson converse_rtranclp_into_rtranclp)

lemma can_end_exited: "sh_exited s \<Longrightarrow> can_end s"
  unfolding can_end_def by blast

lemma signal_goroutine_ends:
  assumes "\<not> sh_exited s" "sh_signal s \<noteq> SWaiting"
  shows "can_end s"
proof -
  have exit: "can_end s" if "\<not> sh_exited s" "sh_signal s = SExit" for s
    by (rule can_end_step [OF signal_exit [OF that]]) (simp add: can_end_exited)
  have socket: "can_end s" if "\<not> sh_exited s" "sh_signal s = SSocket" for s
    by (rule can_end_step [OF remove_socket [OF that]], rule exit) (use that in simp_all)
  have plugins: "can_end s" if "\<not> sh_exited s" "sh_signal s = SPlugins" for s
    by (rule can_end_step [OF close_plugins [OF that]], rule socket) (use that in simp_all)
  have listener: "can_end s" if "\<not> sh_exited s" "sh_signal s = SListener" for s
    by (rule can_end_step [OF close_listener [OF that]], rule plugins) (use that in simp_all)
  have stop: "can_end s" if "\<not> sh_exited s" "sh_signal s = SStop" for s
    by (rule can_end_step [OF close_done [OF that]], rule listener) (use that in simp_all)
  from assms exit socket plugins listener stop show ?thesis by (cases "sh_signal s") simp_all
qed


text \<open>Both ways to end, with what each leaves behind.\<close>

definition stopped_first :: shutdown where
  "stopped_first = running\<lparr>sh_signal := SExit, sh_done := True, sh_listening := False, sh_plugins_closed := True, sh_socket := False, sh_exited := True\<rparr>"

lemma pid_file_may_stay: "shutdown_step\<^sup>*\<^sup>* running stopped_first \<and> sh_exited stopped_first \<and> sh_pid_file stopped_first"
proof -
  let ?s1 = "running\<lparr>sh_signal := SStop\<rparr>"
  let ?s2 = "?s1\<lparr>sh_done := True, sh_signal := SListener\<rparr>"
  let ?s3 = "?s2\<lparr>sh_listening := False, sh_socket := False, sh_signal := SPlugins\<rparr>"
  let ?s4 = "?s3\<lparr>sh_plugins_closed := True, sh_signal := SSocket\<rparr>"
  let ?s5 = "?s4\<lparr>sh_socket := False, sh_signal := SExit\<rparr>"
  have steps: "shutdown_step running ?s1" "shutdown_step ?s1 ?s2" "shutdown_step ?s2 ?s3" "shutdown_step ?s3 ?s4" "shutdown_step ?s4 ?s5"
    "shutdown_step ?s5 (?s5\<lparr>sh_exited := True\<rparr>)"
    by (rule signalled close_done close_listener close_plugins remove_socket signal_exit; simp add: running_def)+
  have "stopped_first = ?s5\<lparr>sh_exited := True\<rparr>" by (simp add: stopped_first_def running_def)
  with steps(6) have last: "shutdown_step ?s5 stopped_first" by (simp only:)
  have "shutdown_step\<^sup>*\<^sup>* running stopped_first"
    using steps(1-5) last by (meson converse_rtranclp_into_rtranclp rtranclp.rtrancl_refl)
  then show ?thesis by (simp add: stopped_first_def running_def)
qed

definition returned_first :: shutdown where
  "returned_first = running\<lparr>sh_signal := SListener, sh_main := MEnd, sh_done := True, sh_pid_file := False, sh_exited := True\<rparr>"

lemma plugins_may_stay: "shutdown_step\<^sup>*\<^sup>* running returned_first \<and> sh_exited returned_first \<and> \<not> sh_plugins_closed returned_first"
proof -
  let ?s1 = "running\<lparr>sh_signal := SStop\<rparr>"
  let ?s2 = "?s1\<lparr>sh_done := True, sh_signal := SListener\<rparr>"
  let ?s3 = "?s2\<lparr>sh_main := MFailed\<rparr>"
  let ?s4 = "?s3\<lparr>sh_main := MReturned\<rparr>"
  let ?s5 = "?s4\<lparr>sh_pid_file := False, sh_main := MEnd\<rparr>"
  have steps: "shutdown_step running ?s1" "shutdown_step ?s1 ?s2" "shutdown_step ?s2 ?s3" "shutdown_step ?s3 ?s4" "shutdown_step ?s4 ?s5"
    "shutdown_step ?s5 (?s5\<lparr>sh_exited := True\<rparr>)"
    by (rule signalled close_done accept_fails returns remove_pid main_exit; simp add: running_def)+
  have "returned_first = ?s5\<lparr>sh_exited := True\<rparr>" by (simp add: returned_first_def running_def)
  with steps(6) have last: "shutdown_step ?s5 returned_first" by (simp only:)
  have "shutdown_step\<^sup>*\<^sup>* running returned_first"
    using steps(1-5) last by (meson converse_rtranclp_into_rtranclp rtranclp.rtrancl_refl)
  then show ?thesis by (simp add: returned_first_def running_def)
qed


end
