(* ===== verification/Mocks.thy ===== *)
theory Mocks
  imports Kernel
begin

text \<open>
  The clients the tests give to the managers (\<open>src/system/mocks.go\<close>). A mock counts its calls and answers with the errors that were injected. Its lists of addresses and routes are
  slices, and what \<open>AddrList\<close> and \<open>RouteList\<close> return shares the array of the mock; so the arrays are modelled, and a slice is an array with a length.
\<close>

section \<open>Slices\<close>

record array_slice =
  sl_array :: nat
  sl_len :: nat

type_synonym 'a arrays = "'a list list"

definition contents :: "'a arrays \<Rightarrow> array_slice \<Rightarrow> 'a list" where
  "contents h s = take (sl_len s) (h ! sl_array s)"

text \<open>
  \<open>append\<close> writes behind the slice when its array has room and moves to a new array otherwise, whose capacity the runtime chooses; None is the nil slice.
\<close>

fun go_append :: "(nat \<Rightarrow> nat) \<Rightarrow> 'a \<Rightarrow> 'a \<Rightarrow> 'a arrays \<Rightarrow> array_slice option \<Rightarrow> 'a arrays \<times> array_slice" where
  "go_append capacity zero x h None = (h @ [x # replicate (capacity 1 - 1) zero], \<lparr>sl_array = length h, sl_len = 1\<rparr>)"
| "go_append capacity zero x h (Some s) =
     (let a = h ! sl_array s; n = sl_len s in
      if n < length a then (h[sl_array s := a[n := x]], s\<lparr>sl_len := n + 1\<rparr>)
      else (h @ [take n a @ x # replicate (capacity (n + 1) - (n + 1)) zero], \<lparr>sl_array = length h, sl_len = n + 1\<rparr>))"

text \<open>\<open>append(xs[:i], xs[i+1:]...)\<close>: the elements after the removed one move down in the same array, and the last stays behind the slice.\<close>

definition delete_at :: "nat \<Rightarrow> 'a arrays \<Rightarrow> array_slice \<Rightarrow> 'a arrays \<times> array_slice" where
  "delete_at i h s =
     (let a = h ! sl_array s; n = sl_len s in
      (h[sl_array s := take i a @ drop (i + 1) (take n a) @ drop (n - 1) a], s\<lparr>sl_len := n - 1\<rparr>))"

fun first_index :: "('a \<Rightarrow> bool) \<Rightarrow> 'a list \<Rightarrow> nat option" where
  "first_index P [] = None"
| "first_index P (x # xs) = (if P x then Some 0 else map_option Suc (first_index P xs))"

section \<open>The netlink mock\<close>

datatype nl_call =
  CLinkByName | CLinkList | CLinkAdd | CLinkDel | CLinkSetUp | CLinkSetDown | CLinkSetMTU | CLinkSetMaster | CLinkSetNoMaster | CLinkSetName
| CAddrList | CAddrAdd | CAddrDel | CRouteAdd | CRouteDel | CRouteList | CRouteListFiltered | CNeighList

text \<open>The counters and the injected errors are fields of the struct, one for each of these calls.\<close>

record MockNetlinkClient =
  mn_Links :: "(string, KLink) gomap"
  mn_addrArrays :: "IPNet arrays"
  mn_Addresses :: "(string, array_slice) gomap"
  mn_routeArrays :: "NRoute arrays"
  mn_Routes :: array_slice
  mn_Calls :: "nl_call \<Rightarrow> nat"
  mn_Errors :: "nl_call \<Rightarrow> goerror"

definition NewMockNetlinkClient :: MockNetlinkClient where
  "NewMockNetlinkClient =
     \<lparr>mn_Links = [], mn_addrArrays = [], mn_Addresses = [], mn_routeArrays = [[]], mn_Routes = \<lparr>sl_array = 0, sl_len = 0\<rparr>,
      mn_Calls = (\<lambda>_. 0), mn_Errors = (\<lambda>_. None)\<rparr>"

definition count_call :: "nl_call \<Rightarrow> MockNetlinkClient \<Rightarrow> MockNetlinkClient" where
  "count_call c m = m\<lparr>mn_Calls := (mn_Calls m)(c := mn_Calls m c + 1)\<rparr>"

definition answered :: "nl_call \<Rightarrow> (MockNetlinkClient \<Rightarrow> string + 'a) \<Rightarrow> MockNetlinkClient \<Rightarrow> MockNetlinkClient \<times> (string + 'a)" where
  "answered c f m = (count_call c m, case mn_Errors m c of Some e \<Rightarrow> Inl e | None \<Rightarrow> f m)"

definition performed :: "nl_call \<Rightarrow> (MockNetlinkClient \<Rightarrow> MockNetlinkClient) \<Rightarrow> MockNetlinkClient act" where
  "performed c f m = (case mn_Errors m c of Some e \<Rightarrow> (count_call c m, Some e) | None \<Rightarrow> (f (count_call c m), None))"

subsection \<open>Links\<close>

definition mock_LinkByName :: "string \<Rightarrow> MockNetlinkClient \<Rightarrow> MockNetlinkClient \<times> (string + KLink)" where
  "mock_LinkByName name =
     answered CLinkByName (\<lambda>m. case mget (mn_Links m) name of None \<Rightarrow> Inl ''Link not found'' | Some link \<Rightarrow> Inr link)"

definition mock_LinkByIndex :: "int \<Rightarrow> MockNetlinkClient \<Rightarrow> string + KLink" where
  "mock_LinkByIndex index m =
     (case find (\<lambda>link. lk_Index link = index) (map snd (mn_Links m)) of None \<Rightarrow> Inl ''Link not found'' | Some link \<Rightarrow> Inr link)"

definition mock_LinkList :: "MockNetlinkClient \<Rightarrow> MockNetlinkClient \<times> (string + KLink list)" where
  "mock_LinkList = answered CLinkList (\<lambda>m. Inr (map snd (mn_Links m)))"

definition mock_LinkAdd :: "KLink \<Rightarrow> MockNetlinkClient act" where
  "mock_LinkAdd link = performed CLinkAdd (\<lambda>m. m\<lparr>mn_Links := mput (lk_Name link) link (mn_Links m)\<rparr>)"

definition mock_LinkDel :: "KLink \<Rightarrow> MockNetlinkClient act" where
  "mock_LinkDel link = performed CLinkDel (\<lambda>m. m\<lparr>mn_Links := mdel (lk_Name link) (mn_Links m)\<rparr>)"

text \<open>The setters change nothing.\<close>

definition mock_LinkSetUp :: "KLink \<Rightarrow> MockNetlinkClient act" where
  "mock_LinkSetUp link = performed CLinkSetUp (\<lambda>m. m)"

definition mock_LinkSetDown :: "KLink \<Rightarrow> MockNetlinkClient act" where
  "mock_LinkSetDown link = performed CLinkSetDown (\<lambda>m. m)"

definition mock_LinkSetMTU :: "KLink \<Rightarrow> int \<Rightarrow> MockNetlinkClient act" where
  "mock_LinkSetMTU link mtu = performed CLinkSetMTU (\<lambda>m. m)"

definition mock_LinkSetMaster :: "KLink \<Rightarrow> KLink \<Rightarrow> MockNetlinkClient act" where
  "mock_LinkSetMaster link master = performed CLinkSetMaster (\<lambda>m. m)"

definition mock_LinkSetNoMaster :: "KLink \<Rightarrow> MockNetlinkClient act" where
  "mock_LinkSetNoMaster link = performed CLinkSetNoMaster (\<lambda>m. m)"

definition mock_LinkSetName :: "KLink \<Rightarrow> string \<Rightarrow> MockNetlinkClient act" where
  "mock_LinkSetName link name = performed CLinkSetName (\<lambda>m. m)"

subsection \<open>Addresses\<close>

definition zero_IPNet :: IPNet where
  "zero_IPNet = \<lparr>in_IP = [], in_Mask = []\<rparr>"

text \<open>The slice of the mock itself is returned; None is an empty slice of its own.\<close>

definition mock_AddrList :: "KLink \<Rightarrow> MockNetlinkClient \<Rightarrow> MockNetlinkClient \<times> (string + array_slice option)" where
  "mock_AddrList link = answered CAddrList (\<lambda>m. Inr (mget (mn_Addresses m) (lk_Name link)))"

definition put_addresses :: "string \<Rightarrow> IPNet arrays \<times> array_slice \<Rightarrow> MockNetlinkClient \<Rightarrow> MockNetlinkClient" where
  "put_addresses name hs m = m\<lparr>mn_addrArrays := fst hs, mn_Addresses := mput name (snd hs) (mn_Addresses m)\<rparr>"

definition mock_AddrAdd :: "(nat \<Rightarrow> nat) \<Rightarrow> KLink \<Rightarrow> IPNet \<Rightarrow> MockNetlinkClient act" where
  "mock_AddrAdd capacity link addr =
     performed CAddrAdd (\<lambda>m.
       put_addresses (lk_Name link) (go_append capacity zero_IPNet addr (mn_addrArrays m) (mget (mn_Addresses m) (lk_Name link))) m)"

definition mock_AddrDel :: "KLink \<Rightarrow> IPNet \<Rightarrow> MockNetlinkClient act" where
  "mock_AddrDel link addr =
     performed CAddrDel (\<lambda>m.
       case mget (mn_Addresses m) (lk_Name link) of
         None \<Rightarrow> m
       | Some s \<Rightarrow>
           (case first_index (\<lambda>a. net_String a = net_String addr) (contents (mn_addrArrays m) s) of
              None \<Rightarrow> m
            | Some i \<Rightarrow> put_addresses (lk_Name link) (delete_at i (mn_addrArrays m) s) m))"

subsection \<open>Routes\<close>

definition routesEqual :: "NRoute \<Rightarrow> NRoute \<Rightarrow> bool" where
  "routesEqual r1 r2 =
     (case (nr_Dst r1, nr_Dst r2) of
        (None, None) \<Rightarrow> True
      | (Some d1, Some d2) \<Rightarrow> net_String d1 = net_String d2 \<and> ip_Equal (nr_Gw r1) (nr_Gw r2) \<and> nr_LinkIndex r1 = nr_LinkIndex r2
      | _ \<Rightarrow> False)"

definition put_routes :: "NRoute arrays \<times> array_slice \<Rightarrow> MockNetlinkClient \<Rightarrow> MockNetlinkClient" where
  "put_routes hs m = m\<lparr>mn_routeArrays := fst hs, mn_Routes := snd hs\<rparr>"

definition mock_RouteAdd :: "(nat \<Rightarrow> nat) \<Rightarrow> NRoute \<Rightarrow> MockNetlinkClient act" where
  "mock_RouteAdd capacity route =
     performed CRouteAdd (\<lambda>m. put_routes (go_append capacity zero_NRoute route (mn_routeArrays m) (Some (mn_Routes m))) m)"

definition mock_RouteDel :: "NRoute \<Rightarrow> MockNetlinkClient act" where
  "mock_RouteDel route =
     performed CRouteDel (\<lambda>m.
       case first_index (\<lambda>r. routesEqual r route) (contents (mn_routeArrays m) (mn_Routes m)) of
         None \<Rightarrow> m
       | Some i \<Rightarrow> put_routes (delete_at i (mn_routeArrays m) (mn_Routes m)) m)"

definition mock_RouteList :: "KLink option \<Rightarrow> MockNetlinkClient \<Rightarrow> MockNetlinkClient \<times> (string + array_slice)" where
  "mock_RouteList link = answered CRouteList (\<lambda>m. Inr (mn_Routes m))"

definition mock_RouteListFiltered :: "NRoute \<Rightarrow> int \<Rightarrow> MockNetlinkClient \<Rightarrow> MockNetlinkClient \<times> (string + array_slice)" where
  "mock_RouteListFiltered flt filterMask = answered CRouteListFiltered (\<lambda>m. Inr (mn_Routes m))"

text \<open>Neighbours are not kept: their list is always empty.\<close>

definition mock_NeighList :: "int \<Rightarrow> MockNetlinkClient \<Rightarrow> MockNetlinkClient \<times> (string + unit list)" where
  "mock_NeighList linkIndex = answered CNeighList (\<lambda>m. Inr [])"

section \<open>The other mocks\<close>

record MockSysctlClient =
  ms_Values :: "(string, string) gomap"
  ms_GetCalls :: nat
  ms_SetCalls :: nat
  ms_GetError :: goerror
  ms_SetError :: goerror

definition NewMockSysctlClient :: MockSysctlClient where
  "NewMockSysctlClient = \<lparr>ms_Values = [], ms_GetCalls = 0, ms_SetCalls = 0, ms_GetError = None, ms_SetError = None\<rparr>"

definition mock_Get :: "string \<Rightarrow> MockSysctlClient \<Rightarrow> MockSysctlClient \<times> (string + string)" where
  "mock_Get key m =
     (m\<lparr>ms_GetCalls := ms_GetCalls m + 1\<rparr>,
      case ms_GetError m of
        Some e \<Rightarrow> Inl e
      | None \<Rightarrow> (case mget (ms_Values m) key of None \<Rightarrow> Inl (''sysctl key not found: '' @ key) | Some v \<Rightarrow> Inr v))"

definition mock_Set :: "string \<Rightarrow> string \<Rightarrow> MockSysctlClient act" where
  "mock_Set key v m =
     (let m1 = m\<lparr>ms_SetCalls := ms_SetCalls m + 1\<rparr> in
      case ms_SetError m of Some e \<Rightarrow> (m1, Some e) | None \<Rightarrow> (m1\<lparr>ms_Values := mput key v (ms_Values m1)\<rparr>, None))"

record MockFilesystemClient =
  mf_Files :: "(string, string) gomap"
  mf_ReadFileCalls :: nat
  mf_WriteFileCalls :: nat
  mf_ReadFileError :: goerror
  mf_WriteFileError :: goerror

definition NewMockFilesystemClient :: MockFilesystemClient where
  "NewMockFilesystemClient = \<lparr>mf_Files = [], mf_ReadFileCalls = 0, mf_WriteFileCalls = 0, mf_ReadFileError = None, mf_WriteFileError = None\<rparr>"

definition mock_ReadFile :: "string \<Rightarrow> MockFilesystemClient \<Rightarrow> MockFilesystemClient \<times> (string + string)" where
  "mock_ReadFile filename m =
     (m\<lparr>mf_ReadFileCalls := mf_ReadFileCalls m + 1\<rparr>,
      case mf_ReadFileError m of
        Some e \<Rightarrow> Inl e
      | None \<Rightarrow> (case mget (mf_Files m) filename of None \<Rightarrow> Inl (''file not found: '' @ filename) | Some d \<Rightarrow> Inr d))"

definition mock_WriteFile :: "string \<Rightarrow> string \<Rightarrow> MockFilesystemClient act" where
  "mock_WriteFile filename d m =
     (let m1 = m\<lparr>mf_WriteFileCalls := mf_WriteFileCalls m + 1\<rparr> in
      case mf_WriteFileError m of Some e \<Rightarrow> (m1, Some e) | None \<Rightarrow> (m1\<lparr>mf_Files := mput filename d (mf_Files m1)\<rparr>, None))"

record MockCommandRunner =
  mc_CommandOutputs :: "(string, string) gomap"
  mc_Commands :: "string list list"
  mc_RunCalls :: nat
  mc_RunError :: goerror

definition NewMockCommandRunner :: MockCommandRunner where
  "NewMockCommandRunner = \<lparr>mc_CommandOutputs = [], mc_Commands = [], mc_RunCalls = 0, mc_RunError = None\<rparr>"

definition command_key :: "string \<Rightarrow> string list \<Rightarrow> string" where
  "command_key name args = foldl (\<lambda>s arg. s @ '' '' @ arg) name args"

definition mock_Run :: "string \<Rightarrow> string list \<Rightarrow> MockCommandRunner \<Rightarrow> MockCommandRunner \<times> (string + string)" where
  "mock_Run name args m =
     (m\<lparr>mc_RunCalls := mc_RunCalls m + 1, mc_Commands := mc_Commands m @ [name # args]\<rparr>,
      case mc_RunError m of
        Some e \<Rightarrow> Inl e
      | None \<Rightarrow> (case mget (mc_CommandOutputs m) (command_key name args) of None \<Rightarrow> Inr '''' | Some out \<Rightarrow> Inr out))"

definition SetOutput :: "string \<Rightarrow> string list \<Rightarrow> string \<Rightarrow> MockCommandRunner \<Rightarrow> MockCommandRunner" where
  "SetOutput name args out m = m\<lparr>mc_CommandOutputs := mput (command_key name args) out (mc_CommandOutputs m)\<rparr>"

text \<open>
  The mocks keep what their names promise: through any sequence of calls the netlink mock behaves like tables of links, addresses and routes. What it does not promise is shown
  too: a list it returned changes under a later deletion, and default routes are not told apart.
\<close>

section \<open>What slices hold\<close>

definition slice_ok :: "'a arrays \<Rightarrow> array_slice \<Rightarrow> bool" where
  "slice_ok h s \<longleftrightarrow> sl_array s < length h \<and> sl_len s \<le> length (h ! sl_array s)"

definition list_of :: "'a arrays \<Rightarrow> array_slice option \<Rightarrow> 'a list" where
  "list_of h s = (case s of None \<Rightarrow> [] | Some s \<Rightarrow> contents h s)"

lemma go_append_contents:
  assumes "go_append capacity zero x h s = (h', s')" "\<forall>t. s = Some t \<longrightarrow> slice_ok h t"
  shows "contents h' s' = list_of h s @ [x]" "slice_ok h' s'"
  using assms by (auto simp: contents_def list_of_def slice_ok_def Let_def nth_append take_Suc_conv_app_nth split: option.splits if_splits elim!: go_append.elims)

text \<open>Slices with arrays of their own are not affected.\<close>

lemma go_append_other:
  assumes "go_append capacity zero x h s = (h', s')" "slice_ok h t" "\<forall>u. s = Some u \<longrightarrow> sl_array u \<noteq> sl_array t"
  shows "contents h' t = contents h t" "slice_ok h' t" "sl_array s' \<noteq> sl_array t"
  using assms by (auto simp: contents_def slice_ok_def Let_def nth_append split: if_splits elim!: go_append.elims)

definition drop_at :: "nat \<Rightarrow> 'a list \<Rightarrow> 'a list" where
  "drop_at i xs = take i xs @ drop (i + 1) xs"

lemma delete_at_contents:
  assumes "delete_at i h s = (h', s')" "slice_ok h s" "i < sl_len s"
  shows "contents h' s' = drop_at i (contents h s)" "slice_ok h' s'" "sl_array s' = sl_array s"
proof -
  let ?a = "h ! sl_array s" and ?n = "sl_len s"
  have h: "h' = h[sl_array s := take i ?a @ drop (i + 1) (take ?n ?a) @ drop (?n - 1) ?a]" and s: "s' = s\<lparr>sl_len := ?n - 1\<rparr>"
    using assms(1) by (simp_all add: delete_at_def Let_def)
  have len: "length (take i ?a @ drop (i + 1) (take ?n ?a)) = ?n - 1" "?n \<le> length ?a" "sl_array s < length h"
    using assms(2,3) by (auto simp: slice_ok_def)
  have take_len: "length xs = k \<Longrightarrow> take k (xs @ ys) = xs" for xs ys :: "'a list" and k by simp
  have "contents h' s' = take (?n - 1) ((take i ?a @ drop (i + 1) (take ?n ?a)) @ drop (?n - 1) ?a)"
    using len(3) by (simp add: contents_def h s)
  also have "\<dots> = take i ?a @ drop (i + 1) (take ?n ?a)" by (rule take_len [OF len(1)])
  also have "\<dots> = drop_at i (contents h s)" using assms(3) by (simp add: drop_at_def contents_def min_def)
  finally show "contents h' s' = drop_at i (contents h s)" .
  show "slice_ok h' s'" using len assms(3) by (auto simp: slice_ok_def h s)
  show "sl_array s' = sl_array s" by (simp add: s)
qed

lemma delete_at_other:
  assumes "delete_at i h s = (h', s')" "slice_ok h t" "sl_array s \<noteq> sl_array t"
  shows "contents h' t = contents h t" "slice_ok h' t"
  using assms by (auto simp: delete_at_def contents_def slice_ok_def Let_def)

text \<open>Deleting the element that a search finds is removing the first one it accepts.\<close>

fun remove_first :: "('a \<Rightarrow> bool) \<Rightarrow> 'a list \<Rightarrow> 'a list" where
  "remove_first P [] = []"
| "remove_first P (x # xs) = (if P x then xs else x # remove_first P xs)"

lemma first_index_None: "first_index P xs = None \<Longrightarrow> remove_first P xs = xs"
  by (induction xs) (auto split: if_splits)

lemma first_index_Some: "first_index P xs = Some i \<Longrightarrow> i < length xs \<and> remove_first P xs = drop_at i xs"
  by (induction xs arbitrary: i) (auto simp: drop_at_def split: if_splits)

section \<open>The netlink mock as tables\<close>

datatype nl_op = OLinkAdd KLink | OLinkDel KLink | OAddrAdd KLink IPNet | OAddrDel KLink IPNet | ORouteAdd NRoute | ORouteDel NRoute

fun mock_op :: "(nat \<Rightarrow> nat) \<Rightarrow> nl_op \<Rightarrow> MockNetlinkClient act" where
  "mock_op capacity (OLinkAdd l) = mock_LinkAdd l"
| "mock_op capacity (OLinkDel l) = mock_LinkDel l"
| "mock_op capacity (OAddrAdd l a) = mock_AddrAdd capacity l a"
| "mock_op capacity (OAddrDel l a) = mock_AddrDel l a"
| "mock_op capacity (ORouteAdd r) = mock_RouteAdd capacity r"
| "mock_op capacity (ORouteDel r) = mock_RouteDel r"

definition mock_run :: "(nat \<Rightarrow> nat) \<Rightarrow> nl_op list \<Rightarrow> MockNetlinkClient \<Rightarrow> MockNetlinkClient" where
  "mock_run capacity ops m = fold (\<lambda>p m. fst (mock_op capacity p m)) ops m"

fun call_of :: "nl_op \<Rightarrow> nl_call" where
  "call_of (OLinkAdd l) = CLinkAdd"
| "call_of (OLinkDel l) = CLinkDel"
| "call_of (OAddrAdd l a) = CAddrAdd"
| "call_of (OAddrDel l a) = CAddrDel"
| "call_of (ORouteAdd r) = CRouteAdd"
| "call_of (ORouteDel r) = CRouteDel"

record nl_tables =
  nt_links :: "string \<Rightarrow> KLink option"
  nt_addrs :: "string \<Rightarrow> IPNet list"
  nt_routes :: "NRoute list"

fun table_op :: "nl_op \<Rightarrow> nl_tables \<Rightarrow> nl_tables" where
  "table_op (OLinkAdd l) t = t\<lparr>nt_links := (nt_links t)(lk_Name l \<mapsto> l)\<rparr>"
| "table_op (OLinkDel l) t = t\<lparr>nt_links := (nt_links t)(lk_Name l := None)\<rparr>"
| "table_op (OAddrAdd l a) t = t\<lparr>nt_addrs := (nt_addrs t)(lk_Name l := nt_addrs t (lk_Name l) @ [a])\<rparr>"
| "table_op (OAddrDel l a) t = t\<lparr>nt_addrs := (nt_addrs t)(lk_Name l := remove_first (\<lambda>b. net_String b = net_String a) (nt_addrs t (lk_Name l)))\<rparr>"
| "table_op (ORouteAdd r) t = t\<lparr>nt_routes := nt_routes t @ [r]\<rparr>"
| "table_op (ORouteDel r) t = t\<lparr>nt_routes := remove_first (\<lambda>q. routesEqual q r) (nt_routes t)\<rparr>"

definition tables_of :: "MockNetlinkClient \<Rightarrow> nl_tables" where
  "tables_of m =
     \<lparr>nt_links = mget (mn_Links m), nt_addrs = (\<lambda>name. list_of (mn_addrArrays m) (mget (mn_Addresses m) name)),
      nt_routes = contents (mn_routeArrays m) (mn_Routes m)\<rparr>"

text \<open>Every slice of the mock has an array of its own.\<close>

definition mock_ok :: "MockNetlinkClient \<Rightarrow> bool" where
  "mock_ok m \<longleftrightarrow>
     (\<forall>name s. mget (mn_Addresses m) name = Some s \<longrightarrow> slice_ok (mn_addrArrays m) s) \<and>
     (\<forall>name name' s s'. name \<noteq> name' \<longrightarrow> mget (mn_Addresses m) name = Some s \<longrightarrow> mget (mn_Addresses m) name' = Some s' \<longrightarrow> sl_array s \<noteq> sl_array s') \<and>
     slice_ok (mn_routeArrays m) (mn_Routes m)"

lemma count_call_frame [simp]:
  "tables_of (count_call c m) = tables_of m" "mock_ok (count_call c m) = mock_ok m" "mn_Errors (count_call c m) = mn_Errors m"
  by (simp_all add: count_call_def tables_of_def mock_ok_def)

text \<open>Replacing the addresses of one link by a slice that leaves the others alone.\<close>

lemma put_addresses_tables:
  assumes "mock_ok m" "slice_ok h s"
    and "\<And>name' t. name' \<noteq> name \<Longrightarrow> mget (mn_Addresses m) name' = Some t \<Longrightarrow>
      contents h t = contents (mn_addrArrays m) t \<and> slice_ok h t \<and> sl_array s \<noteq> sl_array t"
  shows "mock_ok (put_addresses name (h, s) m)"
    and "tables_of (put_addresses name (h, s) m) = (tables_of m)\<lparr>nt_addrs := (nt_addrs (tables_of m))(name := contents h s)\<rparr>"
proof -
  show "mock_ok (put_addresses name (h, s) m)"
    using assms unfolding mock_ok_def put_addresses_def by (auto simp: mget_mput) (metis)+
  show "tables_of (put_addresses name (h, s) m) = (tables_of m)\<lparr>nt_addrs := (nt_addrs (tables_of m))(name := contents h s)\<rparr>"
    using assms(3) by (auto simp: tables_of_def put_addresses_def mget_mput list_of_def fun_eq_iff split: option.splits)
qed

lemma AddrAdd_tables:
  assumes "mock_ok m" "go_append capacity zero_IPNet a (mn_addrArrays m) (mget (mn_Addresses m) name) = (h, s)"
  shows "mock_ok (put_addresses name (h, s) m)"
    and "tables_of (put_addresses name (h, s) m) = (tables_of m)\<lparr>nt_addrs := (nt_addrs (tables_of m))(name := nt_addrs (tables_of m) name @ [a])\<rparr>"
proof -
  have own: "\<forall>t. mget (mn_Addresses m) name = Some t \<longrightarrow> slice_ok (mn_addrArrays m) t" using assms(1) by (auto simp: mock_ok_def)
  note new = go_append_contents [OF assms(2) own]
  have other: "contents h t = contents (mn_addrArrays m) t \<and> slice_ok h t \<and> sl_array s \<noteq> sl_array t"
    if "name' \<noteq> name" "mget (mn_Addresses m) name' = Some t" for name' t
  proof -
    have "slice_ok (mn_addrArrays m) t" "\<forall>u. mget (mn_Addresses m) name = Some u \<longrightarrow> sl_array u \<noteq> sl_array t"
      using assms(1) that unfolding mock_ok_def by metis+
    from go_append_other [OF assms(2) this] show ?thesis by blast
  qed
  show "mock_ok (put_addresses name (h, s) m)" by (rule put_addresses_tables(1) [OF assms(1) new(2) other])
  show "tables_of (put_addresses name (h, s) m) = (tables_of m)\<lparr>nt_addrs := (nt_addrs (tables_of m))(name := nt_addrs (tables_of m) name @ [a])\<rparr>"
    by (subst put_addresses_tables(2) [OF assms(1) new(2) other]) (simp_all add: new(1) tables_of_def)
qed

lemma AddrDel_tables:
  assumes "mock_ok m" "mget (mn_Addresses m) name = Some s0" "i < sl_len s0" "delete_at i (mn_addrArrays m) s0 = (h, s)"
  shows "mock_ok (put_addresses name (h, s) m)"
    and "tables_of (put_addresses name (h, s) m) = (tables_of m)\<lparr>nt_addrs := (nt_addrs (tables_of m))(name := drop_at i (nt_addrs (tables_of m) name))\<rparr>"
proof -
  have own: "slice_ok (mn_addrArrays m) s0" using assms(1,2) by (auto simp: mock_ok_def)
  note new = delete_at_contents [OF assms(4) own assms(3)]
  have other: "contents h t = contents (mn_addrArrays m) t \<and> slice_ok h t \<and> sl_array s \<noteq> sl_array t"
    if "name' \<noteq> name" "mget (mn_Addresses m) name' = Some t" for name' t
  proof -
    have "slice_ok (mn_addrArrays m) t" "sl_array s0 \<noteq> sl_array t"
      using assms(1,2) that unfolding mock_ok_def by metis+
    from delete_at_other [OF assms(4) this] this(2) new(3) show ?thesis by simp
  qed
  show "mock_ok (put_addresses name (h, s) m)" by (rule put_addresses_tables(1) [OF assms(1) new(2) other])
  show "tables_of (put_addresses name (h, s) m) = (tables_of m)\<lparr>nt_addrs := (nt_addrs (tables_of m))(name := drop_at i (nt_addrs (tables_of m) name))\<rparr>"
    by (subst put_addresses_tables(2) [OF assms(1) new(2) other]) (simp_all add: new(1) tables_of_def list_of_def assms(2))
qed

lemma put_routes_tables:
  "tables_of (put_routes (h, s) m) = (tables_of m)\<lparr>nt_routes := contents h s\<rparr>"
  "mock_ok m \<Longrightarrow> slice_ok h s \<Longrightarrow> mock_ok (put_routes (h, s) m)"
  by (simp_all add: tables_of_def put_routes_def mock_ok_def)

lemma links_tables:
  "tables_of (m\<lparr>mn_Links := ls\<rparr>) = (tables_of m)\<lparr>nt_links := mget ls\<rparr>" "mock_ok (m\<lparr>mn_Links := ls\<rparr>) = mock_ok m"
  by (simp_all add: tables_of_def mock_ok_def)

lemma performed_fst: "fst (performed c f m) = (if mn_Errors m c = None then f (count_call c m) else count_call c m)"
  by (simp add: performed_def split: option.splits)

text \<open>The effect of an operation whose call has no injected error.\<close>

lemma AddrDel_effect:
  assumes "mock_ok m" "mn_Errors m CAddrDel = None"
  shows "mock_ok (fst (mock_AddrDel l a m)) \<and> tables_of (fst (mock_AddrDel l a m)) = table_op (OAddrDel l a) (tables_of m)"
proof (cases "mget (mn_Addresses m) (lk_Name l)")
  case None
  then show ?thesis using assms
    by (auto simp: mock_AddrDel_def performed_fst tables_of_def list_of_def fun_eq_iff mock_ok_def count_call_def)
next
  case (Some s0)
  let ?m = "count_call CAddrDel m"
  have get: "mget (mn_Addresses ?m) (lk_Name l) = Some s0" "mn_addrArrays ?m = mn_addrArrays m" using Some by (simp_all add: count_call_def)
  have held: "nt_addrs (tables_of m) (lk_Name l) = contents (mn_addrArrays m) s0" using Some by (simp add: tables_of_def list_of_def)
  let ?P = "\<lambda>b. net_String b = net_String a"
  show ?thesis
  proof (cases "first_index ?P (contents (mn_addrArrays m) s0)")
    case None
    from first_index_None [OF this] have "table_op (OAddrDel l a) (tables_of m) = tables_of m" by (simp add: held [symmetric])
    with None assms get show ?thesis by (simp add: mock_AddrDel_def performed_fst)
  next
    case (Some i)
    obtain h s where d: "delete_at i (mn_addrArrays ?m) s0 = (h, s)" by fastforce
    from first_index_Some [OF Some] have i: "i < sl_len s0" "remove_first ?P (contents (mn_addrArrays m) s0) = drop_at i (contents (mn_addrArrays m) s0)"
      by (auto simp: contents_def)
    have ok: "mock_ok ?m" using assms(1) by simp
    from AddrDel_tables [OF ok get(1) i(1) d] have
      "mock_ok (put_addresses (lk_Name l) (h, s) ?m)"
      "tables_of (put_addresses (lk_Name l) (h, s) ?m) = table_op (OAddrDel l a) (tables_of m)"
      by (simp_all add: held i(2))
    moreover have "fst (mock_AddrDel l a m) = put_addresses (lk_Name l) (h, s) ?m"
      using assms(2) Some get d by (simp add: mock_AddrDel_def performed_fst)
    ultimately show ?thesis by simp
  qed
qed

lemma AddrAdd_effect:
  assumes "mock_ok m" "mn_Errors m CAddrAdd = None"
  shows "mock_ok (fst (mock_AddrAdd capacity l a m)) \<and> tables_of (fst (mock_AddrAdd capacity l a m)) = table_op (OAddrAdd l a) (tables_of m)"
proof -
  let ?m = "count_call CAddrAdd m"
  obtain h s where d: "go_append capacity zero_IPNet a (mn_addrArrays ?m) (mget (mn_Addresses ?m) (lk_Name l)) = (h, s)" by fastforce
  have ok: "mock_ok ?m" using assms(1) by simp
  from AddrAdd_tables [OF ok d] d assms(2) show ?thesis by (simp add: mock_AddrAdd_def performed_fst)
qed

lemma count_call_routes: "mn_routeArrays (count_call c m) = mn_routeArrays m" "mn_Routes (count_call c m) = mn_Routes m"
  by (simp_all add: count_call_def)

lemma RouteAdd_effect:
  assumes "mock_ok m" "mn_Errors m CRouteAdd = None"
  shows "mock_ok (fst (mock_RouteAdd capacity r m)) \<and> tables_of (fst (mock_RouteAdd capacity r m)) = table_op (ORouteAdd r) (tables_of m)"
proof -
  obtain h s where d: "go_append capacity zero_NRoute r (mn_routeArrays m) (Some (mn_Routes m)) = (h, s)" by fastforce
  have "slice_ok (mn_routeArrays m) (mn_Routes m)" using assms(1) by (simp add: mock_ok_def)
  with go_append_contents [OF d] have new: "contents h s = contents (mn_routeArrays m) (mn_Routes m) @ [r]" "slice_ok h s" by (simp_all add: list_of_def)
  have "fst (mock_RouteAdd capacity r m) = put_routes (h, s) (count_call CRouteAdd m)"
    using d assms(2) by (simp add: mock_RouteAdd_def performed_fst count_call_routes del: go_append.simps)
  with new assms(1) show ?thesis by (simp add: put_routes_tables) (simp add: tables_of_def)
qed

lemma RouteDel_effect:
  assumes "mock_ok m" "mn_Errors m CRouteDel = None"
  shows "mock_ok (fst (mock_RouteDel r m)) \<and> tables_of (fst (mock_RouteDel r m)) = table_op (ORouteDel r) (tables_of m)"
proof -
  let ?P = "\<lambda>q. routesEqual q r" and ?xs = "contents (mn_routeArrays m) (mn_Routes m)"
  have xs: "nt_routes (tables_of m) = ?xs" by (simp add: tables_of_def)
  show ?thesis
  proof (cases "first_index ?P ?xs")
    case None
    from first_index_None [OF this] have "table_op (ORouteDel r) (tables_of m) = tables_of m" by (simp add: xs [symmetric])
    with None assms show ?thesis by (simp add: mock_RouteDel_def performed_fst count_call_routes)
  next
    case (Some i)
    obtain h s where d: "delete_at i (mn_routeArrays m) (mn_Routes m) = (h, s)" by fastforce
    from first_index_Some [OF Some] have i: "i < sl_len (mn_Routes m)" "remove_first ?P ?xs = drop_at i ?xs" by (auto simp: contents_def)
    have "slice_ok (mn_routeArrays m) (mn_Routes m)" using assms(1) by (simp add: mock_ok_def)
    from delete_at_contents [OF d this i(1)] have "contents h s = drop_at i ?xs" "slice_ok h s" by simp_all
    moreover have "fst (mock_RouteDel r m) = put_routes (h, s) (count_call CRouteDel m)"
      using Some d assms(2) by (simp add: mock_RouteDel_def performed_fst count_call_routes)
    ultimately show ?thesis using assms(1) by (simp add: put_routes_tables xs i(2))
  qed
qed

lemma op_effect:
  assumes "mock_ok m" "mn_Errors m (call_of p) = None"
  shows "mock_ok (fst (mock_op capacity p m)) \<and> tables_of (fst (mock_op capacity p m)) = table_op p (tables_of m)"
proof (cases p)
  case (OLinkAdd l)
  with assms show ?thesis by (simp add: mock_LinkAdd_def performed_fst links_tables) (simp add: tables_of_def count_call_def mget_mput fun_eq_iff)
next
  case (OLinkDel l)
  with assms show ?thesis by (simp add: mock_LinkDel_def performed_fst links_tables) (simp add: tables_of_def count_call_def mget_mdel fun_eq_iff)
qed (use assms AddrAdd_effect AddrDel_effect RouteAdd_effect RouteDel_effect in auto)

text \<open>A call with an injected error is counted and changes nothing else.\<close>

lemma op_refused:
  assumes "mn_Errors m (call_of p) = Some e"
  shows "mock_op capacity p m = (count_call (call_of p) m, Some e)"
  using assms by (cases p) (simp_all add: mock_LinkAdd_def mock_LinkDel_def mock_AddrAdd_def mock_AddrDel_def mock_RouteAdd_def mock_RouteDel_def performed_def)

lemma op_frame: "mn_Errors (fst (mock_op capacity p m)) = mn_Errors m" "mn_Calls (fst (mock_op capacity p m)) = (mn_Calls m)(call_of p := mn_Calls m (call_of p) + 1)"
  by (cases p; simp add: mock_LinkAdd_def mock_LinkDel_def mock_AddrAdd_def mock_AddrDel_def mock_RouteAdd_def mock_RouteDel_def performed_def
      count_call_def put_addresses_def put_routes_def split: option.splits)+

definition table_run :: "(nl_call \<Rightarrow> goerror) \<Rightarrow> nl_op list \<Rightarrow> nl_tables \<Rightarrow> nl_tables" where
  "table_run errors ops t = fold (\<lambda>p t. if errors (call_of p) = None then table_op p t else t) ops t"

lemma run_tables:
  "mock_ok m \<Longrightarrow> tables_of (mock_run capacity ops m) = table_run (mn_Errors m) ops (tables_of m) \<and>
     mn_Calls (mock_run capacity ops m) c = mn_Calls m c + length (filter (\<lambda>p. call_of p = c) ops)"
proof (induction ops arbitrary: m)
  case Nil
  then show ?case by (simp add: mock_run_def table_run_def)
next
  case (Cons p ops)
  let ?m = "fst (mock_op capacity p m)"
  have ok: "mock_ok ?m" "tables_of ?m = (if mn_Errors m (call_of p) = None then table_op p (tables_of m) else tables_of m)"
    using op_effect [OF Cons.prems] op_refused [of m p] Cons.prems by (cases "mn_Errors m (call_of p)"; simp)+
  from Cons.IH [OF ok(1)] ok(2) show ?case by (simp add: mock_run_def table_run_def op_frame)
qed

lemma new_mock: "mock_ok (NewMockNetlinkClient\<lparr>mn_Errors := E\<rparr>)"
  "tables_of (NewMockNetlinkClient\<lparr>mn_Errors := E\<rparr>) = \<lparr>nt_links = \<lambda>_. None, nt_addrs = \<lambda>_. [], nt_routes = []\<rparr>"
  by (simp_all add: NewMockNetlinkClient_def mock_ok_def tables_of_def slice_ok_def list_of_def contents_def)

text \<open>
  C37 (mock_refines): whatever errors are injected and however the runtime grows its arrays, a netlink mock that has gone through any calls holds the tables of links, addresses
  and routes that the calls without an injected error leave behind, and its counters are the numbers of calls.\<close>

theorem mock_refines:
  "tables_of (mock_run capacity ops (NewMockNetlinkClient\<lparr>mn_Errors := E\<rparr>)) =
     table_run E ops \<lparr>nt_links = \<lambda>_. None, nt_addrs = \<lambda>_. [], nt_routes = []\<rparr> \<and>
   mn_Calls (mock_run capacity ops (NewMockNetlinkClient\<lparr>mn_Errors := E\<rparr>)) c = length (filter (\<lambda>p. call_of p = c) ops)"
  using run_tables [OF new_mock(1), of capacity ops E c] by (simp add: new_mock(2)) (simp add: NewMockNetlinkClient_def)

section \<open>What differs from the kernel\<close>

text \<open>
  The loop of the managers that removes the addresses a list returned: it reads the array of the slice while the deletions move its elements. Of three addresses one stays.
\<close>

fun flush_listed :: "KLink \<Rightarrow> array_slice \<Rightarrow> nat list \<Rightarrow> MockNetlinkClient \<Rightarrow> MockNetlinkClient" where
  "flush_listed link s [] m = m"
| "flush_listed link s (i # is) m = flush_listed link s is (fst (mock_AddrDel link (mn_addrArrays m ! sl_array s ! i) m))"

definition three_addresses :: MockNetlinkClient where
  "three_addresses =
     mock_run (\<lambda>n. n + 1) (map (\<lambda>k. OAddrAdd (zero_KLink\<lparr>lk_Name := ''eth0''\<rparr>) \<lparr>in_IP = [10, 0, 0, k], in_Mask = [255, 255, 255, 0]\<rparr>) [1, 2, 3]) NewMockNetlinkClient"

lemma mock_flush_incomplete:
  "(case mock_AddrList (zero_KLink\<lparr>lk_Name := ''eth0''\<rparr>) three_addresses of
      (m, Inr (Some s)) \<Rightarrow> nt_addrs (tables_of (flush_listed (zero_KLink\<lparr>lk_Name := ''eth0''\<rparr>) s [0..<sl_len s] m)) ''eth0'' =
        [\<lparr>in_IP = [10, 0, 0, 2], in_Mask = [255, 255, 255, 0]\<rparr>]
    | _ \<Rightarrow> False)"
  by code_simp

text \<open>Two default routes count as the same one, whatever their gateways and links.\<close>

lemma mock_default_routes: "nr_Dst r = None \<Longrightarrow> nr_Dst q = None \<Longrightarrow> routesEqual r q"
  by (simp add: routesEqual_def)

text \<open>A setter reports success for a link that does not exist.\<close>

lemma mock_setters_succeed: "mock_LinkSetUp link NewMockNetlinkClient = (count_call CLinkSetUp NewMockNetlinkClient, None)"
  by (simp add: mock_LinkSetUp_def performed_def) (simp add: NewMockNetlinkClient_def)

end
