(* ===== verification/Spec2Isabelle.thy ===== *)
theory Spec2Isabelle
  imports Config_Properties Daemon_Invariant System_Layer Snapshot_Facts Network_Facts Routes_Facts Firewall_Facts Packet_Log Wireguard_Facts Wireguard_Rpc Dnsmasq_Facts
    Leds_Facts Monitoring_Rpc Sqlite_Facts Firewall_Log_Facts Logger_Facts Plugin_Process_Facts Inspect Connection_Facts Cli_Facts Core_Metadata
    Status_Print_Facts Plugin_Listing Checkpoint_List Service_Calls Daemon_Process Mocks
begin

text \<open>
  Verification of Jack, a network configuration daemon written in Go (\<open>src/\<close>).

  \<^bold>\<open>The program.\<close> The daemon (\<open>src/daemon\<close>) holds the configuration of a router in three layers: committed,
  pending and last applied. Clients send commands over a socket: \<open>set\<close> stages a value under a dotted path,
  \<open>commit\<close> validates and saves the staged configurations, \<open>apply\<close> captures a snapshot of the system, configures
  interfaces, plugins and routes in order and restores the snapshot when a step fails, \<open>rollback\<close> restores a
  checkpoint, and the plugin commands load and unload plugins with their services. The system layer
  (\<open>src/system\<close>) talks to the kernel. Plugins (\<open>src/plugins/core\<close>) are processes of their own, each serving a
  namespace of the configuration. An observer watches the kernel for changes the daemon did not make and may start an apply.

  \<^bold>\<open>Theories and sources.\<close>
  \<^item> \<open>Prelude\<close>, \<open>Go_Strings\<close>, \<open>Go_Regexp\<close>, \<open>Go_Net\<close>, \<open>Json\<close>: the Go vocabulary the sources use: outcomes with errors and
    panics, maps (the locale \<open>go_map\<close>, interpreted on association lists), strings, regular expressions,
    addresses, decoded JSON. A Go map is an association list whose order stands for any iteration order.
  \<^item> \<open>Validation\<close>: \<open>validation/*.go\<close>. \<open>Types\<close>, \<open>Codec\<close>: \<open>types/*.go\<close> with the JSON form of the structs.
  \<^item> \<open>Navigator\<close>, \<open>Path\<close>, \<open>Diff\<close>: \<open>daemon/navigator.go\<close>, \<open>path.go\<close>, \<open>diff.go\<close>. The fields of a struct are a table; the locales
    \<open>struct_table\<close> and \<open>codec_table\<close> state what access by JSON tag and the codec need of a table and are interpreted
    on the table of each struct.
  \<^item> \<open>State_Store\<close>, \<open>Snapshots\<close>: \<open>daemon/state.go\<close>; the locale \<open>two_layer\<close> is the contract of a configuration store.
  \<^item> \<open>Config_Files\<close>: \<open>state/*.go\<close>. \<open>Registry\<close>, \<open>Service_Registry\<close>: \<open>daemon/registry.go\<close>, \<open>service_registry.go\<close>.
  \<^item> \<open>Server_Config\<close>, \<open>Plugin_Order\<close>, \<open>Plugin_Loading\<close>, \<open>Apply\<close>, \<open>Daemon_Loop\<close>: \<open>daemon/server.go\<close> and \<open>loader.go\<close>: the command
    handlers, the order of application, the plugin lifecycle, apply with rollback, start-up and dispatch.
  \<^item> \<open>Observer\<close>: \<open>daemon/observer.go\<close>, \<open>observer_helpers.go\<close>.
  \<^item> \<open>Kernel\<close>, \<open>Network_Manager\<close>, \<open>Routes_Manager\<close>, \<open>Snapshot_Manager\<close>, \<open>System_Layer\<close>: \<open>system/*.go\<close>. The client interfaces are a
    record of operations on a kernel state of any type; \<open>default_system\<close> is the system layer the daemon calls.
  \<^item> \<open>Firewall\<close>, \<open>Packet_Log\<close>, \<open>Firewall_Log\<close>, \<open>Firewall_Rpc\<close>: \<open>plugins/core/firewall\<close>: rules and provider, captured packets, the log in the
    database, the RPC surface.
  \<^item> \<open>Wireguard\<close>, \<open>Wireguard_Rpc\<close>, \<open>Dnsmasq\<close>, \<open>Leds\<close>, \<open>Monitoring\<close>, \<open>Monitoring_Rpc\<close>, \<open>Sqlite\<close>: the plugins of the same names under
    \<open>plugins/core\<close>. \<open>Plugin_Actions\<close>, \<open>Plugin_Codec\<close>, \<open>Go_Path\<close>, \<open>Go_Text\<close> hold what they share: actions that may fail or panic, decoding of
    configurations, file paths, text output.
  \<^item> \<open>Plugin_Process\<close>: \<open>plugins/rpc.go\<close>, \<open>client.go\<close>, \<open>plugin.go\<close> and the loader of \<open>daemon/loader.go\<close>: both ends of the RPC, the set-up of the
    connection back to the daemon as a step relation, the search for plugin files.
  \<^item> \<open>Logger\<close>: \<open>daemon/logger\<close>, \<open>daemon/logger_bridge.go\<close>. \<open>Inspect\<close>: \<open>system/inspect.go\<close>. \<open>Command_Line\<close>: \<open>client/client.go\<close> and the commands of \<open>cmd\<close>;
    \<open>Status_Print\<close>: \<open>cmd/status.go\<close>; \<open>Plugin_Listing\<close>: \<open>cmd/validate.go\<close> and the listings of \<open>cmd/plugin.go\<close>; \<open>Checkpoint_List\<close>: the list of \<open>cmd/checkpoint.go\<close>; \<open>Core_Metadata\<close>: what the plugins tell about themselves.
  \<^item> \<open>Protocol\<close>, \<open>Connection\<close>: \<open>daemon/protocol.go\<close> with its JSON form, and the handling of one connection, the log stream on both of its ends and the
    life of the socket in \<open>daemon/server.go\<close>, \<open>client/client.go\<close> and \<open>cmd/logs.go\<close>. They put \<open>Daemon_Loop\<close>, \<open>Logger\<close> and \<open>Command_Line\<close> together.
  \<^item> \<open>Service_Calls\<close>: \<open>DaemonServiceImpl\<close> of \<open>daemon/service_registry.go\<close> between the two RPC connections of a service call. \<open>Daemon_Process\<close>: \<open>cmd/daemon.go\<close>, the start of
    the process and its end on a signal as a step relation. \<open>Mocks\<close>: \<open>system/mocks.go\<close>, with the arrays behind the slices it hands out.
  \<^item> \<open>Examples\<close>, \<open>Kernel_Example\<close>: concrete servers and a concrete kernel, on which the properties are exercised.

  \<^bold>\<open>State and operations.\<close> A struct is a record with a prefix per type, a handler is a function from the state to the
  new state and the response. A returned error is a value; a panic is the outcome \<open>Panic\<close> and ends the daemon, which never
  recovers. What lies outside the sources is an argument: the plugin loader, netlink, \<open>nft\<close>, the verdicts of the
  file system, the clock. \<open>Daemon_Invariant\<close> puts the daemon together as an inductive relation of reachable states over start-up,
  requests, observed events and reconciliations, in any order.

  \<^bold>\<open>What is shown.\<close>
  \<^item> The daemon: in every reachable state the stores are typed and the registries consistent, and apply and
    reconciliation answer (\<open>Daemon_Invariant\<close>). A failing apply restores its snapshot, apply changes no configuration,
    a second apply sends nothing (\<open>Apply_Facts\<close>).
  \<^item> The configuration: a set is read back and touches nothing else, a commit saves what was validated, sessions refine
    the two-layer specification, saving is atomic, files round-trip (\<open>Server_Config_Facts\<close>, \<open>Config_Properties\<close>).
  \<^item> Ordering and plugins: dependency order, loading in waves, readiness of services (\<open>Plugin_Order\<close>, \<open>Plugin_Loading_Facts\<close>).
  \<^item> The system: a configured interface has its address, every enabled route is in the table, restoring a fresh snapshot changes
    nothing (\<open>Network_Facts\<close>, \<open>Routes_Facts\<close>, \<open>Snapshot_Facts\<close>). Where the kernel matters, its documented behaviour is a
    hypothesis (\<open>addr_laws\<close>, \<open>route_laws\<close>), shown to hold of the example kernel.
  \<^item> The observer: rate limit and exact route drift.
  \<^item> The firewall: rules precede policies in every zone; packets are parsed within bounds and logged at a bounded rate; what is logged through
    the database plugin is read back and counted exactly, given what SQLite documents (\<open>log_table_laws\<close>, shown to hold of an example database);
    a capture is started at most once (\<open>Firewall_Facts\<close>, \<open>Packet_Log\<close>, \<open>Firewall_Log_Facts\<close>).
  \<^item> The other plugins: a validated VPN configuration never panics and a tunnel endpoint gets the right gateway (\<open>Wireguard_Facts\<close>); validated
    DHCP pools are disjoint (\<open>Dnsmasq_Facts\<close>); stopped collection loops can end (\<open>Monitoring_Facts\<close>); triggers of LEDs are parsed back
    (\<open>Leds_Facts\<close>); statements never contain the values of a filter (\<open>Sqlite_Facts\<close>).
  \<^item> Between the processes: RPC is transparent, the set-up of a plugin's connection succeeds only when the plugin holds it and never waits for ever
    (\<open>Plugin_Process_Facts\<close>); nothing is delivered to a log stream after its unsubscription (\<open>Logger_Facts\<close>);
    a request over the socket is answered as its handler answers, and the watch command prints exactly the accepted entries (\<open>Connection_Facts\<close>);
    what \<open>jack set\<close> sets is what \<open>jack get\<close> prints (\<open>Cli_Facts\<close>), the checkpoint list is the daemon's (\<open>Checkpoint_List\<close>); a plugin that calls a service gets what
    its provider answers, so the firewall log works across three processes (\<open>Service_Calls\<close>); a second daemon is refused, and what an ended one leaves is known (\<open>Daemon_Process\<close>); files that \<open>jack validate\<close> accepts are loaded at start-up (\<open>Plugin_Listing\<close>);
    no answer makes \<open>jack status\<close> panic (\<open>Status_Print_Facts\<close>); the commands of plugins are all reachable, and a PID file turns a second daemon away (\<open>Command_Line_Facts\<close>).
  \<^item> Defects the model exhibits are theorems too: panics of diff, disable and set, plugins that receive null, a rollback that sends
    the new configuration again, netmasks that are lost, firewall restrictions that are ignored, tunnels that every apply recreates, a failed DHCP
    apply that succeeds when repeated, a PID file or plugins that outlive the daemon.
  \<^item> The netlink mock of the tests refines tables of links, addresses and routes, whatever errors are injected (\<open>Mocks\<close>).

  \<^bold>\<open>Bounds and fuel.\<close> The depth-first search over plugin dependencies has fuel for one more than the number of enabled
  plugins: a call marks its plugin before it recurses, so no path is longer. Loading in waves has fuel for as many waves as there are
  enabled plugins: every wave but the last loads one. \<open>plugin_order\<close> and \<open>waves_complete\<close> show that this fuel suffices.
  Durations of the observer are 64-bit and wrap; masks and packet bytes are machine words.

  \<^bold>\<open>Not modelled.\<close> The byte-level syntax of JSON and the gob encoding of RPC, which
  the standard library implements; the start of plugin processes, the flags of commands and the entry points. Concurrency is modelled where the code
  serialises it: methods that hold a mutex are single steps, and requests, events and reconciliations interleave; the goroutines of
  the monitoring plugin, of the firewall log and of the plugin set-up are steps of their own.
\<close>

end
